(* ===== verification/Prelude.thy ===== *)
theory Prelude
  imports Complex_Main "HOL-Library.Word" "HOL-Library.List_Lexorder" "HOL-Library.Char_ord"
    "HOL-Library.Multiset" "HOL-Library.AList"
begin

text \<open>
  What the components share: Rust's machine integers and their checked, saturating and wrapping
  operations, strings as UTF-8 byte lists with the \<open>str\<close> methods the code calls, \<open>Ordering\<close> with
  \<open>then_with\<close>, the stable \<open>sort_by\<close> and \<open>min_by\<close> of the standard library over a comparator
  (locale \<open>comparator\<close>: the laws \<open>Ord\<close> asks for), the three ways a Rust call ends (a value, an
  error, a panic), and \<open>HashMap\<close> as an association list in iteration order.
\<close>

named_theorems outcome_simps "evaluation and inversion of outcomes"
named_theorems rust_simps "evaluation of the Rust standard library functions"

section \<open>Machine integers\<close>

type_synonym u8 = "8 word"
type_synonym u16 = "16 word"
type_synonym u32 = "32 word"
type_synonym u64 = "64 word"
type_synonym uuid = "128 word"

definition saturating_sub :: "'l::len word \<Rightarrow> 'l word \<Rightarrow> 'l word" where
  "saturating_sub a b = (if a < b then 0 else a - b)"

definition saturating_mul :: "'l::len word \<Rightarrow> 'l word \<Rightarrow> 'l word" where
  "saturating_mul a b = (if unat a * unat b < 2 ^ LENGTH('l) then a * b else - 1)"

definition checked_add :: "'l::len word \<Rightarrow> 'l word \<Rightarrow> 'l word option" where
  "checked_add a b = (if unat a + unat b < 2 ^ LENGTH('l) then Some (a + b) else None)"

definition div_ceil :: "'l::len word \<Rightarrow> 'l word \<Rightarrow> 'l word" where
  "div_ceil a b = (if a mod b = 0 then a div b else a div b + 1)"

definition abs_diff :: "'l::len word \<Rightarrow> 'l word \<Rightarrow> 'l word" where
  "abs_diff a b = (if a < b then b - a else a - b)"

lemma unat_saturating_sub: "unat (saturating_sub a b) = unat a - unat b"
  by (auto simp: saturating_sub_def word_less_nat_alt unat_sub_if')

lemma unat_saturating_mul:
  "unat (saturating_mul (a :: 'l::len word) b) = min (unat a * unat b) (2 ^ LENGTH('l) - 1)"
proof (cases "unat a * unat b < 2 ^ LENGTH('l)")
  case True
  then show ?thesis by (simp add: saturating_mul_def unat_mult_lem [THEN iffD1])
next
  case False
  then show ?thesis by (simp add: saturating_mul_def unsigned_minus_1_eq_mask mask_eq_exp_minus_1)
qed

lemma checked_add_Some:
  "checked_add a b = Some c \<Longrightarrow> unat c = unat a + unat b"
  by (auto simp: checked_add_def unat_word_ariths split: if_splits)

lemma checked_add_None:
  "checked_add (a :: 'l::len word) b = None \<longleftrightarrow> 2 ^ LENGTH('l) \<le> unat a + unat b"
  by (auto simp: checked_add_def)

section \<open>How a call ends\<close>

text \<open>
  A Rust function returning \<open>Result\<close> ends with a value or an error; arithmetic that overflows a
  \<open>Decimal\<close> ends in a panic, which unwinds through every caller. \<open>obind\<close> is the \<open>?\<close> operator.
\<close>

datatype ('e, 'a) outcome = Ok 'a | Err 'e | Panic

fun obind :: "('e, 'a) outcome \<Rightarrow> ('a \<Rightarrow> ('e, 'b) outcome) \<Rightarrow> ('e, 'b) outcome" where
  "obind (Ok x) f = f x"
| "obind (Err e) f = Err e"
| "obind Panic f = Panic"

definition or_panic :: "'a option \<Rightarrow> ('e, 'a) outcome" where
  "or_panic r = (case r of None \<Rightarrow> Panic | Some x \<Rightarrow> Ok x)"

definition ok_or :: "'a option \<Rightarrow> 'e \<Rightarrow> ('e, 'a) outcome" where
  "ok_or r e = (case r of None \<Rightarrow> Err e | Some x \<Rightarrow> Ok x)"

text \<open>\<open>Result::map_err\<close>, also the conversion of errors by \<open>From\<close> that \<open>?\<close> applies.\<close>

fun map_err :: "('e \<Rightarrow> 'f) \<Rightarrow> ('e, 'a) outcome \<Rightarrow> ('f, 'a) outcome" where
  "map_err f (Ok x) = Ok x"
| "map_err f (Err e) = Err (f e)"
| "map_err f Panic = Panic"

fun try_fold :: "('b \<Rightarrow> 'a \<Rightarrow> ('e, 'b) outcome) \<Rightarrow> 'b \<Rightarrow> 'a list \<Rightarrow> ('e, 'b) outcome" where
  "try_fold f acc [] = Ok acc"
| "try_fold f acc (x # xs) = obind (f acc x) (\<lambda>acc'. try_fold f acc' xs)"

fun try_map :: "('a \<Rightarrow> ('e, 'b) outcome) \<Rightarrow> 'a list \<Rightarrow> ('e, 'b list) outcome" where
  "try_map f [] = Ok []"
| "try_map f (x # xs) = obind (f x) (\<lambda>y. obind (try_map f xs) (\<lambda>ys. Ok (y # ys)))"

lemma obind_Ok_iff [outcome_simps]: "obind m f = Ok y \<longleftrightarrow> (\<exists>x. m = Ok x \<and> f x = Ok y)"
  by (cases m) auto

lemma obind_Err_iff: "obind m f = Err e \<longleftrightarrow> m = Err e \<or> (\<exists>x. m = Ok x \<and> f x = Err e)"
  by (cases m) auto

lemma obind_Panic_iff: "obind m f = Panic \<longleftrightarrow> m = Panic \<or> (\<exists>x. m = Ok x \<and> f x = Panic)"
  by (cases m) auto

lemma obind_assoc: "obind (obind m f) g = obind m (\<lambda>x. obind (f x) g)"
  by (cases m) auto

lemma or_panic_iff [simp]:
  "or_panic r = Ok x \<longleftrightarrow> r = Some x" "or_panic r = Panic \<longleftrightarrow> r = None" "or_panic r \<noteq> Err e"
  by (cases r; auto simp: or_panic_def)+

lemma ok_or_iff [simp]:
  "ok_or r e = Ok x \<longleftrightarrow> r = Some x" "ok_or r e = Err e' \<longleftrightarrow> r = None \<and> e' = e"
  "ok_or r e \<noteq> Panic"
  by (cases r; auto simp: ok_or_def)+

lemma or_panic_Some [simp]: "or_panic (Some x) = Ok x" "or_panic None = Panic"
  by (simp_all add: or_panic_def)

lemma ok_or_Some [simp]: "ok_or (Some x) e = Ok x" "ok_or None e = Err e"
  by (simp_all add: ok_or_def)

lemma map_err_iff [outcome_simps]:
  "map_err f m = Ok x \<longleftrightarrow> m = Ok x"
  "map_err f m = Err e \<longleftrightarrow> (\<exists>e'. m = Err e' \<and> e = f e')"
  "map_err f m = Panic \<longleftrightarrow> m = Panic"
  by (cases m; auto)+

lemma try_fold_invariant:
  assumes "try_fold f acc xs = Ok r" "P acc"
    and "\<And>a x a'. x \<in> set xs \<Longrightarrow> P a \<Longrightarrow> f a x = Ok a' \<Longrightarrow> P a'"
  shows "P r"
  using assms by (induction xs arbitrary: acc) (auto simp: obind_Ok_iff)

lemma try_map_Ok_iff: "try_map f xs = Ok ys \<longleftrightarrow> list_all2 (\<lambda>x y. f x = Ok y) xs ys"
  by (induction xs arbitrary: ys) (auto simp: obind_Ok_iff list_all2_Cons1)

section \<open>Ordering, stable sorting and minima\<close>

datatype ordering = Less | Equal | Greater

definition cmp :: "'a::linorder \<Rightarrow> 'a \<Rightarrow> ordering" where
  "cmp a b = (if a < b then Less else if a = b then Equal else Greater)"

fun then_with :: "ordering \<Rightarrow> ordering \<Rightarrow> ordering" where
  "then_with Equal o2 = o2"
| "then_with o1 o2 = o1"

lemma cmp_eq_iff [simp]:
  "cmp a b = Less \<longleftrightarrow> a < b"
  "cmp a b = Equal \<longleftrightarrow> a = b"
  "cmp a b = Greater \<longleftrightarrow> b < a"
  by (auto simp: cmp_def)

lemma then_with_iff:
  "then_with p q = Less \<longleftrightarrow> p = Less \<or> p = Equal \<and> q = Less"
  "then_with p q = Equal \<longleftrightarrow> p = Equal \<and> q = Equal"
  "then_with p q = Greater \<longleftrightarrow> p = Greater \<or> p = Equal \<and> q = Greater"
  by (cases p; simp)+

fun insort_by :: "('a \<Rightarrow> 'a \<Rightarrow> ordering) \<Rightarrow> 'a \<Rightarrow> 'a list \<Rightarrow> 'a list" where
  "insort_by c x [] = [x]"
| "insort_by c x (y # ys) = (if c x y = Greater then y # insort_by c x ys else x # y # ys)"

fun sort_by :: "('a \<Rightarrow> 'a \<Rightarrow> ordering) \<Rightarrow> 'a list \<Rightarrow> 'a list" where
  "sort_by c [] = []"
| "sort_by c (x # xs) = insort_by c x (sort_by c xs)"

fun min_by :: "('a \<Rightarrow> 'a \<Rightarrow> ordering) \<Rightarrow> 'a list \<Rightarrow> 'a option" where
  "min_by c [] = None"
| "min_by c (x # xs) = Some (fold (\<lambda>y best. if c best y = Greater then y else best) xs x)"

definition min_opt :: "'a::linorder list \<Rightarrow> 'a option" where
  "min_opt xs = (case xs of [] \<Rightarrow> None | y # ys \<Rightarrow> Some (fold min ys y))"

definition max_opt :: "'a::linorder list \<Rightarrow> 'a option" where
  "max_opt xs = (case xs of [] \<Rightarrow> None | y # ys \<Rightarrow> Some (fold max ys y))"

lemma mset_insort_by [simp]: "mset (insort_by c x xs) = add_mset x (mset xs)"
  by (induction xs) auto

lemma mset_sort_by [simp]: "mset (sort_by c xs) = mset xs"
  by (induction xs) auto

lemma set_sort_by [simp]: "set (sort_by c xs) = set xs"
  by (metis mset_sort_by set_mset_mset)

lemma length_sort_by [simp]: "length (sort_by c xs) = length xs"
  by (metis mset_sort_by size_mset)

lemma sort_by_Nil_iff [simp]: "sort_by c xs = [] \<longleftrightarrow> xs = []"
  by (metis length_0_conv length_sort_by)

lemma fold_pick_in:
  "fold (\<lambda>y best. if P best y then y else best) xs x \<in> insert x (set xs)"
  by (induction xs arbitrary: x) fastforce+

lemma min_by_None [simp]: "min_by c xs = None \<longleftrightarrow> xs = []"
  by (cases xs) auto

lemma min_by_in: "min_by c xs = Some m \<Longrightarrow> m \<in> set xs"
proof (cases xs)
  case (Cons x ys)
  assume "min_by c xs = Some m"
  then show ?thesis using fold_pick_in [of "\<lambda>best y. c best y = Greater" ys x] Cons by auto
qed simp

lemma fold_min_le: "fold min ys y \<in> insert y (set ys) \<and> (\<forall>x\<in>insert y (set ys). fold min ys y \<le> x)"
  for y :: "'a::linorder"
proof (induction ys arbitrary: y)
  case (Cons a ys)
  have m: "min a y \<in> insert y (set (a # ys))" by (simp add: min_def)
  from Cons [of "min a y"] have "fold min (a # ys) y \<le> min a y" by simp
  moreover from Cons [of "min a y"] m
  have "fold min (a # ys) y \<in> insert y (set (a # ys))" by auto
  ultimately show ?case using Cons [of "min a y"] by auto
qed simp

lemma fold_max_ge: "fold max ys y \<in> insert y (set ys) \<and> (\<forall>x\<in>insert y (set ys). x \<le> fold max ys y)"
  for y :: "'a::linorder"
proof (induction ys arbitrary: y)
  case (Cons a ys)
  have m: "max a y \<in> insert y (set (a # ys))" by (simp add: max_def)
  from Cons [of "max a y"] have "max a y \<le> fold max (a # ys) y" by simp
  moreover from Cons [of "max a y"] m
  have "fold max (a # ys) y \<in> insert y (set (a # ys))" by auto
  ultimately show ?case using Cons [of "max a y"] by auto
qed simp

lemma min_opt_None [simp]: "min_opt xs = None \<longleftrightarrow> xs = []"
  by (auto simp: min_opt_def split: list.splits)

lemma max_opt_None [simp]: "max_opt xs = None \<longleftrightarrow> xs = []"
  by (auto simp: max_opt_def split: list.splits)

lemma min_opt_Some: "min_opt xs = Some m \<Longrightarrow> m \<in> set xs \<and> (\<forall>x\<in>set xs. m \<le> x)"
  using fold_min_le by (auto simp: min_opt_def split: list.splits)

lemma max_opt_Some: "max_opt xs = Some m \<Longrightarrow> m \<in> set xs \<and> (\<forall>x\<in>set xs. x \<le> m)"
  using fold_max_ge by (auto simp: max_opt_def split: list.splits)

text \<open>Sorting with a comparison that may itself end in an error or a panic.\<close>

fun try_insort_by ::
  "('a \<Rightarrow> 'a \<Rightarrow> ('e, ordering) outcome) \<Rightarrow> 'a \<Rightarrow> 'a list \<Rightarrow> ('e, 'a list) outcome" where
  "try_insort_by c x [] = Ok [x]"
| "try_insort_by c x (y # ys) =
     obind (c x y) (\<lambda>r. if r = Greater then obind (try_insort_by c x ys) (\<lambda>zs. Ok (y # zs))
                       else Ok (x # y # ys))"

fun try_sort_by ::
  "('a \<Rightarrow> 'a \<Rightarrow> ('e, ordering) outcome) \<Rightarrow> 'a list \<Rightarrow> ('e, 'a list) outcome" where
  "try_sort_by c [] = Ok []"
| "try_sort_by c (x # xs) = obind (try_sort_by c xs) (\<lambda>ys. try_insort_by c x ys)"

fun try_min_from ::
  "('a \<Rightarrow> 'a \<Rightarrow> ('e, ordering) outcome) \<Rightarrow> 'a \<Rightarrow> 'a list \<Rightarrow> ('e, 'a) outcome" where
  "try_min_from c best [] = Ok best"
| "try_min_from c best (y # ys) =
     obind (c best y) (\<lambda>r. try_min_from c (if r = Greater then y else best) ys)"

fun try_min_by ::
  "('a \<Rightarrow> 'a \<Rightarrow> ('e, ordering) outcome) \<Rightarrow> 'a list \<Rightarrow> ('e, 'a option) outcome" where
  "try_min_by c [] = Ok None"
| "try_min_by c (x # xs) = obind (try_min_from c x xs) (\<lambda>m. Ok (Some m))"

lemma try_insort_by_mset: "try_insort_by c x ys = Ok zs \<Longrightarrow> mset zs = add_mset x (mset ys)"
  by (induction ys arbitrary: zs) (auto simp: obind_Ok_iff split: if_splits)

lemma try_sort_by_mset: "try_sort_by c xs = Ok ys \<Longrightarrow> mset ys = mset xs"
  by (induction xs arbitrary: ys) (auto simp: obind_Ok_iff dest: try_insort_by_mset)

lemma try_sort_by_set: "try_sort_by c xs = Ok ys \<Longrightarrow> set ys = set xs"
  by (metis try_sort_by_mset set_mset_mset)

lemma try_sort_by_no_Err: "(\<And>x y e. c x y \<noteq> Err e) \<Longrightarrow> try_sort_by c xs \<noteq> Err e"
proof (induction xs)
  case (Cons x xs)
  have "try_insort_by c x ys \<noteq> Err e" for ys
    using Cons.prems by (induction ys) (auto simp: obind_Err_iff split: if_splits)
  then show ?case using Cons by (auto simp: obind_Err_iff)
qed simp

lemma try_sort_by_total:
  assumes "\<And>x y. x \<in> set xs \<Longrightarrow> y \<in> set xs \<Longrightarrow> \<exists>r. c x y = Ok r"
  shows "\<exists>ys. try_sort_by c xs = Ok ys"
proof -
  have ins: "\<exists>zs. try_insort_by c x ys = Ok zs" if "\<And>y. y \<in> set ys \<Longrightarrow> \<exists>r. c x y = Ok r" for x ys
    using that
  proof (induction ys)
    case (Cons y ys)
    obtain r where "c x y = Ok r" using Cons.prems [of y] by auto
    moreover obtain zs where "try_insort_by c x ys = Ok zs" using Cons by auto
    ultimately show ?case by simp
  qed simp
  show ?thesis using assms
  proof (induction xs)
    case (Cons x xs)
    then obtain ys where ys: "try_sort_by c xs = Ok ys" by auto
    then have "\<exists>zs. try_insort_by c x ys = Ok zs"
      using Cons.prems try_sort_by_set [OF ys] by (intro ins) auto
    then show ?case using ys by simp
  qed simp
qed

lemma try_sort_by_stuck:
  assumes "\<And>x y. x \<in> set xs \<Longrightarrow> y \<in> set xs \<Longrightarrow> c x y = Panic" "2 \<le> length xs"
  shows "try_sort_by c xs = Panic"
  using assms
proof (induction xs)
  case (Cons x xs)
  show ?case
  proof (cases xs rule: list.exhaust)
    case (Cons y ys)
    note xs = this
    show ?thesis
    proof (cases ys)
      case Nil
      then show ?thesis using xs Cons.prems(1) [of x y] by simp
    next
      case (Cons z zs)
      then have "try_sort_by c xs = Panic" using Cons.IH Cons.prems(1) xs by simp
      then show ?thesis by simp
    qed
  qed (use Cons.prems(2) in simp)
qed simp

text \<open>The contract \<open>sort_by\<close> and \<open>min_by\<close> ask of a comparison closure: a total preorder.\<close>

locale comparator =
  fixes c :: "'a \<Rightarrow> 'a \<Rightarrow> ordering"
  assumes c_refl: "c x x = Equal"
    and c_flip: "c x y = Less \<longleftrightarrow> c y x = Greater"
    and c_trans: "c x y \<noteq> Greater \<Longrightarrow> c y z \<noteq> Greater \<Longrightarrow> c x z \<noteq> Greater"
begin

lemma not_greater_flip: "c x y = Greater \<Longrightarrow> c y x \<noteq> Greater"
  using c_flip by (metis ordering.distinct(3))

lemma sorted_insort_by:
  "sorted_wrt (\<lambda>x y. c x y \<noteq> Greater) xs \<Longrightarrow> sorted_wrt (\<lambda>x y. c x y \<noteq> Greater) (insort_by c x xs)"
proof (induction xs)
  case (Cons y ys)
  have s: "set (insort_by c x ys) = insert x (set ys)"
    by (metis mset_insort_by set_mset_add_mset_insert set_mset_mset)
  show ?case
  proof (cases "c x y = Greater")
    case True
    with Cons s show ?thesis using not_greater_flip by auto
  next
    case False
    with Cons show ?thesis using c_trans by auto
  qed
qed simp

lemma sorted_sort_by: "sorted_wrt (\<lambda>x y. c x y \<noteq> Greater) (sort_by c xs)"
  by (induction xs) (auto intro: sorted_insort_by)

lemma sort_by_first:
  assumes "sort_by c xs = m # rest"
  shows "m \<in> set xs \<and> (\<forall>x\<in>set xs. c m x \<noteq> Greater)"
proof -
  have s: "set xs = insert m (set rest)" using assms set_sort_by [of c xs] by simp
  have "\<forall>x\<in>set rest. c m x \<noteq> Greater" using sorted_sort_by [of xs] assms by simp
  then show ?thesis using s c_refl by auto
qed

lemma min_by_least:
  assumes "min_by c xs = Some m" "x \<in> set xs"
  shows "c m x \<noteq> Greater"
proof -
  have *: "\<forall>x\<in>insert z (set ys). c (fold (\<lambda>y best. if c best y = Greater then y else best) ys z) x
             \<noteq> Greater" for z ys
  proof (induction ys arbitrary: z)
    case (Cons a ys)
    let ?b = "if c z a = Greater then a else z"
    let ?m = "fold (\<lambda>y best. if c best y = Greater then y else best) ys ?b"
    have IH: "\<forall>x\<in>insert ?b (set ys). c ?m x \<noteq> Greater" by (rule Cons)
    have ba: "c ?b z \<noteq> Greater" "c ?b a \<noteq> Greater"
      using not_greater_flip c_refl by auto
    have "c ?m ?b \<noteq> Greater" using IH by blast
    then have "c ?m z \<noteq> Greater" "c ?m a \<noteq> Greater" using ba c_trans by blast+
    then show ?case using IH by simp
  qed (simp add: c_refl)
  then show ?thesis using assms by (cases xs) auto
qed

text \<open>A comparator that ties no two distinct members sorts every arrangement to one list.\<close>

lemma sort_by_unique:
  assumes "mset xs = mset ys"
    and "\<And>x y. x \<in> set xs \<Longrightarrow> y \<in> set xs \<Longrightarrow> c x y = Equal \<Longrightarrow> x = y"
  shows "sort_by c xs = sort_by c ys"
proof -
  have *: "us = vs" if "mset us = mset vs" "sorted_wrt (\<lambda>x y. c x y \<noteq> Greater) us"
    "sorted_wrt (\<lambda>x y. c x y \<noteq> Greater) vs"
    "\<And>x y. x \<in> set us \<Longrightarrow> y \<in> set us \<Longrightarrow> c x y = Equal \<Longrightarrow> x = y" for us vs
    using that
  proof (induction us arbitrary: vs)
    case (Cons u us)
    then obtain v vs' where vs: "vs = v # vs'" by (cases vs) auto
    have "set (u # us) = set (v # vs')"
      using Cons.prems(1) vs mset_eq_setD by blast
    then have in_v: "v \<in> set (u # us)" and in_u: "u \<in> set (v # vs')"
      by (metis list.set_intros(1))+
    have "c u v \<noteq> Greater" "c v u \<noteq> Greater"
      using Cons.prems(2,3) in_v in_u vs c_refl by auto
    then have "c u v = Equal" using c_flip by (metis ordering.exhaust)
    then have "u = v" using Cons.prems(4) in_v by auto
    moreover have "us = vs'"
    proof (rule Cons.IH)
      show "mset us = mset vs'" using Cons.prems(1) \<open>u = v\<close> vs by simp
      show "sorted_wrt (\<lambda>x y. c x y \<noteq> Greater) us" using Cons.prems(2) by simp
      show "sorted_wrt (\<lambda>x y. c x y \<noteq> Greater) vs'" using Cons.prems(3) vs by simp
      show "\<And>x y. x \<in> set us \<Longrightarrow> y \<in> set us \<Longrightarrow> c x y = Equal \<Longrightarrow> x = y"
        using Cons.prems(4) by simp
    qed
    ultimately show ?case using vs by simp
  qed simp
  show ?thesis using assms by (intro *) (auto intro: sorted_sort_by)
qed

text \<open>
  The same for a comparison that computes keys which may fail: a sort that ends in a value has
  ordered its result by the keys.
\<close>

lemma try_sort_by_sorted:
  assumes key: "\<And>x y r. cm x y = Ok r \<longleftrightarrow> (\<exists>k l. key x = Some k \<and> key y = Some l \<and> r = c k l)"
    and "try_sort_by cm xs = Ok ys"
  shows "sorted_wrt (\<lambda>x y. \<exists>k l. key x = Some k \<and> key y = Some l \<and> c k l \<noteq> Greater) ys"
proof -
  let ?le = "\<lambda>x y. \<exists>k l. key x = Some k \<and> key y = Some l \<and> c k l \<noteq> Greater"
  have ins: "sorted_wrt ?le zs'" if "try_insort_by cm x zs = Ok zs'" "sorted_wrt ?le zs" for x zs zs'
    using that
  proof (induction zs arbitrary: zs')
    case (Cons z zs)
    then obtain r where r: "cm x z = Ok r" by (auto simp: obind_Ok_iff)
    then obtain k l where kl: "key x = Some k" "key z = Some l" "r = c k l" using key by blast
    show ?case
    proof (cases "r = Greater")
      case True
      then obtain us where us: "try_insort_by cm x zs = Ok us" "zs' = z # us"
        using Cons.prems(1) r by (auto simp: obind_Ok_iff)
      have "set us = insert x (set zs)" using try_insort_by_mset [OF us(1)] by (metis set_mset_add_mset_insert set_mset_mset)
      moreover have "?le z x" using kl True not_greater_flip by blast
      moreover have "sorted_wrt ?le us" using Cons.IH [OF us(1)] Cons.prems(2) by simp
      ultimately show ?thesis using Cons.prems(2) us(2) by auto
    next
      case False
      then have zs': "zs' = x # z # zs" using Cons.prems(1) r by (auto simp: obind_Ok_iff)
      have "?le x z" using kl False by blast
      moreover have "?le x y" if "y \<in> set zs" for y
      proof -
        obtain m where "key y = Some m" "c l m \<noteq> Greater" using Cons.prems(2) \<open>y \<in> set zs\<close> kl by auto
        then show ?thesis using kl False c_trans by blast
      qed
      ultimately show ?thesis using Cons.prems(2) zs' by auto
    qed
  qed simp
  show ?thesis using assms(2)
  proof (induction xs arbitrary: ys)
    case (Cons x xs)
    then obtain zs where "try_sort_by cm xs = Ok zs" "try_insort_by cm x zs = Ok ys"
      by (auto simp: obind_Ok_iff)
    then show ?case using Cons.IH ins by blast
  qed simp
qed

end

context comparator
begin

lemma try_min_by_least:
  assumes key: "\<And>x y r. cm x y = Ok r \<Longrightarrow> r = c (key x) (key y)"
    and "try_min_by cm xs = Ok (Some b)"
  shows "b \<in> set xs \<and> (\<forall>x\<in>set xs. c (key b) (key x) \<noteq> Greater)"
proof -
  have *: "b \<in> insert z (set ys) \<and> (\<forall>x\<in>insert z (set ys). c (key b) (key x) \<noteq> Greater)"
    if "try_min_from cm z ys = Ok b" for z ys
    using that
  proof (induction ys arbitrary: z)
    case (Cons a ys)
    then obtain r where r: "cm z a = Ok r"
      and tail: "try_min_from cm (if r = Greater then a else z) ys = Ok b"
      by (auto simp: obind_Ok_iff)
    let ?b = "if r = Greater then a else z"
    have IH: "b \<in> insert ?b (set ys)" "\<forall>x\<in>insert ?b (set ys). c (key b) (key x) \<noteq> Greater"
      using Cons.IH [OF tail] by blast+
    have "c (key ?b) (key z) \<noteq> Greater" "c (key ?b) (key a) \<noteq> Greater"
      using key [OF r] not_greater_flip c_refl by auto
    then have "c (key b) (key z) \<noteq> Greater" "c (key b) (key a) \<noteq> Greater"
      using IH(2) c_trans by blast+
    then show ?case using IH by auto
  qed (simp add: c_refl)
  show ?thesis using assms(2) * by (cases xs) (auto simp: obind_Ok_iff)
qed

end

lemma try_min_by_None: "try_min_by cm xs = Ok None \<longleftrightarrow> xs = []"
  by (cases xs) (auto simp: obind_Ok_iff)

context comparator
begin

lemma equal_flip: "c x y = Equal \<Longrightarrow> c y x = Equal"
  using c_flip by (metis ordering.exhaust ordering.distinct(1,5))

lemma less_trans1: "c x y = Less \<Longrightarrow> c y z \<noteq> Greater \<Longrightarrow> c x z = Less"
  using c_flip c_trans by (metis ordering.exhaust equal_flip ordering.distinct(3,5))

lemma less_trans2: "c x y \<noteq> Greater \<Longrightarrow> c y z = Less \<Longrightarrow> c x z = Less"
  using c_flip c_trans by (metis ordering.exhaust equal_flip ordering.distinct(3,5))

lemma equal_trans: "c x y = Equal \<Longrightarrow> c y z = Equal \<Longrightarrow> c x z = Equal"
  using c_flip c_trans equal_flip by (metis ordering.exhaust ordering.distinct(3,5))

end

lemma comparator_cmp: "comparator (\<lambda>x y. cmp (f x) (f y))"
  by unfold_locales (auto simp: not_less)

lemma comparator_cmp_reverse: "comparator (\<lambda>x y. cmp (f y) (f x))"
  by unfold_locales (auto simp: not_less)

lemma comparator_map: "comparator c \<Longrightarrow> comparator (\<lambda>x y. c (f x) (f y))"
  unfolding comparator_def by blast

lemma comparator_then_with:
  assumes "comparator c" "comparator d"
  shows "comparator (\<lambda>x y. then_with (c x y) (d x y))"
proof
  note c = comparator.c_refl [OF assms(1)] comparator.c_flip [OF assms(1)] comparator.c_trans [OF assms(1)]
    comparator.equal_flip [OF assms(1)] comparator.less_trans1 [OF assms(1)]
    comparator.less_trans2 [OF assms(1)] comparator.equal_trans [OF assms(1)]
  note d = comparator.c_refl [OF assms(2)] comparator.c_flip [OF assms(2)] comparator.c_trans [OF assms(2)]
  fix x y z
  show "then_with (c x x) (d x x) = Equal" by (simp add: then_with_iff c d)
  show "then_with (c x y) (d x y) = Less \<longleftrightarrow> then_with (c y x) (d y x) = Greater"
    unfolding then_with_iff using c(2,4) d(2) by blast
  assume "then_with (c x y) (d x y) \<noteq> Greater" "then_with (c y z) (d y z) \<noteq> Greater"
  then have "c x y \<noteq> Greater" "c y z \<noteq> Greater" and
    d': "c x y = Equal \<Longrightarrow> d x y \<noteq> Greater" "c y z = Equal \<Longrightarrow> d y z \<noteq> Greater"
    by (auto simp: then_with_iff)
  then show "then_with (c x z) (d x z) \<noteq> Greater"
    using c(3,5,6,7) d(3) unfolding then_with_iff by (metis ordering.exhaust ordering.distinct(3,5))
qed

lemmas comparator_intros =
  comparator_then_with comparator_cmp comparator_cmp_reverse

text \<open>\<open>Option\<close> orders \<open>None\<close> before every value.\<close>

definition cmp_option :: "'a::linorder option \<Rightarrow> 'a option \<Rightarrow> ordering" where
  "cmp_option a b =
     (case (a, b) of
        (None, None) \<Rightarrow> Equal
      | (None, Some _) \<Rightarrow> Less
      | (Some _, None) \<Rightarrow> Greater
      | (Some x, Some y) \<Rightarrow> cmp x y)"

lemma cmp_option_iff:
  "cmp_option a b = Less \<longleftrightarrow> (case (a, b) of (None, Some _) \<Rightarrow> True | (Some x, Some y) \<Rightarrow> x < y | _ \<Rightarrow> False)"
  "cmp_option a b = Equal \<longleftrightarrow> a = b"
  "cmp_option a b = Greater \<longleftrightarrow> (case (b, a) of (None, Some _) \<Rightarrow> True | (Some x, Some y) \<Rightarrow> x < y | _ \<Rightarrow> False)"
  by (auto simp: cmp_option_def split: option.splits)

interpretation option_order: comparator cmp_option
proof
  fix x y z :: "'a::linorder option"
  show "cmp_option x x = Equal" by (simp add: cmp_option_iff)
  show "cmp_option x y = Less \<longleftrightarrow> cmp_option y x = Greater" by (simp add: cmp_option_iff)
  assume "cmp_option x y \<noteq> Greater" "cmp_option y z \<noteq> Greater"
  then show "cmp_option x z \<noteq> Greater" by (auto simp: cmp_option_iff split: option.splits)
qed


lemma cmp_flip: "cmp a b = Less \<longleftrightarrow> cmp b a = Greater"
  by simp

section \<open>Strings\<close>

text \<open>
  A Rust \<open>String\<close> is its UTF-8 bytes, one \<open>char\<close> per byte: \<open>len\<close> is \<open>length\<close>, \<open>Ord\<close> is the
  lexicographic order, and \<open>chars().count()\<close> counts the bytes that do not continue a character.
\<close>

definition byte_of :: "char \<Rightarrow> nat" where
  "byte_of c = of_char c"

definition chars_count :: "string \<Rightarrow> nat" where
  "chars_count s = length (filter (\<lambda>c. byte_of c div 64 \<noteq> 2) s)"

definition is_ascii_digit :: "char \<Rightarrow> bool" where
  "is_ascii_digit c \<longleftrightarrow> 48 \<le> byte_of c \<and> byte_of c \<le> 57"

definition is_ascii_upper :: "char \<Rightarrow> bool" where
  "is_ascii_upper c \<longleftrightarrow> 65 \<le> byte_of c \<and> byte_of c \<le> 90"

definition is_ascii_lower :: "char \<Rightarrow> bool" where
  "is_ascii_lower c \<longleftrightarrow> 97 \<le> byte_of c \<and> byte_of c \<le> 122"

definition is_ascii_alphabetic :: "char \<Rightarrow> bool" where
  "is_ascii_alphabetic c \<longleftrightarrow> is_ascii_upper c \<or> is_ascii_lower c"

definition is_ascii_alphanumeric :: "char \<Rightarrow> bool" where
  "is_ascii_alphanumeric c \<longleftrightarrow> is_ascii_alphabetic c \<or> is_ascii_digit c"

definition to_ascii_lowercase :: "string \<Rightarrow> string" where
  "to_ascii_lowercase s = map (\<lambda>c. if is_ascii_upper c then char_of (byte_of c + 32) else c) s"

definition eq_ignore_ascii_case :: "string \<Rightarrow> string \<Rightarrow> bool" where
  "eq_ignore_ascii_case s t \<longleftrightarrow> to_ascii_lowercase s = to_ascii_lowercase t"

definition strip_prefix :: "string \<Rightarrow> string \<Rightarrow> string option" where
  "strip_prefix p s = (if take (length p) s = p then Some (drop (length p) s) else None)"

definition starts_with :: "string \<Rightarrow> string \<Rightarrow> bool" where
  "starts_with p s \<longleftrightarrow> take (length p) s = p"

text \<open>The bytes a leading \<open>White_Space\<close> character takes, 0 where there is none.\<close>

fun white_space_len :: "nat list \<Rightarrow> nat" where
  "white_space_len (b # bs) =
     (if b = 32 \<or> 9 \<le> b \<and> b \<le> 13 then 1
      else if b = 194 \<and> bs \<noteq> [] \<and> (hd bs = 133 \<or> hd bs = 160) then 2
      else if 2 \<le> length bs \<and>
        (b = 225 \<and> hd bs = 154 \<and> bs ! 1 = 128
         \<or> b = 226 \<and> hd bs = 128 \<and> (128 \<le> bs ! 1 \<and> bs ! 1 \<le> 138 \<or> bs ! 1 \<in> {168, 169, 175})
         \<or> b = 226 \<and> hd bs = 129 \<and> bs ! 1 = 159
         \<or> b = 227 \<and> hd bs = 128 \<and> bs ! 1 = 128) then 3
      else 0)"
| "white_space_len [] = 0"

function trim_start_bytes :: "nat list \<Rightarrow> nat list" where
  "trim_start_bytes bs =
     (if white_space_len bs = 0 then bs else trim_start_bytes (drop (white_space_len bs) bs))"
  by pat_completeness auto
termination
proof (relation "measure length")
  fix bs :: "nat list"
  assume "white_space_len bs \<noteq> 0"
  then show "(drop (white_space_len bs) bs, bs) \<in> measure length"
    by (cases bs) auto
qed simp

declare trim_start_bytes.simps [simp del]

text \<open>\<open>s.trim().is_empty()\<close>: nothing is left once the leading white space is gone.\<close>

definition trim_is_empty :: "string \<Rightarrow> bool" where
  "trim_is_empty s \<longleftrightarrow> trim_start_bytes (map byte_of s) = []"

text \<open>Decimal digits of a number, as \<open>format!\<close> prints an integer.\<close>

fun show_nat :: "nat \<Rightarrow> string" where
  "show_nat n = (if n < 10 then [char_of (48 + n)] else show_nat (n div 10) @ [char_of (48 + n mod 10)])"

declare show_nat.simps [simp del]

definition read_nat :: "string \<Rightarrow> nat" where
  "read_nat s = foldl (\<lambda>n c. 10 * n + (byte_of c - 48)) 0 s"

lemma read_show_nat: "read_nat (show_nat n) = n"
proof (induction n rule: show_nat.induct)
  case (1 n)
  then show ?case by (cases "n < 10") (simp_all add: show_nat.simps [of n] read_nat_def byte_of_def)
qed

lemma show_nat_inject [simp]: "show_nat m = show_nat n \<longleftrightarrow> m = n"
  by (metis read_show_nat)

lemma show_nat_nonempty [simp]: "show_nat n \<noteq> []"
  by (subst show_nat.simps) simp

text \<open>
  A message made by \<open>format!\<close>: its template and the arguments in order. The rendered text is a
  function of the two; no code under verification reads it back.
\<close>

datatype fmt_arg = ArgInt nat | ArgDec rat | ArgStr string

datatype fmt_text = Fmt string "fmt_arg list"

section \<open>Hash maps in iteration order\<close>

text \<open>
  A \<open>HashMap\<close> is an association list with distinct keys; its order is the iteration order, which
  Rust leaves open. \<open>insert\<close> is \<open>AList.update\<close>, \<open>remove\<close> is \<open>AList.delete\<close>, \<open>get\<close> is \<open>map_of\<close>.
\<close>

type_synonym ('k, 'v) hash_map = "('k \<times> 'v) list"

definition well_keyed :: "('k, 'v) hash_map \<Rightarrow> bool" where
  "well_keyed m \<longleftrightarrow> distinct (map fst m)"

definition retain :: "('k \<Rightarrow> 'v \<Rightarrow> bool) \<Rightarrow> ('k, 'v) hash_map \<Rightarrow> ('k, 'v) hash_map" where
  "retain P m = filter (\<lambda>(k, v). P k v) m"

lemma well_keyed_empty [simp, intro]: "well_keyed []"
  by (simp add: well_keyed_def)

lemma well_keyed_update [simp, intro]: "well_keyed m \<Longrightarrow> well_keyed (AList.update k v m)"
  by (simp add: well_keyed_def distinct_update)

lemma well_keyed_delete [simp, intro]: "well_keyed m \<Longrightarrow> well_keyed (AList.delete k m)"
  by (simp add: well_keyed_def distinct_delete)

lemma well_keyed_retain [simp, intro]: "well_keyed m \<Longrightarrow> well_keyed (retain P m)"
  unfolding well_keyed_def retain_def by (induction m) (auto simp: image_iff)

lemma well_keyed_in_map_of:
  "well_keyed m \<Longrightarrow> (k, v) \<in> set m \<longleftrightarrow> map_of m k = Some v"
  by (simp add: well_keyed_def)

lemma map_of_retain:
  assumes "well_keyed m"
  shows "map_of (retain P m) k = (case map_of m k of None \<Rightarrow> None | Some v \<Rightarrow> if P k v then Some v else None)"
proof (cases "map_of (retain P m) k")
  case None
  then have "k \<notin> fst ` set (retain P m)" by (simp add: map_of_eq_None_iff)
  then show ?thesis using None assms
    by (fastforce simp: retain_def image_iff split: option.splits dest: map_of_SomeD)
next
  case (Some v)
  then have "(k, v) \<in> set (retain P m)" by (rule map_of_SomeD)
  then have "(k, v) \<in> set m" "P k v" by (auto simp: retain_def)
  then show ?thesis using Some assms by (simp add: well_keyed_in_map_of)
qed

lemma map_of_update_apply:
  "map_of (AList.update k v m) k' = (if k' = k then Some v else map_of m k')"
  by (simp add: update_conv')

lemma map_of_delete_apply:
  "map_of (AList.delete k m) k' = (if k' = k then None else map_of m k')"
  by (simp add: delete_conv')

section \<open>Sequences of operations\<close>

fun run_ops :: "('s \<Rightarrow> 'u \<Rightarrow> 'r \<times> 's) \<Rightarrow> 's \<Rightarrow> 'u list \<Rightarrow> 'r list \<times> 's" where
  "run_ops f s [] = ([], s)"
| "run_ops f s (u # us) =
     (let (r, s') = f s u; (rs, s'') = run_ops f s' us in (r # rs, s''))"

lemma run_ops_Cons:
  "f s u = (r, s') \<Longrightarrow> run_ops f s (u # us) = (r # fst (run_ops f s' us), snd (run_ops f s' us))"
  by (simp add: run_ops.simps(2) case_prod_beta)

declare run_ops.simps(2) [simp del]

lemma run_ops_length [simp]: "length (fst (run_ops f s us)) = length us"
  by (induction us arbitrary: s) (simp_all add: run_ops.simps(2) case_prod_beta)

lemma run_ops_snd_Cons: "snd (run_ops f s (u # us)) = snd (run_ops f (snd (f s u)) us)"
  by (simp add: run_ops.simps(2) case_prod_beta)

lemma run_ops_nth:
  "j < length us \<Longrightarrow> fst (run_ops f s us) ! j = fst (f (snd (run_ops f s (take j us))) (us ! j))"
proof (induction us arbitrary: s j)
  case (Cons u us)
  then show ?case by (cases j) (simp_all add: run_ops.simps(2) case_prod_beta)
qed simp

lemma run_ops_append: "snd (run_ops f s (us @ vs)) = snd (run_ops f (snd (run_ops f s us)) vs)"
  by (induction us arbitrary: s) (simp_all add: run_ops_snd_Cons)

lemma run_ops_invariant:
  assumes "P s" "\<And>s u. u \<in> set us \<Longrightarrow> P s \<Longrightarrow> P (snd (f s u))"
  shows "P (snd (run_ops f s us))"
  using assms by (induction us arbitrary: s) (simp_all add: run_ops_snd_Cons)

end
