(* ===== verification/Decimal.thy ===== *)
theory Decimal
  imports Prelude
begin

text \<open>
  \<open>rust/src/domain/decimal.rs\<close>. \<open>DecimalValue\<close> wraps \<open>rust_decimal::Decimal\<close>, a crate outside the
  repository. A value is modelled by the number it denotes (\<open>rat\<close>): the crate's \<open>Eq\<close>, \<open>Ord\<close>,
  \<open>max\<close>, \<open>min\<close>, \<open>is_zero\<close>, integer conversions and \<open>Decimal::new\<close> are numeric, and the number of
  trailing zeros a value prints with is not modelled. The arithmetic operators are a parameter
  \<open>dec_arith\<close> of every definition that computes; \<open>None\<close> is the crate's panic (overflow of the 96-bit
  coefficient, division by zero). \<open>dec_laws\<close> states what the crate documents of them: a coefficient
  of 96 bits with at most 28 decimal places, results rounded to such a value, and a panic where the
  result is out of range. \<open>exact_arith\<close> is an instance with unbounded precision and the crate's range.
\<close>

type_synonym decimal_value = rat

record dec_arith =
  dec_repr :: "rat \<Rightarrow> bool"
  dec_add :: "rat \<Rightarrow> rat \<Rightarrow> rat option"
  dec_sub :: "rat \<Rightarrow> rat \<Rightarrow> rat option"
  dec_mul :: "rat \<Rightarrow> rat \<Rightarrow> rat option"
  dec_div :: "rat \<Rightarrow> rat \<Rightarrow> rat option"
  dec_rem :: "rat \<Rightarrow> rat \<Rightarrow> rat option"
  dec_ceil :: "rat \<Rightarrow> rat"

definition is_percent :: "decimal_value \<Rightarrow> bool" where
  "is_percent v \<longleftrightarrow> 0 \<le> v \<and> v \<le> 1"

definition dec_max :: rat where
  "dec_max = 79228162514264337593543950335"

definition dec_new :: "int \<Rightarrow> nat \<Rightarrow> rat" where
  "dec_new m s = of_int m / 10 ^ s"

definition dec_of :: "'l::len word \<Rightarrow> rat" where
  "dec_of w = of_nat (unat w)"

definition d_add :: "dec_arith \<Rightarrow> rat \<Rightarrow> rat \<Rightarrow> ('e, rat) outcome" where
  "d_add A x y = or_panic (dec_add A x y)"

definition d_sub :: "dec_arith \<Rightarrow> rat \<Rightarrow> rat \<Rightarrow> ('e, rat) outcome" where
  "d_sub A x y = or_panic (dec_sub A x y)"

definition d_mul :: "dec_arith \<Rightarrow> rat \<Rightarrow> rat \<Rightarrow> ('e, rat) outcome" where
  "d_mul A x y = or_panic (dec_mul A x y)"

definition d_div :: "dec_arith \<Rightarrow> rat \<Rightarrow> rat \<Rightarrow> ('e, rat) outcome" where
  "d_div A x y = or_panic (dec_div A x y)"

definition d_rem :: "dec_arith \<Rightarrow> rat \<Rightarrow> rat \<Rightarrow> ('e, rat) outcome" where
  "d_rem A x y = or_panic (dec_rem A x y)"

text \<open>\<open>a * b * c\<close> and its kin associate to the left; so does \<open>iter().sum()\<close>, from zero.\<close>

definition d_prod :: "dec_arith \<Rightarrow> rat \<Rightarrow> rat list \<Rightarrow> ('e, rat) outcome" where
  "d_prod A x ys = try_fold (d_mul A) x ys"

definition d_sum :: "dec_arith \<Rightarrow> rat \<Rightarrow> rat list \<Rightarrow> ('e, rat) outcome" where
  "d_sum A x ys = try_fold (d_add A) x ys"

section \<open>What the crate documents\<close>

text \<open>
  The result of an operator stands for the exact result: no value a \<open>Decimal\<close> can hold lies strictly
  between the two, so an exact result that can be held is returned as it is.
\<close>

definition dec_rounds :: "dec_arith \<Rightarrow> rat \<Rightarrow> rat option \<Rightarrow> bool" where
  "dec_rounds A exact r \<longleftrightarrow>
     (case r of
        None \<Rightarrow> dec_max < \<bar>exact\<bar>
      | Some z \<Rightarrow> \<bar>exact\<bar> < dec_max + 1 \<and> dec_repr A z \<and>
          (\<forall>q. dec_repr A q \<longrightarrow> (q \<le> exact \<longrightarrow> q \<le> z) \<and> (exact \<le> q \<longrightarrow> z \<le> q)))"

definition rat_trunc :: "rat \<Rightarrow> int" where
  "rat_trunc x = (if 0 \<le> x then \<lfloor>x\<rfloor> else \<lceil>x\<rceil>)"

definition dec_laws :: "dec_arith \<Rightarrow> bool" where
  "dec_laws A \<longleftrightarrow>
     (\<forall>x y. dec_rounds A (x + y) (dec_add A x y)) \<and>
     (\<forall>x y. dec_rounds A (x - y) (dec_sub A x y)) \<and>
     (\<forall>x y. dec_rounds A (x * y) (dec_mul A x y)) \<and>
     (\<forall>x y. y \<noteq> 0 \<longrightarrow> dec_rounds A (x / y) (dec_div A x y)) \<and>
     (\<forall>x. dec_div A x 0 = None) \<and>
     (\<forall>x y. dec_repr A x \<longrightarrow> dec_repr A y \<longrightarrow> y \<noteq> 0 \<longrightarrow>
        dec_rem A x y = Some (x - y * of_int (rat_trunc (x / y)))) \<and>
     (\<forall>x. dec_rem A x 0 = None) \<and>
     (\<forall>x. dec_repr A x \<longrightarrow> dec_ceil A x = of_int \<lceil>x\<rceil>) \<and>
     (\<forall>m s. \<bar>m\<bar> < 2 ^ 96 \<longrightarrow> s \<le> 28 \<longrightarrow> dec_repr A (dec_new m s)) \<and>
     (\<forall>q. dec_repr A q \<longrightarrow> \<bar>q\<bar> \<le> dec_max)"

definition in_range :: "rat \<Rightarrow> rat option" where
  "in_range x = (if \<bar>x\<bar> \<le> dec_max then Some x else None)"

definition exact_arith :: dec_arith where
  "exact_arith =
     \<lparr>dec_repr = (\<lambda>x. \<bar>x\<bar> \<le> dec_max),
      dec_add = (\<lambda>x y. in_range (x + y)),
      dec_sub = (\<lambda>x y. in_range (x - y)),
      dec_mul = (\<lambda>x y. in_range (x * y)),
      dec_div = (\<lambda>x y. if y = 0 then None else in_range (x / y)),
      dec_rem = (\<lambda>x y. if y = 0 then None else Some (x - y * of_int (rat_trunc (x / y)))),
      dec_ceil = (\<lambda>x. of_int \<lceil>x\<rceil>)\<rparr>"

section \<open>Consequences of the laws\<close>

lemma rounds_repr: "dec_rounds A e (Some z) \<Longrightarrow> dec_repr A z"
  by (simp add: dec_rounds_def)

lemma rounds_le: "dec_rounds A e (Some z) \<Longrightarrow> dec_repr A q \<Longrightarrow> e \<le> q \<Longrightarrow> z \<le> q"
  by (simp add: dec_rounds_def)

lemma rounds_ge: "dec_rounds A e (Some z) \<Longrightarrow> dec_repr A q \<Longrightarrow> q \<le> e \<Longrightarrow> q \<le> z"
  by (simp add: dec_rounds_def)

lemma dec_new_repr: "dec_laws A \<Longrightarrow> \<bar>m\<bar> < 2 ^ 96 \<Longrightarrow> s \<le> 28 \<Longrightarrow> dec_repr A (dec_new m s)"
  by (simp add: dec_laws_def)

lemma repr_bound: "dec_laws A \<Longrightarrow> dec_repr A q \<Longrightarrow> \<bar>q\<bar> \<le> dec_max"
  by (simp add: dec_laws_def)

lemma int_repr: "dec_laws A \<Longrightarrow> \<bar>n\<bar> < 2 ^ 96 \<Longrightarrow> dec_repr A (of_int n)"
  using dec_new_repr [of A n 0] by (simp add: dec_new_def)

lemma zero_one_repr [simp]: "dec_laws A \<Longrightarrow> dec_repr A 0" "dec_laws A \<Longrightarrow> dec_repr A 1"
  using int_repr [of A 0] int_repr [of A 1] by simp_all

lemma numeral_repr: "dec_laws A \<Longrightarrow> (numeral n :: int) < 2 ^ 96 \<Longrightarrow> dec_repr A (numeral n)"
  using int_repr [of A "numeral n"] by simp

lemma rounds_exact:
  assumes "dec_laws A" "dec_rounds A e r" "dec_repr A e"
  shows "r = Some e"
proof (cases r)
  case None
  then show ?thesis using assms repr_bound [of A e] by (simp add: dec_rounds_def)
next
  case (Some z)
  then show ?thesis using assms by (auto simp: dec_rounds_def intro: antisym)
qed

lemma rounds_Some: "dec_rounds A e r \<Longrightarrow> \<bar>e\<bar> \<le> dec_max \<Longrightarrow> \<exists>z. r = Some z"
  by (cases r) (auto simp: dec_rounds_def)

lemma rounds_None: "dec_rounds A e r \<Longrightarrow> dec_max + 1 \<le> \<bar>e\<bar> \<Longrightarrow> r = None"
  by (cases r) (auto simp: dec_rounds_def)

lemma laws_rounds:
  assumes "dec_laws A"
  shows "dec_rounds A (x + y) (dec_add A x y)" "dec_rounds A (x - y) (dec_sub A x y)"
    "dec_rounds A (x * y) (dec_mul A x y)" "y \<noteq> 0 \<Longrightarrow> dec_rounds A (x / y) (dec_div A x y)"
  using assms by (simp_all add: dec_laws_def)

lemma d_ops_Ok [simp]:
  "d_add A x y = Ok z \<longleftrightarrow> dec_add A x y = Some z" "d_sub A x y = Ok z \<longleftrightarrow> dec_sub A x y = Some z"
  "d_mul A x y = Ok z \<longleftrightarrow> dec_mul A x y = Some z" "d_div A x y = Ok z \<longleftrightarrow> dec_div A x y = Some z"
  "d_rem A x y = Ok z \<longleftrightarrow> dec_rem A x y = Some z"
  by (simp_all add: d_add_def d_sub_def d_mul_def d_div_def d_rem_def)

lemma d_ops_no_Err [simp]:
  "d_add A x y \<noteq> Err e" "d_sub A x y \<noteq> Err e" "d_mul A x y \<noteq> Err e" "d_div A x y \<noteq> Err e"
  "d_rem A x y \<noteq> Err e"
  by (simp_all add: d_add_def d_sub_def d_mul_def d_div_def d_rem_def)

fun dec_sum :: "dec_arith \<Rightarrow> rat \<Rightarrow> rat list \<Rightarrow> rat option" where
  "dec_sum A x [] = Some x"
| "dec_sum A x (y # ys) = Option.bind (dec_add A x y) (\<lambda>z. dec_sum A z ys)"

lemma d_sum_eq: "d_sum A x ys = or_panic (dec_sum A x ys)"
proof (induction ys arbitrary: x)
  case (Cons y ys)
  then show ?case by (cases "dec_add A x y") (simp_all add: d_sum_def d_add_def)
qed (simp add: d_sum_def)

lemma div_zero: "dec_laws A \<Longrightarrow> dec_div A x 0 = None"
  by (simp add: dec_laws_def)

lemma ops_repr:
  assumes "dec_laws A"
  shows "dec_add A x y = Some z \<Longrightarrow> dec_repr A z" "dec_sub A x y = Some z \<Longrightarrow> dec_repr A z"
    "dec_mul A x y = Some z \<Longrightarrow> dec_repr A z" "dec_div A x y = Some z \<Longrightarrow> dec_repr A z"
proof -
  note r = laws_rounds(1-3) [OF assms, of x y]
  show "dec_add A x y = Some z \<Longrightarrow> dec_repr A z" using r(1) rounds_repr by metis
  show "dec_sub A x y = Some z \<Longrightarrow> dec_repr A z" using r(2) rounds_repr by metis
  show "dec_mul A x y = Some z \<Longrightarrow> dec_repr A z" using r(3) rounds_repr by metis
  show "dec_div A x y = Some z \<Longrightarrow> dec_repr A z"
    using laws_rounds(4) [OF assms, of y x] rounds_repr div_zero [OF assms, of x]
    by (cases "y = 0") auto
qed

lemma add_nonneg:
  "dec_laws A \<Longrightarrow> dec_add A x y = Some z \<Longrightarrow> 0 \<le> x \<Longrightarrow> 0 \<le> y \<Longrightarrow> 0 \<le> z"
  by (metis add_nonneg_nonneg laws_rounds(1) rounds_ge zero_one_repr(1))

lemma add_upper:
  assumes "dec_laws A" "dec_add A x y = Some z"
  shows "dec_repr A x \<Longrightarrow> 0 \<le> y \<Longrightarrow> x \<le> z" "dec_repr A y \<Longrightarrow> 0 \<le> x \<Longrightarrow> y \<le> z"
  using laws_rounds(1) [OF assms(1), of x y] assms(2) by (auto intro: rounds_ge)

lemma mul_nonneg:
  "dec_laws A \<Longrightarrow> dec_mul A x y = Some z \<Longrightarrow> 0 \<le> x \<Longrightarrow> 0 \<le> y \<Longrightarrow> 0 \<le> z"
  by (metis laws_rounds(3) mult_nonneg_nonneg rounds_ge zero_one_repr(1))

lemma mul_percent_le:
  assumes "dec_laws A" "dec_mul A x y = Some z" "dec_repr A x" "0 \<le> x" "y \<le> 1"
  shows "z \<le> x"
proof -
  have "x * y \<le> x" using assms mult_left_mono [of y 1 x] by simp
  then show ?thesis using laws_rounds(3) [OF assms(1), of x y] assms rounds_le by metis
qed

lemma sub_nonneg: "dec_laws A \<Longrightarrow> dec_sub A x y = Some z \<Longrightarrow> y \<le> x \<Longrightarrow> 0 \<le> z"
  by (metis diff_ge_0_iff_ge laws_rounds(2) rounds_ge zero_one_repr(1))

lemma sub_le:
  assumes "dec_laws A" "dec_sub A x y = Some z" "dec_repr A x" "0 \<le> y"
  shows "z \<le> x"
  using laws_rounds(2) [OF assms(1), of x y] assms by (auto intro: rounds_le)

lemma div_nonneg:
  assumes "dec_laws A" "dec_div A x y = Some z" "0 \<le> x" "0 < y"
  shows "0 \<le> z"
  using laws_rounds(4) [OF assms(1), of y x] assms by (auto intro: rounds_ge)

lemma div_le_one:
  assumes "dec_laws A" "dec_div A x y = Some z" "x \<le> y" "0 < y"
  shows "z \<le> 1"
  using laws_rounds(4) [OF assms(1), of y x] assms by (auto intro: rounds_le)

lemma ops_exact:
  assumes "dec_laws A"
  shows "dec_repr A (x + y) \<Longrightarrow> dec_add A x y = Some (x + y)"
    "dec_repr A (x - y) \<Longrightarrow> dec_sub A x y = Some (x - y)"
    "dec_repr A (x * y) \<Longrightarrow> dec_mul A x y = Some (x * y)"
    "y \<noteq> 0 \<Longrightarrow> dec_repr A (x / y) \<Longrightarrow> dec_div A x y = Some (x / y)"
  using laws_rounds [OF assms] rounds_exact [OF assms] by blast+

lemma mul_overflow: "dec_laws A \<Longrightarrow> dec_max + 1 \<le> \<bar>x * y\<bar> \<Longrightarrow> dec_mul A x y = None"
  by (metis laws_rounds(3) rounds_None)

lemma div_overflow: "dec_laws A \<Longrightarrow> y \<noteq> 0 \<Longrightarrow> dec_max + 1 \<le> \<bar>x / y\<bar> \<Longrightarrow> dec_div A x y = None"
  by (metis laws_rounds(4) rounds_None)

lemma ceil_of: "dec_laws A \<Longrightarrow> dec_repr A x \<Longrightarrow> dec_ceil A x = of_int \<lceil>x\<rceil>"
  by (simp add: dec_laws_def)

lemma rem_of:
  "dec_laws A \<Longrightarrow> dec_repr A x \<Longrightarrow> dec_repr A y \<Longrightarrow> y \<noteq> 0 \<Longrightarrow>
     dec_rem A x y = Some (x - y * of_int (rat_trunc (x / y)))"
  by (simp add: dec_laws_def)

lemma dec_of_nonneg [simp]: "0 \<le> dec_of w"
  unfolding dec_of_def by (rule of_nat_0_le_iff)

lemma dec_of_repr:
  assumes "dec_laws A" "LENGTH('l::len) \<le> 64"
  shows "dec_repr A (dec_of (w :: 'l word))"
proof -
  have "unat w < 2 ^ LENGTH('l)" by (rule unsigned_less)
  also have "(2 :: nat) ^ LENGTH('l) \<le> 2 ^ 64" using assms(2) by (intro power_increasing) simp_all
  finally have "int (unat w) < 2 ^ 64" by (metis of_nat_less_iff of_nat_numeral of_nat_power)
  then show ?thesis using int_repr [OF assms(1), of "int (unat w)"] by (simp add: dec_of_def)
qed

text \<open>
  Every multiple of \<open>10 ^ - s\<close> below \<open>7 * 10 ^ (28 - s)\<close> can be held, so a result of that size is at most one
  such step from the exact one, and two exact results that lie two steps apart keep their order.
\<close>

lemma grid_repr:
  assumes "dec_laws A" "s \<le> 28" "\<bar>of_int m\<bar> \<le> (7 * 10 ^ 28 + 1 :: rat)"
  shows "dec_repr A (of_int m / 10 ^ s)"
proof -
  have "rat_of_int \<bar>m\<bar> \<le> of_int (7 * 10 ^ 28 + 1)" using assms(3) by simp
  then have "\<bar>m\<bar> \<le> 7 * 10 ^ 28 + 1" by (simp only: of_int_le_iff)
  then show ?thesis using dec_new_repr [OF assms(1) _ assms(2), of m] by (simp add: dec_new_def)
qed

lemma grid_between:
  fixes e :: rat
  assumes "\<bar>e\<bar> \<le> 7 * 10 ^ (28 - s)" "s \<le> 28"
  obtains m where "of_int m / 10 ^ s \<le> e" "e < of_int (m + 1) / 10 ^ s" "\<bar>of_int m\<bar> \<le> (7 * 10 ^ 28 + 1 :: rat)"
    "\<bar>of_int (m + 1)\<bar> \<le> (7 * 10 ^ 28 + 1 :: rat)"
proof -
  let ?p = "10 ^ s :: rat" and ?m = "\<lfloor>e * 10 ^ s\<rfloor>"
  have "\<bar>e * ?p\<bar> \<le> 7 * 10 ^ (28 - s) * ?p" using assms(1) by (simp add: abs_mult mult_right_mono)
  also have "\<dots> = 7 * 10 ^ 28" using assms(2) by (simp flip: power_add)
  finally have b: "\<bar>e * ?p\<bar> \<le> 7 * 10 ^ 28" .
  have m: "of_int ?m \<le> e * ?p" "e * ?p < of_int ?m + 1" by linarith+
  show thesis
  proof (rule that [of ?m])
    show "of_int ?m / ?p \<le> e" using m(1) by (simp add: divide_le_eq)
    show "e < of_int (?m + 1) / ?p" using m(2) by (simp add: less_divide_eq)
    show "\<bar>of_int ?m\<bar> \<le> (7 * 10 ^ 28 + 1 :: rat)" "\<bar>of_int (?m + 1)\<bar> \<le> (7 * 10 ^ 28 + 1 :: rat)"
      using b m unfolding abs_le_iff of_int_add of_int_1 by linarith+
  qed
qed

lemma rounds_error:
  assumes "dec_laws A" "dec_rounds A e (Some z)" "s \<le> 28" "\<bar>e\<bar> \<le> 7 * 10 ^ (28 - s)"
  shows "\<bar>z - e\<bar> \<le> 1 / 10 ^ s"
proof -
  obtain m where m: "of_int m / 10 ^ s \<le> e" "e < of_int (m + 1) / 10 ^ s" "\<bar>of_int m\<bar> \<le> (7 * 10 ^ 28 + 1 :: rat)"
    "\<bar>of_int (m + 1)\<bar> \<le> (7 * 10 ^ 28 + 1 :: rat)"
    by (rule grid_between [OF assms(4,3)])
  have "of_int m / 10 ^ s \<le> z" "z \<le> of_int (m + 1) / 10 ^ s"
    using rounds_ge [OF assms(2) grid_repr [OF assms(1,3) m(3)]] rounds_le [OF assms(2) grid_repr [OF assms(1,3) m(4)]] m(1,2)
    by simp_all
  moreover have "of_int (m + 1) / 10 ^ s = of_int m / 10 ^ s + (1 :: rat) / 10 ^ s" by (simp add: add_divide_distrib)
  ultimately show ?thesis using m(1,2) by (simp add: abs_le_iff)
qed

lemma rounds_less:
  assumes "dec_laws A" "dec_rounds A e (Some z)" "dec_rounds A e' (Some z')" "s \<le> 28" "\<bar>e\<bar> \<le> 7 * 10 ^ (28 - s)"
    "\<bar>e'\<bar> \<le> 7 * 10 ^ (28 - s)" "e + 2 / 10 ^ s < e'"
  shows "z < z'"
proof -
  have "\<bar>z - e\<bar> \<le> 1 / 10 ^ s" "\<bar>z' - e'\<bar> \<le> 1 / 10 ^ s"
    by (rule rounds_error [OF assms(1,2,4,5)], rule rounds_error [OF assms(1,3,4,6)])
  then show ?thesis using assms(7) by (simp add: abs_le_iff)
qed

lemma sub_total:
  assumes "dec_laws A" "0 \<le> x" "x \<le> numeral n" "0 \<le> y" "y \<le> numeral n" "(numeral n :: int) < 2 ^ 96"
  shows "\<exists>z. dec_sub A x y = Some z \<and> \<bar>z\<bar> \<le> numeral n"
proof -
  have r: "dec_rounds A (x - y) (dec_sub A x y)" by (rule laws_rounds(2) [OF assms(1)])
  have n: "dec_repr A (numeral n)" "dec_repr A (- numeral n)"
    using int_repr [OF assms(1), of "numeral n"] int_repr [OF assms(1), of "- numeral n"] assms(6) by simp_all
  have b: "- numeral n \<le> x - y" "x - y \<le> numeral n" using assms by linarith+
  have "numeral n \<le> dec_max" using repr_bound [OF assms(1) n(1)] by simp
  then obtain z where z: "dec_sub A x y = Some z" using rounds_Some [OF r] b by (force simp: abs_le_iff)
  have "z \<le> numeral n" "- numeral n \<le> z"
    using rounds_le [OF r [unfolded z] n(1) b(2)] rounds_ge [OF r [unfolded z] n(2) b(1)] by blast+
  then show ?thesis using z by (simp add: abs_le_iff)
qed

lemma div_total:
  assumes "dec_laws A" "y \<noteq> 0" "\<bar>x / y\<bar> \<le> dec_max"
  shows "\<exists>z. dec_div A x y = Some z"
  using rounds_Some [OF laws_rounds(4) [OF assms(1,2)] assms(3)] .

lemma dec_of_u32_le: "dec_of (w :: u32) \<le> 4294967296"
proof -
  have "unat w < 4294967296" using unsigned_less [of w] by simp
  then have "(of_nat (unat w) :: rat) \<le> of_nat 4294967296" by (intro of_nat_mono) simp
  then show ?thesis by (simp only: dec_of_def of_nat_numeral)
qed

section \<open>The documented behaviour can be met\<close>

lemma in_range_rounds:
  "dec_repr A = (\<lambda>x. \<bar>x\<bar> \<le> dec_max) \<Longrightarrow> dec_rounds A x (in_range x)"
  by (simp add: dec_rounds_def in_range_def)

lemma rat_trunc_rem_le: "y \<noteq> 0 \<Longrightarrow> \<bar>x - y * of_int (rat_trunc (x / y))\<bar> \<le> \<bar>x\<bar>" for x y :: rat
proof -
  assume y: "y \<noteq> 0"
  define q where "q = x / y"
  have x: "x = y * q" using y by (simp add: q_def)
  have "\<bar>q - of_int (rat_trunc q)\<bar> \<le> \<bar>q\<bar>"
    by (auto simp: rat_trunc_def abs_if) linarith+
  then have "\<bar>y\<bar> * \<bar>q - of_int (rat_trunc q)\<bar> \<le> \<bar>y\<bar> * \<bar>q\<bar>" by (rule mult_left_mono) simp
  then show ?thesis by (simp add: x y abs_mult [symmetric] right_diff_distrib)
qed

lemma dec_new_bound: "\<bar>m\<bar> < 2 ^ 96 \<Longrightarrow> \<bar>dec_new m s\<bar> \<le> dec_max"
proof -
  assume m: "\<bar>m\<bar> < 2 ^ 96"
  then have "\<bar>m\<bar> \<le> 79228162514264337593543950335" by simp
  then have "of_int \<bar>m\<bar> \<le> dec_max" unfolding dec_max_def by linarith
  moreover have "\<bar>of_int m :: rat\<bar> / 10 ^ s \<le> \<bar>of_int m\<bar>"
    by (simp add: divide_le_eq mult_le_cancel_left1)
  ultimately show ?thesis by (simp add: dec_new_def abs_divide)
qed

lemma exact_arith_laws: "dec_laws exact_arith"
  unfolding dec_laws_def
  by (intro conjI allI impI)
     (auto simp: exact_arith_def in_range_rounds dec_new_bound)

lemmas exact_arith_eval =
  exact_arith_def in_range_def dec_max_def d_add_def d_sub_def d_mul_def d_div_def d_rem_def
  d_prod_def d_sum_def dec_of_def dec_new_def

lemma exact_example: "dec_div exact_arith 1 3 = Some (1 / 3)" "dec_mul exact_arith dec_max 2 = None"
  by (simp_all add: exact_arith_eval)

end
