(* ===== verification/Resource.thy ===== *)
theory Resource
  imports Decimal
begin

text \<open>
  \<open>rust/src/domain/resource.rs\<close>: the workload resources of a project. A Rust struct is a record whose
  fields carry the struct's abbreviation; the fields serde flattens (\<open>SharedResource\<close>, \<open>SqlWorkload\<close>)
  stay nested, as they are in the Rust type.
\<close>

datatype project_type = PtEc2 | PtEc2Vm | PtRds | PtOnPrem | PtSqlPayg

datatype sql_edition = Standard | Enterprise

datatype license_basis = LicenseIncluded | Byol

datatype purchase_option =
  PoPayg | PoAhb | PoOneYear | PoAhbOneYear | PoThreeYear | PoAhbThreeYear | PoSavingsOneYear
| PoAhbSavingsOneYear

definition purchase_option_all :: "purchase_option list" where
  "purchase_option_all =
     [PoPayg, PoAhb, PoOneYear, PoAhbOneYear, PoThreeYear, PoAhbThreeYear, PoSavingsOneYear,
      PoAhbSavingsOneYear]"

datatype vm_purchase_option =
  VpoPayg | VpoAhb | VpoOneYear | VpoAhbOneYear | VpoThreeYear | VpoAhbThreeYear
| VpoSavingsOneYear | VpoAhbSavingsOneYear | VpoSavingsThreeYear | VpoAhbSavingsThreeYear

definition vm_purchase_option_all :: "vm_purchase_option list" where
  "vm_purchase_option_all =
     [VpoPayg, VpoAhb, VpoOneYear, VpoAhbOneYear, VpoThreeYear, VpoAhbThreeYear, VpoSavingsOneYear,
      VpoAhbSavingsOneYear, VpoSavingsThreeYear, VpoAhbSavingsThreeYear]"

fun vm_purchase_option_as_str :: "vm_purchase_option \<Rightarrow> string" where
  "vm_purchase_option_as_str VpoPayg = ''payg''"
| "vm_purchase_option_as_str VpoAhb = ''ahb''"
| "vm_purchase_option_as_str VpoOneYear = ''one-year''"
| "vm_purchase_option_as_str VpoAhbOneYear = ''ahbone-year''"
| "vm_purchase_option_as_str VpoThreeYear = ''three-year''"
| "vm_purchase_option_as_str VpoAhbThreeYear = ''ahbthree-year''"
| "vm_purchase_option_as_str VpoSavingsOneYear = ''sv-one-year''"
| "vm_purchase_option_as_str VpoAhbSavingsOneYear = ''ahbsv-one-year''"
| "vm_purchase_option_as_str VpoSavingsThreeYear = ''sv-three-year''"
| "vm_purchase_option_as_str VpoAhbSavingsThreeYear = ''ahbsv-three-year''"

definition vm_uses_ahb :: "vm_purchase_option \<Rightarrow> bool" where
  "vm_uses_ahb p \<longleftrightarrow>
     (case p of
        VpoAhb \<Rightarrow> True | VpoAhbOneYear \<Rightarrow> True | VpoAhbThreeYear \<Rightarrow> True
      | VpoAhbSavingsOneYear \<Rightarrow> True | VpoAhbSavingsThreeYear \<Rightarrow> True | _ \<Rightarrow> False)"

record shared_resource =
  sr_id :: uuid
  sr_workload_name :: string
  sr_server_name :: "string option"
  sr_quantity :: u32
  sr_source_ram_gb :: decimal_value
  sr_annual_hours :: decimal_value

record sql_workload =
  sql_edition :: sql_edition
  sql_license_basis :: license_basis
  sql_data_gb :: decimal_value
  sql_mi_purchase_option :: purchase_option

datatype vm_burst_policy =
  ConfirmedBurstCompatible | RequiresSustainedCpu | BurstUnknown | BurstNotApplicable

datatype vm_instance_store_use = StoreUnknown | StoreNotUsed | StoreUsed

datatype vm_high_frequency_requirement =
  HfRequired | HfUnknown | HfCapacityFitAccepted | HfNotApplicable

datatype vm_disk_role = RoleOs | RoleData | RoleUnknown

datatype ebs_volume_type = Gp3 | Io2 | Ephemeral

datatype rds_deployment = SingleAz | MultiAz

record ec2_vm_requirements =
  vmr_burst_policy :: vm_burst_policy
  vmr_instance_store_use :: vm_instance_store_use
  vmr_required_local_temp_disk_gb :: "decimal_value option"
  vmr_ephemeral_data_loss_acceptable :: "bool option"
  vmr_high_frequency_requirement :: vm_high_frequency_requirement
  vmr_requested_target_arm_sku :: "string option"

definition ec2_vm_requirements_default :: ec2_vm_requirements where
  "ec2_vm_requirements_default =
     \<lparr>vmr_burst_policy = BurstNotApplicable, vmr_instance_store_use = StoreNotUsed,
      vmr_required_local_temp_disk_gb = None, vmr_ephemeral_data_loss_acceptable = None,
      vmr_high_frequency_requirement = HfNotApplicable, vmr_requested_target_arm_sku = None\<rparr>"

definition ec2_vm_requirements_defaults_for :: "string \<Rightarrow> ec2_vm_requirements" where
  "ec2_vm_requirements_defaults_for instance_type =
     ec2_vm_requirements_default
       \<lparr>vmr_burst_policy :=
          (if starts_with ''t3.'' instance_type then ConfirmedBurstCompatible else BurstNotApplicable),
        vmr_high_frequency_requirement :=
          (if starts_with ''z1d.'' instance_type then HfCapacityFitAccepted else HfNotApplicable)\<rparr>"

record vm_volume =
  vv_id :: uuid
  vv_label :: string
  vv_aws_volume_id :: "string option"
  vv_volume_type :: ebs_volume_type
  vv_role :: vm_disk_role
  vv_capacity_gb :: decimal_value
  vv_provisioned_iops :: "u64 option"
  vv_throughput_mibps :: "decimal_value option"

record ebs_volume =
  ev_id :: uuid
  ev_label :: string
  ev_aws_volume_id :: "string option"
  ev_volume_type :: ebs_volume_type
  ev_capacity_gb :: decimal_value
  ev_provisioned_iops :: "u64 option"
  ev_throughput_mibps :: "decimal_value option"

record ec2_resource =
  ec2_shared :: shared_resource
  ec2_sql :: sql_workload
  ec2_instance_type :: string
  ec2_volumes :: "ebs_volume list"

record ec2_vm_resource =
  ec2vm_shared :: shared_resource
  ec2vm_instance_type :: string
  ec2vm_purchase_option :: vm_purchase_option
  ec2vm_requirements :: ec2_vm_requirements
  ec2vm_volumes :: "vm_volume list"

record rds_resource =
  rds_shared :: shared_resource
  rds_sql :: sql_workload
  rds_instance_type :: string
  rds_deployment :: rds_deployment
  rds_commercial_term :: string
  rds_storage_class :: string
  rds_source_max_iops :: u64

record on_prem_resource =
  op_shared :: shared_resource
  op_sql :: sql_workload
  op_source_vcpu :: u32
  op_licensable_cores :: u32
  op_source_max_iops :: u64
  op_hardware_capex_usd :: decimal_value
  op_depreciation_years :: decimal_value
  op_average_power_kw_override :: "decimal_value option"

datatype resource =
  Ec2 ec2_resource | Ec2Vm ec2_vm_resource | Rds rds_resource | OnPrem on_prem_resource

fun resource_shared :: "resource \<Rightarrow> shared_resource" where
  "resource_shared (Ec2 r) = ec2_shared r"
| "resource_shared (Ec2Vm r) = ec2vm_shared r"
| "resource_shared (Rds r) = rds_shared r"
| "resource_shared (OnPrem r) = op_shared r"

fun resource_sql :: "resource \<Rightarrow> sql_workload option" where
  "resource_sql (Ec2 r) = Some (ec2_sql r)"
| "resource_sql (Rds r) = Some (rds_sql r)"
| "resource_sql (OnPrem r) = Some (op_sql r)"
| "resource_sql (Ec2Vm _) = None"

fun resource_project_type :: "resource \<Rightarrow> project_type" where
  "resource_project_type (Ec2 _) = PtEc2"
| "resource_project_type (Ec2Vm _) = PtEc2Vm"
| "resource_project_type (Rds _) = PtRds"
| "resource_project_type (OnPrem _) = PtOnPrem"

section \<open>The derived order of the purchase options\<close>

definition purchase_option_index :: "purchase_option \<Rightarrow> nat" where
  "purchase_option_index p =
     (case p of
        PoPayg \<Rightarrow> 0 | PoAhb \<Rightarrow> 1 | PoOneYear \<Rightarrow> 2 | PoAhbOneYear \<Rightarrow> 3 | PoThreeYear \<Rightarrow> 4
      | PoAhbThreeYear \<Rightarrow> 5 | PoSavingsOneYear \<Rightarrow> 6 | PoAhbSavingsOneYear \<Rightarrow> 7)"

lemma purchase_option_index_inject: "purchase_option_index p = purchase_option_index q \<Longrightarrow> p = q"
  by (cases p; cases q) (simp_all add: purchase_option_index_def)

instantiation purchase_option :: linorder
begin

definition less_eq_purchase_option :: "purchase_option \<Rightarrow> purchase_option \<Rightarrow> bool" where
  "less_eq_purchase_option p q \<longleftrightarrow> purchase_option_index p \<le> purchase_option_index q"

definition less_purchase_option :: "purchase_option \<Rightarrow> purchase_option \<Rightarrow> bool" where
  "less_purchase_option p q \<longleftrightarrow> purchase_option_index p < purchase_option_index q"

instance
  by standard
     (auto simp: less_eq_purchase_option_def less_purchase_option_def intro: purchase_option_index_inject)

end

lemma purchase_option_all_complete:
  "set purchase_option_all = UNIV" "sorted_wrt (<) purchase_option_all"
proof -
  show "set purchase_option_all = UNIV"
  proof (rule UNIV_eq_I [symmetric])
    fix p show "p \<in> set purchase_option_all" by (cases p) (simp_all add: purchase_option_all_def)
  qed
  show "sorted_wrt (<) purchase_option_all"
    by (simp add: purchase_option_all_def less_purchase_option_def purchase_option_index_def)
qed

lemma vm_purchase_option_as_str_inject:
  "vm_purchase_option_as_str p = vm_purchase_option_as_str q \<longleftrightarrow> p = q"
  by (cases p; cases q) simp_all

lemma vm_purchase_option_all_complete: "p \<in> set vm_purchase_option_all"
  by (cases p) (simp_all add: vm_purchase_option_all_def)

text \<open>An option uses the Azure Hybrid Benefit exactly if its stable name starts with \<open>ahb\<close>.\<close>

lemma vm_uses_ahb_prefix: "vm_uses_ahb p \<longleftrightarrow> starts_with ''ahb'' (vm_purchase_option_as_str p)"
  by (cases p) (simp_all add: vm_uses_ahb_def starts_with_def)

end
