(* ===== verification/Project.thy ===== *)
theory Project
  imports Resource
begin

text \<open>
  \<open>rust/src/domain/project.rs\<close>: the editable project, the stored document and \<open>validate\<close>, which
  returns every issue of a project in the order the code pushes them. The \<open>HashSet\<close>s of seen resource
  and volume IDs are threaded through the loops as sets; the issues a block pushes are the list it
  returns. \<open>project_ok\<close> is the declarative reading of a project without issues.
\<close>

definition MAX_PROJECT_RESOURCES :: nat where
  "MAX_PROJECT_RESOURCES = 100"

record sql_payg_settings =
  sps_enterprise_licensed_cores :: u32
  sps_standard_licensed_cores :: u32
  sps_software_assurance_annual_usd :: decimal_value

record project_settings =
  ps_project_type :: project_type
  ps_aws_region :: "string option"
  ps_azure_region :: string
  ps_currency :: string
  ps_source_compute_discount :: decimal_value
  ps_source_license_discount :: decimal_value
  ps_source_storage_discount :: decimal_value
  ps_azure_compute_discount :: decimal_value
  ps_azure_license_discount :: decimal_value
  ps_azure_storage_discount :: decimal_value
  ps_selected_parity_adjustment :: decimal_value
  ps_default_annual_hours :: decimal_value
  ps_default_mi_purchase_option :: purchase_option
  ps_enterprise_license_sa_pack :: "decimal_value option"
  ps_standard_license_sa_pack :: "decimal_value option"
  ps_remaining_coverage_months :: "u8 option"
  ps_electricity_rate :: "decimal_value option"
  ps_sql_payg :: "sql_payg_settings option"

record editable_project =
  ep_name :: string
  ep_description :: "string option"
  ep_settings :: project_settings
  ep_resources :: "resource list"
  ep_aws_price_snapshot_id :: "string option"
  ep_azure_price_snapshot_id :: "string option"

record 'rev project_document =
  pd_id :: uuid
  pd_document_type :: string
  pd_owner_id :: string
  pd_name :: string
  pd_description :: "string option"
  pd_settings :: project_settings
  pd_resources :: "resource list"
  pd_aws_price_snapshot_id :: "string option"
  pd_azure_price_snapshot_id :: "string option"
  pd_latest_calculation_revision :: "'rev option"
  pd_formula_version :: string
  pd_schema_version :: string
  pd_created_at :: string
  pd_updated_at :: string
  pd_etag :: string

record validation_issue =
  vi_pointer :: string
  vi_code :: string
  vi_message :: string

section \<open>Issues\<close>

definition issue :: "string \<Rightarrow> string \<Rightarrow> string \<Rightarrow> validation_issue" where
  "issue pointer code message = \<lparr>vi_pointer = pointer, vi_code = code, vi_message = message\<rparr>"

definition issue_if :: "bool \<Rightarrow> string \<Rightarrow> string \<Rightarrow> string \<Rightarrow> validation_issue list" where
  "issue_if failed pointer code message = (if failed then [issue pointer code message] else [])"

definition validate_decimal_range ::
  "string \<Rightarrow> decimal_value \<Rightarrow> rat \<Rightarrow> rat \<Rightarrow> bool \<Rightarrow> string \<Rightarrow> validation_issue list" where
  "validate_decimal_range pointer v minimum maximum minimum_exclusive message =
     (let below_minimum = (if minimum_exclusive then v \<le> minimum else v < minimum)
      in issue_if (below_minimum \<or> v > maximum) pointer ''range'' message)"

definition is_snapshot_id :: "string \<Rightarrow> string \<Rightarrow> bool" where
  "is_snapshot_id v prefix \<longleftrightarrow>
     (case strip_prefix prefix v of
        None \<Rightarrow> False
      | Some digest \<Rightarrow> length digest = 64 \<and>
          list_all (\<lambda>b. is_ascii_digit b \<or> 97 \<le> byte_of b \<and> byte_of b \<le> 102) digest)"

definition resource_pointer :: "nat \<Rightarrow> string \<Rightarrow> string" where
  "resource_pointer i suffix = ''/resources/'' @ show_nat i @ suffix"

definition volume_pointer :: "nat \<Rightarrow> nat \<Rightarrow> string \<Rightarrow> string" where
  "volume_pointer i vi suffix = ''/resources/'' @ show_nat i @ ''/volumes/'' @ show_nat vi @ suffix"

section \<open>Settings\<close>

definition validate_regions :: "project_settings \<Rightarrow> validation_issue list" where
  "validate_regions s =
     issue_if (ps_currency s \<noteq> ''USD'') ''/settings/currency'' ''unsupported''
       ''Currency must be USD.'' @
     issue_if (trim_is_empty (ps_azure_region s)) ''/settings/azure_region'' ''required''
       ''Azure region is required.'' @
     (if ps_project_type s \<in> {PtEc2, PtEc2Vm, PtRds} \<and>
         (case ps_aws_region s of None \<Rightarrow> True | Some r \<Rightarrow> r = [])
      then [issue ''/settings/aws_region'' ''required'' ''AWS region is required for AWS projects.'']
      else if ps_project_type s \<in> {PtOnPrem, PtSqlPayg} \<and> ps_aws_region s \<noteq> None
      then [issue ''/settings/aws_region'' ''not_allowed''
              ''AWS region must be absent for on-premises and SQL Pay As You Go projects.'']
      else [])"

definition settings_percents :: "project_settings \<Rightarrow> (string \<times> decimal_value) list" where
  "settings_percents s =
     [(''/settings/source_compute_discount'', ps_source_compute_discount s),
      (''/settings/source_license_discount'', ps_source_license_discount s),
      (''/settings/source_storage_discount'', ps_source_storage_discount s),
      (''/settings/azure_compute_discount'', ps_azure_compute_discount s),
      (''/settings/azure_license_discount'', ps_azure_license_discount s),
      (''/settings/azure_storage_discount'', ps_azure_storage_discount s),
      (''/settings/selected_parity_adjustment'', ps_selected_parity_adjustment s)]"

definition validate_percents :: "project_settings \<Rightarrow> validation_issue list" where
  "validate_percents s =
     concat (map (\<lambda>(pointer, v). issue_if (\<not> is_percent v) pointer ''range''
       ''Discounts and adjustments must be between 0 and 1.'') (settings_percents s)) @
     validate_decimal_range ''/settings/default_annual_hours'' (ps_default_annual_hours s) 0 8784 False
       ''Default annual hours must be between 0 and 8,784.''"

definition validate_on_prem_settings :: "project_settings \<Rightarrow> validation_issue list" where
  "validate_on_prem_settings s =
     (if ps_project_type s = PtOnPrem then
        issue_if (ps_source_compute_discount s \<noteq> 0 \<or> ps_source_storage_discount s \<noteq> 0)
          ''/settings'' ''on_prem_discount_not_allowed''
          ''On-premises compute and storage discounts must be zero.'' @
        concat (map (\<lambda>(pointer, v).
          issue_if (case v of None \<Rightarrow> True | Some price \<Rightarrow> price \<le> 0) pointer ''required''
            ''On-premises License + SA pack prices must be greater than 0.'')
          [(''/settings/enterprise_license_sa_usd_per_two_core_pack'', ps_enterprise_license_sa_pack s),
           (''/settings/standard_license_sa_usd_per_two_core_pack'', ps_standard_license_sa_pack s)]) @
        issue_if (ps_remaining_coverage_months s \<notin> {Some 12, Some 24, Some 36})
          ''/settings/remaining_coverage_months'' ''required''
          ''Remaining coverage must be 12, 24, or 36 months.'' @
        issue_if (case ps_electricity_rate s of None \<Rightarrow> True | Some rate \<Rightarrow> rate < 0)
          ''/settings/electricity_rate_usd_per_kwh'' ''required''
          ''On-premises electricity rate must be zero or greater.''
      else [])"

definition validate_sql_payg_settings :: "project_settings \<Rightarrow> validation_issue list" where
  "validate_sql_payg_settings s =
     (if ps_project_type s = PtSqlPayg then
        (case ps_sql_payg s of
           Some p \<Rightarrow>
             issue_if (sps_enterprise_licensed_cores p > 100000 \<or> sps_standard_licensed_cores p > 100000)
               ''/settings/sql_payg'' ''range''
               ''Enterprise and Standard licensed cores must not exceed 100,000.'' @
             issue_if (sps_enterprise_licensed_cores p = 0 \<and> sps_standard_licensed_cores p = 0)
               ''/settings/sql_payg'' ''required''
               ''Enter at least one Enterprise or Standard licensed core.'' @
             issue_if (sps_software_assurance_annual_usd p < 0)
               ''/settings/sql_payg/software_assurance_annual_usd'' ''range''
               ''Annual Software Assurance spend must not be negative.''
         | None \<Rightarrow> [issue ''/settings/sql_payg'' ''required''
                    ''SQL Pay As You Go licensing inputs are required.''])
      else issue_if (ps_sql_payg s \<noteq> None) ''/settings/sql_payg'' ''not_allowed''
             ''SQL Pay As You Go licensing inputs are allowed only for that project type.'')"

definition validate_settings :: "project_settings \<Rightarrow> validation_issue list" where
  "validate_settings s =
     validate_regions s @ validate_percents s @ validate_on_prem_settings s @
     validate_sql_payg_settings s"

section \<open>Volumes and resources\<close>

definition longer_than :: "nat \<Rightarrow> string option \<Rightarrow> bool" where
  "longer_than n s \<longleftrightarrow> (case s of None \<Rightarrow> False | Some t \<Rightarrow> chars_count t > n)"

definition negative :: "decimal_value option \<Rightarrow> bool" where
  "negative v \<longleftrightarrow> (case v of None \<Rightarrow> False | Some x \<Rightarrow> x < 0)"

fun validate_ebs_volumes ::
  "nat \<Rightarrow> nat \<Rightarrow> ebs_volume list \<Rightarrow> uuid set \<Rightarrow> validation_issue list \<times> uuid set" where
  "validate_ebs_volumes i vi [] volume_ids = ([], volume_ids)"
| "validate_ebs_volumes i vi (v # vs) volume_ids =
     (let (rest, volume_ids') = validate_ebs_volumes i (Suc vi) vs (insert (ev_id v) volume_ids)
      in (issue_if (ev_id v \<in> volume_ids) (volume_pointer i vi ''/id'') ''duplicate''
            ''Volume IDs must be unique within a project.'' @
          issue_if (\<not> (1 \<le> chars_count (ev_label v) \<and> chars_count (ev_label v) \<le> 80))
            (volume_pointer i vi ''/label'') ''length'' ''Volume label must contain 1 to 80 characters.'' @
          issue_if (longer_than 128 (ev_aws_volume_id v)) (volume_pointer i vi ''/aws_volume_id'')
            ''length'' ''AWS volume ID must not exceed 128 characters.'' @
          issue_if (ev_capacity_gb v < 0) (volume_pointer i vi ''/capacity_gb'') ''range''
            ''Volume capacity must not be negative.'' @
          issue_if (ev_volume_type v \<noteq> Ephemeral \<and> ev_provisioned_iops v = None)
            (volume_pointer i vi ''/provisioned_iops'') ''required''
            ''gp3 and io2 volumes require provisioned IOPS.'' @
          issue_if (negative (ev_throughput_mibps v)) (volume_pointer i vi ''/throughput_mibps'')
            ''range'' ''Volume throughput must not be negative.'' @ rest, volume_ids'))"

definition validate_ec2_resource ::
  "nat \<Rightarrow> ec2_resource \<Rightarrow> uuid set \<Rightarrow> validation_issue list \<times> uuid set" where
  "validate_ec2_resource i r volume_ids =
     (let (volume_issues, volume_ids') = validate_ebs_volumes i 0 (ec2_volumes r) volume_ids
      in (issue_if (trim_is_empty (ec2_instance_type r)) (resource_pointer i ''/instance_type'')
            ''required'' ''EC2 instance type is required.'' @
          issue_if (\<not> (1 \<le> length (ec2_volumes r) \<and> length (ec2_volumes r) \<le> 50))
            (resource_pointer i ''/volumes'') ''limit'' ''EC2 resources require 1 to 50 volumes.'' @
          volume_issues, volume_ids'))"

fun validate_vm_volumes ::
  "nat \<Rightarrow> nat \<Rightarrow> vm_volume list \<Rightarrow> uuid set \<Rightarrow> validation_issue list \<times> uuid set" where
  "validate_vm_volumes i vi [] volume_ids = ([], volume_ids)"
| "validate_vm_volumes i vi (v # vs) volume_ids =
     (let (rest, volume_ids') = validate_vm_volumes i (Suc vi) vs (insert (vv_id v) volume_ids)
      in (issue_if (vv_id v \<in> volume_ids) (volume_pointer i vi ''/id'') ''duplicate''
            ''Volume IDs must be unique within a project.'' @
          issue_if (\<not> (1 \<le> chars_count (vv_label v) \<and> chars_count (vv_label v) \<le> 80))
            (volume_pointer i vi ''/label'') ''length'' ''Volume label must contain 1 to 80 characters.'' @
          issue_if (longer_than 128 (vv_aws_volume_id v)) (volume_pointer i vi ''/aws_volume_id'')
            ''length'' ''AWS volume ID must not exceed 128 characters.'' @
          issue_if (vv_capacity_gb v < 0) (volume_pointer i vi ''/capacity_gb'') ''range''
            ''Volume capacity must not be negative.'' @
          issue_if (vv_volume_type v = Ephemeral) (volume_pointer i vi ''/volume_type'') ''unsupported''
            ''Instance storage must use the VM instance-store requirements rather than a persistent volume row.'' @
          issue_if (vv_role v = RoleUnknown) (volume_pointer i vi ''/role'') ''required''
            ''Persistent volume role must be confirmed before calculation.'' @
          issue_if (vv_volume_type v \<noteq> Ephemeral \<and> vv_provisioned_iops v = None)
            (volume_pointer i vi ''/provisioned_iops'') ''required''
            ''gp3 and io2 volumes require provisioned IOPS.'' @
          issue_if (negative (vv_throughput_mibps v)) (volume_pointer i vi ''/throughput_mibps'')
            ''range'' ''Volume throughput must not be negative.'' @ rest, volume_ids'))"

definition is_arm_sku_byte :: "char \<Rightarrow> bool" where
  "is_arm_sku_byte b \<longleftrightarrow> is_ascii_alphanumeric b \<or> b \<in> set ''_-.''"

definition validate_vm_requirements :: "nat \<Rightarrow> ec2_vm_requirements \<Rightarrow> validation_issue list" where
  "validate_vm_requirements i q =
     (if vmr_instance_store_use q = StoreUsed then
        issue_if (case vmr_required_local_temp_disk_gb q of None \<Rightarrow> True | Some c \<Rightarrow> c \<le> 0)
          (resource_pointer i ''/requirements/required_local_temp_disk_gb'') ''required''
          ''Used instance storage requires a positive local capacity.'' @
        issue_if (vmr_ephemeral_data_loss_acceptable q = None)
          (resource_pointer i ''/requirements/ephemeral_data_loss_acceptable'') ''required''
          ''Used instance storage requires an explicit ephemeral data-loss decision.''
      else []) @
     (case vmr_requested_target_arm_sku q of
        None \<Rightarrow> []
      | Some target \<Rightarrow>
          issue_if (target = [] \<or> length target > 100 \<or> \<not> list_all is_arm_sku_byte target)
            (resource_pointer i ''/requirements/requested_target_arm_sku'') ''format''
            ''Requested Azure VM target must be a bounded ARM SKU name.'')"

definition validate_ec2_vm_resource ::
  "nat \<Rightarrow> ec2_vm_resource \<Rightarrow> uuid set \<Rightarrow> validation_issue list \<times> uuid set" where
  "validate_ec2_vm_resource i r volume_ids =
     (let (volume_issues, volume_ids') = validate_vm_volumes i 0 (ec2vm_volumes r) volume_ids;
          os_disks = length (filter (\<lambda>v. vv_role v = RoleOs) (ec2vm_volumes r))
      in (issue_if (trim_is_empty (ec2vm_instance_type r)) (resource_pointer i ''/instance_type'')
            ''required'' ''EC2 instance type is required.'' @
          validate_vm_requirements i (ec2vm_requirements r) @
          issue_if (\<not> (1 \<le> length (ec2vm_volumes r) \<and> length (ec2vm_volumes r) \<le> 50))
            (resource_pointer i ''/volumes'') ''limit''
            ''EC2 virtual machine resources require 1 to 50 volumes.'' @
          issue_if (os_disks \<noteq> 1) (resource_pointer i ''/volumes'') ''os_disk''
            ''EC2 virtual machine resources require exactly one OS disk.'' @
          volume_issues, volume_ids'))"

definition validate_rds_resource :: "nat \<Rightarrow> rds_resource \<Rightarrow> validation_issue list" where
  "validate_rds_resource i r =
     concat (map (\<lambda>(field, v). issue_if (trim_is_empty v) (resource_pointer i (''/'' @ field)) ''required''
         ''RDS catalog selections are required.'')
       [(''instance_type'', rds_instance_type r), (''commercial_term'', rds_commercial_term r),
        (''storage_class'', rds_storage_class r)]) @
     issue_if (rds_source_max_iops r > 1000000000) (resource_pointer i ''/source_max_iops'') ''range''
       ''Source maximum IOPS must not exceed 1,000,000,000.''"

definition validate_on_prem_resource :: "nat \<Rightarrow> on_prem_resource \<Rightarrow> validation_issue list" where
  "validate_on_prem_resource i r =
     concat (map (\<lambda>(field, v). issue_if (\<not> (1 \<le> v \<and> v \<le> 100000)) (resource_pointer i (''/'' @ field))
         ''range'' ''Core counts must be between 1 and 100,000.'')
       [(''source_vcpu'', op_source_vcpu r), (''licensable_cores'', op_licensable_cores r)]) @
     issue_if (op_source_max_iops r > 1000000000) (resource_pointer i ''/source_max_iops'') ''range''
       ''Source maximum IOPS must not exceed 1,000,000,000.'' @
     issue_if (op_hardware_capex_usd r < 0) (resource_pointer i ''/hardware_capex_usd'') ''range''
       ''Hardware CAPEX must not be negative.'' @
     validate_decimal_range (resource_pointer i ''/depreciation_years'') (op_depreciation_years r) 0 50
       True ''Depreciation years must be greater than 0 and no more than 50.'' @
     issue_if (case op_average_power_kw_override r of None \<Rightarrow> False | Some kw \<Rightarrow> kw \<le> 0)
       (resource_pointer i ''/average_power_kw_override'') ''range''
       ''Average power override must be greater than 0.''"

fun validate_kind :: "nat \<Rightarrow> resource \<Rightarrow> uuid set \<Rightarrow> validation_issue list \<times> uuid set" where
  "validate_kind i (Ec2 r) volume_ids = validate_ec2_resource i r volume_ids"
| "validate_kind i (Ec2Vm r) volume_ids = validate_ec2_vm_resource i r volume_ids"
| "validate_kind i (Rds r) volume_ids = (validate_rds_resource i r, volume_ids)"
| "validate_kind i (OnPrem r) volume_ids = (validate_on_prem_resource i r, volume_ids)"

definition validate_shared ::
  "nat \<Rightarrow> project_settings \<Rightarrow> resource \<Rightarrow> uuid set \<Rightarrow> validation_issue list" where
  "validate_shared i s r resource_ids =
     (let shared = resource_shared r in
      issue_if (resource_project_type r \<noteq> ps_project_type s) (resource_pointer i ''/source_type'')
        ''project_type_mismatch'' ''Resource source type must match the project type.'' @
      issue_if (sr_id shared \<in> resource_ids) (resource_pointer i ''/id'') ''duplicate''
        ''Resource IDs must be unique within a project.'' @
      issue_if (\<not> (1 \<le> chars_count (sr_workload_name shared) \<and> chars_count (sr_workload_name shared) \<le> 160))
        (resource_pointer i ''/workload_name'') ''length''
        ''Workload name must contain 1 to 160 characters.'' @
      issue_if (longer_than 160 (sr_server_name shared)) (resource_pointer i ''/server_name'') ''length''
        ''Server name must not exceed 160 characters.'' @
      issue_if (\<not> (1 \<le> sr_quantity shared \<and> sr_quantity shared \<le> 10000)) (resource_pointer i ''/quantity'')
        ''range'' ''Quantity must be between 1 and 10,000.'' @
      (case resource_sql r of
         None \<Rightarrow> []
       | Some sql \<Rightarrow>
           validate_decimal_range (resource_pointer i ''/sql_data_gb_per_instance'') (sql_data_gb sql)
             0 1000000000 False ''SQL data size must be between 0 and 1,000,000,000 GB.'') @
      validate_decimal_range (resource_pointer i ''/source_ram_gb_per_instance'')
        (sr_source_ram_gb shared) 0 1000000 True
        ''Source RAM must be greater than 0 and no more than 1,000,000 GB.'' @
      validate_decimal_range (resource_pointer i ''/annual_hours_per_instance'')
        (sr_annual_hours shared) 0 8784 False ''Annual hours must be between 0 and 8,784.'')"

fun validate_resources ::
  "nat \<Rightarrow> project_settings \<Rightarrow> resource list \<Rightarrow> uuid set \<Rightarrow> uuid set \<Rightarrow> validation_issue list" where
  "validate_resources i s [] resource_ids volume_ids = []"
| "validate_resources i s (r # rs) resource_ids volume_ids =
     (let (kind_issues, volume_ids') = validate_kind i r volume_ids
      in validate_shared i s r resource_ids @ kind_issues @
         validate_resources (Suc i) s rs (insert (sr_id (resource_shared r)) resource_ids) volume_ids')"

definition validate_header :: "editable_project \<Rightarrow> validation_issue list" where
  "validate_header p =
     issue_if (\<not> (1 \<le> chars_count (ep_name p) \<and> chars_count (ep_name p) \<le> 100)) ''/name'' ''length''
       ''Project name must contain 1 to 100 characters.'' @
     issue_if (longer_than 500 (ep_description p)) ''/description'' ''length''
       ''Project description must not exceed 500 characters.'' @
     issue_if (length (ep_resources p) > MAX_PROJECT_RESOURCES) ''/resources'' ''limit''
       ''A project may contain at most 100 resources.'' @
     issue_if (ps_project_type (ep_settings p) = PtSqlPayg \<and> ep_resources p \<noteq> []) ''/resources''
       ''not_allowed'' ''SQL Pay As You Go projects do not contain workload resources.'' @
     concat (map (\<lambda>(pointer, v, prefix).
         issue_if (case v of None \<Rightarrow> False | Some snapshot_id \<Rightarrow> \<not> is_snapshot_id snapshot_id prefix)
           pointer ''format'' ''Snapshot IDs must be server-issued content-addressed identifiers.'')
       [(''/aws_price_snapshot_id'', ep_aws_price_snapshot_id p, ''aws-''),
        (''/azure_price_snapshot_id'', ep_azure_price_snapshot_id p, ''azure-'')])"

definition validate :: "editable_project \<Rightarrow> validation_issue list" where
  "validate p =
     validate_header p @ validate_settings (ep_settings p) @
     validate_resources 0 (ep_settings p) (ep_resources p) {} {}"

section \<open>A project without issues\<close>

definition region_ok :: "project_settings \<Rightarrow> bool" where
  "region_ok s \<longleftrightarrow>
     (case ps_project_type s of
        PtOnPrem \<Rightarrow> ps_aws_region s = None
      | PtSqlPayg \<Rightarrow> ps_aws_region s = None
      | _ \<Rightarrow> \<exists>r. ps_aws_region s = Some r \<and> r \<noteq> [])"

definition on_prem_settings_ok :: "project_settings \<Rightarrow> bool" where
  "on_prem_settings_ok s \<longleftrightarrow>
     ps_source_compute_discount s = 0 \<and> ps_source_storage_discount s = 0 \<and>
     (\<exists>e. ps_enterprise_license_sa_pack s = Some e \<and> 0 < e) \<and>
     (\<exists>t. ps_standard_license_sa_pack s = Some t \<and> 0 < t) \<and>
     (\<exists>m. ps_remaining_coverage_months s = Some m \<and> m \<in> {12, 24, 36}) \<and>
     (\<exists>k. ps_electricity_rate s = Some k \<and> 0 \<le> k)"

definition sql_payg_settings_ok :: "sql_payg_settings \<Rightarrow> bool" where
  "sql_payg_settings_ok p \<longleftrightarrow>
     sps_enterprise_licensed_cores p \<le> 100000 \<and> sps_standard_licensed_cores p \<le> 100000 \<and>
     (sps_enterprise_licensed_cores p \<noteq> 0 \<or> sps_standard_licensed_cores p \<noteq> 0) \<and>
     0 \<le> sps_software_assurance_annual_usd p"

definition settings_ok :: "project_settings \<Rightarrow> bool" where
  "settings_ok s \<longleftrightarrow>
     ps_currency s = ''USD'' \<and> \<not> trim_is_empty (ps_azure_region s) \<and> region_ok s \<and>
     (\<forall>(pointer, v)\<in>set (settings_percents s). is_percent v) \<and>
     0 \<le> ps_default_annual_hours s \<and> ps_default_annual_hours s \<le> 8784 \<and>
     (ps_project_type s = PtOnPrem \<longrightarrow> on_prem_settings_ok s) \<and>
     (if ps_project_type s = PtSqlPayg
      then (\<exists>p. ps_sql_payg s = Some p \<and> sql_payg_settings_ok p) else ps_sql_payg s = None)"

definition ebs_volume_ok :: "ebs_volume \<Rightarrow> bool" where
  "ebs_volume_ok v \<longleftrightarrow>
     chars_count (ev_label v) \<in> {1..80} \<and> \<not> longer_than 128 (ev_aws_volume_id v) \<and>
     0 \<le> ev_capacity_gb v \<and> (ev_volume_type v \<noteq> Ephemeral \<longrightarrow> ev_provisioned_iops v \<noteq> None) \<and>
     \<not> negative (ev_throughput_mibps v)"

definition vm_volume_ok :: "vm_volume \<Rightarrow> bool" where
  "vm_volume_ok v \<longleftrightarrow>
     chars_count (vv_label v) \<in> {1..80} \<and> \<not> longer_than 128 (vv_aws_volume_id v) \<and>
     0 \<le> vv_capacity_gb v \<and> vv_volume_type v \<noteq> Ephemeral \<and> vv_role v \<noteq> RoleUnknown \<and>
     vv_provisioned_iops v \<noteq> None \<and> \<not> negative (vv_throughput_mibps v)"

definition vm_requirements_ok :: "ec2_vm_requirements \<Rightarrow> bool" where
  "vm_requirements_ok q \<longleftrightarrow>
     (vmr_instance_store_use q = StoreUsed \<longrightarrow>
        (\<exists>c. vmr_required_local_temp_disk_gb q = Some c \<and> 0 < c) \<and>
        vmr_ephemeral_data_loss_acceptable q \<noteq> None) \<and>
     (\<forall>t. vmr_requested_target_arm_sku q = Some t \<longrightarrow>
        length t \<in> {1..100} \<and> list_all is_arm_sku_byte t)"

fun kind_ok :: "resource \<Rightarrow> bool" where
  "kind_ok (Ec2 r) \<longleftrightarrow>
     \<not> trim_is_empty (ec2_instance_type r) \<and> length (ec2_volumes r) \<in> {1..50} \<and>
     (\<forall>v\<in>set (ec2_volumes r). ebs_volume_ok v)"
| "kind_ok (Ec2Vm r) \<longleftrightarrow>
     \<not> trim_is_empty (ec2vm_instance_type r) \<and> vm_requirements_ok (ec2vm_requirements r) \<and>
     length (ec2vm_volumes r) \<in> {1..50} \<and>
     length (filter (\<lambda>v. vv_role v = RoleOs) (ec2vm_volumes r)) = 1 \<and>
     (\<forall>v\<in>set (ec2vm_volumes r). vm_volume_ok v)"
| "kind_ok (Rds r) \<longleftrightarrow>
     \<not> trim_is_empty (rds_instance_type r) \<and> \<not> trim_is_empty (rds_commercial_term r) \<and>
     \<not> trim_is_empty (rds_storage_class r) \<and> rds_source_max_iops r \<le> 1000000000"
| "kind_ok (OnPrem r) \<longleftrightarrow>
     op_source_vcpu r \<in> {1..100000} \<and> op_licensable_cores r \<in> {1..100000} \<and>
     op_source_max_iops r \<le> 1000000000 \<and> 0 \<le> op_hardware_capex_usd r \<and>
     0 < op_depreciation_years r \<and> op_depreciation_years r \<le> 50 \<and>
     (\<forall>k. op_average_power_kw_override r = Some k \<longrightarrow> 0 < k)"

definition shared_ok :: "project_settings \<Rightarrow> resource \<Rightarrow> bool" where
  "shared_ok s r \<longleftrightarrow>
     resource_project_type r = ps_project_type s \<and>
     chars_count (sr_workload_name (resource_shared r)) \<in> {1..160} \<and>
     \<not> longer_than 160 (sr_server_name (resource_shared r)) \<and>
     sr_quantity (resource_shared r) \<in> {1..10000} \<and>
     (\<forall>q. resource_sql r = Some q \<longrightarrow> 0 \<le> sql_data_gb q \<and> sql_data_gb q \<le> 1000000000) \<and>
     0 < sr_source_ram_gb (resource_shared r) \<and> sr_source_ram_gb (resource_shared r) \<le> 1000000 \<and>
     0 \<le> sr_annual_hours (resource_shared r) \<and> sr_annual_hours (resource_shared r) \<le> 8784"

fun volume_ids :: "resource \<Rightarrow> uuid list" where
  "volume_ids (Ec2 r) = map ev_id (ec2_volumes r)"
| "volume_ids (Ec2Vm r) = map vv_id (ec2vm_volumes r)"
| "volume_ids (Rds _) = []"
| "volume_ids (OnPrem _) = []"

definition snapshot_ok :: "string option \<Rightarrow> string \<Rightarrow> bool" where
  "snapshot_ok v prefix \<longleftrightarrow> (\<forall>i. v = Some i \<longrightarrow> is_snapshot_id i prefix)"

definition project_ok :: "editable_project \<Rightarrow> bool" where
  "project_ok p \<longleftrightarrow>
     chars_count (ep_name p) \<in> {1..100} \<and> \<not> longer_than 500 (ep_description p) \<and>
     length (ep_resources p) \<le> MAX_PROJECT_RESOURCES \<and>
     snapshot_ok (ep_aws_price_snapshot_id p) ''aws-'' \<and>
     snapshot_ok (ep_azure_price_snapshot_id p) ''azure-'' \<and>
     settings_ok (ep_settings p) \<and>
     (\<forall>r\<in>set (ep_resources p). shared_ok (ep_settings p) r \<and> kind_ok r) \<and>
     distinct (map (sr_id \<circ> resource_shared) (ep_resources p)) \<and>
     distinct (concat (map volume_ids (ep_resources p)))"

lemma one_le_word_iff: "(1 :: 'l::len word) \<le> w \<longleftrightarrow> w \<noteq> 0"
  by (metis linorder_not_le word_less_1)

section \<open>Every block pushes nothing exactly if its rule holds\<close>

named_theorems validate_simps "when a block of the validation pushes no issue"

lemma issue_if_Nil [validate_simps]: "issue_if b p c m = [] \<longleftrightarrow> \<not> b"
  by (simp add: issue_if_def)

lemma validate_decimal_range_Nil [validate_simps]:
  "validate_decimal_range p v lo hi ex m = [] \<longleftrightarrow> (if ex then lo < v else lo \<le> v) \<and> v \<le> hi"
  by (auto simp: validate_decimal_range_def issue_if_Nil)

lemma validate_regions_Nil [validate_simps]:
  "validate_regions s = [] \<longleftrightarrow>
     ps_currency s = ''USD'' \<and> \<not> trim_is_empty (ps_azure_region s) \<and> region_ok s"
  by (cases "ps_project_type s")
     (auto simp: validate_regions_def region_ok_def issue_if_Nil split: option.splits)

lemma validate_percents_Nil [validate_simps]:
  "validate_percents s = [] \<longleftrightarrow>
     (\<forall>(pointer, v)\<in>set (settings_percents s). is_percent v) \<and>
     0 \<le> ps_default_annual_hours s \<and> ps_default_annual_hours s \<le> 8784"
  by (auto simp: validate_percents_def validate_simps)

lemma validate_on_prem_settings_Nil [validate_simps]:
  "validate_on_prem_settings s = [] \<longleftrightarrow> (ps_project_type s = PtOnPrem \<longrightarrow> on_prem_settings_ok s)"
  by (auto simp: validate_on_prem_settings_def on_prem_settings_ok_def issue_if_Nil not_le not_less
      split: option.splits)

lemma validate_sql_payg_settings_Nil [validate_simps]:
  "validate_sql_payg_settings s = [] \<longleftrightarrow>
     (if ps_project_type s = PtSqlPayg
      then (\<exists>p. ps_sql_payg s = Some p \<and> sql_payg_settings_ok p) else ps_sql_payg s = None)"
  by (auto simp: validate_sql_payg_settings_def sql_payg_settings_ok_def issue_if_Nil not_le not_less
      split: option.splits)

lemma validate_settings_Nil [validate_simps]: "validate_settings s = [] \<longleftrightarrow> settings_ok s"
  by (simp add: validate_settings_def settings_ok_def validate_simps conj_assoc)

lemma validate_ebs_volumes_spec:
  "validate_ebs_volumes i vi vs ids = (iss, ids') \<Longrightarrow>
     ids' = ids \<union> set (map ev_id vs) \<and>
     (iss = [] \<longleftrightarrow> (\<forall>v\<in>set vs. ebs_volume_ok v) \<and> distinct (map ev_id vs) \<and>
        ids \<inter> set (map ev_id vs) = {})"
proof (induction vs arbitrary: vi ids iss)
  case (Cons v vs)
  obtain rest where r: "validate_ebs_volumes i (Suc vi) vs (insert (ev_id v) ids) = (rest, ids')"
    using Cons.prems by (auto split: prod.splits)
  from Cons.IH [OF r] Cons.prems r show ?case
    by (auto simp: validate_simps ebs_volume_ok_def not_less)
qed auto

lemma validate_vm_volumes_spec:
  "validate_vm_volumes i vi vs ids = (iss, ids') \<Longrightarrow>
     ids' = ids \<union> set (map vv_id vs) \<and>
     (iss = [] \<longleftrightarrow> (\<forall>v\<in>set vs. vm_volume_ok v) \<and> distinct (map vv_id vs) \<and>
        ids \<inter> set (map vv_id vs) = {})"
proof (induction vs arbitrary: vi ids iss)
  case (Cons v vs)
  obtain rest where r: "validate_vm_volumes i (Suc vi) vs (insert (vv_id v) ids) = (rest, ids')"
    using Cons.prems by (auto split: prod.splits)
  from Cons.IH [OF r] Cons.prems r show ?case
    by (auto simp: validate_simps vm_volume_ok_def not_less)
qed auto

lemma validate_vm_requirements_Nil [validate_simps]:
  "validate_vm_requirements i q = [] \<longleftrightarrow> vm_requirements_ok q"
  by (cases "vmr_requested_target_arm_sku q")
     (auto simp: validate_vm_requirements_def vm_requirements_ok_def issue_if_Nil not_le not_less
        Suc_le_eq split: option.splits)

lemma validate_kind_spec:
  "validate_kind i r ids = (iss, ids') \<Longrightarrow>
     ids' = ids \<union> set (volume_ids r) \<and>
     (iss = [] \<longleftrightarrow> kind_ok r \<and> distinct (volume_ids r) \<and> ids \<inter> set (volume_ids r) = {})"
proof (cases r)
  case (Ec2 e)
  assume *: "validate_kind i r ids = (iss, ids')"
  obtain vis where v: "validate_ebs_volumes i 0 (ec2_volumes e) ids = (vis, ids')"
    using * Ec2 by (auto simp: validate_ec2_resource_def split: prod.splits)
  show ?thesis using * Ec2 v validate_ebs_volumes_spec [OF v]
    by (auto simp: validate_ec2_resource_def validate_simps)
next
  case (Ec2Vm e)
  assume *: "validate_kind i r ids = (iss, ids')"
  obtain vis where v: "validate_vm_volumes i 0 (ec2vm_volumes e) ids = (vis, ids')"
    using * Ec2Vm by (auto simp: validate_ec2_vm_resource_def split: prod.splits)
  show ?thesis using * Ec2Vm v validate_vm_volumes_spec [OF v]
    by (auto simp: validate_ec2_vm_resource_def validate_simps)
next
  case (Rds e)
  assume "validate_kind i r ids = (iss, ids')"
  then show ?thesis using Rds by (auto simp: validate_rds_resource_def validate_simps)
next
  case (OnPrem e)
  assume "validate_kind i r ids = (iss, ids')"
  then show ?thesis using OnPrem
    by (auto simp: validate_on_prem_resource_def validate_simps not_le not_less one_le_word_iff
        split: option.splits)
qed

lemma validate_shared_Nil [validate_simps]:
  "validate_shared i s r ids = [] \<longleftrightarrow> shared_ok s r \<and> sr_id (resource_shared r) \<notin> ids"
  by (auto simp: validate_shared_def shared_ok_def Let_def validate_simps split: option.splits)

lemma validate_resources_Nil:
  "validate_resources i s rs rids vids = [] \<longleftrightarrow>
     (\<forall>r\<in>set rs. shared_ok s r \<and> kind_ok r) \<and>
     distinct (map (sr_id \<circ> resource_shared) rs) \<and> rids \<inter> set (map (sr_id \<circ> resource_shared) rs) = {} \<and>
     distinct (concat (map volume_ids rs)) \<and> vids \<inter> set (concat (map volume_ids rs)) = {}"
proof (induction rs arbitrary: i rids vids)
  case (Cons r rs)
  obtain kis vids' where k: "validate_kind i r vids = (kis, vids')" by force
  note spec = validate_kind_spec [OF k]
  have "validate_resources i s (r # rs) rids vids = [] \<longleftrightarrow>
      (shared_ok s r \<and> sr_id (resource_shared r) \<notin> rids) \<and>
      (kind_ok r \<and> distinct (volume_ids r) \<and> vids \<inter> set (volume_ids r) = {}) \<and>
      validate_resources (Suc i) s rs (insert (sr_id (resource_shared r)) rids) vids' = []"
    using spec by (simp add: k validate_simps)
  then show ?case unfolding Cons.IH conjunct1 [OF spec]
      list.map concat.simps distinct_append distinct.simps(2) set_append list.set o_apply
    by blast
qed simp

lemma validate_header_Nil:
  "validate_header p = [] \<longleftrightarrow>
     chars_count (ep_name p) \<in> {1..100} \<and> \<not> longer_than 500 (ep_description p) \<and>
     length (ep_resources p) \<le> MAX_PROJECT_RESOURCES \<and>
     \<not> (ps_project_type (ep_settings p) = PtSqlPayg \<and> ep_resources p \<noteq> []) \<and>
     snapshot_ok (ep_aws_price_snapshot_id p) ''aws-'' \<and>
     snapshot_ok (ep_azure_price_snapshot_id p) ''azure-''"
  by (auto simp: validate_header_def validate_simps snapshot_ok_def not_less split: option.splits)

section \<open>Properties of the validation\<close>

lemma validate_Nil: "validate p = [] \<longleftrightarrow> project_ok p"
proof -
  have "\<not> (ps_project_type (ep_settings p) = PtSqlPayg \<and> ep_resources p \<noteq> [])"
    if "\<forall>r\<in>set (ep_resources p). shared_ok (ep_settings p) r"
  proof (cases "ep_resources p")
    case (Cons r rs)
    then have "resource_project_type r = ps_project_type (ep_settings p)"
      using that by (simp add: shared_ok_def)
    then show ?thesis by (cases r) auto
  qed simp
  then show ?thesis
    unfolding validate_def append_is_Nil_conv validate_header_Nil validate_settings_Nil
      validate_resources_Nil project_ok_def by blast
qed

text \<open>
  C22: \<open>validate\<close> reports no issue exactly for the projects the specification admits: bounded text
  lengths, a known snapshot ID format, percentages between 0 and 1, the fields each project type
  requires and forbids, at most 100 resources of the project's own type, and IDs that are unique
  over all resources and over all volumes of all resources.
\<close>
theorem validate_iff_project_ok: "validate p = [] \<longleftrightarrow> project_ok p"
  by (rule validate_Nil)

lemma issue_message [simp]: "vi_message (issue p c m) = m"
  by (simp add: issue_def)

lemma issue_inject [simp]: "issue p c m = issue p' c' m' \<longleftrightarrow> p = p' \<and> c = c' \<and> m = m'"
  by (simp add: issue_def)

lemma resource_pointer_inject [simp]: "resource_pointer i s = resource_pointer j s \<longleftrightarrow> i = j"
  by (simp add: resource_pointer_def)

definition duplicate_id_message :: string where
  "duplicate_id_message = ''Resource IDs must be unique within a project.''"

definition says_duplicate_id :: "validation_issue \<Rightarrow> bool" where
  "says_duplicate_id x \<longleftrightarrow> vi_message x = duplicate_id_message"

lemma says_duplicate_id_issue: "says_duplicate_id (issue p c m) \<longleftrightarrow> m = duplicate_id_message"
  by (simp add: says_duplicate_id_def)

definition quiet :: "validation_issue list \<Rightarrow> bool" where
  "quiet xs \<longleftrightarrow> filter says_duplicate_id xs = []"

lemma quiet_append [simp]: "quiet (xs @ ys) \<longleftrightarrow> quiet xs \<and> quiet ys"
  by (simp add: quiet_def)

lemma quiet_Nil [simp]: "quiet []"
  by (simp add: quiet_def)

lemma quiet_issue_if: "m \<noteq> duplicate_id_message \<Longrightarrow> quiet (issue_if b p c m)"
  by (simp add: quiet_def issue_if_def says_duplicate_id_issue)

lemma quiet_Cons [simp]: "quiet (x # xs) \<longleftrightarrow> \<not> says_duplicate_id x \<and> quiet xs"
  by (simp add: quiet_def)

lemma quiet_range: "m \<noteq> duplicate_id_message \<Longrightarrow> quiet (validate_decimal_range p v lo hi ex m)"
  by (simp add: validate_decimal_range_def Let_def quiet_issue_if)

lemmas quiet_intros =
  quiet_issue_if quiet_range says_duplicate_id_issue duplicate_id_message_def

lemma quiet_settings: "quiet (validate_settings s)"
  unfolding validate_settings_def validate_regions_def validate_percents_def settings_percents_def
    validate_on_prem_settings_def validate_sql_payg_settings_def
  by (simp add: quiet_intros split: option.split)

lemma quiet_header: "quiet (validate_header p)"
  unfolding validate_header_def by (simp add: quiet_intros)

lemma quiet_ebs: "quiet (fst (validate_ebs_volumes i vi vs ids))"
  by (induction vs arbitrary: vi ids) (simp_all add: quiet_intros split: prod.split, metis fst_conv)

lemma quiet_vm: "quiet (fst (validate_vm_volumes i vi vs ids))"
  by (induction vs arbitrary: vi ids) (simp_all add: quiet_intros split: prod.split, metis fst_conv)

lemma quiet_kind: "quiet (fst (validate_kind i r ids))"
proof (cases r)
  case (Ec2 e)
  then show ?thesis using quiet_ebs [of i 0 "ec2_volumes e" ids]
    by (cases "validate_ebs_volumes i 0 (ec2_volumes e) ids")
       (simp add: validate_ec2_resource_def quiet_intros)
next
  case (Ec2Vm e)
  then show ?thesis using quiet_vm [of i 0 "ec2vm_volumes e" ids]
    by (cases "validate_vm_volumes i 0 (ec2vm_volumes e) ids")
       (simp add: validate_ec2_vm_resource_def validate_vm_requirements_def quiet_intros
          split: option.split)
next
  case (Rds e)
  then show ?thesis by (simp add: validate_rds_resource_def quiet_intros)
next
  case (OnPrem e)
  then show ?thesis by (simp add: validate_on_prem_resource_def quiet_intros)
qed

lemma shared_duplicates:
  "filter says_duplicate_id (validate_shared i s r ids) =
     issue_if (sr_id (resource_shared r) \<in> ids) (resource_pointer i ''/id'') ''duplicate''
       duplicate_id_message"
proof -
  have q: "filter says_duplicate_id xs = []" if "quiet xs" for xs
    using that by (simp add: quiet_def)
  have d: "filter says_duplicate_id (issue_if b p c duplicate_id_message) =
      issue_if b p c duplicate_id_message" for b p c
    by (simp add: issue_if_def says_duplicate_id_issue)
  show ?thesis
    unfolding validate_shared_def Let_def filter_append
    by (cases "resource_sql r")
       (simp_all add: d [unfolded duplicate_id_message_def] q quiet_intros)
qed

lemma resources_duplicates:
  "filter says_duplicate_id (validate_resources i s rs ids vids) =
     concat (map (\<lambda>k. issue_if
       (sr_id (resource_shared (rs ! k)) \<in> ids \<union> set (map (sr_id \<circ> resource_shared) (take k rs)))
       (resource_pointer (i + k) ''/id'') ''duplicate'' duplicate_id_message) [0..<length rs])"
proof (induction rs arbitrary: i ids vids)
  case (Cons r rs)
  obtain kis vids' where k: "validate_kind i r vids = (kis, vids')" by force
  then have "filter says_duplicate_id kis = []"
    using quiet_kind [of i r vids] by (simp add: quiet_def)
  moreover have "[0..<length (r # rs)] = 0 # map Suc [0..<length rs]"
    by (simp add: upt_conv_Cons map_Suc_upt del: upt_Suc)
  ultimately show ?case
    using Cons.IH [of "Suc i" "insert (sr_id (resource_shared r)) ids" vids'] k
    by (simp add: shared_duplicates comp_def disj_ac del: upt_Suc)
qed simp

text \<open>
  a repeated resource ID is reported once per repetition, in order, at the resource that
  repeats an earlier one, and nothing else carries the duplicate-ID message.
\<close>
theorem validate_duplicate_ids:
  "filter says_duplicate_id (validate p) =
     concat (map (\<lambda>k. issue_if
       (sr_id (resource_shared (ep_resources p ! k))
          \<in> set (map (sr_id \<circ> resource_shared) (take k (ep_resources p))))
       (resource_pointer k ''/id'') ''duplicate'' duplicate_id_message) [0..<length (ep_resources p)])"
  using quiet_header [of p] quiet_settings [of "ep_settings p"]
    resources_duplicates [of 0 "ep_settings p" "ep_resources p" "{}" "{}"]
  by (simp add: validate_def quiet_def)

lemma hex_byte_iff:
  "is_ascii_digit b \<or> 97 \<le> byte_of b \<and> byte_of b \<le> 102 \<longleftrightarrow> b \<in> set ''0123456789abcdef''"
proof -
  have bytes: "{48..57} \<union> {97..102} = byte_of ` set ''0123456789abcdef''"
    by code_simp
  have "b \<in> set ''0123456789abcdef'' \<longleftrightarrow> byte_of b \<in> byte_of ` set ''0123456789abcdef''"
    by (rule inj_image_mem_iff [symmetric]) (simp add: byte_of_def inj_def)
  then show ?thesis unfolding bytes [symmetric] is_ascii_digit_def by simp
qed

text \<open>
  a snapshot ID is accepted exactly if it is the provider's prefix followed by 64 lower-case
  hexadecimal digits.
\<close>
theorem is_snapshot_id_iff:
  "is_snapshot_id v prefix \<longleftrightarrow>
     (\<exists>digest. v = prefix @ digest \<and> length digest = 64 \<and> set digest \<subseteq> set ''0123456789abcdef'')"
proof -
  have "take (length prefix) v = prefix \<longleftrightarrow> (\<exists>d. v = prefix @ d)"
    by (metis append_eq_conv_conj append_take_drop_id)
  then show ?thesis
    unfolding is_snapshot_id_def strip_prefix_def hex_byte_iff list_all_iff subset_iff Ball_def
    by (auto simp del: set_simps)
qed

end
