(* ===== verification/TargetSelector.thy ===== *)
theory TargetSelector
  imports Project
begin

text \<open>
  \<open>rust/src/calculation/target_selector.rs\<close>: the choice of an Azure SQL Managed Instance
  configuration. Candidates of the catalog are filtered by capability, ranked by relative vCPU and
  memory overage, and a closest-capacity fallback is taken where the source exceeds every candidate.
  Decimal arithmetic may panic, so the ranking is a comparison with an outcome.
\<close>

definition NGGP_IOPS_PER_VCORE :: u64 where
  "NGGP_IOPS_PER_VCORE = 1600"

definition NGGP_MAX_IOPS :: u64 where
  "NGGP_MAX_IOPS = 80000"

datatype service_tier = NextGenerationGeneralPurpose | BusinessCritical

datatype mapping_status = Mapped | NoMapping

record target_candidate =
  tc_configuration_key :: string
  tc_azure_region :: string
  tc_service_tier :: service_tier
  tc_hardware_family :: string
  tc_vcores :: u32
  tc_zone_redundant :: bool
  tc_included_memory_gb :: decimal_value
  tc_supported_memory_gb :: "decimal_value list"
  tc_storage_architecture :: string
  tc_maximum_storage_gb :: "decimal_value option"
  tc_source_url :: string
  tc_reviewed_date :: string

record capability_catalog =
  cc_schema_version :: string
  cc_candidates :: "target_candidate list"

record target_selection_request =
  tr_azure_region :: string
  tr_source_vcpu :: u32
  tr_source_memory_gb :: decimal_value
  tr_required_storage_gb :: decimal_value
  tr_source_max_iops :: u64
  tr_workbook_parity_mode :: bool

datatype selection_reason_code =
  RegionUnavailable | TierUnavailable | ZoneRedundancyUnsupported | HardwareFamilyUnsupported
| InsufficientVcores | InsufficientMemory | InsufficientStorage

record selection_reason =
  sre_code :: selection_reason_code
  sre_detail :: fmt_text

record selected_target =
  st_configuration_key :: string
  st_azure_region :: string
  st_service_tier :: service_tier
  st_hardware_family :: string
  st_vcores :: u32
  st_zone_redundant :: bool
  st_included_memory_gb :: decimal_value
  st_selected_memory_gb :: decimal_value
  st_additional_memory_gb :: decimal_value
  st_storage_architecture :: string
  st_maximum_storage_gb :: "decimal_value option"

record candidate_evaluation =
  ce_configuration_key :: string
  ce_vcores :: u32
  ce_selected_memory_gb :: "decimal_value option"
  ce_eligible :: bool
  ce_rejection_reasons :: "selection_reason list"

record storage_escalation =
  se_rejected_configuration_key :: string
  se_rejected_maximum_storage_gb :: decimal_value
  se_selected_configuration_key :: string

record target_selection =
  ts_mapping_status :: mapping_status
  ts_requested_tier :: service_tier
  ts_nggp_iops_limit :: u64
  ts_selected :: "selected_target option"
  ts_candidates :: "candidate_evaluation list"
  ts_outcome_reasons :: "selection_reason list"
  ts_storage_escalation :: "storage_escalation option"

datatype target_selection_error = InvalidSourceVcpu | InvalidSourceMemory | InvalidRequiredStorage

record eligible_candidate =
  el_candidate :: target_candidate
  el_selected_memory_gb :: decimal_value

section \<open>Candidates\<close>

definition reason :: "selection_reason_code \<Rightarrow> fmt_text \<Rightarrow> selection_reason" where
  "reason code detail = \<lparr>sre_code = code, sre_detail = detail\<rparr>"

definition validate_request ::
  "target_selection_request \<Rightarrow> (target_selection_error, unit) outcome" where
  "validate_request q =
     (if tr_source_vcpu q = 0 then Err InvalidSourceVcpu
      else if tr_source_memory_gb q \<le> 0 then Err InvalidSourceMemory
      else if tr_required_storage_gb q < 0 then Err InvalidRequiredStorage
      else Ok ())"

definition in_scope :: "target_selection_request \<Rightarrow> service_tier \<Rightarrow> target_candidate \<Rightarrow> bool" where
  "in_scope q tier c \<longleftrightarrow> tc_azure_region c = tr_azure_region q \<and> tc_service_tier c = tier"

definition smallest_memory :: "target_selection_request \<Rightarrow> target_candidate \<Rightarrow> decimal_value option" where
  "smallest_memory q c =
     min_opt (filter (\<lambda>memory. tr_source_memory_gb q \<le> memory) (tc_supported_memory_gb c))"

definition evaluate_candidate ::
  "target_candidate \<Rightarrow> target_selection_request \<Rightarrow> service_tier \<Rightarrow> bool \<Rightarrow>
     decimal_value option \<times> selection_reason list" where
  "evaluate_candidate c q tier enforce_storage =
     (if \<not> in_scope q tier c then (None, [])
      else
        (let selected_memory = smallest_memory q c in
         (selected_memory,
          (if tc_zone_redundant c
           then [reason ZoneRedundancyUnsupported
                   (Fmt ''Zone-redundant targets are not eligible in v1.'' [])] else []) @
          (if tr_workbook_parity_mode q \<and> tier = NextGenerationGeneralPurpose \<and>
              tc_hardware_family c \<notin> {''Premium Series'', ''Premium Series Memory Optimized''}
           then [reason HardwareFamilyUnsupported
                   (Fmt ''Workbook-parity NGGP selection requires Premium-series hardware.'' [])] else []) @
          (if tc_vcores c < tr_source_vcpu q
           then [reason InsufficientVcores
                   (Fmt ''Candidate has {} vCores but the source requires {}.''
                     [ArgInt (unat (tc_vcores c)), ArgInt (unat (tr_source_vcpu q))])] else []) @
          (if selected_memory = None
           then [reason InsufficientMemory
                   (Fmt ''No supported memory value meets the source requirement of {} GB.''
                     [ArgDec (tr_source_memory_gb q)])] else []) @
          (if enforce_storage \<and>
              (case tc_maximum_storage_gb c of None \<Rightarrow> False | Some m \<Rightarrow> m < tr_required_storage_gb q)
           then [reason InsufficientStorage
                   (Fmt ''Candidate storage limit is below the required {} GB.''
                     [ArgDec (tr_required_storage_gb q)])] else []))))"

definition tier_priority :: "service_tier \<Rightarrow> u8" where
  "tier_priority tier = (case tier of NextGenerationGeneralPurpose \<Rightarrow> 0 | BusinessCritical \<Rightarrow> 1)"

definition compare_candidates ::
  "dec_arith \<Rightarrow> target_selection_request \<Rightarrow> eligible_candidate \<Rightarrow> eligible_candidate \<Rightarrow>
     ('e, ordering) outcome" where
  "compare_candidates A q left right =
     (let source_vcpu = dec_of (tr_source_vcpu q) in
      obind (d_sub A (dec_of (tc_vcores (el_candidate left))) source_vcpu) (\<lambda>left_vcpu.
      obind (d_div A left_vcpu source_vcpu) (\<lambda>left_vcpu_overage.
      obind (d_sub A (dec_of (tc_vcores (el_candidate right))) source_vcpu) (\<lambda>right_vcpu.
      obind (d_div A right_vcpu source_vcpu) (\<lambda>right_vcpu_overage.
      obind (d_sub A (el_selected_memory_gb left) (tr_source_memory_gb q)) (\<lambda>left_memory.
      obind (d_div A left_memory (tr_source_memory_gb q)) (\<lambda>left_memory_overage.
      obind (d_sub A (el_selected_memory_gb right) (tr_source_memory_gb q)) (\<lambda>right_memory.
      obind (d_div A right_memory (tr_source_memory_gb q)) (\<lambda>right_memory_overage.
      Ok (then_with (cmp left_vcpu_overage right_vcpu_overage)
         (then_with (cmp left_memory_overage right_memory_overage)
         (then_with (cmp (tier_priority (tc_service_tier (el_candidate left)))
                         (tier_priority (tc_service_tier (el_candidate right))))
         (then_with (cmp (tc_vcores (el_candidate left)) (tc_vcores (el_candidate right)))
                    (cmp (tc_configuration_key (el_candidate left))
                         (tc_configuration_key (el_candidate right))))))))))))))))"

definition eligible_of ::
  "target_selection_request \<Rightarrow> service_tier \<Rightarrow> bool \<Rightarrow> target_candidate \<Rightarrow> eligible_candidate option" where
  "eligible_of q tier enforce_storage c =
     (let (selected_memory, rejections) = evaluate_candidate c q tier enforce_storage in
      if rejections = []
      then map_option (\<lambda>m. \<lparr>el_candidate = c, el_selected_memory_gb = m\<rparr>) selected_memory
      else None)"

definition eligible_candidates ::
  "dec_arith \<Rightarrow> capability_catalog \<Rightarrow> target_selection_request \<Rightarrow> service_tier \<Rightarrow> bool \<Rightarrow>
     ('e, eligible_candidate list) outcome" where
  "eligible_candidates A catalog q tier enforce_storage =
     try_sort_by (compare_candidates A q)
       (List.map_filter (eligible_of q tier enforce_storage) (cc_candidates catalog))"

section \<open>The closest-capacity fallback\<close>

definition decimal_distance :: "dec_arith \<Rightarrow> rat \<Rightarrow> rat \<Rightarrow> ('e, rat) outcome" where
  "decimal_distance A left right = (if right \<le> left then d_sub A left right else d_sub A right left)"

definition fallback_of ::
  "target_selection_request \<Rightarrow> service_tier \<Rightarrow> target_candidate \<Rightarrow> eligible_candidate option" where
  "fallback_of q tier c =
     (let rejections = snd (evaluate_candidate c q tier False) in
      if \<exists>r\<in>set rejections. sre_code r \<notin> {InsufficientVcores, InsufficientMemory} then None
      else
        map_option (\<lambda>m. \<lparr>el_candidate = c, el_selected_memory_gb = m\<rparr>)
          (case smallest_memory q c of
             Some m \<Rightarrow> Some m
           | None \<Rightarrow> max_opt (tc_supported_memory_gb c)))"

definition compare_capacity ::
  "dec_arith \<Rightarrow> target_selection_request \<Rightarrow> bool \<Rightarrow> bool \<Rightarrow> eligible_candidate \<Rightarrow> eligible_candidate \<Rightarrow>
     ('e, ordering) outcome" where
  "compare_capacity A q cpu_capacity_exceeded memory_capacity_exceeded left right =
     (let capacity_order =
        then_with
          (if cpu_capacity_exceeded
           then cmp (tc_vcores (el_candidate right)) (tc_vcores (el_candidate left)) else Equal)
          (then_with
             (if memory_capacity_exceeded
              then cmp (el_selected_memory_gb right) (el_selected_memory_gb left) else Equal)
             (cmp (abs_diff (tc_vcores (el_candidate left)) (tr_source_vcpu q))
                  (abs_diff (tc_vcores (el_candidate right)) (tr_source_vcpu q))))
      in if capacity_order \<noteq> Equal then Ok capacity_order
         else
           obind (decimal_distance A (el_selected_memory_gb left) (tr_source_memory_gb q)) (\<lambda>dl.
           obind (decimal_distance A (el_selected_memory_gb right) (tr_source_memory_gb q)) (\<lambda>dr.
           Ok (then_with (cmp dl dr)
                (cmp (tc_configuration_key (el_candidate left))
                     (tc_configuration_key (el_candidate right)))))))"

definition first_of :: "'a list \<Rightarrow> 'a option" where
  "first_of xs = (case xs of [] \<Rightarrow> None | x # _ \<Rightarrow> Some x)"

definition capacity_candidates ::
  "capability_catalog \<Rightarrow> target_selection_request \<Rightarrow> service_tier \<Rightarrow> eligible_candidate list" where
  "capacity_candidates catalog q tier =
     List.map_filter (fallback_of q tier) (filter (in_scope q tier) (cc_candidates catalog))"

definition retain_storage ::
  "target_selection_request \<Rightarrow> bool \<Rightarrow> eligible_candidate list \<Rightarrow> eligible_candidate list" where
  "retain_storage q enforce_storage candidates =
     (if enforce_storage
      then filter (\<lambda>e. case tc_maximum_storage_gb (el_candidate e) of
             None \<Rightarrow> True | Some m \<Rightarrow> tr_required_storage_gb q \<le> m) candidates
      else candidates)"

definition closest_of ::
  "dec_arith \<Rightarrow> target_selection_request \<Rightarrow> bool \<Rightarrow> bool \<Rightarrow> eligible_candidate list \<Rightarrow>
     ('e, eligible_candidate option) outcome" where
  "closest_of A q cpu_capacity_exceeded memory_capacity_exceeded candidates =
     (if \<not> cpu_capacity_exceeded \<and> \<not> memory_capacity_exceeded then Ok None
      else
        obind (try_sort_by (compare_capacity A q cpu_capacity_exceeded memory_capacity_exceeded)
          candidates) (\<lambda>sorted. Ok (first_of sorted)))"

definition closest_capacity_candidate ::
  "dec_arith \<Rightarrow> capability_catalog \<Rightarrow> target_selection_request \<Rightarrow> service_tier \<Rightarrow> bool \<Rightarrow>
     ('e, eligible_candidate option) outcome" where
  "closest_capacity_candidate A catalog q tier enforce_storage =
     (let candidates = capacity_candidates catalog q tier
      in case (max_opt (map (tc_vcores \<circ> el_candidate) candidates),
               max_opt (map el_selected_memory_gb candidates)) of
           (Some maximum_vcores, Some maximum_memory_gb) \<Rightarrow>
             closest_of A q (maximum_vcores < tr_source_vcpu q)
               (maximum_memory_gb < tr_source_memory_gb q)
               (retain_storage q enforce_storage candidates)
         | _ \<Rightarrow> Ok None)"

definition service_tier_label :: "service_tier \<Rightarrow> string" where
  "service_tier_label tier =
     (case tier of
        NextGenerationGeneralPurpose \<Rightarrow> ''Next-generation General Purpose''
      | BusinessCritical \<Rightarrow> ''Business Critical'')"

definition capacity_fallback_reasons ::
  "target_selection_request \<Rightarrow> eligible_candidate \<Rightarrow> selection_reason list" where
  "capacity_fallback_reasons q e =
     (let c = el_candidate e; tier = service_tier_label (tc_service_tier c) in
      (if tc_vcores c < tr_source_vcpu q
       then [reason InsufficientVcores
               (Fmt ''Azure SQL Managed Instance does not offer the source requirement of {} vCores in the {tier} tier on {} hardware. The closest available configuration provides {} vCores; this capacity-limited match has been applied and requires workload validation.''
                 [ArgInt (unat (tr_source_vcpu q)), ArgStr tier, ArgStr (tc_hardware_family c),
                  ArgInt (unat (tc_vcores c))])] else []) @
      (if el_selected_memory_gb e < tr_source_memory_gb q
       then [reason InsufficientMemory
               (Fmt ''Azure SQL Managed Instance does not offer the source requirement of {} GB memory in the {tier} tier on {} hardware. The closest available configuration provides {} GB; this capacity-limited match has been applied and requires workload validation.''
                 [ArgDec (tr_source_memory_gb q), ArgStr tier, ArgStr (tc_hardware_family c),
                  ArgDec (el_selected_memory_gb e)])] else []))"

section \<open>The selection\<close>

definition selected_target_of :: "dec_arith \<Rightarrow> eligible_candidate \<Rightarrow> ('e, selected_target) outcome" where
  "selected_target_of A e =
     (let c = el_candidate e in
      obind (d_sub A (el_selected_memory_gb e) (tc_included_memory_gb c)) (\<lambda>additional.
      Ok \<lparr>st_configuration_key = tc_configuration_key c, st_azure_region = tc_azure_region c,
          st_service_tier = tc_service_tier c, st_hardware_family = tc_hardware_family c,
          st_vcores = tc_vcores c, st_zone_redundant = tc_zone_redundant c,
          st_included_memory_gb = tc_included_memory_gb c,
          st_selected_memory_gb = el_selected_memory_gb e,
          st_additional_memory_gb = max additional 0,
          st_storage_architecture = tc_storage_architecture c,
          st_maximum_storage_gb = tc_maximum_storage_gb c\<rparr>))"

definition storage_escalation_of ::
  "eligible_candidate list \<Rightarrow> eligible_candidate list \<Rightarrow> target_selection_request \<Rightarrow>
     storage_escalation option" where
  "storage_escalation_of without_storage with_storage q =
     Option.bind (first_of without_storage) (\<lambda>preferred.
     Option.bind (first_of with_storage) (\<lambda>selected.
     if tc_configuration_key (el_candidate preferred) = tc_configuration_key (el_candidate selected)
     then None
     else Option.bind (tc_maximum_storage_gb (el_candidate preferred)) (\<lambda>maximum.
       if tr_required_storage_gb q \<le> maximum then None
       else Some \<lparr>se_rejected_configuration_key = tc_configuration_key (el_candidate preferred),
                  se_rejected_maximum_storage_gb = maximum,
                  se_selected_configuration_key = tc_configuration_key (el_candidate selected)\<rparr>)))"

definition compare_evaluations :: "candidate_evaluation \<Rightarrow> candidate_evaluation \<Rightarrow> ordering" where
  "compare_evaluations left right =
     then_with (cmp (ce_eligible right) (ce_eligible left))
       (then_with (cmp (ce_vcores left) (ce_vcores right))
         (cmp (ce_configuration_key left) (ce_configuration_key right)))"

definition evaluation_of ::
  "target_selection_request \<Rightarrow> service_tier \<Rightarrow> target_candidate \<Rightarrow> candidate_evaluation" where
  "evaluation_of q tier c =
     (let (selected_memory, rejections) = evaluate_candidate c q tier True in
      \<lparr>ce_configuration_key = tc_configuration_key c, ce_vcores = tc_vcores c,
       ce_selected_memory_gb = selected_memory, ce_eligible = (rejections = []),
       ce_rejection_reasons = rejections\<rparr>)"

definition candidate_evaluations ::
  "capability_catalog \<Rightarrow> target_selection_request \<Rightarrow> service_tier \<Rightarrow> candidate_evaluation list" where
  "candidate_evaluations catalog q tier =
     sort_by compare_evaluations
       (map (evaluation_of q tier) (filter (in_scope q tier) (cc_candidates catalog)))"

definition outcome_reasons ::
  "capability_catalog \<Rightarrow> target_selection_request \<Rightarrow> service_tier \<Rightarrow> eligible_candidate list \<Rightarrow>
     selection_reason list" where
  "outcome_reasons catalog q tier eligible =
     (if eligible \<noteq> [] then []
      else if \<not> (\<exists>c\<in>set (cc_candidates catalog). tc_azure_region c = tr_azure_region q)
      then [reason RegionUnavailable
              (Fmt ''The capability catalog has no candidates in {}.'' [ArgStr (tr_azure_region q)])]
      else if \<not> (\<exists>c\<in>set (cc_candidates catalog). in_scope q tier c)
      then [reason TierUnavailable
              (Fmt ''The requested service tier is not available in the selected region.'' [])]
      else [])"

definition nggp_iops_limit :: "eligible_candidate list \<Rightarrow> target_selection_request \<Rightarrow> u64" where
  "nggp_iops_limit nggp_without_storage q =
     (let threshold_vcores =
        (case first_of nggp_without_storage of
           None \<Rightarrow> tr_source_vcpu q | Some e \<Rightarrow> tc_vcores (el_candidate e))
      in min (saturating_mul (ucast threshold_vcores) NGGP_IOPS_PER_VCORE) NGGP_MAX_IOPS)"

definition select_target ::
  "dec_arith \<Rightarrow> capability_catalog \<Rightarrow> target_selection_request \<Rightarrow>
     (target_selection_error, target_selection) outcome" where
  "select_target A catalog q =
     obind (validate_request q) (\<lambda>_.
     obind (eligible_candidates A catalog q NextGenerationGeneralPurpose False) (\<lambda>nggp_without_storage.
     let iops_limit = nggp_iops_limit nggp_without_storage q;
         requested_tier = (if tr_source_max_iops q \<le> iops_limit
                           then NextGenerationGeneralPurpose else BusinessCritical)
     in
     obind (eligible_candidates A catalog q requested_tier False) (\<lambda>without_storage.
     obind (eligible_candidates A catalog q requested_tier True) (\<lambda>with_storage.
     obind (if with_storage = [] then closest_capacity_candidate A catalog q requested_tier True
            else Ok None) (\<lambda>capacity_fallback.
     let selected_candidate =
       (case first_of with_storage of Some e \<Rightarrow> Some e | None \<Rightarrow> capacity_fallback)
     in
     obind (case selected_candidate of
              None \<Rightarrow> Ok None
            | Some e \<Rightarrow> obind (selected_target_of A e) (\<lambda>t. Ok (Some t))) (\<lambda>selected.
     Ok \<lparr>ts_mapping_status = (if selected \<noteq> None then Mapped else NoMapping),
         ts_requested_tier = requested_tier,
         ts_nggp_iops_limit = iops_limit,
         ts_selected = selected,
         ts_candidates = candidate_evaluations catalog q requested_tier,
         ts_outcome_reasons =
           (case capacity_fallback of
              None \<Rightarrow> outcome_reasons catalog q requested_tier with_storage
            | Some fallback \<Rightarrow> capacity_fallback_reasons q fallback),
         ts_storage_escalation = storage_escalation_of without_storage with_storage q\<rparr>))))))"

section \<open>The capability contract\<close>

definition storage_fits :: "target_selection_request \<Rightarrow> target_candidate \<Rightarrow> bool" where
  "storage_fits q c \<longleftrightarrow> (\<forall>m. tc_maximum_storage_gb c = Some m \<longrightarrow> tr_required_storage_gb q \<le> m)"

definition hardware_fits :: "target_selection_request \<Rightarrow> service_tier \<Rightarrow> target_candidate \<Rightarrow> bool" where
  "hardware_fits q tier c \<longleftrightarrow>
     \<not> tc_zone_redundant c \<and>
     (tr_workbook_parity_mode q \<and> tier = NextGenerationGeneralPurpose \<longrightarrow>
        tc_hardware_family c \<in> {''Premium Series'', ''Premium Series Memory Optimized''})"

definition memory_fits :: "target_selection_request \<Rightarrow> target_candidate \<Rightarrow> decimal_value \<Rightarrow> bool" where
  "memory_fits q c m \<longleftrightarrow>
     m \<in> set (tc_supported_memory_gb c) \<and> tr_source_memory_gb q \<le> m \<and>
     (\<forall>m'\<in>set (tc_supported_memory_gb c). tr_source_memory_gb q \<le> m' \<longrightarrow> m \<le> m')"

definition candidate_fits ::
  "target_selection_request \<Rightarrow> service_tier \<Rightarrow> bool \<Rightarrow> target_candidate \<Rightarrow> decimal_value \<Rightarrow> bool" where
  "candidate_fits q tier enforce_storage c m \<longleftrightarrow>
     in_scope q tier c \<and> hardware_fits q tier c \<and> tr_source_vcpu q \<le> tc_vcores c \<and>
     memory_fits q c m \<and> (enforce_storage \<longrightarrow> storage_fits q c)"

lemma smallest_memory_iff: "smallest_memory q c = Some m \<longleftrightarrow> memory_fits q c m"
proof -
  let ?xs = "filter (\<lambda>m. tr_source_memory_gb q \<le> m) (tc_supported_memory_gb c)"
  have "min_opt ?xs = Some m \<longleftrightarrow> m \<in> set ?xs \<and> (\<forall>x\<in>set ?xs. m \<le> x)"
  proof
    assume m: "m \<in> set ?xs \<and> (\<forall>x\<in>set ?xs. m \<le> x)"
    then have "?xs \<noteq> []" by (metis empty_iff list.set(1))
    then obtain m' where m': "min_opt ?xs = Some m'" by (cases "min_opt ?xs") auto
    then have "m' \<in> set ?xs \<and> (\<forall>x\<in>set ?xs. m' \<le> x)" by (rule min_opt_Some)
    then have "m' = m" using m by (intro antisym) blast+
    then show "min_opt ?xs = Some m" using m' by simp
  qed (rule min_opt_Some)
  then show ?thesis by (auto simp: smallest_memory_def memory_fits_def)
qed

lemma evaluate_no_rejection:
  "in_scope q tier c \<Longrightarrow>
     snd (evaluate_candidate c q tier es) = [] \<longleftrightarrow> (\<exists>m. candidate_fits q tier es c m)"
  using smallest_memory_iff [of q c]
  by (auto simp: evaluate_candidate_def Let_def candidate_fits_def hardware_fits_def storage_fits_def
      not_less split: option.splits)

lemma evaluate_out_of_scope: "\<not> in_scope q tier c \<Longrightarrow> evaluate_candidate c q tier es = (None, [])"
  by (simp add: evaluate_candidate_def)

lemma evaluate_memory:
  "in_scope q tier c \<Longrightarrow> fst (evaluate_candidate c q tier es) = smallest_memory q c"
  by (simp add: evaluate_candidate_def Let_def)

lemma eligible_of_iff:
  "eligible_of q tier es c = Some e \<longleftrightarrow> el_candidate e = c \<and> candidate_fits q tier es c (el_selected_memory_gb e)"
proof (cases "in_scope q tier c")
  case True
  obtain sm rej where ev: "evaluate_candidate c q tier es = (sm, rej)" by force
  have sm: "sm = smallest_memory q c" using evaluate_memory [OF True, of es] ev by simp
  have rej: "rej = [] \<longleftrightarrow> (\<exists>m. candidate_fits q tier es c m)"
    using evaluate_no_rejection [OF True, of es] ev by simp
  have unique: "candidate_fits q tier es c m \<Longrightarrow> smallest_memory q c = Some m" for m
    by (simp add: candidate_fits_def smallest_memory_iff)
  have fits: "candidate_fits q tier es c m \<Longrightarrow> memory_fits q c m' \<Longrightarrow> candidate_fits q tier es c m'" for m m'
    by (simp add: candidate_fits_def)
  show ?thesis unfolding eligible_of_def ev sm Let_def
    using rej unique fits smallest_memory_iff [of q c] by (cases e) fastforce
next
  case False
  then show ?thesis
    by (simp add: eligible_of_def evaluate_out_of_scope candidate_fits_def)
qed

lemma map_filter_set: "x \<in> set (List.map_filter f xs) \<longleftrightarrow> (\<exists>y\<in>set xs. f y = Some x)"
  by (force simp: List.map_filter_def)

lemma eligible_candidates_set:
  assumes "eligible_candidates A cat q tier es = Ok xs"
  shows "e \<in> set xs \<longleftrightarrow> el_candidate e \<in> set (cc_candidates cat) \<and>
           candidate_fits q tier es (el_candidate e) (el_selected_memory_gb e)"
  using try_sort_by_set [OF assms [unfolded eligible_candidates_def]]
  by (auto simp: map_filter_set eligible_of_iff)

section \<open>The ranking is a total preorder of keys\<close>

type_synonym candidate_key = "rat \<times> rat \<times> u8 \<times> u32 \<times> string"

definition candidate_key ::
  "dec_arith \<Rightarrow> target_selection_request \<Rightarrow> eligible_candidate \<Rightarrow> candidate_key option" where
  "candidate_key A q e =
     (let source_vcpu = dec_of (tr_source_vcpu q) in
      Option.bind (dec_sub A (dec_of (tc_vcores (el_candidate e))) source_vcpu) (\<lambda>v.
      Option.bind (dec_div A v source_vcpu) (\<lambda>vo.
      Option.bind (dec_sub A (el_selected_memory_gb e) (tr_source_memory_gb q)) (\<lambda>m.
      Option.bind (dec_div A m (tr_source_memory_gb q)) (\<lambda>mo.
      Some (vo, mo, tier_priority (tc_service_tier (el_candidate e)), tc_vcores (el_candidate e),
            tc_configuration_key (el_candidate e)))))))"

fun compare_keys :: "candidate_key \<Rightarrow> candidate_key \<Rightarrow> ordering" where
  "compare_keys (vo, mo, tp, vc, ck) (vo', mo', tp', vc', ck') =
     then_with (cmp vo vo') (then_with (cmp mo mo') (then_with (cmp tp tp')
       (then_with (cmp vc vc') (cmp ck ck'))))"

interpretation target_rank: comparator compare_keys
proof
  fix x y z :: candidate_key
  show "compare_keys x x = Equal" by (cases x) (simp add: then_with_iff)
  show "compare_keys x y = Less \<longleftrightarrow> compare_keys y x = Greater"
    by (cases x; cases y) (simp only: compare_keys.simps then_with_iff cmp_eq_iff; blast)
  assume "compare_keys x y \<noteq> Greater" "compare_keys y z \<noteq> Greater"
  then show "compare_keys x z \<noteq> Greater"
    by (cases x; cases y; cases z) (auto simp: then_with_iff)
qed

lemma compare_candidates_keys:
  "compare_candidates A q l r = Ok res \<longleftrightarrow>
     (\<exists>k k'. candidate_key A q l = Some k \<and> candidate_key A q r = Some k' \<and> res = compare_keys k k')"
  by (auto simp: compare_candidates_def candidate_key_def Let_def obind_Ok_iff bind_eq_Some_conv)

declare compare_keys.simps [simp del]

lemma compare_candidates_no_Err: "compare_candidates A q l r \<noteq> Err e"
  by (auto simp: compare_candidates_def Let_def obind_Err_iff)

lemma eligible_candidates_first:
  assumes "eligible_candidates A cat q tier es = (Ok (e # rest) :: ('e, eligible_candidate list) outcome)"
    and "c \<in> set (cc_candidates cat)" "candidate_fits q tier es c m"
    and "compare_candidates A q e \<lparr>el_candidate = c, el_selected_memory_gb = m\<rparr> =
          (Ok r :: ('e, ordering) outcome)"
  shows "r \<noteq> Greater"
proof -
  let ?x = "\<lparr>el_candidate = c, el_selected_memory_gb = m\<rparr>"
  have "?x \<in> set (e # rest)" using eligible_candidates_set [OF assms(1)] assms(2,3) by simp
  obtain k k' where k: "candidate_key A q e = Some k" "candidate_key A q ?x = Some k'" "r = compare_keys k k'"
    using assms(4) unfolding compare_candidates_keys by blast
  note sorted = target_rank.try_sort_by_sorted [OF compare_candidates_keys
      assms(1) [unfolded eligible_candidates_def]]
  show ?thesis
  proof (cases "?x = e")
    case True
    then show ?thesis using k target_rank.c_refl by simp
  next
    case False
    then have "?x \<in> set rest" using \<open>?x \<in> set (e # rest)\<close> by simp
    then show ?thesis using sorted k by force
  qed
qed

section \<open>The fallback\<close>

lemma bex_set_if: "(\<exists>r\<in>set (if P then [x] else []). Q r) \<longleftrightarrow> P \<and> Q x"
  by (cases P) simp_all

lemma fallback_of_iff:
  assumes "in_scope q tier c" "fallback_of q tier c = Some e"
  shows "el_candidate e = c" "hardware_fits q tier c"
    "el_selected_memory_gb e \<in> set (tc_supported_memory_gb c)"
proof -
  have *: "\<not> (\<exists>r\<in>set (snd (evaluate_candidate c q tier False)).
      sre_code r \<notin> {InsufficientVcores, InsufficientMemory})"
    using assms(2) by (auto simp: fallback_of_def Let_def split: if_splits)
  then show "hardware_fits q tier c" using assms(1)
    unfolding evaluate_candidate_def Let_def hardware_fits_def reason_def
    by (simp only: if_False not_True_eq_False snd_conv set_append bex_Un bex_set_if) auto
  have e: "map_option (\<lambda>m. \<lparr>el_candidate = c, el_selected_memory_gb = m\<rparr>)
      (case smallest_memory q c of Some m \<Rightarrow> Some m | None \<Rightarrow> max_opt (tc_supported_memory_gb c)) = Some e"
    using assms(2) unfolding fallback_of_def Let_def if_not_P [OF *] .
  then show "el_candidate e = c" by auto
  show "el_selected_memory_gb e \<in> set (tc_supported_memory_gb c)"
    using e smallest_memory_iff [of q c] max_opt_Some [of "tc_supported_memory_gb c"]
    by (auto simp: memory_fits_def split: option.splits)
qed

lemma first_of_Some: "first_of xs = Some x \<longleftrightarrow> (\<exists>ys. xs = x # ys)"
  by (auto simp: first_of_def split: list.splits)

lemma closest_of_in:
  assumes "closest_of A q cpu mem xs = (Ok (Some e) :: ('e, eligible_candidate option) outcome)"
  shows "e \<in> set xs"
proof -
  obtain ys where "try_sort_by (compare_capacity A q cpu mem) xs = (Ok ys :: ('e, _) outcome)"
    and ys: "first_of ys = Some e"
    using assms by (auto simp: closest_of_def obind_Ok_iff split: if_splits)
  then have "set ys = set xs" using try_sort_by_set by blast
  moreover obtain zs where "ys = e # zs" using ys by (auto simp: first_of_Some)
  ultimately show ?thesis by (metis list.set_intros(1))
qed

lemma closest_capacity_candidate_spec:
  assumes "closest_capacity_candidate A cat q tier es =
      (Ok (Some e) :: ('e, eligible_candidate option) outcome)"
  shows "el_candidate e \<in> set (cc_candidates cat)" "in_scope q tier (el_candidate e)"
    "hardware_fits q tier (el_candidate e)" "es \<Longrightarrow> storage_fits q (el_candidate e)"
    "el_selected_memory_gb e \<in> set (tc_supported_memory_gb (el_candidate e))"
    "tc_vcores (el_candidate e) < tr_source_vcpu q \<or> el_selected_memory_gb e < tr_source_memory_gb q"
proof -
  let ?cs = "capacity_candidates cat q tier"
  obtain mv mm where mv: "max_opt (map (tc_vcores \<circ> el_candidate) ?cs) = Some mv"
    and mm: "max_opt (map el_selected_memory_gb ?cs) = Some mm"
    and closest: "closest_of A q (mv < tr_source_vcpu q) (mm < tr_source_memory_gb q)
      (retain_storage q es ?cs) = (Ok (Some e) :: ('e, eligible_candidate option) outcome)"
    using assms unfolding closest_capacity_candidate_def Let_def by (auto split: option.splits)
  have over: "mv < tr_source_vcpu q \<or> mm < tr_source_memory_gb q"
    using closest by (rule_tac ccontr) (simp add: closest_of_def)
  have kept: "e \<in> set (retain_storage q es ?cs)" by (rule closest_of_in [OF closest])
  then have in_cs: "e \<in> set ?cs" by (auto simp: retain_storage_def split: if_splits)
  then obtain c where c: "c \<in> set (cc_candidates cat)" "in_scope q tier c" "fallback_of q tier c = Some e"
    by (auto simp: capacity_candidates_def map_filter_set)
  then show "el_candidate e \<in> set (cc_candidates cat)" "in_scope q tier (el_candidate e)"
    "hardware_fits q tier (el_candidate e)"
    "el_selected_memory_gb e \<in> set (tc_supported_memory_gb (el_candidate e))"
    using fallback_of_iff [OF c(2,3)] by auto
  show "es \<Longrightarrow> storage_fits q (el_candidate e)"
    using kept by (auto simp: retain_storage_def storage_fits_def split: option.splits)
  have "tc_vcores (el_candidate e) \<le> mv" "el_selected_memory_gb e \<le> mm"
    using max_opt_Some [OF mv] max_opt_Some [OF mm] in_cs by auto
  then show "tc_vcores (el_candidate e) < tr_source_vcpu q \<or> el_selected_memory_gb e < tr_source_memory_gb q"
    using over by auto
qed


section \<open>The outcome of a selection\<close>

definition selection_of ::
  "capability_catalog \<Rightarrow> target_selection_request \<Rightarrow> eligible_candidate list \<Rightarrow> service_tier \<Rightarrow>
   eligible_candidate list \<Rightarrow> eligible_candidate list \<Rightarrow> eligible_candidate option \<Rightarrow>
   selected_target option \<Rightarrow> target_selection" where
  "selection_of catalog q nggp_without_storage requested_tier without_storage with_storage
      capacity_fallback selected =
     \<lparr>ts_mapping_status = (if selected \<noteq> None then Mapped else NoMapping),
      ts_requested_tier = requested_tier,
      ts_nggp_iops_limit = nggp_iops_limit nggp_without_storage q,
      ts_selected = selected,
      ts_candidates = candidate_evaluations catalog q requested_tier,
      ts_outcome_reasons =
        (case capacity_fallback of
           None \<Rightarrow> outcome_reasons catalog q requested_tier with_storage
         | Some fallback \<Rightarrow> capacity_fallback_reasons q fallback),
      ts_storage_escalation = storage_escalation_of without_storage with_storage q\<rparr>"

definition select_target_tail ::
  "dec_arith \<Rightarrow> capability_catalog \<Rightarrow> target_selection_request \<Rightarrow> eligible_candidate list \<Rightarrow>
     (target_selection_error, target_selection) outcome" where
  "select_target_tail A catalog q nggp_without_storage =
     (let requested_tier = (if tr_source_max_iops q \<le> nggp_iops_limit nggp_without_storage q
                            then NextGenerationGeneralPurpose else BusinessCritical)
      in
     obind (eligible_candidates A catalog q requested_tier False) (\<lambda>without_storage.
     obind (eligible_candidates A catalog q requested_tier True) (\<lambda>with_storage.
     obind (if with_storage = [] then closest_capacity_candidate A catalog q requested_tier True
            else Ok None) (\<lambda>capacity_fallback.
     obind (case (case first_of with_storage of Some e \<Rightarrow> Some e | None \<Rightarrow> capacity_fallback) of
              None \<Rightarrow> Ok None
            | Some e \<Rightarrow> obind (selected_target_of A e) (\<lambda>t. Ok (Some t))) (\<lambda>selected.
     Ok (selection_of catalog q nggp_without_storage requested_tier without_storage with_storage
           capacity_fallback selected))))))"

lemma select_target_split:
  "select_target A catalog q =
     obind (validate_request q) (\<lambda>_.
     obind (eligible_candidates A catalog q NextGenerationGeneralPurpose False)
       (select_target_tail A catalog q))"
  by (simp add: select_target_def select_target_tail_def [abs_def] selection_of_def Let_def)

lemma select_target_elim:
  assumes "select_target A cat q = Ok s"
  obtains nggp without_storage with_storage fallback where
    "validate_request q = Ok ()"
    "eligible_candidates A cat q NextGenerationGeneralPurpose False =
       (Ok nggp :: (target_selection_error, eligible_candidate list) outcome)"
    "ts_nggp_iops_limit s = nggp_iops_limit nggp q"
    "ts_requested_tier s = (if tr_source_max_iops q \<le> nggp_iops_limit nggp q
       then NextGenerationGeneralPurpose else BusinessCritical)"
    "eligible_candidates A cat q (ts_requested_tier s) False =
       (Ok without_storage :: (target_selection_error, eligible_candidate list) outcome)"
    "eligible_candidates A cat q (ts_requested_tier s) True =
       (Ok with_storage :: (target_selection_error, eligible_candidate list) outcome)"
    "(if with_storage = [] then closest_capacity_candidate A cat q (ts_requested_tier s) True else Ok None) =
       (Ok fallback :: (target_selection_error, eligible_candidate option) outcome)"
    "(case (case first_of with_storage of Some e \<Rightarrow> Some e | None \<Rightarrow> fallback) of
        None \<Rightarrow> Ok None
      | Some e \<Rightarrow> obind (selected_target_of A e) (\<lambda>t. Ok (Some t))) =
       (Ok (ts_selected s) :: (target_selection_error, selected_target option) outcome)"
    "ts_mapping_status s = (if ts_selected s \<noteq> None then Mapped else NoMapping)"
    "ts_candidates s = candidate_evaluations cat q (ts_requested_tier s)"
    "ts_outcome_reasons s =
       (case fallback of None \<Rightarrow> outcome_reasons cat q (ts_requested_tier s) with_storage
        | Some e \<Rightarrow> capacity_fallback_reasons q e)"
    "ts_storage_escalation s = storage_escalation_of without_storage with_storage q"
proof -
  obtain n where val: "validate_request q = Ok ()" and
    n: "eligible_candidates A cat q NextGenerationGeneralPurpose False =
       (Ok n :: (target_selection_error, eligible_candidate list) outcome)" and
    rest: "select_target_tail A cat q n = Ok s"
    using assms unfolding select_target_split obind_Ok_iff by auto
  define tier where "tier = (if tr_source_max_iops q \<le> nggp_iops_limit n q
       then NextGenerationGeneralPurpose else BusinessCritical)"
  note rest' = rest [unfolded select_target_tail_def Let_def, folded tier_def, unfolded obind_Ok_iff]
  obtain wo ws fb sel where
    wo: "eligible_candidates A cat q tier False =
       (Ok wo :: (target_selection_error, eligible_candidate list) outcome)" and
    ws: "eligible_candidates A cat q tier True =
       (Ok ws :: (target_selection_error, eligible_candidate list) outcome)" and
    fb: "(if ws = [] then closest_capacity_candidate A cat q tier True else Ok None) =
       (Ok fb :: (target_selection_error, eligible_candidate option) outcome)" and
    sel: "(case (case first_of ws of Some e \<Rightarrow> Some e | None \<Rightarrow> fb) of
        None \<Rightarrow> Ok None
      | Some e \<Rightarrow> obind (selected_target_of A e) (\<lambda>t. Ok (Some t))) =
       (Ok sel :: (target_selection_error, selected_target option) outcome)" and
    s: "(Ok (selection_of cat q n tier wo ws fb sel) :: (target_selection_error, _) outcome) = Ok s"
    using rest' by (elim exE conjE) (rule that)
  note s = s [unfolded outcome.inject, symmetric]
  have f: "ts_requested_tier s = tier" "ts_selected s = sel" "ts_nggp_iops_limit s = nggp_iops_limit n q"
    "ts_mapping_status s = (if sel \<noteq> None then Mapped else NoMapping)"
    "ts_candidates s = candidate_evaluations cat q tier"
    "ts_outcome_reasons s =
       (case fb of None \<Rightarrow> outcome_reasons cat q tier ws | Some e \<Rightarrow> capacity_fallback_reasons q e)"
    "ts_storage_escalation s = storage_escalation_of wo ws q"
    by (simp_all add: s selection_of_def)
  show thesis
    by (rule that [of n wo ws fb, unfolded f, OF val n refl tier_def wo ws fb sel refl refl refl refl])
qed

definition target_of :: "target_candidate \<Rightarrow> decimal_value \<Rightarrow> selected_target \<Rightarrow> bool" where
  "target_of c m t \<longleftrightarrow>
     st_configuration_key t = tc_configuration_key c \<and> st_azure_region t = tc_azure_region c \<and>
     st_service_tier t = tc_service_tier c \<and> st_vcores t = tc_vcores c \<and>
     st_zone_redundant t = tc_zone_redundant c \<and> st_selected_memory_gb t = m \<and>
     st_maximum_storage_gb t = tc_maximum_storage_gb c"

lemma selected_target_of_Ok:
  "selected_target_of A e = Ok t \<Longrightarrow> target_of (el_candidate e) (el_selected_memory_gb e) t"
  by (auto simp: selected_target_of_def Let_def obind_Ok_iff target_of_def)

lemma select_target_selected:
  assumes "select_target A cat q = Ok s" "ts_selected s = Some t"
  obtains (eligible) e rest where
    "eligible_candidates A cat q (ts_requested_tier s) True =
       (Ok (e # rest) :: (target_selection_error, eligible_candidate list) outcome)"
    "target_of (el_candidate e) (el_selected_memory_gb e) t" "ts_outcome_reasons s = []"
  | (fallback) e where
    "eligible_candidates A cat q (ts_requested_tier s) True =
       (Ok [] :: (target_selection_error, eligible_candidate list) outcome)"
    "closest_capacity_candidate A cat q (ts_requested_tier s) True =
       (Ok (Some e) :: (target_selection_error, eligible_candidate option) outcome)"
    "target_of (el_candidate e) (el_selected_memory_gb e) t"
    "ts_outcome_reasons s = capacity_fallback_reasons q e"
proof -
  obtain with_storage fallback where
    ws: "eligible_candidates A cat q (ts_requested_tier s) True =
       (Ok with_storage :: (target_selection_error, eligible_candidate list) outcome)" and
    fb: "(if with_storage = [] then closest_capacity_candidate A cat q (ts_requested_tier s) True else Ok None) =
       (Ok fallback :: (target_selection_error, eligible_candidate option) outcome)" and
    sel: "(case (case first_of with_storage of Some e \<Rightarrow> Some e | None \<Rightarrow> fallback) of
        None \<Rightarrow> Ok None
      | Some e \<Rightarrow> obind (selected_target_of A e) (\<lambda>t. Ok (Some t))) =
       (Ok (ts_selected s) :: (target_selection_error, selected_target option) outcome)" and
    out: "ts_outcome_reasons s =
       (case fallback of None \<Rightarrow> outcome_reasons cat q (ts_requested_tier s) with_storage
        | Some e \<Rightarrow> capacity_fallback_reasons q e)"
    by (rule select_target_elim [OF assms(1)])
  note sel = sel [unfolded assms(2)]
  show thesis
  proof (cases with_storage)
    case (Cons e rest)
    then have "(selected_target_of A e :: (target_selection_error, _) outcome) = Ok t" "fallback = None"
      using sel fb by (auto simp: first_of_def obind_Ok_iff)
    then show thesis using eligible ws Cons out selected_target_of_Ok by (auto simp: outcome_reasons_def)
  next
    case Nil
    then obtain e where e: "fallback = Some e" using sel by (cases fallback) (auto simp: first_of_def)
    then have "(selected_target_of A e :: (target_selection_error, _) outcome) = Ok t"
      using sel Nil by (auto simp: first_of_def obind_Ok_iff)
    then show thesis using fallback ws fb Nil e out selected_target_of_Ok by auto
  qed
qed

lemma capacity_fallback_reasons_Nil:
  "capacity_fallback_reasons q e = [] \<longleftrightarrow>
     tr_source_vcpu q \<le> tc_vcores (el_candidate e) \<and> tr_source_memory_gb q \<le> el_selected_memory_gb e"
  by (auto simp: capacity_fallback_reasons_def Let_def not_less)

text \<open>
  a selected target is a configuration of the catalog in the requested region and tier, is not
  zone redundant and holds the required storage; it covers the source vCPUs and memory exactly if
  the selection reports no outcome reason, so a capacity-limited match is always disclosed.
\<close>
theorem select_target_sound:
  assumes "select_target A cat q = Ok s" "ts_selected s = Some t"
  shows "st_azure_region t = tr_azure_region q \<and> st_service_tier t = ts_requested_tier s \<and>
    \<not> st_zone_redundant t \<and>
    (\<forall>m. st_maximum_storage_gb t = Some m \<longrightarrow> tr_required_storage_gb q \<le> m) \<and>
    (\<exists>c\<in>set (cc_candidates cat). tc_configuration_key c = st_configuration_key t \<and>
       tc_vcores c = st_vcores t \<and> st_selected_memory_gb t \<in> set (tc_supported_memory_gb c)) \<and>
    (ts_outcome_reasons s = [] \<longleftrightarrow>
       tr_source_vcpu q \<le> st_vcores t \<and> tr_source_memory_gb q \<le> st_selected_memory_gb t)"
  using assms
proof (cases rule: select_target_selected)
  case (eligible e rest)
  then have "el_candidate e \<in> set (cc_candidates cat)"
    "candidate_fits q (ts_requested_tier s) True (el_candidate e) (el_selected_memory_gb e)"
    using eligible_candidates_set [OF eligible(1), of e] by auto
  then show ?thesis using eligible(2,3)
    by (intro conjI bexI [of _ "el_candidate e"])
       (simp_all add: candidate_fits_def target_of_def in_scope_def hardware_fits_def
          memory_fits_def storage_fits_def)
next
  case (fallback e)
  note f = closest_capacity_candidate_spec(1-3) [OF fallback(2)]
    closest_capacity_candidate_spec(4) [OF fallback(2) TrueI]
  have "el_selected_memory_gb e \<in> set (tc_supported_memory_gb (el_candidate e))"
    by (rule closest_capacity_candidate_spec(5) [OF fallback(2)])
  then show ?thesis using f fallback(3,4)
    by (intro conjI bexI [of _ "el_candidate e"])
       (simp_all add: target_of_def in_scope_def hardware_fits_def storage_fits_def
          capacity_fallback_reasons_Nil)
qed

text \<open>
  The documented order of fitting configurations, in plain terms: fewer vCores, then less memory, then the
  smaller configuration key. The code compares rounded overages instead; on memory sizes of at most six
  decimal places and a million GB the rounding cannot tie or swap two different sizes.
\<close>

definition ranks_before ::
  "target_candidate \<Rightarrow> decimal_value \<Rightarrow> target_candidate \<Rightarrow> decimal_value \<Rightarrow> bool" where
  "ranks_before c m c' m' \<longleftrightarrow>
     tc_vcores c < tc_vcores c' \<or>
     tc_vcores c = tc_vcores c' \<and> (m < m' \<or> m = m' \<and> tc_configuration_key c \<le> tc_configuration_key c')"

definition six_places :: "decimal_value \<Rightarrow> bool" where
  "six_places m \<longleftrightarrow> 0 \<le> m \<and> m \<le> 1000000 \<and> m * 1000000 \<in> \<int>"

definition six_place_memory :: "capability_catalog \<Rightarrow> target_selection_request \<Rightarrow> bool" where
  "six_place_memory cat q \<longleftrightarrow>
     six_places (tr_source_memory_gb q) \<and>
     (\<forall>c\<in>set (cc_candidates cat). \<forall>m\<in>set (tc_supported_memory_gb c). six_places m)"

lemma six_places_step:
  assumes "six_places m" "six_places m'" "m < m'"
  shows "m + 1 / 1000000 \<le> m'"
proof -
  obtain k k' :: int where k: "m * 1000000 = of_int k" "m' * 1000000 = of_int k'"
    using assms(1,2) by (auto simp: six_places_def Ints_def)
  have "(of_int k :: rat) < of_int k'" using assms(3) unfolding k [symmetric] by simp
  then have "k + 1 \<le> k'" by simp
  then have "(of_int (k + 1) :: rat) \<le> of_int k'" by (simp only: of_int_le_iff)
  then have "m * 1000000 + 1 \<le> m' * 1000000" by (simp add: k)
  then show ?thesis by simp
qed

lemma dec_of_ge_one: "s \<noteq> 0 \<Longrightarrow> 1 \<le> dec_of s"
  unfolding dec_of_def by (metis One_nat_def Suc_leI of_nat_1 of_nat_mono unat_gt_0)

lemma vcpu_overage:
  assumes "dec_laws A" "s \<noteq> 0"
  obtains vo where "dec_sub A (dec_of v) (dec_of s) = Some (dec_of v - dec_of s)"
    "dec_div A (dec_of v - dec_of s) (dec_of s) = Some vo"
    "dec_rounds A ((dec_of (v :: u32) - dec_of s) / dec_of (s :: u32)) (Some vo)"
    "\<bar>(dec_of v - dec_of s) / dec_of s\<bar> \<le> (4294967296 :: rat)"
proof -
  have s1: "1 \<le> dec_of s" by (rule dec_of_ge_one [OF assms(2)])
  have le: "dec_of v \<le> 4294967296" "dec_of s \<le> 4294967296" "0 \<le> dec_of v" "0 \<le> dec_of s"
    using dec_of_u32_le [of v] dec_of_u32_le [of s] by simp_all
  then have d: "\<bar>dec_of v - dec_of s\<bar> \<le> 4294967296" unfolding abs_le_iff by linarith
  have int: "dec_of v - dec_of s = of_int (int (unat v) - int (unat s))" by (simp add: dec_of_def)
  have "rat_of_int \<bar>int (unat v) - int (unat s)\<bar> \<le> of_int 4294967296" using d unfolding int by simp
  then have "\<bar>int (unat v) - int (unat s)\<bar> \<le> 4294967296" by (simp only: of_int_le_iff)
  then have "\<bar>int (unat v) - int (unat s)\<bar> < 2 ^ 96" by (rule le_less_trans) simp
  then have "dec_repr A (dec_of v - dec_of s)" unfolding int by (rule int_repr [OF assms(1)])
  then have sub: "dec_sub A (dec_of v) (dec_of s) = Some (dec_of v - dec_of s)" by (rule ops_exact(2) [OF assms(1)])
  have "\<bar>(dec_of v - dec_of s) / dec_of s\<bar> = \<bar>dec_of v - dec_of s\<bar> / dec_of s" using s1 by (simp add: abs_divide)
  also have "\<dots> \<le> 4294967296 / 1" using d s1 by (intro frac_le) simp_all
  finally have b: "\<bar>(dec_of v - dec_of s) / dec_of s\<bar> \<le> (4294967296 :: rat)" by simp
  then have "\<bar>(dec_of v - dec_of s) / dec_of s\<bar> \<le> dec_max" by (simp add: dec_max_def)
  then obtain vo where vo: "dec_div A (dec_of v - dec_of s) (dec_of s) = Some vo"
    using div_total [OF assms(1), of "dec_of s" "dec_of v - dec_of s"] s1 by auto
  have "dec_of s \<noteq> 0" using s1 by auto
  from laws_rounds(4) [OF assms(1) this, of "dec_of v - dec_of s"] show thesis using that [OF sub vo _ b] vo by simp
qed

lemma memory_overage:
  assumes "dec_laws A" "six_places m" "six_places src" "0 < src"
  obtains mo where "dec_sub A m src = Some (m - src)" "dec_div A (m - src) src = Some mo"
    "dec_rounds A ((m - src) / src) (Some mo)" "\<bar>(m - src) / src\<bar> \<le> 10 ^ 12"
proof -
  obtain k k' :: int where k: "m * 1000000 = of_int k" "src * 1000000 = of_int k'"
    using assms(2,3) by (auto simp: six_places_def Ints_def)
  have b: "0 \<le> m" "m \<le> 1000000" "0 \<le> src" "src \<le> 1000000" using assms(2,3) by (simp_all add: six_places_def)
  have src: "1 / 1000000 \<le> src"
    using six_places_step [of 0 src] assms(3,4) by (simp add: six_places_def)
  have d: "\<bar>m - src\<bar> \<le> 1000000" using b unfolding abs_le_iff by linarith
  have e: "m - src = of_int (k - k') / 10 ^ 6" using k by (simp add: field_simps)
  have "\<bar>of_int (k - k')\<bar> = \<bar>m - src\<bar> * (1000000 :: rat)" unfolding e by (simp add: abs_divide)
  then have "\<bar>of_int (k - k')\<bar> \<le> (7 * 10 ^ 28 + 1 :: rat)" using d by simp
  from grid_repr [OF assms(1) _ this, of 6] have "dec_repr A (m - src)" unfolding e by simp
  then have sub: "dec_sub A m src = Some (m - src)" by (rule ops_exact(2) [OF assms(1)])
  have "\<bar>(m - src) / src\<bar> = \<bar>m - src\<bar> / src" using assms(4) by (simp add: abs_divide)
  also have "\<dots> \<le> 1000000 / (1 / 1000000)" using d src by (intro frac_le) simp_all
  finally have q: "\<bar>(m - src) / src\<bar> \<le> 10 ^ 12" by simp
  then have "\<bar>(m - src) / src\<bar> \<le> dec_max" by (simp add: dec_max_def)
  then obtain mo where mo: "dec_div A (m - src) src = Some mo" using div_total [OF assms(1), of src] assms(4) by auto
  have "src \<noteq> 0" using assms(4) by simp
  from laws_rounds(4) [OF assms(1) this, of "m - src"] show thesis using that [OF sub mo _ q] mo by simp
qed

lemma scaled_gap:
  fixes x y s g :: rat
  assumes "x + g \<le> y" "0 < s" "s \<le> b" "0 < g" "2 / 10 ^ n < g / b"
  shows "(x - s) / s + 2 / 10 ^ n < (y - s) / s"
proof -
  have "g / b \<le> g / s" using assms(2-4) by (intro frac_le) simp_all
  moreover have "g / s \<le> (y - s) / s - (x - s) / s"
    unfolding diff_divide_distrib [symmetric] using assms(1,2) by (intro divide_right_mono) simp_all
  ultimately show ?thesis using assms(5) by linarith
qed

lemma compare_candidates_ranks:
  assumes laws: "dec_laws A" and v: "tr_source_vcpu q \<noteq> 0" "0 < tr_source_memory_gb q" "six_places (tr_source_memory_gb q)"
    and m: "six_places (el_selected_memory_gb l)" "six_places (el_selected_memory_gb r)"
    and tier: "tc_service_tier (el_candidate l) = tc_service_tier (el_candidate r)"
  shows "\<exists>res. compare_candidates A q l r = (Ok res :: ('e, ordering) outcome) \<and>
    (res \<noteq> Greater \<longrightarrow> ranks_before (el_candidate l) (el_selected_memory_gb l) (el_candidate r) (el_selected_memory_gb r))"
proof -
  let ?s = "dec_of (tr_source_vcpu q) :: rat" and ?g = "tr_source_memory_gb q"
  let ?v = "\<lambda>e. dec_of (tc_vcores (el_candidate e)) :: rat" and ?m = "el_selected_memory_gb"
  have v0: "0 < ?s" using dec_of_ge_one [OF v(1)] by simp
  obtain vl where vl: "dec_sub A (?v l) ?s = Some (?v l - ?s)" "dec_div A (?v l - ?s) ?s = Some vl"
    "dec_rounds A ((?v l - ?s) / ?s) (Some vl)" "\<bar>(?v l - ?s) / ?s\<bar> \<le> 4294967296" by (rule vcpu_overage [OF laws v(1)])
  obtain vr where vr: "dec_sub A (?v r) ?s = Some (?v r - ?s)" "dec_div A (?v r - ?s) ?s = Some vr"
    "dec_rounds A ((?v r - ?s) / ?s) (Some vr)" "\<bar>(?v r - ?s) / ?s\<bar> \<le> 4294967296" by (rule vcpu_overage [OF laws v(1)])
  obtain ml where ml: "dec_sub A (?m l) ?g = Some (?m l - ?g)" "dec_div A (?m l - ?g) ?g = Some ml"
    "dec_rounds A ((?m l - ?g) / ?g) (Some ml)" "\<bar>(?m l - ?g) / ?g\<bar> \<le> 10 ^ 12" by (rule memory_overage [OF laws m(1) v(3,2)])
  obtain mr where mr: "dec_sub A (?m r) ?g = Some (?m r - ?g)" "dec_div A (?m r - ?g) ?g = Some mr"
    "dec_rounds A ((?m r - ?g) / ?g) (Some mr)" "\<bar>(?m r - ?g) / ?g\<bar> \<le> 10 ^ 12" by (rule memory_overage [OF laws m(2) v(3,2)])
  have vcores: "vr < vl" if less: "tc_vcores (el_candidate r) < tc_vcores (el_candidate l)"
  proof (rule rounds_less [OF laws vr(3) vl(3), of 18])
    have "unat (tc_vcores (el_candidate r)) + 1 \<le> unat (tc_vcores (el_candidate l))"
      using less by (simp add: word_less_nat_alt)
    then have "of_nat (unat (tc_vcores (el_candidate r)) + 1) \<le> (of_nat (unat (tc_vcores (el_candidate l))) :: rat)"
      by (rule of_nat_mono)
    then have "?v r + 1 \<le> ?v l" by (simp add: dec_of_def)
    then show "(?v r - ?s) / ?s + 2 / 10 ^ 18 < (?v l - ?s) / ?s"
      by (rule scaled_gap [OF _ v0 dec_of_u32_le]) simp_all
  qed (use vl(4) vr(4) in simp_all)
  have memory: "mr < ml" if less: "?m r < ?m l"
  proof (rule rounds_less [OF laws mr(3) ml(3), of 16])
    have "?m r + 1 / 1000000 \<le> ?m l" by (rule six_places_step [OF m(2,1) less])
    then show "(?m r - ?g) / ?g + 2 / 10 ^ 16 < (?m l - ?g) / ?g"
      by (rule scaled_gap [where b = 1000000]) (use v(2,3) in \<open>simp_all add: six_places_def\<close>)
  qed (use ml(4) mr(4) in simp_all)
  have same: "vl = vr" if "tc_vcores (el_candidate l) = tc_vcores (el_candidate r)" using vl(2) vr(2) that by simp
  have same': "ml = mr" if "?m l = ?m r" using ml(2) mr(2) that by simp
  have "compare_candidates A q l r = Ok (compare_keys
      (vl, ml, tier_priority (tc_service_tier (el_candidate l)), tc_vcores (el_candidate l), tc_configuration_key (el_candidate l))
      (vr, mr, tier_priority (tc_service_tier (el_candidate r)), tc_vcores (el_candidate r), tc_configuration_key (el_candidate r)))"
    unfolding compare_candidates_keys candidate_key_def Let_def
    by (intro exI conjI refl) (simp_all add: vl(1,2) vr(1,2) ml(1,2) mr(1,2))
  moreover have "ranks_before (el_candidate l) (?m l) (el_candidate r) (?m r)"
    if "compare_keys
      (vl, ml, tier_priority (tc_service_tier (el_candidate l)), tc_vcores (el_candidate l), tc_configuration_key (el_candidate l))
      (vr, mr, tier_priority (tc_service_tier (el_candidate r)), tc_vcores (el_candidate r), tc_configuration_key (el_candidate r))
      \<noteq> Greater"
    using that tier vcores memory same same'
    by (cases "tc_vcores (el_candidate l)" "tc_vcores (el_candidate r)" rule: linorder_cases;
        cases "?m l" "?m r" rule: linorder_cases)
       (auto simp: compare_keys.simps then_with_iff ranks_before_def not_less)
  ultimately show ?thesis by blast
qed

text \<open>
  C1: where some configuration of the requested tier fits with its storage, the selected target is a fitting
  configuration of the catalogue with its smallest sufficient memory, and no fitting configuration has fewer
  vCores, or as many and less memory, or both alike and a smaller key.
\<close>
theorem select_target_optimal:
  assumes "dec_laws A" "six_place_memory cat q" "select_target A cat q = Ok s"
    and "c0 \<in> set (cc_candidates cat)" "candidate_fits q (ts_requested_tier s) True c0 m0"
  shows "\<exists>c\<in>set (cc_candidates cat). \<exists>m t. ts_selected s = Some t \<and> target_of c m t \<and>
    candidate_fits q (ts_requested_tier s) True c m \<and>
    (\<forall>c'\<in>set (cc_candidates cat). \<forall>m'. candidate_fits q (ts_requested_tier s) True c' m' \<longrightarrow> ranks_before c m c' m')"
proof -
  obtain with_storage fallback where
    valid: "validate_request q = Ok ()" and
    ws: "eligible_candidates A cat q (ts_requested_tier s) True =
       (Ok with_storage :: (target_selection_error, eligible_candidate list) outcome)" and
    sel: "(case (case first_of with_storage of Some e \<Rightarrow> Some e | None \<Rightarrow> fallback) of
        None \<Rightarrow> Ok None
      | Some e \<Rightarrow> obind (selected_target_of A e) (\<lambda>t. Ok (Some t))) =
       (Ok (ts_selected s) :: (target_selection_error, selected_target option) outcome)"
    by (rule select_target_elim [OF assms(3)])
  have q: "tr_source_vcpu q \<noteq> 0" "0 < tr_source_memory_gb q" "six_places (tr_source_memory_gb q)"
    using valid assms(2) by (auto simp: validate_request_def six_place_memory_def split: if_splits)
  have "\<lparr>el_candidate = c0, el_selected_memory_gb = m0\<rparr> \<in> set with_storage"
    using eligible_candidates_set [OF ws] assms(4,5) by simp
  then obtain e rest where e: "with_storage = e # rest" by (cases with_storage) auto
  then obtain t where "(selected_target_of A e :: (target_selection_error, _) outcome) = Ok t"
    and t: "ts_selected s = Some t"
    using sel by (auto simp: first_of_def obind_Ok_iff)
  note t = t selected_target_of_Ok [OF this(1)]
  have ok: "el_candidate e \<in> set (cc_candidates cat)"
    "candidate_fits q (ts_requested_tier s) True (el_candidate e) (el_selected_memory_gb e)"
    using eligible_candidates_set [OF ws, of e] e by simp_all
  have six: "six_places m" if "c \<in> set (cc_candidates cat)" "candidate_fits q (ts_requested_tier s) True c m" for c m
    using that assms(2) by (auto simp: six_place_memory_def candidate_fits_def memory_fits_def)
  have "ranks_before (el_candidate e) (el_selected_memory_gb e) c m"
    if c: "c \<in> set (cc_candidates cat)" "candidate_fits q (ts_requested_tier s) True c m" for c m
  proof -
    let ?x = "\<lparr>el_candidate = c, el_selected_memory_gb = m\<rparr>"
    have tier: "tc_service_tier (el_candidate e) = tc_service_tier (el_candidate ?x)"
      using ok(2) c(2) by (simp add: candidate_fits_def in_scope_def)
    have "six_places (el_selected_memory_gb ?x)" using six [OF c] by simp
    from compare_candidates_ranks [OF assms(1) q six [OF ok] this tier]
    obtain res where res: "compare_candidates A q e ?x = (Ok res :: (target_selection_error, ordering) outcome)"
      "res \<noteq> Greater \<longrightarrow> ranks_before (el_candidate e) (el_selected_memory_gb e) c m" by auto
    from eligible_candidates_first [OF ws [unfolded e] c res(1)] res(2) show ?thesis by blast
  qed
  then show ?thesis using t ok by blast
qed

text \<open>
  the NGGP limit is 1,600 IOPS per vCore of the best NGGP configuration (of the source, where none
  is eligible), never above 80,000, and its 64-bit product neither wraps nor saturates.
\<close>
theorem nggp_iops_limit_value:
  "unat (nggp_iops_limit es q) =
     min (1600 * unat (case es of [] \<Rightarrow> tr_source_vcpu q | e # _ \<Rightarrow> tc_vcores (el_candidate e))) 80000"
proof -
  have *: "unat (min (saturating_mul (ucast v) NGGP_IOPS_PER_VCORE) NGGP_MAX_IOPS)
      = min (1600 * unat v) 80000" for v :: u32
  proof -
    have v: "unat v < 2 ^ 32" using unsigned_less [of v] by simp
    then have "unat v < 2 ^ 64" by simp
    then have "unat (ucast v :: u64) = unat v"
      by (simp only: unsigned_ucast_eq) (simp add: take_bit_nat_eq_self_iff)
    with v have "unat (ucast v :: u64) = unat v" "unat v < 2 ^ 32" by simp_all
    then have "unat (saturating_mul (ucast v) NGGP_IOPS_PER_VCORE) = 1600 * unat v"
      by (simp add: unat_saturating_mul NGGP_IOPS_PER_VCORE_def)
    moreover have "unat NGGP_MAX_IOPS = 80000" by (simp add: NGGP_MAX_IOPS_def)
    ultimately show ?thesis by (simp add: min_def word_le_nat_alt)
  qed
  then show ?thesis by (cases es) (simp_all add: nggp_iops_limit_def Let_def first_of_def *)
qed

text \<open>
  the request's tier: Next-generation General Purpose exactly if the source IOPS stay within the
  limit; every mapped result has a target and every unmapped one has none.
\<close>
theorem select_target_tier:
  assumes "select_target A cat q = Ok s"
  shows "(ts_requested_tier s = NextGenerationGeneralPurpose \<longleftrightarrow> tr_source_max_iops q \<le> ts_nggp_iops_limit s) \<and>
    (ts_mapping_status s = Mapped \<longleftrightarrow> ts_selected s \<noteq> None)"
  by (rule select_target_elim [OF assms]) simp

section \<open>When a selection returns\<close>

definition memory_in_range :: "decimal_value \<Rightarrow> bool" where
  "memory_in_range m \<longleftrightarrow> 0 \<le> m \<and> m \<le> 1000000"

definition catalog_in_range :: "capability_catalog \<Rightarrow> bool" where
  "catalog_in_range cat \<longleftrightarrow>
     (\<forall>c\<in>set (cc_candidates cat).
        memory_in_range (tc_included_memory_gb c) \<and> (\<forall>m\<in>set (tc_supported_memory_gb c). memory_in_range m))"

lemma candidate_key_total:
  assumes "dec_laws A" "tr_source_vcpu q \<noteq> 0" "1 / 1000 \<le> tr_source_memory_gb q"
    "tr_source_memory_gb q \<le> 1000000" "memory_in_range (el_selected_memory_gb e)"
  shows "\<exists>k. candidate_key A q e = Some k"
proof -
  let ?s = "dec_of (tr_source_vcpu q)"
  obtain v where v: "dec_sub A (dec_of (tc_vcores (el_candidate e))) ?s = Some v" "\<bar>v\<bar> \<le> 4294967296"
    using sub_total [OF assms(1) dec_of_nonneg dec_of_u32_le dec_of_nonneg dec_of_u32_le,
        of "tc_vcores (el_candidate e)" "tr_source_vcpu q"] by auto
  have "1 \<le> unat (tr_source_vcpu q)" using assms(2) by (simp add: Suc_le_eq unat_gt_0)
  then have s: "1 \<le> ?s" unfolding dec_of_def by (metis of_nat_1 of_nat_mono)
  then have "\<bar>v / ?s\<bar> \<le> \<bar>v\<bar>" by (simp add: abs_divide divide_le_eq mult_le_cancel_left1)
  then have "\<bar>v / ?s\<bar> \<le> dec_max" using v(2) by (simp add: dec_max_def)
  then obtain vo where vo: "dec_div A v ?s = Some vo" using div_total [OF assms(1)] s by force
  have m0: "0 \<le> el_selected_memory_gb e" "el_selected_memory_gb e \<le> 1000000" "0 \<le> tr_source_memory_gb q"
    using assms(3,5) by (simp_all add: memory_in_range_def)
  obtain m where m: "dec_sub A (el_selected_memory_gb e) (tr_source_memory_gb q) = Some m" "\<bar>m\<bar> \<le> 1000000"
    using sub_total [OF assms(1) m0(1,2,3) assms(4)] by auto
  have "\<bar>m / tr_source_memory_gb q\<bar> = \<bar>m\<bar> / tr_source_memory_gb q" using m0(3) by (simp add: abs_divide)
  also have "\<dots> \<le> 1000000 / (1 / 1000)" using m(2) assms(3) by (intro frac_le) simp_all
  also have "\<dots> \<le> dec_max" by (simp add: dec_max_def)
  finally obtain mo where mo: "dec_div A m (tr_source_memory_gb q) = Some mo"
    using div_total [OF assms(1)] assms(3) by force
  show ?thesis by (simp add: candidate_key_def Let_def v vo m mo)
qed

lemma compare_candidates_total:
  assumes "dec_laws A" "tr_source_vcpu q \<noteq> 0" "1 / 1000 \<le> tr_source_memory_gb q"
    "tr_source_memory_gb q \<le> 1000000"
    "memory_in_range (el_selected_memory_gb l)" "memory_in_range (el_selected_memory_gb r)"
  shows "\<exists>o'. compare_candidates A q l r = Ok o'"
  using candidate_key_total [OF assms(1-4)] assms(5,6) unfolding compare_candidates_keys by blast

lemma eligible_candidates_total:
  assumes "dec_laws A" "tr_source_vcpu q \<noteq> 0" "1 / 1000 \<le> tr_source_memory_gb q"
    "tr_source_memory_gb q \<le> 1000000" "catalog_in_range cat"
  shows "\<exists>xs. eligible_candidates A cat q tier es = Ok xs"
  unfolding eligible_candidates_def
proof (rule try_sort_by_total)
  have *: "memory_in_range (el_selected_memory_gb x)"
    if "x \<in> set (List.map_filter (eligible_of q tier es) (cc_candidates cat))" for x
    using that assms(5)
    by (auto simp: map_filter_set eligible_of_iff candidate_fits_def memory_fits_def catalog_in_range_def)
  fix x y
  assume "x \<in> set (List.map_filter (eligible_of q tier es) (cc_candidates cat))"
    "y \<in> set (List.map_filter (eligible_of q tier es) (cc_candidates cat))"
  then show "\<exists>r. compare_candidates A q x y = Ok r"
    using compare_candidates_total [OF assms(1-4)] * by blast
qed

lemma capacity_candidates_range:
  assumes "catalog_in_range cat" "e \<in> set (capacity_candidates cat q tier)"
  shows "memory_in_range (el_selected_memory_gb e)" "el_candidate e \<in> set (cc_candidates cat)"
proof -
  obtain c where c: "c \<in> set (cc_candidates cat)" "in_scope q tier c" "fallback_of q tier c = Some e"
    using assms(2) by (auto simp: capacity_candidates_def map_filter_set)
  then show "memory_in_range (el_selected_memory_gb e)" "el_candidate e \<in> set (cc_candidates cat)"
    using fallback_of_iff [OF c(2,3)] assms(1) by (auto simp: catalog_in_range_def)
qed

lemma memory_sub_total:
  assumes "dec_laws A" "memory_in_range x" "memory_in_range y"
  shows "\<exists>z. dec_sub A x y = Some z"
proof -
  have "0 \<le> x" "x \<le> 1000000" "0 \<le> y" "y \<le> 1000000" using assms(2,3) by (simp_all add: memory_in_range_def)
  from sub_total [OF assms(1) this] show ?thesis by auto
qed

lemma decimal_distance_total:
  assumes "dec_laws A" "memory_in_range x" "memory_in_range y"
  shows "\<exists>z. decimal_distance A x y = Ok z"
  using memory_sub_total [OF assms] memory_sub_total [OF assms(1,3,2)]
  by (auto simp: decimal_distance_def)

lemma compare_capacity_total:
  assumes "dec_laws A" "memory_in_range (tr_source_memory_gb q)"
    "memory_in_range (el_selected_memory_gb l)" "memory_in_range (el_selected_memory_gb r)"
  shows "\<exists>o'. compare_capacity A q cpu mem l r = (Ok o' :: ('e, ordering) outcome)"
proof -
  obtain dl where "decimal_distance A (el_selected_memory_gb l) (tr_source_memory_gb q) = (Ok dl :: ('e, rat) outcome)"
    using decimal_distance_total [OF assms(1,3,2)] by blast
  moreover obtain dr where "decimal_distance A (el_selected_memory_gb r) (tr_source_memory_gb q) = (Ok dr :: ('e, rat) outcome)"
    using decimal_distance_total [OF assms(1,4,2)] by blast
  ultimately show ?thesis by (simp add: compare_capacity_def Let_def)
qed

lemma closest_capacity_candidate_total:
  assumes "dec_laws A" "memory_in_range (tr_source_memory_gb q)" "catalog_in_range cat"
  shows "\<exists>fb. closest_capacity_candidate A cat q tier es = (Ok fb :: ('e, eligible_candidate option) outcome)"
proof -
  have "\<exists>fb. closest_of A q cpu mem (retain_storage q es (capacity_candidates cat q tier)) =
      (Ok fb :: ('e, eligible_candidate option) outcome)" for cpu mem
  proof -
    have "\<exists>ys. try_sort_by (compare_capacity A q cpu mem)
        (retain_storage q es (capacity_candidates cat q tier)) = (Ok ys :: ('e, _) outcome)"
    proof (rule try_sort_by_total)
      fix x y
      assume "x \<in> set (retain_storage q es (capacity_candidates cat q tier))"
        "y \<in> set (retain_storage q es (capacity_candidates cat q tier))"
      then have "x \<in> set (capacity_candidates cat q tier)" "y \<in> set (capacity_candidates cat q tier)"
        by (auto simp: retain_storage_def split: if_splits)
      then show "\<exists>r. compare_capacity A q cpu mem x y = (Ok r :: ('e, ordering) outcome)"
        using capacity_candidates_range [OF assms(3)] compare_capacity_total [OF assms(1,2)] by blast
    qed
    then show ?thesis by (auto simp: closest_of_def)
  qed
  then show ?thesis by (auto simp: closest_capacity_candidate_def Let_def split: option.split)
qed

lemma selected_target_of_total:
  assumes "dec_laws A" "memory_in_range (el_selected_memory_gb e)"
    "memory_in_range (tc_included_memory_gb (el_candidate e))"
  shows "\<exists>t. selected_target_of A e = Ok t"
proof -
  obtain z where "dec_sub A (el_selected_memory_gb e) (tc_included_memory_gb (el_candidate e)) = Some z"
    using memory_sub_total [OF assms] by blast
  then show ?thesis by (simp add: selected_target_of_def Let_def d_sub_def)
qed

lemma validate_request_Ok:
  "validate_request q = Ok u \<longleftrightarrow>
     tr_source_vcpu q \<noteq> 0 \<and> 0 < tr_source_memory_gb q \<and> 0 \<le> tr_required_storage_gb q"
  by (auto simp: validate_request_def)

lemma select_target_tail_total:
  assumes "dec_laws A" "tr_source_vcpu q \<noteq> 0" "1 / 1000 \<le> tr_source_memory_gb q"
    "tr_source_memory_gb q \<le> 1000000" "catalog_in_range cat"
  shows "\<exists>s. select_target_tail A cat q nggp = Ok s"
proof -
  define tier where "tier = (if tr_source_max_iops q \<le> nggp_iops_limit nggp q
       then NextGenerationGeneralPurpose else BusinessCritical)"
  obtain wo where wo: "eligible_candidates A cat q tier False =
      (Ok wo :: (target_selection_error, eligible_candidate list) outcome)"
    using eligible_candidates_total [OF assms] by blast
  obtain ws where ws: "eligible_candidates A cat q tier True =
      (Ok ws :: (target_selection_error, eligible_candidate list) outcome)"
    using eligible_candidates_total [OF assms] by blast
  have src: "memory_in_range (tr_source_memory_gb q)" using assms(3,4) by (simp add: memory_in_range_def)
  obtain fb where fb: "(if ws = [] then closest_capacity_candidate A cat q tier True else Ok None) =
      (Ok fb :: (target_selection_error, eligible_candidate option) outcome)"
    using closest_capacity_candidate_total [OF assms(1) src assms(5)] by (cases "ws = []") fastforce+
  have sel: "\<exists>sel. (case (case first_of ws of Some e \<Rightarrow> Some e | None \<Rightarrow> fb) of
        None \<Rightarrow> Ok None
      | Some e \<Rightarrow> obind (selected_target_of A e) (\<lambda>t. Ok (Some t))) =
       (Ok sel :: (target_selection_error, selected_target option) outcome)"
  proof (cases "case first_of ws of Some e \<Rightarrow> Some e | None \<Rightarrow> fb")
    case (Some e)
    have e: "el_candidate e \<in> set (cc_candidates cat)"
      "el_selected_memory_gb e \<in> set (tc_supported_memory_gb (el_candidate e))"
    proof -
      have "e \<in> set ws \<or>
          closest_capacity_candidate A cat q tier True = (Ok (Some e) :: (target_selection_error, _) outcome)"
        using Some fb by (cases ws) (auto simp: first_of_def)
      then show "el_candidate e \<in> set (cc_candidates cat)"
        "el_selected_memory_gb e \<in> set (tc_supported_memory_gb (el_candidate e))"
        using eligible_candidates_set [OF ws, of e]
          closest_capacity_candidate_spec(1,5) [where A = A and cat = cat and q = q and e = e]
        by (auto simp: candidate_fits_def memory_fits_def)
    qed
    then obtain t where "selected_target_of A e = (Ok t :: (target_selection_error, _) outcome)"
      using selected_target_of_total [OF assms(1)] assms(5) unfolding catalog_in_range_def by blast
    then show ?thesis using Some by simp
  qed simp
  then show ?thesis
    unfolding select_target_tail_def Let_def tier_def [symmetric] by (auto simp: wo ws fb)
qed

text \<open>
  selection returns for every valid request of at least a thousandth and at most a million GB of
  source memory over a catalog whose memory sizes are at most a million GB: no comparison panics.
\<close>
theorem select_target_total:
  assumes "dec_laws A" "validate_request q = (Ok () :: (target_selection_error, unit) outcome)"
    "1 / 1000 \<le> tr_source_memory_gb q" "tr_source_memory_gb q \<le> 1000000" "catalog_in_range cat"
  shows "\<exists>s. select_target A cat q = Ok s"
proof -
  have v: "tr_source_vcpu q \<noteq> 0" using assms(2) by (simp add: validate_request_Ok)
  obtain n where "eligible_candidates A cat q NextGenerationGeneralPurpose False =
      (Ok n :: (target_selection_error, eligible_candidate list) outcome)"
    using eligible_candidates_total [OF assms(1) v assms(3-5)] by blast
  then show ?thesis
    using select_target_tail_total [OF assms(1) v assms(3-5), of n] assms(2)
    by (simp add: select_target_split)
qed

lemma compare_candidates_tiny:
  assumes "dec_laws A" "tr_source_memory_gb q = dec_new 1 28" "9 \<le> el_selected_memory_gb l"
  shows "compare_candidates A q l r = (Panic :: ('e, ordering) outcome)"
proof -
  have "candidate_key A q l = None"
  proof (cases "dec_sub A (el_selected_memory_gb l) (tr_source_memory_gb q)")
    case (Some m)
    have "8 \<le> m"
    proof (rule rounds_ge)
      show "dec_rounds A (el_selected_memory_gb l - tr_source_memory_gb q) (Some m)"
        using laws_rounds(2) [OF assms(1)] Some by metis
      show "dec_repr A 8" using numeral_repr [OF assms(1)] by simp
      show "8 \<le> el_selected_memory_gb l - tr_source_memory_gb q"
        using assms(2,3) by (simp add: dec_new_def)
    qed
    then have "dec_max + 1 \<le> \<bar>m / tr_source_memory_gb q\<bar>"
      by (simp add: assms(2) dec_new_def dec_max_def)
    then have "dec_div A m (tr_source_memory_gb q) = None"
      by (intro div_overflow [OF assms(1)]) (simp_all add: assms(2) dec_new_def)
    then show ?thesis using Some by (auto simp: candidate_key_def Let_def bind_eq_None_conv)
  qed (auto simp: candidate_key_def Let_def bind_eq_None_conv)
  then have "\<nexists>o'. compare_candidates A q l r = (Ok o' :: ('e, ordering) outcome)"
    by (simp add: compare_candidates_keys)
  then show ?thesis
    by (cases "compare_candidates A q l r :: ('e, ordering) outcome") (auto simp: compare_candidates_no_Err)
qed

text \<open>
  a source memory of 1e-28 GB, which the request and the project validation both admit, makes the
  selection panic as soon as two NGGP configurations of 9 GB or more are eligible: the relative memory
  overage overflows.
\<close>
theorem select_target_tiny_memory_panics:
  assumes "dec_laws A" "validate_request q = (Ok () :: (target_selection_error, unit) outcome)"
    "tr_source_memory_gb q = dec_new 1 28"
    "2 \<le> length (List.map_filter (eligible_of q NextGenerationGeneralPurpose False) (cc_candidates cat))"
    "\<forall>c\<in>set (cc_candidates cat). \<forall>m\<in>set (tc_supported_memory_gb c). 9 \<le> m"
  shows "select_target A cat q = Panic"
proof -
  have "eligible_candidates A cat q NextGenerationGeneralPurpose False =
      (Panic :: (target_selection_error, eligible_candidate list) outcome)"
    unfolding eligible_candidates_def
  proof (rule try_sort_by_stuck [OF _ assms(4)])
    fix x y
    assume "x \<in> set (List.map_filter (eligible_of q NextGenerationGeneralPurpose False) (cc_candidates cat))"
    then have "9 \<le> el_selected_memory_gb x"
      using assms(5) by (auto simp: map_filter_set eligible_of_iff candidate_fits_def memory_fits_def)
    then show "compare_candidates A q x y = (Panic :: (target_selection_error, ordering) outcome)"
      by (rule compare_candidates_tiny [OF assms(1,3)])
  qed
  then show ?thesis using assms(2) by (simp add: select_target_split)
qed

section \<open>The reported evaluations\<close>

interpretation evaluation_order: comparator compare_evaluations
  unfolding compare_evaluations_def [abs_def] by (intro comparator_intros)

lemma evaluation_eligible:
  "in_scope q tier c \<Longrightarrow> ce_eligible (evaluation_of q tier c) \<longleftrightarrow> (\<exists>m. candidate_fits q tier True c m)"
  using evaluate_no_rejection [of q tier c True]
  by (cases "evaluate_candidate c q tier True") (simp add: evaluation_of_def)

text \<open>
  the report lists every catalog candidate of the region and tier exactly once, the eligible ones
  first and each group by ascending vCores, and calls a candidate eligible exactly if it meets the
  declarative capability contract with its storage.
\<close>
theorem candidate_evaluations_report:
  "mset (candidate_evaluations cat q tier) =
     image_mset (evaluation_of q tier) (filter_mset (in_scope q tier) (mset (cc_candidates cat))) \<and>
   sorted_wrt (\<lambda>x y. (ce_eligible y \<longrightarrow> ce_eligible x) \<and>
     (ce_eligible x = ce_eligible y \<longrightarrow> ce_vcores x \<le> ce_vcores y)) (candidate_evaluations cat q tier) \<and>
   (\<forall>c. in_scope q tier c \<longrightarrow>
     (ce_eligible (evaluation_of q tier c) \<longleftrightarrow> (\<exists>m. candidate_fits q tier True c m)))"
proof (intro conjI allI impI)
  show "mset (candidate_evaluations cat q tier) =
     image_mset (evaluation_of q tier) (filter_mset (in_scope q tier) (mset (cc_candidates cat)))"
    by (simp add: candidate_evaluations_def)
  show "sorted_wrt (\<lambda>x y. (ce_eligible y \<longrightarrow> ce_eligible x) \<and>
     (ce_eligible x = ce_eligible y \<longrightarrow> ce_vcores x \<le> ce_vcores y)) (candidate_evaluations cat q tier)"
    unfolding candidate_evaluations_def
    by (rule sorted_wrt_mono_rel [OF _ evaluation_order.sorted_sort_by])
       (auto simp: compare_evaluations_def then_with_iff not_less)
qed (rule evaluation_eligible)

section \<open>Concrete selections\<close>

definition example_candidate :: "string \<Rightarrow> service_tier \<Rightarrow> u32 \<Rightarrow> decimal_value list \<Rightarrow> target_candidate" where
  "example_candidate key tier vcores memory =
     \<lparr>tc_configuration_key = key, tc_azure_region = ''eastus'', tc_service_tier = tier,
      tc_hardware_family = ''Premium Series'', tc_vcores = vcores, tc_zone_redundant = False,
      tc_included_memory_gb = 28, tc_supported_memory_gb = memory, tc_storage_architecture = ''remote'',
      tc_maximum_storage_gb = Some 32768, tc_source_url = '''', tc_reviewed_date = ''''\<rparr>"

definition example_catalog :: capability_catalog where
  "example_catalog =
     \<lparr>cc_schema_version = ''1'',
      cc_candidates =
        [example_candidate ''g8'' NextGenerationGeneralPurpose 8 [28, 56],
         example_candidate ''g4'' NextGenerationGeneralPurpose 4 [28, 48],
         example_candidate ''b8'' BusinessCritical 8 [56]]\<rparr>"

definition example_request :: "u64 \<Rightarrow> decimal_value \<Rightarrow> target_selection_request" where
  "example_request iops memory =
     \<lparr>tr_azure_region = ''eastus'', tr_source_vcpu = 4, tr_source_memory_gb = memory,
      tr_required_storage_gb = 128, tr_source_max_iops = iops, tr_workbook_parity_mode = True\<rparr>"

definition example_g8 :: eligible_candidate where
  "example_g8 =
     \<lparr>el_candidate = example_candidate ''g8'' NextGenerationGeneralPurpose 8 [28, 56],
      el_selected_memory_gb = 56\<rparr>"

definition example_g4 :: eligible_candidate where
  "example_g4 =
     \<lparr>el_candidate = example_candidate ''g4'' NextGenerationGeneralPurpose 4 [28, 48],
      el_selected_memory_gb = 48\<rparr>"

lemma example_eligible:
  "eligible_candidates exact_arith example_catalog (example_request 6400 32)
     NextGenerationGeneralPurpose es =
   (Ok [example_g4, example_g8] :: (target_selection_error, eligible_candidate list) outcome)"
proof -
  have "List.map_filter (eligible_of (example_request 6400 32) NextGenerationGeneralPurpose es)
      (cc_candidates example_catalog) = [example_g8, example_g4]"
    by (cases es; simp only:; code_simp)
  moreover have "compare_candidates exact_arith (example_request 6400 32) example_g8 example_g4 =
      (Ok Greater :: (target_selection_error, ordering) outcome)"
    by code_simp
  ultimately show ?thesis by (simp add: eligible_candidates_def)
qed

lemma example_selection:
  "\<exists>s t. select_target exact_arith example_catalog (example_request 6400 32) = Ok s \<and>
     ts_selected s = Some t \<and> ts_requested_tier s = NextGenerationGeneralPurpose \<and>
     st_configuration_key t = ''g4'' \<and> st_included_memory_gb t = 28 \<and> st_selected_memory_gb t = 48"
proof -
  have "validate_request (example_request 6400 32) = Ok ()"
    by (simp add: validate_request_Ok example_request_def)
  moreover have "tr_source_max_iops (example_request 6400 32)
      \<le> nggp_iops_limit [example_g4, example_g8] (example_request 6400 32)"
    by (simp add: nggp_iops_limit_def first_of_def saturating_mul_def example_g4_def example_candidate_def
        example_request_def NGGP_IOPS_PER_VCORE_def NGGP_MAX_IOPS_def)
  moreover obtain t where "selected_target_of exact_arith example_g4 =
      (Ok t :: (target_selection_error, selected_target) outcome)" "st_configuration_key t = ''g4''"
      "st_included_memory_gb t = 28" "st_selected_memory_gb t = 48"
    by (simp add: selected_target_of_def example_g4_def example_candidate_def exact_arith_eval)
  ultimately show ?thesis
    by (simp add: select_target_split select_target_tail_def example_eligible first_of_def selection_of_def)
qed

theorem select_target_sound_witness:
  "\<exists>s t. select_target exact_arith example_catalog (example_request 6400 32) = Ok s \<and>
     ts_selected s = Some t \<and> st_azure_region t = ''eastus'' \<and>
     (ts_outcome_reasons s = [] \<longleftrightarrow> 4 \<le> st_vcores t \<and> 32 \<le> st_selected_memory_gb t)"
proof -
  obtain s t where s: "select_target exact_arith example_catalog (example_request 6400 32) = Ok s"
    "ts_selected s = Some t" using example_selection by blast
  show ?thesis using select_target_sound [OF s] s by (auto simp: example_request_def)
qed

lemma example_fits:
  "candidate_fits (example_request 6400 32) NextGenerationGeneralPurpose True
     (example_candidate ''g4'' NextGenerationGeneralPurpose 4 [28, 48]) 48"
  by (simp add: candidate_fits_def in_scope_def hardware_fits_def memory_fits_def storage_fits_def
      example_request_def example_candidate_def)

lemma example_six_places: "six_place_memory example_catalog (example_request 6400 32)"
proof -
  have "six_places (of_nat n)" if "n \<le> 1000000" for n :: nat
    using that of_nat_mono [OF that, where 'a = rat] by (auto simp: six_places_def)
  from this [of 28] this [of 32] this [of 48] this [of 56] show ?thesis
    by (simp add: six_place_memory_def example_catalog_def example_request_def example_candidate_def)
qed

theorem select_target_optimal_witness:
  "\<exists>s t c. select_target exact_arith example_catalog (example_request 6400 32) = Ok s \<and>
     ts_selected s = Some t \<and> st_vcores t = tc_vcores c \<and>
     ranks_before c (st_selected_memory_gb t) (example_candidate ''g4'' NextGenerationGeneralPurpose 4 [28, 48]) 48"
proof -
  obtain s where s: "select_target exact_arith example_catalog (example_request 6400 32) = Ok s"
    "ts_requested_tier s = NextGenerationGeneralPurpose" using example_selection by blast
  have g4: "example_candidate ''g4'' NextGenerationGeneralPurpose 4 [28, 48] \<in> set (cc_candidates example_catalog)"
    by (simp add: example_catalog_def)
  from select_target_optimal [OF exact_arith_laws example_six_places s(1) g4, unfolded s(2), OF example_fits]
  obtain c m t where "ts_selected s = Some t" "target_of c m t"
    "ranks_before c m (example_candidate ''g4'' NextGenerationGeneralPurpose 4 [28, 48]) 48"
    using g4 example_fits by blast
  then show ?thesis using s(1) by (auto simp: target_of_def)
qed

theorem select_target_tier_witness:
  "\<exists>s. select_target exact_arith example_catalog (example_request 6400 32) = Ok s \<and>
     (ts_requested_tier s = NextGenerationGeneralPurpose \<longleftrightarrow> 6400 \<le> ts_nggp_iops_limit s)"
proof -
  obtain s where s: "select_target exact_arith example_catalog (example_request 6400 32) = Ok s"
    using example_selection by blast
  show ?thesis using select_target_tier [OF s] s by (auto simp: example_request_def)
qed

lemma example_in_range: "catalog_in_range example_catalog"
  by (simp add: catalog_in_range_def example_catalog_def example_candidate_def memory_in_range_def)

theorem select_target_total_witness:
  "\<exists>s. select_target exact_arith example_catalog (example_request 1000000 32) = Ok s"
  by (rule select_target_total [OF exact_arith_laws _ _ _ example_in_range])
     (simp_all add: validate_request_Ok example_request_def)

theorem select_target_tiny_memory_panics_witness:
  "select_target exact_arith example_catalog (example_request 6400 (dec_new 1 28)) = Panic"
proof (rule select_target_tiny_memory_panics [OF exact_arith_laws])
  show "2 \<le> length (List.map_filter
      (eligible_of (example_request 6400 (dec_new 1 28)) NextGenerationGeneralPurpose False)
      (cc_candidates example_catalog))"
    by code_simp
qed (simp_all add: validate_request_Ok example_request_def example_catalog_def example_candidate_def
       dec_new_def)

theorem candidate_evaluations_report_witness:
  "ce_eligible (evaluation_of (example_request 6400 32) NextGenerationGeneralPurpose
     (example_candidate ''g4'' NextGenerationGeneralPurpose 4 [28, 48]))"
proof -
  have "in_scope (example_request 6400 32) NextGenerationGeneralPurpose
      (example_candidate ''g4'' NextGenerationGeneralPurpose 4 [28, 48])"
    using example_fits by (simp add: candidate_fits_def)
  then show ?thesis
    using candidate_evaluations_report [of example_catalog "example_request 6400 32" NextGenerationGeneralPurpose]
      example_fits by blast
qed

end
