(* ===== verification/VmTargetSelector.thy ===== *)
theory VmTargetSelector
  imports TargetSelector
begin

text \<open>
  \<open>rust/src/calculation/vm_target_selector.rs\<close>: the choice of an Azure virtual machine size and of one
  managed disk per persistent volume. The per-candidate body of the selection loop is
  \<open>evaluate_vm_candidate\<close>; \<open>vm_fits\<close> is its declarative contract. \<open>disk_preference\<close> is the order that
  \<open>prefer_disk\<close> decides and \<open>rank\<close> the order of the eligible sizes; both are interpreted as comparators.
\<close>

datatype vm_lineage = Burstable | GeneralPurpose | MemoryOptimized

datatype vm_lifecycle = Current | Previous

record vm_size_candidate =
  vc_arm_sku_name :: string
  vc_display_family :: string
  vc_lineage :: vm_lineage
  vc_generation :: string
  vc_generation_rank :: u32
  vc_lifecycle :: vm_lifecycle
  vc_azure_region :: string
  vc_cpu_architecture :: string
  vc_windows_eligible :: bool
  vc_vcpus :: u32
  vc_memory_gb :: decimal_value
  vc_max_data_disk_count :: u32
  vc_premium_io :: bool
  vc_uncached_disk_iops :: u64
  vc_uncached_disk_throughput_mbps :: u64
  vc_local_temp_disk_gb :: "decimal_value option"
  vc_source_url :: string
  vc_documentation_url :: string
  vc_reviewed_date :: string

record vm_capability_catalog =
  vcc_schema_version :: string
  vcc_candidates :: "vm_size_candidate list"

record managed_disk_tier =
  dt_tier_key :: string
  dt_capacity_gb :: decimal_value
  dt_provisioned_iops :: u64
  dt_provisioned_throughput_mbps :: decimal_value

record managed_disk_offer =
  do_offer_key :: string
  do_display_name :: string
  do_redundancy :: string
  do_allowed_roles :: "vm_disk_role list"
  do_performance_is_provisioned_independently :: bool
  do_azure_regions :: "string list"
  do_included_iops :: "u64 option"
  do_included_throughput_mbps :: "decimal_value option"
  do_maximum_iops :: u64
  do_maximum_throughput_mbps :: u64
  do_capacity_increment_gb :: "decimal_value option"
  do_minimum_capacity_gb :: "decimal_value option"
  do_maximum_capacity_gb :: decimal_value
  do_tiers :: "managed_disk_tier list"
  do_source_url :: string
  do_reviewed_date :: string

record managed_disk_catalog =
  dc_schema_version :: string
  dc_offers :: "managed_disk_offer list"

datatype source_class =
  ScBurstable | ScGeneralPurpose | ScMemoryOptimized | ScHighFrequencyMemoryOptimized

fun target_lineage :: "source_class \<Rightarrow> vm_lineage" where
  "target_lineage ScBurstable = Burstable"
| "target_lineage ScGeneralPurpose = GeneralPurpose"
| "target_lineage ScMemoryOptimized = MemoryOptimized"
| "target_lineage ScHighFrequencyMemoryOptimized = MemoryOptimized"

fun required_caveat :: "source_class \<Rightarrow> string option" where
  "required_caveat ScBurstable = Some
     ''The source is burstable and maps to the Azure burstable lineage. AWS and Azure CPU-credit models are not claimed to be identical.''"
| "required_caveat ScHighFrequencyMemoryOptimized = Some
     ''The source is a high-frequency instance. This target is a capacity fit on vCPU and memory only; per-core performance equivalence is not claimed and requires review outside this estimate.''"
| "required_caveat ScGeneralPurpose = None"
| "required_caveat ScMemoryOptimized = None"

text \<open>
  The family of an instance type: the lower-case letters its first dot-separated part starts with,
  past leading white space. The trailing white space \<open>trim\<close> also removes holds no letter, so it cannot
  reach the letters taken.
\<close>

definition instance_family :: "string \<Rightarrow> string" where
  "instance_family instance_type =
     takeWhile is_ascii_alphabetic (to_ascii_lowercase
       (map char_of (trim_start_bytes (map byte_of (takeWhile (\<lambda>c. c \<noteq> CHR ''.'') instance_type)))))"

definition classify_source_instance :: "string \<Rightarrow> source_class option" where
  "classify_source_instance instance_type =
     (let family = instance_family instance_type in
      if family = ''t'' then Some ScBurstable
      else if family = ''m'' then Some ScGeneralPurpose
      else if family = ''r'' then Some ScMemoryOptimized
      else if family = ''z'' then Some ScHighFrequencyMemoryOptimized
      else None)"

record vm_volume_requirement =
  vr_volume_id :: uuid
  vr_label :: string
  vr_role :: vm_disk_role
  vr_capacity_gb :: decimal_value
  vr_iops :: u64
  vr_throughput_mbps :: decimal_value

datatype vm_disk_price_dimension = CapacityTier | CapacityGb | AdditionalIops | AdditionalThroughput

record vm_disk_price_key =
  dk_offer_key :: string
  dk_tier_key :: "string option"
  dk_dimension :: vm_disk_price_dimension

record vm_price_availability =
  pa_vm_hourly_rates :: "string \<rightharpoonup> decimal_value"
  pa_managed_disk_dimensions :: "vm_disk_price_key set"

record vm_target_selection_request =
  vq_azure_region :: string
  vq_source_class :: source_class
  vq_minimum_vcpu :: u32
  vq_minimum_memory_gb :: decimal_value
  vq_requires_local_temp_disk :: bool
  vq_minimum_local_temp_disk_gb :: decimal_value
  vq_volumes :: "vm_volume_requirement list"
  vq_requested_target_arm_sku :: "string option"
  vq_price_availability :: "vm_price_availability option"

datatype vm_recommendation_status =
  Recommended | CapacityFitReviewRequired | Incomplete | NoEligibleTarget

record selected_managed_disk =
  sd_volume_id :: uuid
  sd_label :: string
  sd_role :: vm_disk_role
  sd_offer_key :: string
  sd_display_name :: string
  sd_tier_key :: "string option"
  sd_capacity_gb :: decimal_value
  sd_provisioned_iops :: u64
  sd_provisioned_throughput_mbps :: decimal_value
  sd_billed_additional_iops :: u64
  sd_billed_additional_throughput_mbps :: decimal_value

record selected_vm_target =
  vt_arm_sku_name :: string
  vt_display_family :: string
  vt_lineage :: vm_lineage
  vt_generation :: string
  vt_generation_rank :: u32
  vt_lifecycle :: vm_lifecycle
  vt_azure_region :: string
  vt_vcpus :: u32
  vt_memory_gb :: decimal_value
  vt_max_data_disk_count :: u32
  vt_uncached_disk_iops :: u64
  vt_uncached_disk_throughput_mbps :: u64
  vt_local_temp_disk_gb :: "decimal_value option"
  vt_disks :: "selected_managed_disk list"

datatype vm_selection_reason_code =
  VmRegionUnavailable | LineageMismatch | LifecycleIneligible | WindowsUnsupported
| ArchitectureUnsupported | PremiumIoUnsupported | InsufficientVcpu | VmInsufficientMemory
| InsufficientLocalTempDisk | DataDiskCountExceeded | NoEligibleDiskOffer
| AggregateDiskIopsExceeded | AggregateDiskThroughputExceeded | TargetOverrideIneligible
| BurstPolicyReviewRequired | InstanceStoreReviewRequired | EphemeralDataLossIncompatible
| HighFrequencyReviewRequired | VolumeRoleUnconfirmed | PriceUnavailable

record vm_selection_reason =
  vsr_code :: vm_selection_reason_code
  vsr_detail :: fmt_text

record vm_candidate_evaluation =
  ve_arm_sku_name :: string
  ve_vcpus :: u32
  ve_memory_gb :: decimal_value
  ve_eligible :: bool
  ve_rejection_reasons :: "vm_selection_reason list"

record vm_target_selection =
  vs_mapping_status :: mapping_status
  vs_recommendation_status :: vm_recommendation_status
  vs_requested_lineage :: vm_lineage
  vs_selected :: "selected_vm_target option"
  vs_candidates :: "vm_candidate_evaluation list"
  vs_outcome_reasons :: "vm_selection_reason list"

datatype vm_target_selection_error =
  VmInvalidSourceVcpu | VmInvalidSourceMemory | NoVolumes | OsVolumeCount

record evaluated_candidate =
  ec_candidate :: vm_size_candidate
  ec_disks :: "selected_managed_disk list"
  ec_hourly_rate :: "decimal_value option"

definition vm_reason :: "vm_selection_reason_code \<Rightarrow> fmt_text \<Rightarrow> vm_selection_reason" where
  "vm_reason code detail = \<lparr>vsr_code = code, vsr_detail = detail\<rparr>"

definition vm_validate_request ::
  "vm_target_selection_request \<Rightarrow> (vm_target_selection_error, unit) outcome" where
  "vm_validate_request q =
     (if vq_minimum_vcpu q = 0 then Err VmInvalidSourceVcpu
      else if vq_minimum_memory_gb q \<le> 0 then Err VmInvalidSourceMemory
      else if vq_volumes q = [] then Err NoVolumes
      else if length (filter (\<lambda>v. vr_role v = RoleOs) (vq_volumes q)) \<noteq> 1 then Err OsVolumeCount
      else Ok ())"

section \<open>The managed disk of one volume\<close>

definition unwrap_or :: "'a option \<Rightarrow> 'a \<Rightarrow> 'a" where
  "unwrap_or r d = (case r of None \<Rightarrow> d | Some x \<Rightarrow> x)"

text \<open>The next multiple of the increment; a capacity that is a multiple already stays.\<close>

definition round_up_capacity :: "dec_arith \<Rightarrow> rat \<Rightarrow> rat \<Rightarrow> ('e, rat) outcome" where
  "round_up_capacity A capacity increment =
     obind (d_rem A capacity increment) (\<lambda>remainder.
     if 0 < remainder
     then obind (d_sub A increment remainder) (\<lambda>missing. d_add A capacity missing)
     else Ok capacity)"

definition independent_disk ::
  "dec_arith \<Rightarrow> managed_disk_offer \<Rightarrow> vm_volume_requirement \<Rightarrow>
     ('e, selected_managed_disk option) outcome" where
  "independent_disk A offer volume =
     (let minimum = unwrap_or (do_minimum_capacity_gb offer) 0 in
      case do_capacity_increment_gb offer of
        None \<Rightarrow> Ok None
      | Some increment \<Rightarrow>
          if \<not> 0 < increment then Ok None
          else
            obind (round_up_capacity A (max (vr_capacity_gb volume) minimum) increment) (\<lambda>capacity.
            if do_maximum_capacity_gb offer < capacity then Ok None
            else
              (let included_iops = unwrap_or (do_included_iops offer) 0;
                   included_throughput = unwrap_or (do_included_throughput_mbps offer) 0;
                   provisioned_iops = max (vr_iops volume) included_iops;
                   provisioned_throughput = max (vr_throughput_mbps volume) included_throughput
               in
               obind (d_sub A provisioned_throughput included_throughput) (\<lambda>additional.
               Ok (Some
                 \<lparr>sd_volume_id = vr_volume_id volume, sd_label = vr_label volume,
                  sd_role = vr_role volume, sd_offer_key = do_offer_key offer,
                  sd_display_name = do_display_name offer, sd_tier_key = None,
                  sd_capacity_gb = capacity, sd_provisioned_iops = provisioned_iops,
                  sd_provisioned_throughput_mbps = provisioned_throughput,
                  sd_billed_additional_iops = saturating_sub provisioned_iops included_iops,
                  sd_billed_additional_throughput_mbps = max additional 0\<rparr>)))))"

definition tier_fits :: "vm_volume_requirement \<Rightarrow> managed_disk_tier \<Rightarrow> bool" where
  "tier_fits volume tier \<longleftrightarrow>
     vr_capacity_gb volume \<le> dt_capacity_gb tier \<and> vr_iops volume \<le> dt_provisioned_iops tier \<and>
     vr_throughput_mbps volume \<le> dt_provisioned_throughput_mbps tier"

definition compare_tiers :: "managed_disk_tier \<Rightarrow> managed_disk_tier \<Rightarrow> ordering" where
  "compare_tiers left right =
     then_with (cmp (dt_capacity_gb left) (dt_capacity_gb right))
       (cmp (dt_tier_key left) (dt_tier_key right))"

definition tiered_disk ::
  "managed_disk_offer \<Rightarrow> vm_volume_requirement \<Rightarrow> selected_managed_disk option" where
  "tiered_disk offer volume =
     map_option (\<lambda>tier.
       \<lparr>sd_volume_id = vr_volume_id volume, sd_label = vr_label volume, sd_role = vr_role volume,
        sd_offer_key = do_offer_key offer, sd_display_name = do_display_name offer,
        sd_tier_key = Some (dt_tier_key tier), sd_capacity_gb = dt_capacity_gb tier,
        sd_provisioned_iops = dt_provisioned_iops tier,
        sd_provisioned_throughput_mbps = dt_provisioned_throughput_mbps tier,
        sd_billed_additional_iops = 0, sd_billed_additional_throughput_mbps = 0\<rparr>)
       (min_by compare_tiers (filter (tier_fits volume) (do_tiers offer)))"

definition is_independent :: "managed_disk_catalog \<Rightarrow> selected_managed_disk \<Rightarrow> bool" where
  "is_independent catalog disk =
     (case find (\<lambda>offer. do_offer_key offer = sd_offer_key disk) (dc_offers catalog) of
        None \<Rightarrow> False
      | Some offer \<Rightarrow> do_performance_is_provisioned_independently offer)"

definition prefer_disk ::
  "selected_managed_disk \<Rightarrow> selected_managed_disk \<Rightarrow> managed_disk_catalog \<Rightarrow> bool" where
  "prefer_disk candidate current catalog =
     (case cmp (sd_capacity_gb candidate) (sd_capacity_gb current) of
        Less \<Rightarrow> True
      | Greater \<Rightarrow> False
      | Equal \<Rightarrow>
          (case cmp (is_independent catalog candidate) (is_independent catalog current) of
             Greater \<Rightarrow> True
           | Less \<Rightarrow> False
           | Equal \<Rightarrow> sd_offer_key candidate < sd_offer_key current))"

definition offer_applies ::
  "string \<Rightarrow> vm_volume_requirement \<Rightarrow> managed_disk_offer \<Rightarrow> bool" where
  "offer_applies azure_region volume offer \<longleftrightarrow>
     (\<exists>region\<in>set (do_azure_regions offer). eq_ignore_ascii_case region azure_region) \<and>
     vr_role volume \<in> set (do_allowed_roles offer) \<and>
     vr_iops volume \<le> do_maximum_iops offer \<and>
     vr_throughput_mbps volume \<le> dec_of (do_maximum_throughput_mbps offer)"

definition offer_disk ::
  "dec_arith \<Rightarrow> managed_disk_offer \<Rightarrow> vm_volume_requirement \<Rightarrow>
     ('e, selected_managed_disk option) outcome" where
  "offer_disk A offer volume =
     (if do_performance_is_provisioned_independently offer then independent_disk A offer volume
      else Ok (tiered_disk offer volume))"

definition better_disk ::
  "managed_disk_catalog \<Rightarrow> selected_managed_disk option \<Rightarrow> selected_managed_disk option \<Rightarrow>
     selected_managed_disk option" where
  "better_disk catalog best disk =
     (case disk of
        None \<Rightarrow> best
      | Some d \<Rightarrow>
          (case best of
             None \<Rightarrow> Some d
           | Some current \<Rightarrow> if prefer_disk d current catalog then Some d else Some current))"

definition select_disk ::
  "dec_arith \<Rightarrow> managed_disk_catalog \<Rightarrow> string \<Rightarrow> vm_volume_requirement \<Rightarrow>
     ('e, selected_managed_disk option) outcome" where
  "select_disk A catalog azure_region volume =
     try_fold (\<lambda>best offer.
       if \<not> offer_applies azure_region volume offer then Ok best
       else obind (offer_disk A offer volume) (\<lambda>disk. Ok (better_disk catalog best disk)))
       None (dc_offers catalog)"

section \<open>One size of the catalog\<close>

fun lineage_debug :: "vm_lineage \<Rightarrow> string" where
  "lineage_debug Burstable = ''Burstable''"
| "lineage_debug GeneralPurpose = ''GeneralPurpose''"
| "lineage_debug MemoryOptimized = ''MemoryOptimized''"

definition data_disk_count :: "vm_volume_requirement list \<Rightarrow> nat" where
  "data_disk_count volumes = length (filter (\<lambda>v. vr_role v = RoleData) volumes)"

definition reason_if :: "bool \<Rightarrow> vm_selection_reason_code \<Rightarrow> fmt_text \<Rightarrow> vm_selection_reason list" where
  "reason_if b code detail = (if b then [vm_reason code detail] else [])"

definition capability_rejections ::
  "vm_target_selection_request \<Rightarrow> vm_size_candidate \<Rightarrow> vm_selection_reason list" where
  "capability_rejections q c =
     (let sku = ArgStr (vc_arm_sku_name c);
          local = unwrap_or (vc_local_temp_disk_gb c) 0
      in
      reason_if (vc_lifecycle c \<noteq> Current) LifecycleIneligible
        (Fmt ''{} is not a current generation.'' [sku]) @
      reason_if (\<not> vc_windows_eligible c) WindowsUnsupported
        (Fmt ''{} is not Windows eligible.'' [sku]) @
      reason_if (\<not> eq_ignore_ascii_case (vc_cpu_architecture c) ''x64'') ArchitectureUnsupported
        (Fmt ''{} reports architecture {}.'' [sku, ArgStr (vc_cpu_architecture c)]) @
      reason_if (\<not> vc_premium_io c) PremiumIoUnsupported
        (Fmt ''{} does not support Premium I/O.'' [sku]) @
      reason_if (vc_vcpus c < vq_minimum_vcpu q) InsufficientVcpu
        (Fmt ''{} provides {} vCPU against {} required.''
          [sku, ArgInt (unat (vc_vcpus c)), ArgInt (unat (vq_minimum_vcpu q))]) @
      reason_if (vc_memory_gb c < vq_minimum_memory_gb q) VmInsufficientMemory
        (Fmt ''{} provides {} GiB against {} GiB required.''
          [sku, ArgDec (vc_memory_gb c), ArgDec (vq_minimum_memory_gb q)]) @
      reason_if (vq_requires_local_temp_disk q \<and> local < vq_minimum_local_temp_disk_gb q)
        InsufficientLocalTempDisk
        (Fmt ''{} provides {} GiB of local temporary storage against {} GiB required.''
          [sku, ArgDec local, ArgDec (vq_minimum_local_temp_disk_gb q)]) @
      reason_if (unat (vc_max_data_disk_count c) < data_disk_count (vq_volumes q)) DataDiskCountExceeded
        (Fmt ''{} supports {} data disks against {} required.''
          [sku, ArgInt (unat (vc_max_data_disk_count c)), ArgInt (data_disk_count (vq_volumes q))]))"

definition no_offer_rejection ::
  "vm_target_selection_request \<Rightarrow> vm_volume_requirement \<Rightarrow> vm_selection_reason" where
  "no_offer_rejection q v =
     vm_reason NoEligibleDiskOffer
       (Fmt ''No managed disk offer in {} satisfies volume {} at {} GiB, {} IOPS, and {} MB/s.''
         [ArgStr (vq_azure_region q), ArgStr (vr_label v), ArgDec (vr_capacity_gb v),
          ArgInt (unat (vr_iops v)), ArgDec (vr_throughput_mbps v)])"

fun disk_rejections ::
  "vm_target_selection_request \<Rightarrow> vm_volume_requirement list \<Rightarrow> selected_managed_disk option list \<Rightarrow>
     vm_selection_reason list" where
  "disk_rejections q (v # vs) (d # ds) =
     (if d = None then [no_offer_rejection q v] else []) @ disk_rejections q vs ds"
| "disk_rejections q _ _ = []"

text \<open>The sums run over the disks in volume order; the sum of \<open>u64\<close> values wraps.\<close>

definition aggregate_iops :: "selected_managed_disk list \<Rightarrow> u64" where
  "aggregate_iops disks = sum_list (map sd_provisioned_iops disks)"

definition aggregate_rejections ::
  "dec_arith \<Rightarrow> vm_target_selection_request \<Rightarrow> vm_size_candidate \<Rightarrow> selected_managed_disk list \<Rightarrow>
     ('e, vm_selection_reason list) outcome" where
  "aggregate_rejections A q c disks =
     (if length disks \<noteq> length (vq_volumes q) then Ok []
      else
        obind (d_sum A 0 (map sd_provisioned_throughput_mbps disks)) (\<lambda>aggregate_throughput.
        Ok (reason_if (vc_uncached_disk_iops c < aggregate_iops disks) AggregateDiskIopsExceeded
              (Fmt ''{} allows {} uncached disk IOPS against {} required.''
                [ArgStr (vc_arm_sku_name c), ArgInt (unat (vc_uncached_disk_iops c)),
                 ArgInt (unat (aggregate_iops disks))]) @
            reason_if (dec_of (vc_uncached_disk_throughput_mbps c) < aggregate_throughput)
              AggregateDiskThroughputExceeded
              (Fmt ''{} allows {} MB/s of uncached disk throughput against {} MB/s required.''
                [ArgStr (vc_arm_sku_name c), ArgInt (unat (vc_uncached_disk_throughput_mbps c)),
                 ArgDec aggregate_throughput]))))"

definition hourly_rate_of ::
  "vm_target_selection_request \<Rightarrow> vm_size_candidate \<Rightarrow> decimal_value option" where
  "hourly_rate_of q c =
     Option.bind (vq_price_availability q) (\<lambda>availability.
       pa_vm_hourly_rates availability (to_ascii_lowercase (vc_arm_sku_name c)))"

definition managed_disk_price_is_complete ::
  "vm_price_availability \<Rightarrow> selected_managed_disk \<Rightarrow> bool" where
  "managed_disk_price_is_complete availability disk =
     (let contains = (\<lambda>dimension.
        \<lparr>dk_offer_key = sd_offer_key disk, dk_tier_key = sd_tier_key disk, dk_dimension = dimension\<rparr>
          \<in> pa_managed_disk_dimensions availability)
      in if sd_tier_key disk \<noteq> None then contains CapacityTier
         else contains CapacityGb \<and>
           (sd_billed_additional_iops disk = 0 \<or> contains AdditionalIops) \<and>
           (sd_billed_additional_throughput_mbps disk = 0 \<or> contains AdditionalThroughput))"

definition price_rejections ::
  "vm_target_selection_request \<Rightarrow> vm_size_candidate \<Rightarrow> selected_managed_disk list \<Rightarrow>
     vm_selection_reason list" where
  "price_rejections q c disks =
     reason_if (vq_price_availability q \<noteq> None \<and> hourly_rate_of q c = None) PriceUnavailable
       (Fmt ''{} does not have a PAYG VM rate in the coherent target snapshot.''
         [ArgStr (vc_arm_sku_name c)]) @
     (case vq_price_availability q of
        None \<Rightarrow> []
      | Some availability \<Rightarrow>
          concat (map (\<lambda>disk. reason_if (\<not> managed_disk_price_is_complete availability disk) PriceUnavailable
            (Fmt ''Managed disk {} for volume {} is missing a required coherent price dimension.''
              [ArgStr (unwrap_or (sd_tier_key disk) (sd_offer_key disk)), ArgStr (sd_label disk)])) disks))"

definition vm_evaluation ::
  "vm_size_candidate \<Rightarrow> vm_selection_reason list \<Rightarrow> vm_candidate_evaluation" where
  "vm_evaluation c rejection_reasons =
     \<lparr>ve_arm_sku_name = vc_arm_sku_name c, ve_vcpus = vc_vcpus c, ve_memory_gb = vc_memory_gb c,
      ve_eligible = (rejection_reasons = []), ve_rejection_reasons = rejection_reasons\<rparr>"

definition is_requested :: "vm_target_selection_request \<Rightarrow> vm_size_candidate \<Rightarrow> bool" where
  "is_requested q c \<longleftrightarrow>
     (case vq_requested_target_arm_sku q of
        None \<Rightarrow> False | Some requested \<Rightarrow> eq_ignore_ascii_case (vc_arm_sku_name c) requested)"

definition select_disks ::
  "dec_arith \<Rightarrow> managed_disk_catalog \<Rightarrow> vm_target_selection_request \<Rightarrow>
     ('e, selected_managed_disk option list) outcome" where
  "select_disks A disk_catalog q =
     try_map (select_disk A disk_catalog (vq_azure_region q)) (vq_volumes q)"

definition present :: "'a option list \<Rightarrow> 'a list" where
  "present xs = List.map_filter id xs"

definition evaluate_vm_candidate ::
  "dec_arith \<Rightarrow> managed_disk_catalog \<Rightarrow> vm_target_selection_request \<Rightarrow> vm_size_candidate \<Rightarrow>
     ('e, vm_candidate_evaluation option \<times> evaluated_candidate option) outcome" where
  "evaluate_vm_candidate A disk_catalog q c =
     (let requested_lineage = target_lineage (vq_source_class q) in
      if \<not> eq_ignore_ascii_case (vc_azure_region c) (vq_azure_region q) then Ok (None, None)
      else if vc_lineage c \<noteq> requested_lineage then
        Ok (if is_requested q c
            then Some (vm_evaluation c [vm_reason LineageMismatch
                   (Fmt ''{} is not in the required {requested_lineage:?} lineage.''
                     [ArgStr (vc_arm_sku_name c), ArgStr (lineage_debug requested_lineage)])])
            else None, None)
      else
        obind (select_disks A disk_catalog q) (\<lambda>selections.
        let disks = present selections in
        obind (aggregate_rejections A q c disks) (\<lambda>aggregate_reasons.
        let rejection_reasons =
              capability_rejections q c @ disk_rejections q (vq_volumes q) selections @
              aggregate_reasons @ price_rejections q c disks
        in
        Ok (Some (vm_evaluation c rejection_reasons),
            if rejection_reasons = []
            then Some \<lparr>ec_candidate = c, ec_disks = disks, ec_hourly_rate = hourly_rate_of q c\<rparr>
            else None))))"

section \<open>Ranking and selection\<close>

definition lifecycle_rank :: "vm_size_candidate \<Rightarrow> u8" where
  "lifecycle_rank c = (case vc_lifecycle c of Current \<Rightarrow> 0 | Previous \<Rightarrow> 1)"

definition disk_capacity :: "dec_arith \<Rightarrow> evaluated_candidate \<Rightarrow> ('e, rat) outcome" where
  "disk_capacity A e = d_sum A 0 (map sd_capacity_gb (ec_disks e))"

definition size_order :: "evaluated_candidate \<Rightarrow> evaluated_candidate \<Rightarrow> ordering" where
  "size_order left right =
     then_with (cmp (lifecycle_rank (ec_candidate left)) (lifecycle_rank (ec_candidate right)))
       (then_with (cmp (vc_generation_rank (ec_candidate right)) (vc_generation_rank (ec_candidate left)))
       (then_with (cmp (vc_vcpus (ec_candidate left)) (vc_vcpus (ec_candidate right)))
         (cmp (vc_memory_gb (ec_candidate left)) (vc_memory_gb (ec_candidate right)))))"

text \<open>The capacities are summed only where the sizes tie.\<close>

definition rank ::
  "dec_arith \<Rightarrow> evaluated_candidate \<Rightarrow> evaluated_candidate \<Rightarrow> ('e, ordering) outcome" where
  "rank A left right =
     (if size_order left right \<noteq> Equal then Ok (size_order left right)
      else
        obind (disk_capacity A left) (\<lambda>left_capacity.
        obind (disk_capacity A right) (\<lambda>right_capacity.
        Ok (then_with (cmp left_capacity right_capacity)
          (then_with (cmp_option (ec_hourly_rate left) (ec_hourly_rate right))
            (cmp (vc_arm_sku_name (ec_candidate left)) (vc_arm_sku_name (ec_candidate right))))))))"

definition selected_vm_target_of :: "evaluated_candidate \<Rightarrow> selected_vm_target" where
  "selected_vm_target_of best =
     (let c = ec_candidate best in
      \<lparr>vt_arm_sku_name = vc_arm_sku_name c, vt_display_family = vc_display_family c,
       vt_lineage = vc_lineage c, vt_generation = vc_generation c,
       vt_generation_rank = vc_generation_rank c, vt_lifecycle = vc_lifecycle c,
       vt_azure_region = vc_azure_region c, vt_vcpus = vc_vcpus c, vt_memory_gb = vc_memory_gb c,
       vt_max_data_disk_count = vc_max_data_disk_count c,
       vt_uncached_disk_iops = vc_uncached_disk_iops c,
       vt_uncached_disk_throughput_mbps = vc_uncached_disk_throughput_mbps c,
       vt_local_temp_disk_gb = vc_local_temp_disk_gb c, vt_disks = ec_disks best\<rparr>)"

definition no_target_reason :: "vm_target_selection_request \<Rightarrow> vm_selection_reason" where
  "no_target_reason q =
     (case vq_requested_target_arm_sku q of
        Some requested \<Rightarrow>
          vm_reason TargetOverrideIneligible
            (Fmt ''Requested target {requested} is absent or fails the reviewed region, lineage, lifecycle, compute, local-storage, or managed-disk requirements.''
              [ArgStr requested])
      | None \<Rightarrow>
          vm_reason LineageMismatch
            (Fmt ''No current {requested_lineage:?} size in {} satisfies the vCPU, memory, disk, and aggregate limits.''
              [ArgStr (lineage_debug (target_lineage (vq_source_class q))), ArgStr (vq_azure_region q)]))"

definition best_candidate ::
  "dec_arith \<Rightarrow> vm_target_selection_request \<Rightarrow> evaluated_candidate list \<Rightarrow>
     ('e, evaluated_candidate option) outcome" where
  "best_candidate A q eligible =
     (case vq_requested_target_arm_sku q of
        Some requested \<Rightarrow>
          Ok (find (\<lambda>e. eq_ignore_ascii_case (vc_arm_sku_name (ec_candidate e)) requested) eligible)
      | None \<Rightarrow> try_min_by (rank A) eligible)"

definition select_vm_target ::
  "dec_arith \<Rightarrow> vm_capability_catalog \<Rightarrow> managed_disk_catalog \<Rightarrow> vm_target_selection_request \<Rightarrow>
     (vm_target_selection_error, vm_target_selection) outcome" where
  "select_vm_target A vm_catalog disk_catalog q =
     obind (vm_validate_request q) (\<lambda>_.
     obind (try_map (evaluate_vm_candidate A disk_catalog q) (vcc_candidates vm_catalog)) (\<lambda>results.
     let evaluations =
           sort_by (\<lambda>l r. cmp (ve_arm_sku_name l) (ve_arm_sku_name r)) (present (map fst results))
     in
     obind (best_candidate A q (present (map snd results))) (\<lambda>best.
     Ok (case best of
           None \<Rightarrow>
             \<lparr>vs_mapping_status = NoMapping, vs_recommendation_status = NoEligibleTarget,
              vs_requested_lineage = target_lineage (vq_source_class q), vs_selected = None,
              vs_candidates = evaluations, vs_outcome_reasons = [no_target_reason q]\<rparr>
         | Some b \<Rightarrow>
             \<lparr>vs_mapping_status = Mapped, vs_recommendation_status = Recommended,
              vs_requested_lineage = target_lineage (vq_source_class q),
              vs_selected = Some (selected_vm_target_of b),
              vs_candidates = evaluations, vs_outcome_reasons = []\<rparr>))))"

lemma present_set [simp]: "x \<in> set (present xs) \<longleftrightarrow> Some x \<in> set xs"
  by (auto simp: present_def map_filter_set)

lemma present_Nil [simp]: "present [] = []"
  by (simp add: present_def List.map_filter_def)

lemma present_Cons [simp]:
  "present (x # xs) = (case x of None \<Rightarrow> present xs | Some y \<Rightarrow> y # present xs)"
  by (auto simp: present_def List.map_filter_def split: option.split)

lemma length_present_le: "length (present xs) \<le> length xs"
  by (simp add: present_def List.map_filter_def)

section \<open>The preferred disk\<close>

definition disk_preference ::
  "managed_disk_catalog \<Rightarrow> selected_managed_disk \<Rightarrow> selected_managed_disk \<Rightarrow> ordering" where
  "disk_preference catalog d d' =
     then_with (cmp (sd_capacity_gb d) (sd_capacity_gb d'))
       (then_with (cmp (is_independent catalog d') (is_independent catalog d))
         (cmp (sd_offer_key d) (sd_offer_key d')))"

lemma prefer_disk_iff: "prefer_disk d d' catalog \<longleftrightarrow> disk_preference catalog d d' = Less"
  by (auto simp: prefer_disk_def disk_preference_def then_with_iff split: ordering.splits)

interpretation disk_order: comparator "disk_preference catalog" for catalog
  unfolding disk_preference_def [abs_def] by (intro comparator_intros)

definition covers ::
  "managed_disk_catalog \<Rightarrow> selected_managed_disk option \<Rightarrow> selected_managed_disk option \<Rightarrow> bool" where
  "covers catalog r b \<longleftrightarrow>
     (\<forall>d'. b = Some d' \<longrightarrow> (\<exists>d. r = Some d \<and> disk_preference catalog d d' \<noteq> Greater))"

lemma covers_refl: "covers catalog r r"
  by (simp add: covers_def disk_order.c_refl)

lemma covers_None [simp]: "covers catalog r None"
  by (simp add: covers_def)

lemma covers_trans: "covers catalog r b \<Longrightarrow> covers catalog b a \<Longrightarrow> covers catalog r a"
proof (cases a)
  case (Some x)
  assume "covers catalog r b" "covers catalog b a"
  then obtain y where y: "b = Some y" "disk_preference catalog y x \<noteq> Greater" "covers catalog r (Some y)"
    using Some by (auto simp: covers_def)
  then obtain z where "r = Some z" "disk_preference catalog z y \<noteq> Greater" by (auto simp: covers_def)
  then show ?thesis using y(2) Some disk_order.c_trans by (auto simp: covers_def)
qed simp

lemma better_disk_covers:
  "covers catalog (better_disk catalog best disk) best \<and> covers catalog (better_disk catalog best disk) disk"
proof (cases disk)
  case None
  then show ?thesis by (simp add: better_disk_def covers_refl)
next
  case (Some d)
  note disk = this
  show ?thesis
  proof (cases best)
    case None
    then show ?thesis by (simp add: disk better_disk_def covers_refl)
  next
    case (Some b)
    have "disk_preference catalog d b = Less \<Longrightarrow> disk_preference catalog d b \<noteq> Greater" by simp
    moreover have "disk_preference catalog d b \<noteq> Less \<Longrightarrow> disk_preference catalog b d \<noteq> Greater"
      using disk_order.c_flip by metis
    ultimately show ?thesis
      by (simp add: disk Some better_disk_def prefer_disk_iff covers_def disk_order.c_refl)
  qed
qed

lemma better_disk_in: "better_disk catalog best disk \<in> {best, disk}"
  by (auto simp: better_disk_def split: option.split)

definition disk_step ::
  "dec_arith \<Rightarrow> managed_disk_catalog \<Rightarrow> string \<Rightarrow> vm_volume_requirement \<Rightarrow>
   selected_managed_disk option \<Rightarrow> managed_disk_offer \<Rightarrow> ('e, selected_managed_disk option) outcome" where
  "disk_step A catalog region v best offer =
     (if \<not> offer_applies region v offer then Ok best
      else obind (offer_disk A offer v) (\<lambda>disk. Ok (better_disk catalog best disk)))"

lemma select_disk_steps:
  "select_disk A catalog region v = try_fold (disk_step A catalog region v) None (dc_offers catalog)"
  by (simp add: select_disk_def disk_step_def [abs_def])

lemma disk_step_Ok:
  assumes "disk_step A catalog region v best offer = (Ok r :: ('e, selected_managed_disk option) outcome)"
  shows "covers catalog r best"
    "offer_applies region v offer \<Longrightarrow>
       \<exists>od. offer_disk A offer v = (Ok od :: ('e, selected_managed_disk option) outcome) \<and> covers catalog r od"
    "r = best \<or> offer_applies region v offer \<and>
       offer_disk A offer v = (Ok r :: ('e, selected_managed_disk option) outcome)"
proof -
  show "covers catalog r best"
    using assms better_disk_covers covers_refl by (auto simp: disk_step_def obind_Ok_iff split: if_splits)
  show "\<exists>od. offer_disk A offer v = (Ok od :: ('e, selected_managed_disk option) outcome) \<and> covers catalog r od"
    if "offer_applies region v offer"
    using assms that better_disk_covers by (auto simp: disk_step_def obind_Ok_iff)
  show "r = best \<or> offer_applies region v offer \<and>
       offer_disk A offer v = (Ok r :: ('e, selected_managed_disk option) outcome)"
  proof (cases "offer_applies region v offer")
    case True
    then obtain od where "offer_disk A offer v = (Ok od :: ('e, selected_managed_disk option) outcome)"
      "r = better_disk catalog best od"
      using assms by (auto simp: disk_step_def obind_Ok_iff)
    then show ?thesis using True better_disk_in [of catalog best od] by auto
  qed (use assms in \<open>simp add: disk_step_def\<close>)
qed

lemma disk_steps_covers:
  assumes "try_fold (disk_step A catalog region v) best offers =
      (Ok r :: ('e, selected_managed_disk option) outcome)"
  shows "covers catalog r best"
  using assms
proof (induction offers arbitrary: best)
  case (Cons offer offers)
  then obtain b where b: "disk_step A catalog region v best offer = (Ok b :: ('e, _) outcome)"
    "covers catalog r b" by (auto simp: obind_Ok_iff)
  then show ?case using disk_step_Ok(1) [OF b(1)] covers_trans by blast
qed (simp add: covers_refl)

lemma disk_steps_in:
  assumes "try_fold (disk_step A catalog region v) best offers =
      (Ok r :: ('e, selected_managed_disk option) outcome)"
  shows "r = best \<or> (\<exists>offer\<in>set offers. offer_applies region v offer \<and>
           offer_disk A offer v = (Ok r :: ('e, selected_managed_disk option) outcome))"
  using assms
proof (induction offers arbitrary: best)
  case (Cons offer offers)
  then obtain b where b: "disk_step A catalog region v best offer = (Ok b :: ('e, _) outcome)"
    "try_fold (disk_step A catalog region v) b offers = (Ok r :: ('e, _) outcome)" by (auto simp: obind_Ok_iff)
  from Cons.IH [OF b(2)] disk_step_Ok(3) [OF b(1)] show ?case by auto
qed simp

lemma disk_steps_all:
  assumes "try_fold (disk_step A catalog region v) best offers =
      (Ok r :: ('e, selected_managed_disk option) outcome)" "offer \<in> set offers" "offer_applies region v offer"
  shows "\<exists>od. offer_disk A offer v = (Ok od :: ('e, selected_managed_disk option) outcome) \<and> covers catalog r od"
  using assms
proof (induction offers arbitrary: best)
  case (Cons o' offers)
  then obtain b where b: "disk_step A catalog region v best o' = (Ok b :: ('e, _) outcome)"
    "try_fold (disk_step A catalog region v) b offers = (Ok r :: ('e, _) outcome)" by (auto simp: obind_Ok_iff)
  show ?case
  proof (cases "offer \<in> set offers")
    case True
    then show ?thesis using Cons.IH [OF b(2)] Cons.prems(3) by blast
  next
    case False
    then have "o' = offer" using Cons.prems(2) by simp
    then show ?thesis
      using disk_step_Ok(2) [OF b(1)] Cons.prems(3) disk_steps_covers [OF b(2)] covers_trans by blast
  qed
qed simp

lemma select_disk_Some:
  assumes "select_disk A catalog region v = (Ok (Some d) :: ('e, selected_managed_disk option) outcome)"
  obtains offer where "offer \<in> set (dc_offers catalog)" "offer_applies region v offer"
    "offer_disk A offer v = (Ok (Some d) :: ('e, selected_managed_disk option) outcome)"
    "\<And>o' b. o' \<in> set (dc_offers catalog) \<Longrightarrow> offer_applies region v o' \<Longrightarrow>
       offer_disk A o' v = (Ok (Some b) :: ('e, selected_managed_disk option) outcome) \<Longrightarrow>
       disk_preference catalog d b \<noteq> Greater"
proof -
  note steps = assms [unfolded select_disk_steps]
  have "\<exists>offer\<in>set (dc_offers catalog). offer_applies region v offer \<and>
      offer_disk A offer v = (Ok (Some d) :: ('e, selected_managed_disk option) outcome)"
    using disk_steps_in [OF steps] by simp
  moreover have "disk_preference catalog d b \<noteq> Greater"
    if "o' \<in> set (dc_offers catalog)" "offer_applies region v o'"
      "offer_disk A o' v = (Ok (Some b) :: ('e, selected_managed_disk option) outcome)" for o' b
    using disk_steps_all [OF steps that(1,2)] that(3) by (simp add: covers_def)
  ultimately show thesis using that by blast
qed

lemma select_disk_None:
  assumes "select_disk A catalog region v = (Ok None :: ('e, selected_managed_disk option) outcome)"
    "o' \<in> set (dc_offers catalog)" "offer_applies region v o'"
  shows "offer_disk A o' v = (Ok None :: ('e, selected_managed_disk option) outcome)"
  using disk_steps_all [OF assms(1) [unfolded select_disk_steps] assms(2,3)] by (auto simp: covers_def)

lemma round_up_capacity_ge:
  assumes "dec_laws A" "dec_repr A capacity" "dec_repr A increment" "0 < increment" "0 \<le> capacity"
    "round_up_capacity A capacity increment = Ok c"
  shows "capacity \<le> c"
proof -
  have rem: "dec_rem A capacity increment = Some (capacity - increment * of_int (rat_trunc (capacity / increment)))"
    using rem_of [OF assms(1-3)] assms(4) by simp
  have fl: "rat_trunc (capacity / increment) = \<lfloor>capacity / increment\<rfloor>"
    using assms(4,5) by (simp add: rat_trunc_def)
  define r where "r = capacity - increment * of_int (rat_trunc (capacity / increment))"
  have "capacity / increment < of_int \<lfloor>capacity / increment\<rfloor> + 1" by linarith
  then have "capacity < increment * (of_int \<lfloor>capacity / increment\<rfloor> + 1)"
    using assms(4) by (simp add: divide_less_eq mult.commute)
  then have r: "r \<le> increment" unfolding r_def fl by (simp add: algebra_simps)
  show ?thesis
  proof (cases "0 < r")
    case True
    then obtain m where m: "dec_sub A increment r = Some m" "dec_add A capacity m = Some c"
      using assms(6) rem by (auto simp: round_up_capacity_def obind_Ok_iff r_def [symmetric])
    have "0 \<le> m" by (rule sub_nonneg [OF assms(1) m(1) r])
    then show ?thesis using add_upper(1) [OF assms(1) m(2) assms(2)] by simp
  next
    case False
    then show ?thesis using assms(6) rem by (simp add: round_up_capacity_def d_rem_def r_def [symmetric])
  qed
qed


definition disk_serves :: "vm_volume_requirement \<Rightarrow> selected_managed_disk \<Rightarrow> bool" where
  "disk_serves v d \<longleftrightarrow>
     sd_volume_id d = vr_volume_id v \<and> sd_role d = vr_role v \<and>
     vr_capacity_gb v \<le> sd_capacity_gb d \<and> vr_iops v \<le> sd_provisioned_iops d \<and>
     vr_throughput_mbps v \<le> sd_provisioned_throughput_mbps d"

definition offer_values_ok :: "dec_arith \<Rightarrow> managed_disk_offer \<Rightarrow> bool" where
  "offer_values_ok A o' \<longleftrightarrow>
     (\<forall>i. do_capacity_increment_gb o' = Some i \<longrightarrow> dec_repr A i) \<and>
     (\<forall>m. do_minimum_capacity_gb o' = Some m \<longrightarrow> dec_repr A m)"

lemma tiered_disk_serves: "tiered_disk offer v = Some d \<Longrightarrow> disk_serves v d"
proof -
  assume "tiered_disk offer v = Some d"
  then obtain t where t: "min_by compare_tiers (filter (tier_fits v) (do_tiers offer)) = Some t"
    "sd_volume_id d = vr_volume_id v" "sd_role d = vr_role v" "sd_capacity_gb d = dt_capacity_gb t"
    "sd_provisioned_iops d = dt_provisioned_iops t"
    "sd_provisioned_throughput_mbps d = dt_provisioned_throughput_mbps t"
    unfolding tiered_disk_def map_option_eq_Some by force
  have "tier_fits v t" using min_by_in [OF t(1)] by simp
  then show ?thesis by (simp add: t disk_serves_def tier_fits_def)
qed

lemma independent_disk_serves:
  assumes "dec_laws A" "offer_values_ok A offer" "dec_repr A (vr_capacity_gb v)" "0 \<le> vr_capacity_gb v"
    "independent_disk A offer v = Ok (Some d)"
  shows "disk_serves v d" "sd_capacity_gb d \<le> do_maximum_capacity_gb offer"
proof -
  obtain i where i: "do_capacity_increment_gb offer = Some i" "0 < i"
    using assms(5) by (auto simp: independent_disk_def Let_def split: option.splits if_splits)
  let ?need = "max (vr_capacity_gb v) (unwrap_or (do_minimum_capacity_gb offer) 0)"
  have d: "round_up_capacity A ?need i = (Ok (sd_capacity_gb d) :: ('a, rat) outcome)"
    "sd_capacity_gb d \<le> do_maximum_capacity_gb offer"
    "sd_volume_id d = vr_volume_id v" "sd_role d = vr_role v"
    "sd_provisioned_iops d = max (vr_iops v) (unwrap_or (do_included_iops offer) 0)"
    "sd_provisioned_throughput_mbps d =
      max (vr_throughput_mbps v) (unwrap_or (do_included_throughput_mbps offer) 0)"
    using assms(5) i by (auto simp: independent_disk_def Let_def obind_Ok_iff not_less split: if_splits)
  have "dec_repr A ?need"
    using assms(1-3) by (auto simp: max_def unwrap_or_def offer_values_ok_def split: option.split)
  moreover have "dec_repr A i" using assms(2) i by (simp add: offer_values_ok_def)
  moreover have "0 \<le> ?need" using assms(4) by simp
  ultimately have "?need \<le> sd_capacity_gb d"
    using round_up_capacity_ge [OF assms(1) _ _ i(2) _ d(1)] by blast
  then show "disk_serves v d" using d by (simp add: disk_serves_def)
  show "sd_capacity_gb d \<le> do_maximum_capacity_gb offer" by (rule d)
qed

lemma offer_disk_serves:
  assumes "dec_laws A" "offer_values_ok A offer" "dec_repr A (vr_capacity_gb v)" "0 \<le> vr_capacity_gb v"
    "offer_disk A offer v = Ok (Some d)"
  shows "disk_serves v d"
  using assms tiered_disk_serves independent_disk_serves(1) [OF assms(1-4)]
  by (auto simp: offer_disk_def split: if_splits)

text \<open>
  the managed disk chosen for a volume belongs to an offer of the region that allows the volume's
  role, provides at least its capacity, IOPS and throughput, and is the first of all applicable
  offers' disks by capacity, then by independently provisioned performance, then by offer key.
\<close>
theorem select_disk_sound:
  assumes "dec_laws A" "\<forall>o'\<in>set (dc_offers catalog). offer_values_ok A o'"
    and "dec_repr A (vr_capacity_gb v)" "0 \<le> vr_capacity_gb v"
    and "select_disk A catalog region v =
      (Ok (Some d) :: (vm_target_selection_error, selected_managed_disk option) outcome)"
  shows "disk_serves v d \<and>
    (\<exists>o'\<in>set (dc_offers catalog). offer_applies region v o' \<and>
       offer_disk A o' v = (Ok (Some d) :: (vm_target_selection_error, selected_managed_disk option) outcome)) \<and>
    (\<forall>o'\<in>set (dc_offers catalog). \<forall>b. offer_applies region v o' \<and>
       offer_disk A o' v = (Ok (Some b) :: (vm_target_selection_error, selected_managed_disk option) outcome) \<longrightarrow>
       sd_capacity_gb d \<le> sd_capacity_gb b \<and>
       (sd_capacity_gb d = sd_capacity_gb b \<and> is_independent catalog d = is_independent catalog b \<longrightarrow>
          sd_offer_key d \<le> sd_offer_key b))"
proof -
  obtain offer where o1: "offer \<in> set (dc_offers catalog)" "offer_applies region v offer"
    "offer_disk A offer v = (Ok (Some d) :: (vm_target_selection_error, selected_managed_disk option) outcome)"
    and best: "\<And>o' b. o' \<in> set (dc_offers catalog) \<Longrightarrow> offer_applies region v o' \<Longrightarrow>
       offer_disk A o' v = (Ok (Some b) :: (vm_target_selection_error, selected_managed_disk option) outcome) \<Longrightarrow>
       disk_preference catalog d b \<noteq> Greater"
    by (rule select_disk_Some [OF assms(5)]) blast
  have "disk_serves v d" using offer_disk_serves [OF assms(1) _ assms(3,4) o1(3)] assms(2) o1(1) by blast
  moreover have "sd_capacity_gb d \<le> sd_capacity_gb b \<and>
       (sd_capacity_gb d = sd_capacity_gb b \<and> is_independent catalog d = is_independent catalog b \<longrightarrow>
          sd_offer_key d \<le> sd_offer_key b)" if "disk_preference catalog d b \<noteq> Greater" for b
    using that by (auto simp: disk_preference_def then_with_iff not_less)
  ultimately show ?thesis using o1 best by blast
qed

text \<open>
  no disk is chosen only where every applicable offer lacks a fitting tier, provisions no capacity
  in increments, or cannot reach the rounded-up capacity.
\<close>
theorem select_disk_complete:
  assumes "select_disk A catalog region v =
      (Ok None :: (vm_target_selection_error, selected_managed_disk option) outcome)"
    and "o' \<in> set (dc_offers catalog)" "offer_applies region v o'"
  shows "if do_performance_is_provisioned_independently o'
    then (\<forall>i c. do_capacity_increment_gb o' = Some i \<and> 0 < i \<and>
        round_up_capacity A (max (vr_capacity_gb v) (unwrap_or (do_minimum_capacity_gb o') 0)) i =
          (Ok c :: (vm_target_selection_error, rat) outcome) \<longrightarrow> do_maximum_capacity_gb o' < c)
    else (\<forall>t\<in>set (do_tiers o'). \<not> tier_fits v t)"
proof -
  have none: "offer_disk A o' v = (Ok None :: (vm_target_selection_error, selected_managed_disk option) outcome)"
    by (rule select_disk_None [OF assms])
  show ?thesis
  proof (cases "do_performance_is_provisioned_independently o'")
    case True
    then show ?thesis using none
      by (auto simp: offer_disk_def independent_disk_def Let_def obind_Ok_iff split: if_splits)
  next
    case False
    then show ?thesis using none by (auto simp: offer_disk_def tiered_disk_def filter_empty_conv)
  qed
qed


text \<open>
  the capacity of an independently provisioned disk is rounded up to the least multiple of the
  offer's increment, wherever the crate can hold that multiple and its distance to the capacity.
\<close>
theorem round_up_capacity_least:
  assumes "dec_laws A" "dec_repr A capacity" "dec_repr A increment" "0 < increment" "0 \<le> capacity"
    and "dec_repr A (increment * of_int \<lceil>capacity / increment\<rceil>)"
    and "dec_repr A (increment * of_int \<lceil>capacity / increment\<rceil> - capacity)"
  shows "round_up_capacity A capacity increment =
      (Ok (increment * of_int \<lceil>capacity / increment\<rceil>) :: (vm_target_selection_error, rat) outcome)"
proof -
  define q where "q = capacity / increment"
  have cap: "capacity = increment * q" using assms(4) by (simp add: q_def)
  have fl: "rat_trunc q = \<lfloor>q\<rfloor>" using assms(4,5) by (simp add: rat_trunc_def q_def)
  have rem: "dec_rem A capacity increment = Some (increment * (q - of_int \<lfloor>q\<rfloor>))"
    using rem_of [OF assms(1-3)] assms(4) by (simp add: q_def [symmetric] fl) (simp add: cap algebra_simps)
  show ?thesis
  proof (cases "0 < increment * (q - of_int \<lfloor>q\<rfloor>)")
    case True
    then have "of_int \<lfloor>q\<rfloor> < q" using assms(4) by (simp add: zero_less_mult_iff)
    then have up: "\<lceil>q\<rceil> = \<lfloor>q\<rfloor> + 1" by linarith
    have e: "increment - increment * (q - of_int \<lfloor>q\<rfloor>) = increment * of_int \<lceil>q\<rceil> - capacity"
      by (simp add: up cap algebra_simps)
    have "dec_sub A increment (increment * (q - of_int \<lfloor>q\<rfloor>)) = Some (increment * of_int \<lceil>q\<rceil> - capacity)"
      using ops_exact(2) [OF assms(1), of increment] assms(7) by (metis e q_def)
    moreover have "dec_add A capacity (increment * of_int \<lceil>q\<rceil> - capacity) = Some (increment * of_int \<lceil>q\<rceil>)"
      using ops_exact(1) [OF assms(1), of capacity "increment * of_int \<lceil>q\<rceil> - capacity"] assms(6)
      by (simp add: q_def)
    ultimately show ?thesis using rem True
      by (simp add: round_up_capacity_def d_rem_def d_sub_def d_add_def q_def)
  next
    case False
    then have "q \<le> of_int \<lfloor>q\<rfloor>" using assms(4) by (simp add: zero_less_mult_iff not_less)
    then have "q = of_int \<lfloor>q\<rfloor>" using of_int_floor_le [of q] by (rule antisym)
    then have "increment * of_int \<lceil>q\<rceil> = capacity" using cap by (metis ceiling_of_int)
    then show ?thesis using rem False by (simp add: round_up_capacity_def d_rem_def q_def)
  qed
qed

section \<open>The contract of one size\<close>

definition capabilities_fit :: "vm_target_selection_request \<Rightarrow> vm_size_candidate \<Rightarrow> bool" where
  "capabilities_fit q c \<longleftrightarrow>
     vc_lifecycle c = Current \<and> vc_windows_eligible c \<and>
     eq_ignore_ascii_case (vc_cpu_architecture c) ''x64'' \<and> vc_premium_io c \<and>
     vq_minimum_vcpu q \<le> vc_vcpus c \<and> vq_minimum_memory_gb q \<le> vc_memory_gb c \<and>
     (vq_requires_local_temp_disk q \<longrightarrow>
        vq_minimum_local_temp_disk_gb q \<le> unwrap_or (vc_local_temp_disk_gb c) 0) \<and>
     data_disk_count (vq_volumes q) \<le> unat (vc_max_data_disk_count c)"

definition aggregates_fit ::
  "dec_arith \<Rightarrow> vm_size_candidate \<Rightarrow> selected_managed_disk list \<Rightarrow> bool" where
  "aggregates_fit A c disks \<longleftrightarrow>
     aggregate_iops disks \<le> vc_uncached_disk_iops c \<and>
     (\<forall>t. dec_sum A 0 (map sd_provisioned_throughput_mbps disks) = Some t \<longrightarrow>
        t \<le> dec_of (vc_uncached_disk_throughput_mbps c))"

definition prices_complete ::
  "vm_target_selection_request \<Rightarrow> vm_size_candidate \<Rightarrow> selected_managed_disk list \<Rightarrow> bool" where
  "prices_complete q c disks \<longleftrightarrow>
     (\<forall>availability. vq_price_availability q = Some availability \<longrightarrow>
        hourly_rate_of q c \<noteq> None \<and>
        (\<forall>d\<in>set disks. managed_disk_price_is_complete availability d))"

definition vm_fits ::
  "dec_arith \<Rightarrow> managed_disk_catalog \<Rightarrow> vm_target_selection_request \<Rightarrow> vm_size_candidate \<Rightarrow>
     selected_managed_disk list \<Rightarrow> bool" where
  "vm_fits A disk_catalog q c disks \<longleftrightarrow>
     eq_ignore_ascii_case (vc_azure_region c) (vq_azure_region q) \<and>
     vc_lineage c = target_lineage (vq_source_class q) \<and> capabilities_fit q c \<and>
     list_all2 (\<lambda>v d. select_disk A disk_catalog (vq_azure_region q) v =
         (Ok (Some d) :: (vm_target_selection_error, selected_managed_disk option) outcome))
       (vq_volumes q) disks \<and>
     aggregates_fit A c disks \<and> prices_complete q c disks"

lemma reason_if_Nil [simp]: "reason_if b code detail = [] \<longleftrightarrow> \<not> b"
  by (simp add: reason_if_def)

lemma capability_rejections_Nil: "capability_rejections q c = [] \<longleftrightarrow> capabilities_fit q c"
  by (auto simp: capability_rejections_def capabilities_fit_def Let_def not_less)

lemma price_rejections_Nil: "price_rejections q c disks = [] \<longleftrightarrow> prices_complete q c disks"
  by (auto simp: price_rejections_def prices_complete_def split: option.split)

lemma disk_rejections_Nil:
  "length vs = length ds \<Longrightarrow> disk_rejections q vs ds = [] \<longleftrightarrow> None \<notin> set ds"
  by (induction vs ds rule: list_induct2) auto

lemma present_map_Some [simp]: "present (map Some xs) = xs"
  by (induction xs) simp_all

lemma present_all: "None \<notin> set xs \<Longrightarrow> \<exists>ys. xs = map Some ys"
proof (induction xs)
  case (Cons x xs)
  then obtain y ys where "x = Some y" "xs = map Some ys" by (cases x) auto
  then have "x # xs = map Some (y # ys)" by simp
  then show ?case by (rule exI)
qed simp

lemma present_length: "length (present xs) = length xs \<longleftrightarrow> None \<notin> set xs"
proof (induction xs)
  case (Cons x xs)
  then show ?case using length_present_le [of xs] by (cases x) auto
qed simp

lemma select_disks_Ok:
  assumes "select_disks A dc q = (Ok ds :: ('e, selected_managed_disk option list) outcome)"
  shows "length ds = length (vq_volumes q)"
    "disk_rejections q (vq_volumes q) ds = [] \<longleftrightarrow> None \<notin> set ds"
    "None \<notin> set ds \<longleftrightarrow>
       list_all2 (\<lambda>v d. select_disk A dc (vq_azure_region q) v =
         (Ok (Some d) :: ('e, selected_managed_disk option) outcome)) (vq_volumes q) (present ds)"
proof -
  note all2 = assms [unfolded select_disks_def try_map_Ok_iff]
  show len: "length ds = length (vq_volumes q)" using all2 by (simp add: list_all2_lengthD)
  then show "disk_rejections q (vq_volumes q) ds = [] \<longleftrightarrow> None \<notin> set ds"
    by (simp add: disk_rejections_Nil)
  show "None \<notin> set ds \<longleftrightarrow>
       list_all2 (\<lambda>v d. select_disk A dc (vq_azure_region q) v =
         (Ok (Some d) :: ('e, selected_managed_disk option) outcome)) (vq_volumes q) (present ds)"
  proof
    assume "None \<notin> set ds"
    then obtain es where "ds = map Some es" using present_all by blast
    with all2 show "list_all2 (\<lambda>v d. select_disk A dc (vq_azure_region q) v =
         (Ok (Some d) :: ('e, selected_managed_disk option) outcome)) (vq_volumes q) (present ds)"
      by (simp add: list_all2_map2)
  next
    assume "list_all2 (\<lambda>v d. select_disk A dc (vq_azure_region q) v =
         (Ok (Some d) :: ('e, selected_managed_disk option) outcome)) (vq_volumes q) (present ds)"
    then have "length (present ds) = length ds" using len by (simp add: list_all2_lengthD)
    then show "None \<notin> set ds" by (simp add: present_length)
  qed
qed

lemma evaluate_vm_candidate_eligible:
  assumes "evaluate_vm_candidate A dc q c =
      (Ok (ev, el) :: (vm_target_selection_error, _) outcome)"
  shows "el = Some e \<longleftrightarrow> ec_candidate e = c \<and> vm_fits A dc q c (ec_disks e) \<and>
      ec_hourly_rate e = hourly_rate_of q c"
    "ev = Some x \<Longrightarrow> ve_arm_sku_name x = vc_arm_sku_name c \<and> (ve_eligible x \<longleftrightarrow> el \<noteq> None)"
proof -
  show "el = Some e \<longleftrightarrow> ec_candidate e = c \<and> vm_fits A dc q c (ec_disks e) \<and>
      ec_hourly_rate e = hourly_rate_of q c"
  proof (cases "eq_ignore_ascii_case (vc_azure_region c) (vq_azure_region q) \<and>
      vc_lineage c = target_lineage (vq_source_class q)")
    case False
    then have "el = None" using assms by (auto simp: evaluate_vm_candidate_def Let_def split: if_splits)
    then show ?thesis using False by (auto simp: vm_fits_def)
  next
    case True
    then obtain ds ar where
      ds: "select_disks A dc q = (Ok ds :: (vm_target_selection_error, selected_managed_disk option list) outcome)"
      and ar: "aggregate_rejections A q c (present ds) =
        (Ok ar :: (vm_target_selection_error, vm_selection_reason list) outcome)"
      and el: "el = (if capability_rejections q c @ disk_rejections q (vq_volumes q) ds @ ar @
           price_rejections q c (present ds) = []
         then Some \<lparr>ec_candidate = c, ec_disks = present ds, ec_hourly_rate = hourly_rate_of q c\<rparr> else None)"
      using assms by (auto simp: evaluate_vm_candidate_def Let_def obind_Ok_iff)
    note d = select_disks_Ok [OF ds]
    have agg: "ar = [] \<longleftrightarrow> aggregates_fit A c (present ds)" if "None \<notin> set ds"
      using ar that d(1) present_length [of ds]
      by (auto simp: aggregate_rejections_def aggregates_fit_def obind_Ok_iff d_sum_eq not_less)
    have unique: "list_all2 (\<lambda>v d. select_disk A dc (vq_azure_region q) v =
         (Ok (Some d) :: (vm_target_selection_error, selected_managed_disk option) outcome)) (vq_volumes q) es
       \<longleftrightarrow> None \<notin> set ds \<and> es = present ds" for es
    proof
      assume es: "list_all2 (\<lambda>v d. select_disk A dc (vq_azure_region q) v =
         (Ok (Some d) :: (vm_target_selection_error, selected_managed_disk option) outcome)) (vq_volumes q) es"
      then have "try_map (select_disk A dc (vq_azure_region q)) (vq_volumes q) =
          (Ok (map Some es) :: (vm_target_selection_error, selected_managed_disk option list) outcome)"
        by (simp add: try_map_Ok_iff list_all2_map2)
      then have "ds = map Some es" using ds by (simp add: select_disks_def)
      then show "None \<notin> set ds \<and> es = present ds" by auto
    qed (use d(3) in blast)
    have "vm_fits A dc q c es \<longleftrightarrow> es = present ds \<and> None \<notin> set ds \<and> capabilities_fit q c \<and>
        ar = [] \<and> prices_complete q c es" for es
      using True agg unfolding vm_fits_def unique by blast
    then show ?thesis unfolding el using d(2)
      by (cases e) (auto simp: capability_rejections_Nil price_rejections_Nil)
  qed
  show "ev = Some x \<Longrightarrow> ve_arm_sku_name x = vc_arm_sku_name c \<and> (ve_eligible x \<longleftrightarrow> el \<noteq> None)"
    using assms
    by (auto simp: evaluate_vm_candidate_def Let_def obind_Ok_iff vm_evaluation_def split: if_splits)
qed

section \<open>The ranking\<close>

definition rank_order ::
  "dec_arith \<Rightarrow> evaluated_candidate \<Rightarrow> evaluated_candidate \<Rightarrow> ordering" where
  "rank_order A left right =
     then_with (cmp (lifecycle_rank (ec_candidate left)) (lifecycle_rank (ec_candidate right)))
       (then_with (cmp (vc_generation_rank (ec_candidate right)) (vc_generation_rank (ec_candidate left)))
       (then_with (cmp (vc_vcpus (ec_candidate left)) (vc_vcpus (ec_candidate right)))
       (then_with (cmp (vc_memory_gb (ec_candidate left)) (vc_memory_gb (ec_candidate right)))
       (then_with
         (cmp_option (dec_sum A 0 (map sd_capacity_gb (ec_disks left)))
            (dec_sum A 0 (map sd_capacity_gb (ec_disks right))))
       (then_with (cmp_option (ec_hourly_rate left) (ec_hourly_rate right))
         (cmp (vc_arm_sku_name (ec_candidate left)) (vc_arm_sku_name (ec_candidate right))))))))"

lemma then_with_assoc: "then_with (then_with a b) c = then_with a (then_with b c)"
  by (cases a) simp_all

lemma rank_order_size: "rank_order A left right =
    then_with (size_order left right)
      (then_with
        (cmp_option (dec_sum A 0 (map sd_capacity_gb (ec_disks left)))
           (dec_sum A 0 (map sd_capacity_gb (ec_disks right))))
      (then_with (cmp_option (ec_hourly_rate left) (ec_hourly_rate right))
        (cmp (vc_arm_sku_name (ec_candidate left)) (vc_arm_sku_name (ec_candidate right)))))"
  by (simp add: rank_order_def size_order_def then_with_assoc)

interpretation vm_rank: comparator "rank_order A" for A
  unfolding rank_order_def [abs_def]
  by (intro comparator_intros comparator_map [OF option_order.comparator_axioms])

lemma rank_rank_order: "rank A l r = Ok res \<Longrightarrow> res = rank_order A l r"
proof (cases "size_order l r = Equal")
  case False
  assume "rank A l r = Ok res"
  then show ?thesis using False by (cases "size_order l r") (auto simp: rank_def rank_order_size)
next
  case True
  assume "rank A l r = Ok res"
  then show ?thesis using True
    by (auto simp: rank_def rank_order_size disk_capacity_def d_sum_eq obind_Ok_iff cmp_option_def)
qed


section \<open>The outcome of a selection\<close>

lemma select_vm_target_elim:
  assumes "select_vm_target A vcat dc q = Ok s"
  obtains results best where
    "vm_validate_request q = Ok ()"
    "list_all2 (\<lambda>c res. evaluate_vm_candidate A dc q c = (Ok res :: (vm_target_selection_error, _) outcome))
       (vcc_candidates vcat) results"
    "best_candidate A q (present (map snd results)) =
       (Ok best :: (vm_target_selection_error, evaluated_candidate option) outcome)"
    "vs_selected s = map_option selected_vm_target_of best"
    "vs_mapping_status s = (if best = None then NoMapping else Mapped)"
    "mset (vs_candidates s) = mset (present (map fst results))"
proof -
  obtain results best where r: "vm_validate_request q = Ok ()"
    "try_map (evaluate_vm_candidate A dc q) (vcc_candidates vcat) =
      (Ok results :: (vm_target_selection_error, _) outcome)"
    "best_candidate A q (present (map snd results)) =
       (Ok best :: (vm_target_selection_error, evaluated_candidate option) outcome)" and
    s: "s = (case best of
           None \<Rightarrow>
             \<lparr>vs_mapping_status = NoMapping, vs_recommendation_status = NoEligibleTarget,
              vs_requested_lineage = target_lineage (vq_source_class q), vs_selected = None,
              vs_candidates = sort_by (\<lambda>l r. cmp (ve_arm_sku_name l) (ve_arm_sku_name r)) (present (map fst results)),
              vs_outcome_reasons = [no_target_reason q]\<rparr>
         | Some b \<Rightarrow>
             \<lparr>vs_mapping_status = Mapped, vs_recommendation_status = Recommended,
              vs_requested_lineage = target_lineage (vq_source_class q),
              vs_selected = Some (selected_vm_target_of b),
              vs_candidates = sort_by (\<lambda>l r. cmp (ve_arm_sku_name l) (ve_arm_sku_name r)) (present (map fst results)),
              vs_outcome_reasons = []\<rparr>)"
    using assms by (auto simp: select_vm_target_def obind_Ok_iff Let_def)
  show thesis
    by (rule that [OF r(1) r(2) [unfolded try_map_Ok_iff] r(3)]) (cases best; simp add: s)+
qed

lemma eligible_sizes:
  assumes "list_all2 (\<lambda>c res. evaluate_vm_candidate A dc q c = (Ok res :: (vm_target_selection_error, _) outcome))
       cs results"
  shows "e \<in> set (present (map snd results)) \<longleftrightarrow>
    ec_candidate e \<in> set cs \<and> vm_fits A dc q (ec_candidate e) (ec_disks e) \<and>
    ec_hourly_rate e = hourly_rate_of q (ec_candidate e)"
  using assms
proof (induction rule: list_all2_induct)
  case (Cons c cs res results)
  obtain ev el where res: "res = (ev, el)" by force
  have "el = Some e \<longleftrightarrow> ec_candidate e = c \<and> vm_fits A dc q c (ec_disks e) \<and>
      ec_hourly_rate e = hourly_rate_of q c"
    by (rule evaluate_vm_candidate_eligible(1) [OF Cons(1) [unfolded res]])
  moreover have "e \<in> set (present (map snd (res # results))) \<longleftrightarrow>
      el = Some e \<or> e \<in> set (present (map snd results))" by (auto simp: res split: option.split)
  ultimately show ?case unfolding Cons.IH by auto
qed simp

definition name_matches :: "vm_target_selection_request \<Rightarrow> vm_size_candidate \<Rightarrow> bool" where
  "name_matches q c \<longleftrightarrow>
     (\<forall>requested. vq_requested_target_arm_sku q = Some requested \<longrightarrow>
        eq_ignore_ascii_case (vc_arm_sku_name c) requested)"

lemma best_candidate_spec:
  assumes "best_candidate A q es = (Ok best :: (vm_target_selection_error, evaluated_candidate option) outcome)"
  shows "best = None \<longleftrightarrow> \<not> (\<exists>e\<in>set es. name_matches q (ec_candidate e))"
    "best = Some b \<Longrightarrow> b \<in> set es \<and> name_matches q (ec_candidate b)"
    "best = Some b \<Longrightarrow> vq_requested_target_arm_sku q = None \<Longrightarrow> e \<in> set es \<Longrightarrow> rank_order A b e \<noteq> Greater"
proof -
  show "best = None \<longleftrightarrow> \<not> (\<exists>e\<in>set es. name_matches q (ec_candidate e))"
    using assms
    by (cases best; cases es)
       (auto simp: best_candidate_def name_matches_def find_None_iff find_Some_iff obind_Ok_iff
          split: option.splits if_splits)
  have m: "b \<in> set es \<and> (\<forall>e\<in>set es. rank_order A b e \<noteq> Greater)"
    if "best = Some b" "vq_requested_target_arm_sku q = None"
  proof -
    have "try_min_by (rank A) es = (Ok (Some b) :: (vm_target_selection_error, _) outcome)"
      using assms that by (simp add: best_candidate_def)
    from vm_rank.try_min_by_least [where A = A and key = "\<lambda>x. x", OF rank_rank_order this]
    show ?thesis .
  qed
  show "best = Some b \<Longrightarrow> b \<in> set es \<and> name_matches q (ec_candidate b)"
  proof (cases "vq_requested_target_arm_sku q")
    case None
    assume "best = Some b"
    then show ?thesis using m None by (simp add: name_matches_def)
  next
    case (Some r)
    assume "best = Some b"
    then show ?thesis using assms Some by (auto simp: best_candidate_def find_Some_iff name_matches_def)
  qed
  show "best = Some b \<Longrightarrow> vq_requested_target_arm_sku q = None \<Longrightarrow> e \<in> set es \<Longrightarrow> rank_order A b e \<noteq> Greater"
    using m by blast
qed

text \<open>
  the selected virtual machine is a size of the catalog that meets every capability, disk,
  aggregate and price requirement and the requested name, if any, and carries one chosen disk per
  volume, in order; there is no mapping exactly if no size of that name qualifies.
\<close>
theorem select_vm_target_sound:
  assumes "select_vm_target A vcat dc q = Ok s"
  shows "(vs_mapping_status s = NoMapping \<longleftrightarrow>
      \<not> (\<exists>c\<in>set (vcc_candidates vcat). \<exists>disks. vm_fits A dc q c disks \<and> name_matches q c)) \<and>
    (\<forall>t. vs_selected s = Some t \<longrightarrow>
      (\<exists>c\<in>set (vcc_candidates vcat). vm_fits A dc q c (vt_disks t) \<and> name_matches q c \<and>
         vt_arm_sku_name t = vc_arm_sku_name c \<and> vt_vcpus t = vc_vcpus c \<and> vt_memory_gb t = vc_memory_gb c))"
proof -
  obtain results best where r:
    "list_all2 (\<lambda>c res. evaluate_vm_candidate A dc q c = (Ok res :: (vm_target_selection_error, _) outcome))
       (vcc_candidates vcat) results"
    "best_candidate A q (present (map snd results)) =
       (Ok best :: (vm_target_selection_error, evaluated_candidate option) outcome)"
    "vs_selected s = map_option selected_vm_target_of best"
    "vs_mapping_status s = (if best = None then NoMapping else Mapped)"
    by (rule select_vm_target_elim [OF assms])
  note el = eligible_sizes [OF r(1)] and b = best_candidate_spec [OF r(2)]
  have "best = None \<longleftrightarrow>
      \<not> (\<exists>c\<in>set (vcc_candidates vcat). \<exists>disks. vm_fits A dc q c disks \<and> name_matches q c)"
  proof -
    have "(\<exists>e\<in>set (present (map snd results)). name_matches q (ec_candidate e)) \<longleftrightarrow>
        (\<exists>c\<in>set (vcc_candidates vcat). \<exists>disks. vm_fits A dc q c disks \<and> name_matches q c)" (is "?l \<longleftrightarrow> ?r")
    proof
      assume ?r
      then obtain c disks where "c \<in> set (vcc_candidates vcat)" "vm_fits A dc q c disks" "name_matches q c" by blast
      then show ?l
        by (intro bexI [of _ "\<lparr>ec_candidate = c, ec_disks = disks, ec_hourly_rate = hourly_rate_of q c\<rparr>"])
           (simp_all add: el del: present_set)
    qed (use el in blast)
    then show ?thesis using b(1) by simp
  qed
  then show ?thesis using b(2) el r(3,4)
    by (auto simp: selected_vm_target_of_def Let_def split: if_splits)
qed

text \<open>
  Which of two fitting sizes is preferred. Sizes that fit are all current and get the same disks, so neither
  the lifecycle state nor the disk capacity tells them apart; and with prices at hand each has its hourly
  rate, without them none has.
\<close>

definition preferred_size ::
  "vm_target_selection_request \<Rightarrow> vm_size_candidate \<Rightarrow> vm_size_candidate \<Rightarrow> bool" where
  "preferred_size q c c' \<longleftrightarrow>
     (let rate = (\<lambda>x. case hourly_rate_of q x of None \<Rightarrow> 0 | Some r \<Rightarrow> r) in
      vc_generation_rank c' < vc_generation_rank c \<or> vc_generation_rank c = vc_generation_rank c' \<and>
      (vc_vcpus c < vc_vcpus c' \<or> vc_vcpus c = vc_vcpus c' \<and>
      (vc_memory_gb c < vc_memory_gb c' \<or> vc_memory_gb c = vc_memory_gb c' \<and>
      (rate c < rate c' \<or> rate c = rate c' \<and> vc_arm_sku_name c < vc_arm_sku_name c'))))"

lemma vm_fits_same_disks:
  assumes "vm_fits A dc q c disks" "vm_fits A dc q c' disks'"
  shows "disks = disks'"
proof -
  let ?P = "\<lambda>v d. select_disk A dc (vq_azure_region q) v =
    (Ok (Some d) :: (vm_target_selection_error, selected_managed_disk option) outcome)"
  have "list_all2 ?P (vq_volumes q) disks" "list_all2 ?P (vq_volumes q) disks'"
    using assms by (simp_all add: vm_fits_def)
  then show ?thesis by (intro nth_equalityI) (auto simp: list_all2_conv_all_nth)
qed

lemma vm_fits_rates:
  "vm_fits A dc q c disks \<Longrightarrow> vm_fits A dc q c' disks' \<Longrightarrow> hourly_rate_of q c = None \<longleftrightarrow> hourly_rate_of q c' = None"
  by (cases "vq_price_availability q") (auto simp: vm_fits_def prices_complete_def hourly_rate_of_def)

lemma rank_order_preferred:
  assumes "vm_fits A dc q c disks" "vm_fits A dc q c' disks'"
    and "rank_order A \<lparr>ec_candidate = c, ec_disks = disks, ec_hourly_rate = hourly_rate_of q c\<rparr>
      \<lparr>ec_candidate = c', ec_disks = disks', ec_hourly_rate = hourly_rate_of q c'\<rparr> \<noteq> Greater"
  shows "\<not> preferred_size q c' c"
proof -
  have "vc_lifecycle c = Current" "vc_lifecycle c' = Current"
    using assms(1,2) by (simp_all add: vm_fits_def capabilities_fit_def)
  then have "lifecycle_rank c = lifecycle_rank c'" by (simp add: lifecycle_rank_def)
  moreover have "disks = disks'" by (rule vm_fits_same_disks [OF assms(1,2)])
  ultimately show ?thesis
    using assms(3) vm_fits_rates [OF assms(1,2)]
    by (cases "hourly_rate_of q c"; cases "hourly_rate_of q c'")
       (auto simp: rank_order_def then_with_iff cmp_option_iff preferred_size_def Let_def)
qed

text \<open>
  C24: without an override, the selected machine is a fitting size of the catalogue with the disks chosen for
  the volumes, and no other fitting size of the catalogue is of a newer generation, or of the same with fewer
  vCPUs, or alike in both with less memory, or in all three with a lower hourly rate, or in all four with a
  smaller name.
\<close>
theorem select_vm_target_optimal:
  assumes "select_vm_target A vcat dc q = Ok s" "vq_requested_target_arm_sku q = None"
    and "c0 \<in> set (vcc_candidates vcat)" "vm_fits A dc q c0 disks0"
  shows "\<exists>c\<in>set (vcc_candidates vcat). \<exists>disks.
    vs_selected s =
      Some (selected_vm_target_of \<lparr>ec_candidate = c, ec_disks = disks, ec_hourly_rate = hourly_rate_of q c\<rparr>) \<and>
    vm_fits A dc q c disks \<and>
    (\<forall>c'\<in>set (vcc_candidates vcat). \<forall>disks'. vm_fits A dc q c' disks' \<longrightarrow> \<not> preferred_size q c' c)"
proof -
  obtain results best where r:
    "list_all2 (\<lambda>c res. evaluate_vm_candidate A dc q c = (Ok res :: (vm_target_selection_error, _) outcome))
       (vcc_candidates vcat) results"
    "best_candidate A q (present (map snd results)) =
       (Ok best :: (vm_target_selection_error, evaluated_candidate option) outcome)"
    "vs_selected s = map_option selected_vm_target_of best"
    by (rule select_vm_target_elim [OF assms(1)])
  note el = eligible_sizes [OF r(1)] and b = best_candidate_spec [OF r(2)]
  let ?e = "\<lambda>c disks. \<lparr>ec_candidate = c, ec_disks = disks, ec_hourly_rate = hourly_rate_of q c\<rparr>"
  have e: "?e c disks \<in> set (present (map snd results))"
    if "c \<in> set (vcc_candidates vcat)" "vm_fits A dc q c disks" for c disks
    using el [of "?e c disks"] that by simp
  have "name_matches q c0" using assms(2) by (simp add: name_matches_def)
  then have "\<exists>x\<in>set (present (map snd results)). name_matches q (ec_candidate x)"
    by (intro bexI [OF _ e [OF assms(3,4)]]) simp
  then obtain bb where bb: "best = Some bb" using b(1) by (cases best) blast+
  obtain c disks where c: "bb = ?e c disks" "c \<in> set (vcc_candidates vcat)" "vm_fits A dc q c disks"
    using b(2) [OF bb] el [of bb] by (cases bb) auto
  have "\<not> preferred_size q c' c" if c': "c' \<in> set (vcc_candidates vcat)" "vm_fits A dc q c' disks'" for c' disks'
    using rank_order_preferred [OF c(3) c'(2)] b(3) [OF bb assms(2) e [OF c']] c(1) by simp
  then show ?thesis using c r(3) bb by auto
qed

section \<open>Concrete selections\<close>

definition example_offer :: managed_disk_offer where
  "example_offer =
     \<lparr>do_offer_key = ''premium-ssd-v2'', do_display_name = ''Premium SSD v2'', do_redundancy = ''LRS'',
      do_allowed_roles = [RoleData], do_performance_is_provisioned_independently = True,
      do_azure_regions = [''EastUS''], do_included_iops = Some 3000, do_included_throughput_mbps = Some 125,
      do_maximum_iops = 80000, do_maximum_throughput_mbps = 1200, do_capacity_increment_gb = Some 4,
      do_minimum_capacity_gb = Some 4, do_maximum_capacity_gb = 65536, do_tiers = [],
      do_source_url = '''', do_reviewed_date = ''''\<rparr>"

definition example_tiered_offer :: managed_disk_offer where
  "example_tiered_offer =
     \<lparr>do_offer_key = ''premium-ssd'', do_display_name = ''Premium SSD'', do_redundancy = ''LRS'',
      do_allowed_roles = [RoleOs, RoleData], do_performance_is_provisioned_independently = False,
      do_azure_regions = [''eastus''], do_included_iops = None, do_included_throughput_mbps = None,
      do_maximum_iops = 20000, do_maximum_throughput_mbps = 900, do_capacity_increment_gb = None,
      do_minimum_capacity_gb = None, do_maximum_capacity_gb = 32767,
      do_tiers =
        [\<lparr>dt_tier_key = ''P20'', dt_capacity_gb = 512, dt_provisioned_iops = 2300,
          dt_provisioned_throughput_mbps = 150\<rparr>,
         \<lparr>dt_tier_key = ''P10'', dt_capacity_gb = 128, dt_provisioned_iops = 500,
          dt_provisioned_throughput_mbps = 100\<rparr>],
      do_source_url = '''', do_reviewed_date = ''''\<rparr>"

definition example_disk_catalog :: managed_disk_catalog where
  "example_disk_catalog = \<lparr>dc_schema_version = ''1'', dc_offers = [example_tiered_offer, example_offer]\<rparr>"

definition example_volume :: "vm_disk_role \<Rightarrow> decimal_value \<Rightarrow> vm_volume_requirement" where
  "example_volume role capacity =
     \<lparr>vr_volume_id = 7, vr_label = ''disk'', vr_role = role, vr_capacity_gb = capacity, vr_iops = 400,
      vr_throughput_mbps = 60\<rparr>"

lemma example_offers_ok: "\<forall>o'\<in>set (dc_offers example_disk_catalog). offer_values_ok exact_arith o'"
  by (simp add: example_disk_catalog_def example_offer_def example_tiered_offer_def offer_values_ok_def
      exact_arith_def dec_max_def)

definition example_disk :: selected_managed_disk where
  "example_disk =
     \<lparr>sd_volume_id = 7, sd_label = ''disk'', sd_role = RoleData, sd_offer_key = ''premium-ssd-v2'',
      sd_display_name = ''Premium SSD v2'', sd_tier_key = None, sd_capacity_gb = 104,
      sd_provisioned_iops = 3000, sd_provisioned_throughput_mbps = 125, sd_billed_additional_iops = 0,
      sd_billed_additional_throughput_mbps = 0\<rparr>"

definition example_os_disk :: selected_managed_disk where
  "example_os_disk =
     \<lparr>sd_volume_id = 7, sd_label = ''disk'', sd_role = RoleOs, sd_offer_key = ''premium-ssd'',
      sd_display_name = ''Premium SSD'', sd_tier_key = Some ''P10'', sd_capacity_gb = 128,
      sd_provisioned_iops = 500, sd_provisioned_throughput_mbps = 100, sd_billed_additional_iops = 0,
      sd_billed_additional_throughput_mbps = 0\<rparr>"

lemma example_region: "eq_ignore_ascii_case ''EastUS'' ''eastus''" "eq_ignore_ascii_case ''eastus'' ''eastus''"
  by code_simp+

lemma example_applies:
  "offer_applies ''eastus'' (example_volume role c) example_offer \<longleftrightarrow> role = RoleData"
  "offer_applies ''eastus'' (example_volume role c) example_tiered_offer \<longleftrightarrow> role \<in> {RoleOs, RoleData}"
  by (simp_all add: offer_applies_def example_volume_def example_offer_def example_tiered_offer_def
      example_region dec_of_def)

lemma example_tiered:
  "offer_disk exact_arith example_tiered_offer (example_volume RoleOs 101) = Ok (Some example_os_disk)"
  "offer_disk exact_arith example_tiered_offer (example_volume RoleData 101) =
     Ok (Some (example_os_disk\<lparr>sd_role := RoleData\<rparr>))"
  "offer_disk exact_arith example_tiered_offer (example_volume RoleOs 600) = Ok None"
  by (simp_all add: offer_disk_def tiered_disk_def example_tiered_offer_def example_volume_def
      example_os_disk_def tier_fits_def compare_tiers_def then_with_iff)

lemma example_round: "round_up_capacity exact_arith 101 4 = Ok 104" "d_sub exact_arith 125 125 = Ok 0"
proof -
  have "\<lfloor>101 / 4 :: rat\<rfloor> = 25" by (simp add: floor_eq_iff)
  then show "round_up_capacity exact_arith 101 4 = Ok 104"
    by (simp add: round_up_capacity_def exact_arith_eval rat_trunc_def)
  show "d_sub exact_arith 125 125 = Ok 0" by (simp add: exact_arith_eval)
qed

lemma example_independent:
  "offer_disk exact_arith example_offer (example_volume RoleData 101) = Ok (Some example_disk)"
  by (simp add: offer_disk_def independent_disk_def example_offer_def example_volume_def
      example_disk_def unwrap_or_def example_round saturating_sub_def)

lemma example_data_disk:
  "select_disk exact_arith example_disk_catalog ''eastus'' (example_volume RoleData 101) =
     (Ok (Some example_disk) :: (vm_target_selection_error, selected_managed_disk option) outcome)"
  by (simp add: select_disk_steps example_disk_catalog_def disk_step_def example_applies example_tiered
      example_independent better_disk_def prefer_disk_def cmp_def example_disk_def example_os_disk_def)

lemma example_os_selection:
  "select_disk exact_arith example_disk_catalog ''eastus'' (example_volume RoleOs 101) =
     (Ok (Some example_os_disk) :: (vm_target_selection_error, selected_managed_disk option) outcome)"
  by (simp add: select_disk_steps example_disk_catalog_def disk_step_def example_applies example_tiered
      better_disk_def)

theorem select_disk_sound_witness:
  "disk_serves (example_volume RoleData 101) example_disk"
  using select_disk_sound [OF exact_arith_laws example_offers_ok _ _ example_data_disk]
  by (simp add: example_volume_def exact_arith_def dec_max_def)

lemma example_no_disk:
  "select_disk exact_arith example_disk_catalog ''eastus'' (example_volume RoleOs 600) =
     (Ok None :: (vm_target_selection_error, selected_managed_disk option) outcome)"
  by (simp add: select_disk_steps example_disk_catalog_def disk_step_def example_applies example_tiered
      better_disk_def)

theorem select_disk_complete_witness:
  "do_tiers example_tiered_offer \<noteq> [] \<and> \<not> tier_fits (example_volume RoleOs 600) (hd (do_tiers example_tiered_offer))"
proof -
  have "example_tiered_offer \<in> set (dc_offers example_disk_catalog)"
    by (simp add: example_disk_catalog_def)
  moreover have "offer_applies ''eastus'' (example_volume RoleOs 600) example_tiered_offer"
    by (simp add: example_applies)
  ultimately show ?thesis
    using select_disk_complete [OF example_no_disk] by (simp add: example_tiered_offer_def)
qed

theorem round_up_capacity_least_witness:
  "round_up_capacity exact_arith 101 4 = (Ok 104 :: (vm_target_selection_error, rat) outcome)"
proof -
  have "\<lceil>101 / 4 :: rat\<rceil> = 26" by (simp add: ceiling_eq_iff)
  then show ?thesis
    using round_up_capacity_least [OF exact_arith_laws, of 101 4] by (simp add: exact_arith_def dec_max_def)
qed

definition example_size :: "string \<Rightarrow> u32 \<Rightarrow> vm_size_candidate" where
  "example_size name vcpus =
     \<lparr>vc_arm_sku_name = name, vc_display_family = ''Ds'', vc_lineage = GeneralPurpose,
      vc_generation = ''v5'', vc_generation_rank = 5, vc_lifecycle = Current, vc_azure_region = ''eastus'',
      vc_cpu_architecture = ''x64'', vc_windows_eligible = True, vc_vcpus = vcpus, vc_memory_gb = 16,
      vc_max_data_disk_count = 8, vc_premium_io = True, vc_uncached_disk_iops = 6400,
      vc_uncached_disk_throughput_mbps = 145, vc_local_temp_disk_gb = None, vc_source_url = '''',
      vc_documentation_url = '''', vc_reviewed_date = ''''\<rparr>"

definition example_vm_catalog :: vm_capability_catalog where
  "example_vm_catalog =
     \<lparr>vcc_schema_version = ''1'', vcc_candidates = [example_size ''D8'' 8, example_size ''D4'' 4]\<rparr>"

definition example_vm_request :: vm_target_selection_request where
  "example_vm_request =
     \<lparr>vq_azure_region = ''eastus'', vq_source_class = ScGeneralPurpose, vq_minimum_vcpu = 4,
      vq_minimum_memory_gb = 16, vq_requires_local_temp_disk = False, vq_minimum_local_temp_disk_gb = 0,
      vq_volumes = [example_volume RoleOs 101], vq_requested_target_arm_sku = None,
      vq_price_availability = None\<rparr>"

lemma example_disks:
  "select_disks exact_arith example_disk_catalog example_vm_request =
     (Ok [Some example_os_disk] :: (vm_target_selection_error, selected_managed_disk option list) outcome)"
  by (simp add: select_disks_def example_vm_request_def example_os_selection)

definition example_evaluated :: "string \<Rightarrow> u32 \<Rightarrow> evaluated_candidate" where
  "example_evaluated name vcpus =
     \<lparr>ec_candidate = example_size name vcpus, ec_disks = [example_os_disk], ec_hourly_rate = None\<rparr>"

lemma example_evaluation:
  assumes "vcpus \<in> {4, 8}"
  shows "evaluate_vm_candidate exact_arith example_disk_catalog example_vm_request (example_size name vcpus) =
     (Ok (Some (vm_evaluation (example_size name vcpus) []), Some (example_evaluated name vcpus))
      :: (vm_target_selection_error, _) outcome)"
proof -
  let ?c = "example_size name vcpus"
  have "aggregate_rejections exact_arith example_vm_request ?c [example_os_disk] =
      (Ok [] :: (vm_target_selection_error, vm_selection_reason list) outcome)"
    by (simp add: aggregate_rejections_def aggregate_iops_def example_vm_request_def example_size_def
        example_os_disk_def exact_arith_eval)
  moreover have "capability_rejections example_vm_request ?c = []"
    using assms by (auto simp: capability_rejections_Nil capabilities_fit_def example_vm_request_def
        example_size_def data_disk_count_def example_volume_def eq_ignore_ascii_case_def)
  moreover have "price_rejections example_vm_request ?c [example_os_disk] = []" "hourly_rate_of example_vm_request ?c = None"
    by (simp_all add: price_rejections_def hourly_rate_of_def example_vm_request_def)
  moreover have "disk_rejections example_vm_request (vq_volumes example_vm_request) [Some example_os_disk] = []"
    by (simp add: example_vm_request_def)
  moreover have "eq_ignore_ascii_case (vc_azure_region ?c) (vq_azure_region example_vm_request)"
    "vc_lineage ?c = target_lineage (vq_source_class example_vm_request)"
    by (simp_all add: example_size_def example_vm_request_def eq_ignore_ascii_case_def)
  ultimately show ?thesis
    by (simp add: evaluate_vm_candidate_def example_disks Let_def example_evaluated_def)
qed

lemma example_vm_selection:
  "\<exists>s. select_vm_target exact_arith example_vm_catalog example_disk_catalog example_vm_request = Ok s"
proof -
  have "vm_validate_request example_vm_request = Ok ()"
    by (simp add: vm_validate_request_def example_vm_request_def example_volume_def)
  moreover have "rank exact_arith (example_evaluated ''D8'' 8) (example_evaluated ''D4'' 4) =
      (Ok Greater :: (vm_target_selection_error, ordering) outcome)"
    by (simp add: rank_def size_order_def example_evaluated_def example_size_def lifecycle_rank_def then_with_iff)
  moreover have "vq_requested_target_arm_sku example_vm_request = None" by (simp add: example_vm_request_def)
  ultimately show ?thesis
    by (simp add: select_vm_target_def example_vm_catalog_def example_evaluation best_candidate_def Let_def)
qed

lemma example_fit:
  "vm_fits exact_arith example_disk_catalog example_vm_request (example_size ''D4'' 4) [example_os_disk]"
proof -
  have "evaluate_vm_candidate exact_arith example_disk_catalog example_vm_request (example_size ''D4'' 4) =
     (Ok (Some (vm_evaluation (example_size ''D4'' 4) []), Some (example_evaluated ''D4'' 4))
      :: (vm_target_selection_error, _) outcome)"
    by (rule example_evaluation) simp
  from evaluate_vm_candidate_eligible(1) [OF this, of "example_evaluated ''D4'' 4"]
  show ?thesis by (simp add: example_evaluated_def)
qed

theorem select_vm_target_sound_witness:
  "\<exists>s. select_vm_target exact_arith example_vm_catalog example_disk_catalog example_vm_request = Ok s \<and>
     vs_mapping_status s \<noteq> NoMapping"
proof -
  obtain s where s: "select_vm_target exact_arith example_vm_catalog example_disk_catalog example_vm_request = Ok s"
    using example_vm_selection by blast
  have "example_size ''D4'' 4 \<in> set (vcc_candidates example_vm_catalog)"
    by (simp add: example_vm_catalog_def)
  moreover have "name_matches example_vm_request (example_size ''D4'' 4)"
    by (simp add: name_matches_def example_vm_request_def)
  ultimately show ?thesis using select_vm_target_sound [OF s] example_fit s by blast
qed

theorem select_vm_target_optimal_witness:
  "\<exists>s t. select_vm_target exact_arith example_vm_catalog example_disk_catalog example_vm_request = Ok s \<and>
     vs_selected s = Some t \<and> vt_arm_sku_name t = ''D4''"
proof -
  obtain s where s: "select_vm_target exact_arith example_vm_catalog example_disk_catalog example_vm_request = Ok s"
    using example_vm_selection by blast
  have d4: "example_size ''D4'' 4 \<in> set (vcc_candidates example_vm_catalog)"
    by (simp add: example_vm_catalog_def)
  have "vq_requested_target_arm_sku example_vm_request = None" by (simp add: example_vm_request_def)
  from select_vm_target_optimal [OF s this d4 example_fit]
  obtain c disks where c: "c \<in> set (vcc_candidates example_vm_catalog)"
    "vs_selected s = Some (selected_vm_target_of
       \<lparr>ec_candidate = c, ec_disks = disks, ec_hourly_rate = hourly_rate_of example_vm_request c\<rparr>)"
    "\<not> preferred_size example_vm_request (example_size ''D4'' 4) c"
    using d4 example_fit by blast
  then have "c = example_size ''D4'' 4"
    by (auto simp: example_vm_catalog_def preferred_size_def example_size_def Let_def)
  then show ?thesis using s c(2) by (simp add: selected_vm_target_of_def Let_def example_size_def)
qed

end
