(* ===== verification/Cost.thy ===== *)
theory Cost
  imports VmTargetSelector
begin

text \<open>
  \<open>rust/src/calculation/cost.rs\<close>: the annual cost of a source resource and of its Azure target, and the
  savings between the two. Every product, sum and quotient is the crate's and may panic; a rate that is
  missing or negative is an error. \<open>d_prod\<close> multiplies from the left, as the code's \<open>*\<close> chains do.
\<close>

record source_cost_breakdown =
  sc_compute_gross :: decimal_value
  sc_compute_net :: decimal_value
  sc_license_gross :: decimal_value
  sc_license_net :: decimal_value
  sc_storage_gross :: decimal_value
  sc_storage_net :: decimal_value
  sc_hardware_annual :: decimal_value
  sc_electricity_annual :: decimal_value
  sc_total :: decimal_value

record on_prem_explanation =
  oe_estimated_power_kw :: decimal_value
  oe_effective_power_kw :: decimal_value
  oe_power_override_applied :: bool
  oe_annual_kwh :: decimal_value
  oe_electricity_monthly_average :: decimal_value
  oe_license_pack_count :: u32

record on_prem_cost_result =
  ocr_costs :: source_cost_breakdown
  ocr_explanation :: on_prem_explanation

record azure_cost_breakdown =
  ac_compute_gross :: decimal_value
  ac_additional_ram_gb :: decimal_value
  ac_additional_ram_gross :: decimal_value
  ac_compute_plus_ram_net :: decimal_value
  ac_license_gross :: decimal_value
  ac_license_net :: decimal_value
  ac_storage_gross :: decimal_value
  ac_storage_net :: decimal_value
  ac_total_before_parity :: decimal_value

record savings_breakdown =
  sb_compute_savings :: decimal_value
  sb_license_savings :: decimal_value
  sb_storage_savings :: decimal_value
  sb_total_savings :: decimal_value
  sb_required_adjustment :: decimal_value
  sb_selected_adjustment :: decimal_value
  sb_azure_after_selected_parity :: decimal_value
  sb_difference :: decimal_value

record ec2_rate =
  er_source_vcpu :: u32
  er_catalog_memory_gb :: decimal_value
  er_compute_hourly :: decimal_value
  er_standard_license_hourly :: "decimal_value option"
  er_enterprise_license_hourly :: "decimal_value option"

record iops_price_tier =
  it_up_to_inclusive :: "u64 option"
  it_monthly_per_iops :: decimal_value

record ebs_rate =
  eb_volume_type :: ebs_volume_type
  eb_capacity_monthly_per_gb :: decimal_value
  eb_included_iops :: u64
  eb_iops_monthly_per_unit :: "decimal_value option"
  eb_iops_tiers :: "iops_price_tier list"
  eb_included_throughput_mibps :: decimal_value
  eb_throughput_monthly_per_mibps :: "decimal_value option"

record rds_rate =
  rr_source_vcpu :: u32
  rr_catalog_memory_gb :: decimal_value
  rr_effective_compute_hourly :: decimal_value
  rr_storage_monthly_per_gb :: decimal_value
  rr_standard_license_core_hourly :: decimal_value
  rr_enterprise_license_core_hourly :: decimal_value

record azure_rate =
  ar_compute_hourly :: decimal_value
  ar_license_hourly :: decimal_value
  ar_storage_monthly_per_gb :: decimal_value
  ar_additional_memory_per_gb_hourly :: decimal_value

record azure_managed_disk_rate_set =
  md_capacity_monthly :: decimal_value
  md_additional_iops_monthly_per_unit :: "decimal_value option"
  md_additional_throughput_monthly_per_mbps :: "decimal_value option"

datatype cost_error =
  MissingSourceLicenseRate
| MissingEbsRate ebs_volume_type
| MissingProvisionedIops
| InvalidIopsTiers
| MissingAzureManagedDiskRate
| InvalidAzureVmRateComponents
| MissingOnPremLicenseSettings
| MissingElectricityRate
| NegativeRate

type_synonym 'a cost_result = "(cost_error, 'a) outcome"

definition AZURE_MI_STORAGE_UNIT_GB :: rat where
  "AZURE_MI_STORAGE_UNIT_GB = 32"

definition azure_mi_configured_storage_gb :: "dec_arith \<Rightarrow> decimal_value \<Rightarrow> ('e, decimal_value) outcome" where
  "azure_mi_configured_storage_gb A required_storage_gb =
     obind (d_div A required_storage_gb AZURE_MI_STORAGE_UNIT_GB) (\<lambda>units.
     d_mul A (max (dec_ceil A units) 1) AZURE_MI_STORAGE_UNIT_GB)"

definition azure_mi_billable_storage_gb :: "dec_arith \<Rightarrow> decimal_value \<Rightarrow> ('e, decimal_value) outcome" where
  "azure_mi_billable_storage_gb A configured_storage_gb =
     obind (d_sub A configured_storage_gb AZURE_MI_STORAGE_UNIT_GB) (\<lambda>rest. Ok (max rest 0))"

definition validate_rate :: "decimal_value \<Rightarrow> unit cost_result" where
  "validate_rate v = (if v < 0 then Err NegativeRate else Ok ())"

definition apply_discount :: "dec_arith \<Rightarrow> rat \<Rightarrow> decimal_value \<Rightarrow> ('e, rat) outcome" where
  "apply_discount A gross discount =
     obind (d_sub A 1 discount) (\<lambda>kept. d_mul A gross kept)"

definition source_costs ::
  "dec_arith \<Rightarrow> rat \<Rightarrow> rat \<Rightarrow> rat \<Rightarrow> rat \<Rightarrow> rat \<Rightarrow> rat \<Rightarrow> rat \<Rightarrow> rat \<Rightarrow> ('e, source_cost_breakdown) outcome" where
  "source_costs A compute_gross compute_net license_gross license_net storage_gross storage_net
      hardware_annual electricity_annual =
     obind (d_sum A compute_net [license_net, storage_net, electricity_annual]) (\<lambda>total.
     Ok \<lparr>sc_compute_gross = compute_gross, sc_compute_net = compute_net,
         sc_license_gross = license_gross, sc_license_net = license_net,
         sc_storage_gross = storage_gross, sc_storage_net = storage_net,
         sc_hardware_annual = hardware_annual, sc_electricity_annual = electricity_annual,
         sc_total = total\<rparr>)"

definition source_license_hourly ::
  "license_basis \<Rightarrow> sql_edition \<Rightarrow> decimal_value option \<Rightarrow> decimal_value option \<Rightarrow> rat cost_result" where
  "source_license_hourly basis edition standard enterprise =
     (if basis = Byol then Ok 0
      else
        obind (ok_or (case edition of Standard \<Rightarrow> standard | Enterprise \<Rightarrow> enterprise)
          MissingSourceLicenseRate) (\<lambda>rate.
        obind (validate_rate rate) (\<lambda>_. Ok rate)))"

section \<open>EBS volumes\<close>

fun tiered_iops_from ::
  "dec_arith \<Rightarrow> u64 \<Rightarrow> u64 \<Rightarrow> rat \<Rightarrow> iops_price_tier list \<Rightarrow> rat cost_result" where
  "tiered_iops_from A previous_limit remaining acc [] = Err InvalidIopsTiers"
| "tiered_iops_from A previous_limit remaining acc (tier # tiers) =
     obind (validate_rate (it_monthly_per_iops tier)) (\<lambda>_.
     obind (case it_up_to_inclusive tier of
              Some limit \<Rightarrow> if previous_limit < limit then Ok (min remaining (limit - previous_limit))
                            else Err InvalidIopsTiers
            | None \<Rightarrow> Ok remaining) (\<lambda>units.
     obind (d_mul A (dec_of units) (it_monthly_per_iops tier)) (\<lambda>price.
     obind (d_add A acc price) (\<lambda>acc'.
     if remaining - units = 0 then Ok acc'
     else (case it_up_to_inclusive tier of
             Some limit \<Rightarrow> tiered_iops_from A limit (remaining - units) acc' tiers
           | None \<Rightarrow> Err InvalidIopsTiers)))))"

definition tiered_iops_cost :: "dec_arith \<Rightarrow> u64 \<Rightarrow> iops_price_tier list \<Rightarrow> rat cost_result" where
  "tiered_iops_cost A iops tiers = (if iops = 0 then Ok 0 else tiered_iops_from A 0 iops 0 tiers)"

definition calculate_volume_monthly ::
  "dec_arith \<Rightarrow> ebs_volume_type \<Rightarrow> decimal_value \<Rightarrow> u64 option \<Rightarrow> decimal_value option \<Rightarrow> ebs_rate \<Rightarrow>
     rat cost_result" where
  "calculate_volume_monthly A volume_type capacity_gb provisioned_iops throughput_mibps rate =
     (if volume_type = Ephemeral then Ok 0
      else
        obind (validate_rate (eb_capacity_monthly_per_gb rate)) (\<lambda>_.
        obind (ok_or provisioned_iops MissingProvisionedIops) (\<lambda>provisioned.
        obind (d_mul A capacity_gb (eb_capacity_monthly_per_gb rate)) (\<lambda>capacity.
        let billable_iops = saturating_sub provisioned (eb_included_iops rate) in
        obind (if eb_volume_type rate = Io2 then tiered_iops_cost A billable_iops (eb_iops_tiers rate)
               else (case eb_iops_monthly_per_unit rate of
                       Some iops_rate \<Rightarrow>
                         obind (validate_rate iops_rate) (\<lambda>_. d_mul A (dec_of billable_iops) iops_rate)
                     | None \<Rightarrow> if billable_iops = 0 then Ok 0 else Err (MissingEbsRate (eb_volume_type rate))))
          (\<lambda>iops.
        obind (case throughput_mibps of
                 None \<Rightarrow> Ok 0
               | Some t \<Rightarrow> obind (d_sub A t (eb_included_throughput_mibps rate)) (\<lambda>extra. Ok (max extra 0)))
          (\<lambda>throughput.
        obind (case eb_throughput_monthly_per_mibps rate of
                 Some throughput_rate \<Rightarrow>
                   obind (validate_rate throughput_rate) (\<lambda>_. d_mul A throughput throughput_rate)
               | None \<Rightarrow> if eb_volume_type rate = Io2 then Ok 0 else if throughput = 0 then Ok 0
                         else Err (MissingEbsRate (eb_volume_type rate)))
          (\<lambda>throughput_cost.
        d_sum A capacity [iops, throughput_cost])))))))"

definition calculate_ebs_volume_monthly :: "dec_arith \<Rightarrow> ebs_volume \<Rightarrow> ebs_rate \<Rightarrow> rat cost_result" where
  "calculate_ebs_volume_monthly A volume rate =
     calculate_volume_monthly A (ev_volume_type volume) (ev_capacity_gb volume)
       (ev_provisioned_iops volume) (ev_throughput_mibps volume) rate"

definition calculate_vm_volume_monthly :: "dec_arith \<Rightarrow> vm_volume \<Rightarrow> ebs_rate \<Rightarrow> rat cost_result" where
  "calculate_vm_volume_monthly A volume rate =
     calculate_volume_monthly A (vv_volume_type volume) (vv_capacity_gb volume)
       (vv_provisioned_iops volume) (vv_throughput_mibps volume) rate"

definition ebs_rate_for :: "ebs_rate list \<Rightarrow> ebs_volume_type \<Rightarrow> ebs_rate cost_result" where
  "ebs_rate_for ebs_rates volume_type =
     ok_or (find (\<lambda>rate. eb_volume_type rate = volume_type) ebs_rates) (MissingEbsRate volume_type)"

definition monthly_ebs_storage :: "dec_arith \<Rightarrow> ebs_rate list \<Rightarrow> ebs_volume list \<Rightarrow> rat cost_result" where
  "monthly_ebs_storage A ebs_rates volumes =
     try_fold (\<lambda>total volume.
       if ev_volume_type volume = Ephemeral then Ok total
       else
         obind (ebs_rate_for ebs_rates (ev_volume_type volume)) (\<lambda>rate.
         obind (calculate_ebs_volume_monthly A volume rate) (\<lambda>monthly. d_add A total monthly)))
       0 volumes"

definition monthly_vm_storage :: "dec_arith \<Rightarrow> ebs_rate list \<Rightarrow> vm_volume list \<Rightarrow> rat cost_result" where
  "monthly_vm_storage A ebs_rates volumes =
     try_fold (\<lambda>total volume.
       if vv_volume_type volume = Ephemeral then Ok total
       else
         obind (ebs_rate_for ebs_rates (vv_volume_type volume)) (\<lambda>rate.
         obind (calculate_vm_volume_monthly A volume rate) (\<lambda>monthly. d_add A total monthly)))
       0 volumes"

definition source_max_iops :: "ec2_resource \<Rightarrow> u64 cost_result" where
  "source_max_iops resource =
     try_fold (\<lambda>maximum volume.
       obind (ok_or (ev_provisioned_iops volume) MissingProvisionedIops) (\<lambda>iops. Ok (max maximum iops)))
       0 (filter (\<lambda>volume. ev_volume_type volume \<noteq> Ephemeral) (ec2_volumes resource))"

section \<open>Source resources\<close>

definition calculate_ec2_source ::
  "dec_arith \<Rightarrow> ec2_resource \<Rightarrow> ec2_rate \<Rightarrow> ebs_rate list \<Rightarrow> project_settings \<Rightarrow>
     source_cost_breakdown cost_result" where
  "calculate_ec2_source A resource rate ebs_rates settings =
     obind (validate_rate (er_compute_hourly rate)) (\<lambda>_.
     let quantity = dec_of (sr_quantity (ec2_shared resource));
         hours = sr_annual_hours (ec2_shared resource)
     in
     obind (d_prod A quantity [hours, er_compute_hourly rate]) (\<lambda>compute_gross.
     obind (apply_discount A compute_gross (ps_source_compute_discount settings)) (\<lambda>compute_net.
     obind (source_license_hourly (sql_license_basis (ec2_sql resource)) (sql_edition (ec2_sql resource))
              (er_standard_license_hourly rate) (er_enterprise_license_hourly rate)) (\<lambda>license_hourly.
     obind (d_prod A quantity [hours, license_hourly]) (\<lambda>license_gross.
     obind (apply_discount A license_gross (ps_source_license_discount settings)) (\<lambda>license_net.
     obind (monthly_ebs_storage A ebs_rates (ec2_volumes resource)) (\<lambda>monthly_storage.
     obind (d_prod A quantity [12, monthly_storage]) (\<lambda>storage_gross.
     obind (apply_discount A storage_gross (ps_source_storage_discount settings)) (\<lambda>storage_net.
     source_costs A compute_gross compute_net license_gross license_net storage_gross storage_net
       0 0)))))))))"

definition calculate_ec2_vm_source ::
  "dec_arith \<Rightarrow> ec2_vm_resource \<Rightarrow> ec2_rate \<Rightarrow> ebs_rate list \<Rightarrow> project_settings \<Rightarrow>
     source_cost_breakdown cost_result" where
  "calculate_ec2_vm_source A resource rate ebs_rates settings =
     obind (validate_rate (er_compute_hourly rate)) (\<lambda>_.
     let quantity = dec_of (sr_quantity (ec2vm_shared resource));
         hours = sr_annual_hours (ec2vm_shared resource)
     in
     obind (d_prod A quantity [hours, er_compute_hourly rate]) (\<lambda>compute_gross.
     obind (apply_discount A compute_gross (ps_source_compute_discount settings)) (\<lambda>compute_net.
     obind (monthly_vm_storage A ebs_rates (ec2vm_volumes resource)) (\<lambda>monthly_storage.
     obind (d_prod A quantity [12, monthly_storage]) (\<lambda>storage_gross.
     obind (apply_discount A storage_gross (ps_source_storage_discount settings)) (\<lambda>storage_net.
     source_costs A compute_gross compute_net 0 0 storage_gross storage_net 0 0))))))"

definition calculate_rds_source ::
  "dec_arith \<Rightarrow> rds_resource \<Rightarrow> rds_rate \<Rightarrow> project_settings \<Rightarrow> source_cost_breakdown cost_result" where
  "calculate_rds_source A resource rate settings =
     obind (validate_rate (rr_effective_compute_hourly rate)) (\<lambda>_.
     obind (validate_rate (rr_storage_monthly_per_gb rate)) (\<lambda>_.
     let quantity = dec_of (sr_quantity (rds_shared resource));
         hours = sr_annual_hours (rds_shared resource);
         core_rate = (case sql_edition (rds_sql resource) of
                        Standard \<Rightarrow> rr_standard_license_core_hourly rate
                      | Enterprise \<Rightarrow> rr_enterprise_license_core_hourly rate)
     in
     obind (d_prod A quantity [hours, rr_effective_compute_hourly rate]) (\<lambda>compute_gross.
     obind (apply_discount A compute_gross (ps_source_compute_discount settings)) (\<lambda>compute_net.
     obind (validate_rate core_rate) (\<lambda>_.
     obind (if sql_license_basis (rds_sql resource) = Byol then Ok 0
            else d_prod A quantity [hours, dec_of (rr_source_vcpu rate), core_rate]) (\<lambda>license_gross.
     obind (apply_discount A license_gross (ps_source_license_discount settings)) (\<lambda>license_net.
     obind (d_prod A quantity [sql_data_gb (rds_sql resource), 12, rr_storage_monthly_per_gb rate])
       (\<lambda>storage_gross.
     obind (apply_discount A storage_gross (ps_source_storage_discount settings)) (\<lambda>storage_net.
     source_costs A compute_gross compute_net license_gross license_net storage_gross storage_net
       0 0)))))))))"

definition estimated_power :: "dec_arith \<Rightarrow> on_prem_resource \<Rightarrow> rat cost_result" where
  "estimated_power A resource =
     obind (d_mul A (dec_new 125 4) (dec_of (op_source_vcpu resource))) (\<lambda>cpu.
     obind (d_add A (dec_new 100 3) cpu) (\<lambda>base.
     obind (d_mul A (dec_new 375 6) (sr_source_ram_gb (op_shared resource))) (\<lambda>ram.
     obind (d_add A base ram) (\<lambda>base'.
     obind (d_mul A (dec_new 10 3) (sql_data_gb (op_sql resource))) (\<lambda>data.
     obind (d_div A data 1024) (\<lambda>storage.
     d_add A base' storage))))))"

definition calculate_on_prem_source ::
  "dec_arith \<Rightarrow> on_prem_resource \<Rightarrow> project_settings \<Rightarrow> on_prem_cost_result cost_result" where
  "calculate_on_prem_source A resource settings =
     obind (ok_or (case sql_edition (op_sql resource) of
                     Standard \<Rightarrow> ps_standard_license_sa_pack settings
                   | Enterprise \<Rightarrow> ps_enterprise_license_sa_pack settings)
              MissingOnPremLicenseSettings) (\<lambda>license_price.
     obind (ok_or (ps_remaining_coverage_months settings) MissingOnPremLicenseSettings) (\<lambda>coverage_months.
     obind (ok_or (ps_electricity_rate settings) MissingElectricityRate) (\<lambda>electricity_rate.
     obind (validate_rate license_price) (\<lambda>_.
     obind (validate_rate electricity_rate) (\<lambda>_.
     let quantity = dec_of (sr_quantity (op_shared resource));
         hours = sr_annual_hours (op_shared resource)
     in
     obind (estimated_power A resource) (\<lambda>estimated_power_kw.
     let effective_power_kw = unwrap_or (op_average_power_kw_override resource) estimated_power_kw in
     obind (d_prod A quantity [hours, effective_power_kw]) (\<lambda>annual_kwh.
     obind (d_mul A annual_kwh electricity_rate) (\<lambda>electricity_annual.
     obind (d_mul A quantity (op_hardware_capex_usd resource)) (\<lambda>capex.
     obind (d_div A capex (op_depreciation_years resource)) (\<lambda>hardware_annual.
     let billable_cores = max (op_licensable_cores resource) 4;
         license_pack_count = div_ceil billable_cores 2
     in
     obind (d_prod A quantity [dec_of license_pack_count, license_price, 12]) (\<lambda>coverage_price.
     obind (d_div A coverage_price (dec_of coverage_months)) (\<lambda>license_gross.
     obind (apply_discount A license_gross (ps_source_license_discount settings)) (\<lambda>license_net.
     obind (source_costs A hardware_annual hardware_annual license_gross license_net 0 0
              hardware_annual electricity_annual) (\<lambda>costs.
     obind (d_div A electricity_annual 12) (\<lambda>electricity_monthly_average.
     Ok \<lparr>ocr_costs = costs,
         ocr_explanation =
           \<lparr>oe_estimated_power_kw = estimated_power_kw, oe_effective_power_kw = effective_power_kw,
            oe_power_override_applied = (op_average_power_kw_override resource \<noteq> None),
            oe_annual_kwh = annual_kwh,
            oe_electricity_monthly_average = electricity_monthly_average,
            oe_license_pack_count = license_pack_count\<rparr>\<rparr>)))))))))))))))"

section \<open>Azure targets\<close>

definition calculate_azure_managed_disk_monthly ::
  "dec_arith \<Rightarrow> selected_managed_disk \<Rightarrow> azure_managed_disk_rate_set \<Rightarrow> decimal_value cost_result" where
  "calculate_azure_managed_disk_monthly A disk rate =
     obind (validate_rate (md_capacity_monthly rate)) (\<lambda>_.
     if sd_tier_key disk \<noteq> None then Ok (md_capacity_monthly rate)
     else
       obind (ok_or (md_additional_iops_monthly_per_unit rate) MissingAzureManagedDiskRate) (\<lambda>iops_rate.
       obind (ok_or (md_additional_throughput_monthly_per_mbps rate) MissingAzureManagedDiskRate)
         (\<lambda>throughput_rate.
       obind (validate_rate iops_rate) (\<lambda>_.
       obind (validate_rate throughput_rate) (\<lambda>_.
       obind (d_mul A (sd_capacity_gb disk) (md_capacity_monthly rate)) (\<lambda>capacity.
       obind (d_mul A (dec_of (sd_billed_additional_iops disk)) iops_rate) (\<lambda>iops.
       obind (d_add A capacity iops) (\<lambda>sum.
       obind (d_mul A (sd_billed_additional_throughput_mbps disk) throughput_rate) (\<lambda>throughput.
       d_add A sum throughput)))))))))"

definition calculate_azure ::
  "dec_arith \<Rightarrow> u32 \<Rightarrow> decimal_value \<Rightarrow> decimal_value \<Rightarrow> decimal_value \<Rightarrow> decimal_value \<Rightarrow>
     azure_rate \<Rightarrow> project_settings \<Rightarrow> azure_cost_breakdown cost_result" where
  "calculate_azure A quantity annual_hours azure_storage_gb_per_instance included_memory_gb
      selected_memory_gb rate settings =
     obind (try_map validate_rate
       [ar_compute_hourly rate, ar_license_hourly rate, ar_storage_monthly_per_gb rate,
        ar_additional_memory_per_gb_hourly rate]) (\<lambda>_.
     let quantity = dec_of quantity; hours = annual_hours in
     obind (d_prod A quantity [hours, ar_compute_hourly rate]) (\<lambda>compute_gross.
     obind (d_sub A selected_memory_gb included_memory_gb) (\<lambda>additional.
     let additional_ram_gb = max additional 0 in
     obind (d_prod A quantity [hours, additional_ram_gb, ar_additional_memory_per_gb_hourly rate])
       (\<lambda>additional_ram_gross.
     obind (d_add A compute_gross additional_ram_gross) (\<lambda>compute_plus_ram_gross.
     obind (apply_discount A compute_plus_ram_gross (ps_azure_compute_discount settings))
       (\<lambda>compute_plus_ram_net.
     obind (d_prod A quantity [hours, ar_license_hourly rate]) (\<lambda>license_gross.
     obind (apply_discount A license_gross (ps_azure_license_discount settings)) (\<lambda>license_net.
     obind (azure_mi_billable_storage_gb A azure_storage_gb_per_instance) (\<lambda>billable_storage_gb.
     obind (d_prod A quantity [billable_storage_gb, 12, ar_storage_monthly_per_gb rate]) (\<lambda>storage_gross.
     obind (apply_discount A storage_gross (ps_azure_storage_discount settings)) (\<lambda>storage_net.
     obind (d_sum A compute_plus_ram_net [license_net, storage_net]) (\<lambda>total_before_parity.
     Ok \<lparr>ac_compute_gross = compute_gross, ac_additional_ram_gb = additional_ram_gb,
         ac_additional_ram_gross = additional_ram_gross,
         ac_compute_plus_ram_net = compute_plus_ram_net, ac_license_gross = license_gross,
         ac_license_net = license_net, ac_storage_gross = storage_gross,
         ac_storage_net = storage_net, ac_total_before_parity = total_before_parity\<rparr>))))))))))))"

definition calculate_azure_vm ::
  "dec_arith \<Rightarrow> u32 \<Rightarrow> decimal_value \<Rightarrow> decimal_value \<Rightarrow> decimal_value \<Rightarrow> decimal_value \<Rightarrow>
     project_settings \<Rightarrow> azure_cost_breakdown cost_result" where
  "calculate_azure_vm A quantity annual_hours vm_total_hourly_rate vm_license_hourly_rate
      managed_disk_monthly_per_instance settings =
     obind (validate_rate vm_total_hourly_rate) (\<lambda>_.
     obind (validate_rate vm_license_hourly_rate) (\<lambda>_.
     obind (validate_rate managed_disk_monthly_per_instance) (\<lambda>_.
     if vm_total_hourly_rate < vm_license_hourly_rate then Err InvalidAzureVmRateComponents
     else
       (let quantity = dec_of quantity in
        obind (d_sub A vm_total_hourly_rate vm_license_hourly_rate) (\<lambda>compute_hourly_rate.
        obind (d_prod A quantity [annual_hours, compute_hourly_rate]) (\<lambda>compute_gross.
        obind (apply_discount A compute_gross (ps_azure_compute_discount settings)) (\<lambda>compute_net.
        obind (d_prod A quantity [annual_hours, vm_license_hourly_rate]) (\<lambda>license_gross.
        obind (apply_discount A license_gross (ps_azure_license_discount settings)) (\<lambda>license_net.
        obind (d_prod A quantity [12, managed_disk_monthly_per_instance]) (\<lambda>storage_gross.
        obind (apply_discount A storage_gross (ps_azure_storage_discount settings)) (\<lambda>storage_net.
        obind (d_sum A compute_net [license_net, storage_net]) (\<lambda>total_before_parity.
        Ok \<lparr>ac_compute_gross = compute_gross, ac_additional_ram_gb = 0, ac_additional_ram_gross = 0,
            ac_compute_plus_ram_net = compute_net, ac_license_gross = license_gross,
            ac_license_net = license_net, ac_storage_gross = storage_gross,
            ac_storage_net = storage_net, ac_total_before_parity = total_before_parity\<rparr>))))))))))))"

definition calculate_savings ::
  "dec_arith \<Rightarrow> source_cost_breakdown \<Rightarrow> azure_cost_breakdown \<Rightarrow> decimal_value \<Rightarrow>
     ('e, savings_breakdown) outcome" where
  "calculate_savings A source azure selected_adjustment =
     obind (if ac_total_before_parity azure = 0 then Ok 0
            else obind (d_div A (sc_total source) (ac_total_before_parity azure)) (\<lambda>ratio. d_sub A 1 ratio))
       (\<lambda>required_adjustment.
     obind (d_sub A 1 selected_adjustment) (\<lambda>kept.
     obind (d_mul A (ac_total_before_parity azure) kept) (\<lambda>azure_after_selected_parity.
     obind (d_sub A (sc_compute_net source) (ac_compute_plus_ram_net azure)) (\<lambda>compute_savings.
     obind (d_sub A (sc_license_net source) (ac_license_net azure)) (\<lambda>license_savings.
     obind (d_sub A (sc_storage_net source) (ac_storage_net azure)) (\<lambda>storage_savings.
     obind (d_sub A (sc_total source) (ac_total_before_parity azure)) (\<lambda>total_savings.
     obind (d_sub A azure_after_selected_parity (sc_total source)) (\<lambda>difference.
     Ok \<lparr>sb_compute_savings = compute_savings, sb_license_savings = license_savings,
         sb_storage_savings = storage_savings, sb_total_savings = total_savings,
         sb_required_adjustment = required_adjustment, sb_selected_adjustment = selected_adjustment,
         sb_azure_after_selected_parity = azure_after_selected_parity,
         sb_difference = difference\<rparr>))))))))"

section \<open>Signs and bounds of the arithmetic\<close>

lemma validate_rate_Ok [simp]: "validate_rate v = Ok u \<longleftrightarrow> 0 \<le> v"
  by (auto simp: validate_rate_def)

fun dec_prod :: "dec_arith \<Rightarrow> rat \<Rightarrow> rat list \<Rightarrow> rat option" where
  "dec_prod A x [] = Some x"
| "dec_prod A x (y # ys) = Option.bind (dec_mul A x y) (\<lambda>z. dec_prod A z ys)"

lemma d_prod_eq: "d_prod A x ys = or_panic (dec_prod A x ys)"
proof (induction ys arbitrary: x)
  case (Cons y ys)
  then show ?case by (cases "dec_mul A x y") (simp_all add: d_prod_def d_mul_def)
qed (simp add: d_prod_def)

lemma d_prod_sum_Ok [simp]:
  "d_prod A x ys = Ok z \<longleftrightarrow> dec_prod A x ys = Some z" "d_sum A x ys = Ok z \<longleftrightarrow> dec_sum A x ys = Some z"
  by (simp_all add: d_prod_eq d_sum_eq)

lemma d_prod_nonneg:
  assumes "dec_laws A" "dec_prod A x ys = Some z" "0 \<le> x" "\<forall>y\<in>set ys. 0 \<le> y"
  shows "0 \<le> z" "dec_repr A x \<or> ys \<noteq> [] \<Longrightarrow> dec_repr A z"
proof -
  have "0 \<le> z \<and> (dec_repr A x \<or> ys \<noteq> [] \<longrightarrow> dec_repr A z)" using assms(2-4)
  proof (induction ys arbitrary: x)
    case (Cons y ys)
    then obtain m where m: "dec_mul A x y = Some m" "dec_prod A m ys = Some z"
      by (auto simp: bind_eq_Some_conv)
    have "0 \<le> m" using mul_nonneg [OF assms(1) m(1)] Cons.prems(2,3) by simp
    moreover have "dec_repr A m" by (rule ops_repr(3) [OF assms(1) m(1)])
    ultimately show ?case using Cons.IH [OF m(2)] Cons.prems(3) by simp
  qed simp
  then show "0 \<le> z" "dec_repr A x \<or> ys \<noteq> [] \<Longrightarrow> dec_repr A z" by blast+
qed

lemma d_sum_upper:
  assumes "dec_laws A" "dec_sum A x ys = Some z" "0 \<le> x" "dec_repr A x" "\<forall>y\<in>set ys. 0 \<le> y \<and> dec_repr A y"
  shows "dec_repr A z" "x \<le> z" "\<forall>y\<in>set ys. y \<le> z"
proof -
  have "dec_repr A z \<and> x \<le> z \<and> (\<forall>y\<in>set ys. y \<le> z)" using assms(2-5)
  proof (induction ys arbitrary: x)
    case (Cons y ys)
    then obtain m where m: "dec_add A x y = Some m" "dec_sum A m ys = Some z"
      by (auto simp: bind_eq_Some_conv)
    have y: "0 \<le> y" "dec_repr A y" using Cons.prems(4) by simp_all
    have "x \<le> m" "y \<le> m"
      using add_upper [OF assms(1) m(1)] Cons.prems(2,3) y by blast+
    moreover have "0 \<le> m" "dec_repr A m"
      using calculation(2) y ops_repr(1) [OF assms(1) m(1)] by simp_all
    ultimately show ?case using Cons.IH [OF m(2)] Cons.prems(4) by auto
  qed simp
  then show "dec_repr A z" "x \<le> z" "\<forall>y\<in>set ys. y \<le> z" by blast+
qed

lemma apply_discount_bounds:
  assumes "dec_laws A" "apply_discount A gross discount = Ok net" "is_percent discount"
    "0 \<le> gross" "dec_repr A gross"
  shows "0 \<le> net" "net \<le> gross" "dec_repr A net"
proof -
  obtain kept where k: "dec_sub A 1 discount = Some kept" "dec_mul A gross kept = Some net"
    using assms(2) by (auto simp: apply_discount_def obind_Ok_iff)
  have kept: "0 \<le> kept" "kept \<le> 1"
    using sub_nonneg [OF assms(1) k(1)] sub_le [OF assms(1) k(1)] assms(1,3) by (simp_all add: is_percent_def)
  show "0 \<le> net" by (rule mul_nonneg [OF assms(1) k(2) assms(4) kept(1)])
  show "net \<le> gross" by (rule mul_percent_le [OF assms(1) k(2) assms(5,4) kept(2)])
  show "dec_repr A net" by (rule ops_repr(3) [OF assms(1) k(2)])
qed

definition discounted :: "dec_arith \<Rightarrow> rat \<Rightarrow> rat \<Rightarrow> bool" where
  "discounted A gross net \<longleftrightarrow> 0 \<le> net \<and> net \<le> gross \<and> dec_repr A net"

lemma discounted_zero: "dec_laws A \<Longrightarrow> discounted A 0 0"
  by (simp add: discounted_def)

lemma discounted_prod:
  assumes "dec_laws A" "dec_prod A x ys = Some gross" "apply_discount A gross discount = Ok net"
    "is_percent discount" "0 \<le> x" "\<forall>y\<in>set ys. 0 \<le> y" "ys \<noteq> []"
  shows "discounted A gross net"
  using d_prod_nonneg [OF assms(1,2,5,6)] apply_discount_bounds [OF assms(1,3,4)] assms(7)
  by (simp add: discounted_def)

definition source_costs_sane :: "source_cost_breakdown \<Rightarrow> bool" where
  "source_costs_sane c \<longleftrightarrow>
     0 \<le> sc_compute_net c \<and> sc_compute_net c \<le> sc_compute_gross c \<and>
     0 \<le> sc_license_net c \<and> sc_license_net c \<le> sc_license_gross c \<and>
     0 \<le> sc_storage_net c \<and> sc_storage_net c \<le> sc_storage_gross c \<and>
     0 \<le> sc_hardware_annual c \<and> 0 \<le> sc_electricity_annual c \<and>
     (\<forall>part\<in>{sc_compute_net c, sc_license_net c, sc_storage_net c, sc_electricity_annual c}.
        part \<le> sc_total c)"

lemma source_costs_saneI:
  assumes "dec_laws A" "source_costs A cg cn lg ln' sg sn h e = Ok c"
    "discounted A cg cn" "discounted A lg ln'" "discounted A sg sn" "0 \<le> e" "dec_repr A e" "0 \<le> h"
  shows "source_costs_sane c"
proof -
  obtain t where t: "dec_sum A cn [ln', sn, e] = Some t"
    and c: "c = \<lparr>sc_compute_gross = cg, sc_compute_net = cn, sc_license_gross = lg, sc_license_net = ln',
         sc_storage_gross = sg, sc_storage_net = sn, sc_hardware_annual = h, sc_electricity_annual = e,
         sc_total = t\<rparr>"
    using assms(2) by (auto simp del: dec_sum.simps simp: source_costs_def obind_Ok_iff)
  show ?thesis
    using d_sum_upper [OF assms(1) t] assms(3-8) by (simp add: c source_costs_sane_def discounted_def)
qed

lemma settings_percent:
  assumes "settings_ok s"
  shows "is_percent (ps_source_compute_discount s)" "is_percent (ps_source_license_discount s)"
    "is_percent (ps_source_storage_discount s)" "is_percent (ps_azure_compute_discount s)"
    "is_percent (ps_azure_license_discount s)" "is_percent (ps_azure_storage_discount s)"
    "is_percent (ps_selected_parity_adjustment s)"
  using assms by (simp_all add: settings_ok_def settings_percents_def)

section \<open>EBS volumes cost nothing negative\<close>

lemma tiered_iops_from_nonneg:
  assumes "dec_laws A" "tiered_iops_from A prev rem acc tiers = Ok t" "0 \<le> acc"
  shows "0 \<le> t \<and> dec_repr A t"
  using assms(2,3)
proof (induction tiers arbitrary: prev rem acc)
  case (Cons tier tiers)
  then obtain units price acc' where p: "0 \<le> it_monthly_per_iops tier"
    "dec_mul A (dec_of units) (it_monthly_per_iops tier) = Some price" "dec_add A acc price = Some acc'"
    and nxt: "acc' = t \<or> (\<exists>l. tiered_iops_from A l (rem - units) acc' tiers = Ok t)"
    by (auto simp: obind_Ok_iff Let_def split: option.splits if_splits)
  have "0 \<le> price" using mul_nonneg [OF assms(1) p(2)] p(1) by simp
  then have "0 \<le> acc'" "dec_repr A acc'"
    using add_nonneg [OF assms(1) p(3)] Cons.prems(2) ops_repr(1) [OF assms(1) p(3)] by simp_all
  then show ?case using nxt Cons.IH by blast
qed simp

lemma tiered_iops_cost_nonneg:
  "dec_laws A \<Longrightarrow> tiered_iops_cost A iops tiers = Ok t \<Longrightarrow> 0 \<le> t \<and> dec_repr A t"
  using tiered_iops_from_nonneg [of A 0 iops 0 tiers t] by (auto simp: tiered_iops_cost_def split: if_splits)

lemma calculate_volume_monthly_nonneg:
  assumes "dec_laws A" "calculate_volume_monthly A type capacity iops throughput rate = Ok m" "0 \<le> capacity"
  shows "0 \<le> m \<and> dec_repr A m"
proof (cases "type = Ephemeral")
  case True
  then show ?thesis using assms by (auto simp: calculate_volume_monthly_def)
next
  case False
  then obtain c i t tc where c: "0 \<le> eb_capacity_monthly_per_gb rate"
      "dec_mul A capacity (eb_capacity_monthly_per_gb rate) = Some c"
    and i: "(\<exists>b. tiered_iops_cost A b (eb_iops_tiers rate) = Ok i) \<or> i = 0 \<or>
      (\<exists>b r. 0 \<le> r \<and> dec_mul A (dec_of (b :: u64)) r = Some i)"
    and t: "0 \<le> t"
    and tc: "tc = 0 \<or> (\<exists>r. 0 \<le> r \<and> dec_mul A t r = Some tc)"
    and m: "dec_sum A c [i, tc] = Some m"
    using assms(2)
    apply (clarsimp simp del: dec_sum.simps simp: calculate_volume_monthly_def obind_Ok_iff Let_def)
    subgoal premises p for _ c i t tc
      apply (rule p(1) [of c i t tc])
      using p(2-) by (auto simp del: dec_sum.simps simp: obind_Ok_iff split: if_splits option.splits)
    done
  have "0 \<le> c \<and> dec_repr A c" using mul_nonneg [OF assms(1) c(2) assms(3) c(1)] ops_repr(3) [OF assms(1) c(2)] by blast
  moreover have "0 \<le> i \<and> dec_repr A i"
    using i tiered_iops_cost_nonneg [OF assms(1)] mul_nonneg [OF assms(1)] ops_repr(3) [OF assms(1)] assms(1)
      dec_of_nonneg zero_one_repr(1) by blast
  moreover have "0 \<le> tc \<and> dec_repr A tc"
    using tc t mul_nonneg [OF assms(1)] ops_repr(3) [OF assms(1)] assms(1) zero_one_repr(1) by blast
  ultimately have "dec_repr A m \<and> c \<le> m \<and> 0 \<le> c" using d_sum_upper [OF assms(1) m] by simp
  then show ?thesis by simp
qed


lemma monthly_ebs_storage_nonneg:
  assumes "dec_laws A" "monthly_ebs_storage A rates vs = Ok m" "\<forall>v\<in>set vs. 0 \<le> ev_capacity_gb v"
  shows "0 \<le> m \<and> dec_repr A m"
  using assms(2) unfolding monthly_ebs_storage_def
proof (rule try_fold_invariant)
  fix a v a' assume "v \<in> set vs" and a: "0 \<le> a \<and> dec_repr A a"
    and step: "(if ev_volume_type v = Ephemeral then Ok a
       else obind (ebs_rate_for rates (ev_volume_type v)) (\<lambda>rate.
         obind (calculate_ebs_volume_monthly A v rate) (\<lambda>monthly. d_add A a monthly))) = Ok a'"
  then have v: "0 \<le> ev_capacity_gb v" using assms(3) by blast
  show "0 \<le> a' \<and> dec_repr A a'"
  proof (cases "ev_volume_type v = Ephemeral")
    case False
    then obtain r x where x: "calculate_ebs_volume_monthly A v r = Ok x" "dec_add A a x = Some a'"
      using step by (auto simp: obind_Ok_iff)
    have "0 \<le> x" using calculate_volume_monthly_nonneg [OF assms(1) x(1) [unfolded calculate_ebs_volume_monthly_def] v] by blast
    then show ?thesis using add_nonneg [OF assms(1) x(2)] ops_repr(1) [OF assms(1) x(2)] a by blast
  qed (use a step in simp)
qed (simp add: assms(1))

lemma monthly_vm_storage_nonneg:
  assumes "dec_laws A" "monthly_vm_storage A rates vs = Ok m" "\<forall>v\<in>set vs. 0 \<le> vv_capacity_gb v"
  shows "0 \<le> m \<and> dec_repr A m"
  using assms(2) unfolding monthly_vm_storage_def
proof (rule try_fold_invariant)
  fix a v a' assume "v \<in> set vs" and a: "0 \<le> a \<and> dec_repr A a"
    and step: "(if vv_volume_type v = Ephemeral then Ok a
       else obind (ebs_rate_for rates (vv_volume_type v)) (\<lambda>rate.
         obind (calculate_vm_volume_monthly A v rate) (\<lambda>monthly. d_add A a monthly))) = Ok a'"
  then have v: "0 \<le> vv_capacity_gb v" using assms(3) by blast
  show "0 \<le> a' \<and> dec_repr A a'"
  proof (cases "vv_volume_type v = Ephemeral")
    case False
    then obtain r x where x: "calculate_vm_volume_monthly A v r = Ok x" "dec_add A a x = Some a'"
      using step by (auto simp: obind_Ok_iff)
    have "0 \<le> x" using calculate_volume_monthly_nonneg [OF assms(1) x(1) [unfolded calculate_vm_volume_monthly_def] v] by blast
    then show ?thesis using add_nonneg [OF assms(1) x(2)] ops_repr(1) [OF assms(1) x(2)] a by blast
  qed (use a step in simp)
qed (simp add: assms(1))

lemma source_license_hourly_nonneg: "source_license_hourly basis edition s e = Ok r \<Longrightarrow> 0 \<le> r"
  by (auto simp: source_license_hourly_def obind_Ok_iff split: if_splits)

section \<open>Source costs\<close>

text \<open>
  the cost of an EC2 resource of a valid project never goes below zero, no net amount exceeds its
  gross amount, and the total is at least each of its parts.
\<close>
theorem calculate_ec2_source_sane:
  assumes "dec_laws A" "settings_ok s" "shared_ok s (Ec2 r)" "kind_ok (Ec2 r)"
    and "calculate_ec2_source A r rate rates s = Ok c"
  shows "source_costs_sane c"
proof -
  let ?q = "dec_of (sr_quantity (ec2_shared r))"
  obtain cg cn lh lg ln' ms sg sn where
    c: "0 \<le> er_compute_hourly rate" "dec_prod A ?q [sr_annual_hours (ec2_shared r), er_compute_hourly rate] = Some cg"
      "apply_discount A cg (ps_source_compute_discount s) = (Ok cn :: rat cost_result)" and
    l: "source_license_hourly (sql_license_basis (ec2_sql r)) (sql_edition (ec2_sql r))
              (er_standard_license_hourly rate) (er_enterprise_license_hourly rate) = Ok lh"
      "dec_prod A ?q [sr_annual_hours (ec2_shared r), lh] = Some lg"
      "apply_discount A lg (ps_source_license_discount s) = (Ok ln' :: rat cost_result)" and
    st: "monthly_ebs_storage A rates (ec2_volumes r) = Ok ms" "dec_prod A ?q [12, ms] = Some sg"
      "apply_discount A sg (ps_source_storage_discount s) = (Ok sn :: rat cost_result)" and
    costs: "source_costs A cg cn lg ln' sg sn 0 0 = (Ok c :: source_cost_breakdown cost_result)"
    using assms(5) unfolding calculate_ec2_source_def Let_def obind_Ok_iff d_prod_sum_Ok validate_rate_Ok
    by blast
  have h: "0 \<le> sr_annual_hours (ec2_shared r)" using assms(3) by (simp add: shared_ok_def)
  have v: "\<forall>v\<in>set (ec2_volumes r). 0 \<le> ev_capacity_gb v" using assms(4) by (simp add: ebs_volume_ok_def)
  show ?thesis
  proof (rule source_costs_saneI [OF assms(1) costs])
    show "discounted A cg cn"
      using discounted_prod [OF assms(1) c(2,3)] settings_percent [OF assms(2)] h c(1) by simp
    show "discounted A lg ln'"
      using discounted_prod [OF assms(1) l(2,3)] settings_percent [OF assms(2)] h
        source_license_hourly_nonneg [OF l(1)] by simp
    show "discounted A sg sn"
      using discounted_prod [OF assms(1) st(2,3)] settings_percent [OF assms(2)]
        monthly_ebs_storage_nonneg [OF assms(1) st(1) v] by simp
  qed (simp_all add: assms(1))
qed

text \<open>the same for an EC2 virtual machine, which carries no SQL Server license.\<close>
theorem calculate_ec2_vm_source_sane:
  assumes "dec_laws A" "settings_ok s" "shared_ok s (Ec2Vm r)" "kind_ok (Ec2Vm r)"
    and "calculate_ec2_vm_source A r rate rates s = Ok c"
  shows "source_costs_sane c \<and> sc_license_gross c = 0"
proof -
  let ?q = "dec_of (sr_quantity (ec2vm_shared r))"
  obtain cg cn ms sg sn where
    c: "0 \<le> er_compute_hourly rate" "dec_prod A ?q [sr_annual_hours (ec2vm_shared r), er_compute_hourly rate] = Some cg"
      "apply_discount A cg (ps_source_compute_discount s) = (Ok cn :: rat cost_result)" and
    st: "monthly_vm_storage A rates (ec2vm_volumes r) = Ok ms" "dec_prod A ?q [12, ms] = Some sg"
      "apply_discount A sg (ps_source_storage_discount s) = (Ok sn :: rat cost_result)" and
    costs: "source_costs A cg cn 0 0 sg sn 0 0 = (Ok c :: source_cost_breakdown cost_result)"
    using assms(5) unfolding calculate_ec2_vm_source_def Let_def obind_Ok_iff d_prod_sum_Ok validate_rate_Ok
    by blast
  have h: "0 \<le> sr_annual_hours (ec2vm_shared r)" using assms(3) by (simp add: shared_ok_def)
  have v: "\<forall>v\<in>set (ec2vm_volumes r). 0 \<le> vv_capacity_gb v" using assms(4) by (simp add: vm_volume_ok_def)
  have "source_costs_sane c"
  proof (rule source_costs_saneI [OF assms(1) costs])
    show "discounted A cg cn"
      using discounted_prod [OF assms(1) c(2,3)] settings_percent [OF assms(2)] h c(1) by simp
    show "discounted A 0 0" by (rule discounted_zero [OF assms(1)])
    show "discounted A sg sn"
      using discounted_prod [OF assms(1) st(2,3)] settings_percent [OF assms(2)]
        monthly_vm_storage_nonneg [OF assms(1) st(1) v] by simp
  qed (simp_all add: assms(1))
  moreover have "sc_license_gross c = 0" using costs by (auto simp: source_costs_def obind_Ok_iff)
  ultimately show ?thesis by blast
qed

text \<open>
  the same for an RDS instance; a bring-your-own license costs nothing.
\<close>
theorem calculate_rds_source_sane:
  assumes "dec_laws A" "settings_ok s" "shared_ok s (Rds r)" "calculate_rds_source A r rate s = Ok c"
  shows "source_costs_sane c \<and> (sql_license_basis (rds_sql r) = Byol \<longrightarrow> sc_license_gross c = 0)"
proof -
  let ?q = "dec_of (sr_quantity (rds_shared r))" and ?h = "sr_annual_hours (rds_shared r)"
  define core where "core = (case sql_edition (rds_sql r) of
      Standard \<Rightarrow> rr_standard_license_core_hourly rate | Enterprise \<Rightarrow> rr_enterprise_license_core_hourly rate)"
  obtain cg cn lg ln' sg sn where
    c: "0 \<le> rr_effective_compute_hourly rate" "dec_prod A ?q [?h, rr_effective_compute_hourly rate] = Some cg"
      "apply_discount A cg (ps_source_compute_discount s) = (Ok cn :: rat cost_result)" and
    l: "0 \<le> core" "(if sql_license_basis (rds_sql r) = Byol then Ok 0
            else d_prod A ?q [?h, dec_of (rr_source_vcpu rate), core]) = (Ok lg :: rat cost_result)"
      "apply_discount A lg (ps_source_license_discount s) = (Ok ln' :: rat cost_result)" and
    st: "0 \<le> rr_storage_monthly_per_gb rate"
      "dec_prod A ?q [sql_data_gb (rds_sql r), 12, rr_storage_monthly_per_gb rate] = Some sg"
      "apply_discount A sg (ps_source_storage_discount s) = (Ok sn :: rat cost_result)" and
    costs: "source_costs A cg cn lg ln' sg sn 0 0 = (Ok c :: source_cost_breakdown cost_result)"
    using assms(4) unfolding calculate_rds_source_def Let_def core_def [symmetric] obind_Ok_iff
      d_prod_sum_Ok validate_rate_Ok by blast
  have h: "0 \<le> ?h" "0 \<le> sql_data_gb (rds_sql r)" using assms(3) by (simp_all add: shared_ok_def)
  have lic: "discounted A lg ln'"
  proof (cases "sql_license_basis (rds_sql r) = Byol")
    case True
    then show ?thesis using l apply_discount_bounds [OF assms(1) l(3) settings_percent(2) [OF assms(2)]] assms(1)
      by (simp add: discounted_def)
  next
    case False
    then have "dec_prod A ?q [?h, dec_of (rr_source_vcpu rate), core] = Some lg" using l(2) by (simp only: if_False d_prod_sum_Ok)
    from discounted_prod [OF assms(1) this l(3) settings_percent(2) [OF assms(2)]] h l(1)
    show ?thesis by simp
  qed
  have "source_costs_sane c"
  proof (rule source_costs_saneI [OF assms(1) costs])
    show "discounted A cg cn"
      using discounted_prod [OF assms(1) c(2,3)] settings_percent [OF assms(2)] h c(1) by simp
    show "discounted A sg sn"
      using discounted_prod [OF assms(1) st(2,3)] settings_percent [OF assms(2)] h st(1) by simp
  qed (simp_all add: assms(1) lic)
  moreover have "sc_license_gross c = lg" using costs by (auto simp: source_costs_def obind_Ok_iff)
  ultimately show ?thesis using l(2) by auto
qed


lemma div_ceil_two: "unat (div_ceil w (2 :: u32)) = (unat w + 1) div 2"
proof -
  have d: "unat (w div 2) = unat w div 2" "unat (w mod 2) = unat w mod 2"
    by (simp_all add: unat_div unat_mod)
  have "unat w < 4294967296" using unsigned_less [of w] by simp
  then have "unat (w div 2 + 1) = unat w div 2 + 1" by (simp add: unat_word_ariths d(1))
  moreover have "w mod 2 = 0 \<longleftrightarrow> unat w mod 2 = 0" using d(2) by (metis unat_eq_zero)
  ultimately show ?thesis unfolding div_ceil_def by (auto simp: d(1)) presburger+
qed

lemma source_costs_fields:
  "source_costs A cg cn lg ln' sg sn h e = Ok c \<Longrightarrow>
     sc_compute_net c = cn \<and> sc_license_gross c = lg \<and> sc_hardware_annual c = h"
  by (auto simp: source_costs_def obind_Ok_iff)

lemma estimated_power_nonneg:
  assumes "dec_laws A" "estimated_power A r = Ok p" "0 \<le> sr_source_ram_gb (op_shared r)"
    "0 \<le> sql_data_gb (op_sql r)"
  shows "0 \<le> p"
proof -
  obtain cpu base ram base' data storage where p:
    "dec_mul A (dec_new 125 4) (dec_of (op_source_vcpu r)) = Some cpu"
    "dec_add A (dec_new 100 3) cpu = Some base"
    "dec_mul A (dec_new 375 6) (sr_source_ram_gb (op_shared r)) = Some ram"
    "dec_add A base ram = Some base'"
    "dec_mul A (dec_new 10 3) (sql_data_gb (op_sql r)) = Some data"
    "dec_div A data 1024 = Some storage" "dec_add A base' storage = Some p"
    using assms(2) by (auto simp: estimated_power_def obind_Ok_iff)
  have n: "0 \<le> dec_new m k" if "0 \<le> m" for m k using that by (simp add: dec_new_def)
  have "0 \<le> cpu" using mul_nonneg [OF assms(1) p(1)] n by simp
  then have "0 \<le> base" using add_nonneg [OF assms(1) p(2)] n by simp
  moreover have "0 \<le> ram" using mul_nonneg [OF assms(1) p(3)] n assms(3) by simp
  ultimately have "0 \<le> base'" using add_nonneg [OF assms(1) p(4)] by simp
  moreover have "0 \<le> data" using mul_nonneg [OF assms(1) p(5)] n assms(4) by simp
  then have "0 \<le> storage" using div_nonneg [OF assms(1) p(6)] by simp
  ultimately show ?thesis using add_nonneg [OF assms(1) p(7)] by simp
qed

lemma on_prem_elim:
  assumes "calculate_on_prem_source A r s = Ok result"
  obtains price months rate est kwh capex where
    "(case sql_edition (op_sql r) of Standard \<Rightarrow> ps_standard_license_sa_pack s
        | Enterprise \<Rightarrow> ps_enterprise_license_sa_pack s) = Some price"
    "ps_remaining_coverage_months s = Some months" "ps_electricity_rate s = Some rate"
    "0 \<le> price" "0 \<le> rate" "estimated_power A r = Ok est"
    "dec_prod A (dec_of (sr_quantity (op_shared r))) [sr_annual_hours (op_shared r),
        unwrap_or (op_average_power_kw_override r) est] = Some kwh"
    "dec_mul A kwh rate = Some (sc_electricity_annual (ocr_costs result))"
    "dec_mul A (dec_of (sr_quantity (op_shared r))) (op_hardware_capex_usd r) = Some capex"
    "dec_div A capex (op_depreciation_years r) = Some (sc_hardware_annual (ocr_costs result))"
    "\<exists>cov. dec_prod A (dec_of (sr_quantity (op_shared r)))
        [dec_of (oe_license_pack_count (ocr_explanation result)), price, 12] = Some cov \<and>
      dec_div A cov (dec_of months) = Some (sc_license_gross (ocr_costs result))"
    "apply_discount A (sc_license_gross (ocr_costs result)) (ps_source_license_discount s) =
      (Ok (sc_license_net (ocr_costs result)) :: rat cost_result)"
    "source_costs A (sc_hardware_annual (ocr_costs result)) (sc_hardware_annual (ocr_costs result))
        (sc_license_gross (ocr_costs result)) (sc_license_net (ocr_costs result)) 0 0
        (sc_hardware_annual (ocr_costs result)) (sc_electricity_annual (ocr_costs result)) =
      (Ok (ocr_costs result) :: source_cost_breakdown cost_result)"
    "oe_license_pack_count (ocr_explanation result) = div_ceil (max (op_licensable_cores r) 4) 2"
proof -
  note that' = that
  show thesis
    using assms unfolding calculate_on_prem_source_def Let_def obind_Ok_iff d_prod_sum_Ok validate_rate_Ok
      ok_or_iff d_ops_Ok outcome.inject
    apply (elim exE conjE)
    subgoal premises p for price months rate u1 u2 est kwh el capex hw cov lg ln' costs avg
    proof -
      have c: "sc_hardware_annual costs = hw" "sc_license_gross costs = lg" "sc_license_net costs = ln'"
        "sc_electricity_annual costs = el"
        using p by (auto simp: source_costs_def obind_Ok_iff)
      have r: "ocr_costs result = costs"
        "oe_license_pack_count (ocr_explanation result) = div_ceil (max (op_licensable_cores r) 4) 2"
        using p by auto
      show thesis
        by (rule that' [of price months rate est kwh capex], unfold r c) (use p in blast)+
    qed
    done
qed

text \<open>
  the cost of an on-premises resource of a valid project is never negative, discounts only lower
  it, hardware enters the total once, and SQL Server is licensed in two-core packs for at least four
  cores.
\<close>
theorem calculate_on_prem_source_sane:
  assumes "dec_laws A" "settings_ok s" "shared_ok s (OnPrem r)" "kind_ok (OnPrem r)"
    and "calculate_on_prem_source A r s = Ok result"
  shows "source_costs_sane (ocr_costs result) \<and>
    sc_compute_net (ocr_costs result) = sc_hardware_annual (ocr_costs result) \<and>
    unat (oe_license_pack_count (ocr_explanation result)) = (max (unat (op_licensable_cores r)) 4 + 1) div 2"
proof -
  let ?q = "dec_of (sr_quantity (op_shared r))"
  let ?c = "ocr_costs result"
  from assms(5) obtain price months rate est kwh capex where
    m: "ps_remaining_coverage_months s = Some months" and pr: "0 \<le> price" and rate: "0 \<le> rate" and
    est: "estimated_power A r = Ok est" and
    kwh: "dec_prod A ?q [sr_annual_hours (op_shared r), unwrap_or (op_average_power_kw_override r) est] = Some kwh" and
    el: "dec_mul A kwh rate = Some (sc_electricity_annual ?c)" and
    capex: "dec_mul A ?q (op_hardware_capex_usd r) = Some capex" and
    hw: "dec_div A capex (op_depreciation_years r) = Some (sc_hardware_annual ?c)" and
    lg: "\<exists>cov. dec_prod A ?q [dec_of (oe_license_pack_count (ocr_explanation result)), price, 12] = Some cov \<and>
      dec_div A cov (dec_of months) = Some (sc_license_gross ?c)" and
    ln': "apply_discount A (sc_license_gross ?c) (ps_source_license_discount s) =
      (Ok (sc_license_net ?c) :: rat cost_result)" and
    costs: "source_costs A (sc_hardware_annual ?c) (sc_hardware_annual ?c) (sc_license_gross ?c)
        (sc_license_net ?c) 0 0 (sc_hardware_annual ?c) (sc_electricity_annual ?c) =
      (Ok ?c :: source_cost_breakdown cost_result)" and
    packs: "oe_license_pack_count (ocr_explanation result) = div_ceil (max (op_licensable_cores r) 4) 2"
    by (rule on_prem_elim)
  have r: "0 \<le> sr_annual_hours (op_shared r)" "0 \<le> sql_data_gb (op_sql r)" "0 < sr_source_ram_gb (op_shared r)"
    "0 \<le> op_hardware_capex_usd r" "0 < op_depreciation_years r"
    "\<And>k. op_average_power_kw_override r = Some k \<Longrightarrow> 0 < k"
    using assms(3,4) by (simp_all add: shared_ok_def)
  have "0 \<le> est" using estimated_power_nonneg [OF assms(1) est] r by simp
  then have "0 \<le> unwrap_or (op_average_power_kw_override r) est"
    using r(6) by (force simp: unwrap_or_def split: option.split)
  then have "0 \<le> kwh" using d_prod_nonneg(1) [OF assms(1) kwh] r by simp
  then have elec: "0 \<le> sc_electricity_annual ?c" "dec_repr A (sc_electricity_annual ?c)"
    using mul_nonneg [OF assms(1) el] rate ops_repr(3) [OF assms(1) el] by simp_all
  have "0 \<le> capex" using mul_nonneg [OF assms(1) capex] r by simp
  then have hardware: "discounted A (sc_hardware_annual ?c) (sc_hardware_annual ?c)"
    using div_nonneg [OF assms(1) hw] r ops_repr(4) [OF assms(1) hw] by (simp add: discounted_def)
  have "ps_project_type s = PtOnPrem" using assms(3) by (simp add: shared_ok_def)
  then have "months \<in> {12, 24, 36}" using assms(2) m by (auto simp: settings_ok_def on_prem_settings_ok_def)
  then have "0 < dec_of months" by (auto simp: dec_of_def)
  then have gross: "0 \<le> sc_license_gross ?c" "dec_repr A (sc_license_gross ?c)"
    using lg d_prod_nonneg(1) [OF assms(1)] div_nonneg [OF assms(1)] ops_repr(4) [OF assms(1)] pr
    by (fastforce simp del: dec_prod.simps)+
  then have license: "discounted A (sc_license_gross ?c) (sc_license_net ?c)"
    using apply_discount_bounds [OF assms(1) ln' settings_percent(2) [OF assms(2)]] by (simp add: discounted_def)
  have "source_costs_sane ?c"
    by (rule source_costs_saneI [OF assms(1) costs hardware license discounted_zero [OF assms(1)] elec])
       (use hardware in \<open>simp add: discounted_def\<close>)
  moreover have "sc_compute_net ?c = sc_hardware_annual ?c" using source_costs_fields [OF costs] by blast
  moreover have "unat (max (op_licensable_cores r) 4) = max (unat (op_licensable_cores r)) 4"
    by (simp add: max_def word_le_nat_alt)
  ultimately show ?thesis by (simp add: packs div_ceil_two)
qed

section \<open>The tiered IOPS schedule\<close>

fun tier_index :: "nat \<Rightarrow> iops_price_tier list \<Rightarrow> nat" where
  "tier_index i [] = 0"
| "tier_index i (tier # tiers) =
     (case it_up_to_inclusive tier of
        None \<Rightarrow> 0
      | Some limit \<Rightarrow> if i \<le> unat limit then 0 else Suc (tier_index i tiers))"

definition tier_share :: "nat \<Rightarrow> nat \<Rightarrow> iops_price_tier list \<Rightarrow> nat \<Rightarrow> nat" where
  "tier_share lower upper tiers k = card {i \<in> {lower<..upper}. tier_index i tiers = k}"

definition tier_prices ::
  "dec_arith \<Rightarrow> nat \<Rightarrow> nat \<Rightarrow> iops_price_tier list \<Rightarrow> rat list \<Rightarrow> bool" where
  "tier_prices A lower upper tiers ps \<longleftrightarrow>
     list_all2 (\<lambda>k p. dec_mul A (of_nat (tier_share lower upper tiers k)) (it_monthly_per_iops (tiers ! k)) = Some p)
       [0..<length tiers] ps"

lemma tier_prices_Cons:
  "tier_prices A lower upper (tier # tiers) (p # ps) \<longleftrightarrow>
     dec_mul A (of_nat (tier_share lower upper (tier # tiers) 0)) (it_monthly_per_iops tier) = Some p \<and>
     list_all2 (\<lambda>k p. dec_mul A (of_nat (tier_share lower upper (tier # tiers) (Suc k)))
        (it_monthly_per_iops (tiers ! k)) = Some p) [0..<length tiers] ps"
proof -
  have "[0..<length (tier # tiers)] = 0 # map Suc [0..<length tiers]"
    by (simp add: upt_conv_Cons map_Suc_upt del: upt_Suc)
  then show ?thesis unfolding tier_prices_def by (simp add: list_all2_map1 del: upt_Suc)
qed

lemma tier_share_first:
  "it_up_to_inclusive tier = None \<Longrightarrow> tier_share lower upper (tier # tiers) 0 = upper - lower"
  "it_up_to_inclusive tier = Some l \<Longrightarrow> tier_share lower upper (tier # tiers) 0 = min upper (unat l) - lower"
proof -
  assume "it_up_to_inclusive tier = None"
  then have "{i \<in> {lower<..upper}. tier_index i (tier # tiers) = 0} = {lower<..upper}" by auto
  then show "tier_share lower upper (tier # tiers) 0 = upper - lower" by (simp add: tier_share_def)
next
  assume l: "it_up_to_inclusive tier = Some l"
  then have "{i \<in> {lower<..upper}. tier_index i (tier # tiers) = 0} = {lower<..min upper (unat l)}" by auto
  then show "tier_share lower upper (tier # tiers) 0 = min upper (unat l) - lower" by (simp add: tier_share_def)
qed

lemma tier_share_rest:
  "it_up_to_inclusive tier = None \<Longrightarrow> tier_share lower upper (tier # tiers) (Suc k) = 0"
  "it_up_to_inclusive tier = Some l \<Longrightarrow>
     tier_share lower upper (tier # tiers) (Suc k) = tier_share (max lower (unat l)) upper tiers k"
proof -
  assume l: "it_up_to_inclusive tier = Some l"
  then have "{i \<in> {lower<..upper}. tier_index i (tier # tiers) = Suc k} =
      {i \<in> {max lower (unat l)<..upper}. tier_index i tiers = k}" by auto
  then show "tier_share lower upper (tier # tiers) (Suc k) = tier_share (max lower (unat l)) upper tiers k"
    by (simp add: tier_share_def)
qed (simp add: tier_share_def)

lemma tier_share_empty: "upper \<le> lower \<Longrightarrow> tier_share lower upper tiers k = 0"
  by (simp add: tier_share_def)

lemma rest_free:
  assumes "dec_laws A" "dec_repr A t" "\<And>k. share k = (0 :: nat)"
  shows "\<exists>ps. list_all2 (\<lambda>k p. dec_mul A (of_nat (share k)) (rate k) = Some p) [0..<n] ps \<and> dec_sum A t ps = Some t"
proof (intro exI conjI)
  have "dec_mul A 0 x = Some 0" for x using ops_exact(3) [OF assms(1), of 0 x] assms(1) by simp
  then show "list_all2 (\<lambda>k p. dec_mul A (of_nat (share k)) (rate k) = Some p) [0..<n] (replicate n 0)"
    by (simp add: assms(3) list_all2_conv_all_nth)
  have "dec_add A t 0 = Some t" using ops_exact(1) [OF assms(1), of t 0] assms(2) by simp
  then show "dec_sum A t (replicate n 0) = Some t" by (induction n) simp_all
qed

lemma tiered_iops_from_allocation:
  assumes "dec_laws A" "tiered_iops_from A prev rem acc tiers = Ok t" "rem \<noteq> 0"
    "unat prev + unat rem < 2 ^ 64"
  shows "(\<forall>i\<in>{unat prev<..unat prev + unat rem}. tier_index i tiers < length tiers) \<and>
    (\<exists>ps. tier_prices A (unat prev) (unat prev + unat rem) tiers ps \<and> dec_sum A acc ps = Some t)"
  using assms(2-4)
proof (induction tiers arbitrary: prev rem acc)
  case (Cons tier tiers)
  let ?P = "unat prev" and ?R = "unat rem"
  show ?case
  proof (cases "it_up_to_inclusive tier")
    case None
    then obtain p where p: "dec_mul A (dec_of rem) (it_monthly_per_iops tier) = Some p" "dec_add A acc p = Some t"
      using Cons.prems(1) by (auto simp: obind_Ok_iff split: if_splits)
    have "dec_repr A t" by (rule ops_repr(1) [OF assms(1) p(2)])
    then obtain ps where ps: "list_all2 (\<lambda>k p. dec_mul A (of_nat (tier_share ?P (?P + ?R) (tier # tiers) (Suc k)))
        (it_monthly_per_iops (tiers ! k)) = Some p) [0..<length tiers] ps" "dec_sum A t ps = Some t"
      using rest_free [OF assms(1), where share = "\<lambda>k. tier_share ?P (?P + ?R) (tier # tiers) (Suc k)"
          and rate = "\<lambda>k. it_monthly_per_iops (tiers ! k)" and n = "length tiers"]
        tier_share_rest(1) [OF None] by blast
    have "tier_prices A ?P (?P + ?R) (tier # tiers) (p # ps) \<and> dec_sum A acc (p # ps) = Some t"
      using ps p by (simp add: tier_prices_Cons tier_share_first(1) [OF None] dec_of_def)
    then show ?thesis using None by auto
  next
    case (Some l)
    let ?u = "min rem (l - prev)"
    have lt: "prev < l" using Cons.prems(1) Some by (auto simp: obind_Ok_iff split: if_splits)
    then have lp: "unat (l - prev) = unat l - ?P" "?P < unat l"
      by (simp_all add: unat_sub_if' word_less_nat_alt)
    have u: "unat ?u = min (?P + ?R) (unat l) - ?P" using lp by (auto simp: min_def word_le_nat_alt)
    obtain p acc' where p: "dec_mul A (dec_of ?u) (it_monthly_per_iops tier) = Some p" "dec_add A acc p = Some acc'"
      and nxt: "if rem - ?u = 0 then acc' = t else tiered_iops_from A l (rem - ?u) acc' tiers = Ok t"
      using Cons.prems(1) Some lt by (auto simp: obind_Ok_iff split: if_splits)
    have first: "dec_mul A (of_nat (tier_share ?P (?P + ?R) (tier # tiers) 0)) (it_monthly_per_iops tier) = Some p"
      using p(1) by (simp add: tier_share_first(2) [OF Some] u [symmetric] dec_of_def)
    have left: "unat (rem - ?u) = ?R - unat ?u" by (simp add: unat_sub)
    show ?thesis
    proof (cases "rem - ?u = 0")
      case True
      then have "?R - unat ?u = 0" using left by simp
      then have "?R \<le> min (?P + ?R) (unat l) - ?P" unfolding u by simp
      then have small: "?P + ?R \<le> unat l" using lp(2) by linarith
      have "dec_repr A t" using ops_repr(1) [OF assms(1) p(2)] nxt True by simp
      moreover have "tier_share ?P (?P + ?R) (tier # tiers) (Suc k) = 0" for k
        using small by (simp add: tier_share_rest(2) [OF Some] tier_share_empty)
      ultimately obtain ps where ps: "list_all2 (\<lambda>k p. dec_mul A (of_nat (tier_share ?P (?P + ?R) (tier # tiers) (Suc k)))
          (it_monthly_per_iops (tiers ! k)) = Some p) [0..<length tiers] ps" "dec_sum A t ps = Some t"
        using rest_free [OF assms(1), where share = "\<lambda>k. tier_share ?P (?P + ?R) (tier # tiers) (Suc k)"
            and rate = "\<lambda>k. it_monthly_per_iops (tiers ! k)" and n = "length tiers"] by blast
      have "tier_prices A ?P (?P + ?R) (tier # tiers) (p # ps) \<and> dec_sum A acc (p # ps) = Some t"
        using ps first p(2) nxt True by (simp add: tier_prices_Cons)
      then show ?thesis using Some small by auto
    next
      case False
      then have "unat (rem - ?u) \<noteq> 0" by (simp only: unat_eq_zero not_False_eq_True)
      then have "?R - (min (?P + ?R) (unat l) - ?P) \<noteq> 0" unfolding left u .
      then have big: "unat l < ?P + ?R" "unat (rem - ?u) = ?P + ?R - unat l"
        unfolding left u using lp(2) by linarith+
      have total: "unat l + unat (rem - ?u) = ?P + ?R" using big by simp
      have IH: "(\<forall>i\<in>{unat l<..?P + ?R}. tier_index i tiers < length tiers) \<and>
          (\<exists>ps. tier_prices A (unat l) (?P + ?R) tiers ps \<and> dec_sum A acc' ps = Some t)"
        using Cons.IH [of l "rem - ?u" acc'] nxt False total Cons.prems(3) by simp
      then obtain ps where ps: "tier_prices A (unat l) (?P + ?R) tiers ps" "dec_sum A acc' ps = Some t" by blast
      have "max ?P (unat l) = unat l" using lp by simp
      then have "tier_prices A ?P (?P + ?R) (tier # tiers) (p # ps) \<and> dec_sum A acc (p # ps) = Some t"
        using ps(2) ps(1) [unfolded tier_prices_def] first p(2)
        by (simp add: tier_prices_Cons tier_share_rest(2) [OF Some])
      then show ?thesis using IH Some by auto
    qed
  qed
qed simp

text \<open>
  C23: a tiered IOPS price bills every one of the provisioned IOPS exactly once, in the first tier of the
  schedule whose limit reaches it: the price is the sum over the tiers of the tier's share times its rate.
\<close>
theorem tiered_iops_allocation:
  assumes "dec_laws A" "tiered_iops_cost A iops tiers = Ok t"
  shows "(\<forall>i\<in>{0<..unat iops}. tier_index i tiers < length tiers) \<and>
    (\<exists>ps. tier_prices A 0 (unat iops) tiers ps \<and> dec_sum A 0 ps = Some t)"
proof (cases "iops = 0")
  case True
  then have "t = 0" using assms(2) by (simp add: tiered_iops_cost_def)
  then show ?thesis
    using rest_free [OF assms(1), of 0 "\<lambda>k. tier_share 0 0 tiers k" "\<lambda>k. it_monthly_per_iops (tiers ! k)" "length tiers"]
      True assms(1) by (simp add: tier_prices_def tier_share_empty)
next
  case False
  then show ?thesis
    using tiered_iops_from_allocation [OF assms(1), of 0 iops 0 tiers t] assms(2) unsigned_less [of iops]
    by (simp add: tiered_iops_cost_def)
qed

section \<open>Managed Instance storage\<close>

text \<open>
  the configured Managed Instance storage is the least positive multiple of 32 GB that holds the
  required storage, and all but the first 32 GB of it are billed, for every size a project may have
  whose 32nd part the crate can hold.
\<close>
theorem azure_mi_storage_units:
  assumes "dec_laws A" "0 \<le> required" "required \<le> 1000000000" "dec_repr A (required / 32)"
  shows "azure_mi_configured_storage_gb A required =
      (Ok (32 * of_int (max \<lceil>required / 32\<rceil> 1)) :: decimal_value cost_result) \<and>
    obind (azure_mi_configured_storage_gb A required) (azure_mi_billable_storage_gb A) =
      (Ok (32 * of_int (max \<lceil>required / 32\<rceil> 1) - 32) :: decimal_value cost_result)"
proof -
  let ?n = "max \<lceil>required / 32\<rceil> 1"
  have n: "1 \<le> ?n" "?n \<le> 31250000"
    using assms(2,3) by (simp_all add: ceiling_le_iff)
  have m: "max (of_int \<lceil>required / 32\<rceil>) 1 = (of_int ?n :: rat)" by (simp add: max_def)
  have r: "dec_repr A (of_int ?n * 32)"
    using int_repr [OF assms(1), of "?n * 32"] n by simp
  have r': "dec_repr A (32 * of_int ?n - 32)"
    using int_repr [OF assms(1), of "32 * ?n - 32"] n by simp
  have "dec_div A required 32 = Some (required / 32)" using ops_exact(4) [OF assms(1) _ assms(4)] by simp
  moreover have "dec_mul A (of_int ?n) 32 = Some (of_int ?n * 32)" by (rule ops_exact(3) [OF assms(1) r])
  ultimately have conf: "azure_mi_configured_storage_gb A required =
      (Ok (32 * of_int ?n) :: decimal_value cost_result)"
    by (simp add: azure_mi_configured_storage_gb_def AZURE_MI_STORAGE_UNIT_GB_def d_div_def d_mul_def
        ceil_of [OF assms(1,4)] m mult.commute)
  have "dec_sub A (32 * of_int ?n) 32 = Some (32 * of_int ?n - 32)" by (rule ops_exact(2) [OF assms(1) r'])
  moreover have "0 \<le> 32 * of_int ?n - (32 :: rat)" using n(1) by (simp add: max_def)
  ultimately have "azure_mi_billable_storage_gb A (32 * of_int ?n) =
      (Ok (32 * of_int ?n - 32) :: decimal_value cost_result)"
    by (simp add: azure_mi_billable_storage_gb_def AZURE_MI_STORAGE_UNIT_GB_def d_sub_def max_absorb1 del: of_int_max)
  then show ?thesis by (simp add: conf)
qed


section \<open>Azure costs\<close>

text \<open>The compute discount applies to the sum of the compute and additional memory amounts.\<close>

definition azure_costs_sane :: "dec_arith \<Rightarrow> azure_cost_breakdown \<Rightarrow> bool" where
  "azure_costs_sane A c \<longleftrightarrow>
     0 \<le> ac_compute_gross c \<and> 0 \<le> ac_additional_ram_gb c \<and> 0 \<le> ac_additional_ram_gross c \<and>
     0 \<le> ac_compute_plus_ram_net c \<and>
     (\<exists>gross. dec_add A (ac_compute_gross c) (ac_additional_ram_gross c) = Some gross \<and>
        ac_compute_plus_ram_net c \<le> gross) \<and>
     0 \<le> ac_license_net c \<and> ac_license_net c \<le> ac_license_gross c \<and>
     0 \<le> ac_storage_net c \<and> ac_storage_net c \<le> ac_storage_gross c \<and>
     (\<forall>part\<in>{ac_compute_plus_ram_net c, ac_license_net c, ac_storage_net c}.
        part \<le> ac_total_before_parity c)"

lemma azure_total:
  assumes "dec_laws A" "dec_sum A cn [ln', sn] = Some t" "discounted A cg cn" "discounted A lg ln'"
    "discounted A sg sn"
  shows "\<forall>part\<in>{cn, ln', sn}. part \<le> t"
  using d_sum_upper [OF assms(1,2)] assms(3-5) by (simp add: discounted_def)

lemma discounted_sum:
  assumes "dec_laws A" "dec_add A x y = Some gross" "apply_discount A gross discount = Ok net"
    "is_percent discount" "0 \<le> x" "0 \<le> y"
  shows "discounted A gross net"
  using add_nonneg [OF assms(1,2,5,6)] ops_repr(1) [OF assms(1,2)] apply_discount_bounds [OF assms(1,3,4)]
  by (simp add: discounted_def)

text \<open>
  an Azure Managed Instance estimate is never negative, its discounts only lower the license and
  storage amounts, and its total is at least each of its parts.
\<close>
theorem calculate_azure_sane:
  assumes "dec_laws A" "settings_ok s" "0 \<le> hours"
    and "calculate_azure A n hours storage included selected rate s = Ok c"
  shows "azure_costs_sane A c"
proof -
  obtain u cg add ag g cn lg ln' b sg sn t where
    rates: "try_map validate_rate [ar_compute_hourly rate, ar_license_hourly rate,
       ar_storage_monthly_per_gb rate, ar_additional_memory_per_gb_hourly rate] = Ok u" and
    cg: "dec_prod A (dec_of n) [hours, ar_compute_hourly rate] = Some cg" and
    ag: "dec_prod A (dec_of n) [hours, max add 0, ar_additional_memory_per_gb_hourly rate] = Some ag" and
    g: "dec_add A cg ag = Some g" "apply_discount A g (ps_azure_compute_discount s) = (Ok cn :: rat cost_result)" and
    lg: "dec_prod A (dec_of n) [hours, ar_license_hourly rate] = Some lg"
      "apply_discount A lg (ps_azure_license_discount s) = (Ok ln' :: rat cost_result)" and
    b: "azure_mi_billable_storage_gb A storage = (Ok b :: decimal_value cost_result)" and
    sg: "dec_prod A (dec_of n) [b, 12, ar_storage_monthly_per_gb rate] = Some sg"
      "apply_discount A sg (ps_azure_storage_discount s) = (Ok sn :: rat cost_result)" and
    t: "dec_sum A cn [ln', sn] = Some t" and
    c: "c = \<lparr>ac_compute_gross = cg, ac_additional_ram_gb = max add 0, ac_additional_ram_gross = ag,
         ac_compute_plus_ram_net = cn, ac_license_gross = lg, ac_license_net = ln', ac_storage_gross = sg,
         ac_storage_net = sn, ac_total_before_parity = t\<rparr>"
    using assms(4) unfolding calculate_azure_def Let_def obind_Ok_iff d_prod_sum_Ok d_ops_Ok outcome.inject
    by blast
  have r: "0 \<le> ar_compute_hourly rate" "0 \<le> ar_license_hourly rate" "0 \<le> ar_storage_monthly_per_gb rate"
    "0 \<le> ar_additional_memory_per_gb_hourly rate"
    using rates by (simp_all add: obind_Ok_iff)
  have "0 \<le> b" using b by (auto simp: azure_mi_billable_storage_gb_def obind_Ok_iff)
  then have sn: "discounted A sg sn"
    using discounted_prod [OF assms(1) sg] settings_percent [OF assms(2)] r by simp
  have ln': "discounted A lg ln'"
    using discounted_prod [OF assms(1) lg] settings_percent [OF assms(2)] r assms(3) by simp
  have gross: "0 \<le> cg" "0 \<le> ag"
    using d_prod_nonneg(1) [OF assms(1) cg] d_prod_nonneg(1) [OF assms(1) ag] r assms(3) by simp_all
  have cn: "discounted A g cn"
    using discounted_sum [OF assms(1) g] settings_percent [OF assms(2)] gross by simp
  show ?thesis
    using azure_total [OF assms(1) t cn ln' sn] gross cn ln' sn g(1)
    by (simp add: c azure_costs_sane_def discounted_def)
qed

text \<open>the same for an Azure virtual machine with its managed disks.\<close>
theorem calculate_azure_vm_sane:
  assumes "dec_laws A" "settings_ok s" "0 \<le> hours"
    and "calculate_azure_vm A n hours vm_rate license_rate disks s = Ok c"
  shows "azure_costs_sane A c \<and> license_rate \<le> vm_rate"
proof -
  have le: "\<not> vm_rate < license_rate" and r: "0 \<le> vm_rate" "0 \<le> license_rate" "0 \<le> disks"
    using assms(4) by (auto simp: calculate_azure_vm_def obind_Ok_iff split: if_splits)
  obtain ch cg cn lg ln' sg sn t where
    ch: "dec_sub A vm_rate license_rate = Some ch" and
    cg: "dec_prod A (dec_of n) [hours, ch] = Some cg"
      "apply_discount A cg (ps_azure_compute_discount s) = (Ok cn :: rat cost_result)" and
    lg: "dec_prod A (dec_of n) [hours, license_rate] = Some lg"
      "apply_discount A lg (ps_azure_license_discount s) = (Ok ln' :: rat cost_result)" and
    sg: "dec_prod A (dec_of n) [12, disks] = Some sg"
      "apply_discount A sg (ps_azure_storage_discount s) = (Ok sn :: rat cost_result)" and
    t: "dec_sum A cn [ln', sn] = Some t" and
    c: "c = \<lparr>ac_compute_gross = cg, ac_additional_ram_gb = 0, ac_additional_ram_gross = 0,
         ac_compute_plus_ram_net = cn, ac_license_gross = lg, ac_license_net = ln', ac_storage_gross = sg,
         ac_storage_net = sn, ac_total_before_parity = t\<rparr>"
    using assms(4) unfolding calculate_azure_vm_def Let_def obind_Ok_iff if_not_P [OF le] d_prod_sum_Ok
      d_ops_Ok outcome.inject by blast
  have "0 \<le> ch" using sub_nonneg [OF assms(1) ch] le by simp
  then have cn: "discounted A cg cn" "0 \<le> cg"
    using discounted_prod [OF assms(1) cg] settings_percent [OF assms(2)] assms(3)
      d_prod_nonneg(1) [OF assms(1) cg(1)] by simp_all
  have ln': "discounted A lg ln'" and sn: "discounted A sg sn"
    using discounted_prod [OF assms(1) lg] discounted_prod [OF assms(1) sg]
      settings_percent [OF assms(2)] assms(3) r by simp_all
  have "dec_repr A cg" using d_prod_nonneg(2) [OF assms(1) cg(1)] \<open>0 \<le> ch\<close> assms(3) by simp
  then have "dec_add A cg 0 = Some cg" using ops_exact(1) [OF assms(1), of cg 0] by simp
  then show ?thesis
    using azure_total [OF assms(1) t cn(1) ln' sn] cn ln' sn le
    by (simp add: c azure_costs_sane_def discounted_def)
qed

section \<open>Savings\<close>

text \<open>
  with exact arithmetic the savings add up: the total saving is the sum of the compute, license and
  storage savings plus the electricity saved, and choosing the required adjustment closes the difference
  to the source.
\<close>
theorem calculate_savings_consistent:
  assumes "calculate_savings exact_arith source azure adjustment =
      (Ok s :: (cost_error, savings_breakdown) outcome)"
    and "sc_total source = sc_compute_net source + sc_license_net source + sc_storage_net source
      + sc_electricity_annual source"
    and "ac_total_before_parity azure = ac_compute_plus_ram_net azure + ac_license_net azure + ac_storage_net azure"
  shows "sb_total_savings s = sb_compute_savings s + sb_license_savings s + sb_storage_savings s
      + sc_electricity_annual source \<and>
    (ac_total_before_parity azure \<noteq> 0 \<and> adjustment = sb_required_adjustment s \<longrightarrow> sb_difference s = 0)"
proof -
  have e: "dec_add exact_arith x y = Some z \<Longrightarrow> z = x + y" "dec_sub exact_arith x y = Some z \<Longrightarrow> z = x - y"
    "dec_mul exact_arith x y = Some z \<Longrightarrow> z = x * y" "dec_div exact_arith x y = Some z \<Longrightarrow> z = x / y" for x y z
    by (auto simp: exact_arith_def in_range_def split: if_splits)
  let ?t = "ac_total_before_parity azure"
  obtain req kept after cs ls ss ts d where
    req: "(if ?t = 0 then Ok 0
       else obind (d_div exact_arith (sc_total source) ?t) (d_sub exact_arith 1)) = (Ok req :: rat cost_result)" and
    p: "dec_sub exact_arith 1 adjustment = Some kept" "dec_mul exact_arith ?t kept = Some after"
      "dec_sub exact_arith (sc_compute_net source) (ac_compute_plus_ram_net azure) = Some cs"
      "dec_sub exact_arith (sc_license_net source) (ac_license_net azure) = Some ls"
      "dec_sub exact_arith (sc_storage_net source) (ac_storage_net azure) = Some ss"
      "dec_sub exact_arith (sc_total source) ?t = Some ts"
      "dec_sub exact_arith after (sc_total source) = Some d" and
    s: "s = \<lparr>sb_compute_savings = cs, sb_license_savings = ls, sb_storage_savings = ss,
         sb_total_savings = ts, sb_required_adjustment = req, sb_selected_adjustment = adjustment,
         sb_azure_after_selected_parity = after, sb_difference = d\<rparr>"
    using assms(1) unfolding calculate_savings_def obind_Ok_iff d_ops_Ok outcome.inject by blast
  have r: "?t \<noteq> 0 \<Longrightarrow> req = 1 - sc_total source / ?t"
    using req by (auto simp: obind_Ok_iff dest: e)
  note v = e(2) [OF p(1)] e(3) [OF p(2)] e(2) [OF p(3)] e(2) [OF p(4)] e(2) [OF p(5)] e(2) [OF p(6)] e(2) [OF p(7)]
  have "ts = cs + ls + ss + sc_electricity_annual source"
    unfolding v assms(2,3) by simp
  moreover have "?t \<noteq> 0 \<Longrightarrow> adjustment = req \<Longrightarrow> d = 0"
    using r by (simp add: v)
  ultimately show ?thesis by (simp add: s)
qed

section \<open>An overflow the validation admits\<close>

text \<open>
  hardware cost has no upper limit in the project validation, so a valid on-premises project makes
  the cost calculation panic: quantity times hardware cost overflows the crate's range.
\<close>
theorem calculate_on_prem_source_panics:
  assumes "dec_laws A" "settings_ok s" "shared_ok s (OnPrem r)" "kind_ok (OnPrem r)"
    and "dec_max + 1 \<le> dec_of (sr_quantity (op_shared r)) * op_hardware_capex_usd r"
  shows "calculate_on_prem_source A r s = Panic"
proof -
  have "ps_project_type s = PtOnPrem" using assms(3) by (simp add: shared_ok_def)
  then have ok: "on_prem_settings_ok s" using assms(2) by (simp add: settings_ok_def)
  obtain e st m k where f: "ps_enterprise_license_sa_pack s = Some e" "0 < e"
    "ps_standard_license_sa_pack s = Some st" "0 < st" "ps_remaining_coverage_months s = Some m"
    "ps_electricity_rate s = Some k" "0 \<le> k"
    using ok by (auto simp: on_prem_settings_ok_def)
  obtain price where price: "(case sql_edition (op_sql r) of Standard \<Rightarrow> ps_standard_license_sa_pack s
        | Enterprise \<Rightarrow> ps_enterprise_license_sa_pack s) = Some price" "0 \<le> price"
    using f by (cases "sql_edition (op_sql r)") auto
  have "dec_mul A (dec_of (sr_quantity (op_shared r))) (op_hardware_capex_usd r) = None"
    using mul_overflow [OF assms(1)] assms(5) by simp
  then have "\<nexists>result. calculate_on_prem_source A r s = Ok result"
    using on_prem_elim [of A r s] by (metis option.distinct(1))
  moreover have "calculate_on_prem_source A r s \<noteq> Err e'" for e'
    using price f
    by (auto simp: calculate_on_prem_source_def Let_def obind_Err_iff estimated_power_def d_prod_eq
        apply_discount_def source_costs_def d_sum_eq validate_rate_def)
  ultimately show ?thesis by (cases "calculate_on_prem_source A r s") auto
qed

section \<open>Concrete costs\<close>

definition example_settings :: "project_type \<Rightarrow> project_settings" where
  "example_settings t =
     \<lparr>ps_project_type = t, ps_aws_region = (if t = PtOnPrem then None else Some ''us-east-1''),
      ps_azure_region = ''eastus'', ps_currency = ''USD'', ps_source_compute_discount = 0,
      ps_source_license_discount = 1 / 10, ps_source_storage_discount = 0,
      ps_azure_compute_discount = 1 / 5, ps_azure_license_discount = 0, ps_azure_storage_discount = 0,
      ps_selected_parity_adjustment = 0, ps_default_annual_hours = 8760,
      ps_default_mi_purchase_option = PoPayg, ps_enterprise_license_sa_pack = Some 1000,
      ps_standard_license_sa_pack = Some 300, ps_remaining_coverage_months = Some 12,
      ps_electricity_rate = Some 1, ps_sql_payg = None\<rparr>"

definition example_shared :: shared_resource where
  "example_shared =
     \<lparr>sr_id = 1, sr_workload_name = ''w'', sr_server_name = None, sr_quantity = 2, sr_source_ram_gb = 64,
      sr_annual_hours = 8760\<rparr>"

definition example_sql :: sql_workload where
  "example_sql =
     \<lparr>sql_edition = Enterprise, sql_license_basis = LicenseIncluded, sql_data_gb = 100,
      sql_mi_purchase_option = PoPayg\<rparr>"

lemma example_settings_ok:
  "t \<in> {PtEc2, PtEc2Vm, PtRds, PtOnPrem} \<Longrightarrow> settings_ok (example_settings t)"
proof -
  have "\<not> trim_is_empty ''eastus''" by code_simp
  then show "t \<in> {PtEc2, PtEc2Vm, PtRds, PtOnPrem} \<Longrightarrow> settings_ok (example_settings t)"
    by (auto simp: settings_ok_def example_settings_def region_ok_def settings_percents_def is_percent_def
        on_prem_settings_ok_def)
qed

lemma example_name: "chars_count ''w'' = 1"
  by code_simp

lemma example_shared_ok:
  assumes "resource_shared r = example_shared" "resource_project_type r = t" "resource_sql r \<in> {None, Some example_sql}"
  shows "shared_ok (example_settings t) r"
  using assms
  by (auto simp: shared_ok_def example_shared_def example_settings_def example_sql_def longer_than_def
      example_name)

definition example_ec2 :: ec2_resource where
  "example_ec2 =
     \<lparr>ec2_shared = example_shared, ec2_sql = example_sql, ec2_instance_type = ''w'',
      ec2_volumes =
        [\<lparr>ev_id = 5, ev_label = ''w'', ev_aws_volume_id = None, ev_volume_type = Io2, ev_capacity_gb = 500,
          ev_provisioned_iops = Some 40, ev_throughput_mibps = None\<rparr>]\<rparr>"

definition example_ec2_rate :: ec2_rate where
  "example_ec2_rate =
     \<lparr>er_source_vcpu = 4, er_catalog_memory_gb = 64, er_compute_hourly = 2,
      er_standard_license_hourly = Some 1, er_enterprise_license_hourly = Some 3\<rparr>"

definition example_tiers :: "iops_price_tier list" where
  "example_tiers =
     [\<lparr>it_up_to_inclusive = Some 32, it_monthly_per_iops = 2\<rparr>,
      \<lparr>it_up_to_inclusive = None, it_monthly_per_iops = 1\<rparr>]"

definition example_ebs_rates :: "ebs_rate list" where
  "example_ebs_rates =
     [\<lparr>eb_volume_type = Io2, eb_capacity_monthly_per_gb = 1 / 8, eb_included_iops = 0,
       eb_iops_monthly_per_unit = None, eb_iops_tiers = example_tiers, eb_included_throughput_mibps = 0,
       eb_throughput_monthly_per_mibps = None\<rparr>]"

lemma example_not_empty: "\<not> trim_is_empty ''w''"
  by code_simp

lemma example_ec2_ok: "kind_ok (Ec2 example_ec2)"
  by (simp add: example_ec2_def ebs_volume_ok_def example_name longer_than_def negative_def example_not_empty)

lemma example_tiered_cost: "tiered_iops_cost exact_arith 40 example_tiers = Ok 72"
  by (simp add: tiered_iops_cost_def example_tiers_def validate_rate_def exact_arith_eval)

lemma example_eval:
  "dec_add exact_arith x y = in_range (x + y)" "dec_sub exact_arith x y = in_range (x - y)"
  "dec_mul exact_arith x y = in_range (x * y)" "y \<noteq> 0 \<Longrightarrow> dec_div exact_arith x y = in_range (x / y)"
  by (simp_all add: exact_arith_def)

lemmas cost_eval =
  d_prod_eq d_sum_eq d_add_def d_sub_def d_mul_def d_div_def example_eval in_range_def dec_max_def dec_of_def
  validate_rate_def apply_discount_def source_costs_def Let_def unwrap_or_def dec_new_def

lemma example_storage: "monthly_ebs_storage exact_arith example_ebs_rates (ec2_volumes example_ec2) = Ok (269 / 2)"
  by (simp add: monthly_ebs_storage_def example_ec2_def example_ebs_rates_def ebs_rate_for_def
      calculate_ebs_volume_monthly_def calculate_volume_monthly_def saturating_sub_def example_tiered_cost cost_eval)

lemma example_ec2_cost:
  "\<exists>c. calculate_ec2_source exact_arith example_ec2 example_ec2_rate example_ebs_rates (example_settings PtEc2) = Ok c"
  unfolding calculate_ec2_source_def example_storage
  by (simp add: example_ec2_def example_ec2_rate_def example_shared_def example_sql_def example_settings_def
      source_license_hourly_def cost_eval)

theorem calculate_ec2_source_sane_witness:
  "\<exists>c. calculate_ec2_source exact_arith example_ec2 example_ec2_rate example_ebs_rates (example_settings PtEc2) = Ok c \<and>
     source_costs_sane c"
proof -
  obtain c where c: "calculate_ec2_source exact_arith example_ec2 example_ec2_rate example_ebs_rates
      (example_settings PtEc2) = Ok c" using example_ec2_cost by blast
  have "shared_ok (example_settings PtEc2) (Ec2 example_ec2)"
    by (rule example_shared_ok) (simp_all add: example_ec2_def)
  then show ?thesis
    using calculate_ec2_source_sane [OF exact_arith_laws example_settings_ok _ example_ec2_ok c] c by auto
qed

definition example_ec2_vm :: ec2_vm_resource where
  "example_ec2_vm =
     \<lparr>ec2vm_shared = example_shared, ec2vm_instance_type = ''w'', ec2vm_purchase_option = VpoPayg,
      ec2vm_requirements = ec2_vm_requirements_default,
      ec2vm_volumes =
        [\<lparr>vv_id = 5, vv_label = ''w'', vv_aws_volume_id = None, vv_volume_type = Io2, vv_role = RoleOs,
          vv_capacity_gb = 500, vv_provisioned_iops = Some 40, vv_throughput_mibps = None\<rparr>]\<rparr>"

lemma example_ec2_vm_ok: "kind_ok (Ec2Vm example_ec2_vm)"
  by (simp add: example_ec2_vm_def vm_volume_ok_def example_name longer_than_def negative_def
      example_not_empty vm_requirements_ok_def ec2_vm_requirements_default_def)

lemma example_vm_storage:
  "monthly_vm_storage exact_arith example_ebs_rates (ec2vm_volumes example_ec2_vm) = Ok (269 / 2)"
  by (simp add: monthly_vm_storage_def example_ec2_vm_def example_ebs_rates_def ebs_rate_for_def
      calculate_vm_volume_monthly_def calculate_volume_monthly_def saturating_sub_def example_tiered_cost cost_eval)

theorem calculate_ec2_vm_source_sane_witness:
  "\<exists>c. calculate_ec2_vm_source exact_arith example_ec2_vm example_ec2_rate example_ebs_rates
       (example_settings PtEc2Vm) = Ok c \<and> source_costs_sane c"
proof -
  have "\<exists>c. calculate_ec2_vm_source exact_arith example_ec2_vm example_ec2_rate example_ebs_rates
      (example_settings PtEc2Vm) = Ok c"
    unfolding calculate_ec2_vm_source_def example_vm_storage
    by (simp add: example_ec2_vm_def example_ec2_rate_def example_shared_def example_settings_def cost_eval)
  then obtain c where c: "calculate_ec2_vm_source exact_arith example_ec2_vm example_ec2_rate example_ebs_rates
      (example_settings PtEc2Vm) = Ok c" by blast
  have "shared_ok (example_settings PtEc2Vm) (Ec2Vm example_ec2_vm)"
    by (rule example_shared_ok) (simp_all add: example_ec2_vm_def)
  then show ?thesis
    using calculate_ec2_vm_source_sane [OF exact_arith_laws example_settings_ok _ example_ec2_vm_ok c] c by auto
qed

definition example_rds :: rds_resource where
  "example_rds =
     \<lparr>rds_shared = example_shared, rds_sql = example_sql, rds_instance_type = ''w'', rds_deployment = SingleAz,
      rds_commercial_term = ''w'', rds_storage_class = ''w'', rds_source_max_iops = 3000\<rparr>"

definition example_rds_rate :: rds_rate where
  "example_rds_rate =
     \<lparr>rr_source_vcpu = 4, rr_catalog_memory_gb = 32, rr_effective_compute_hourly = 2,
      rr_storage_monthly_per_gb = 1 / 4, rr_standard_license_core_hourly = 1 / 10,
      rr_enterprise_license_core_hourly = 3 / 8\<rparr>"

theorem calculate_rds_source_sane_witness:
  "\<exists>c. calculate_rds_source exact_arith example_rds example_rds_rate (example_settings PtRds) = Ok c \<and>
     source_costs_sane c"
proof -
  have "\<exists>c. calculate_rds_source exact_arith example_rds example_rds_rate (example_settings PtRds) = Ok c"
    by (simp add: calculate_rds_source_def example_rds_def example_rds_rate_def example_shared_def
        example_settings_def example_sql_def cost_eval)
  then obtain c where c: "calculate_rds_source exact_arith example_rds example_rds_rate (example_settings PtRds) = Ok c"
    by blast
  have "shared_ok (example_settings PtRds) (Rds example_rds)"
    by (rule example_shared_ok) (simp_all add: example_rds_def)
  then show ?thesis
    using calculate_rds_source_sane [OF exact_arith_laws example_settings_ok _ c] c by auto
qed

definition example_on_prem :: "decimal_value \<Rightarrow> on_prem_resource" where
  "example_on_prem capex =
     \<lparr>op_shared = example_shared, op_sql = example_sql, op_source_vcpu = 8, op_licensable_cores = 7,
      op_source_max_iops = 3000, op_hardware_capex_usd = capex, op_depreciation_years = 5,
      op_average_power_kw_override = Some (1 / 2)\<rparr>"

lemma example_on_prem_ok:
  "0 \<le> capex \<Longrightarrow> kind_ok (OnPrem (example_on_prem capex))"
  "shared_ok (example_settings PtOnPrem) (OnPrem (example_on_prem capex))"
  by (simp add: example_on_prem_def) (rule example_shared_ok; simp add: example_on_prem_def)

theorem calculate_on_prem_source_sane_witness:
  "\<exists>result. calculate_on_prem_source exact_arith (example_on_prem 20000) (example_settings PtOnPrem) = Ok result \<and>
     unat (oe_license_pack_count (ocr_explanation result)) = 4"
proof -
  have p: "estimated_power exact_arith (example_on_prem 20000) = Ok (28797 / 128000)"
    by (simp add: estimated_power_def example_on_prem_def example_shared_def example_sql_def cost_eval)
  have "\<exists>result. calculate_on_prem_source exact_arith (example_on_prem 20000) (example_settings PtOnPrem) = Ok result"
    unfolding calculate_on_prem_source_def p
    by (simp add: example_on_prem_def example_shared_def example_settings_def example_sql_def
        div_ceil_def cost_eval)
  then obtain result where result:
    "calculate_on_prem_source exact_arith (example_on_prem 20000) (example_settings PtOnPrem) = Ok result" by blast
  then show ?thesis
    using calculate_on_prem_source_sane [OF exact_arith_laws example_settings_ok example_on_prem_ok(2)
        example_on_prem_ok(1) result]
    by (simp add: example_on_prem_def)
qed

theorem calculate_on_prem_source_panics_witness:
  "validate \<lparr>ep_name = ''w'', ep_description = None, ep_settings = example_settings PtOnPrem,
     ep_resources = [OnPrem (example_on_prem dec_max)], ep_aws_price_snapshot_id = None,
     ep_azure_price_snapshot_id = None\<rparr> = [] \<and>
   calculate_on_prem_source exact_arith (example_on_prem dec_max) (example_settings PtOnPrem) = Panic"
proof
  have m: "0 \<le> dec_max" by (simp add: dec_max_def)
  note ok = example_settings_ok [of PtOnPrem, simplified] example_on_prem_ok(2) [of dec_max] example_on_prem_ok(1) [OF m]
  show "validate \<lparr>ep_name = ''w'', ep_description = None, ep_settings = example_settings PtOnPrem,
     ep_resources = [OnPrem (example_on_prem dec_max)], ep_aws_price_snapshot_id = None,
     ep_azure_price_snapshot_id = None\<rparr> = []"
    unfolding validate_def append_is_Nil_conv validate_header_Nil validate_settings_Nil validate_resources_Nil
    using ok by (simp add: example_name longer_than_def snapshot_ok_def MAX_PROJECT_RESOURCES_def example_settings_def)
  show "calculate_on_prem_source exact_arith (example_on_prem dec_max) (example_settings PtOnPrem) = Panic"
    by (rule calculate_on_prem_source_panics [OF exact_arith_laws ok])
       (simp add: example_on_prem_def example_shared_def dec_of_def dec_max_def)
qed

theorem tiered_iops_allocation_witness:
  "\<exists>ps. tier_prices exact_arith 0 40 example_tiers ps \<and> dec_sum exact_arith 0 ps = Some 72"
  using tiered_iops_allocation [OF exact_arith_laws example_tiered_cost] by simp

theorem azure_mi_storage_units_witness:
  "azure_mi_configured_storage_gb exact_arith 100 = (Ok 128 :: decimal_value cost_result)"
proof -
  have "\<lceil>100 / 32 :: rat\<rceil> = 4" by (simp add: ceiling_eq_iff)
  then show ?thesis
    using azure_mi_storage_units [OF exact_arith_laws, of 100] by (simp add: exact_arith_def dec_max_def)
qed

definition example_azure_rate :: azure_rate where
  "example_azure_rate =
     \<lparr>ar_compute_hourly = 1, ar_license_hourly = 1 / 2, ar_storage_monthly_per_gb = 1 / 8,
      ar_additional_memory_per_gb_hourly = 1 / 100\<rparr>"

theorem calculate_azure_sane_witness:
  "\<exists>c. calculate_azure exact_arith 2 8760 128 28 32 example_azure_rate (example_settings PtRds) = Ok c \<and>
     azure_costs_sane exact_arith c"
proof -
  have "\<exists>c. calculate_azure exact_arith 2 8760 128 28 32 example_azure_rate (example_settings PtRds) = Ok c"
    by (simp add: calculate_azure_def example_azure_rate_def example_settings_def cost_eval
        azure_mi_billable_storage_gb_def AZURE_MI_STORAGE_UNIT_GB_def)
  then obtain c where c: "calculate_azure exact_arith 2 8760 128 28 32 example_azure_rate (example_settings PtRds) = Ok c"
    by blast
  show ?thesis using calculate_azure_sane [OF exact_arith_laws example_settings_ok _ c] c by auto
qed

lemma example_azure_vm:
  "\<exists>c. calculate_azure_vm exact_arith 2 8760 1 (1 / 4) 50 (example_settings PtEc2Vm) = Ok c \<and>
     ac_total_before_parity c = ac_compute_plus_ram_net c + ac_license_net c + ac_storage_net c"
  by (simp add: calculate_azure_vm_def example_settings_def cost_eval)

theorem calculate_azure_vm_sane_witness:
  "\<exists>c. calculate_azure_vm exact_arith 2 8760 1 (1 / 4) 50 (example_settings PtEc2Vm) = Ok c \<and> azure_costs_sane exact_arith c"
proof -
  obtain c where c: "calculate_azure_vm exact_arith 2 8760 1 (1 / 4) 50 (example_settings PtEc2Vm) = Ok c"
    using example_azure_vm by blast
  show ?thesis using calculate_azure_vm_sane [OF exact_arith_laws example_settings_ok _ c] c by auto
qed

definition example_source :: source_cost_breakdown where
  "example_source =
     \<lparr>sc_compute_gross = 100, sc_compute_net = 90, sc_license_gross = 50, sc_license_net = 50,
      sc_storage_gross = 20, sc_storage_net = 20, sc_hardware_annual = 0, sc_electricity_annual = 5,
      sc_total = 165\<rparr>"

definition example_azure :: azure_cost_breakdown where
  "example_azure =
     \<lparr>ac_compute_gross = 120, ac_additional_ram_gb = 0, ac_additional_ram_gross = 0,
      ac_compute_plus_ram_net = 120, ac_license_gross = 50, ac_license_net = 50, ac_storage_gross = 30,
      ac_storage_net = 30, ac_total_before_parity = 200\<rparr>"

theorem calculate_savings_consistent_witness:
  "\<exists>s. calculate_savings exact_arith example_source example_azure (7 / 40) =
      (Ok s :: (cost_error, savings_breakdown) outcome) \<and>
     sb_total_savings s = sb_compute_savings s + sb_license_savings s + sb_storage_savings s + 5"
proof -
  have "\<exists>s. calculate_savings exact_arith example_source example_azure (7 / 40) =
      (Ok s :: (cost_error, savings_breakdown) outcome)"
    by (simp add: calculate_savings_def example_source_def example_azure_def cost_eval)
  then obtain s where s: "calculate_savings exact_arith example_source example_azure (7 / 40) =
      (Ok s :: (cost_error, savings_breakdown) outcome)" by blast
  show ?thesis using calculate_savings_consistent [OF s] s
    by (simp add: example_source_def example_azure_def)
qed

end
