(* ===== verification/SqlPayg.thy ===== *)
theory SqlPayg
  imports Cost
begin

text \<open>
  \<open>rust/src/calculation/sql_payg.rs\<close>: the comparison of SQL Server pay-as-you-go with annual Software
  Assurance spend, and the reading of stored analyses that predate the applied discount.
\<close>

definition RATE_SOURCE_URL :: string where
  "RATE_SOURCE_URL = ''https://prices.azure.com/api/retail/prices''"

definition RATE_VERIFIED_ON :: string where
  "RATE_VERIFIED_ON = ''2026-08-07''"

definition MAX_ANNUAL_HOURS :: rat where
  "MAX_ANNUAL_HOURS = 8784"

definition enterprise_rate :: rat where
  "enterprise_rate = dec_new 375 3"

definition standard_rate :: rat where
  "standard_rate = dec_new 100 3"

record sql_payg_input =
  spi_enterprise_licensed_cores :: u32
  spi_standard_licensed_cores :: u32
  spi_software_assurance_annual_usd :: decimal_value
  spi_annual_hours :: decimal_value
  spi_applied_payg_discount :: decimal_value

datatype sql_payg_outcome = NoDiscountNeeded | DiscountRequired | FullDiscountRequired

record sql_payg_analysis =
  spa_enterprise_licensed_cores :: u32
  spa_standard_licensed_cores :: u32
  spa_software_assurance_annual_usd :: decimal_value
  spa_annual_hours :: decimal_value
  spa_enterprise_payg_usd_per_core_hour :: decimal_value
  spa_standard_payg_usd_per_core_hour :: decimal_value
  spa_payg_gross_annual_usd :: decimal_value
  spa_required_payg_discount :: decimal_value
  spa_payg_at_breakeven_usd :: decimal_value
  spa_applied_payg_discount :: decimal_value
  spa_payg_net_annual_usd :: decimal_value
  spa_annual_savings_usd :: decimal_value
  spa_outcome :: sql_payg_outcome
  spa_rate_source_url :: string
  spa_rate_verified_on :: string

datatype annual_hours_wire = HoursDecimal decimal_value | LegacyInteger u32

record sql_payg_analysis_wire =
  spw_enterprise_licensed_cores :: u32
  spw_standard_licensed_cores :: u32
  spw_software_assurance_annual_usd :: decimal_value
  spw_annual_hours :: annual_hours_wire
  spw_enterprise_payg_usd_per_core_hour :: decimal_value
  spw_standard_payg_usd_per_core_hour :: decimal_value
  spw_payg_gross_annual_usd :: decimal_value
  spw_required_payg_discount :: decimal_value
  spw_payg_at_breakeven_usd :: decimal_value
  spw_applied_payg_discount :: "decimal_value option"
  spw_payg_net_annual_usd :: "decimal_value option"
  spw_annual_savings_usd :: "decimal_value option"
  spw_outcome :: sql_payg_outcome
  spw_rate_source_url :: string
  spw_rate_verified_on :: string

fun annual_hours_of :: "annual_hours_wire \<Rightarrow> decimal_value" where
  "annual_hours_of (HoursDecimal hours) = hours"
| "annual_hours_of (LegacyInteger hours) = dec_of hours"

text \<open>The default saving is computed before it is known to be needed, so it may panic unused.\<close>

definition analysis_of_wire :: "dec_arith \<Rightarrow> sql_payg_analysis_wire \<Rightarrow> ('e, sql_payg_analysis) outcome" where
  "analysis_of_wire A w =
     (let net = unwrap_or (spw_payg_net_annual_usd w) (spw_payg_gross_annual_usd w) in
      obind (d_sub A (spw_software_assurance_annual_usd w) net) (\<lambda>default_savings.
      Ok \<lparr>spa_enterprise_licensed_cores = spw_enterprise_licensed_cores w,
          spa_standard_licensed_cores = spw_standard_licensed_cores w,
          spa_software_assurance_annual_usd = spw_software_assurance_annual_usd w,
          spa_annual_hours = annual_hours_of (spw_annual_hours w),
          spa_enterprise_payg_usd_per_core_hour = spw_enterprise_payg_usd_per_core_hour w,
          spa_standard_payg_usd_per_core_hour = spw_standard_payg_usd_per_core_hour w,
          spa_payg_gross_annual_usd = spw_payg_gross_annual_usd w,
          spa_required_payg_discount = spw_required_payg_discount w,
          spa_payg_at_breakeven_usd = spw_payg_at_breakeven_usd w,
          spa_applied_payg_discount = unwrap_or (spw_applied_payg_discount w) 0,
          spa_payg_net_annual_usd = net,
          spa_annual_savings_usd = unwrap_or (spw_annual_savings_usd w) default_savings,
          spa_outcome = spw_outcome w,
          spa_rate_source_url = spw_rate_source_url w,
          spa_rate_verified_on = spw_rate_verified_on w\<rparr>))"

datatype sql_payg_error =
  NoLicensedCores | NegativeSoftwareAssurance | AnnualHoursOutOfRange | AppliedDiscountOutOfRange

definition validate_input :: "sql_payg_input \<Rightarrow> (sql_payg_error, unit) outcome" where
  "validate_input i =
     (if spi_enterprise_licensed_cores i = 0 \<and> spi_standard_licensed_cores i = 0 then Err NoLicensedCores
      else if spi_software_assurance_annual_usd i < 0 then Err NegativeSoftwareAssurance
      else if spi_annual_hours i < 0 \<or> MAX_ANNUAL_HOURS < spi_annual_hours i then Err AnnualHoursOutOfRange
      else if \<not> is_percent (spi_applied_payg_discount i) then Err AppliedDiscountOutOfRange
      else Ok ())"

definition payg_gross_annual :: "dec_arith \<Rightarrow> sql_payg_input \<Rightarrow> ('e, rat) outcome" where
  "payg_gross_annual A i =
     obind (d_mul A (dec_of (spi_enterprise_licensed_cores i)) enterprise_rate) (\<lambda>enterprise.
     obind (d_mul A (dec_of (spi_standard_licensed_cores i)) standard_rate) (\<lambda>standard.
     obind (d_add A enterprise standard) (\<lambda>payg_hourly.
     d_mul A payg_hourly (spi_annual_hours i))))"

definition raw_discount_of :: "dec_arith \<Rightarrow> rat \<Rightarrow> rat \<Rightarrow> ('e, rat) outcome" where
  "raw_discount_of A software_assurance gross =
     (if gross = 0 then Ok 0
      else obind (d_div A software_assurance gross) (\<lambda>ratio. d_sub A 1 ratio))"

definition calculate :: "dec_arith \<Rightarrow> sql_payg_input \<Rightarrow> (sql_payg_error, sql_payg_analysis) outcome" where
  "calculate A i =
     obind (validate_input i) (\<lambda>_.
     obind (payg_gross_annual A i) (\<lambda>gross.
     obind (raw_discount_of A (spi_software_assurance_annual_usd i) gross) (\<lambda>raw_discount.
     let required_discount = max raw_discount 0;
         (outcome, payg_at_breakeven) =
           (if raw_discount \<le> 0 then (NoDiscountNeeded, gross)
            else if required_discount = 1 then (FullDiscountRequired, spi_software_assurance_annual_usd i)
            else (DiscountRequired, spi_software_assurance_annual_usd i))
     in
     obind (d_sub A 1 (spi_applied_payg_discount i)) (\<lambda>kept.
     obind (d_mul A gross kept) (\<lambda>payg_net_annual.
     obind (d_sub A (spi_software_assurance_annual_usd i) payg_net_annual) (\<lambda>annual_savings.
     Ok \<lparr>spa_enterprise_licensed_cores = spi_enterprise_licensed_cores i,
         spa_standard_licensed_cores = spi_standard_licensed_cores i,
         spa_software_assurance_annual_usd = spi_software_assurance_annual_usd i,
         spa_annual_hours = spi_annual_hours i,
         spa_enterprise_payg_usd_per_core_hour = enterprise_rate,
         spa_standard_payg_usd_per_core_hour = standard_rate,
         spa_payg_gross_annual_usd = gross,
         spa_required_payg_discount = required_discount,
         spa_payg_at_breakeven_usd = payg_at_breakeven,
         spa_applied_payg_discount = spi_applied_payg_discount i,
         spa_payg_net_annual_usd = payg_net_annual,
         spa_annual_savings_usd = annual_savings,
         spa_outcome = outcome,
         spa_rate_source_url = RATE_SOURCE_URL,
         spa_rate_verified_on = RATE_VERIFIED_ON\<rparr>))))))"

section \<open>Errors and values\<close>

lemma validate_input_Ok:
  "validate_input i = Ok u \<longleftrightarrow>
     (spi_enterprise_licensed_cores i \<noteq> 0 \<or> spi_standard_licensed_cores i \<noteq> 0) \<and>
     0 \<le> spi_software_assurance_annual_usd i \<and> 0 \<le> spi_annual_hours i \<and>
     spi_annual_hours i \<le> MAX_ANNUAL_HOURS \<and> is_percent (spi_applied_payg_discount i)"
  by (auto simp: validate_input_def)

lemma rates_nonneg: "0 \<le> enterprise_rate" "0 \<le> standard_rate"
  by (simp_all add: enterprise_rate_def standard_rate_def dec_new_def)

lemma payg_gross_annual_nonneg:
  assumes "dec_laws A" "payg_gross_annual A i = Ok gross" "0 \<le> spi_annual_hours i"
  shows "0 \<le> gross" "dec_repr A gross"
proof -
  obtain e s h where p: "dec_mul A (dec_of (spi_enterprise_licensed_cores i)) enterprise_rate = Some e"
    "dec_mul A (dec_of (spi_standard_licensed_cores i)) standard_rate = Some s" "dec_add A e s = Some h"
    "dec_mul A h (spi_annual_hours i) = Some gross"
    using assms(2) by (auto simp: payg_gross_annual_def obind_Ok_iff)
  have "0 \<le> e" "0 \<le> s" using mul_nonneg [OF assms(1) p(1)] mul_nonneg [OF assms(1) p(2)] rates_nonneg by simp_all
  then have "0 \<le> h" by (rule add_nonneg [OF assms(1) p(3)])
  then show "0 \<le> gross" using mul_nonneg [OF assms(1) p(4)] assms(3) by simp
  show "dec_repr A gross" by (rule ops_repr(3) [OF assms(1) p(4)])
qed

lemma raw_discount_bounds:
  assumes "dec_laws A" "raw_discount_of A sa gross = Ok raw" "0 \<le> sa" "0 \<le> gross"
  shows "raw \<le> 1" "gross \<le> sa \<Longrightarrow> raw \<le> 0" "gross = 0 \<Longrightarrow> raw = 0"
    "sa = 0 \<Longrightarrow> gross \<noteq> 0 \<Longrightarrow> raw = 1"
proof -
  have *: "raw \<le> 1 \<and> (gross \<le> sa \<longrightarrow> raw \<le> 0) \<and> (sa = 0 \<longrightarrow> raw = 1)" if nz: "gross \<noteq> 0"
  proof -
    obtain ratio where r: "dec_div A sa gross = Some ratio" "dec_sub A 1 ratio = Some raw"
      using assms(2) nz by (auto simp: raw_discount_of_def obind_Ok_iff)
    have pos: "0 < gross" using assms(4) nz by simp
    have "0 \<le> ratio" by (rule div_nonneg [OF assms(1) r(1) assms(3) pos])
    then have "raw \<le> 1" using sub_le [OF assms(1) r(2)] assms(1) by simp
    moreover have "raw \<le> 0" if "gross \<le> sa"
    proof -
      have "1 \<le> ratio"
        using laws_rounds(4) [OF assms(1), of gross sa] r(1) pos that assms(1)
        by (auto intro: rounds_ge)
      then show ?thesis
        using laws_rounds(2) [OF assms(1), of 1 ratio] r(2) assms(1) by (auto intro: rounds_le)
    qed
    moreover have "raw = 1" if "sa = 0"
    proof -
      have "ratio = 0" using ops_exact(4) [OF assms(1), of gross 0] pos assms(1) r(1) that by simp
      then show ?thesis using ops_exact(2) [OF assms(1), of 1 0] assms(1) r(2) by simp
    qed
    ultimately show ?thesis by blast
  qed
  show "gross = 0 \<Longrightarrow> raw = 0" using assms(2) by (simp add: raw_discount_of_def)
  then show "raw \<le> 1" "gross \<le> sa \<Longrightarrow> raw \<le> 0" "sa = 0 \<Longrightarrow> gross \<noteq> 0 \<Longrightarrow> raw = 1"
    using * by (cases "gross = 0"; simp)+
qed

lemma payg_gross_annual_rounds:
  assumes "dec_laws A" "payg_gross_annual A i = Ok gross"
  shows "dec_rounds A ((375 / 1000 * dec_of (spi_enterprise_licensed_cores i)
    + 100 / 1000 * dec_of (spi_standard_licensed_cores i)) * spi_annual_hours i) (Some gross)"
proof -
  let ?e = "uint (spi_enterprise_licensed_cores i)" and ?s = "uint (spi_standard_licensed_cores i)"
  have u: "0 \<le> ?e" "?e < 2 ^ 32" "0 \<le> ?s" "?s < 2 ^ 32"
    using uint_lt2p [of "spi_enterprise_licensed_cores i"] uint_lt2p [of "spi_standard_licensed_cores i"]
    by simp_all
  obtain e s h where p: "dec_mul A (dec_of (spi_enterprise_licensed_cores i)) enterprise_rate = Some e"
    "dec_mul A (dec_of (spi_standard_licensed_cores i)) standard_rate = Some s" "dec_add A e s = Some h"
    "dec_mul A h (spi_annual_hours i) = Some gross"
    using assms(2) by (auto simp: payg_gross_annual_def obind_Ok_iff)
  have repr: "dec_repr A (of_int m / 1000)" if "0 \<le> m" "m < 2 ^ 96" for m
    using dec_new_repr [OF assms(1), of m 3] that by (simp add: dec_new_def)
  have "dec_repr A (dec_of (spi_enterprise_licensed_cores i) * enterprise_rate)"
    "dec_repr A (dec_of (spi_standard_licensed_cores i) * standard_rate)"
    using repr [of "375 * ?e"] repr [of "100 * ?s"] u
    by (simp_all add: dec_of_def enterprise_rate_def standard_rate_def dec_new_def mult.commute)
  then have es: "e = 375 / 1000 * dec_of (spi_enterprise_licensed_cores i)"
    "s = 100 / 1000 * dec_of (spi_standard_licensed_cores i)"
    using ops_exact(3) [OF assms(1)] p(1,2) by (auto simp: enterprise_rate_def standard_rate_def dec_new_def)
  have "dec_repr A (e + s)"
    using repr [of "375 * ?e + 100 * ?s"] u unfolding es by (simp add: dec_of_def add_divide_distrib)
  then have "h = e + s" using ops_exact(1) [OF assms(1)] p(3) by auto
  then show ?thesis using laws_rounds(3) [OF assms(1), of h "spi_annual_hours i"] p(4) es by simp
qed

lemma calculate_elim:
  assumes "calculate A i = Ok a"
  obtains gross raw kept net savings where
    "validate_input i = Ok ()" "payg_gross_annual A i = (Ok gross :: (sql_payg_error, rat) outcome)"
    "raw_discount_of A (spi_software_assurance_annual_usd i) gross = (Ok raw :: (sql_payg_error, rat) outcome)"
    "dec_sub A 1 (spi_applied_payg_discount i) = Some kept" "dec_mul A gross kept = Some net"
    "dec_sub A (spi_software_assurance_annual_usd i) net = Some savings"
    "a = \<lparr>spa_enterprise_licensed_cores = spi_enterprise_licensed_cores i,
         spa_standard_licensed_cores = spi_standard_licensed_cores i,
         spa_software_assurance_annual_usd = spi_software_assurance_annual_usd i,
         spa_annual_hours = spi_annual_hours i,
         spa_enterprise_payg_usd_per_core_hour = enterprise_rate,
         spa_standard_payg_usd_per_core_hour = standard_rate,
         spa_payg_gross_annual_usd = gross,
         spa_required_payg_discount = max raw 0,
         spa_payg_at_breakeven_usd = (if raw \<le> 0 then gross else spi_software_assurance_annual_usd i),
         spa_applied_payg_discount = spi_applied_payg_discount i,
         spa_payg_net_annual_usd = net,
         spa_annual_savings_usd = savings,
         spa_outcome = (if raw \<le> 0 then NoDiscountNeeded else if max raw 0 = 1 then FullDiscountRequired
           else DiscountRequired),
         spa_rate_source_url = RATE_SOURCE_URL,
         spa_rate_verified_on = RATE_VERIFIED_ON\<rparr>"
  using assms by (auto simp: calculate_def Let_def obind_Ok_iff split: if_splits)

text \<open>
  C39: the analysis takes 0.375 dollars per Enterprise and 0.1 dollars per Standard core and hour. The
  yearly pay-as-you-go cost is the rounded product of the hourly cost of all cores with the hours; the net
  cost is that cost less the applied discount, and the savings are the Software Assurance spend less the net
  cost, each correctly rounded. The required discount is 1 less the ratio of spend to cost, and no less
  than 0; none is needed where Software Assurance costs at least as much as pay-as-you-go; where one is
  needed pay-as-you-go costs more, breaks even at the Software Assurance spend, and the discount is full
  exactly if it is 1, as it is without any such spend.
\<close>
theorem sql_payg_outcome_correct:
  fixes A i a
  defines "sa \<equiv> spi_software_assurance_annual_usd i" and "gross \<equiv> spa_payg_gross_annual_usd a"
    and "net \<equiv> spa_payg_net_annual_usd a" and "required \<equiv> spa_required_payg_discount a"
  assumes "dec_laws A" "calculate A i = Ok a"
  shows "spa_enterprise_payg_usd_per_core_hour a = 375 / 1000 \<and>
    spa_standard_payg_usd_per_core_hour a = 100 / 1000 \<and>
    spa_enterprise_licensed_cores a = spi_enterprise_licensed_cores i \<and>
    spa_standard_licensed_cores a = spi_standard_licensed_cores i \<and>
    spa_software_assurance_annual_usd a = sa \<and> spa_annual_hours a = spi_annual_hours i \<and>
    spa_applied_payg_discount a = spi_applied_payg_discount i \<and>
    dec_rounds A ((375 / 1000 * dec_of (spi_enterprise_licensed_cores i)
      + 100 / 1000 * dec_of (spi_standard_licensed_cores i)) * spi_annual_hours i) (Some gross) \<and>
    (\<exists>kept. dec_rounds A (1 - spi_applied_payg_discount i) (Some kept) \<and>
       dec_rounds A (gross * kept) (Some net)) \<and>
    dec_rounds A (sa - net) (Some (spa_annual_savings_usd a)) \<and>
    (gross = 0 \<longrightarrow> required = 0) \<and>
    (gross \<noteq> 0 \<longrightarrow> (\<exists>ratio raw. dec_rounds A (sa / gross) (Some ratio) \<and>
       dec_rounds A (1 - ratio) (Some raw) \<and> required = max raw 0)) \<and>
    0 \<le> required \<and> required \<le> 1 \<and>
    (spa_outcome a = NoDiscountNeeded \<longleftrightarrow> required = 0) \<and>
    (spa_outcome a = FullDiscountRequired \<longleftrightarrow> required = 1) \<and>
    spa_payg_at_breakeven_usd a = (if required = 0 then gross else sa) \<and>
    (gross \<le> sa \<longrightarrow> spa_outcome a = NoDiscountNeeded) \<and>
    (spa_outcome a \<noteq> NoDiscountNeeded \<longrightarrow> sa < gross) \<and>
    (sa = 0 \<and> gross \<noteq> 0 \<longrightarrow> spa_outcome a = FullDiscountRequired) \<and>
    0 \<le> net \<and> net \<le> gross"
proof -
  from assms(6) obtain g raw kept n savings where p: "validate_input i = Ok ()"
    "payg_gross_annual A i = (Ok g :: (sql_payg_error, rat) outcome)"
    "raw_discount_of A sa g = (Ok raw :: (sql_payg_error, rat) outcome)"
    "dec_sub A 1 (spi_applied_payg_discount i) = Some kept" "dec_mul A g kept = Some n"
    "dec_sub A sa n = Some savings" and
    a: "spa_enterprise_payg_usd_per_core_hour a = 375 / 1000" "spa_standard_payg_usd_per_core_hour a = 100 / 1000"
    "spa_enterprise_licensed_cores a = spi_enterprise_licensed_cores i"
    "spa_standard_licensed_cores a = spi_standard_licensed_cores i"
    "spa_software_assurance_annual_usd a = sa" "spa_annual_hours a = spi_annual_hours i"
    "spa_applied_payg_discount a = spi_applied_payg_discount i" "gross = g" "required = max raw 0" "net = n"
    "spa_annual_savings_usd a = savings"
    "spa_outcome a = (if raw \<le> 0 then NoDiscountNeeded else if max raw 0 = 1 then FullDiscountRequired
       else DiscountRequired)"
    "spa_payg_at_breakeven_usd a = (if raw \<le> 0 then gross else sa)"
    by (rule calculate_elim)
       (auto simp: sa_def gross_def required_def net_def enterprise_rate_def standard_rate_def dec_new_def)
  have i: "0 \<le> sa" "0 \<le> spi_annual_hours i" "is_percent (spi_applied_payg_discount i)"
    using p(1) by (simp_all add: validate_input_Ok sa_def)
  note g = payg_gross_annual_nonneg [OF assms(5) p(2) i(2)]
  note raw = raw_discount_bounds [OF assms(5) p(3) i(1) g(1)]
  have "apply_discount A g (spi_applied_payg_discount i) = (Ok n :: (sql_payg_error, rat) outcome)"
    using p(4,5) by (simp add: apply_discount_def d_sub_def d_mul_def)
  then have net: "0 \<le> n" "n \<le> g"
    using apply_discount_bounds [OF assms(5) _ i(3) g, of n] by blast+
  have rounded: "dec_rounds A (1 - spi_applied_payg_discount i) (Some kept)" "dec_rounds A (g * kept) (Some n)"
    "dec_rounds A (sa - n) (Some savings)"
    using laws_rounds(2,3) [OF assms(5)] p(4-6) by metis+
  have required: "\<exists>ratio. dec_rounds A (sa / g) (Some ratio) \<and> dec_rounds A (1 - ratio) (Some raw)" if nz: "g \<noteq> 0"
  proof -
    obtain ratio where "dec_div A sa g = Some ratio" "dec_sub A 1 ratio = Some raw"
      using p(3) nz by (auto simp: raw_discount_of_def obind_Ok_iff)
    then show ?thesis using laws_rounds(2) [OF assms(5), of 1 ratio] laws_rounds(4) [OF assms(5) nz, of sa] by metis
  qed
  have outcome: "(spa_outcome a = NoDiscountNeeded \<longleftrightarrow> required = 0) \<and>
    (spa_outcome a = FullDiscountRequired \<longleftrightarrow> required = 1) \<and> 0 \<le> required \<and> required \<le> 1 \<and>
    spa_payg_at_breakeven_usd a = (if required = 0 then gross else sa) \<and>
    (gross \<le> sa \<longrightarrow> spa_outcome a = NoDiscountNeeded) \<and>
    (spa_outcome a \<noteq> NoDiscountNeeded \<longrightarrow> sa < gross) \<and>
    (sa = 0 \<and> gross \<noteq> 0 \<longrightarrow> spa_outcome a = FullDiscountRequired) \<and> (gross = 0 \<longrightarrow> required = 0)"
  proof (cases "raw \<le> 0")
    case True
    then show ?thesis using raw a by (auto simp: max_def)
  next
    case False
    then have "\<not> g \<le> sa" using raw(2) by blast
    then show ?thesis using False raw a by (auto simp: max_def)
  qed
  show ?thesis
    using payg_gross_annual_rounds [OF assms(5) p(2)] rounded required outcome net a by blast
qed

text \<open>
  the analysis fails exactly for an input without licensed cores, with negative spend, with hours
  outside a year or with a discount that is no percentage, and reports the first of these.
\<close>
theorem sql_payg_errors:
  "calculate A i = Err e \<longleftrightarrow>
     (let no_cores = spi_enterprise_licensed_cores i = 0 \<and> spi_standard_licensed_cores i = 0;
          negative = spi_software_assurance_annual_usd i < 0;
          hours = spi_annual_hours i \<notin> {0..8784}
      in (e = NoLicensedCores \<and> no_cores) \<or>
         (e = NegativeSoftwareAssurance \<and> \<not> no_cores \<and> negative) \<or>
         (e = AnnualHoursOutOfRange \<and> \<not> no_cores \<and> \<not> negative \<and> hours) \<or>
         (e = AppliedDiscountOutOfRange \<and> \<not> no_cores \<and> \<not> negative \<and> \<not> hours \<and>
            \<not> is_percent (spi_applied_payg_discount i)))"
proof -
  have "calculate A i = Err e \<longleftrightarrow> validate_input i = Err e"
    by (auto simp: calculate_def Let_def obind_Err_iff payg_gross_annual_def raw_discount_of_def
        split: if_splits)
  then show ?thesis by (cases e) (auto simp: validate_input_def MAX_ANNUAL_HOURS_def Let_def)
qed

text \<open>
  a valid input with a tiny number of hours makes the analysis panic: one Standard core for 1e-27
  hours and a spend of 8 dollars overflow the ratio of the two.
\<close>
theorem sql_payg_tiny_hours_panics:
  assumes "dec_laws A" "spi_enterprise_licensed_cores i = 0" "spi_standard_licensed_cores i = 1"
    and "spi_annual_hours i = dec_new 1 27" "8 \<le> spi_software_assurance_annual_usd i"
    and "is_percent (spi_applied_payg_discount i)"
  shows "calculate A i = Panic"
proof -
  have v: "validate_input i = Ok ()"
    using assms by (simp add: validate_input_Ok dec_new_def MAX_ANNUAL_HOURS_def)
  have r: "dec_repr A standard_rate" "dec_repr A (dec_new 1 28)"
    unfolding standard_rate_def using dec_new_repr [OF assms(1)] by simp_all
  have "dec_mul A 0 enterprise_rate = Some 0" using ops_exact(3) [OF assms(1), of 0 enterprise_rate] assms(1) by simp
  moreover have "dec_mul A 1 standard_rate = Some standard_rate" using ops_exact(3) [OF assms(1), of 1] r by simp
  moreover have "dec_add A 0 standard_rate = Some standard_rate" using ops_exact(1) [OF assms(1), of 0] r by simp
  moreover have "standard_rate * dec_new 1 27 = dec_new 1 28" by (simp add: standard_rate_def dec_new_def)
  then have "dec_mul A standard_rate (dec_new 1 27) = Some (dec_new 1 28)"
    using ops_exact(3) [OF assms(1), of standard_rate "dec_new 1 27"] r by simp
  ultimately have g: "payg_gross_annual A i = (Ok (dec_new 1 28) :: (sql_payg_error, rat) outcome)"
    by (simp add: payg_gross_annual_def assms dec_of_def d_mul_def d_add_def)
  have "dec_max + 1 \<le> \<bar>spi_software_assurance_annual_usd i / dec_new 1 28\<bar>"
    using assms(5) by (simp add: dec_new_def dec_max_def)
  then have "dec_div A (spi_software_assurance_annual_usd i) (dec_new 1 28) = None"
    by (intro div_overflow [OF assms(1)]) (simp_all add: dec_new_def)
  then have "raw_discount_of A (spi_software_assurance_annual_usd i) (dec_new 1 28) =
      (Panic :: (sql_payg_error, rat) outcome)"
    by (simp add: raw_discount_of_def d_div_def dec_new_def)
  then show ?thesis by (simp add: calculate_def v g)
qed

definition example_input :: "decimal_value \<Rightarrow> decimal_value \<Rightarrow> sql_payg_input" where
  "example_input hours spend =
     \<lparr>spi_enterprise_licensed_cores = 0, spi_standard_licensed_cores = 1,
      spi_software_assurance_annual_usd = spend, spi_annual_hours = hours,
      spi_applied_payg_discount = 1 / 4\<rparr>"

theorem sql_payg_outcome_correct_witness:
  "\<exists>a. calculate exact_arith (example_input 8760 438) = Ok a \<and> spa_outcome a = DiscountRequired \<and>
     spa_payg_at_breakeven_usd a = 438"
proof -
  have "\<exists>a. calculate exact_arith (example_input 8760 438) = Ok a \<and> spa_outcome a = DiscountRequired"
    by (simp add: calculate_def validate_input_def example_input_def is_percent_def MAX_ANNUAL_HOURS_def
        payg_gross_annual_def raw_discount_of_def enterprise_rate_def standard_rate_def cost_eval)
  then obtain a where a: "calculate exact_arith (example_input 8760 438) = Ok a" "spa_outcome a = DiscountRequired"
    by blast
  show ?thesis using sql_payg_outcome_correct [OF exact_arith_laws a(1)] a by (auto simp: example_input_def)
qed

theorem sql_payg_tiny_hours_panics_witness:
  "calculate exact_arith (example_input (dec_new 1 27) 8) = Panic"
  by (rule sql_payg_tiny_hours_panics [OF exact_arith_laws]) (simp_all add: example_input_def is_percent_def)

end
