(* ===== verification/ProjectRepository.thy ===== *)
theory ProjectRepository
  imports Project
begin

text \<open>
  \<open>rust/src/persistence/repository.rs\<close>: the in-memory project repository with its optimistic
  concurrency by ETag. The map behind the \<open>RwLock\<close> is an association list in iteration order and the
  flag that the lock is poisoned; an operation returns its result and the new state. The clock, the
  fresh UUID and the JSON encoder are arguments: \<open>now\<close> is \<open>None\<close> where the time does not format, and
  \<open>json_env\<close> holds the length \<open>serde_json\<close> encodes a document to and the bytes of its pricing inputs.
\<close>

definition MAX_PROJECT_DOCUMENT_BYTES :: nat where
  "MAX_PROJECT_DOCUMENT_BYTES = 1800000"

definition PROJECT_DOCUMENT_TYPE :: string where
  "PROJECT_DOCUMENT_TYPE = ''project''"

definition FORMULA_VERSION :: string where
  "FORMULA_VERSION = ''1.3.0''"

definition SCHEMA_VERSION :: string where
  "SCHEMA_VERSION = ''1.0.0''"

datatype repository_error = NotFound | PreconditionFailed | PayloadTooLarge | Unavailable

type_synonym pricing_inputs = "project_settings \<times> resource list \<times> string option \<times> string option"

record 'rev json_env =
  je_document_len :: "'rev project_document \<Rightarrow> nat option"
  je_inputs :: "pricing_inputs \<Rightarrow> string option"

record 'rev stored_project =
  sp_document :: "'rev project_document"
  sp_version :: u64

record 'rev project_repository =
  pr_projects :: "(string \<times> uuid, 'rev stored_project) hash_map"
  pr_poisoned :: bool

type_synonym ('rev, 'a) repo_result = "(repository_error, 'a) outcome \<times> 'rev project_repository"

section \<open>Documents\<close>

definition etag_of :: "u64 \<Rightarrow> string" where
  "etag_of version = CHR 0x22 # show_nat (unat version) @ [CHR 0x22]"

definition enforce_document_size ::
  "'rev json_env \<Rightarrow> 'rev project_document \<Rightarrow> (repository_error, unit) outcome" where
  "enforce_document_size J document =
     obind (ok_or (je_document_len J document) Unavailable) (\<lambda>size.
     if MAX_PROJECT_DOCUMENT_BYTES \<le> size then Err PayloadTooLarge else Ok ())"

definition new_project_document ::
  "'rev json_env \<Rightarrow> string \<Rightarrow> uuid \<Rightarrow> editable_project \<Rightarrow> 'rev option \<Rightarrow> string \<Rightarrow> string \<Rightarrow>
     (repository_error, 'rev project_document) outcome" where
  "new_project_document J owner_id new_id project calculation_revision timestamp etag =
     (let document =
        \<lparr>pd_id = new_id, pd_document_type = PROJECT_DOCUMENT_TYPE, pd_owner_id = owner_id,
         pd_name = ep_name project, pd_description = ep_description project,
         pd_settings = ep_settings project, pd_resources = ep_resources project,
         pd_aws_price_snapshot_id = ep_aws_price_snapshot_id project,
         pd_azure_price_snapshot_id = ep_azure_price_snapshot_id project,
         pd_latest_calculation_revision = calculation_revision,
         pd_formula_version = FORMULA_VERSION, pd_schema_version = SCHEMA_VERSION,
         pd_created_at = timestamp, pd_updated_at = timestamp, pd_etag = etag\<rparr>
      in obind (enforce_document_size J document) (\<lambda>_. Ok document))"

definition pricing_inputs_unchanged ::
  "'rev json_env \<Rightarrow> 'rev project_document \<Rightarrow> editable_project \<Rightarrow> (repository_error, bool) outcome" where
  "pricing_inputs_unchanged J stored editable =
     obind (ok_or (je_inputs J (pd_settings stored, pd_resources stored,
              pd_aws_price_snapshot_id stored, pd_azure_price_snapshot_id stored)) Unavailable)
       (\<lambda>stored_inputs.
     obind (ok_or (je_inputs J (ep_settings editable, ep_resources editable,
              ep_aws_price_snapshot_id editable, ep_azure_price_snapshot_id editable)) Unavailable)
       (\<lambda>editable_inputs.
     Ok (stored_inputs = editable_inputs)))"

definition updated_project_document ::
  "'rev json_env \<Rightarrow> 'rev project_document \<Rightarrow> editable_project \<Rightarrow> 'rev option \<Rightarrow> string \<Rightarrow> string \<Rightarrow>
     (repository_error, 'rev project_document) outcome" where
  "updated_project_document J stored project calculation_revision timestamp etag =
     obind (pricing_inputs_unchanged J stored project) (\<lambda>unchanged.
     let document =
        \<lparr>pd_id = pd_id stored, pd_document_type = PROJECT_DOCUMENT_TYPE,
         pd_owner_id = pd_owner_id stored,
         pd_name = ep_name project, pd_description = ep_description project,
         pd_settings = ep_settings project, pd_resources = ep_resources project,
         pd_aws_price_snapshot_id = ep_aws_price_snapshot_id project,
         pd_azure_price_snapshot_id = ep_azure_price_snapshot_id project,
         pd_latest_calculation_revision =
           (if unchanged then pd_latest_calculation_revision stored else calculation_revision),
         pd_formula_version = FORMULA_VERSION, pd_schema_version = SCHEMA_VERSION,
         pd_created_at = pd_created_at stored, pd_updated_at = timestamp, pd_etag = etag\<rparr>
      in obind (enforce_document_size J document) (\<lambda>_. Ok document))"

definition validate_stored_document ::
  "'rev json_env \<Rightarrow> 'rev project_document \<Rightarrow> string \<Rightarrow> uuid option \<Rightarrow> (repository_error, unit) outcome" where
  "validate_stored_document J document owner_id expected_id =
     (if pd_document_type document \<noteq> PROJECT_DOCUMENT_TYPE \<or> pd_owner_id document \<noteq> owner_id \<or>
         (case expected_id of None \<Rightarrow> False | Some expected \<Rightarrow> pd_id document \<noteq> expected) \<or> pd_etag document = []
      then Err Unavailable
      else enforce_document_size J document)"

section \<open>Operations\<close>

definition new_repository :: "'rev project_repository" where
  "new_repository = \<lparr>pr_projects = [], pr_poisoned = False\<rparr>"

definition lock_projects :: "'rev project_repository \<Rightarrow> (repository_error, unit) outcome" where
  "lock_projects s = (if pr_poisoned s then Err Unavailable else Ok ())"

definition check_health :: "'rev project_repository \<Rightarrow> (repository_error, unit) outcome" where
  "check_health s = lock_projects s"

definition compare_documents :: "'rev project_document \<Rightarrow> 'rev project_document \<Rightarrow> ordering" where
  "compare_documents left right =
     then_with (cmp (pd_updated_at right) (pd_updated_at left)) (cmp (pd_id left) (pd_id right))"

definition list_projects ::
  "'rev project_repository \<Rightarrow> string \<Rightarrow> (repository_error, 'rev project_document list) outcome" where
  "list_projects s owner_id =
     obind (lock_projects s) (\<lambda>_.
     Ok (sort_by compare_documents
       (map (\<lambda>(_, stored). sp_document stored)
         (filter (\<lambda>((stored_owner_id, _), _). stored_owner_id = owner_id) (pr_projects s)))))"

definition create_project ::
  "'rev json_env \<Rightarrow> 'rev project_repository \<Rightarrow> string option \<Rightarrow> uuid \<Rightarrow> string \<Rightarrow> editable_project \<Rightarrow>
     'rev option \<Rightarrow> ('rev, 'rev project_document) repo_result" where
  "create_project J s now new_id owner_id project calculation_revision =
     (case obind (ok_or now Unavailable) (\<lambda>timestamp.
           obind (new_project_document J owner_id new_id project calculation_revision timestamp (etag_of 1))
             (\<lambda>document. obind (lock_projects s) (\<lambda>_. Ok document))) of
        Ok document \<Rightarrow>
          (Ok document,
           s\<lparr>pr_projects := AList.update (owner_id, new_id)
               \<lparr>sp_document = document, sp_version = 1\<rparr> (pr_projects s)\<rparr>)
      | Err e \<Rightarrow> (Err e, s)
      | Panic \<Rightarrow> (Panic, s))"

definition get_project ::
  "'rev project_repository \<Rightarrow> string \<Rightarrow> uuid \<Rightarrow> (repository_error, 'rev project_document) outcome" where
  "get_project s owner_id project_id =
     obind (lock_projects s) (\<lambda>_.
     ok_or (map_option sp_document (map_of (pr_projects s) (owner_id, project_id))) NotFound)"

definition update_project ::
  "'rev json_env \<Rightarrow> 'rev project_repository \<Rightarrow> string option \<Rightarrow> string \<Rightarrow> uuid \<Rightarrow> string \<Rightarrow>
     editable_project \<Rightarrow> 'rev option \<Rightarrow> ('rev, 'rev project_document) repo_result" where
  "update_project J s now owner_id project_id if_match project calculation_revision =
     (case obind (lock_projects s) (\<lambda>_.
           obind (ok_or (map_of (pr_projects s) (owner_id, project_id)) NotFound) (\<lambda>stored.
           if pd_etag (sp_document stored) \<noteq> if_match then Err PreconditionFailed
           else
             obind (ok_or (checked_add (sp_version stored) 1) Unavailable) (\<lambda>version.
             obind (ok_or now Unavailable) (\<lambda>timestamp.
             obind (updated_project_document J (sp_document stored) project calculation_revision timestamp
                      (etag_of version)) (\<lambda>document. Ok (document, version)))))) of
        Ok (document, version) \<Rightarrow>
          (Ok document,
           s\<lparr>pr_projects := AList.update (owner_id, project_id)
               \<lparr>sp_document = document, sp_version = version\<rparr> (pr_projects s)\<rparr>)
      | Err e \<Rightarrow> (Err e, s)
      | Panic \<Rightarrow> (Panic, s))"

definition delete_project ::
  "'rev project_repository \<Rightarrow> string \<Rightarrow> uuid \<Rightarrow> ('rev, unit) repo_result" where
  "delete_project s owner_id project_id =
     (case obind (lock_projects s) (\<lambda>_. ok_or (map_of (pr_projects s) (owner_id, project_id)) NotFound) of
        Ok _ \<Rightarrow> (Ok (), s\<lparr>pr_projects := AList.delete (owner_id, project_id) (pr_projects s)\<rparr>)
      | Err e \<Rightarrow> (Err e, s)
      | Panic \<Rightarrow> (Panic, s))"

section \<open>Versioned updates\<close>

text \<open>
  What a client relies on when it updates with \<open>If-Match\<close>: a successful update presents the tag of the
  current version and moves the version up; whatever other request runs, a key it does not create has a
  version after it only if it had one before, and no higher one; and tags tell versions apart.
\<close>

locale versioned_store =
  fixes inv :: "'s \<Rightarrow> bool"
    and version :: "'s \<Rightarrow> 'k \<Rightarrow> nat option"
    and tag_of :: "nat \<Rightarrow> 't"
    and presents :: "'u \<Rightarrow> ('k \<times> 't) option"
    and creates :: "'u \<Rightarrow> 'k \<Rightarrow> bool"
    and run :: "'s \<Rightarrow> 'u \<Rightarrow> ('e, 'a) outcome \<times> 's"
  assumes tag_inj: "tag_of v = tag_of w \<Longrightarrow> v = w"
    and run_inv: "inv s \<Longrightarrow> run s u = (r, s') \<Longrightarrow> inv s'"
    and update_Ok: "inv s \<Longrightarrow> run s u = (Ok d, s') \<Longrightarrow> presents u = Some (k, t) \<Longrightarrow>
      \<exists>v w. version s k = Some v \<and> tag_of v = t \<and> version s' k = Some w \<and> v < w"
    and version_kept: "inv s \<Longrightarrow> run s u = (r, s') \<Longrightarrow> \<not> creates u k \<Longrightarrow> version s' k = Some w \<Longrightarrow>
      \<exists>v. version s k = Some v \<and> v \<le> w"
begin

lemma older_tag_fails:
  assumes "inv s" "\<And>w. version s k = Some w \<Longrightarrow> v < w" "j < length us"
    "presents (us ! j) = Some (k, tag_of v)" "\<And>m. m < j \<Longrightarrow> \<not> creates (us ! m) k"
  shows "fst (run_ops run s us) ! j \<noteq> Ok d"
  using assms
proof (induction us arbitrary: s j)
  case (Cons u us)
  obtain r s' where u: "run s u = (r, s')" by force
  show ?case
  proof (cases j)
    case 0
    have "r \<noteq> Ok d"
    proof
      assume "r = Ok d"
      then obtain x where "version s k = Some x" "tag_of x = tag_of v"
        using update_Ok [OF Cons.prems(1), of u d s'] u Cons.prems(4) 0 by fastforce
      then show False using Cons.prems(2) tag_inj by blast
    qed
    then show ?thesis using 0 by (simp add: run_ops_Cons [where f = run, OF u])
  next
    case (Suc i)
    have fresh: "\<not> creates u k" using Cons.prems(5) [of 0] Suc by simp
    have "v < w" if w: "version s' k = Some w" for w
      using version_kept [OF Cons.prems(1) u fresh w] Cons.prems(2) by fastforce
    then have "fst (run_ops run s' us) ! i \<noteq> Ok d"
      using Cons.IH [OF run_inv [OF Cons.prems(1) u], of i] Cons.prems(3,4) Cons.prems(5) [of "Suc _"] Suc
      by simp
    then show ?thesis using Suc by (simp add: run_ops_Cons [where f = run, OF u])
  qed
qed simp

lemma one_winner_per_tag:
  assumes "inv s" "i < j" "j < length us" "presents (us ! i) = Some (k, t)" "presents (us ! j) = Some (k, t)"
    "\<And>m. i < m \<Longrightarrow> m < j \<Longrightarrow> \<not> creates (us ! m) k" "fst (run_ops run s us) ! i = Ok d"
  shows "fst (run_ops run s us) ! j \<noteq> Ok d'"
  using assms
proof (induction us arbitrary: s i j)
  case (Cons u us)
  obtain r s' where u: "run s u = (r, s')" by force
  obtain j' where j: "j = Suc j'" using Cons.prems(2) by (cases j) auto
  note inv' = run_inv [OF Cons.prems(1) u]
  show ?case
  proof (cases i)
    case 0
    then have "r = Ok d" using Cons.prems(7) by (simp add: run_ops_Cons [where f = run, OF u])
    then obtain v w where v: "tag_of v = t" "version s' k = Some w" "v < w"
      using update_Ok [OF Cons.prems(1), of u d s' k t] u Cons.prems(4) 0 by auto
    have "fst (run_ops run s' us) ! j' \<noteq> Ok d'"
      using older_tag_fails [OF inv', of k v j' us] v Cons.prems(3,5) Cons.prems(6) [of "Suc _"] 0 j by simp
    then show ?thesis by (simp add: run_ops_Cons [where f = run, OF u] j)
  next
    case (Suc i')
    then show ?thesis
      using Cons.IH [OF inv', of i' j'] Cons.prems(2-5,7) Cons.prems(6) [of "Suc _"] j
      by (simp add: run_ops_Cons [where f = run, OF u])
  qed
qed simp

end

section \<open>The invariant of the stored map\<close>

definition entry_ok :: "'rev json_env \<Rightarrow> string \<times> uuid \<Rightarrow> 'rev stored_project \<Rightarrow> bool" where
  "entry_ok J k stored \<longleftrightarrow>
     pd_owner_id (sp_document stored) = fst k \<and> pd_id (sp_document stored) = snd k \<and>
     pd_document_type (sp_document stored) = PROJECT_DOCUMENT_TYPE \<and>
     pd_etag (sp_document stored) = etag_of (sp_version stored) \<and>
     enforce_document_size J (sp_document stored) = Ok ()"

definition repository_inv :: "'rev json_env \<Rightarrow> 'rev project_repository \<Rightarrow> bool" where
  "repository_inv J s \<longleftrightarrow>
     well_keyed (pr_projects s) \<and>
     (\<forall>k stored. map_of (pr_projects s) k = Some stored \<longrightarrow> entry_ok J k stored)"

record 'rev update_request =
  ur_now :: "string option"
  ur_owner_id :: string
  ur_project_id :: uuid
  ur_if_match :: string
  ur_project :: editable_project
  ur_calculation_revision :: "'rev option"

definition apply_update ::
  "'rev json_env \<Rightarrow> 'rev project_repository \<Rightarrow> 'rev update_request \<Rightarrow>
     ('rev, 'rev project_document) repo_result" where
  "apply_update J s u =
     update_project J s (ur_now u) (ur_owner_id u) (ur_project_id u) (ur_if_match u) (ur_project u)
       (ur_calculation_revision u)"

text \<open>
  One request of a client, and the operation it runs; a deletion returns no document. The ID of a creation is
  the one the operation drew for it.
\<close>

datatype 'rev repo_request =
  CreateRequest (cr_now: "string option") (cr_new_id: uuid) (cr_owner_id: string)
    (cr_project: editable_project) (cr_revision: "'rev option")
| UpdateRequest "'rev update_request"
| DeleteRequest (dr_owner_id: string) (dr_project_id: uuid)

fun run_repo_request ::
  "'rev json_env \<Rightarrow> 'rev project_repository \<Rightarrow> 'rev repo_request \<Rightarrow>
     ('rev, 'rev project_document option) repo_result" where
  "run_repo_request J s (CreateRequest now new_id owner project revision) =
     (case create_project J s now new_id owner project revision of
        (r, s') \<Rightarrow> (obind r (\<lambda>document. Ok (Some document)), s'))"
| "run_repo_request J s (UpdateRequest u) =
     (case apply_update J s u of (r, s') \<Rightarrow> (obind r (\<lambda>document. Ok (Some document)), s'))"
| "run_repo_request J s (DeleteRequest owner project_id) =
     (case delete_project s owner project_id of (r, s') \<Rightarrow> (obind r (\<lambda>_. Ok None), s'))"

fun presented_tag :: "'rev repo_request \<Rightarrow> ((string \<times> uuid) \<times> string) option" where
  "presented_tag (UpdateRequest u) = Some ((ur_owner_id u, ur_project_id u), ur_if_match u)"
| "presented_tag _ = None"

fun creates_key :: "'rev repo_request \<Rightarrow> string \<times> uuid \<Rightarrow> bool" where
  "creates_key (CreateRequest _ new_id owner _ _) k \<longleftrightarrow> k = (owner, new_id)"
| "creates_key _ k \<longleftrightarrow> False"

definition current_version :: "'rev project_repository \<Rightarrow> string \<times> uuid \<Rightarrow> nat option" where
  "current_version s k = map_option (unat \<circ> sp_version) (map_of (pr_projects s) k)"

definition etag_text :: "nat \<Rightarrow> string" where
  "etag_text v = CHR 0x22 # show_nat v @ [CHR 0x22]"

lemma etag_of_text: "etag_of v = etag_text (unat v)"
  by (simp add: etag_of_def etag_text_def)

lemma create_project_cases:
  assumes "create_project J s now new_id owner project revision = (r, s')"
  obtains (created) d where "r = Ok d" "\<not> pr_poisoned s" "entry_ok J (owner, new_id) \<lparr>sp_document = d, sp_version = 1\<rparr>"
      "s' = s\<lparr>pr_projects := AList.update (owner, new_id) \<lparr>sp_document = d, sp_version = 1\<rparr> (pr_projects s)\<rparr>"
      "\<exists>timestamp. now = Some timestamp \<and>
        new_project_document J owner new_id project revision timestamp (etag_of 1) = Ok d"
  | (failed) e where "r = Err e" "s' = s"
proof -
  define m where "m = obind (ok_or now Unavailable) (\<lambda>timestamp.
           obind (new_project_document J owner new_id project revision timestamp (etag_of 1))
             (\<lambda>document. obind (lock_projects s) (\<lambda>_. Ok document)))"
  have m: "m \<noteq> Panic"
    by (auto simp: m_def obind_Panic_iff new_project_document_def Let_def enforce_document_size_def
        lock_projects_def split: if_splits)
  have def: "create_project J s now new_id owner project revision =
      (case m of Ok document \<Rightarrow>
          (Ok document, s\<lparr>pr_projects := AList.update (owner, new_id)
               \<lparr>sp_document = document, sp_version = 1\<rparr> (pr_projects s)\<rparr>)
        | Err e \<Rightarrow> (Err e, s) | Panic \<Rightarrow> (Panic, s))"
    by (simp add: create_project_def m_def)
  show thesis
  proof (cases m)
    case (Ok d)
    then obtain timestamp where t: "now = Some timestamp"
      "new_project_document J owner new_id project revision timestamp (etag_of 1) = Ok d" "\<not> pr_poisoned s"
      by (auto simp: m_def obind_Ok_iff lock_projects_def split: if_splits)
    then have "entry_ok J (owner, new_id) \<lparr>sp_document = d, sp_version = 1\<rparr>"
      by (auto simp: new_project_document_def Let_def obind_Ok_iff entry_ok_def)
    then show thesis using created assms def Ok t by simp
  next
    case (Err e)
    then have "r = Err e" "s' = s" using assms def by auto
    then show thesis by (rule failed)
  qed (use m in simp)
qed

lemma update_project_cases:
  assumes "update_project J s now owner pid tag project revision = (r, s')"
  obtains (updated) d stored v where "r = Ok d" "\<not> pr_poisoned s"
      "map_of (pr_projects s) (owner, pid) = Some stored" "pd_etag (sp_document stored) = tag"
      "checked_add (sp_version stored) 1 = Some v"
      "s' = s\<lparr>pr_projects := AList.update (owner, pid) \<lparr>sp_document = d, sp_version = v\<rparr> (pr_projects s)\<rparr>"
      "\<exists>timestamp. now = Some timestamp \<and>
        updated_project_document J (sp_document stored) project revision timestamp (etag_of v) = Ok d"
  | (failed) e where "r = Err e" "s' = s"
proof -
  define m where "m = obind (lock_projects s) (\<lambda>_.
           obind (ok_or (map_of (pr_projects s) (owner, pid)) NotFound) (\<lambda>stored.
           if pd_etag (sp_document stored) \<noteq> tag then Err PreconditionFailed
           else
             obind (ok_or (checked_add (sp_version stored) 1) Unavailable) (\<lambda>version.
             obind (ok_or now Unavailable) (\<lambda>timestamp.
             obind (updated_project_document J (sp_document stored) project revision timestamp
                      (etag_of version)) (\<lambda>document. Ok (document, version))))))"
  have m: "m \<noteq> Panic"
    by (auto simp: m_def obind_Panic_iff updated_project_document_def pricing_inputs_unchanged_def Let_def
        enforce_document_size_def lock_projects_def split: if_splits)
  have def: "update_project J s now owner pid tag project revision =
      (case m of Ok (document, version) \<Rightarrow>
          (Ok document, s\<lparr>pr_projects := AList.update (owner, pid)
               \<lparr>sp_document = document, sp_version = version\<rparr> (pr_projects s)\<rparr>)
        | Err e \<Rightarrow> (Err e, s) | Panic \<Rightarrow> (Panic, s))"
    by (simp add: update_project_def m_def)
  show thesis
  proof (cases m)
    case (Ok dv)
    obtain d v where dv: "dv = (d, v)" by force
    from Ok obtain stored timestamp where t: "map_of (pr_projects s) (owner, pid) = Some stored"
      "pd_etag (sp_document stored) = tag" "checked_add (sp_version stored) 1 = Some v" "now = Some timestamp"
      "updated_project_document J (sp_document stored) project revision timestamp (etag_of v) = Ok d" "\<not> pr_poisoned s"
      by (auto simp: m_def dv obind_Ok_iff lock_projects_def split: if_splits)
    show thesis using updated [of d stored v] assms def Ok dv t by simp
  next
    case (Err e)
    then have "r = Err e" "s' = s" using assms def by auto
    then show thesis by (rule failed)
  qed (use m in simp)
qed

lemma delete_project_cases:
  assumes "delete_project s owner pid = (r, s')"
  obtains (deleted) "r = Ok ()" "\<not> pr_poisoned s" "map_of (pr_projects s) (owner, pid) \<noteq> None"
      "s' = s\<lparr>pr_projects := AList.delete (owner, pid) (pr_projects s)\<rparr>"
  | (failed) e where "r = Err e" "s' = s"
proof (cases "obind (lock_projects s) (\<lambda>_. ok_or (map_of (pr_projects s) (owner, pid)) NotFound)")
  case (Ok x)
  then show thesis using deleted assms
    by (auto simp: delete_project_def obind_Ok_iff lock_projects_def split: if_splits)
next
  case (Err e)
  then have "r = Err e" "s' = s" using assms by (auto simp: delete_project_def)
  then show thesis by (rule failed)
next
  case Panic
  then show thesis by (auto simp: obind_Panic_iff lock_projects_def split: if_splits)
qed

lemma updated_entry_ok:
  assumes "updated_project_document J (sp_document stored) project revision timestamp (etag_of v) = Ok d"
    "entry_ok J k stored"
  shows "entry_ok J k \<lparr>sp_document = d, sp_version = v\<rparr>"
  using assms by (auto simp: updated_project_document_def Let_def obind_Ok_iff entry_ok_def)

text \<open>The steps one owner's requests take; a failed request takes none.\<close>

inductive repo_step :: "'rev json_env \<Rightarrow> string \<Rightarrow> 'rev project_repository \<Rightarrow> 'rev project_repository \<Rightarrow> bool"
  for J :: "'rev json_env" and owner :: string where
  create: "create_project J s now new_id owner project revision = (r, s') \<Longrightarrow> repo_step J owner s s'"
| update: "update_project J s now owner pid tag project revision = (r, s') \<Longrightarrow> repo_step J owner s s'"
| delete: "delete_project s owner pid = (r, s') \<Longrightarrow> repo_step J owner s s'"

inductive_cases repo_stepE [elim]: "repo_step J owner s s'"

inductive reachable :: "'rev json_env \<Rightarrow> 'rev project_repository \<Rightarrow> bool" for J :: "'rev json_env" where
  start: "reachable J new_repository"
| step: "reachable J s \<Longrightarrow> repo_step J owner s s' \<Longrightarrow> reachable J s'"

lemma repository_inv_insert:
  "repository_inv J s \<Longrightarrow> entry_ok J k stored \<Longrightarrow>
     repository_inv J (s\<lparr>pr_projects := AList.update k stored (pr_projects s)\<rparr>)"
  by (auto simp: repository_inv_def map_of_update_apply)

lemma repository_inv_delete:
  "repository_inv J s \<Longrightarrow> repository_inv J (s\<lparr>pr_projects := AList.delete k (pr_projects s)\<rparr>)"
  by (auto simp: repository_inv_def map_of_delete_apply)

lemma update_project_inv:
  assumes "repository_inv J s" "update_project J s now owner pid tag project revision = (r, s')"
  shows "repository_inv J s'"
  using assms(2)
proof (cases rule: update_project_cases)
  case (updated d stored v)
  have "entry_ok J (owner, pid) stored" using assms(1) updated(3) by (simp add: repository_inv_def)
  then have "entry_ok J (owner, pid) \<lparr>sp_document = d, sp_version = v\<rparr>"
    using updated(7) updated_entry_ok by blast
  then show ?thesis using repository_inv_insert [OF assms(1)] updated(6) by simp
qed (use assms(1) in simp)

lemma repo_step_inv:
  assumes "repo_step J owner s s'" "repository_inv J s"
  shows "repository_inv J s'"
  using assms(1)
proof cases
  case (create now new_id project revision r)
  then show ?thesis
    by (cases rule: create_project_cases) (use assms(2) repository_inv_insert in auto)
next
  case (update now pid tag project revision r)
  then show ?thesis using update_project_inv [OF assms(2)] by blast
next
  case (delete pid r)
  then show ?thesis
    by (cases rule: delete_project_cases) (use assms(2) repository_inv_delete in auto)
qed

lemma reachable_inv: "reachable J s \<Longrightarrow> repository_inv J s"
proof (induction rule: reachable.induct)
  case start
  then show ?case by (simp add: repository_inv_def new_repository_def)
next
  case (step s owner s')
  then show ?case using repo_step_inv by blast
qed

lemma repo_request_step:
  assumes "run_repo_request J s u = (r, s')"
  obtains owner where "repo_step J owner s s'"
  using assms
  by (cases u)
     (auto simp: apply_update_def split: prod.splits
       intro: repo_step.create repo_step.update repo_step.delete)

lemma apply_update_Ok:
  assumes "repository_inv J s" "apply_update J s u = (Ok d, s')"
  shows "\<exists>v w. current_version s (ur_owner_id u, ur_project_id u) = Some v \<and> etag_text v = ur_if_match u \<and>
      current_version s' (ur_owner_id u, ur_project_id u) = Some w \<and> v < w"
proof -
  have "update_project J s (ur_now u) (ur_owner_id u) (ur_project_id u) (ur_if_match u) (ur_project u)
      (ur_calculation_revision u) = (Ok d, s')" using assms(2) by (simp add: apply_update_def)
  then show ?thesis
  proof (cases rule: update_project_cases)
    case (updated d' stored v)
    have "pd_etag (sp_document stored) = etag_of (sp_version stored)"
      using assms(1) updated(3) by (auto simp: repository_inv_def entry_ok_def)
    then show ?thesis using updated checked_add_Some [OF updated(5)]
      by (simp add: current_version_def map_of_update_apply etag_of_text)
  qed simp
qed

lemma request_version_kept:
  assumes "run_repo_request J s u = (r, s')" "\<not> creates_key u k" "current_version s' k = Some w"
  shows "\<exists>v. current_version s k = Some v \<and> v \<le> w"
proof (cases u)
  case (CreateRequest now new_id owner project revision)
  obtain r' where c: "create_project J s now new_id owner project revision = (r', s')"
    using assms(1) CreateRequest by (auto split: prod.splits)
  from c show ?thesis
    by (cases rule: create_project_cases)
       (use assms(2,3) CreateRequest in \<open>auto simp: current_version_def map_of_update_apply\<close>)
next
  case (UpdateRequest x)
  obtain r' where c: "update_project J s (ur_now x) (ur_owner_id x) (ur_project_id x) (ur_if_match x)
      (ur_project x) (ur_calculation_revision x) = (r', s')"
    using assms(1) UpdateRequest by (auto simp: apply_update_def split: prod.splits)
  from c show ?thesis
  proof (cases rule: update_project_cases)
    case (updated d stored v)
    show ?thesis
      using assms(3) updated checked_add_Some [OF updated(5)]
      by (cases "k = (ur_owner_id x, ur_project_id x)") (auto simp: current_version_def map_of_update_apply)
  qed (use assms(3) in auto)
next
  case (DeleteRequest owner pid)
  obtain r' where c: "delete_project s owner pid = (r', s')"
    using assms(1) DeleteRequest by (auto split: prod.splits)
  from c show ?thesis
    by (cases rule: delete_project_cases)
       (use assms(3) in \<open>auto simp: current_version_def map_of_delete_apply split: if_splits\<close>)
qed

interpretation repo_updates: versioned_store "repository_inv J" current_version etag_text presented_tag
  creates_key "run_repo_request J" for J
proof
  fix v w assume "etag_text v = etag_text w"
  then show "v = w" by (simp add: etag_text_def)
next
  fix s s' :: "'a project_repository" and u r
  assume "repository_inv J s" "run_repo_request J s u = (r, s')"
  then show "repository_inv J s'" using repo_step_inv by (meson repo_request_step)
next
  fix s s' :: "'a project_repository" and u d k t
  assume inv: "repository_inv J s" and run: "run_repo_request J s u = (Ok d, s')"
    and tag: "presented_tag u = Some (k, t)"
  obtain x where x: "u = UpdateRequest x" "k = (ur_owner_id x, ur_project_id x)" "t = ur_if_match x"
    using tag by (cases u) auto
  obtain d' where "apply_update J s x = (Ok d', s')"
    using run x by (auto simp: obind_Ok_iff split: prod.splits)
  then show "\<exists>v w. current_version s k = Some v \<and> etag_text v = t \<and> current_version s' k = Some w \<and> v < w"
    using apply_update_Ok [OF inv] x by blast
qed (rule request_version_kept)

section \<open>Properties of the repository\<close>

text \<open>
  C4: in any sequence of requests, of any clients, of two updates of one project that present the same ETag
  at most one succeeds, whatever creations, updates and deletions run before, between and after them, as long
  as no creation between them draws the ID of that project again: no update is lost.
\<close>
theorem no_lost_update:
  assumes "reachable J s" "i < j" "j < length us"
    and "us ! i = UpdateRequest u" "us ! j = UpdateRequest u'"
    and "ur_owner_id u = ur_owner_id u'" "ur_project_id u = ur_project_id u'" "ur_if_match u = ur_if_match u'"
    and "\<And>m. i < m \<Longrightarrow> m < j \<Longrightarrow>
      \<not> (\<exists>now project revision. us ! m = CreateRequest now (ur_project_id u) (ur_owner_id u) project revision)"
    and "fst (run_ops (run_repo_request J) s us) ! i = Ok d"
  shows "fst (run_ops (run_repo_request J) s us) ! j \<noteq> Ok d'"
proof (rule repo_updates.one_winner_per_tag [OF reachable_inv [OF assms(1)] assms(2,3) _ _ _ assms(10)])
  fix m assume "i < m" "m < j"
  then show "\<not> creates_key (us ! m) (ur_owner_id u, ur_project_id u)"
    using assms(9) [of m] by (cases "us ! m") auto
qed (simp_all add: assms(4-8))

lemma get_project_Ok:
  "get_project s owner pid = Ok d \<longleftrightarrow>
     \<not> pr_poisoned s \<and> (\<exists>stored. map_of (pr_projects s) (owner, pid) = Some stored \<and> sp_document stored = d)"
  by (auto simp: get_project_def lock_projects_def obind_Ok_iff)

text \<open>
  C36: whatever the owners' requests did, a document read by an owner passes the check of stored documents
  for that owner and ID: its type, owner, ID, ETag and size are the stored ones.
\<close>
theorem reachable_documents_valid:
  assumes "reachable J s" "get_project s owner pid = Ok d"
  shows "validate_stored_document J d owner (Some pid) = Ok ()"
proof -
  obtain stored where st: "map_of (pr_projects s) (owner, pid) = Some stored" "sp_document stored = d"
    using assms(2) by (auto simp: get_project_Ok)
  then have "entry_ok J (owner, pid) stored" using reachable_inv [OF assms(1)] by (simp add: repository_inv_def)
  then show ?thesis using st(2)
    by (auto simp: entry_ok_def validate_stored_document_def etag_of_def)
qed

interpretation document_order: comparator compare_documents
  unfolding compare_documents_def [abs_def] by (intro comparator_intros)

definition owned_documents :: "'rev project_repository \<Rightarrow> string \<Rightarrow> 'rev project_document list" where
  "owned_documents s owner =
     map (\<lambda>(_, stored). sp_document stored)
       (filter (\<lambda>((stored_owner_id, _), _). stored_owner_id = owner) (pr_projects s))"

lemma list_projects_Ok:
  "list_projects s owner = Ok ds \<longleftrightarrow>
     \<not> pr_poisoned s \<and> ds = sort_by compare_documents (owned_documents s owner)"
  by (auto simp: list_projects_def owned_documents_def lock_projects_def obind_Ok_iff)

lemma owned_documents_iff:
  assumes "repository_inv J s"
  shows "d \<in> set (owned_documents s owner) \<longleftrightarrow>
    (\<exists>pid stored. map_of (pr_projects s) (owner, pid) = Some stored \<and> sp_document stored = d)"
proof -
  have "well_keyed (pr_projects s)" using assms by (simp add: repository_inv_def)
  then show ?thesis by (force simp: owned_documents_def well_keyed_in_map_of [symmetric])
qed

lemma owned_documents_distinct_ids:
  assumes "repository_inv J s" "d \<in> set (owned_documents s owner)" "d' \<in> set (owned_documents s owner)"
    "pd_id d = pd_id d'"
  shows "d = d'"
proof -
  obtain p st p' st' where st: "map_of (pr_projects s) (owner, p) = Some st" "sp_document st = d"
    "map_of (pr_projects s) (owner, p') = Some st'" "sp_document st' = d'"
    using assms(2,3) owned_documents_iff [OF assms(1)] by blast
  have "pd_id d = p" "pd_id d' = p'"
    using assms(1) st by (fastforce simp: repository_inv_def entry_ok_def)+
  then show ?thesis using st assms(4) by simp
qed

text \<open>
  a listing holds exactly the documents its owner can read, all of them owned by that owner, the most
  recently updated first and equal times by ID, and it is the same for every iteration order of the map.
\<close>
theorem list_projects_correct:
  assumes "reachable J s" "list_projects s owner = Ok ds"
  shows "(\<forall>d. d \<in> set ds \<longleftrightarrow> (\<exists>pid. get_project s owner pid = Ok d)) \<and>
    (\<forall>d\<in>set ds. pd_owner_id d = owner) \<and>
    sorted_wrt (\<lambda>d d'. pd_updated_at d' < pd_updated_at d \<or>
      pd_updated_at d = pd_updated_at d' \<and> pd_id d \<le> pd_id d') ds \<and>
    (\<forall>s'. mset (pr_projects s') = mset (pr_projects s) \<and> pr_poisoned s' = pr_poisoned s \<longrightarrow>
       list_projects s' owner = Ok ds)"
proof (intro conjI allI ballI impI)
  note inv = reachable_inv [OF assms(1)]
  have ds: "ds = sort_by compare_documents (owned_documents s owner)" "\<not> pr_poisoned s"
    using assms(2) by (simp_all add: list_projects_Ok)
  show "d \<in> set ds \<longleftrightarrow> (\<exists>pid. get_project s owner pid = Ok d)" for d
    using ds owned_documents_iff [OF inv] by (simp add: get_project_Ok)
  show "pd_owner_id d = owner" if "d \<in> set ds" for d
    using that ds owned_documents_iff [OF inv] inv by (fastforce simp: repository_inv_def entry_ok_def)
  show "sorted_wrt (\<lambda>d d'. pd_updated_at d' < pd_updated_at d \<or>
      pd_updated_at d = pd_updated_at d' \<and> pd_id d \<le> pd_id d') ds"
    unfolding ds(1)
    by (rule sorted_wrt_mono_rel [OF _ document_order.sorted_sort_by])
       (auto simp: compare_documents_def then_with_iff not_less)
  fix s' :: "'a project_repository" assume s': "mset (pr_projects s') = mset (pr_projects s) \<and> pr_poisoned s' = pr_poisoned s"
  then have "mset (owned_documents s' owner) = mset (owned_documents s owner)"
    by (simp add: owned_documents_def)
  then have "sort_by compare_documents (owned_documents s owner) =
      sort_by compare_documents (owned_documents s' owner)"
    by (intro document_order.sort_by_unique)
       (auto simp: compare_documents_def then_with_iff intro: owned_documents_distinct_ids [OF inv])
  then show "list_projects s' owner = Ok ds" using ds s' by (simp add: list_projects_Ok)
qed

lemma filter_update_other:
  "fst k \<noteq> owner \<Longrightarrow> filter (\<lambda>((o', _), _). o' = owner) (AList.update k v m) =
     filter (\<lambda>((o', _), _). o' = owner) m"
  by (induction m) auto

lemma filter_delete_other:
  "fst k \<noteq> owner \<Longrightarrow> filter (\<lambda>((o', _), _). o' = owner) (AList.delete k m) =
     filter (\<lambda>((o', _), _). o' = owner) m"
  by (induction m) (auto simp: AList.delete_eq)

text \<open>
  C37: the requests of one owner never change what another owner reads or lists.
\<close>
theorem owner_isolation:
  assumes "repo_step J owner s s'" "other \<noteq> owner"
  shows "get_project s' other pid = get_project s other pid \<and> list_projects s' other = list_projects s other"
  using assms(1)
proof cases
  case (create now new_id project revision r)
  then show ?thesis
    by (cases rule: create_project_cases)
       (use assms(2) in \<open>auto simp: get_project_def list_projects_def lock_projects_def map_of_update_apply
          filter_update_other\<close>)
next
  case (update now i tag project revision r)
  then show ?thesis
    by (cases rule: update_project_cases)
       (use assms(2) in \<open>auto simp: get_project_def list_projects_def lock_projects_def map_of_update_apply
          filter_update_other\<close>)
next
  case (delete i r)
  then show ?thesis
    by (cases rule: delete_project_cases)
       (use assms(2) in \<open>auto simp: get_project_def list_projects_def lock_projects_def map_of_delete_apply
          filter_delete_other\<close>)
qed

text \<open>
  C38: what a create or update returns is what the next read returns, with every editable part as submitted
  and the next ETag; an update keeps the ID, the owner and the creation time, and keeps the stored
  calculation exactly if settings, workloads and snapshot IDs encode to the same bytes as the stored ones,
  taking the supplied calculation otherwise.
\<close>
theorem write_then_read:
  assumes "(create_project J s now pid owner project revision = (Ok d, s') \<and> stored = None) \<or>
     (update_project J s now owner pid tag project revision = (Ok d, s') \<and>
      map_of (pr_projects s) (owner, pid) = stored)"
  shows "get_project s' owner pid = Ok d \<and> now = Some (pd_updated_at d) \<and>
    pd_name d = ep_name project \<and> pd_description d = ep_description project \<and>
    pd_settings d = ep_settings project \<and> pd_resources d = ep_resources project \<and>
    pd_aws_price_snapshot_id d = ep_aws_price_snapshot_id project \<and>
    pd_azure_price_snapshot_id d = ep_azure_price_snapshot_id project \<and>
    (case stored of
       None \<Rightarrow> pd_id d = pid \<and> pd_owner_id d = owner \<and> pd_etag d = etag_of 1 \<and>
         pd_latest_calculation_revision d = revision \<and> pd_created_at d = pd_updated_at d
     | Some old \<Rightarrow>
         tag = pd_etag (sp_document old) \<and> pd_etag d = etag_of (sp_version old + 1) \<and>
         pd_id d = pd_id (sp_document old) \<and> pd_owner_id d = pd_owner_id (sp_document old) \<and>
         pd_created_at d = pd_created_at (sp_document old) \<and>
         (\<exists>before after.
           je_inputs J (pd_settings (sp_document old), pd_resources (sp_document old),
             pd_aws_price_snapshot_id (sp_document old), pd_azure_price_snapshot_id (sp_document old))
             = Some before \<and>
           je_inputs J (ep_settings project, ep_resources project,
             ep_aws_price_snapshot_id project, ep_azure_price_snapshot_id project) = Some after \<and>
           (before = after \<longrightarrow>
             pd_latest_calculation_revision d = pd_latest_calculation_revision (sp_document old)) \<and>
           (before \<noteq> after \<longrightarrow> pd_latest_calculation_revision d = revision)))"
proof -
  consider (create) "create_project J s now pid owner project revision = (Ok d, s')" "stored = None"
    | (update) "update_project J s now owner pid tag project revision = (Ok d, s')"
      "map_of (pr_projects s) (owner, pid) = stored"
    using assms by blast
  then show ?thesis
  proof cases
    case create
    from create(1) show ?thesis
    proof (cases rule: create_project_cases)
      case (created d')
      then show ?thesis using create(2)
        by (auto simp: get_project_Ok map_of_update_apply new_project_document_def Let_def obind_Ok_iff)
    qed simp
  next
    case update
    from update(1) show ?thesis
    proof (cases rule: update_project_cases)
      case (updated d' old v)
      have v: "v = sp_version old + 1" using updated(5) by (auto simp: checked_add_def split: if_splits)
      show ?thesis using updated update(2) v
        by (auto simp: get_project_Ok map_of_update_apply updated_project_document_def
            pricing_inputs_unchanged_def Let_def obind_Ok_iff)
    qed simp
  qed
qed

section \<open>A concrete history\<close>

definition example_json :: "unit json_env" where
  "example_json = \<lparr>je_document_len = (\<lambda>_. Some 100), je_inputs = (\<lambda>(_, rs, _). Some (show_nat (length rs)))\<rparr>"

definition example_edit :: "string \<Rightarrow> editable_project" where
  "example_edit name =
     \<lparr>ep_name = name, ep_description = None,
      ep_settings =
        \<lparr>ps_project_type = PtEc2, ps_aws_region = None, ps_azure_region = '''', ps_currency = ''USD'',
         ps_source_compute_discount = 0, ps_source_license_discount = 0, ps_source_storage_discount = 0,
         ps_azure_compute_discount = 0, ps_azure_license_discount = 0, ps_azure_storage_discount = 0,
         ps_selected_parity_adjustment = 0, ps_default_annual_hours = 0,
         ps_default_mi_purchase_option = PoPayg, ps_enterprise_license_sa_pack = None,
         ps_standard_license_sa_pack = None, ps_remaining_coverage_months = None,
         ps_electricity_rate = None, ps_sql_payg = None\<rparr>,
      ep_resources = [], ep_aws_price_snapshot_id = None, ep_azure_price_snapshot_id = None\<rparr>"

definition example_document :: "unit project_document" where
  "example_document =
     \<lparr>pd_id = 7, pd_document_type = PROJECT_DOCUMENT_TYPE, pd_owner_id = ''ada'', pd_name = ''a'',
      pd_description = None, pd_settings = ep_settings (example_edit ''a''), pd_resources = [],
      pd_aws_price_snapshot_id = None, pd_azure_price_snapshot_id = None,
      pd_latest_calculation_revision = None, pd_formula_version = FORMULA_VERSION,
      pd_schema_version = SCHEMA_VERSION, pd_created_at = ''t1'', pd_updated_at = ''t1'', pd_etag = etag_of 1\<rparr>"

definition example_repository :: "unit project_repository" where
  "example_repository =
     \<lparr>pr_projects = [((''ada'', 7), \<lparr>sp_document = example_document, sp_version = 1\<rparr>)], pr_poisoned = False\<rparr>"

lemma example_create:
  "create_project example_json new_repository (Some ''t1'') 7 ''ada'' (example_edit ''a'') None =
     (Ok example_document, example_repository)"
  by (simp add: create_project_def new_project_document_def enforce_document_size_def example_json_def
      MAX_PROJECT_DOCUMENT_BYTES_def lock_projects_def new_repository_def example_document_def
      example_edit_def example_repository_def)

lemma example_reachable: "reachable example_json example_repository"
  by (rule reachable.step [OF reachable.start repo_step.create [OF example_create]])

lemma example_get: "get_project example_repository ''ada'' 7 = Ok example_document"
  by (simp add: get_project_Ok example_repository_def)

definition example_update :: "string \<Rightarrow> unit update_request" where
  "example_update name =
     \<lparr>ur_now = Some ''t2'', ur_owner_id = ''ada'', ur_project_id = 7, ur_if_match = etag_of 1,
      ur_project = example_edit name, ur_calculation_revision = None\<rparr>"

definition example_updated :: "string \<Rightarrow> unit project_document" where
  "example_updated name = example_document\<lparr>pd_name := name, pd_updated_at := ''t2'', pd_etag := etag_of 2\<rparr>"

lemma example_update_Ok:
  "update_project example_json example_repository (Some ''t2'') ''ada'' 7 (etag_of 1) (example_edit name) None =
     (Ok (example_updated name), example_repository\<lparr>pr_projects :=
        [((''ada'', 7), \<lparr>sp_document = example_updated name, sp_version = 2\<rparr>)]\<rparr>)"
  by (simp add: update_project_def example_repository_def lock_projects_def checked_add_def
      updated_project_document_def pricing_inputs_unchanged_def example_json_def enforce_document_size_def
      MAX_PROJECT_DOCUMENT_BYTES_def example_document_def example_updated_def example_edit_def)

definition example_history :: "unit repo_request list" where
  "example_history =
     [UpdateRequest (example_update ''b''), CreateRequest (Some ''t2'') 8 ''ada'' (example_edit ''x'') None,
      DeleteRequest ''ada'' 8, UpdateRequest (example_update ''c'')]"

theorem no_lost_update_witness:
  "fst (run_ops (run_repo_request example_json) example_repository example_history) ! 3
     \<noteq> Ok (Some (example_updated ''c''))"
proof (rule no_lost_update [OF example_reachable, where i = 0 and u = "example_update ''b''"
    and u' = "example_update ''c''"])
  have "run_repo_request example_json example_repository (UpdateRequest (example_update ''b'')) =
     (Ok (Some (example_updated ''b'')), example_repository\<lparr>pr_projects :=
        [((''ada'', 7), \<lparr>sp_document = example_updated ''b'', sp_version = 2\<rparr>)]\<rparr>)"
    by (simp add: apply_update_def example_update_def example_update_Ok)
  then show "fst (run_ops (run_repo_request example_json) example_repository example_history) ! 0 =
      Ok (Some (example_updated ''b''))"
    by (simp add: run_ops_Cons example_history_def)
  fix m :: nat assume "0 < m" "m < 3"
  then have "m = 1 \<or> m = 2" by auto
  then show "\<not> (\<exists>now project revision. example_history ! m = CreateRequest now
      (ur_project_id (example_update ''b'')) (ur_owner_id (example_update ''b'')) project revision)"
    by (auto simp: example_history_def example_update_def)
qed (simp_all add: example_history_def example_update_def)

theorem reachable_documents_valid_witness:
  "validate_stored_document example_json example_document ''ada'' (Some 7) = Ok ()"
  by (rule reachable_documents_valid [OF example_reachable example_get])

theorem list_projects_correct_witness:
  "\<exists>ds. list_projects example_repository ''ada'' = Ok ds \<and> example_document \<in> set ds"
proof -
  have l: "list_projects example_repository ''ada'' =
      Ok (sort_by compare_documents (owned_documents example_repository ''ada''))"
    unfolding list_projects_Ok by (simp add: example_repository_def)
  then show ?thesis using list_projects_correct [OF example_reachable l] example_get by blast
qed

theorem owner_isolation_witness:
  "list_projects (snd (delete_project example_repository ''ada'' 7)) ''bob'' = list_projects example_repository ''bob''"
proof -
  have "repo_step example_json ''ada'' example_repository (snd (delete_project example_repository ''ada'' 7))"
    by (rule repo_step.delete [OF prod.collapse [symmetric]])
  then show ?thesis using owner_isolation [of example_json "''ada''" example_repository _ "''bob''" 7] by simp
qed

theorem write_then_read_witness:
  "get_project example_repository ''ada'' 7 = Ok example_document"
  using write_then_read [of example_json new_repository "Some ''t1''" 7 "''ada''" "example_edit ''a''" None
      example_document example_repository None] example_create by blast

end
