(* ===== verification/ClockAndHash.thy ===== *)
theory ClockAndHash
  imports Prelude
begin

text \<open>
  What the stores take from the crates \<open>time\<close>, \<open>sha2\<close> and \<open>uuid\<close>, as parameters, and the source's own
  loop that writes a digest in lower-case hex. An \<open>OffsetDateTime\<close> is the instant it names, in
  nanoseconds since the Unix epoch; \<open>checked_add\<close> is \<open>None\<close> and \<open>+\<close> panics beyond its last year; the
  RFC 3339 writer fails beyond year 9999.
\<close>

type_synonym instant = int

record time_env =
  te_checked_add :: "instant \<Rightarrow> int \<Rightarrow> instant option"
  te_format :: "instant \<Rightarrow> string option"
  te_parse :: "string \<Rightarrow> instant option"

text \<open>
  Documented behaviour: an addition in range is exact, the writer writes no empty text, and the parser
  reads back what the writer wrote (RFC 3339 with up to nine fraction digits keeps every nanosecond).
\<close>

definition time_laws :: "time_env \<Rightarrow> bool" where
  "time_laws T \<longleftrightarrow>
     (\<forall>t d r. te_checked_add T t d = Some r \<longrightarrow> r = t + d) \<and>
     (\<forall>t text. te_format T t = Some text \<longrightarrow> text \<noteq> [] \<and> te_parse T text = Some t)"

lemma time_lawsD:
  assumes "time_laws T"
  shows "te_checked_add T t d = Some r \<Longrightarrow> r = t + d"
    and "te_format T t = Some text \<Longrightarrow> te_parse T text = Some t"
    and "te_format T t = Some text \<Longrightarrow> text \<noteq> []"
  using assms by (simp_all add: time_laws_def)

definition duration_seconds :: "int \<Rightarrow> int" where
  "duration_seconds n = n * 1000000000"

definition duration_days :: "int \<Rightarrow> int" where
  "duration_days n = duration_seconds (n * 86400)"

section \<open>SHA-256 in hex\<close>

record hash_env =
  he_sha256 :: "u8 list \<Rightarrow> u8 list"
  he_uuid_bytes :: "uuid \<Rightarrow> u8 list"

definition hash_laws :: "hash_env \<Rightarrow> bool" where
  "hash_laws H \<longleftrightarrow> (\<forall>bytes. length (he_sha256 H bytes) = 32)"

definition hex_digit :: "nat \<Rightarrow> char" where
  "hex_digit n = char_of (if n < 10 then 48 + n else 87 + n)"

definition hex_byte :: "u8 \<Rightarrow> string" where
  "hex_byte b = [hex_digit (unat b div 16), hex_digit (unat b mod 16)]"

definition hex_encode :: "u8 list \<Rightarrow> string" where
  "hex_encode bytes = fold (\<lambda>byte encoded. encoded @ hex_byte byte) bytes []"

lemma hex_encode_concat: "hex_encode bytes = concat (map hex_byte bytes)"
proof -
  have "fold (\<lambda>byte encoded. encoded @ hex_byte byte) bs acc = acc @ concat (map hex_byte bs)" for bs acc
    by (induction bs arbitrary: acc) simp_all
  then show ?thesis by (simp add: hex_encode_def)
qed

lemma hex_digit_inject: "m < 16 \<Longrightarrow> n < 16 \<Longrightarrow> hex_digit m = hex_digit n \<longleftrightarrow> m = n"
  by (auto simp: hex_digit_def split: if_splits dest!: arg_cong [where f = "of_char :: char \<Rightarrow> nat"])

lemma hex_byte_inject: "hex_byte a = hex_byte b \<longleftrightarrow> a = b"
proof
  have lt: "unat c div 16 < 16" for c :: u8
    using unsigned_less [of c, where 'a = nat] by (simp add: less_mult_imp_div_less)
  assume "hex_byte a = hex_byte b"
  then have "unat a div 16 = unat b div 16" "unat a mod 16 = unat b mod 16"
    using lt by (simp_all add: hex_byte_def hex_digit_inject)
  then have "unat a = unat b" by (metis div_mult_mod_eq)
  then show "a = b" by (simp only: word_unat_eq_iff)
qed simp

lemma hex_byte_length [simp]: "length (hex_byte b) = 2"
  by (simp add: hex_byte_def)

lemma hex_encode_length: "length (hex_encode bytes) = 2 * length bytes"
  by (induction bytes) (simp_all add: hex_encode_concat)

lemma hex_encode_inject: "hex_encode xs = hex_encode ys \<longleftrightarrow> xs = ys"
proof (induction xs arbitrary: ys)
  case Nil
  show ?case by (cases ys) (simp_all add: hex_encode_concat hex_byte_def)
next
  case (Cons x xs)
  show ?case
  proof (cases ys)
    case (Cons y ys')
    then show ?thesis using Cons.IH [of ys'] hex_byte_inject [of x y]
      by (simp add: hex_encode_concat)
  qed (simp add: hex_encode_concat hex_byte_def)
qed

section \<open>Concrete instances\<close>

text \<open>Instants up to a last one, written in decimal, and a constant digest.\<close>

definition example_time :: "instant \<Rightarrow> time_env" where
  "example_time last_instant =
     \<lparr>te_checked_add = (\<lambda>t d. if t + d \<le> 2 * last_instant then Some (t + d) else None),
      te_format = (\<lambda>t. if 0 \<le> t \<and> t \<le> last_instant then Some (show_nat (nat t)) else None),
      te_parse = (\<lambda>text. if text = show_nat (read_nat text) then Some (int (read_nat text)) else None)\<rparr>"

definition example_hash :: hash_env where
  "example_hash =
     \<lparr>he_sha256 = (\<lambda>bytes. take 32 (bytes @ replicate 32 0)), he_uuid_bytes = (\<lambda>u. [ucast u])\<rparr>"

lemma example_time_laws: "time_laws (example_time last_instant)"
  by (auto simp: time_laws_def example_time_def read_show_nat split: if_splits)

lemma example_time_simps [simp]:
  "te_checked_add (example_time b) t d = (if t + d \<le> 2 * b then Some (t + d) else None)"
  "te_format (example_time b) t = (if 0 \<le> t \<and> t \<le> b then Some (show_nat (nat t)) else None)"
  "te_parse (example_time b) (show_nat n) = Some (int n)"
  by (simp_all add: example_time_def read_show_nat)

lemma example_hash_laws: "hash_laws example_hash"
  by (auto simp: hash_laws_def example_hash_def min_def)

end
