(* ===== verification/ProjectShare.thy ===== *)
theory ProjectShare
  imports ProjectRepository ClockAndHash
begin

text \<open>
  \<open>rust/src/persistence/project_share.rs\<close>: project copies shared by a link that carries an ID and a secret.
  The store keeps the SHA-256 of the secret, never the secret, and expires a share 30 days after its
  creation. \<open>resolve\<close> takes the lock twice, so it is two atomic steps here: \<open>share_lookup\<close> reads and decides,
  \<open>share_expire\<close> removes an expired share. The fresh UUIDs and the clock are arguments.
\<close>

definition PROJECT_SHARE_DOCUMENT_TYPE :: string where
  "PROJECT_SHARE_DOCUMENT_TYPE = ''project_share''"

definition PROJECT_SHARE_PARTITION :: string where
  "PROJECT_SHARE_PARTITION = ''project-shares''"

definition SHARE_LIFETIME_DAYS :: int where
  "SHARE_LIFETIME_DAYS = 30"

record project_share_document =
  sd_id :: uuid
  sd_document_type :: string
  sd_partition_key :: string
  sd_source_owner_id :: string
  sd_source_project_id :: uuid
  sd_secret_sha256 :: string
  sd_project :: editable_project
  sd_created_at :: string
  sd_expires_at :: string

record share_credentials =
  sc_share_id :: uuid
  sc_secret :: uuid

record created_project_share =
  cs_credentials :: share_credentials
  cs_expires_at :: string

datatype project_share_error = ShareNotFound | ShareExpired | SharePayloadTooLarge | ShareUnavailable

text \<open>What a share takes from outside: time, hashing, and the length \<open>serde_json\<close> encodes a document to.\<close>

record share_env =
  se_time :: time_env
  se_hash :: hash_env
  se_document_len :: "project_share_document \<Rightarrow> nat option"

record share_repository =
  sr_shares :: "(uuid, project_share_document) hash_map"
  sr_poisoned :: bool

definition new_share_repository :: share_repository where
  "new_share_repository = \<lparr>sr_shares = [], sr_poisoned = False\<rparr>"

definition share_partition :: string where
  "share_partition = PROJECT_SHARE_PARTITION"

definition digest_secret :: "hash_env \<Rightarrow> uuid \<Rightarrow> string" where
  "digest_secret H secret = hex_encode (he_sha256 H (he_uuid_bytes H secret))"

definition share_format_timestamp :: "time_env \<Rightarrow> instant \<Rightarrow> (project_share_error, string) outcome" where
  "share_format_timestamp T timestamp = ok_or (te_format T timestamp) ShareUnavailable"

definition share_validate_document ::
  "share_env \<Rightarrow> project_share_document \<Rightarrow> uuid \<Rightarrow> (project_share_error, unit) outcome" where
  "share_validate_document E document expected_id =
     (if sd_id document \<noteq> expected_id \<or>
         sd_document_type document \<noteq> PROJECT_SHARE_DOCUMENT_TYPE \<or>
         sd_partition_key document \<noteq> share_partition \<or>
         sd_source_owner_id document = [] \<or>
         length (sd_secret_sha256 document) \<noteq> 64
      then Err ShareUnavailable
      else
        obind (ok_or (se_document_len E document) ShareUnavailable) (\<lambda>size.
        if MAX_PROJECT_DOCUMENT_BYTES \<le> size then Err SharePayloadTooLarge else Ok ()))"

definition new_share_document ::
  "share_env \<Rightarrow> string \<Rightarrow> uuid \<Rightarrow> editable_project \<Rightarrow> share_credentials \<Rightarrow> instant \<Rightarrow>
     (project_share_error, project_share_document) outcome" where
  "new_share_document E source_owner_id source_project_id project credentials now =
     obind (ok_or (te_checked_add (se_time E) now (duration_days SHARE_LIFETIME_DAYS)) ShareUnavailable)
       (\<lambda>expires.
     obind (share_format_timestamp (se_time E) now) (\<lambda>created_at.
     obind (share_format_timestamp (se_time E) expires) (\<lambda>expires_at.
     let document =
       \<lparr>sd_id = sc_share_id credentials, sd_document_type = PROJECT_SHARE_DOCUMENT_TYPE,
        sd_partition_key = share_partition, sd_source_owner_id = source_owner_id,
        sd_source_project_id = source_project_id,
        sd_secret_sha256 = digest_secret (se_hash E) (sc_secret credentials),
        sd_project = project, sd_created_at = created_at, sd_expires_at = expires_at\<rparr>
     in obind (share_validate_document E document (sc_share_id credentials)) (\<lambda>_. Ok document))))"

definition resolve_document ::
  "share_env \<Rightarrow> project_share_document \<Rightarrow> share_credentials \<Rightarrow> instant \<Rightarrow>
     (project_share_error, editable_project) outcome" where
  "resolve_document E document credentials now =
     obind (share_validate_document E document (sc_share_id credentials)) (\<lambda>_.
     if sd_secret_sha256 document \<noteq> digest_secret (se_hash E) (sc_secret credentials)
     then Err ShareNotFound
     else
       obind (ok_or (te_parse (se_time E) (sd_expires_at document)) ShareUnavailable) (\<lambda>expires_at.
       if expires_at \<le> now then Err ShareExpired else Ok (sd_project document)))"

section \<open>Operations\<close>

definition share_create ::
  "share_env \<Rightarrow> share_repository \<Rightarrow> instant \<Rightarrow> share_credentials \<Rightarrow> string \<Rightarrow> uuid \<Rightarrow> editable_project \<Rightarrow>
     (project_share_error, created_project_share) outcome \<times> share_repository" where
  "share_create E s now credentials source_owner_id source_project_id project =
     (case obind (new_share_document E source_owner_id source_project_id project credentials now)
             (\<lambda>document. if sr_poisoned s then Err ShareUnavailable else Ok document) of
        Ok document \<Rightarrow>
          (Ok \<lparr>cs_credentials = credentials, cs_expires_at = sd_expires_at document\<rparr>,
           s\<lparr>sr_shares := AList.update (sc_share_id credentials) document (sr_shares s)\<rparr>)
      | Err e \<Rightarrow> (Err e, s)
      | Panic \<Rightarrow> (Panic, s))"

definition share_lookup ::
  "share_env \<Rightarrow> share_repository \<Rightarrow> share_credentials \<Rightarrow> instant \<Rightarrow>
     (project_share_error, editable_project) outcome" where
  "share_lookup E s credentials now =
     (if sr_poisoned s then Err ShareUnavailable
      else
        obind (ok_or (map_of (sr_shares s) (sc_share_id credentials)) ShareNotFound) (\<lambda>document.
        resolve_document E document credentials now))"

definition share_expire ::
  "share_repository \<Rightarrow> share_credentials \<Rightarrow> (project_share_error, unit) outcome \<times> share_repository" where
  "share_expire s credentials =
     (if sr_poisoned s then (Err ShareUnavailable, s)
      else (Ok (), s\<lparr>sr_shares := AList.delete (sc_share_id credentials) (sr_shares s)\<rparr>))"

definition share_resolve ::
  "share_env \<Rightarrow> share_repository \<Rightarrow> share_credentials \<Rightarrow> instant \<Rightarrow>
     (project_share_error, editable_project) outcome \<times> share_repository" where
  "share_resolve E s credentials now =
     (let outcome = share_lookup E s credentials now
      in if outcome = Err ShareExpired
         then (let (r, s') = share_expire s credentials in (obind r (\<lambda>_. outcome), s'))
         else (outcome, s))"

definition share_revoke ::
  "share_repository \<Rightarrow> string \<Rightarrow> uuid \<Rightarrow> uuid \<Rightarrow>
     (project_share_error, unit) outcome \<times> share_repository" where
  "share_revoke s source_owner_id source_project_id share_id =
     (if sr_poisoned s then (Err ShareUnavailable, s)
      else
        case map_of (sr_shares s) share_id of
          None \<Rightarrow> (Err ShareNotFound, s)
        | Some document \<Rightarrow>
            if sd_source_owner_id document \<noteq> source_owner_id \<or>
               sd_source_project_id document \<noteq> source_project_id
            then (Err ShareNotFound, s)
            else (Ok (), s\<lparr>sr_shares := AList.delete share_id (sr_shares s)\<rparr>))"

definition share_revoke_project ::
  "share_repository \<Rightarrow> string \<Rightarrow> uuid \<Rightarrow> (project_share_error, unit) outcome \<times> share_repository" where
  "share_revoke_project s source_owner_id source_project_id =
     (if sr_poisoned s then (Err ShareUnavailable, s)
      else (Ok (), s\<lparr>sr_shares := retain (\<lambda>_ document.
              sd_source_owner_id document \<noteq> source_owner_id \<or>
              sd_source_project_id document \<noteq> source_project_id) (sr_shares s)\<rparr>))"

section \<open>Interleaved requests\<close>

text \<open>
  One atomic step of some request at instant \<open>now\<close>. An expired lookup leaves a removal pending, which a
  later step performs; between the two any other request may run. \<open>ss_issued\<close> are the IDs handed out so
  far, which \<open>Uuid::new_v4\<close> does not hand out again.
\<close>

record share_system =
  ss_repository :: share_repository
  ss_pending :: "share_credentials list"
  ss_issued :: "uuid list"

datatype share_event =
    EvCreate share_credentials string uuid editable_project
      "(project_share_error, created_project_share) outcome"
  | EvLookup share_credentials "(project_share_error, editable_project) outcome"
  | EvExpire share_credentials
  | EvRevoke string uuid uuid
  | EvRevokeProject string uuid

inductive share_step :: "share_env \<Rightarrow> instant \<Rightarrow> share_system \<Rightarrow> share_event \<Rightarrow> share_system \<Rightarrow> bool"
  for E now where
  create: "share_create E (ss_repository y) now c owner pid project = (r, s') \<Longrightarrow>
     sc_share_id c \<notin> set (ss_issued y) \<Longrightarrow>
     share_step E now y (EvCreate c owner pid project r)
       (y\<lparr>ss_repository := s', ss_issued := sc_share_id c # ss_issued y\<rparr>)"
| lookup: "share_lookup E (ss_repository y) c now = r \<Longrightarrow>
     share_step E now y (EvLookup c r)
       (if r = Err ShareExpired then y\<lparr>ss_pending := c # ss_pending y\<rparr> else y)"
| expire: "c \<in> set (ss_pending y) \<Longrightarrow> share_expire (ss_repository y) c = (r, s') \<Longrightarrow>
     share_step E now y (EvExpire c) (y\<lparr>ss_repository := s', ss_pending := remove1 c (ss_pending y)\<rparr>)"
| revoke: "share_revoke (ss_repository y) owner pid i = (r, s') \<Longrightarrow>
     share_step E now y (EvRevoke owner pid i) (y\<lparr>ss_repository := s'\<rparr>)"
| revoke_project: "share_revoke_project (ss_repository y) owner pid = (r, s') \<Longrightarrow>
     share_step E now y (EvRevokeProject owner pid) (y\<lparr>ss_repository := s'\<rparr>)"

text \<open>The log of a run from the empty store, the clock never moving back.\<close>

inductive share_log :: "share_env \<Rightarrow> (instant \<times> share_event) list \<Rightarrow> instant \<Rightarrow> share_system \<Rightarrow> bool"
  for E where
  start: "share_log E [] now \<lparr>ss_repository = new_share_repository, ss_pending = [], ss_issued = []\<rparr>"
| event: "share_log E evs now y \<Longrightarrow> now \<le> now' \<Longrightarrow> share_step E now' y ev y' \<Longrightarrow>
     share_log E (evs @ [(now', ev)]) now' y'"

section \<open>What a share promises\<close>

text \<open>
  The contract, with no store in it: a grant is made by a creation, ends by a matching revocation, and is
  honoured until its instant of expiry.
\<close>

record share_grant =
  sg_owner :: string
  sg_project_id :: uuid
  sg_project :: editable_project
  sg_secret :: uuid
  sg_expires :: instant

type_synonym share_grants = "uuid \<Rightarrow> share_grant option"

fun grant_event :: "share_grants \<Rightarrow> instant \<times> share_event \<Rightarrow> share_grants" where
  "grant_event g (t, EvCreate c owner pid project (Ok created)) =
     g(sc_share_id c \<mapsto> \<lparr>sg_owner = owner, sg_project_id = pid, sg_project = project,
        sg_secret = sc_secret c, sg_expires = t + duration_days SHARE_LIFETIME_DAYS\<rparr>)"
| "grant_event g (t, EvRevoke owner pid i) =
     (\<lambda>j. if j = i \<and> (\<exists>e. g j = Some e \<and> sg_owner e = owner \<and> sg_project_id e = pid) then None else g j)"
| "grant_event g (t, EvRevokeProject owner pid) =
     (\<lambda>j. if \<exists>e. g j = Some e \<and> sg_owner e = owner \<and> sg_project_id e = pid then None else g j)"
| "grant_event g (t, ev) = g"

definition granted :: "(instant \<times> share_event) list \<Rightarrow> share_grants" where
  "granted evs = foldl grant_event Map.empty evs"

definition represents :: "share_env \<Rightarrow> uuid \<Rightarrow> project_share_document \<Rightarrow> share_grant \<Rightarrow> bool" where
  "represents E i d e \<longleftrightarrow>
     share_validate_document E d i = Ok () \<and> sd_source_owner_id d = sg_owner e \<and>
     sd_source_project_id d = sg_project_id e \<and> sd_project d = sg_project e \<and>
     sd_secret_sha256 d = digest_secret (se_hash E) (sg_secret e) \<and>
     te_parse (se_time E) (sd_expires_at d) = Some (sg_expires e)"

definition stored_grant :: "share_env \<Rightarrow> instant \<Rightarrow> uuid \<Rightarrow> project_share_document option \<Rightarrow> share_grant option \<Rightarrow> bool" where
  "stored_grant E t i stored grant =
     (case stored of
        Some d \<Rightarrow> (\<exists>e. grant = Some e \<and> represents E i d e)
      | None \<Rightarrow> (\<forall>e. grant = Some e \<longrightarrow> sg_expires e \<le> t))"

definition share_inv :: "share_env \<Rightarrow> (instant \<times> share_event) list \<Rightarrow> instant \<Rightarrow> share_system \<Rightarrow> bool" where
  "share_inv E evs t y \<longleftrightarrow>
     \<not> sr_poisoned (ss_repository y) \<and> well_keyed (sr_shares (ss_repository y)) \<and>
     (\<forall>i. stored_grant E t i (map_of (sr_shares (ss_repository y)) i) (granted evs i)) \<and>
     fst ` set (sr_shares (ss_repository y)) \<subseteq> set (ss_issued y) \<and>
     (\<forall>c\<in>set (ss_pending y). sc_share_id c \<in> set (ss_issued y) \<and>
        (\<forall>e. granted evs (sc_share_id c) = Some e \<longrightarrow> sg_expires e \<le> t))"

lemma granted_snoc: "granted (evs @ [tev]) = grant_event (granted evs) tev"
  by (simp add: granted_def)

lemma stored_grant_later: "stored_grant E t i stored grant \<Longrightarrow> t \<le> t' \<Longrightarrow> stored_grant E t' i stored grant"
  by (auto simp: stored_grant_def split: option.splits)

lemma new_share_document_Ok:
  assumes "time_laws (se_time E)" "new_share_document E owner pid project c t = Ok d"
  shows "represents E (sc_share_id c) d
      \<lparr>sg_owner = owner, sg_project_id = pid, sg_project = project, sg_secret = sc_secret c,
       sg_expires = t + duration_days SHARE_LIFETIME_DAYS\<rparr>"
  using assms(2) time_lawsD [OF assms(1)]
  by (fastforce simp: new_share_document_def share_format_timestamp_def Let_def obind_Ok_iff represents_def)

lemma share_create_cases:
  assumes "share_create E s now c owner pid project = (r, s')"
  obtains (created) d where "r = Ok \<lparr>cs_credentials = c, cs_expires_at = sd_expires_at d\<rparr>"
      "new_share_document E owner pid project c now = Ok d" "\<not> sr_poisoned s"
      "s' = s\<lparr>sr_shares := AList.update (sc_share_id c) d (sr_shares s)\<rparr>"
  | (failed) e where "r = Err e" "s' = s"
proof -
  have "new_share_document E owner pid project c now \<noteq> Panic"
    by (auto simp: new_share_document_def share_format_timestamp_def share_validate_document_def Let_def
        obind_Panic_iff split: if_splits)
  then consider (good) d where "new_share_document E owner pid project c now = Ok d" "\<not> sr_poisoned s"
    | (bad) e where "obind (new_share_document E owner pid project c now)
        (\<lambda>document. if sr_poisoned s then Err ShareUnavailable else Ok document) = Err e"
    by (cases "new_share_document E owner pid project c now"; cases "sr_poisoned s") simp_all
  then show thesis
  proof cases
    case (good d)
    then show thesis using assms by (intro created [of d]) (simp_all add: share_create_def)
  next
    case (bad e)
    then show thesis using assms by (intro failed [of e]) (simp_all add: share_create_def)
  qed
qed

lemma share_lookup_represents:
  assumes "\<not> sr_poisoned s"
  shows "share_lookup E s c now =
    (case map_of (sr_shares s) (sc_share_id c) of
       None \<Rightarrow> Err ShareNotFound
     | Some d \<Rightarrow> resolve_document E d c now)"
  using assms by (auto simp: share_lookup_def split: option.splits)

lemma resolve_represents:
  assumes "represents E (sc_share_id c) d e"
  shows "resolve_document E d c now =
    (if he_sha256 (se_hash E) (he_uuid_bytes (se_hash E) (sg_secret e)) \<noteq>
        he_sha256 (se_hash E) (he_uuid_bytes (se_hash E) (sc_secret c)) then Err ShareNotFound
     else if sg_expires e \<le> now then Err ShareExpired else Ok (sg_project e))"
  using assms by (simp add: resolve_document_def represents_def digest_secret_def hex_encode_inject)

lemma update_keys: "fst ` set (AList.update k v m) = insert k (fst ` set m)"
  by (simp flip: dom_map_of_conv_image_fst add: update_conv')

lemma delete_keys: "fst ` set m \<subseteq> A \<Longrightarrow> fst ` set (AList.delete k m) \<subseteq> A"
  by (force simp: AList.delete_eq)

lemma retain_keys: "fst ` set m \<subseteq> A \<Longrightarrow> fst ` set (retain P m) \<subseteq> A"
  by (force simp: retain_def)

lemmas stored_grant_simps = stored_grant_def map_of_update_apply map_of_delete_apply map_of_retain

lemma share_lookup_Expired:
  assumes "share_inv E evs t y" "share_lookup E (ss_repository y) c now = Err ShareExpired"
  shows "sc_share_id c \<in> set (ss_issued y) \<and> (\<forall>e. granted evs (sc_share_id c) = Some e \<longrightarrow> sg_expires e \<le> now)"
proof -
  obtain d where d: "map_of (sr_shares (ss_repository y)) (sc_share_id c) = Some d"
    "resolve_document E d c now = Err ShareExpired"
    using assms by (auto simp: share_lookup_represents share_inv_def split: option.splits)
  then obtain e where "granted evs (sc_share_id c) = Some e" "represents E (sc_share_id c) d e"
    using assms(1) by (force simp: share_inv_def stored_grant_def split: option.splits)
  moreover have "sc_share_id c \<in> fst ` set (sr_shares (ss_repository y))"
    using d(1) by (force dest: map_of_SomeD)
  ultimately show ?thesis using d(2) assms(1)
    by (auto simp: resolve_represents share_inv_def split: if_splits)
qed

lemma share_inv_later: "share_inv E evs t y \<Longrightarrow> t \<le> t' \<Longrightarrow> share_inv E evs t' y"
  unfolding share_inv_def using stored_grant_later by fastforce

lemma share_inv_create:
  assumes "time_laws (se_time E)" "share_inv E evs t y"
    and "share_create E (ss_repository y) t c owner pid project = (r, s')" "sc_share_id c \<notin> set (ss_issued y)"
  shows "share_inv E (evs @ [(t, EvCreate c owner pid project r)]) t
    (y\<lparr>ss_repository := s', ss_issued := sc_share_id c # ss_issued y\<rparr>)"
  using assms(3)
proof (cases rule: share_create_cases)
  case (created d)
  note d = new_share_document_Ok [OF assms(1) created(2)]
  have "c' \<in> set (ss_pending y) \<Longrightarrow> sc_share_id c' \<noteq> sc_share_id c" for c'
    using assms(2,4) by (auto simp: share_inv_def)
  then show ?thesis using assms(2) created d
    by (auto simp: share_inv_def granted_snoc stored_grant_simps update_keys)
qed (use assms in \<open>auto simp: share_inv_def granted_snoc\<close>)

lemma stored_grant_None: "stored_grant E t i None grant \<longleftrightarrow> (\<forall>e. grant = Some e \<longrightarrow> sg_expires e \<le> t)"
  by (simp add: stored_grant_def)

lemma share_inv_delete:
  assumes "share_inv E evs t y" "\<And>j. j \<noteq> i \<Longrightarrow> granted evs' j = granted evs j"
    and "\<And>e. granted evs' i = Some e \<Longrightarrow> granted evs i = Some e \<and> sg_expires e \<le> t"
    and "set pending \<subseteq> set (ss_pending y)"
  shows "share_inv E evs' t (y\<lparr>ss_repository := (ss_repository y)\<lparr>sr_shares := AList.delete i (sr_shares (ss_repository y))\<rparr>,
    ss_pending := pending\<rparr>)"
proof -
  have keys: "fst ` set (AList.delete i (sr_shares (ss_repository y))) \<subseteq> set (ss_issued y)"
    using assms(1) by (intro delete_keys) (simp add: share_inv_def)
  have "stored_grant E t j (map_of (AList.delete i (sr_shares (ss_repository y))) j) (granted evs' j)" for j
    using assms(1-3) by (cases "j = i") (simp_all add: share_inv_def map_of_delete_apply stored_grant_None)
  moreover have "sc_share_id c \<in> set (ss_issued y)"
    "granted evs' (sc_share_id c) = Some e \<Longrightarrow> sg_expires e \<le> t" if "c \<in> set pending" for c e
    using that assms by (cases "sc_share_id c = i"; force simp: share_inv_def)+
  ultimately show ?thesis using assms(1) keys by (simp add: share_inv_def)
qed

lemma share_inv_expire:
  assumes "share_inv E evs t y" "c \<in> set (ss_pending y)" "share_expire (ss_repository y) c = (r, s')"
  shows "share_inv E (evs @ [(t, EvExpire c)]) t (y\<lparr>ss_repository := s', ss_pending := remove1 c (ss_pending y)\<rparr>)"
proof -
  have exp: "\<forall>e. granted evs (sc_share_id c) = Some e \<longrightarrow> sg_expires e \<le> t"
    and s': "s' = (ss_repository y)\<lparr>sr_shares := AList.delete (sc_share_id c) (sr_shares (ss_repository y))\<rparr>"
    using assms by (simp_all add: share_inv_def share_expire_def)
  show ?thesis unfolding s' using exp
    by (intro share_inv_delete [OF assms(1)]) (simp_all add: granted_snoc set_remove1_subset)
qed

lemma share_inv_revoke:
  assumes "share_inv E evs t y" "share_revoke (ss_repository y) owner pid i = (r, s')"
  shows "share_inv E (evs @ [(t, EvRevoke owner pid i)]) t (y\<lparr>ss_repository := s'\<rparr>)"
proof (cases "\<exists>d. map_of (sr_shares (ss_repository y)) i = Some d \<and> sd_source_owner_id d = owner \<and> sd_source_project_id d = pid")
  case True
  then obtain d where d: "map_of (sr_shares (ss_repository y)) i = Some d" "sd_source_owner_id d = owner"
    "sd_source_project_id d = pid" by blast
  then have s': "s' = (ss_repository y)\<lparr>sr_shares := AList.delete i (sr_shares (ss_repository y))\<rparr>"
    using assms by (simp add: share_revoke_def share_inv_def)
  have g: "granted evs i = Some e \<Longrightarrow> sg_owner e = owner \<and> sg_project_id e = pid" for e
    using assms(1) d by (force simp: share_inv_def stored_grant_def represents_def split: option.splits)
  have "share_inv E (evs @ [(t, EvRevoke owner pid i)]) t (y\<lparr>ss_repository := s', ss_pending := ss_pending y\<rparr>)"
    unfolding s' using g by (intro share_inv_delete [OF assms(1)]) (auto simp: granted_snoc split: if_splits)
  then show ?thesis by simp
next
  case False
  then have s': "s' = ss_repository y"
    using assms by (auto simp: share_revoke_def share_inv_def split: option.splits if_splits)
  have "stored_grant E t j (map_of (sr_shares (ss_repository y)) j)
      (grant_event (granted evs) (t, EvRevoke owner pid i) j)" for j
  proof -
    have "stored_grant E t j (map_of (sr_shares (ss_repository y)) j) (granted evs j)"
      using assms(1) by (simp add: share_inv_def)
    then show ?thesis using False
      by (cases "j = i") (auto simp: stored_grant_def represents_def split: option.splits)
  qed
  then show ?thesis using assms(1) by (simp add: s' share_inv_def granted_snoc)
qed

lemma share_inv_revoke_project:
  assumes "share_inv E evs t y" "share_revoke_project (ss_repository y) owner pid = (r, s')"
  shows "share_inv E (evs @ [(t, EvRevokeProject owner pid)]) t (y\<lparr>ss_repository := s'\<rparr>)"
proof -
  let ?P = "\<lambda>_ d. sd_source_owner_id d \<noteq> owner \<or> sd_source_project_id d \<noteq> pid"
  have s': "s' = (ss_repository y)\<lparr>sr_shares := retain ?P (sr_shares (ss_repository y))\<rparr>"
    using assms by (simp add: share_revoke_project_def share_inv_def)
  have st: "stored_grant E t i (map_of (retain ?P (sr_shares (ss_repository y))) i)
      (grant_event (granted evs) (t, EvRevokeProject owner pid) i)" for i
  proof -
    have "well_keyed (sr_shares (ss_repository y))"
      "stored_grant E t i (map_of (sr_shares (ss_repository y)) i) (granted evs i)"
      using assms(1) by (simp_all add: share_inv_def)
    then show ?thesis
      by (auto simp: stored_grant_def map_of_retain represents_def split: option.splits)
  qed
  have "fst ` set (retain ?P (sr_shares (ss_repository y))) \<subseteq> set (ss_issued y)"
    using assms(1) by (intro retain_keys) (simp add: share_inv_def)
  then show ?thesis using assms(1) st by (simp add: s' share_inv_def granted_snoc)
qed

lemma share_inv_step:
  assumes "time_laws (se_time E)" "share_inv E evs t y" "t \<le> t'" "share_step E t' y ev y'"
  shows "share_inv E (evs @ [(t', ev)]) t' y'"
proof -
  note inv = share_inv_later [OF assms(2,3)]
  show ?thesis using assms(4)
  proof cases
    case (lookup c r)
    then show ?thesis using inv share_lookup_Expired [OF inv, of c t']
      by (auto simp: share_inv_def granted_snoc)
  qed (use inv assms(1) in \<open>auto intro: share_inv_create share_inv_expire share_inv_revoke share_inv_revoke_project\<close>)
qed

lemma share_log_inv:
  assumes "time_laws (se_time E)" "share_log E evs t y"
  shows "share_inv E evs t y"
  using assms(2)
proof induction
  case (start now)
  then show ?case
    by (simp add: share_inv_def new_share_repository_def granted_def stored_grant_def)
next
  case (event evs now y now' ev y')
  then show ?case using share_inv_step [OF assms(1)] by blast
qed

text \<open>
  C5: the store with its two-step resolution, run by any interleaving of requests, honours the contract of
  grants: a lookup returns a project exactly if a creation granted that ID with a secret of the same
  SHA-256, fewer than 30 days ago and with no matching revocation since, and it returns the project that was
  shared; every other lookup is told that the share is not found or, with the right secret, expired.
\<close>
theorem share_refines_grants:
  assumes "time_laws (se_time E)" "share_log E evs t y" "t \<le> now"
  shows "(let digest = (\<lambda>secret. he_sha256 (se_hash E) (he_uuid_bytes (se_hash E) secret));
              r = share_lookup E (ss_repository y) c now
     in case granted evs (sc_share_id c) of
          None \<Rightarrow> r = Err ShareNotFound
        | Some e \<Rightarrow>
            if digest (sg_secret e) \<noteq> digest (sc_secret c) then r = Err ShareNotFound
            else if now < sg_expires e then r = Ok (sg_project e)
            else r = Err ShareExpired \<or> r = Err ShareNotFound)"
proof -
  note inv = share_inv_later [OF share_log_inv [OF assms(1,2)] assms(3)]
  have look: "share_lookup E (ss_repository y) c now =
    (case map_of (sr_shares (ss_repository y)) (sc_share_id c) of
       None \<Rightarrow> Err ShareNotFound | Some d \<Rightarrow> resolve_document E d c now)"
    using inv by (intro share_lookup_represents) (simp add: share_inv_def)
  have "stored_grant E now (sc_share_id c) (map_of (sr_shares (ss_repository y)) (sc_share_id c))
      (granted evs (sc_share_id c))"
    using inv by (simp add: share_inv_def)
  then show ?thesis unfolding look
    by (auto simp: stored_grant_def Let_def resolve_represents split: option.splits)
qed

text \<open>
  a removal takes out only what it names. A resolution changes the store only when it answers
  \<open>Expired\<close>, removing that share alone; a revocation succeeds exactly for a stored share of that owner and
  project and removes it alone; the revocation of a project removes the shares of that owner and project
  and keeps every other.
\<close>
theorem share_removals_scoped:
  assumes "well_keyed (sr_shares s)" "\<not> sr_poisoned s"
  shows "(\<forall>E c now r s'. share_resolve E s c now = (r, s') \<longrightarrow>
      r = share_lookup E s c now \<and>
      map_of (sr_shares s') i =
        (if r = Err ShareExpired \<and> i = sc_share_id c then None else map_of (sr_shares s) i)) \<and>
    (\<forall>share_id r s'. share_revoke s owner pid share_id = (r, s') \<longrightarrow>
      (r = Ok () \<longleftrightarrow> (\<exists>d. map_of (sr_shares s) share_id = Some d \<and> sd_source_owner_id d = owner \<and>
         sd_source_project_id d = pid)) \<and>
      (r \<noteq> Ok () \<longrightarrow> r = Err ShareNotFound) \<and>
      map_of (sr_shares s') i =
        (if r = Ok () \<and> i = share_id then None else map_of (sr_shares s) i)) \<and>
    (\<forall>r s'. share_revoke_project s owner pid = (r, s') \<longrightarrow> r = Ok () \<and>
      map_of (sr_shares s') i =
        (case map_of (sr_shares s) i of
           Some d \<Rightarrow> if sd_source_owner_id d = owner \<and> sd_source_project_id d = pid then None else Some d
         | None \<Rightarrow> None))"
  using assms
  by (auto simp: share_resolve_def share_expire_def share_revoke_def share_revoke_project_def Let_def
      map_of_delete_apply map_of_retain split: option.splits if_splits)

section \<open>A concrete history\<close>

definition example_share_env :: share_env where
  "example_share_env =
     \<lparr>se_time = example_time (10 ^ 30), se_hash = example_hash, se_document_len = (\<lambda>_. Some 100)\<rparr>"

definition example_credentials :: share_credentials where
  "example_credentials = \<lparr>sc_share_id = 5, sc_secret = 9\<rparr>"

definition example_share_document :: project_share_document where
  "example_share_document =
     \<lparr>sd_id = 5, sd_document_type = PROJECT_SHARE_DOCUMENT_TYPE, sd_partition_key = share_partition,
      sd_source_owner_id = ''ada'', sd_source_project_id = 7,
      sd_secret_sha256 = digest_secret example_hash 9, sd_project = example_edit ''a'',
      sd_created_at = show_nat 0, sd_expires_at = show_nat (nat (duration_days 30))\<rparr>"

lemma example_share_create:
  "share_create example_share_env new_share_repository 0 example_credentials ''ada'' 7 (example_edit ''a'') =
     (Ok \<lparr>cs_credentials = example_credentials, cs_expires_at = show_nat (nat (duration_days 30))\<rparr>,
      \<lparr>sr_shares = [(5, example_share_document)], sr_poisoned = False\<rparr>)"
proof -
  have "length (digest_secret example_hash 9) = 64"
    using example_hash_laws by (simp add: digest_secret_def hex_encode_length hash_laws_def)
  then have "new_share_document example_share_env ''ada'' 7 (example_edit ''a'') example_credentials 0 =
      Ok example_share_document"
    by (simp add: new_share_document_def example_share_env_def share_format_timestamp_def
        share_validate_document_def example_credentials_def example_share_document_def
        MAX_PROJECT_DOCUMENT_BYTES_def duration_days_def duration_seconds_def SHARE_LIFETIME_DAYS_def)
  then show ?thesis
    by (simp add: share_create_def new_share_repository_def example_credentials_def example_share_document_def)
qed

theorem share_refines_grants_witness:
  "\<exists>evs y. share_log example_share_env evs 0 y \<and>
     share_lookup example_share_env (ss_repository y) example_credentials 1 = Ok (example_edit ''a'')"
proof -
  let ?init = "\<lparr>ss_repository = new_share_repository, ss_pending = [], ss_issued = []\<rparr>"
  let ?r = "Ok \<lparr>cs_credentials = example_credentials, cs_expires_at = show_nat (nat (duration_days 30))\<rparr>"
  let ?ev = "EvCreate example_credentials ''ada'' 7 (example_edit ''a'') ?r"
  let ?y = "\<lparr>ss_repository = \<lparr>sr_shares = [(5, example_share_document)], sr_poisoned = False\<rparr>,
      ss_pending = [], ss_issued = [5]\<rparr>"
  have log: "share_log example_share_env ([] @ [(0, ?ev)]) 0 ?y"
    using share_log.event [OF share_log.start order_refl share_step.create [of example_share_env ?init 0,
        unfolded share_system.simps, OF example_share_create]]
    by (simp add: example_credentials_def)
  have laws: "time_laws (se_time example_share_env)"
    by (simp add: example_share_env_def example_time_laws)
  have "granted [(0, ?ev)] (sc_share_id example_credentials) =
      Some \<lparr>sg_owner = ''ada'', sg_project_id = 7, sg_project = example_edit ''a'', sg_secret = 9,
        sg_expires = duration_days SHARE_LIFETIME_DAYS\<rparr>"
    by (simp add: granted_def example_credentials_def)
  then have "share_lookup example_share_env (ss_repository ?y) example_credentials 1 = Ok (example_edit ''a'')"
    using share_refines_grants [OF laws log, of 1 example_credentials]
    by (simp add: Let_def duration_days_def duration_seconds_def SHARE_LIFETIME_DAYS_def example_credentials_def)
  then show ?thesis using log by blast
qed

theorem share_removals_scoped_witness:
  "fst (share_revoke_project new_share_repository ''ada'' 7) = Ok ()"
  using share_removals_scoped [of new_share_repository _ "''ada''" 7]
  by (cases "share_revoke_project new_share_repository ''ada'' 7") (simp add: new_share_repository_def)

end
