(* ===== verification/OwnerScope.thy ===== *)
theory OwnerScope
  imports Prelude
begin

text \<open>
  The contract of a repository whose requests are scoped to their owner, as the routes rely on it: what
  an owner can observe of the store is a \<open>view\<close>, a request of another owner leaves it as it is, and a
  request reads and writes nothing beyond the view of its own owner. The client's conclusion is
  noninterference: an owner's results are those of the owner's requests run alone. \<open>admissible\<close> excludes
  the requests that would leave the lock poisoned.
\<close>

definition results_of :: "('u \<Rightarrow> 'o) \<Rightarrow> 'o \<Rightarrow> 'u list \<Rightarrow> 'r list \<Rightarrow> 'r list" where
  "results_of actor owner us rs = map snd (filter (\<lambda>(u, _). actor u = owner) (zip us rs))"

lemma results_of_Cons [simp]:
  "results_of actor owner (u # us) (r # rs) =
     (if actor u = owner then r # results_of actor owner us rs else results_of actor owner us rs)"
  by (simp add: results_of_def)

lemma results_of_Nil [simp]: "results_of actor owner [] rs = []"
  by (simp add: results_of_def)

locale owner_scoped =
  fixes admissible :: "'u \<Rightarrow> bool"
    and actor :: "'u \<Rightarrow> 'o"
    and view :: "'s \<Rightarrow> 'o \<Rightarrow> 'v"
    and request :: "'s \<Rightarrow> 'u \<Rightarrow> 'r \<times> 's"
  assumes other_view: "admissible u \<Longrightarrow> actor u \<noteq> owner \<Longrightarrow> view (snd (request s u)) owner = view s owner"
    and own_result: "view s (actor u) = view s' (actor u) \<Longrightarrow> fst (request s u) = fst (request s' u)"
    and own_view: "view s (actor u) = view s' (actor u) \<Longrightarrow>
      view (snd (request s u)) (actor u) = view (snd (request s' u)) (actor u)"
begin

lemma noninterference_from:
  assumes "view s owner = view s' owner" "\<forall>u\<in>set us. admissible u"
  shows "results_of actor owner us (fst (run_ops request s us)) =
    fst (run_ops request s' (filter (\<lambda>u. actor u = owner) us))"
  using assms
proof (induction us arbitrary: s s')
  case (Cons u us)
  obtain r t where u: "request s u = (r, t)" by force
  show ?case
  proof (cases "actor u = owner")
    case True
    obtain r' t' where u': "request s' u = (r', t')" by force
    have "r' = r" "view t owner = view t' owner"
      using own_result [of s u s'] own_view [of s u s'] Cons.prems(1) True u u' by auto
    then show ?thesis using Cons.IH [of t t'] Cons.prems(2) True
      by (simp add: run_ops_Cons [where f = request, OF u] run_ops_Cons [where f = request, OF u'])
  next
    case False
    then have "view t owner = view s' owner" using other_view [of u owner s] Cons.prems u by simp
    then show ?thesis using Cons.IH [of t s'] Cons.prems(2) False
      by (simp add: run_ops_Cons [where f = request, OF u])
  qed
qed simp

lemma noninterference:
  "\<forall>u\<in>set us. admissible u \<Longrightarrow>
     results_of actor owner us (fst (run_ops request s us)) =
       fst (run_ops request s (filter (\<lambda>u. actor u = owner) us))"
  by (rule noninterference_from) simp_all

end

lemma filter_update_key:
  "filter (\<lambda>(k, _). P k) (AList.update k v m) = (if P k then AList.update k v (filter (\<lambda>(k, _). P k) m)
     else filter (\<lambda>(k, _). P k) m)"
  by (induction m) auto

lemma filter_delete_key:
  "filter (\<lambda>(k, _). P k) (AList.delete k m) = AList.delete k (filter (\<lambda>(k, _). P k) m)"
  by (induction m) (auto simp: AList.delete_eq)

lemma map_of_filter_key:
  "P k \<Longrightarrow> map_of (filter (\<lambda>(k, _). P k) m) k = map_of m k"
  by (induction m) auto

end
