(* ===== verification/PrivacyConsent.thy ===== *)
theory PrivacyConsent
  imports OwnerScope
begin

text \<open>
  \<open>rust/src/persistence/privacy_consent.rs\<close>: the in-memory store of accepted privacy notices. The map
  behind the \<open>RwLock\<close> is an association list; \<open>now\<close> is what \<open>current_timestamp\<close> returns, \<open>None\<close> where the
  time does not format.
\<close>

definition CURRENT_PRIVACY_NOTICE_VERSION :: string where
  "CURRENT_PRIVACY_NOTICE_VERSION = ''2026-08-24-internal-pilot-v2''"

definition PRIVACY_CONSENT_DOCUMENT_ID :: string where
  "PRIVACY_CONSENT_DOCUMENT_ID = ''privacy-consent''"

definition PRIVACY_CONSENT_DOCUMENT_TYPE :: string where
  "PRIVACY_CONSENT_DOCUMENT_TYPE = ''privacy_consent''"

record privacy_consent_profile =
  pc_display_name :: "string option"
  pc_email_address :: "string option"
  pc_allow_contact :: bool

record privacy_consent_document =
  cd_id :: string
  cd_document_type :: string
  cd_owner_id :: string
  cd_notice_version :: string
  cd_accepted_at :: string
  cd_display_name :: "string option"
  cd_email_address :: "string option"
  cd_allow_contact :: bool

datatype privacy_consent_error = ConsentInvalidRecord | ConsentUnavailable

record consent_repository =
  cr_records :: "(string, privacy_consent_document) hash_map"
  cr_poisoned :: bool

definition new_consent_repository :: consent_repository where
  "new_consent_repository = \<lparr>cr_records = [], cr_poisoned = False\<rparr>"

definition consent_validate_document ::
  "privacy_consent_document \<Rightarrow> string \<Rightarrow> (privacy_consent_error, unit) outcome" where
  "consent_validate_document document owner_id =
     (if cd_id document \<noteq> PRIVACY_CONSENT_DOCUMENT_ID \<or>
         cd_document_type document \<noteq> PRIVACY_CONSENT_DOCUMENT_TYPE \<or>
         cd_owner_id document \<noteq> owner_id \<or>
         cd_notice_version document = [] \<or>
         cd_accepted_at document = [] \<or>
         cd_allow_contact document \<noteq> (cd_email_address document \<noteq> None)
      then Err ConsentInvalidRecord else Ok ())"

definition consent_new_document ::
  "string option \<Rightarrow> string \<Rightarrow> privacy_consent_profile \<Rightarrow>
     (privacy_consent_error, privacy_consent_document) outcome" where
  "consent_new_document now owner_id profile =
     (if owner_id = [] \<or> (pc_allow_contact profile \<and> pc_email_address profile = None)
      then Err ConsentInvalidRecord
      else
        obind (ok_or now ConsentUnavailable) (\<lambda>accepted_at.
        let document =
          \<lparr>cd_id = PRIVACY_CONSENT_DOCUMENT_ID, cd_document_type = PRIVACY_CONSENT_DOCUMENT_TYPE,
           cd_owner_id = owner_id, cd_notice_version = CURRENT_PRIVACY_NOTICE_VERSION,
           cd_accepted_at = accepted_at, cd_display_name = pc_display_name profile,
           cd_email_address = (if pc_allow_contact profile then pc_email_address profile else None),
           cd_allow_contact = pc_allow_contact profile\<rparr>
        in obind (consent_validate_document document owner_id) (\<lambda>_. Ok document)))"

definition consent_get ::
  "consent_repository \<Rightarrow> string \<Rightarrow> (privacy_consent_error, privacy_consent_document option) outcome" where
  "consent_get s owner_id =
     (if cr_poisoned s then Err ConsentUnavailable
      else
        case map_of (cr_records s) owner_id of
          None \<Rightarrow> Ok None
        | Some stored \<Rightarrow> obind (consent_validate_document stored owner_id) (\<lambda>_. Ok (Some stored)))"

definition consent_save ::
  "consent_repository \<Rightarrow> string option \<Rightarrow> string \<Rightarrow> privacy_consent_profile \<Rightarrow>
     (privacy_consent_error, privacy_consent_document) outcome \<times> consent_repository" where
  "consent_save s now owner_id profile =
     (case obind (consent_new_document now owner_id profile) (\<lambda>document.
           if cr_poisoned s then Err ConsentUnavailable else Ok document) of
        Ok document \<Rightarrow> (Ok document, s\<lparr>cr_records := AList.update owner_id document (cr_records s)\<rparr>)
      | Err e \<Rightarrow> (Err e, s)
      | Panic \<Rightarrow> (Panic, s))"

section \<open>Requests of the owners\<close>

datatype consent_request =
    ConsentGet string
  | ConsentSave "string option" string privacy_consent_profile

fun consent_actor :: "consent_request \<Rightarrow> string" where
  "consent_actor (ConsentGet owner) = owner"
| "consent_actor (ConsentSave now owner profile) = owner"

fun run_consent_request ::
  "consent_repository \<Rightarrow> consent_request \<Rightarrow>
     (privacy_consent_error, privacy_consent_document option) outcome \<times> consent_repository" where
  "run_consent_request s (ConsentGet owner) = (consent_get s owner, s)"
| "run_consent_request s (ConsentSave now owner profile) =
     (let (r, s') = consent_save s now owner profile in (obind r (\<lambda>d. Ok (Some d)), s'))"

lemma consent_save_cases:
  obtains (saved) d where "consent_save s now owner profile =
      (Ok d, s\<lparr>cr_records := AList.update owner d (cr_records s)\<rparr>)"
      "consent_new_document now owner profile = Ok d" "\<not> cr_poisoned s"
  | (failed) e where "consent_save s now owner profile = (Err e, s)"
      "consent_new_document now owner profile = Err e \<or> cr_poisoned s"
proof -
  have "consent_new_document now owner profile \<noteq> Panic"
    by (auto simp: consent_new_document_def Let_def obind_Panic_iff consent_validate_document_def)
  then show thesis using saved failed
    by (cases "consent_new_document now owner profile") (auto simp: consent_save_def split: if_splits)
qed

interpretation consent_scope: owner_scoped "\<lambda>_. True" consent_actor
  "\<lambda>s owner. (cr_poisoned s, map_of (cr_records s) owner)" run_consent_request
proof
  fix u owner and s s' :: consent_repository
  show "(cr_poisoned (snd (run_consent_request s u)), map_of (cr_records (snd (run_consent_request s u))) owner) =
      (cr_poisoned s, map_of (cr_records s) owner)" if "consent_actor u \<noteq> owner"
  proof (cases u)
    case (ConsentSave now o' profile)
    then show ?thesis using that
      by (cases rule: consent_save_cases [of s now o' profile]) (auto simp: map_of_update_apply)
  qed simp
  assume same: "(cr_poisoned s, map_of (cr_records s) (consent_actor u)) =
      (cr_poisoned s', map_of (cr_records s') (consent_actor u))"
  show "fst (run_consent_request s u) = fst (run_consent_request s' u)"
  proof (cases u)
    case (ConsentSave now o' profile)
    then show ?thesis using same
      by (cases "consent_new_document now o' profile")
         (auto simp: consent_save_def split: if_splits)
  qed (use same in \<open>simp add: consent_get_def\<close>)
  show "(cr_poisoned (snd (run_consent_request s u)), map_of (cr_records (snd (run_consent_request s u))) (consent_actor u)) =
      (cr_poisoned (snd (run_consent_request s' u)), map_of (cr_records (snd (run_consent_request s' u))) (consent_actor u))"
  proof (cases u)
    case (ConsentSave now o' profile)
    then show ?thesis using same
      by (cases "consent_new_document now o' profile")
         (auto simp: consent_save_def map_of_update_apply split: if_splits)
  qed (use same in simp)
qed

definition consent_valid :: "consent_repository \<Rightarrow> bool" where
  "consent_valid s \<longleftrightarrow>
     (\<forall>owner d. map_of (cr_records s) owner = Some d \<longrightarrow>
        consent_validate_document d owner = Ok () \<and> owner \<noteq> [] \<and>
        cd_notice_version d = CURRENT_PRIVACY_NOTICE_VERSION)"

lemma consent_new_document_Ok:
  "consent_new_document now owner profile = Ok d \<longleftrightarrow>
     owner \<noteq> [] \<and> (pc_allow_contact profile \<longrightarrow> pc_email_address profile \<noteq> None) \<and>
     (\<exists>accepted_at. now = Some accepted_at \<and> accepted_at \<noteq> [] \<and>
       d = \<lparr>cd_id = PRIVACY_CONSENT_DOCUMENT_ID, cd_document_type = PRIVACY_CONSENT_DOCUMENT_TYPE,
           cd_owner_id = owner, cd_notice_version = CURRENT_PRIVACY_NOTICE_VERSION,
           cd_accepted_at = accepted_at, cd_display_name = pc_display_name profile,
           cd_email_address = (if pc_allow_contact profile then pc_email_address profile else None),
           cd_allow_contact = pc_allow_contact profile\<rparr>)"
  by (auto simp: consent_new_document_def consent_validate_document_def Let_def obind_Ok_iff
      CURRENT_PRIVACY_NOTICE_VERSION_def split: if_splits)

lemma run_consent_request_valid:
  assumes "consent_valid s"
  shows "consent_valid (snd (run_consent_request s u))"
proof (cases u)
  case (ConsentSave now owner profile)
  show ?thesis
  proof (cases rule: consent_save_cases [of s now owner profile])
    case (saved d)
    have "consent_validate_document d owner = Ok () \<and> owner \<noteq> [] \<and>
        cd_notice_version d = CURRENT_PRIVACY_NOTICE_VERSION"
      using saved(2) unfolding consent_new_document_Ok
      by (auto simp: consent_validate_document_def CURRENT_PRIVACY_NOTICE_VERSION_def split: if_splits)
    then show ?thesis using assms saved(1) ConsentSave
      by (simp add: consent_valid_def map_of_update_apply)
  qed (use assms ConsentSave in simp)
qed (use assms in simp)

text \<open>
  after any history of requests a read answers with a record that passes the check, accepts the current
  notice, and holds an email address exactly if its owner allows contact; a read fails only on a poisoned
  lock, and a save succeeds exactly for a named owner who gives an address if contact is allowed, after
  which a read returns what was saved.
\<close>
theorem consent_recorded:
  assumes "s = snd (run_ops run_consent_request new_consent_repository us)"
  shows "(\<exists>stored. consent_get s owner = Ok stored \<and>
      (\<forall>d. stored = Some d \<longrightarrow> consent_validate_document d owner = Ok () \<and>
         cd_notice_version d = CURRENT_PRIVACY_NOTICE_VERSION \<and>
         (cd_email_address d \<noteq> None \<longleftrightarrow> cd_allow_contact d))) \<and>
    (\<forall>now profile r s'. consent_save s now owner profile = (r, s') \<longrightarrow>
      (case r of
         Ok d \<Rightarrow> consent_get s' owner = Ok (Some d) \<and> cd_owner_id d = owner \<and>
           Some (cd_accepted_at d) = now \<and> cd_display_name d = pc_display_name profile \<and>
           cd_email_address d = (if pc_allow_contact profile then pc_email_address profile else None)
       | Err e \<Rightarrow> s' = s \<and> (owner = [] \<or> pc_allow_contact profile \<and> pc_email_address profile = None \<or>
           now = None \<or> now = Some [])
       | Panic \<Rightarrow> False))"
proof (intro conjI allI impI)
  have inv: "consent_valid s \<and> \<not> cr_poisoned s"
    unfolding assms
  proof (rule run_ops_invariant)
    fix s u assume "consent_valid s \<and> \<not> cr_poisoned s"
    moreover have "cr_poisoned (snd (run_consent_request s u)) = cr_poisoned s"
      by (cases u) (auto simp: consent_save_def split: outcome.splits)
    ultimately show "consent_valid (snd (run_consent_request s u)) \<and> \<not> cr_poisoned (snd (run_consent_request s u))"
      using run_consent_request_valid by simp
  qed (simp add: consent_valid_def new_consent_repository_def)
  show "\<exists>stored. consent_get s owner = Ok stored \<and>
      (\<forall>d. stored = Some d \<longrightarrow> consent_validate_document d owner = Ok () \<and>
         cd_notice_version d = CURRENT_PRIVACY_NOTICE_VERSION \<and>
         (cd_email_address d \<noteq> None \<longleftrightarrow> cd_allow_contact d))"
  proof (cases "map_of (cr_records s) owner")
    case (Some d)
    then have "consent_validate_document d owner = Ok ()" "cd_notice_version d = CURRENT_PRIVACY_NOTICE_VERSION"
      using inv by (simp_all add: consent_valid_def)
    then show ?thesis using inv Some
      by (auto simp: consent_get_def consent_validate_document_def split: if_splits)
  qed (use inv in \<open>simp add: consent_get_def\<close>)
  fix now profile r s' assume save: "consent_save s now owner profile = (r, s')"
  show "case r of
         Ok d \<Rightarrow> consent_get s' owner = Ok (Some d) \<and> cd_owner_id d = owner \<and>
           Some (cd_accepted_at d) = now \<and> cd_display_name d = pc_display_name profile \<and>
           cd_email_address d = (if pc_allow_contact profile then pc_email_address profile else None)
       | Err e \<Rightarrow> s' = s \<and> (owner = [] \<or> pc_allow_contact profile \<and> pc_email_address profile = None \<or>
           now = None \<or> now = Some [])
       | Panic \<Rightarrow> False"
  proof (cases rule: consent_save_cases [of s now owner profile])
    case (saved d)
    then show ?thesis using save unfolding consent_new_document_Ok
      by (auto simp: consent_get_def map_of_update_apply consent_validate_document_def
          CURRENT_PRIVACY_NOTICE_VERSION_def)
  next
    case (failed e)
    then show ?thesis using save inv
      by (auto simp: consent_new_document_def consent_validate_document_def Let_def obind_Err_iff
          CURRENT_PRIVACY_NOTICE_VERSION_def split: if_splits)
  qed
qed

text \<open>
  the answers an owner gets, in any interleaving with the requests of others, are those of the owner's
  requests run alone.
\<close>
theorem consent_noninterference:
  "results_of consent_actor owner us (fst (run_ops run_consent_request s us)) =
     fst (run_ops run_consent_request s (filter (\<lambda>u. consent_actor u = owner) us))"
  by (rule consent_scope.noninterference) simp

theorem consent_recorded_witness:
  "\<exists>stored. consent_get (snd (run_ops run_consent_request new_consent_repository
      [ConsentSave (Some ''t'') ''ada''
        \<lparr>pc_display_name = None, pc_email_address = Some ''a@b'', pc_allow_contact = True\<rparr>])) ''ada'' = Ok stored"
  using consent_recorded [OF refl] by blast

end
