(* ===== verification/CalculatorLaunch.thy ===== *)
theory CalculatorLaunch
  imports Decimal ClockAndHash OwnerScope
begin

text \<open>
  \<open>rust/src/persistence/calculator_launch.rs\<close>: hand-over of an estimate to the desktop companion. A launch
  is created \<open>Ready\<close>, claimed by one companion instance and, once acknowledged, \<open>Consumed\<close>, which erases its
  payload. The code updates a stored launch field by field, so a step that fails half-way leaves the fields
  written so far, and a panic under the lock poisons it; the model keeps both.
\<close>

section \<open>Documents\<close>

type_synonym i64 = "64 word"

definition CALCULATOR_LAUNCH_DOCUMENT_TYPE :: string where
  "CALCULATOR_LAUNCH_DOCUMENT_TYPE = ''azure_calculator_launch''"

definition CALCULATOR_MANIFEST_VERSION :: u16 where
  "CALCULATOR_MANIFEST_VERSION = 2"

definition CALCULATOR_PROTOCOL_VERSION :: u16 where
  "CALCULATOR_PROTOCOL_VERSION = 1"

definition CALCULATOR_CONTRACT_VERSION :: string where
  "CALCULATOR_CONTRACT_VERSION = ''2026-08-24''"

definition MINIMUM_COMPANION_VERSION :: string where
  "MINIMUM_COMPANION_VERSION = ''1.0.0''"

definition MAX_CALCULATOR_MANIFEST_ITEMS :: nat where
  "MAX_CALCULATOR_MANIFEST_ITEMS = 25"

definition MAX_CALCULATOR_MANIFEST_BYTES :: nat where
  "MAX_CALCULATOR_MANIFEST_BYTES = 256 * 1024"

definition ACTIVE_TTL_SECONDS :: int where
  "ACTIVE_TTL_SECONDS = 10 * 60"

definition CONSUMED_TTL_SECONDS :: int where
  "CONSUMED_TTL_SECONDS = 24 * 60 * 60"

datatype calculator_product = AzureSqlManagedInstance

datatype calculator_deployment_model = SingleInstance

datatype calculator_service_tier = CstNextGenerationGeneralPurpose | CstBusinessCritical

datatype calculator_hardware_family = PremiumSeries | PremiumSeriesMemoryOptimized

datatype calculator_purchase_option =
  CpoPayg | CpoOneYearReservation | CpoThreeYearReservation | CpoOneYearSavingsPlan

record calculator_expected_public_annual =
  cea_compute :: decimal_value
  cea_additional_memory :: decimal_value
  cea_license :: decimal_value
  cea_storage :: decimal_value
  cea_total_before_parity :: decimal_value

record calculator_manifest_item =
  cmi_item_key :: string
  cmi_display_name :: string
  cmi_product :: calculator_product
  cmi_region :: string
  cmi_deployment_model :: calculator_deployment_model
  cmi_service_tier :: calculator_service_tier
  cmi_hardware_family :: calculator_hardware_family
  cmi_vcores :: u32
  cmi_selected_memory_gb :: decimal_value
  cmi_zone_redundant :: bool
  cmi_quantity :: u32
  cmi_hours_per_month :: decimal_value
  cmi_purchase_option :: calculator_purchase_option
  cmi_azure_hybrid_benefit :: bool
  cmi_data_storage_gb :: decimal_value
  cmi_backup_storage_gb :: decimal_value
  cmi_expected_public_annual :: calculator_expected_public_annual

record calculator_manifest =
  cm_schema_version :: u16
  cm_calculator_contract_version :: string
  cm_calculator_url :: string
  cm_generated_at :: string
  cm_currency :: string
  cm_locale :: string
  cm_estimate_name :: string
  cm_items :: "calculator_manifest_item list"

datatype calculator_launch_status = Ready | Claimed | Consumed

record calculator_launch_document =
  ld_id :: uuid
  ld_document_type :: string
  ld_owner_id :: string
  ld_source_project_id :: "uuid option"
  ld_source_project_etag :: "string option"
  ld_source_formula_version :: "string option"
  ld_source_azure_snapshot_id :: "string option"
  ld_status :: calculator_launch_status
  ld_protocol_version :: u16
  ld_manifest_version :: u16
  ld_calculator_contract_version :: string
  ld_minimum_companion_version :: string
  ld_manifest_sha256 :: "string option"
  ld_manifest :: "calculator_manifest option"
  ld_companion_instance_id :: "uuid option"
  ld_companion_version :: "string option"
  ld_created_at :: string
  ld_claim_expires_at :: string
  ld_updated_at :: string
  ld_ttl :: i64
  ld_etag :: string

record new_calculator_launch =
  nl_id :: uuid
  nl_source_project_id :: uuid
  nl_source_project_etag :: string
  nl_source_formula_version :: string
  nl_source_azure_snapshot_id :: string
  nl_manifest :: calculator_manifest

record created_calculator_launch =
  cl_document :: calculator_launch_document
  cl_created :: bool

datatype calculator_launch_error =
    LaunchNotFound
  | LaunchConflict
  | LaunchExpired
  | LaunchPreconditionFailed
  | LaunchInvalidManifest
  | LaunchPayloadTooLarge
  | LaunchUnavailable

type_synonym 'a launch_result = "(calculator_launch_error, 'a) outcome"

record stored_launch =
  sl_document :: calculator_launch_document
  sl_version :: u64

record launch_repository =
  lr_launches :: "(string \<times> uuid, stored_launch) hash_map"
  lr_poisoned :: bool

text \<open>The crates a launch relies on: time, SHA-256, and the bytes \<open>serde_json\<close> writes a manifest to.\<close>

record launch_env =
  le_time :: time_env
  le_hash :: hash_env
  le_manifest_json :: "calculator_manifest \<Rightarrow> u8 list option"

definition new_launch_repository :: launch_repository where
  "new_launch_repository = \<lparr>lr_launches = [], lr_poisoned = False\<rparr>"

section \<open>Checks\<close>

definition validate_manifest :: "launch_env \<Rightarrow> calculator_manifest \<Rightarrow> unit launch_result" where
  "validate_manifest E manifest =
     (if cm_schema_version manifest \<noteq> CALCULATOR_MANIFEST_VERSION \<or>
         cm_calculator_contract_version manifest \<noteq> CALCULATOR_CONTRACT_VERSION \<or>
         cm_calculator_url manifest \<noteq> ''https://azure.microsoft.com/en-us/pricing/calculator/'' \<or>
         cm_currency manifest \<noteq> ''USD'' \<or>
         cm_locale manifest \<noteq> ''en-US'' \<or>
         cm_items manifest = [] \<or>
         MAX_CALCULATOR_MANIFEST_ITEMS < length (cm_items manifest)
      then Err LaunchInvalidManifest
      else
        obind (ok_or (le_manifest_json E manifest) LaunchInvalidManifest) (\<lambda>bytes.
        if MAX_CALCULATOR_MANIFEST_BYTES < length bytes then Err LaunchPayloadTooLarge else Ok ()))"

definition manifest_sha256 :: "launch_env \<Rightarrow> calculator_manifest \<Rightarrow> string launch_result" where
  "manifest_sha256 E manifest =
     obind (ok_or (le_manifest_json E manifest) LaunchInvalidManifest) (\<lambda>bytes.
     Ok (hex_encode (he_sha256 (le_hash E) bytes)))"

definition parse_timestamp :: "launch_env \<Rightarrow> string \<Rightarrow> instant launch_result" where
  "parse_timestamp E text = ok_or (te_parse (le_time E) text) LaunchUnavailable"

definition launch_format_timestamp :: "launch_env \<Rightarrow> instant \<Rightarrow> string launch_result" where
  "launch_format_timestamp E t = ok_or (te_format (le_time E) t) LaunchUnavailable"

definition launch_etag :: "u64 \<Rightarrow> string" where
  "launch_etag version = CHR 0x22 # ''calculator-launch-'' @ show_nat (unat version) @ [CHR 0x22]"

definition active_payload_present :: "calculator_launch_document \<Rightarrow> bool" where
  "active_payload_present document \<longleftrightarrow>
     ld_source_project_id document \<noteq> None \<and> ld_source_project_etag document \<noteq> None \<and>
     ld_source_formula_version document \<noteq> None \<and> ld_source_azure_snapshot_id document \<noteq> None \<and>
     ld_manifest_sha256 document \<noteq> None \<and> ld_manifest document \<noteq> None"

definition launch_status_consistent :: "calculator_launch_document \<Rightarrow> bool" where
  "launch_status_consistent document =
     (case ld_status document of
        Ready \<Rightarrow> active_payload_present document \<and> ld_companion_instance_id document = None \<and>
          ld_companion_version document = None
      | Claimed \<Rightarrow> active_payload_present document \<and> ld_companion_instance_id document \<noteq> None \<and>
          ld_companion_version document \<noteq> None
      | Consumed \<Rightarrow> \<not> active_payload_present document \<and> ld_companion_instance_id document \<noteq> None \<and>
          ld_companion_version document \<noteq> None)"

definition launch_validate_document ::
  "launch_env \<Rightarrow> calculator_launch_document \<Rightarrow> string \<Rightarrow> uuid option \<Rightarrow> unit launch_result" where
  "launch_validate_document E document owner_id expected_id =
     (if ld_document_type document \<noteq> CALCULATOR_LAUNCH_DOCUMENT_TYPE \<or>
         ld_owner_id document \<noteq> owner_id \<or>
         (case expected_id of None \<Rightarrow> False | Some i \<Rightarrow> ld_id document \<noteq> i) \<or>
         ld_protocol_version document \<noteq> CALCULATOR_PROTOCOL_VERSION \<or>
         ld_manifest_version document \<noteq> CALCULATOR_MANIFEST_VERSION \<or>
         ld_calculator_contract_version document \<noteq> CALCULATOR_CONTRACT_VERSION \<or>
         ld_minimum_companion_version document \<noteq> MINIMUM_COMPANION_VERSION \<or>
         sint (ld_ttl document) \<le> 0 \<or>
         ld_etag document = []
      then Err LaunchUnavailable
      else if \<not> launch_status_consistent document then Err LaunchUnavailable
      else
        obind (case (ld_manifest document, ld_manifest_sha256 document) of
                 (Some manifest, Some expected_hash) \<Rightarrow>
                   obind (validate_manifest E manifest) (\<lambda>_.
                   obind (manifest_sha256 E manifest) (\<lambda>hash.
                   if hash \<noteq> expected_hash then Err LaunchUnavailable else Ok ()))
               | _ \<Rightarrow> Ok ()) (\<lambda>_.
        obind (parse_timestamp E (ld_created_at document)) (\<lambda>_.
        obind (parse_timestamp E (ld_claim_expires_at document)) (\<lambda>_.
        obind (parse_timestamp E (ld_updated_at document)) (\<lambda>_. Ok ())))))"

definition is_expired :: "launch_env \<Rightarrow> calculator_launch_document \<Rightarrow> instant \<Rightarrow> bool launch_result" where
  "is_expired E document now =
     obind (parse_timestamp E (ld_claim_expires_at document)) (\<lambda>expires_at. Ok (expires_at \<le> now))"

definition ensure_not_expired ::
  "launch_env \<Rightarrow> calculator_launch_document \<Rightarrow> instant \<Rightarrow> unit launch_result" where
  "ensure_not_expired E document now =
     obind (is_expired E document now) (\<lambda>expired. if expired then Err LaunchExpired else Ok ())"

section \<open>Operations\<close>

definition put_launch :: "launch_repository \<Rightarrow> string \<times> uuid \<Rightarrow> stored_launch \<Rightarrow> launch_repository" where
  "put_launch s key stored = s\<lparr>lr_launches := AList.update key stored (lr_launches s)\<rparr>"

definition poison_launches :: "launch_repository \<Rightarrow> launch_repository" where
  "poison_launches s = s\<lparr>lr_poisoned := True\<rparr>"

definition is_active :: "calculator_launch_document \<Rightarrow> bool" where
  "is_active document \<longleftrightarrow> ld_status document = Ready \<or> ld_status document = Claimed"

text \<open>The search for another active launch of the owner, in iteration order.\<close>

fun check_no_active ::
  "launch_env \<Rightarrow> string \<Rightarrow> instant \<Rightarrow> (string \<times> uuid, stored_launch) hash_map \<Rightarrow> unit launch_result" where
  "check_no_active E owner_id now [] = Ok ()"
| "check_no_active E owner_id now ((key, stored) # rest) =
     (if ld_owner_id (sl_document stored) = owner_id \<and> is_active (sl_document stored)
      then obind (is_expired E (sl_document stored) now) (\<lambda>expired.
             if \<not> expired then Err LaunchConflict else check_no_active E owner_id now rest)
      else check_no_active E owner_id now rest)"

definition launch_document_of ::
  "new_calculator_launch \<Rightarrow> string \<Rightarrow> string \<Rightarrow> string \<Rightarrow> string \<Rightarrow> calculator_launch_document" where
  "launch_document_of launch owner_id hash timestamp expires_at =
     \<lparr>ld_id = nl_id launch, ld_document_type = CALCULATOR_LAUNCH_DOCUMENT_TYPE, ld_owner_id = owner_id,
      ld_source_project_id = Some (nl_source_project_id launch),
      ld_source_project_etag = Some (nl_source_project_etag launch),
      ld_source_formula_version = Some (nl_source_formula_version launch),
      ld_source_azure_snapshot_id = Some (nl_source_azure_snapshot_id launch),
      ld_status = Ready, ld_protocol_version = CALCULATOR_PROTOCOL_VERSION,
      ld_manifest_version = CALCULATOR_MANIFEST_VERSION,
      ld_calculator_contract_version = CALCULATOR_CONTRACT_VERSION,
      ld_minimum_companion_version = MINIMUM_COMPANION_VERSION,
      ld_manifest_sha256 = Some hash, ld_manifest = Some (nl_manifest launch),
      ld_companion_instance_id = None, ld_companion_version = None,
      ld_created_at = timestamp, ld_claim_expires_at = expires_at, ld_updated_at = timestamp,
      ld_ttl = word_of_int ACTIVE_TTL_SECONDS, ld_etag = launch_etag 1\<rparr>"

text \<open>\<open>now + Duration\<close> panics where the sum leaves the range of instants.\<close>

definition insert_new_launch ::
  "launch_env \<Rightarrow> launch_repository \<Rightarrow> instant \<Rightarrow> string \<Rightarrow> new_calculator_launch \<Rightarrow> string \<Rightarrow>
     created_calculator_launch launch_result \<times> launch_repository" where
  "insert_new_launch E s now owner_id launch hash =
     (case obind (check_no_active E owner_id now (lr_launches s)) (\<lambda>_.
           obind (launch_format_timestamp E now) (\<lambda>timestamp.
           obind (or_panic (te_checked_add (le_time E) now (duration_seconds ACTIVE_TTL_SECONDS))) (\<lambda>expires.
           obind (launch_format_timestamp E expires) (\<lambda>expires_at.
           let document = launch_document_of launch owner_id hash timestamp expires_at
           in obind (launch_validate_document E document owner_id (Some (nl_id launch))) (\<lambda>_.
              Ok document))))) of
        Ok document \<Rightarrow>
          (Ok \<lparr>cl_document = document, cl_created = True\<rparr>,
           put_launch s (owner_id, nl_id launch) \<lparr>sl_document = document, sl_version = 1\<rparr>)
      | Err e \<Rightarrow> (Err e, s)
      | Panic \<Rightarrow> (Panic, poison_launches s))"

definition launch_create ::
  "launch_env \<Rightarrow> launch_repository \<Rightarrow> instant \<Rightarrow> string \<Rightarrow> new_calculator_launch \<Rightarrow>
     created_calculator_launch launch_result \<times> launch_repository" where
  "launch_create E s now owner_id launch =
     (case obind (validate_manifest E (nl_manifest launch)) (\<lambda>_. manifest_sha256 E (nl_manifest launch)) of
        Ok hash \<Rightarrow>
          if lr_poisoned s then (Err LaunchUnavailable, s)
          else
            (case map_of (lr_launches s) (owner_id, nl_id launch) of
               Some stored \<Rightarrow>
                 let document = sl_document stored;
                     same_binding =
                       ld_source_project_id document = Some (nl_source_project_id launch) \<and>
                       ld_source_project_etag document = Some (nl_source_project_etag launch) \<and>
                       ld_manifest_sha256 document = Some hash
                 in if same_binding \<and> ld_status document = Ready
                    then (obind (ensure_not_expired E document now) (\<lambda>_.
                            Ok \<lparr>cl_document = document, cl_created = False\<rparr>), s)
                    else (Err LaunchConflict, s)
             | None \<Rightarrow> insert_new_launch E s now owner_id launch hash)
      | Err e \<Rightarrow> (Err e, s)
      | Panic \<Rightarrow> (Panic, s))"

text \<open>
  The tail that a claim and an acknowledgement share: new times, lifetime and ETag are written to the
  stored launch one after the other, and the document is checked at the end.
\<close>

definition restamp ::
  "launch_env \<Rightarrow> instant \<Rightarrow> int \<Rightarrow> string \<Rightarrow> uuid \<Rightarrow> stored_launch \<Rightarrow> unit launch_result \<times> stored_launch" where
  "restamp E now ttl_seconds owner_id launch_id stored =
     (case launch_format_timestamp E now of
        Ok updated_at \<Rightarrow>
          let stored1 = stored\<lparr>sl_document := (sl_document stored)\<lparr>ld_updated_at := updated_at\<rparr>\<rparr> in
          (case obind (or_panic (te_checked_add (le_time E) now (duration_seconds ttl_seconds)))
                 (launch_format_timestamp E) of
             Ok expires_at \<Rightarrow>
               let stored2 = stored1\<lparr>sl_document := (sl_document stored1)
                     \<lparr>ld_claim_expires_at := expires_at, ld_ttl := word_of_int ttl_seconds,
                      ld_etag := launch_etag (sl_version stored)\<rparr>\<rparr>
               in (launch_validate_document E (sl_document stored2) owner_id (Some launch_id), stored2)
           | Err e \<Rightarrow> (Err e, stored1)
           | Panic \<Rightarrow> (Panic, stored1))
      | Err e \<Rightarrow> (Err e, stored)
      | Panic \<Rightarrow> (Panic, stored))"

definition store_restamped ::
  "launch_repository \<Rightarrow> string \<times> uuid \<Rightarrow> unit launch_result \<times> stored_launch \<Rightarrow>
     calculator_launch_document launch_result \<times> launch_repository" where
  "store_restamped s key result =
     (let (r, stored) = result; s' = put_launch s key stored
      in (obind r (\<lambda>_. Ok (sl_document stored)), if r = Panic then poison_launches s' else s'))"

definition launch_claim ::
  "launch_env \<Rightarrow> launch_repository \<Rightarrow> instant \<Rightarrow> string \<Rightarrow> uuid \<Rightarrow> uuid \<Rightarrow> string \<Rightarrow>
     calculator_launch_document launch_result \<times> launch_repository" where
  "launch_claim E s now owner_id launch_id companion_instance_id companion_version =
     (if lr_poisoned s then (Err LaunchUnavailable, s)
      else
        case map_of (lr_launches s) (owner_id, launch_id) of
          None \<Rightarrow> (Err LaunchNotFound, s)
        | Some stored \<Rightarrow>
            let document = sl_document stored in
            (case obind (launch_validate_document E document owner_id (Some launch_id)) (\<lambda>_.
                  ensure_not_expired E document now) of
               Ok _ \<Rightarrow>
                 (case ld_status document of
                    Ready \<Rightarrow>
                      (case checked_add (sl_version stored) 1 of
                         None \<Rightarrow> (Err LaunchUnavailable, s)
                       | Some version \<Rightarrow>
                           store_restamped s (owner_id, launch_id)
                             (restamp E now ACTIVE_TTL_SECONDS owner_id launch_id
                               \<lparr>sl_document = document
                                  \<lparr>ld_status := Claimed, ld_companion_instance_id := Some companion_instance_id,
                                   ld_companion_version := Some companion_version\<rparr>,
                                sl_version = version\<rparr>))
                  | Claimed \<Rightarrow>
                      if ld_companion_instance_id document = Some companion_instance_id
                      then (Ok document, s) else (Err LaunchConflict, s)
                  | Consumed \<Rightarrow> (Err LaunchConflict, s))
             | Err e \<Rightarrow> (Err e, s)
             | Panic \<Rightarrow> (Panic, poison_launches s)))"

definition launch_acknowledge ::
  "launch_env \<Rightarrow> launch_repository \<Rightarrow> instant \<Rightarrow> string \<Rightarrow> uuid \<Rightarrow> uuid \<Rightarrow> string \<Rightarrow>
     unit launch_result \<times> launch_repository" where
  "launch_acknowledge E s now owner_id launch_id companion_instance_id if_match =
     (if lr_poisoned s then (Err LaunchUnavailable, s)
      else
        case map_of (lr_launches s) (owner_id, launch_id) of
          None \<Rightarrow> (Err LaunchNotFound, s)
        | Some stored \<Rightarrow>
            let document = sl_document stored in
            (case launch_validate_document E document owner_id (Some launch_id) of
               Ok _ \<Rightarrow>
                 if ld_status document = Consumed \<and>
                    ld_companion_instance_id document = Some companion_instance_id
                 then (Ok (), s)
                 else
                   (case obind (ensure_not_expired E document now) (\<lambda>_.
                         if ld_status document \<noteq> Claimed \<or>
                            ld_companion_instance_id document \<noteq> Some companion_instance_id
                         then Err LaunchConflict
                         else if ld_etag document \<noteq> if_match then Err LaunchPreconditionFailed
                         else ok_or (checked_add (sl_version stored) 1) LaunchUnavailable) of
                      Ok version \<Rightarrow>
                        let (r, s') = store_restamped s (owner_id, launch_id)
                              (restamp E now CONSUMED_TTL_SECONDS owner_id launch_id
                                \<lparr>sl_document = document
                                   \<lparr>ld_status := Consumed, ld_source_project_id := None,
                                    ld_source_project_etag := None, ld_source_formula_version := None,
                                    ld_source_azure_snapshot_id := None, ld_manifest_sha256 := None,
                                    ld_manifest := None\<rparr>,
                                 sl_version = version\<rparr>)
                        in (obind r (\<lambda>_. Ok ()), s')
                    | Err e \<Rightarrow> (Err e, s)
                    | Panic \<Rightarrow> (Panic, poison_launches s))
             | Err e \<Rightarrow> (Err e, s)
             | Panic \<Rightarrow> (Panic, poison_launches s)))"

definition launch_purge_project ::
  "launch_repository \<Rightarrow> string \<Rightarrow> uuid \<Rightarrow> unit launch_result \<times> launch_repository" where
  "launch_purge_project s owner_id project_id =
     (if lr_poisoned s then (Err LaunchUnavailable, s)
      else (Ok (), s\<lparr>lr_launches := retain (\<lambda>(stored_owner, _) stored.
              stored_owner \<noteq> owner_id \<or>
              ld_source_project_id (sl_document stored) \<noteq> Some project_id \<or>
              ld_status (sl_document stored) = Consumed) (lr_launches s)\<rparr>))"

section \<open>Requests and reachable stores\<close>

datatype launch_request =
    CreateLaunch string new_calculator_launch
  | ClaimLaunch string uuid uuid string
  | AcknowledgeLaunch string uuid uuid string
  | PurgeProject string uuid

datatype launch_response =
    LaunchCreated created_calculator_launch
  | LaunchClaimed calculator_launch_document
  | LaunchDone

fun launch_actor :: "instant \<times> launch_request \<Rightarrow> string" where
  "launch_actor (now, CreateLaunch owner launch) = owner"
| "launch_actor (now, ClaimLaunch owner i inst version) = owner"
| "launch_actor (now, AcknowledgeLaunch owner i inst tag) = owner"
| "launch_actor (now, PurgeProject owner pid) = owner"

fun run_launch_request ::
  "launch_env \<Rightarrow> launch_repository \<Rightarrow> instant \<times> launch_request \<Rightarrow>
     launch_response launch_result \<times> launch_repository" where
  "run_launch_request E s (now, CreateLaunch owner launch) =
     (let (r, s') = launch_create E s now owner launch in (obind r (\<lambda>c. Ok (LaunchCreated c)), s'))"
| "run_launch_request E s (now, ClaimLaunch owner i inst version) =
     (let (r, s') = launch_claim E s now owner i inst version in (obind r (\<lambda>d. Ok (LaunchClaimed d)), s'))"
| "run_launch_request E s (now, AcknowledgeLaunch owner i inst tag) =
     (let (r, s') = launch_acknowledge E s now owner i inst tag in (obind r (\<lambda>_. Ok LaunchDone), s'))"
| "run_launch_request E s (now, PurgeProject owner pid) =
     (let (r, s') = launch_purge_project s owner pid in (obind r (\<lambda>_. Ok LaunchDone), s'))"

text \<open>
  The store after any requests, in the order in which they held the lock. Each reads the clock before it
  asks for the lock, so its reading may be older than those of the requests that held the lock before it;
  \<open>now\<close> is a bound of all readings so far.
\<close>

inductive launch_reachable :: "launch_env \<Rightarrow> instant \<Rightarrow> launch_repository \<Rightarrow> bool" for E where
  start: "launch_reachable E now new_launch_repository"
| request: "launch_reachable E now s \<Longrightarrow> now \<le> now' \<Longrightarrow> reading \<le> now' \<Longrightarrow>
     run_launch_request E s (reading, u) = (r, s') \<Longrightarrow> launch_reachable E now' s'"

section \<open>What each operation does\<close>

lemma if_Err_no_Panic: "(if b then Err e else m) = Panic \<longleftrightarrow> \<not> b \<and> m = Panic"
  by simp

lemma stamps_no_Panic [simp]: "parse_timestamp E text \<noteq> Panic" "launch_format_timestamp E t \<noteq> Panic"
  by (simp_all add: parse_timestamp_def launch_format_timestamp_def)

lemma manifest_no_Panic [simp]: "validate_manifest E m \<noteq> Panic" "manifest_sha256 E m \<noteq> Panic"
  unfolding validate_manifest_def manifest_sha256_def by (simp_all only: if_Err_no_Panic) (simp_all add: obind_Panic_iff)

lemma expiry_no_Panic [simp]: "is_expired E d now \<noteq> Panic" "ensure_not_expired E d now \<noteq> Panic"
  by (simp_all add: is_expired_def ensure_not_expired_def obind_Panic_iff)

lemma validate_no_Panic [simp]: "launch_validate_document E d owner i \<noteq> Panic"
  unfolding launch_validate_document_def
  by (simp only: if_Err_no_Panic) (simp add: obind_Panic_iff split: option.split)

lemma check_no_active_no_Panic [simp]: "check_no_active E owner now m \<noteq> Panic"
proof (induction m)
  case (Cons entry rest)
  then show ?case by (cases entry) (simp add: obind_Panic_iff)
qed simp

lemma ensure_not_expired_Ok:
  "ensure_not_expired E d now = Ok () \<longleftrightarrow> (\<exists>t. te_parse (le_time E) (ld_claim_expires_at d) = Some t \<and> now < t)"
  by (cases "te_parse (le_time E) (ld_claim_expires_at d)")
     (simp_all add: ensure_not_expired_def is_expired_def parse_timestamp_def not_le)

text \<open>Every effect of a request is one of four: nothing, a new launch, a rewritten launch, or a purge.\<close>

lemma launch_create_cases:
  assumes "launch_create E s now owner launch = (r, s')"
  obtains (same) "s' = s"
  | (panicked) "s' = poison_launches s" "te_checked_add (le_time E) now (duration_seconds ACTIVE_TTL_SECONDS) = None"
  | (inserted) d where "r = Ok \<lparr>cl_document = d, cl_created = True\<rparr>"
      "map_of (lr_launches s) (owner, nl_id launch) = None"
      "check_no_active E owner now (lr_launches s) = Ok ()"
      "ld_status d = Ready" "ld_owner_id d = owner" "ld_companion_instance_id d = None"
      "launch_validate_document E d owner (Some (nl_id launch)) = Ok ()"
      "\<exists>t. te_checked_add (le_time E) now (duration_seconds ACTIVE_TTL_SECONDS) = Some t \<and>
         te_format (le_time E) t = Some (ld_claim_expires_at d)"
      "s' = put_launch s (owner, nl_id launch) \<lparr>sl_document = d, sl_version = 1\<rparr>"
proof -
  consider "s' = s" | hash where "map_of (lr_launches s) (owner, nl_id launch) = None"
      "insert_new_launch E s now owner launch hash = (r, s')"
    using assms by (auto simp: launch_create_def Let_def split: outcome.splits if_splits option.splits)
  then show thesis
  proof cases
    case (2 hash)
    let ?m = "obind (check_no_active E owner now (lr_launches s)) (\<lambda>_.
           obind (launch_format_timestamp E now) (\<lambda>timestamp.
           obind (or_panic (te_checked_add (le_time E) now (duration_seconds ACTIVE_TTL_SECONDS))) (\<lambda>expires.
           obind (launch_format_timestamp E expires) (\<lambda>expires_at.
           let document = launch_document_of launch owner hash timestamp expires_at
           in obind (launch_validate_document E document owner (Some (nl_id launch))) (\<lambda>_. Ok document)))))"
    show thesis
    proof (cases ?m)
      case (Ok d)
      then show thesis using 2 inserted [of d]
        by (auto simp: insert_new_launch_def obind_Ok_iff Let_def launch_format_timestamp_def launch_document_of_def)
    next
      case (Err e)
      then show thesis using 2 same by (simp add: insert_new_launch_def)
    next
      case Panic
      then have "te_checked_add (le_time E) now (duration_seconds ACTIVE_TTL_SECONDS) = None"
        by (auto simp: obind_Panic_iff Let_def)
      then show thesis using 2 Panic panicked by (simp add: insert_new_launch_def)
    qed
  qed (rule same)
qed
text \<open>The checks of a document that do not read its times, lifetime or ETag.\<close>

definition launch_body_ok :: "launch_env \<Rightarrow> calculator_launch_document \<Rightarrow> string \<Rightarrow> uuid \<Rightarrow> bool" where
  "launch_body_ok E d owner_id launch_id \<longleftrightarrow>
     ld_document_type d = CALCULATOR_LAUNCH_DOCUMENT_TYPE \<and> ld_owner_id d = owner_id \<and> ld_id d = launch_id \<and>
     ld_protocol_version d = CALCULATOR_PROTOCOL_VERSION \<and> ld_manifest_version d = CALCULATOR_MANIFEST_VERSION \<and>
     ld_calculator_contract_version d = CALCULATOR_CONTRACT_VERSION \<and>
     ld_minimum_companion_version d = MINIMUM_COMPANION_VERSION \<and> launch_status_consistent d \<and>
     (\<forall>manifest hash. ld_manifest d = Some manifest \<and> ld_manifest_sha256 d = Some hash \<longrightarrow>
        validate_manifest E manifest = Ok () \<and> manifest_sha256 E manifest = Ok hash)"

definition launch_stamps_ok :: "launch_env \<Rightarrow> calculator_launch_document \<Rightarrow> bool" where
  "launch_stamps_ok E d \<longleftrightarrow>
     0 < sint (ld_ttl d) \<and> ld_etag d \<noteq> [] \<and> te_parse (le_time E) (ld_created_at d) \<noteq> None \<and>
     te_parse (le_time E) (ld_claim_expires_at d) \<noteq> None \<and> te_parse (le_time E) (ld_updated_at d) \<noteq> None"

lemma manifest_check_Ok:
  "(case (ld_manifest d, ld_manifest_sha256 d) of
      (Some manifest, Some expected_hash) \<Rightarrow>
        obind (validate_manifest E manifest) (\<lambda>_.
        obind (manifest_sha256 E manifest) (\<lambda>hash.
        if hash \<noteq> expected_hash then Err LaunchUnavailable else Ok ()))
    | _ \<Rightarrow> Ok ()) = Ok () \<longleftrightarrow>
   (\<forall>manifest hash. ld_manifest d = Some manifest \<and> ld_manifest_sha256 d = Some hash \<longrightarrow>
        validate_manifest E manifest = Ok () \<and> manifest_sha256 E manifest = Ok hash)"
proof (cases "ld_manifest d"; cases "ld_manifest_sha256 d")
  fix m h assume "ld_manifest d = Some m" "ld_manifest_sha256 d = Some h"
  then show ?thesis by (cases "validate_manifest E m"; cases "manifest_sha256 E m") simp_all
qed simp_all

lemma obind_unit_Ok: "obind m (\<lambda>_. n) = Ok y \<longleftrightarrow> (\<exists>x. m = Ok x) \<and> n = Ok y"
  by (cases m) simp_all

lemma parse_timestamp_Ok: "(\<exists>x. parse_timestamp E text = Ok x) \<longleftrightarrow> te_parse (le_time E) text \<noteq> None"
  by (auto simp: parse_timestamp_def)

lemma if_Err_Ok: "(if b then Err e else m) = Ok y \<longleftrightarrow> \<not> b \<and> m = Ok y"
  by simp

lemma ex_unit: "(\<exists>x :: unit. P x) \<longleftrightarrow> P ()"
  by auto

lemma launch_validate_Ok:
  "launch_validate_document E d owner (Some i) = Ok () \<longleftrightarrow> launch_body_ok E d owner i \<and> launch_stamps_ok E d"
  unfolding launch_validate_document_def if_Err_Ok obind_unit_Ok ex_unit manifest_check_Ok parse_timestamp_Ok
    launch_body_ok_def launch_stamps_ok_def
  by (simp only: option.case de_Morgan_disj not_not not_le ex_unit conj_assoc simp_thms) blast

definition restamped :: "stored_launch \<Rightarrow> stored_launch \<Rightarrow> bool" where
  "restamped stored stored' \<longleftrightarrow>
     sl_version stored' = sl_version stored \<and>
     (\<exists>u x l g. sl_document stored' = (sl_document stored)
        \<lparr>ld_updated_at := u, ld_claim_expires_at := x, ld_ttl := l, ld_etag := g\<rparr>)"

lemma restamped_refl: "restamped stored stored"
proof -
  let ?d = "sl_document stored"
  have "?d = ?d\<lparr>ld_updated_at := ld_updated_at ?d, ld_claim_expires_at := ld_claim_expires_at ?d,
      ld_ttl := ld_ttl ?d, ld_etag := ld_etag ?d\<rparr>" by simp
  then show ?thesis unfolding restamped_def by blast
qed

lemma restamped_updated: "restamped stored (stored\<lparr>sl_document := (sl_document stored)\<lparr>ld_updated_at := u\<rparr>\<rparr>)"
proof -
  let ?d = "sl_document stored"
  have "?d\<lparr>ld_updated_at := u\<rparr> = ?d\<lparr>ld_updated_at := u, ld_claim_expires_at := ld_claim_expires_at ?d,
      ld_ttl := ld_ttl ?d, ld_etag := ld_etag ?d\<rparr>" by simp
  then show ?thesis unfolding restamped_def by (metis stored_launch.select_convs(1,2) stored_launch.surjective stored_launch.update_convs(1))
qed

lemma restamped_all:
  "restamped stored (stored\<lparr>sl_document := (sl_document stored)
     \<lparr>ld_updated_at := u, ld_claim_expires_at := x, ld_ttl := l, ld_etag := g\<rparr>\<rparr>)"
  by (auto simp: restamped_def)

lemma launch_body_ok_updated:
  "launch_body_ok E (d\<lparr>ld_updated_at := u\<rparr>) owner i \<longleftrightarrow> launch_body_ok E d owner i"
  by (cases "ld_status d")
     (simp_all add: launch_body_ok_def launch_status_consistent_def active_payload_present_def)

lemma launch_body_ok_restamped:
  "launch_body_ok E (d\<lparr>ld_updated_at := u, ld_claim_expires_at := x, ld_ttl := l, ld_etag := g\<rparr>) owner i \<longleftrightarrow>
     launch_body_ok E d owner i"
  by (cases "ld_status d")
     (simp_all add: launch_body_ok_def launch_status_consistent_def active_payload_present_def)

lemma launch_etag_nonempty [simp]: "launch_etag v \<noteq> []"
  by (simp add: launch_etag_def)

lemma restamp_cases:
  assumes laws: "time_laws (le_time E)"
    and valid: "launch_body_ok E (sl_document stored) owner i" "launch_stamps_ok E (sl_document stored)"
    and ttl: "0 < sint (word_of_int ttl :: i64)"
    and run: "restamp E now ttl owner i stored = (r, stored')"
  shows "restamped stored stored' \<and> launch_body_ok E (sl_document stored') owner i \<and>
    launch_stamps_ok E (sl_document stored') \<and>
    (r = Ok () \<and> (\<exists>t. te_checked_add (le_time E) now (duration_seconds ttl) = Some t \<and>
         te_format (le_time E) t = Some (ld_claim_expires_at (sl_document stored'))) \<and>
       ld_etag (sl_document stored') = launch_etag (sl_version stored)
     \<or> r \<noteq> Ok () \<and> ld_claim_expires_at (sl_document stored') = ld_claim_expires_at (sl_document stored) \<and>
       (r = Panic \<longrightarrow> te_checked_add (le_time E) now (duration_seconds ttl) = None))"
proof -
  let ?d = "sl_document stored"
  note parse = time_lawsD(2) [OF laws]
  show ?thesis
  proof (cases "te_format (le_time E) now")
    case None
    then have "r = Err LaunchUnavailable" "stored' = stored"
      using run by (simp_all add: restamp_def launch_format_timestamp_def)
    then show ?thesis using valid restamped_refl by simp
  next
    case (Some u)
    let ?d1 = "?d\<lparr>ld_updated_at := u\<rparr>"
    have ok1: "launch_body_ok E ?d1 owner i" "launch_stamps_ok E ?d1"
      using valid parse [OF Some] by (simp add: launch_body_ok_updated, simp add: launch_stamps_ok_def)
    let ?m = "obind (or_panic (te_checked_add (le_time E) now (duration_seconds ttl))) (launch_format_timestamp E)"
    have failed: ?thesis if "\<nexists>x. ?m = Ok x" "?m = Panic \<longrightarrow> te_checked_add (le_time E) now (duration_seconds ttl) = None"
    proof -
      have "r \<noteq> Ok ()" "stored' = stored\<lparr>sl_document := ?d1\<rparr>" "r = Panic \<longrightarrow> ?m = Panic"
        using run Some that(1) by (cases ?m; auto simp: restamp_def launch_format_timestamp_def)+
      then show ?thesis using ok1 that(2) restamped_updated [of stored u] by simp
    qed
    show ?thesis
    proof (cases "te_checked_add (le_time E) now (duration_seconds ttl)")
      case None
      then show ?thesis by (intro failed) simp_all
    next
      case (Some t)
      show ?thesis
      proof (cases "te_format (le_time E) t")
        case None
        then show ?thesis using \<open>te_checked_add _ _ _ = Some t\<close>
          by (intro failed) (simp_all add: launch_format_timestamp_def)
      next
        case (Some x)
        let ?d2 = "?d\<lparr>ld_updated_at := u, ld_claim_expires_at := x, ld_ttl := word_of_int ttl,
            ld_etag := launch_etag (sl_version stored)\<rparr>"
        have ok2: "launch_body_ok E ?d2 owner i" "launch_stamps_ok E ?d2"
          using valid parse [OF Some] parse [OF \<open>te_format _ now = Some u\<close>] ttl
          by (simp add: launch_body_ok_restamped, simp add: launch_stamps_ok_def)
        then have "launch_validate_document E ?d2 owner (Some i) = Ok ()" by (simp only: launch_validate_Ok)
        then have "r = Ok ()" "stored' = stored\<lparr>sl_document := ?d2\<rparr>"
          using run \<open>te_format _ now = Some u\<close> \<open>te_checked_add _ _ _ = Some t\<close> Some
          by (simp_all add: restamp_def launch_format_timestamp_def Let_def)
        then show ?thesis using ok2 Some \<open>te_checked_add _ _ _ = Some t\<close> restamped_all [of stored] by simp
      qed
    qed
  qed
qed
lemma ttl_positive:
  "0 < sint (word_of_int ACTIVE_TTL_SECONDS :: i64)" "0 < sint (word_of_int CONSUMED_TTL_SECONDS :: i64)"
  by (simp_all add: ACTIVE_TTL_SECONDS_def CONSUMED_TTL_SECONDS_def)

text \<open>A stored launch is the document its key names, and a consumed one has nothing left of its payload.\<close>

definition payload_erased :: "calculator_launch_document \<Rightarrow> bool" where
  "payload_erased d \<longleftrightarrow>
     ld_source_project_id d = None \<and> ld_source_project_etag d = None \<and> ld_source_formula_version d = None \<and>
     ld_source_azure_snapshot_id d = None \<and> ld_manifest_sha256 d = None \<and> ld_manifest d = None"

definition launch_entry_ok :: "launch_env \<Rightarrow> string \<times> uuid \<Rightarrow> stored_launch \<Rightarrow> bool" where
  "launch_entry_ok E key stored \<longleftrightarrow>
     launch_body_ok E (sl_document stored) (fst key) (snd key) \<and> launch_stamps_ok E (sl_document stored) \<and>
     (ld_status (sl_document stored) = Consumed \<longrightarrow> payload_erased (sl_document stored))"

lemma restamped_fields:
  assumes "restamped stored stored'"
  shows "ld_status (sl_document stored') = ld_status (sl_document stored)"
    and "ld_companion_instance_id (sl_document stored') = ld_companion_instance_id (sl_document stored)"
    and "payload_erased (sl_document stored') \<longleftrightarrow> payload_erased (sl_document stored)"
    and "sl_version stored' = sl_version stored"
  using assms by (auto simp: restamped_def payload_erased_def)

definition claimed_document ::
  "calculator_launch_document \<Rightarrow> uuid \<Rightarrow> string \<Rightarrow> calculator_launch_document" where
  "claimed_document d inst version =
     d\<lparr>ld_status := Claimed, ld_companion_instance_id := Some inst, ld_companion_version := Some version\<rparr>"

definition consumed_document :: "calculator_launch_document \<Rightarrow> calculator_launch_document" where
  "consumed_document d =
     d\<lparr>ld_status := Consumed, ld_source_project_id := None, ld_source_project_etag := None,
       ld_source_formula_version := None, ld_source_azure_snapshot_id := None, ld_manifest_sha256 := None,
       ld_manifest := None\<rparr>"

lemma claimed_document_ok:
  assumes "launch_body_ok E d owner i" "launch_stamps_ok E d" "ld_status d = Ready"
  shows "launch_body_ok E (claimed_document d inst version) owner i \<and>
    launch_stamps_ok E (claimed_document d inst version)"
  using assms
  by (simp add: launch_body_ok_def launch_stamps_ok_def launch_status_consistent_def claimed_document_def
      active_payload_present_def)

lemma consumed_document_ok:
  assumes "launch_body_ok E d owner i" "launch_stamps_ok E d" "ld_status d = Claimed"
  shows "launch_body_ok E (consumed_document d) owner i \<and> launch_stamps_ok E (consumed_document d) \<and>
    payload_erased (consumed_document d)"
  using assms
  by (simp add: launch_body_ok_def launch_stamps_ok_def launch_status_consistent_def consumed_document_def
      active_payload_present_def payload_erased_def)

lemma launch_claim_cases:
  assumes "launch_claim E s now owner i inst version = (r, s')"
  obtains (same) "s' = s" "\<And>d. r = Ok d \<Longrightarrow> \<not> lr_poisoned s \<and>
        launch_validate_document E d owner (Some i) = Ok () \<and>
        (\<exists>stored. map_of (lr_launches s) (owner, i) = Some stored \<and>
          sl_document stored = d \<and> ld_status d = Claimed \<and> ld_companion_instance_id d = Some inst)"
  | (claimed) stored v where "map_of (lr_launches s) (owner, i) = Some stored" "\<not> lr_poisoned s"
      "launch_body_ok E (sl_document stored) owner i" "launch_stamps_ok E (sl_document stored)"
      "ld_status (sl_document stored) = Ready"
      "ensure_not_expired E (sl_document stored) now = Ok ()"
      "checked_add (sl_version stored) 1 = Some v"
      "(r, s') = store_restamped s (owner, i) (restamp E now ACTIVE_TTL_SECONDS owner i
         \<lparr>sl_document = claimed_document (sl_document stored) inst version, sl_version = v\<rparr>)"
proof (cases "map_of (lr_launches s) (owner, i)")
  case None
  then show thesis using assms by (intro same) (auto simp: launch_claim_def split: if_splits)
next
  case (Some stored)
  let ?d = "sl_document stored"
  let ?m = "obind (launch_validate_document E ?d owner (Some i)) (\<lambda>_. ensure_not_expired E ?d now)"
  have panic: "?m \<noteq> Panic" by (simp add: obind_Panic_iff)
  consider (stop) e where "r = Err e" "s' = s" | (go) "?m = Ok ()" "\<not> lr_poisoned s"
    using assms Some panic by (cases ?m) (auto simp: launch_claim_def Let_def split: if_splits)
  then show thesis
  proof cases
    case go
    have d: "launch_body_ok E ?d owner i" "launch_stamps_ok E ?d" "ensure_not_expired E ?d now = Ok ()"
      using go(1) unfolding obind_unit_Ok ex_unit launch_validate_Ok by blast+
    show thesis
    proof (cases "ld_status ?d")
      case Ready
      show thesis
      proof (cases "checked_add (sl_version stored) 1")
        case None
        then show thesis using assms Some go Ready by (intro same) (auto simp: launch_claim_def Let_def)
      next
        case v: (Some v)
        show thesis
          by (rule claimed [OF Some go(2) d(1,2) Ready d(3) v])
             (use assms Some go Ready v in \<open>simp add: launch_claim_def Let_def claimed_document_def\<close>)
      qed
    next
      case Claimed
      have "launch_validate_document E ?d owner (Some i) = Ok ()" using d(1,2) by (simp only: launch_validate_Ok)
      then show thesis using assms Some go Claimed
        by (intro same) (auto simp: launch_claim_def Let_def split: if_splits)
    next
      case Consumed
      then show thesis using assms Some go by (intro same) (auto simp: launch_claim_def Let_def)
    qed
  qed (use same in simp)
qed
lemma launch_acknowledge_cases:
  assumes "launch_acknowledge E s now owner i inst tag = (r, s')"
  obtains (same) "s' = s" "r = Ok () \<Longrightarrow> \<exists>stored. map_of (lr_launches s) (owner, i) = Some stored \<and>
        ld_status (sl_document stored) = Consumed \<and> ld_companion_instance_id (sl_document stored) = Some inst"
  | (consumed) stored v r' where "map_of (lr_launches s) (owner, i) = Some stored" "\<not> lr_poisoned s"
      "launch_body_ok E (sl_document stored) owner i" "launch_stamps_ok E (sl_document stored)"
      "ld_status (sl_document stored) = Claimed" "ld_companion_instance_id (sl_document stored) = Some inst"
      "ensure_not_expired E (sl_document stored) now = Ok ()" "ld_etag (sl_document stored) = tag"
      "checked_add (sl_version stored) 1 = Some v" "r = obind r' (\<lambda>_. Ok ())"
      "(r', s') = store_restamped s (owner, i) (restamp E now CONSUMED_TTL_SECONDS owner i
         \<lparr>sl_document = consumed_document (sl_document stored), sl_version = v\<rparr>)"
proof (cases "map_of (lr_launches s) (owner, i)")
  case None
  then show thesis using assms by (intro same) (auto simp: launch_acknowledge_def split: if_splits)
next
  case (Some stored)
  let ?d = "sl_document stored"
  let ?n = "if ld_status ?d \<noteq> Claimed \<or> ld_companion_instance_id ?d \<noteq> Some inst then Err LaunchConflict
      else if ld_etag ?d \<noteq> tag then Err LaunchPreconditionFailed
      else ok_or (checked_add (sl_version stored) 1) LaunchUnavailable"
  let ?m = "obind (ensure_not_expired E ?d now) (\<lambda>_. ?n)"
  have panic: "?m \<noteq> Panic" by (simp add: obind_Panic_iff)
  consider (poisoned) "lr_poisoned s"
    | (invalid) e where "\<not> lr_poisoned s" "launch_validate_document E ?d owner (Some i) = Err e"
    | (again) "\<not> lr_poisoned s" "launch_validate_document E ?d owner (Some i) = Ok ()" "ld_status ?d = Consumed"
        "ld_companion_instance_id ?d = Some inst"
    | (stop) e where "\<not> lr_poisoned s" "launch_validate_document E ?d owner (Some i) = Ok ()"
        "\<not> (ld_status ?d = Consumed \<and> ld_companion_instance_id ?d = Some inst)" "?m = Err e"
    | (go) v where "\<not> lr_poisoned s" "launch_validate_document E ?d owner (Some i) = Ok ()"
        "\<not> (ld_status ?d = Consumed \<and> ld_companion_instance_id ?d = Some inst)" "?m = Ok v"
    using panic by (cases "launch_validate_document E ?d owner (Some i)"; cases ?m) auto
  then show thesis
  proof cases
    case poisoned
    then show thesis using assms by (intro same) (simp_all add: launch_acknowledge_def)
  next
    case invalid
    then show thesis using assms Some by (intro same) (simp_all add: launch_acknowledge_def Let_def)
  next
    case again
    then show thesis using assms Some by (intro same) (simp_all add: launch_acknowledge_def Let_def)
  next
    case stop
    then have "launch_acknowledge E s now owner i inst tag = (Err e, s)"
      using Some by (simp only: launch_acknowledge_def Let_def option.case outcome.case if_False)
    then show thesis using assms by (intro same) simp_all
  next
    case go
    let ?result = "store_restamped s (owner, i) (restamp E now CONSUMED_TTL_SECONDS owner i
         \<lparr>sl_document = consumed_document ?d, sl_version = v\<rparr>)"
    have "launch_acknowledge E s now owner i inst tag = (obind (fst ?result) (\<lambda>_. Ok ()), snd ?result)"
      using Some go by (simp only: launch_acknowledge_def Let_def option.case outcome.case if_False
          consumed_document_def case_prod_beta)
    then have run: "r = obind (fst ?result) (\<lambda>_. Ok ())" "s' = snd ?result"
      using assms by simp_all
    have ne: "ensure_not_expired E ?d now = Ok ()" and n: "?n = Ok v"
      using go(4) unfolding obind_unit_Ok ex_unit by blast+
    have st: "ld_status ?d = Claimed" "ld_companion_instance_id ?d = Some inst" "ld_etag ?d = tag"
      "checked_add (sl_version stored) 1 = Some v"
      using n by (simp_all split: if_splits)
    have ok: "launch_body_ok E ?d owner i" "launch_stamps_ok E ?d"
      using go(2) unfolding launch_validate_Ok by blast+
    show thesis by (rule consumed [OF Some go(1) ok st(1,2) ne st(3,4) run(1)]) (simp add: run(2))
  qed
qed

lemma store_restamped_launches:
  assumes "(r, s') = store_restamped s key (r0, stored')"
  shows "map_of (lr_launches s') = (map_of (lr_launches s))(key \<mapsto> stored')"
    and "r = obind r0 (\<lambda>_. Ok (sl_document stored'))"
    and "lr_launches s' = AList.update key stored' (lr_launches s)"
    and "lr_poisoned s' = (lr_poisoned s \<or> r0 = Panic)"
  using assms by (auto simp: store_restamped_def Let_def put_launch_def poison_launches_def update_conv' split: if_splits)

text \<open>The effect of a request on the stored launches.\<close>

lemma launch_effect_cases:
  assumes laws: "time_laws (le_time E)" and run: "run_launch_request E s (now, u) = (r, s')"
  obtains (same) "map_of (lr_launches s') = map_of (lr_launches s)"
  | (inserted) owner i d v where "map_of (lr_launches s) (owner, i) = None"
      "check_no_active E owner now (lr_launches s) = Ok ()"
      "map_of (lr_launches s') = (map_of (lr_launches s))((owner, i) \<mapsto> \<lparr>sl_document = d, sl_version = v\<rparr>)"
      "launch_entry_ok E (owner, i) \<lparr>sl_document = d, sl_version = v\<rparr>" "ld_status d = Ready"
  | (rewritten) owner i stored stored' where "map_of (lr_launches s) (owner, i) = Some stored"
      "map_of (lr_launches s') = (map_of (lr_launches s))((owner, i) \<mapsto> stored')"
      "is_active (sl_document stored)" "ensure_not_expired E (sl_document stored) now = Ok ()"
      "launch_entry_ok E (owner, i) stored'" "ld_status (sl_document stored') \<noteq> Ready"
      "ld_status (sl_document stored) = Claimed \<Longrightarrow>
         ld_companion_instance_id (sl_document stored') = ld_companion_instance_id (sl_document stored)"
  | (purged) owner pid where "u = PurgeProject owner pid"
      "lr_launches s' = retain (\<lambda>(stored_owner, _) stored.
              stored_owner \<noteq> owner \<or> ld_source_project_id (sl_document stored) \<noteq> Some pid \<or>
              ld_status (sl_document stored) = Consumed) (lr_launches s)"
proof (cases u)
  case (CreateLaunch owner launch)
  then obtain r0 where c: "launch_create E s now owner launch = (r0, s')"
    using run by (auto simp: case_prod_beta) (metis prod.collapse)
  from c show thesis
  proof (cases rule: launch_create_cases)
    case panicked
    then show thesis by (intro same) (simp add: poison_launches_def)
  next
    case (inserted d)
    then have "launch_entry_ok E (owner, nl_id launch) \<lparr>sl_document = d, sl_version = 1\<rparr>"
      by (simp add: launch_entry_ok_def launch_validate_Ok)
    then show thesis using that(2) [of owner "nl_id launch" d 1] inserted
      by (simp add: put_launch_def update_conv')
  qed (use same in simp)
next
  case (ClaimLaunch owner i inst version)
  then obtain r0 where c: "launch_claim E s now owner i inst version = (r0, s')"
    using run by (auto simp: case_prod_beta) (metis prod.collapse)
  from c show thesis
  proof (cases rule: launch_claim_cases)
    case (claimed stored v)
    obtain q stored' where res: "restamp E now ACTIVE_TTL_SECONDS owner i
         \<lparr>sl_document = claimed_document (sl_document stored) inst version, sl_version = v\<rparr> = (q, stored')" by force
    note doc = claimed_document_ok [OF claimed(3,4,5), of inst version]
    have st: "restamped \<lparr>sl_document = claimed_document (sl_document stored) inst version, sl_version = v\<rparr> stored'"
      "launch_body_ok E (sl_document stored') owner i" "launch_stamps_ok E (sl_document stored')"
      using restamp_cases [OF laws _ _ ttl_positive(1) res] doc by simp_all
    have "ld_status (sl_document stored') = Claimed"
      using restamped_fields(1) [OF st(1)] by (simp add: claimed_document_def)
    then show thesis using rewritten [OF claimed(1), of stored'] st claimed(5,6)
        store_restamped_launches(1) [OF claimed(8)[unfolded res]]
      by (simp add: launch_entry_ok_def is_active_def)
  qed (use same in simp)
next
  case (AcknowledgeLaunch owner i inst tag)
  then obtain r0 where c: "launch_acknowledge E s now owner i inst tag = (r0, s')"
    using run by (auto simp: case_prod_beta) (metis prod.collapse)
  from c show thesis
  proof (cases rule: launch_acknowledge_cases)
    case (consumed stored v r')
    obtain q stored' where res: "restamp E now CONSUMED_TTL_SECONDS owner i
         \<lparr>sl_document = consumed_document (sl_document stored), sl_version = v\<rparr> = (q, stored')" by force
    note doc = consumed_document_ok [OF consumed(3,4,5)]
    have st: "restamped \<lparr>sl_document = consumed_document (sl_document stored), sl_version = v\<rparr> stored'"
      "launch_body_ok E (sl_document stored') owner i" "launch_stamps_ok E (sl_document stored')"
      using restamp_cases [OF laws _ _ ttl_positive(2) res] doc by simp_all
    have "ld_status (sl_document stored') = Consumed" "payload_erased (sl_document stored')"
      "ld_companion_instance_id (sl_document stored') = ld_companion_instance_id (sl_document stored)"
      using restamped_fields [OF st(1)] doc by (simp_all add: consumed_document_def)
    then show thesis using rewritten [OF consumed(1), of stored'] st consumed(5,7)
        store_restamped_launches(1) [OF consumed(11)[unfolded res]]
      by (simp add: launch_entry_ok_def is_active_def)
  qed (use same in simp)
next
  case (PurgeProject owner pid)
  then show thesis using run same purged by (auto simp: launch_purge_project_def split: if_splits)
qed
section \<open>The invariant of the store\<close>

definition launch_live :: "launch_env \<Rightarrow> instant \<Rightarrow> stored_launch \<Rightarrow> bool" where
  "launch_live E now stored \<longleftrightarrow>
     is_active (sl_document stored) \<and> ensure_not_expired E (sl_document stored) now = Ok ()"

definition launch_sound :: "launch_env \<Rightarrow> launch_repository \<Rightarrow> bool" where
  "launch_sound E s \<longleftrightarrow>
     well_keyed (lr_launches s) \<and>
     (\<forall>key stored. map_of (lr_launches s) key = Some stored \<longrightarrow> launch_entry_ok E key stored)"

text \<open>With readings in lock order there is moreover one live launch per owner.\<close>

definition launch_inv :: "launch_env \<Rightarrow> instant \<Rightarrow> launch_repository \<Rightarrow> bool" where
  "launch_inv E now s \<longleftrightarrow>
     launch_sound E s \<and>
     (\<forall>owner i j st st'. map_of (lr_launches s) (owner, i) = Some st \<longrightarrow> launch_live E now st \<longrightarrow>
        map_of (lr_launches s) (owner, j) = Some st' \<longrightarrow> launch_live E now st' \<longrightarrow> i = j)"

lemma launch_live_earlier: "launch_live E now' stored \<Longrightarrow> now \<le> now' \<Longrightarrow> launch_live E now stored"
  by (auto simp: launch_live_def ensure_not_expired_Ok)

lemma launch_inv_later: "launch_inv E now s \<Longrightarrow> now \<le> now' \<Longrightarrow> launch_inv E now' s"
proof -
  assume inv: "launch_inv E now s" and "now \<le> now'"
  then have "launch_live E now st" if "launch_live E now' st" for st using launch_live_earlier that by blast
  then show ?thesis using inv unfolding launch_inv_def by blast
qed

lemma check_no_active_Ok:
  assumes "check_no_active E owner now m = Ok ()" "(key, stored) \<in> set m"
    "ld_owner_id (sl_document stored) = owner"
  shows "\<not> launch_live E now stored"
  using assms
proof (induction m)
  case (Cons entry rest)
  obtain k st where e: "entry = (k, st)" by (cases entry) auto
  have tail: "check_no_active E owner now rest = Ok ()"
    using Cons.prems(1) e by (cases "is_expired E (sl_document st) now") (auto split: if_splits)
  show ?case
  proof (cases "(key, stored) = entry")
    case True
    then show ?thesis using Cons.prems(1,3) e
      by (cases "is_expired E (sl_document st) now")
         (auto simp: launch_live_def ensure_not_expired_def split: if_splits)
  qed (use Cons.IH [OF tail] Cons.prems in auto)
qed simp

lemma store_restamped_keys:
  "(r, s') = store_restamped s key p \<Longrightarrow> lr_launches s' = AList.update key (snd p) (lr_launches s)"
  by (cases p) (simp add: store_restamped_launches(3))

lemma run_launch_keys:
  assumes "well_keyed (lr_launches s)" "run_launch_request E s (now, u) = (r, s')"
  shows "well_keyed (lr_launches s')"
proof (cases u)
  case (CreateLaunch owner launch)
  obtain q where c: "launch_create E s now owner launch = (q, s')"
    using assms(2) CreateLaunch by (auto simp: case_prod_beta) (metis prod.collapse)
  from c show ?thesis
    by (cases rule: launch_create_cases) (use assms(1) in \<open>simp_all add: poison_launches_def put_launch_def\<close>)
next
  case (ClaimLaunch owner i inst version)
  obtain q where c: "launch_claim E s now owner i inst version = (q, s')"
    using assms(2) ClaimLaunch by (auto simp: case_prod_beta) (metis prod.collapse)
  from c show ?thesis
  proof (cases rule: launch_claim_cases)
    case (claimed stored v)
    then show ?thesis using assms(1) store_restamped_keys [OF claimed(8)]
      by simp
  qed (use assms(1) in simp)
next
  case (AcknowledgeLaunch owner i inst tag)
  obtain q where c: "launch_acknowledge E s now owner i inst tag = (q, s')"
    using assms(2) AcknowledgeLaunch by (auto simp: case_prod_beta) (metis prod.collapse)
  from c show ?thesis
  proof (cases rule: launch_acknowledge_cases)
    case (consumed stored v r')
    then show ?thesis using assms(1) store_restamped_keys [OF consumed(11)]
      by simp
  qed (use assms(1) in simp)
next
  case (PurgeProject owner pid)
  then show ?thesis using assms by (auto simp: launch_purge_project_def split: if_splits)
qed

lemma entry_owner: "launch_entry_ok E key stored \<Longrightarrow> ld_owner_id (sl_document stored) = fst key"
  by (simp add: launch_entry_ok_def launch_body_ok_def)

lemma launch_sound_request:
  assumes laws: "time_laws (le_time E)" and inv: "launch_sound E s"
    and run: "run_launch_request E s (now, u) = (r, s')"
  shows "launch_sound E s'"
proof -
  have keyed: "well_keyed (lr_launches s)"
    and ok: "\<And>key st. map_of (lr_launches s) key = Some st \<Longrightarrow> launch_entry_ok E key st"
    using inv by (auto simp: launch_sound_def)
  note keys = run_launch_keys [OF keyed run]
  from laws run show ?thesis
  proof (cases rule: launch_effect_cases)
    case (purged owner pid)
    then show ?thesis using keyed keys ok
      by (auto simp: launch_sound_def map_of_retain split: option.splits if_splits)
  qed (use keys ok in \<open>auto simp: launch_sound_def\<close>)
qed

lemma launch_inv_request:
  assumes laws: "time_laws (le_time E)" and inv: "launch_inv E now s"
    and run: "run_launch_request E s (now, u) = (r, s')"
  shows "launch_inv E now s'"
proof -
  have sound: "launch_sound E s" using inv by (simp add: launch_inv_def)
  note sound' = launch_sound_request [OF laws sound run]
  have ok: "map_of (lr_launches s) key = Some st \<Longrightarrow> launch_entry_ok E key st" for key st
    using sound unfolding launch_sound_def by blast
  have one: "map_of (lr_launches s) (owner, i) = Some st \<Longrightarrow> launch_live E now st \<Longrightarrow>
      map_of (lr_launches s) (owner, j) = Some st' \<Longrightarrow> launch_live E now st' \<Longrightarrow> i = j" for owner i j st st'
    using inv unfolding launch_inv_def by blast
  from laws run show ?thesis
  proof (cases rule: launch_effect_cases)
    case same
    then show ?thesis using inv sound' by (simp add: launch_inv_def)
  next
    case (inserted owner i d v)
    have dead: "\<not> launch_live E now st" if "map_of (lr_launches s) (owner, j) = Some st" for j st
      using check_no_active_Ok [OF inserted(2) map_of_SomeD [OF that]] entry_owner [OF ok [OF that]] by simp
    show ?thesis unfolding launch_inv_def
    proof (intro conjI sound' allI impI)
      fix owner' a b st st'
      assume "map_of (lr_launches s') (owner', a) = Some st" "launch_live E now st"
        "map_of (lr_launches s') (owner', b) = Some st'" "launch_live E now st'"
      then show "a = b" using one dead unfolding inserted(3) by (auto split: if_splits)
    qed
  next
    case (rewritten owner i stored stored')
    have live: "launch_live E now stored" using rewritten(3,4) by (simp add: launch_live_def)
    show ?thesis unfolding launch_inv_def
    proof (intro conjI sound' allI impI)
      fix owner' a b st st'
      assume "map_of (lr_launches s') (owner', a) = Some st" "launch_live E now st"
        "map_of (lr_launches s') (owner', b) = Some st'" "launch_live E now st'"
      then show "a = b" using one [of owner' _ st _ st'] one [OF rewritten(1) live] one [OF _ _ rewritten(1) live]
        unfolding rewritten(2) by (auto split: if_splits)
    qed
  next
    case (purged owner pid)
    have sub: "map_of (lr_launches s') key = Some st \<Longrightarrow> map_of (lr_launches s) key = Some st" for key st
      using sound purged(2) by (auto simp: launch_sound_def map_of_retain split: option.splits if_splits)
    show ?thesis unfolding launch_inv_def using sound' one sub by blast
  qed
qed

lemma launch_sound_new: "launch_sound E new_launch_repository"
  by (simp add: launch_sound_def new_launch_repository_def)

lemma launch_inv_new: "launch_inv E now new_launch_repository"
  using launch_sound_new by (simp add: launch_inv_def new_launch_repository_def)

lemma launch_reachable_sound:
  assumes "time_laws (le_time E)" "launch_reachable E now s"
  shows "launch_sound E s"
  using assms(2)
proof induction
  case (start now)
  show ?case by (rule launch_sound_new)
next
  case (request now s now' reading u r s')
  then show ?case using launch_sound_request [OF assms(1)] by blast
qed

lemma launch_run_inv:
  assumes "time_laws (le_time E)" "launch_inv E now s" "sorted (map fst us)" "\<And>u. u \<in> set us \<Longrightarrow> now \<le> fst u"
    and "now \<le> later" "\<And>u. u \<in> set us \<Longrightarrow> fst u \<le> later"
  shows "launch_inv E later (snd (run_ops (run_launch_request E) s us))"
  using assms(2-)
proof (induction us arbitrary: now s)
  case Nil
  then show ?case using launch_inv_later by simp
next
  case (Cons u us)
  obtain t q where u: "u = (t, q)" by force
  obtain r s' where run: "run_launch_request E s (t, q) = (r, s')" by force
  have "launch_inv E t s" using launch_inv_later [OF Cons.prems(1)] Cons.prems(3) [of u] u by simp
  then have "launch_inv E t s'" using launch_inv_request [OF assms(1) _ run] by blast
  moreover have "sorted (map fst us)" "\<And>v. v \<in> set us \<Longrightarrow> t \<le> fst v" using Cons.prems(2) u by auto
  moreover have "t \<le> later" "\<And>v. v \<in> set us \<Longrightarrow> fst v \<le> later" using Cons.prems(5) [of u] Cons.prems(5) u by auto
  ultimately have "launch_inv E later (snd (run_ops (run_launch_request E) s' us))" by (rule Cons.IH)
  then show ?case using run u by (simp add: run_ops_snd_Cons)
qed

text \<open>
  C27: in every reachable store each launch is stored under the owner and ID its document names and passes
  the document check, even after a step that failed half-way; a launch has a companion exactly from its
  claim on, and nothing of the project's data once it is consumed.
\<close>
theorem launch_documents_valid:
  assumes "time_laws (le_time E)" "launch_reachable E now s"
    and "map_of (lr_launches s) (owner, i) = Some stored"
  shows "launch_validate_document E (sl_document stored) owner (Some i) = Ok () \<and>
    (ld_companion_instance_id (sl_document stored) = None \<longleftrightarrow> ld_status (sl_document stored) = Ready) \<and>
    (ld_status (sl_document stored) = Consumed \<longleftrightarrow> payload_erased (sl_document stored))"
proof -
  let ?d = "sl_document stored"
  have e: "launch_entry_ok E (owner, i) stored"
    using launch_reachable_sound [OF assms(1,2)] assms(3) unfolding launch_sound_def by blast
  then have "launch_validate_document E ?d owner (Some i) = Ok ()" "launch_status_consistent ?d"
    by (simp_all add: launch_validate_Ok launch_entry_ok_def launch_body_ok_def)
  then show ?thesis using e
    by (cases "ld_status ?d")
       (auto simp: launch_status_consistent_def active_payload_present_def payload_erased_def launch_entry_ok_def)
qed

text \<open>
  C26: where the requests hold the lock in the order of their clock readings, an owner never has two
  launches that are ready or claimed and not yet expired, at the last reading and at any later time.
  Without that order it fails: \<open>delayed_claim_two_active_launches\<close>.
\<close>
theorem one_active_launch:
  assumes "time_laws (le_time E)" "sorted (map fst us)" "\<And>u. u \<in> set us \<Longrightarrow> fst u \<le> later"
    and "s = snd (run_ops (run_launch_request E) new_launch_repository us)"
    and "map_of (lr_launches s) (owner, i) = Some st" "map_of (lr_launches s) (owner, j) = Some st'"
    and "is_active (sl_document st)" "ensure_not_expired E (sl_document st) later = Ok ()"
    and "is_active (sl_document st')" "ensure_not_expired E (sl_document st') later = Ok ()"
  shows "i = j"
proof -
  have "launch_inv E later s"
  proof (cases us)
    case Nil
    then show ?thesis using launch_inv_new assms(4) by simp
  next
    case (Cons u rest)
    have "launch_inv E later (snd (run_ops (run_launch_request E) new_launch_repository us))"
      by (rule launch_run_inv [OF assms(1) launch_inv_new [of E "fst u"] assms(2)]) (use Cons assms(2,3) in auto)
    then show ?thesis using assms(4) by simp
  qed
  then show ?thesis using assms(5-) by (auto simp: launch_inv_def launch_live_def)
qed

section \<open>One companion per launch\<close>

definition held_by :: "string \<times> uuid \<Rightarrow> uuid \<Rightarrow> launch_repository \<Rightarrow> bool" where
  "held_by key inst s \<longleftrightarrow>
     (\<exists>stored. map_of (lr_launches s) key = Some stored \<and> ld_status (sl_document stored) \<noteq> Ready \<and>
        ld_companion_instance_id (sl_document stored) = Some inst)"

lemma held_by_request:
  assumes "time_laws (le_time E)" "well_keyed (lr_launches s)" "held_by (owner, i) inst s"
    and run: "run_launch_request E s (now, u) = (r, s')" and "\<And>pid. u \<noteq> PurgeProject owner pid"
  shows "held_by (owner, i) inst s'"
proof -
  obtain st where st: "map_of (lr_launches s) (owner, i) = Some st" "ld_status (sl_document st) \<noteq> Ready"
    "ld_companion_instance_id (sl_document st) = Some inst"
    using assms(3) by (auto simp: held_by_def)
  from assms(1) run show ?thesis
  proof (cases rule: launch_effect_cases)
    case (rewritten owner' i' stored stored')
    show ?thesis
    proof (cases "(owner', i') = (owner, i)")
      case True
      then have "stored = st" using rewritten(1) st(1) by simp
      then show ?thesis using rewritten(2,3,6,7) True st by (auto simp: held_by_def is_active_def)
    next
      case False
      then show ?thesis using rewritten(2) st by (auto simp: held_by_def)
    qed
  next
    case (purged owner' pid)
    then have "owner' \<noteq> owner" using assms(5) by blast
    then show ?thesis using purged(2) st assms(2) by (simp add: held_by_def map_of_retain)
  qed (use st in \<open>auto simp: held_by_def\<close>)
qed

lemma claim_holds:
  assumes "time_laws (le_time E)" "launch_claim E s now owner i inst version = (Ok d, s')"
  shows "held_by (owner, i) inst s'"
  using assms(2)
proof (cases rule: launch_claim_cases)
  case same
  then show ?thesis by (auto simp: held_by_def)
next
  case (claimed stored v)
  obtain q stored' where res: "restamp E now ACTIVE_TTL_SECONDS owner i
       \<lparr>sl_document = claimed_document (sl_document stored) inst version, sl_version = v\<rparr> = (q, stored')" by force
  have "restamped \<lparr>sl_document = claimed_document (sl_document stored) inst version, sl_version = v\<rparr> stored'"
    using restamp_cases [OF assms(1) _ _ ttl_positive(1) res] claimed_document_ok [OF claimed(3,4,5)] by simp
  from restamped_fields(1,2) [OF this] show ?thesis
    using store_restamped_launches(1) [OF claimed(8)[unfolded res]]
    by (simp add: held_by_def claimed_document_def)
qed

lemma held_claim:
  assumes "held_by (owner, i) inst s" "launch_claim E s now owner i inst' version = (Ok d, s')"
  shows "inst' = inst"
  using assms(2) assms(1) by (cases rule: launch_claim_cases) (auto simp: held_by_def)

lemma run_launch_claim_Ok:
  assumes "fst (run_launch_request E s (now, ClaimLaunch owner i inst version)) = Ok y"
  obtains d s' where "launch_claim E s now owner i inst version = (Ok d, s')"
    "snd (run_launch_request E s (now, ClaimLaunch owner i inst version)) = s'"
  using assms by (cases "launch_claim E s now owner i inst version") (auto simp: obind_Ok_iff)

text \<open>
  C25: exactly one companion holds a launch. In any interleaving of requests, two claims of one launch that
  both succeed come from the same companion instance, unless the owner purged the project in between.
\<close>
theorem one_companion_per_launch:
  assumes "time_laws (le_time E)" "launch_reachable E t s" "i < j" "j < length us"
    and "us ! i = (now, ClaimLaunch owner launch_id inst version)"
    and "fst (run_ops (run_launch_request E) s us) ! i = Ok y"
    and "us ! j = (now', ClaimLaunch owner launch_id inst' version')"
    and "fst (run_ops (run_launch_request E) s us) ! j = Ok y'"
    and "\<And>k pid. i < k \<Longrightarrow> k < j \<Longrightarrow> snd (us ! k) \<noteq> PurgeProject owner pid"
  shows "inst' = inst"
proof -
  let ?f = "run_launch_request E" and ?mid = "drop (Suc i) (take j us)"
  let ?si = "snd (run_ops ?f s (take i us))" and ?sj = "snd (run_ops ?f s (take j us))"
  have keyed: "well_keyed (lr_launches (snd (run_ops ?f s vs)))" for vs
  proof (rule run_ops_invariant [where P = "\<lambda>s. well_keyed (lr_launches s)"])
    show "well_keyed (lr_launches s)" using launch_reachable_sound [OF assms(1,2)] by (simp add: launch_sound_def)
    show "well_keyed (lr_launches (snd (?f s u)))" if "well_keyed (lr_launches s)" for s u
      using run_launch_keys [OF that] by (metis prod.collapse)
  qed
  have "fst (?f ?si (now, ClaimLaunch owner launch_id inst version)) = Ok y"
    using assms(3-6) run_ops_nth [of i us ?f s] by simp
  then obtain d s1 where c1: "launch_claim E ?si now owner launch_id inst version = (Ok d, s1)"
    "snd (?f ?si (us ! i)) = s1"
    using assms(5) by (metis run_launch_claim_Ok)
  have "take i us @ us ! i # ?mid = take j us"
    using assms(3,4) id_take_nth_drop [of i "take j us"] by simp
  then have sj: "?sj = snd (run_ops ?f s1 ?mid)"
    using c1(2) by (metis run_ops_append run_ops_snd_Cons)
  have si: "s1 = snd (run_ops ?f s (take (Suc i) us))"
    using assms(3,4) c1(2) by (simp add: take_Suc_conv_app_nth run_ops_append run_ops_snd_Cons)
  have "well_keyed (lr_launches (snd (run_ops ?f s1 ?mid))) \<and> held_by (owner, launch_id) inst (snd (run_ops ?f s1 ?mid))"
  proof (rule run_ops_invariant [where P = "\<lambda>s. well_keyed (lr_launches s) \<and> held_by (owner, launch_id) inst s"])
    show "well_keyed (lr_launches s1) \<and> held_by (owner, launch_id) inst s1"
      using keyed si claim_holds [OF assms(1) c1(1)] by simp
    fix s u assume u: "u \<in> set ?mid" and P: "well_keyed (lr_launches s) \<and> held_by (owner, launch_id) inst s"
    obtain m where "m < j - Suc i" "u = us ! (Suc (i + m))"
      using u assms(4) by (auto simp: in_set_conv_nth)
    then obtain k where "i < k" "k < j" "u = us ! k" by (intro that [of "Suc (i + m)"]) simp_all
    then have "snd u \<noteq> PurgeProject owner pid" for pid using assms(9) by blast
    then show "well_keyed (lr_launches (snd (?f s u))) \<and> held_by (owner, launch_id) inst (snd (?f s u))"
      using held_by_request [OF assms(1) _ _ _, of s owner launch_id inst "fst u" "snd u"] P
        run_launch_keys [of s E "fst u" "snd u"] by (metis prod.collapse)
  qed
  moreover have "fst (?f ?sj (now', ClaimLaunch owner launch_id inst' version')) = Ok y'"
    using assms(4,7,8) run_ops_nth [of j us ?f s] by simp
  then obtain d' s2 where "launch_claim E ?sj now' owner launch_id inst' version' = (Ok d', s2)"
    by (rule run_launch_claim_Ok)
  ultimately show ?thesis using held_claim sj by metis
qed

section \<open>Retries\<close>

text \<open>
  a companion that repeats a successful claim before it expires is told the same and changes nothing;
  an acknowledgement succeeds only with the claim's ETag, it erases the payload, and repeating it with any
  ETag succeeds and changes nothing; no claim succeeds after it.
\<close>
theorem launch_retries:
  assumes "time_laws (le_time E)" "launch_claim E s now owner i inst version = (Ok d, s1)"
    and "te_parse (le_time E) (ld_claim_expires_at d) = Some expires" "later < expires"
  shows "launch_claim E s1 later owner i inst version' = (Ok d, s1) \<and>
    (\<forall>tag s2. launch_acknowledge E s1 later owner i inst tag = (Ok (), s2) \<longrightarrow>
       tag = ld_etag d \<and>
       (\<exists>stored. map_of (lr_launches s2) (owner, i) = Some stored \<and> payload_erased (sl_document stored)) \<and>
       launch_acknowledge E s2 later' owner i inst tag' = (Ok (), s2) \<and>
       (\<exists>e\<in>{LaunchConflict, LaunchExpired}. launch_claim E s2 later' owner i inst' version' = (Err e, s2)))"
proof -
  obtain stored where st: "map_of (lr_launches s1) (owner, i) = Some stored" "sl_document stored = d"
    "\<not> lr_poisoned s1" "launch_validate_document E d owner (Some i) = Ok ()" "ld_status d = Claimed"
    "ld_companion_instance_id d = Some inst"
    using assms(2)
  proof (cases rule: launch_claim_cases)
    case (claimed stored v)
    obtain q stored' where res: "restamp E now ACTIVE_TTL_SECONDS owner i
         \<lparr>sl_document = claimed_document (sl_document stored) inst version, sl_version = v\<rparr> = (q, stored')" by force
    note doc = claimed_document_ok [OF claimed(3,4,5), of inst version]
    have r: "restamped \<lparr>sl_document = claimed_document (sl_document stored) inst version, sl_version = v\<rparr> stored'"
      "launch_body_ok E (sl_document stored') owner i" "launch_stamps_ok E (sl_document stored')"
      using restamp_cases [OF assms(1) _ _ ttl_positive(1) res] doc by simp_all
    note put = store_restamped_launches [OF claimed(8)[unfolded res]]
    have "q \<noteq> Panic" "sl_document stored' = d" using put(2) by (cases q; simp)+
    then show thesis
      using that [of stored'] put(1,4) r restamped_fields(1,2) [OF r(1)] claimed(2)
      by (simp add: launch_validate_Ok claimed_document_def)
  qed (use that in blast)
  have live: "ensure_not_expired E d later = Ok ()" using assms(3,4) by (simp add: ensure_not_expired_Ok)
  have "launch_claim E s1 later owner i inst version' = (Ok d, s1)"
    using st live by (simp add: launch_claim_def Let_def)
  moreover have "tag = ld_etag d \<and>
       (\<exists>stored. map_of (lr_launches s2) (owner, i) = Some stored \<and> payload_erased (sl_document stored)) \<and>
       launch_acknowledge E s2 later' owner i inst tag' = (Ok (), s2) \<and>
       (\<exists>e\<in>{LaunchConflict, LaunchExpired}. launch_claim E s2 later' owner i inst' version' = (Err e, s2))"
    if ack: "launch_acknowledge E s1 later owner i inst tag = (Ok (), s2)" for tag s2
    using ack
  proof (cases rule: launch_acknowledge_cases)
    case same
    then show ?thesis using st by auto
  next
    case (consumed stored' v r')
    then have stored': "stored' = stored" using st(1) by simp
    obtain q st2 where res: "restamp E later CONSUMED_TTL_SECONDS owner i
         \<lparr>sl_document = consumed_document (sl_document stored'), sl_version = v\<rparr> = (q, st2)" by force
    note doc = consumed_document_ok [OF consumed(3,4,5)]
    have r: "restamped \<lparr>sl_document = consumed_document (sl_document stored'), sl_version = v\<rparr> st2"
      "launch_body_ok E (sl_document st2) owner i" "launch_stamps_ok E (sl_document st2)"
      using restamp_cases [OF assms(1) _ _ ttl_positive(2) res] doc by simp_all
    note put = store_restamped_launches [OF consumed(11)[unfolded res]]
    have "q \<noteq> Panic" using put(2) consumed(10) by (cases q) simp_all
    then have s2: "map_of (lr_launches s2) (owner, i) = Some st2" "\<not> lr_poisoned s2"
      using put(1,4) consumed(2) by simp_all
    have v2: "launch_validate_document E (sl_document st2) owner (Some i) = Ok ()"
      using r by (simp only: launch_validate_Ok)
    have f2: "ld_status (sl_document st2) = Consumed" "ld_companion_instance_id (sl_document st2) = Some inst"
      "payload_erased (sl_document st2)"
      using restamped_fields [OF r(1)] doc consumed(6) by (simp_all add: consumed_document_def)
    have "launch_acknowledge E s2 later' owner i inst tag' = (Ok (), s2)"
      using s2 v2 f2 by (simp add: launch_acknowledge_def Let_def)
    moreover have "\<exists>e\<in>{LaunchConflict, LaunchExpired}. launch_claim E s2 later' owner i inst' version' = (Err e, s2)"
    proof -
      have "te_parse (le_time E) (ld_claim_expires_at (sl_document st2)) \<noteq> None"
        using r(3) by (simp add: launch_stamps_ok_def)
      then have "ensure_not_expired E (sl_document st2) later' \<in> {Ok (), Err LaunchExpired}"
        by (auto simp: ensure_not_expired_def is_expired_def parse_timestamp_def)
      then show ?thesis using s2 v2 f2 by (auto simp: launch_claim_def Let_def)
    qed
    ultimately show ?thesis using consumed(8) stored' st(2) s2(1) f2(3) by blast
  qed
  ultimately show ?thesis by blast
qed
section \<open>A claim that fails half-way\<close>

text \<open>
  the code writes a claim into the store before it has formatted its new expiry. Where that instant
  cannot be written, the claim is answered with an error, yet the launch is held: every other companion is
  refused, although none was ever told that it holds the launch.
\<close>
theorem failed_claim_holds:
  assumes "\<not> lr_poisoned s" "map_of (lr_launches s) (owner, i) = Some stored"
    and "launch_validate_document E (sl_document stored) owner (Some i) = Ok ()"
    and "ld_status (sl_document stored) = Ready" "ensure_not_expired E (sl_document stored) now = Ok ()"
    and "checked_add (sl_version stored) 1 = Some v"
    and "te_checked_add (le_time E) now (duration_seconds ACTIVE_TTL_SECONDS) = Some t" "te_format (le_time E) t = None"
  shows "\<exists>s'. launch_claim E s now owner i inst version = (Err LaunchUnavailable, s') \<and>
    held_by (owner, i) inst s' \<and>
    (\<forall>d s2. launch_claim E s' now' owner i inst' version' = (Ok d, s2) \<longrightarrow> inst' = inst)"
proof -
  let ?claimed = "\<lparr>sl_document = claimed_document (sl_document stored) inst version, sl_version = v\<rparr>"
  obtain r stored' where res: "restamp E now ACTIVE_TTL_SECONDS owner i ?claimed = (r, stored')" by force
  have r: "r = Err LaunchUnavailable" "ld_status (sl_document stored') = Claimed"
    "ld_companion_instance_id (sl_document stored') = Some inst"
    using res assms(7,8)
    by (auto simp: restamp_def launch_format_timestamp_def claimed_document_def Let_def ok_or_def split: option.splits)
  let ?s' = "put_launch s (owner, i) stored'"
  have claim: "launch_claim E s now owner i inst version = (Err LaunchUnavailable, ?s')"
    using assms(1-6) res r(1)
    by (simp add: launch_claim_def Let_def store_restamped_def flip: claimed_document_def)
  have "held_by (owner, i) inst ?s'"
    using r by (simp add: held_by_def put_launch_def map_of_update_apply)
  then show ?thesis using claim held_claim by blast
qed
section \<open>A concrete history\<close>

definition example_launch_env :: launch_env where
  "example_launch_env =
     \<lparr>le_time = example_time (10 ^ 30), le_hash = example_hash, le_manifest_json = (\<lambda>_. Some [1, 2])\<rparr>"

definition example_item :: calculator_manifest_item where
  "example_item =
     \<lparr>cmi_item_key = ''001'', cmi_display_name = ''VM5'', cmi_product = AzureSqlManagedInstance,
      cmi_region = ''eastus'', cmi_deployment_model = SingleInstance,
      cmi_service_tier = CstNextGenerationGeneralPurpose, cmi_hardware_family = PremiumSeries, cmi_vcores = 8,
      cmi_selected_memory_gb = 64, cmi_zone_redundant = False, cmi_quantity = 1, cmi_hours_per_month = 730,
      cmi_purchase_option = CpoPayg, cmi_azure_hybrid_benefit = False, cmi_data_storage_gb = 256,
      cmi_backup_storage_gb = 0,
      cmi_expected_public_annual = \<lparr>cea_compute = 1000, cea_additional_memory = 0, cea_license = 500,
        cea_storage = 100, cea_total_before_parity = 1600\<rparr>\<rparr>"

definition example_manifest :: calculator_manifest where
  "example_manifest =
     \<lparr>cm_schema_version = CALCULATOR_MANIFEST_VERSION,
      cm_calculator_contract_version = CALCULATOR_CONTRACT_VERSION,
      cm_calculator_url = ''https://azure.microsoft.com/en-us/pricing/calculator/'',
      cm_generated_at = ''t'', cm_currency = ''USD'', cm_locale = ''en-US'', cm_estimate_name = ''w'',
      cm_items = [example_item]\<rparr>"

definition example_launch :: new_calculator_launch where
  "example_launch =
     \<lparr>nl_id = 3, nl_source_project_id = 7, nl_source_project_etag = ''e'', nl_source_formula_version = ''1.3.0'',
      nl_source_azure_snapshot_id = ''azure-1'', nl_manifest = example_manifest\<rparr>"

definition example_hash_text :: string where
  "example_hash_text = hex_encode (he_sha256 example_hash [1, 2])"

definition example_ready :: calculator_launch_document where
  "example_ready = launch_document_of example_launch ''ada'' example_hash_text (show_nat 0) (show_nat (600 * 10 ^ 9))"

lemma example_manifest_ok:
  "validate_manifest example_launch_env example_manifest = Ok ()"
  "manifest_sha256 example_launch_env example_manifest = Ok example_hash_text"
  by (simp_all add: validate_manifest_def manifest_sha256_def example_manifest_def example_launch_env_def
      MAX_CALCULATOR_MANIFEST_ITEMS_def MAX_CALCULATOR_MANIFEST_BYTES_def example_hash_text_def)

lemma example_ready_ok:
  "launch_body_ok example_launch_env example_ready ''ada'' 3" "launch_stamps_ok example_launch_env example_ready"
proof -
  show "launch_body_ok example_launch_env example_ready ''ada'' 3"
    using example_manifest_ok
    by (simp add: launch_body_ok_def example_ready_def launch_document_of_def example_launch_def
        launch_status_consistent_def active_payload_present_def)
  have "te_parse (example_time b) (show_nat n) \<noteq> None" for b n by simp
  then show "launch_stamps_ok example_launch_env example_ready"
    using ttl_positive(1)
    by (simp add: launch_stamps_ok_def example_ready_def launch_document_of_def example_launch_env_def)
qed

definition example_store :: "stored_launch \<Rightarrow> launch_repository" where
  "example_store stored = \<lparr>lr_launches = [((''ada'', 3), stored)], lr_poisoned = False\<rparr>"

lemma example_launch_create:
  "launch_create example_launch_env new_launch_repository 0 ''ada'' example_launch =
     (Ok \<lparr>cl_document = example_ready, cl_created = True\<rparr>,
      example_store \<lparr>sl_document = example_ready, sl_version = 1\<rparr>)"
proof -
  have v: "launch_validate_document example_launch_env example_ready ''ada'' (Some 3) = Ok ()"
    using example_ready_ok by (simp only: launch_validate_Ok)
  have f: "launch_format_timestamp example_launch_env 0 = Ok (show_nat 0)"
    "launch_format_timestamp example_launch_env 600000000000 = Ok (show_nat (600 * 10 ^ 9))"
    by (simp_all add: launch_format_timestamp_def example_launch_env_def)
  have a: "te_checked_add (le_time example_launch_env) 0 (duration_seconds ACTIVE_TTL_SECONDS) = Some 600000000000"
    by (simp add: example_launch_env_def duration_seconds_def ACTIVE_TTL_SECONDS_def)
  have d: "launch_document_of example_launch ''ada'' example_hash_text (show_nat 0) (show_nat (600 * 10 ^ 9)) =
      example_ready" "nl_id example_launch = 3" "nl_manifest example_launch = example_manifest"
    by (simp_all add: example_ready_def example_launch_def)
  have "insert_new_launch example_launch_env new_launch_repository 0 ''ada'' example_launch example_hash_text =
      (Ok \<lparr>cl_document = example_ready, cl_created = True\<rparr>,
       put_launch new_launch_repository (''ada'', 3) \<lparr>sl_document = example_ready, sl_version = 1\<rparr>)"
    unfolding insert_new_launch_def a f
    by (simp only: Let_def new_launch_repository_def launch_repository.simps check_no_active.simps obind.simps
        or_panic_Some f d v outcome.case)
  then show ?thesis using example_manifest_ok
    by (simp add: launch_create_def d new_launch_repository_def put_launch_def example_store_def)
qed

lemma example_launch_reachable:
  "launch_reachable example_launch_env 0 (example_store \<lparr>sl_document = example_ready, sl_version = 1\<rparr>)"
  using launch_reachable.request [OF launch_reachable.start order_refl order_refl, of example_launch_env 0
      "CreateLaunch ''ada'' example_launch"]
  by (simp add: example_launch_create)

lemma example_time_env: "time_laws (le_time example_launch_env)"
  by (simp add: example_launch_env_def example_time_laws)

theorem launch_documents_valid_witness:
  "launch_validate_document example_launch_env example_ready ''ada'' (Some 3) = Ok ()"
  using launch_documents_valid [OF example_time_env example_launch_reachable, of "''ada''" 3]
  by (simp add: example_store_def)

theorem one_active_launch_witness:
  "\<not> (\<exists>j st. j \<noteq> 3 \<and>
     map_of (lr_launches (example_store \<lparr>sl_document = example_ready, sl_version = 1\<rparr>)) (''ada'', j) = Some st \<and>
     is_active (sl_document st) \<and> ensure_not_expired example_launch_env (sl_document st) 5 = Ok ())"
proof clarify
  fix j st assume "j \<noteq> 3"
    and st: "map_of (lr_launches (example_store \<lparr>sl_document = example_ready, sl_version = 1\<rparr>)) (''ada'', j) = Some st"
      "is_active (sl_document st)" "ensure_not_expired example_launch_env (sl_document st) 5 = Ok ()"
  have "is_active example_ready" "ensure_not_expired example_launch_env example_ready 5 = Ok ()"
    by (simp_all add: is_active_def ensure_not_expired_Ok example_ready_def launch_document_of_def
        example_launch_env_def)
  then have r: "is_active (sl_document \<lparr>sl_document = example_ready, sl_version = 1\<rparr>)"
    "ensure_not_expired example_launch_env (sl_document \<lparr>sl_document = example_ready, sl_version = 1\<rparr>) 5 = Ok ()"
    by (simp_all only: stored_launch.select_convs)
  have m: "map_of (lr_launches (example_store \<lparr>sl_document = example_ready, sl_version = 1\<rparr>)) (''ada'', 3) =
      Some \<lparr>sl_document = example_ready, sl_version = 1\<rparr>" by (simp add: example_store_def)
  have "3 = j"
    by (rule one_active_launch [OF example_time_env _ _ _ m st(1) r st(2,3), where us = "[(0, CreateLaunch ''ada'' example_launch)]"])
       (simp_all add: run_ops.simps(2) example_launch_create)
  then show False using \<open>j \<noteq> 3\<close> by simp
qed

definition example_claimed :: calculator_launch_document where
  "example_claimed = (claimed_document example_ready 11 ''1.0.0'')
     \<lparr>ld_updated_at := show_nat 5, ld_claim_expires_at := show_nat (5 + 600 * 10 ^ 9),
      ld_ttl := word_of_int ACTIVE_TTL_SECONDS, ld_etag := launch_etag 2\<rparr>"

lemma example_claimed_ok:
  "launch_body_ok example_launch_env example_claimed ''ada'' 3" "launch_stamps_ok example_launch_env example_claimed"
proof -
  note c = claimed_document_ok [OF example_ready_ok, of 11 "''1.0.0''"]
  have st: "ld_status example_ready = Ready" by (simp add: example_ready_def launch_document_of_def)
  show "launch_stamps_ok example_launch_env example_claimed"
    using c st ttl_positive(1) by (simp add: launch_stamps_ok_def example_claimed_def example_launch_env_def)
  show "launch_body_ok example_launch_env example_claimed ''ada'' 3"
    using c st by (simp add: example_claimed_def launch_body_ok_restamped)
qed

lemma example_claim:
  "launch_claim example_launch_env (example_store \<lparr>sl_document = example_ready, sl_version = 1\<rparr>) 5 ''ada'' 3 11 ''1.0.0'' =
     (Ok example_claimed, example_store \<lparr>sl_document = example_claimed, sl_version = 2\<rparr>)"
proof -
  have v: "launch_validate_document example_launch_env example_ready ''ada'' (Some 3) = Ok ()"
    using example_ready_ok by (simp only: launch_validate_Ok)
  have ne: "ensure_not_expired example_launch_env example_ready 5 = Ok ()"
    by (simp add: ensure_not_expired_Ok example_ready_def launch_document_of_def example_launch_env_def)
  have st: "ld_status example_ready = Ready" by (simp add: example_ready_def launch_document_of_def)
  have v2: "launch_validate_document example_launch_env example_claimed ''ada'' (Some 3) = Ok ()"
    using example_claimed_ok by (simp only: launch_validate_Ok)
  have "restamp example_launch_env 5 ACTIVE_TTL_SECONDS ''ada'' 3
      \<lparr>sl_document = claimed_document example_ready 11 ''1.0.0'', sl_version = 2\<rparr> =
      (Ok (), \<lparr>sl_document = example_claimed, sl_version = 2\<rparr>)"
    using v2 by (simp add: restamp_def launch_format_timestamp_def example_launch_env_def duration_seconds_def
        ACTIVE_TTL_SECONDS_def example_claimed_def Let_def)
  then show ?thesis using v ne st
    by (simp add: launch_claim_def example_store_def Let_def checked_add_def store_restamped_def put_launch_def
        claimed_document_def)
qed

theorem one_companion_per_launch_witness:
  "\<not> (\<exists>y. fst (run_launch_request example_launch_env (example_store \<lparr>sl_document = example_claimed, sl_version = 2\<rparr>)
     (6, ClaimLaunch ''ada'' 3 12 ''1.0.0'')) = Ok y)"
proof clarify
  fix y
  let ?us = "[(5, ClaimLaunch ''ada'' 3 11 ''1.0.0''), (6, ClaimLaunch ''ada'' 3 12 ''1.0.0'')]"
  let ?s = "example_store \<lparr>sl_document = example_ready, sl_version = 1\<rparr>"
  assume second: "fst (run_launch_request example_launch_env (example_store \<lparr>sl_document = example_claimed, sl_version = 2\<rparr>)
     (6, ClaimLaunch ''ada'' 3 12 ''1.0.0'')) = Ok y"
  have first: "run_launch_request example_launch_env ?s (5, ClaimLaunch ''ada'' 3 11 ''1.0.0'') =
      (Ok (LaunchClaimed example_claimed), example_store \<lparr>sl_document = example_claimed, sl_version = 2\<rparr>)"
    by (simp add: example_claim)
  have "(12 :: uuid) = 11"
    by (rule one_companion_per_launch [OF example_time_env example_launch_reachable, of 0 1 ?us])
       (use first second in \<open>simp_all add: run_ops.simps(2) case_prod_beta\<close>)
  then show False by simp
qed

definition example_consumed :: calculator_launch_document where
  "example_consumed = (consumed_document example_claimed)
     \<lparr>ld_updated_at := show_nat 6, ld_claim_expires_at := show_nat (6 + 86400 * 10 ^ 9),
      ld_ttl := word_of_int CONSUMED_TTL_SECONDS, ld_etag := launch_etag 3\<rparr>"

lemma example_acknowledge:
  "launch_acknowledge example_launch_env (example_store \<lparr>sl_document = example_claimed, sl_version = 2\<rparr>)
     6 ''ada'' 3 11 (launch_etag 2) = (Ok (), example_store \<lparr>sl_document = example_consumed, sl_version = 3\<rparr>)"
proof -
  have f: "ld_status example_claimed = Claimed" "ld_companion_instance_id example_claimed = Some 11"
    "ld_etag example_claimed = launch_etag 2"
    by (simp_all add: example_claimed_def claimed_document_def)
  have ne: "ensure_not_expired example_launch_env example_claimed 6 = Ok ()"
    by (simp add: ensure_not_expired_Ok example_claimed_def example_launch_env_def)
  note c = consumed_document_ok [OF example_claimed_ok f(1)]
  have stamps: "launch_stamps_ok example_launch_env example_consumed"
    using c ttl_positive(2) by (simp add: launch_stamps_ok_def example_consumed_def example_launch_env_def)
  have body: "launch_body_ok example_launch_env example_consumed ''ada'' 3"
    using c by (simp add: example_consumed_def launch_body_ok_restamped)
  have v: "launch_validate_document example_launch_env example_claimed ''ada'' (Some 3) = Ok ()"
    "launch_validate_document example_launch_env example_consumed ''ada'' (Some 3) = Ok ()"
    using example_claimed_ok body stamps by (simp_all only: launch_validate_Ok)
  have "restamp example_launch_env 6 CONSUMED_TTL_SECONDS ''ada'' 3
      \<lparr>sl_document = consumed_document example_claimed, sl_version = 3\<rparr> =
      (Ok (), \<lparr>sl_document = example_consumed, sl_version = 3\<rparr>)"
    using v(2) by (simp add: restamp_def launch_format_timestamp_def example_launch_env_def duration_seconds_def
        CONSUMED_TTL_SECONDS_def example_consumed_def Let_def)
  then show ?thesis using v(1) ne f
    by (simp add: launch_acknowledge_def example_store_def Let_def checked_add_def store_restamped_def put_launch_def
        flip: consumed_document_def)
qed

theorem launch_retries_witness:
  "launch_claim example_launch_env (example_store \<lparr>sl_document = example_claimed, sl_version = 2\<rparr>) 6 ''ada'' 3 11 ''1.1.0'' =
     (Ok example_claimed, example_store \<lparr>sl_document = example_claimed, sl_version = 2\<rparr>) \<and>
   launch_acknowledge example_launch_env (example_store \<lparr>sl_document = example_consumed, sl_version = 3\<rparr>)
     7 ''ada'' 3 11 ''x'' = (Ok (), example_store \<lparr>sl_document = example_consumed, sl_version = 3\<rparr>)"
  using launch_retries [OF example_time_env example_claim, of "5 + 600 * 10 ^ 9" 6 "''1.1.0''" 7 "''x''" 12]
    example_acknowledge
  by (simp add: example_claimed_def example_launch_env_def)
definition last_launch_env :: launch_env where
  "last_launch_env = example_launch_env\<lparr>le_time := example_time (600 * 10 ^ 9)\<rparr>"

theorem failed_claim_holds_witness:
  "\<exists>s'. launch_claim last_launch_env (example_store \<lparr>sl_document = example_ready, sl_version = 1\<rparr>) 5 ''ada'' 3 11 ''1.0.0'' =
     (Err LaunchUnavailable, s') \<and> held_by (''ada'', 3) 11 s'"
proof -
  have "validate_manifest last_launch_env example_manifest = Ok ()"
    "manifest_sha256 last_launch_env example_manifest = Ok example_hash_text"
    by (simp_all add: validate_manifest_def manifest_sha256_def example_manifest_def last_launch_env_def
        example_launch_env_def MAX_CALCULATOR_MANIFEST_ITEMS_def MAX_CALCULATOR_MANIFEST_BYTES_def example_hash_text_def)
  then have "launch_body_ok last_launch_env example_ready ''ada'' 3"
    by (simp add: launch_body_ok_def example_ready_def launch_document_of_def example_launch_def
        launch_status_consistent_def active_payload_present_def)
  moreover have "launch_stamps_ok last_launch_env example_ready"
    using ttl_positive(1)
    by (simp add: launch_stamps_ok_def example_ready_def launch_document_of_def last_launch_env_def example_launch_env_def)
  ultimately have v: "launch_validate_document last_launch_env example_ready ''ada'' (Some 3) = Ok ()"
    by (simp only: launch_validate_Ok)
  have f: "ld_status example_ready = Ready" "ensure_not_expired last_launch_env example_ready 5 = Ok ()"
    "checked_add (1 :: u64) 1 = Some 2"
    "te_checked_add (le_time last_launch_env) 5 (duration_seconds ACTIVE_TTL_SECONDS) = Some 600000000005"
    "te_format (le_time last_launch_env) 600000000005 = None"
    by (simp_all add: ensure_not_expired_Ok example_ready_def launch_document_of_def last_launch_env_def
        example_launch_env_def checked_add_def duration_seconds_def ACTIVE_TTL_SECONDS_def)
  show ?thesis
    using failed_claim_holds [of "example_store \<lparr>sl_document = example_ready, sl_version = 1\<rparr>" "''ada''" 3
        "\<lparr>sl_document = example_ready, sl_version = 1\<rparr>" last_launch_env 5 2 600000000005 11 "''1.0.0''" 6 12 "''1.0.0''"] v f
    by (simp add: example_store_def) blast
qed

section \<open>A claim that waits for the lock\<close>

text \<open>
  A claim reads the clock just before a launch expires, and gets the lock only after another request has
  created the owner's next launch: it renews the expired launch, and the owner has two active launches.
\<close>

definition next_launch :: new_calculator_launch where
  "next_launch = example_launch\<lparr>nl_id := 4\<rparr>"

definition example_next :: calculator_launch_document where
  "example_next = launch_document_of next_launch ''ada'' example_hash_text
     (show_nat (600 * 10 ^ 9)) (show_nat (1200 * 10 ^ 9))"

definition example_late_claimed :: calculator_launch_document where
  "example_late_claimed = (claimed_document example_ready 11 ''1.0.0'')
     \<lparr>ld_updated_at := show_nat (600 * 10 ^ 9 - 1), ld_claim_expires_at := show_nat (1200 * 10 ^ 9 - 1),
      ld_ttl := word_of_int ACTIVE_TTL_SECONDS, ld_etag := launch_etag 2\<rparr>"

definition example_two :: "calculator_launch_document \<Rightarrow> u64 \<Rightarrow> launch_repository" where
  "example_two d v =
     \<lparr>lr_launches = [((''ada'', 3), \<lparr>sl_document = d, sl_version = v\<rparr>),
        ((''ada'', 4), \<lparr>sl_document = example_next, sl_version = 1\<rparr>)], lr_poisoned = False\<rparr>"

lemma example_next_ok: "launch_validate_document example_launch_env example_next ''ada'' (Some 4) = Ok ()"
proof -
  have "launch_body_ok example_launch_env example_next ''ada'' 4"
    using example_manifest_ok
    by (simp add: launch_body_ok_def example_next_def next_launch_def launch_document_of_def example_launch_def
        launch_status_consistent_def active_payload_present_def)
  moreover have "launch_stamps_ok example_launch_env example_next"
    using ttl_positive(1)
    by (simp add: launch_stamps_ok_def example_next_def launch_document_of_def example_launch_env_def)
  ultimately show ?thesis by (simp add: launch_validate_Ok)
qed

lemma example_late_claimed_ok:
  "launch_validate_document example_launch_env example_late_claimed ''ada'' (Some 3) = Ok ()"
proof -
  note c = claimed_document_ok [OF example_ready_ok, of 11 "''1.0.0''"]
  have st: "ld_status example_ready = Ready" by (simp add: example_ready_def launch_document_of_def)
  have "launch_stamps_ok example_launch_env example_late_claimed"
    using c st ttl_positive(1) by (simp add: launch_stamps_ok_def example_late_claimed_def example_launch_env_def)
  moreover have "launch_body_ok example_launch_env example_late_claimed ''ada'' 3"
    using c st by (simp add: example_late_claimed_def launch_body_ok_restamped)
  ultimately show ?thesis by (simp add: launch_validate_Ok)
qed

lemma example_create_next:
  "launch_create example_launch_env (example_store \<lparr>sl_document = example_ready, sl_version = 1\<rparr>)
      600000000000 ''ada'' next_launch =
     (Ok \<lparr>cl_document = example_next, cl_created = True\<rparr>, example_two example_ready 1)"
proof -
  have f: "launch_format_timestamp example_launch_env 600000000000 = Ok (show_nat (600 * 10 ^ 9))"
    "launch_format_timestamp example_launch_env 1200000000000 = Ok (show_nat (1200 * 10 ^ 9))"
    by (simp_all add: launch_format_timestamp_def example_launch_env_def)
  have a: "te_checked_add (le_time example_launch_env) 600000000000 (duration_seconds ACTIVE_TTL_SECONDS)
      = Some 1200000000000"
    by (simp add: example_launch_env_def duration_seconds_def ACTIVE_TTL_SECONDS_def)
  have d: "launch_document_of next_launch ''ada'' example_hash_text (show_nat (600 * 10 ^ 9)) (show_nat (1200 * 10 ^ 9))
      = example_next" "nl_id next_launch = 4" "nl_manifest next_launch = example_manifest"
    by (simp_all add: example_next_def next_launch_def example_launch_def)
  have x: "check_no_active example_launch_env ''ada'' 600000000000
      [((''ada'', 3), \<lparr>sl_document = example_ready, sl_version = 1\<rparr>)] = Ok ()"
    by (simp add: is_expired_def parse_timestamp_def example_ready_def launch_document_of_def example_launch_env_def)
  let ?s = "example_store \<lparr>sl_document = example_ready, sl_version = 1\<rparr>"
  have s: "lr_launches ?s = [((''ada'', 3), \<lparr>sl_document = example_ready, sl_version = 1\<rparr>)]"
    by (simp add: example_store_def)
  have "insert_new_launch example_launch_env ?s 600000000000 ''ada'' next_launch example_hash_text =
      (Ok \<lparr>cl_document = example_next, cl_created = True\<rparr>,
       put_launch ?s (''ada'', 4) \<lparr>sl_document = example_next, sl_version = 1\<rparr>)"
    unfolding insert_new_launch_def a f s x
    by (simp only: Let_def obind.simps or_panic_Some f d example_next_ok outcome.case)
  then show ?thesis using example_manifest_ok
    by (simp add: launch_create_def d put_launch_def example_store_def example_two_def)
qed

lemma example_late_claim:
  "launch_claim example_launch_env (example_two example_ready 1) 599999999999 ''ada'' 3 11 ''1.0.0'' =
     (Ok example_late_claimed, example_two example_late_claimed 2)"
proof -
  have v: "launch_validate_document example_launch_env example_ready ''ada'' (Some 3) = Ok ()"
    using example_ready_ok by (simp only: launch_validate_Ok)
  have ne: "ensure_not_expired example_launch_env example_ready 599999999999 = Ok ()"
    by (simp add: ensure_not_expired_Ok example_ready_def launch_document_of_def example_launch_env_def)
  have st: "ld_status example_ready = Ready" by (simp add: example_ready_def launch_document_of_def)
  have "restamp example_launch_env 599999999999 ACTIVE_TTL_SECONDS ''ada'' 3
      \<lparr>sl_document = claimed_document example_ready 11 ''1.0.0'', sl_version = 2\<rparr> =
      (Ok (), \<lparr>sl_document = example_late_claimed, sl_version = 2\<rparr>)"
    using example_late_claimed_ok
    by (simp add: restamp_def launch_format_timestamp_def example_launch_env_def duration_seconds_def
        ACTIVE_TTL_SECONDS_def example_late_claimed_def Let_def)
  then show ?thesis using v ne st
    by (simp add: launch_claim_def example_two_def Let_def checked_add_def store_restamped_def put_launch_def
        claimed_document_def)
qed

theorem delayed_claim_two_active_launches:
  "snd (run_ops (run_launch_request example_launch_env) new_launch_repository
     [(0, CreateLaunch ''ada'' example_launch), (600000000000, CreateLaunch ''ada'' next_launch),
      (599999999999, ClaimLaunch ''ada'' 3 11 ''1.0.0'')]) = example_two example_late_claimed 2 \<and>
   (\<forall>d\<in>{example_late_claimed, example_next}.
      is_active d \<and> ensure_not_expired example_launch_env d 600000000001 = Ok ())"
proof (intro conjI ballI)
  show "snd (run_ops (run_launch_request example_launch_env) new_launch_repository
     [(0, CreateLaunch ''ada'' example_launch), (600000000000, CreateLaunch ''ada'' next_launch),
      (599999999999, ClaimLaunch ''ada'' 3 11 ''1.0.0'')]) = example_two example_late_claimed 2"
    by (simp add: run_ops_snd_Cons example_launch_create example_create_next example_late_claim)
  fix d assume "d \<in> {example_late_claimed, example_next}"
  then show "is_active d" "ensure_not_expired example_launch_env d 600000000001 = Ok ()"
    by (auto simp: is_active_def ensure_not_expired_Ok example_late_claimed_def claimed_document_def
        example_next_def launch_document_of_def example_launch_env_def)
qed

end
