(* ===== verification/TurnBudget.thy ===== *)
theory TurnBudget
  imports Prelude
begin

text \<open>
  \<open>rust/src/assistant/budget.rs\<close>: the counters one assistant turn charges its model requests and tool
  calls to. A charge returns its result and the counters after it; \<open>Duration\<close> is a number of
  nanoseconds, and \<open>usize\<close> is 64 bits wide.
\<close>

definition MAX_MODEL_REQUESTS :: u32 where
  "MAX_MODEL_REQUESTS = 8"

definition MAX_TOOL_CALLS :: u32 where
  "MAX_TOOL_CALLS = 12"

definition MAX_MODEL_CALL_TIMEOUT :: nat where
  "MAX_MODEL_CALL_TIMEOUT = 60 * 1000000000"

datatype budget_error = ModelRequests | ToolCalls | PromptContext

record turn_budget =
  tb_model_requests :: u32
  tb_tool_calls :: u32

definition new_turn_budget :: turn_budget where
  "new_turn_budget = \<lparr>tb_model_requests = 0, tb_tool_calls = 0\<rparr>"

definition charge_model_request :: "turn_budget \<Rightarrow> (budget_error, unit) outcome \<times> turn_budget" where
  "charge_model_request b =
     (if MAX_MODEL_REQUESTS \<le> tb_model_requests b then (Err ModelRequests, b)
      else (Ok (), b\<lparr>tb_model_requests := tb_model_requests b + 1\<rparr>))"

definition u32_try_from :: "u64 \<Rightarrow> u32 option" where
  "u32_try_from n = (if unat n < 2 ^ 32 then Some (ucast n) else None)"

definition charge_tool_calls :: "turn_budget \<Rightarrow> u64 \<Rightarrow> (budget_error, unit) outcome \<times> turn_budget" where
  "charge_tool_calls b requested_calls =
     (case u32_try_from requested_calls of
        None \<Rightarrow> (Err ToolCalls, b)
      | Some requested \<Rightarrow>
          (case checked_add (tb_tool_calls b) requested of
             None \<Rightarrow> (Err ToolCalls, b)
           | Some used \<Rightarrow>
               if MAX_TOOL_CALLS < used then (Err ToolCalls, b)
               else (Ok (), b\<lparr>tb_tool_calls := used\<rparr>)))"

definition remaining_tool_calls :: "turn_budget \<Rightarrow> nat" where
  "remaining_tool_calls b = unat (saturating_sub MAX_TOOL_CALLS (tb_tool_calls b))"

definition model_requests_used :: "turn_budget \<Rightarrow> u32" where
  "model_requests_used b = tb_model_requests b"

definition tool_calls_used :: "turn_budget \<Rightarrow> u32" where
  "tool_calls_used b = tb_tool_calls b"

definition model_call_timeout :: "nat \<Rightarrow> nat" where
  "model_call_timeout remaining_turn_budget = min remaining_turn_budget MAX_MODEL_CALL_TIMEOUT"

section \<open>The charges of a turn\<close>

datatype charge = ModelRequest | ToolBatch u64

fun charge_turn :: "turn_budget \<Rightarrow> charge \<Rightarrow> (budget_error, unit) outcome \<times> turn_budget" where
  "charge_turn b ModelRequest = charge_model_request b"
| "charge_turn b (ToolBatch n) = charge_tool_calls b n"

fun model_cost :: "charge \<Rightarrow> nat" where
  "model_cost ModelRequest = 1"
| "model_cost (ToolBatch n) = 0"

fun tool_cost :: "charge \<Rightarrow> nat" where
  "tool_cost ModelRequest = 0"
| "tool_cost (ToolBatch n) = unat n"

definition within_budget :: "turn_budget \<Rightarrow> bool" where
  "within_budget b \<longleftrightarrow> unat (tb_model_requests b) \<le> 8 \<and> unat (tb_tool_calls b) \<le> 12"

lemma new_within_budget: "within_budget new_turn_budget"
  by (simp add: within_budget_def new_turn_budget_def)

lemma charge_model_request_cases:
  assumes "within_budget b"
  obtains (granted) b' where "charge_model_request b = (Ok (), b')" "unat (tb_model_requests b) < 8"
      "unat (tb_model_requests b') = unat (tb_model_requests b) + 1" "tb_tool_calls b' = tb_tool_calls b"
  | (refused) "charge_model_request b = (Err ModelRequests, b)" "unat (tb_model_requests b) = 8"
proof (cases "MAX_MODEL_REQUESTS \<le> tb_model_requests b")
  case True
  then have "unat (tb_model_requests b) = 8"
    using assms by (simp add: within_budget_def MAX_MODEL_REQUESTS_def word_le_nat_alt)
  then show thesis using True by (intro refused) (simp_all add: charge_model_request_def)
next
  case False
  then have lt: "unat (tb_model_requests b) < 8"
    by (simp add: MAX_MODEL_REQUESTS_def word_le_nat_alt not_le)
  then have "unat (tb_model_requests b + 1) = unat (tb_model_requests b) + 1"
    by (simp add: unat_word_ariths)
  then show thesis using False lt
    by (intro granted [of "b\<lparr>tb_model_requests := tb_model_requests b + 1\<rparr>"])
       (simp_all add: charge_model_request_def)
qed

lemma charge_tool_calls_cases:
  obtains (granted) b' where "charge_tool_calls b n = (Ok (), b')"
      "unat (tb_tool_calls b) + unat n \<le> 12"
      "unat (tb_tool_calls b') = unat (tb_tool_calls b) + unat n"
      "tb_model_requests b' = tb_model_requests b"
  | (refused) "charge_tool_calls b n = (Err ToolCalls, b)" "12 < unat (tb_tool_calls b) + unat n"
proof (cases "unat n < 2 ^ 32")
  case True
  define r :: u32 where "r = ucast n"
  have r: "u32_try_from n = Some r" "unat r = unat n"
    using True by (simp_all add: u32_try_from_def r_def unsigned_ucast_eq take_bit_nat_eq_self)
  show thesis
  proof (cases "checked_add (tb_tool_calls b) r")
    case None
    then show thesis using r checked_add_None [of "tb_tool_calls b" r]
      by (intro refused) (simp_all add: charge_tool_calls_def)
  next
    case (Some used)
    have "MAX_TOOL_CALLS < used \<longleftrightarrow> 12 < unat (tb_tool_calls b) + unat n"
      using checked_add_Some [OF Some] r by (simp add: MAX_TOOL_CALLS_def word_less_nat_alt)
    then show thesis
      using granted [of "b\<lparr>tb_tool_calls := used\<rparr>"] refused Some r checked_add_Some [OF Some]
      by (cases "MAX_TOOL_CALLS < used") (simp_all add: charge_tool_calls_def)
  qed
next
  case False
  then show thesis by (intro refused) (simp_all add: charge_tool_calls_def u32_try_from_def)
qed

lemma charge_turn_step:
  assumes "within_budget b" "charge_turn b c = (r, b')"
  shows "within_budget b' \<and> (r = Ok () \<longleftrightarrow>
      unat (tb_model_requests b) + model_cost c \<le> 8 \<and> unat (tb_tool_calls b) + tool_cost c \<le> 12) \<and>
    (r = Ok () \<longrightarrow> unat (tb_model_requests b') = unat (tb_model_requests b) + model_cost c \<and>
      unat (tb_tool_calls b') = unat (tb_tool_calls b) + tool_cost c) \<and>
    (r \<noteq> Ok () \<longrightarrow> b' = b)"
proof (cases c)
  case ModelRequest
  then show ?thesis using assms
    by (cases rule: charge_model_request_cases [OF assms(1)]) (auto simp: within_budget_def)
next
  case (ToolBatch n)
  then show ?thesis using assms
    by (cases rule: charge_tool_calls_cases [of b n]) (auto simp: within_budget_def)
qed

lemma charged_total:
  assumes "within_budget b"
  shows "unat (tb_model_requests (snd (run_ops charge_turn b cs))) =
      unat (tb_model_requests b) +
        sum_list (map2 (\<lambda>c r. if r = Ok () then model_cost c else 0) cs (fst (run_ops charge_turn b cs))) \<and>
    unat (tb_tool_calls (snd (run_ops charge_turn b cs))) =
      unat (tb_tool_calls b) +
        sum_list (map2 (\<lambda>c r. if r = Ok () then tool_cost c else 0) cs (fst (run_ops charge_turn b cs))) \<and>
    within_budget (snd (run_ops charge_turn b cs))"
  using assms
proof (induction cs arbitrary: b)
  case (Cons c cs)
  obtain r b' where c: "charge_turn b c = (r, b')" by force
  note step = charge_turn_step [OF Cons.prems c]
  show ?case using Cons.IH [of b'] step
    by (cases "r = Ok ()") (simp_all add: run_ops_Cons [where f = charge_turn, OF c])
qed simp

text \<open>
  whatever sequence of model requests and tool batches a turn charges, the granted ones stay within 8
  requests and 12 tool calls in total, the counters are exactly the granted sums, and a charge is granted
  exactly if the whole of it still fits; a refused charge leaves the counters as they were.
\<close>
theorem turn_budget_exact:
  "let run = run_ops charge_turn new_turn_budget cs;
       granted = (\<lambda>cost. sum_list (map2 (\<lambda>c r. if r = Ok () then cost c else 0) cs (fst run)))
   in granted model_cost \<le> 8 \<and> granted tool_cost \<le> 12 \<and>
      unat (model_requests_used (snd run)) = granted model_cost \<and>
      unat (tool_calls_used (snd run)) = granted tool_cost \<and>
      remaining_tool_calls (snd run) = 12 - granted tool_cost \<and>
      (fst (charge_turn (snd run) c) = Ok () \<longleftrightarrow>
         granted model_cost + model_cost c \<le> 8 \<and> granted tool_cost + tool_cost c \<le> 12) \<and>
      (fst (charge_turn (snd run) c) = Ok () \<or> snd (charge_turn (snd run) c) = snd run)"
proof -
  define b where "b = snd (run_ops charge_turn new_turn_budget cs)"
  obtain r b' where c: "charge_turn b c = (r, b')" by force
  have tot: "unat (tb_model_requests b) =
        sum_list (map2 (\<lambda>c r. if r = Ok () then model_cost c else 0) cs (fst (run_ops charge_turn new_turn_budget cs)))"
    "unat (tb_tool_calls b) =
        sum_list (map2 (\<lambda>c r. if r = Ok () then tool_cost c else 0) cs (fst (run_ops charge_turn new_turn_budget cs)))"
    "within_budget b"
    using charged_total [OF new_within_budget, of cs] by (simp_all add: b_def new_turn_budget_def)
  show ?thesis
    using tot charge_turn_step [OF tot(3) c] c
    by (auto simp: Let_def b_def [symmetric] model_requests_used_def tool_calls_used_def
        remaining_tool_calls_def unat_saturating_sub MAX_TOOL_CALLS_def within_budget_def)
qed

end
