(* ===== verification/AssistantContext.thy ===== *)
theory AssistantContext
  imports TurnBudget Resource
begin

text \<open>
  \<open>rust/src/assistant/context.rs\<close>: the host-owned context of one turn. \<open>Instant\<close> and \<open>Duration\<close> are
  numbers of nanoseconds; what \<open>Instant::now\<close> reads is an argument of the definitions that read it.
\<close>

definition MAX_TURN_WALL_CLOCK :: nat where
  "MAX_TURN_WALL_CLOCK = 120 * 1000000000"

datatype turn_phase = ReadPlan | Propose | Execute

record selected_project =
  sel_id :: uuid
  sel_etag :: string
  sel_aws_price_snapshot_id :: "string option"
  sel_azure_price_snapshot_id :: "string option"

record turn_context =
  ctx_owner_id :: string
  ctx_request_id :: uuid
  ctx_phase :: turn_phase
  ctx_project :: "selected_project option"
  ctx_classified_project_type :: "project_type option"
  ctx_classification_model_requests :: u32
  ctx_confirmed_actions :: "string list"
  ctx_started_at :: nat
  ctx_wall_clock :: nat

definition new_turn_context :: "nat \<Rightarrow> string \<Rightarrow> uuid \<Rightarrow> turn_phase \<Rightarrow> turn_context" where
  "new_turn_context now owner_id request_id phase =
     \<lparr>ctx_owner_id = owner_id, ctx_request_id = request_id, ctx_phase = phase, ctx_project = None,
      ctx_classified_project_type = None, ctx_classification_model_requests = 0,
      ctx_confirmed_actions = [], ctx_started_at = now, ctx_wall_clock = MAX_TURN_WALL_CLOCK\<rparr>"

definition with_project :: "turn_context \<Rightarrow> selected_project \<Rightarrow> turn_context" where
  "with_project c project = c\<lparr>ctx_project := Some project\<rparr>"

definition with_classified_project_type :: "turn_context \<Rightarrow> project_type \<Rightarrow> turn_context" where
  "with_classified_project_type c t =
     c\<lparr>ctx_classified_project_type := Some t, ctx_classification_model_requests := 1\<rparr>"

definition with_classification_usage :: "turn_context \<Rightarrow> project_type \<Rightarrow> u32 \<Rightarrow> turn_context" where
  "with_classification_usage c t model_requests =
     c\<lparr>ctx_classified_project_type := Some t, ctx_classification_model_requests := model_requests\<rparr>"

definition with_confirmed_action :: "turn_context \<Rightarrow> string \<Rightarrow> turn_context" where
  "with_confirmed_action c action_id =
     c\<lparr>ctx_confirmed_actions := ctx_confirmed_actions c @ [action_id]\<rparr>"

definition with_wall_clock :: "turn_context \<Rightarrow> nat \<Rightarrow> turn_context" where
  "with_wall_clock c wall_clock = c\<lparr>ctx_wall_clock := min wall_clock MAX_TURN_WALL_CLOCK\<rparr>"

definition is_confirmed :: "turn_context \<Rightarrow> string \<Rightarrow> bool" where
  "is_confirmed c action_id \<longleftrightarrow> action_id \<in> set (ctx_confirmed_actions c)"

text \<open>\<open>Duration::saturating_sub\<close> stops at zero, and so does an elapsed time.\<close>

definition remaining :: "turn_context \<Rightarrow> nat \<Rightarrow> nat" where
  "remaining c now = ctx_wall_clock c - (now - ctx_started_at c)"

definition turn_expired :: "turn_context \<Rightarrow> nat \<Rightarrow> bool" where
  "turn_expired c now \<longleftrightarrow> remaining c now = 0"

end
