(* ===== verification/JsonText.thy ===== *)
theory JsonText
  imports Prelude
begin

text \<open>
  What the assistant uses of strings and of \<open>serde_json\<close>. A \<open>str\<close> method that works on characters
  works on \<open>utf8_chars\<close>, the byte sequences of the characters of a string. A \<open>serde_json::Value\<close> is
  the datatype \<open>json\<close>; its objects are \<open>BTreeMap\<close>s, here the association list in key order, and its
  numbers their canonical text. The theory ends with the JSON Pointer escapes of
  \<open>rust/src/assistant/tools.rs\<close>.
\<close>

section \<open>Characters\<close>

definition is_continuation :: "char \<Rightarrow> bool" where
  "is_continuation c \<longleftrightarrow> byte_of c div 64 = 2"

function utf8_chars :: "string \<Rightarrow> string list" where
  "utf8_chars [] = []"
| "utf8_chars (c # cs) =
     (c # takeWhile is_continuation cs) # utf8_chars (dropWhile is_continuation cs)"
  by pat_completeness auto
termination
  by (relation "measure length") (auto simp: le_imp_less_Suc length_dropWhile_le)

definition is_white_space :: "string \<Rightarrow> bool" where
  "is_white_space ch \<longleftrightarrow> ch \<noteq> [] \<and> white_space_len (map byte_of ch) = length ch"

definition is_control :: "string \<Rightarrow> bool" where
  "is_control ch \<longleftrightarrow>
     (case map byte_of ch of
        [b] \<Rightarrow> b < 32 \<or> b = 127
      | [b, c] \<Rightarrow> b = 194 \<and> 128 \<le> c \<and> c < 160
      | _ \<Rightarrow> False)"

definition trim :: "string \<Rightarrow> string" where
  "trim s = concat (rev (dropWhile is_white_space (rev (dropWhile is_white_space (utf8_chars s)))))"

text \<open>\<open>split\<close> keeps the empty pieces, \<open>split_whitespace\<close> drops them.\<close>

fun split_chars :: "(string \<Rightarrow> bool) \<Rightarrow> string list \<Rightarrow> string list" where
  "split_chars sep [] = [[]]"
| "split_chars sep (c # cs) =
     (if sep c then [] # split_chars sep cs
      else case split_chars sep cs of [] \<Rightarrow> [c] | w # ws \<Rightarrow> (c @ w) # ws)"

definition split_whitespace :: "string \<Rightarrow> string list" where
  "split_whitespace s = filter (\<lambda>w. w \<noteq> []) (split_chars is_white_space (utf8_chars s))"

fun join :: "string \<Rightarrow> string list \<Rightarrow> string" where
  "join sep [] = []"
| "join sep [s] = s"
| "join sep (s # t # ss) = s @ sep @ join sep (t # ss)"

fun str_contains :: "string \<Rightarrow> string \<Rightarrow> bool" where
  "str_contains [] p \<longleftrightarrow> p = []"
| "str_contains (c # cs) p \<longleftrightarrow> starts_with p (c # cs) \<or> str_contains cs p"

function replace_str :: "string \<Rightarrow> string \<Rightarrow> string \<Rightarrow> string" where
  "replace_str p r [] = []"
| "replace_str p r (c # cs) =
     (if starts_with p (c # cs) \<and> p \<noteq> [] then r @ replace_str p r (drop (length p - 1) cs)
      else c # replace_str p r cs)"
  by pat_completeness auto
termination
  by (relation "measure (\<lambda>(p, r, s). length s)") auto

lemma chars_count_append [simp]: "chars_count (s @ t) = chars_count s + chars_count t"
  by (simp add: chars_count_def)

lemma chars_count_Nil [simp]: "chars_count [] = 0"
  by (simp add: chars_count_def)

section \<open>Values of \<open>serde_json\<close>\<close>

datatype json =
  JNull | JBool bool | JNumber string | JString string | JArray "json list"
| JObject "(string \<times> json) list"

fun json_get :: "json \<Rightarrow> string \<Rightarrow> json option" where
  "json_get (JObject fields) k = map_of fields k"
| "json_get _ k = None"

fun json_as_array :: "json \<Rightarrow> json list option" where
  "json_as_array (JArray vs) = Some vs"
| "json_as_array _ = None"

fun json_as_str :: "json \<Rightarrow> string option" where
  "json_as_str (JString s) = Some s"
| "json_as_str _ = None"

fun json_is_object :: "json \<Rightarrow> bool" where
  "json_is_object (JObject _) \<longleftrightarrow> True"
| "json_is_object _ \<longleftrightarrow> False"

definition array_get :: "'a list \<Rightarrow> nat \<Rightarrow> 'a option" where
  "array_get vs i = (if i < length vs then Some (vs ! i) else None)"

text \<open>Every object of a value lists its keys in increasing order, as a \<open>BTreeMap\<close> does.\<close>

fun json_wf :: "json \<Rightarrow> bool" where
  "json_wf (JArray vs) \<longleftrightarrow> (\<forall>v\<in>set vs. json_wf v)"
| "json_wf (JObject fields) \<longleftrightarrow> sorted_wrt (<) (map fst fields) \<and> (\<forall>f\<in>set fields. json_wf (snd f))"
| "json_wf _ \<longleftrightarrow> True"

lemma json_size_fields: "(k, v) \<in> set fields \<Longrightarrow> size v < size (JObject fields)"
  by (induction fields) auto

lemma json_size_values: "v \<in> set vs \<Longrightarrow> size v < size (JArray vs)"
  by (induction vs) auto

lemma json_size_get: "map_of fields k = Some v \<Longrightarrow> size v < size (JObject fields)"
  using json_size_fields map_of_SomeD by fast

section \<open>JSON Pointer escapes\<close>

definition escape_key :: "string \<Rightarrow> string" where
  "escape_key key =
     concat (map (\<lambda>c. if c = CHR 0x2F then ''~1'' else [c])
       (concat (map (\<lambda>c. if c = CHR 0x7E then ''~0'' else [c]) key)))"

definition unescape_key :: "string \<Rightarrow> string" where
  "unescape_key key = replace_str ''~0'' ''~'' (replace_str ''~1'' ''/'' key)"

lemma unescape_escape: "unescape_key (escape_key k) = k"
proof -
  have one: "replace_str ''~1'' ''/'' (escape_key k) = concat (map (\<lambda>c. if c = CHR 0x7E then ''~0'' else [c]) k)" for k
    by (induction k) (auto simp: escape_key_def starts_with_def)
  have two: "replace_str ''~0'' ''~'' (concat (map (\<lambda>c. if c = CHR 0x7E then ''~0'' else [c]) k)) = k" for k
    by (induction k) (auto simp: starts_with_def)
  show ?thesis by (simp add: unescape_key_def one two)
qed

lemma escape_key_inject [simp]: "escape_key j = escape_key k \<longleftrightarrow> j = k"
  by (metis unescape_escape)

lemma escape_key_no_slash: "CHR 0x2F \<notin> set (escape_key k)"
  by (auto simp: escape_key_def split: if_splits)

end
