(* ===== verification/Help.thy ===== *)
theory Help
  imports JsonText Project
begin

text \<open>
  \<open>rust/src/assistant/help.rs\<close>: answers from the reviewed help catalog. The catalog \<open>HELP_ENTRIES\<close> is
  the argument \<open>entries\<close>: the algorithm does not depend on its texts. A \<open>HashSet\<close> of terms is the list
  of its elements.
\<close>

definition MAX_QUESTION_CHARS :: nat where
  "MAX_QUESTION_CHARS = 1000"

definition MAX_MATCHES :: nat where
  "MAX_MATCHES = 3"

record help_reference =
  hr_control_id :: string
  hr_label :: string

record help_response =
  hr_answer :: string
  hr_references :: "help_reference list"

record help_entry =
  he_control_id :: string
  he_label :: string
  he_keywords :: "string list"
  he_explanation :: string

definition reference_of :: "help_entry \<Rightarrow> help_reference" where
  "reference_of entry = \<lparr>hr_control_id = he_control_id entry, hr_label = he_label entry\<rparr>"

definition references_for_ids :: "help_entry list \<Rightarrow> string list \<Rightarrow> help_reference list" where
  "references_for_ids entries control_ids =
     List.map_filter (\<lambda>control_id.
       map_option reference_of (List.find (\<lambda>entry. he_control_id entry = control_id) entries)) control_ids"

definition help_normalize :: "string \<Rightarrow> string" where
  "help_normalize v =
     join '' '' (split_whitespace (concat (map
       (\<lambda>ch. case ch of [c] \<Rightarrow> if is_ascii_alphanumeric c then [c] else '' '' | _ \<Rightarrow> '' '')
       (utf8_chars (to_ascii_lowercase v)))))"

definition STOP_WORDS :: "string list" where
  "STOP_WORDS =
     [''about'', ''does'', ''field'', ''help'', ''how'', ''tell'', ''that'', ''the'', ''this'', ''what'',
      ''when'', ''where'', ''which'', ''why'', ''with'']"

definition help_terms :: "string \<Rightarrow> string list" where
  "help_terms v =
     remdups (filter (\<lambda>term. 3 \<le> length term \<and> term \<notin> set STOP_WORDS) (split_whitespace v))"

definition score_entry :: "help_entry \<Rightarrow> string \<Rightarrow> string list \<Rightarrow> nat" where
  "score_entry entry normalized question_terms =
     (let phrase_score =
            sum_list (map (\<lambda>keyword. length (split_whitespace keyword) * 4)
              (filter (str_contains normalized) (he_keywords entry)));
          label_score =
            length (filter (\<lambda>term. term \<in> set question_terms)
              (help_terms (help_normalize (he_label entry)))) * 2;
          keyword_score =
            length (filter (\<lambda>term. 3 \<le> length term \<and> term \<in> set question_terms)
              (concat (map (\<lambda>keyword.
                 split_chars (\<lambda>ch. case ch of [c] \<Rightarrow> \<not> is_ascii_alphanumeric c | _ \<Rightarrow> True) (utf8_chars keyword))
               (he_keywords entry))))
      in phrase_score + label_score + keyword_score)"

definition response_from :: "help_entry list \<Rightarrow> help_response" where
  "response_from matches =
     \<lparr>hr_answer = join [CHR 0x0A, CHR 0x0A]
        (map (\<lambda>entry. he_label entry @ '': '' @ he_explanation entry) matches),
      hr_references = map reference_of matches\<rparr>"

definition explain_control :: "help_entry list \<Rightarrow> string \<Rightarrow> help_response option" where
  "explain_control entries control_id =
     map_option (\<lambda>entry. response_from [entry])
       (List.find (\<lambda>entry. he_control_id entry = control_id) entries)"

definition compare_scored :: "nat \<times> help_entry \<Rightarrow> nat \<times> help_entry \<Rightarrow> ordering" where
  "compare_scored a b =
     then_with (cmp (fst b) (fst a)) (cmp (he_control_id (snd a)) (he_control_id (snd b)))"

definition question_length_issue :: validation_issue where
  "question_length_issue =
     issue ''/question'' ''length'' (''Question must contain 1 to '' @ show_nat MAX_QUESTION_CHARS @ '' characters.'')"

definition no_match_response :: help_response where
  "no_match_response =
     \<lparr>hr_answer = ''I could not match that question to an application control. Ask about a field or command such as Azure region, quantity, discounts, purchase options, Calculate, Share project, or NO MAPPING.'',
      hr_references = []\<rparr>"

definition scored_entries :: "help_entry list \<Rightarrow> string \<Rightarrow> (nat \<times> help_entry) list" where
  "scored_entries entries question =
     (let normalized = help_normalize question; question_terms = help_terms normalized
      in List.map_filter (\<lambda>entry.
           let score = score_entry entry normalized question_terms
           in if 0 < score then Some (score, entry) else None) entries)"

definition answer_question ::
  "help_entry list \<Rightarrow> string \<Rightarrow> (validation_issue list, help_response) outcome" where
  "answer_question entries question0 =
     (let question = trim question0; question_chars = chars_count question
      in if \<not> (1 \<le> question_chars \<and> question_chars \<le> MAX_QUESTION_CHARS) then Err [question_length_issue]
         else
           let matches = map snd (take MAX_MATCHES (sort_by compare_scored (scored_entries entries question)))
           in if matches = [] then Ok no_match_response else Ok (response_from matches))"

text \<open>What \<open>serde\<close>'s derived \<open>Serialize\<close> makes of a response, keys in order.\<close>

definition help_response_value :: "help_response \<Rightarrow> json" where
  "help_response_value response =
     JObject
       [(''answer'', JString (hr_answer response)),
        (''references'', JArray (map (\<lambda>r.
           JObject [(''control_id'', JString (hr_control_id r)), (''label'', JString (hr_label r))])
          (hr_references response)))]"

section \<open>The best matches\<close>

definition relevance :: "help_entry list \<Rightarrow> string \<Rightarrow> help_entry \<Rightarrow> nat" where
  "relevance entries question entry =
     (let normalized = help_normalize question in score_entry entry normalized (help_terms normalized))"

lemma comparator_scored: "comparator compare_scored"
  unfolding compare_scored_def by (intro comparator_intros)

interpretation scored: comparator compare_scored
  by (rule comparator_scored)

lemma scored_entries_eq:
  "scored_entries entries q =
     map (\<lambda>e. (relevance entries q e, e)) (filter (\<lambda>e. 0 < relevance entries q e) entries)"
  by (induction entries) (auto simp: scored_entries_def relevance_def Let_def map_filter_simps)

lemma answer_cites_catalog:
  assumes "answer_question entries q = Ok r"
  shows "set (hr_references r) \<subseteq> reference_of ` set entries"
  using assms
  by (auto simp: answer_question_def Let_def no_match_response_def response_from_def
      scored_entries_eq dest!: in_set_takeD split: if_splits)

lemma explain_cites_catalog:
  "explain_control entries c = Some r \<Longrightarrow> set (hr_references r) \<subseteq> reference_of ` set entries"
  by (auto simp: explain_control_def response_from_def find_Some_iff)

end
