(* ===== verification/AssistantTools.thy ===== *)
theory AssistantTools
  imports AssistantContext Help
begin

text \<open>
  \<open>rust/src/assistant/tools.rs\<close>, the contract of the tools: the registered definitions, which of them a
  context exposes, the typed inputs and the parser of untrusted arguments. The descriptions and the
  JSON Schemas of the definitions, texts that only the model provider reads, are left out.
  What \<open>serde_json\<close> and the derived \<open>Deserialize\<close> implementations make of a text or a value is the
  parameter \<open>json_codec\<close>: no law is asked of it, so the results hold of any arguments.
\<close>

section \<open>Definitions\<close>

datatype tool_risk = RiskRead | RiskDraft | RiskPersist | RiskDestructive

datatype project_requirement = AnyProject | SelectedProject | UnselectedProject

definition is_mutating :: "tool_risk \<Rightarrow> bool" where
  "is_mutating risk \<longleftrightarrow> (case risk of RiskPersist \<Rightarrow> True | RiskDestructive \<Rightarrow> True | _ \<Rightarrow> False)"

definition requires_confirmation :: "tool_risk \<Rightarrow> bool" where
  "requires_confirmation risk \<longleftrightarrow> is_mutating risk"

lemma is_mutating_simps [simp]:
  "\<not> is_mutating RiskRead" "\<not> is_mutating RiskDraft" "is_mutating RiskPersist" "is_mutating RiskDestructive"
  by (simp_all add: is_mutating_def)

record tool_definition =
  td_name :: string
  td_phase :: turn_phase
  td_risk :: tool_risk
  td_project_requirement :: project_requirement

definition is_available :: "tool_definition \<Rightarrow> turn_context \<Rightarrow> bool" where
  "is_available d c \<longleftrightarrow>
     (td_phase d = ctx_phase c \<or> td_phase d = ReadPlan \<and> td_risk d = RiskRead) \<and>
     (case td_project_requirement d of
        AnyProject \<Rightarrow> True
      | SelectedProject \<Rightarrow> ctx_project c \<noteq> None
      | UnselectedProject \<Rightarrow> ctx_project c = None)"

definition TOOLS :: "tool_definition list" where
  "TOOLS =
     [\<lparr>td_name = ''get_agent_capabilities'', td_phase = ReadPlan, td_risk = RiskRead,
       td_project_requirement = AnyProject\<rparr>,
      \<lparr>td_name = ''get_application_help'', td_phase = ReadPlan, td_risk = RiskRead,
       td_project_requirement = AnyProject\<rparr>,
      \<lparr>td_name = ''get_current_project'', td_phase = ReadPlan, td_risk = RiskRead,
       td_project_requirement = SelectedProject\<rparr>,
      \<lparr>td_name = ''validate_project_patch'', td_phase = ReadPlan, td_risk = RiskRead,
       td_project_requirement = SelectedProject\<rparr>,
      \<lparr>td_name = ''calculate_project_draft'', td_phase = ReadPlan, td_risk = RiskRead,
       td_project_requirement = SelectedProject\<rparr>,
      \<lparr>td_name = ''stage_project_patch'', td_phase = Propose, td_risk = RiskDraft,
       td_project_requirement = SelectedProject\<rparr>,
      \<lparr>td_name = ''stage_new_project_draft'', td_phase = Propose, td_risk = RiskDraft,
       td_project_requirement = UnselectedProject\<rparr>]"

definition find_tool :: "string \<Rightarrow> tool_definition option" where
  "find_tool name = List.find (\<lambda>tool. td_name tool = name) TOOLS"

text \<open>The exposed tools; the schema sent for each is rendered from its name and the context.\<close>

definition schemas_for_context :: "turn_context \<Rightarrow> tool_definition list" where
  "schemas_for_context c = filter (\<lambda>tool. is_available tool c) TOOLS"

section \<open>Typed inputs\<close>

record project_patch =
  pp_name :: "string option"
  pp_description :: "string option"
  pp_settings :: "project_settings option"
  pp_resources :: "resource list option"

definition some_or :: "'a option \<Rightarrow> 'a option \<Rightarrow> 'a option" where
  "some_or x y = (case x of None \<Rightarrow> y | Some v \<Rightarrow> Some v)"

definition unwrap_or :: "'a option \<Rightarrow> 'a \<Rightarrow> 'a" where
  "unwrap_or x y = (case x of None \<Rightarrow> y | Some v \<Rightarrow> v)"

lemma unwrap_or_simps [simp]: "unwrap_or None y = y" "unwrap_or (Some v) y = v"
  by (simp_all add: unwrap_or_def)

lemma some_or_simps [simp]: "some_or None y = y" "some_or (Some v) y = Some v"
  by (simp_all add: some_or_def)

definition apply_patch :: "project_patch \<Rightarrow> editable_project \<Rightarrow> editable_project" where
  "apply_patch p base =
     \<lparr>ep_name = unwrap_or (pp_name p) (ep_name base),
      ep_description = some_or (pp_description p) (ep_description base),
      ep_settings = unwrap_or (pp_settings p) (ep_settings base),
      ep_resources = unwrap_or (pp_resources p) (ep_resources base),
      ep_aws_price_snapshot_id = ep_aws_price_snapshot_id base,
      ep_azure_price_snapshot_id = ep_azure_price_snapshot_id base\<rparr>"

record application_help_input =
  ahi_question :: string
  ahi_control_id :: "string option"

record project_patch_input =
  ppi_patch :: project_patch

record stage_project_patch_input =
  sppi_patch :: project_patch
  sppi_omissions :: "string list"
  sppi_uncertainties :: "string list"

record new_sql_payg_settings_input =
  nsp_enterprise_licensed_cores :: "u32 option"
  nsp_standard_licensed_cores :: "u32 option"
  nsp_software_assurance_annual_usd :: "decimal_value option"

record new_project_settings_input =
  nps_aws_region :: "string option"
  nps_azure_region :: "string option"
  nps_source_compute_discount :: "decimal_value option"
  nps_source_license_discount :: "decimal_value option"
  nps_source_storage_discount :: "decimal_value option"
  nps_azure_compute_discount :: "decimal_value option"
  nps_azure_license_discount :: "decimal_value option"
  nps_azure_storage_discount :: "decimal_value option"
  nps_selected_parity_adjustment :: "decimal_value option"
  nps_default_annual_hours :: "decimal_value option"
  nps_default_mi_purchase_option :: "purchase_option option"
  nps_enterprise_license_sa_pack :: "decimal_value option"
  nps_standard_license_sa_pack :: "decimal_value option"
  nps_remaining_coverage_months :: "u8 option"
  nps_electricity_rate :: "decimal_value option"
  nps_sql_payg :: "new_sql_payg_settings_input option"

record new_volume_input =
  nvi_label :: "string option"
  nvi_aws_volume_id :: "string option"
  nvi_volume_type :: "ebs_volume_type option"
  nvi_capacity_gb :: "decimal_value option"
  nvi_provisioned_iops :: "u64 option"
  nvi_throughput_mibps :: "decimal_value option"

record new_resource_input =
  nri_source_type :: project_type
  nri_workload_name :: "string option"
  nri_quantity :: "u32 option"
  nri_sql_edition :: "sql_edition option"
  nri_license_basis :: "license_basis option"
  nri_sql_data_gb :: "decimal_value option"
  nri_source_ram_gb :: "decimal_value option"
  nri_annual_hours :: "decimal_value option"
  nri_mi_purchase_option :: "purchase_option option"
  nri_vm_purchase_option :: "vm_purchase_option option"
  nri_instance_type :: "string option"
  nri_volumes :: "new_volume_input list option"
  nri_deployment :: "rds_deployment option"
  nri_commercial_term :: "string option"
  nri_storage_class :: "string option"
  nri_source_vcpu :: "u32 option"
  nri_licensable_cores :: "u32 option"
  nri_source_max_iops :: "u64 option"
  nri_hardware_capex_usd :: "decimal_value option"
  nri_depreciation_years :: "decimal_value option"
  nri_average_power_kw_override :: "decimal_value option"

definition fields_match_source_type :: "new_resource_input \<Rightarrow> bool" where
  "fields_match_source_type r =
     (let ec2_fields = nri_volumes r \<noteq> None;
          rds_fields = nri_deployment r \<noteq> None \<or> nri_commercial_term r \<noteq> None \<or> nri_storage_class r \<noteq> None;
          on_prem_fields = nri_source_vcpu r \<noteq> None \<or> nri_licensable_cores r \<noteq> None \<or>
            nri_hardware_capex_usd r \<noteq> None \<or> nri_depreciation_years r \<noteq> None \<or>
            nri_average_power_kw_override r \<noteq> None
      in case nri_source_type r of
           PtEc2 \<Rightarrow> \<not> rds_fields \<and> \<not> on_prem_fields \<and> nri_vm_purchase_option r = None
         | PtEc2Vm \<Rightarrow> \<not> rds_fields \<and> \<not> on_prem_fields \<and> nri_sql_edition r = None \<and>
             nri_license_basis r = None \<and> nri_sql_data_gb r = None \<and> nri_mi_purchase_option r = None
         | PtRds \<Rightarrow> \<not> ec2_fields \<and> \<not> on_prem_fields \<and> nri_vm_purchase_option r = None
         | PtOnPrem \<Rightarrow> nri_instance_type r = None \<and> \<not> ec2_fields \<and> \<not> rds_fields \<and>
             nri_vm_purchase_option r = None
         | PtSqlPayg \<Rightarrow> False)"

record stage_new_project_draft_input =
  snp_project_type :: project_type
  snp_name :: "string option"
  snp_description :: "string option"
  snp_settings :: new_project_settings_input
  snp_resources :: "new_resource_input list"
  snp_omissions :: "string list"
  snp_uncertainties :: "string list"

datatype tool_input =
  AgentCapabilities
| ApplicationHelp application_help_input
| CurrentProject
| ValidateProjectPatch project_patch_input
| CalculateProjectDraft project_patch_input
| StageProjectPatch stage_project_patch_input
| StageNewProjectDraft stage_new_project_draft_input

datatype invalid_tool_arguments =
  MalformedJson | UnknownField | MissingField | TypeMismatch | UnknownVariant | InvalidScalarValue
| InvalidShape | InputBounds | ExtractionNotes | ResourceFieldMismatch | UnregisteredTool

section \<open>Storage measurements\<close>

datatype storage_unit = UnitGb | UnitGib | UnitTb | UnitTib

record storage_measurement =
  sm_value :: decimal_value
  sm_unit :: storage_unit

definition into_gb :: "dec_arith \<Rightarrow> storage_measurement \<Rightarrow> ('e, decimal_value) outcome" where
  "into_gb A m =
     (case sm_unit m of
        UnitGb \<Rightarrow> Ok (sm_value m) | UnitGib \<Rightarrow> Ok (sm_value m)
      | UnitTb \<Rightarrow> d_mul A (sm_value m) 1024 | UnitTib \<Rightarrow> d_mul A (sm_value m) 1024)"

definition STORAGE_MEASUREMENT_FIELDS :: "string list" where
  "STORAGE_MEASUREMENT_FIELDS =
     [''sql_data_gb_per_instance'', ''source_ram_gb_per_instance'', ''capacity_gb'']"

record serde_error =
  se_is_syntax :: bool
  se_is_eof :: bool
  se_message :: string

record json_codec =
  jc_current :: "string \<Rightarrow> serde_error + unit"
  jc_help :: "string \<Rightarrow> serde_error + application_help_input"
  jc_value :: "string \<Rightarrow> serde_error + json"
  jc_patch :: "json \<Rightarrow> serde_error + project_patch_input"
  jc_stage :: "json \<Rightarrow> serde_error + stage_project_patch_input"
  jc_draft :: "json \<Rightarrow> serde_error + stage_new_project_draft_input"
  jc_measurement :: "json \<Rightarrow> serde_error + storage_measurement"
  jc_decimal :: "decimal_value \<Rightarrow> json option"

definition classify_json_input_error :: "serde_error \<Rightarrow> invalid_tool_arguments" where
  "classify_json_input_error e =
     (if se_is_syntax e \<or> se_is_eof e then MalformedJson
      else if starts_with ''unknown field '' (se_message e) then UnknownField
      else if starts_with ''missing field '' (se_message e) then MissingField
      else if starts_with ''invalid type:'' (se_message e) then TypeMismatch
      else if starts_with ''unknown variant '' (se_message e) then UnknownVariant
      else if starts_with ''invalid value:'' (se_message e) then InvalidScalarValue
      else InvalidShape)"

definition classified :: "serde_error + 'a \<Rightarrow> (invalid_tool_arguments, 'a) outcome" where
  "classified r = (case r of Inl e \<Rightarrow> Err (classify_json_input_error e) | Inr v \<Rightarrow> Ok v)"

lemma try_map_cong [fundef_cong]:
  "xs = ys \<Longrightarrow> (\<And>x. x \<in> set ys \<Longrightarrow> f x = g x) \<Longrightarrow> try_map f xs = try_map g ys"
  by (induction xs arbitrary: ys) auto

function normalize_storage_measurements ::
  "json_codec \<Rightarrow> dec_arith \<Rightarrow> json \<Rightarrow> (invalid_tool_arguments, json) outcome" where
  "normalize_storage_measurements J A (JArray vs) =
     obind (try_map (normalize_storage_measurements J A) vs) (\<lambda>vs'. Ok (JArray vs'))"
| "normalize_storage_measurements J A (JObject members) =
     obind (try_map (\<lambda>f.
         obind (if fst f \<in> set STORAGE_MEASUREMENT_FIELDS \<and> json_is_object (snd f)
                then obind (classified (jc_measurement J (snd f))) (\<lambda>m.
                     obind (into_gb A m) (\<lambda>gb. ok_or (jc_decimal J gb) InvalidShape))
                else normalize_storage_measurements J A (snd f))
           (\<lambda>v. Ok (fst f, v))) members)
       (\<lambda>members'. Ok (JObject members'))"
| "normalize_storage_measurements J A JNull = Ok JNull"
| "normalize_storage_measurements J A (JBool b) = Ok (JBool b)"
| "normalize_storage_measurements J A (JNumber n) = Ok (JNumber n)"
| "normalize_storage_measurements J A (JString s) = Ok (JString s)"
  by pat_completeness auto
termination
proof (relation "measure (\<lambda>(J, A, v). size v)", goal_cases)
  case (2 J A vs v)
  then show ?case using json_size_values by fastforce
next
  case (3 J A members f)
  then show ?case using json_size_fields [of "fst f" "snd f" members] by simp
qed simp

section \<open>Parsing untrusted arguments\<close>

definition MAX_EXTRACTION_NOTES :: nat where
  "MAX_EXTRACTION_NOTES = 100"

definition MAX_EXTRACTION_NOTE_CHARS :: nat where
  "MAX_EXTRACTION_NOTE_CHARS = 500"

definition parse_json_input_with_storage_normalization ::
  "json_codec \<Rightarrow> dec_arith \<Rightarrow> (json \<Rightarrow> serde_error + 'a) \<Rightarrow> string \<Rightarrow>
     (invalid_tool_arguments, 'a) outcome" where
  "parse_json_input_with_storage_normalization J A from_value arguments =
     obind (classified (jc_value J arguments)) (\<lambda>v.
     obind (normalize_storage_measurements J A v) (\<lambda>v'. classified (from_value v')))"

definition normalize_extraction_notes ::
  "string list \<Rightarrow> (invalid_tool_arguments, string list) outcome" where
  "normalize_extraction_notes notes =
     (if MAX_EXTRACTION_NOTES < length notes then Err ExtractionNotes
      else try_map (\<lambda>note.
        let trimmed = trim note
        in if trimmed = [] \<or> MAX_EXTRACTION_NOTE_CHARS < chars_count trimmed \<or>
              list_ex is_control (utf8_chars trimmed)
           then Err ExtractionNotes else Ok trimmed) notes)"

definition parse_input ::
  "json_codec \<Rightarrow> dec_arith \<Rightarrow> tool_definition \<Rightarrow> string \<Rightarrow> (invalid_tool_arguments, tool_input) outcome" where
  "parse_input J A d arguments0 =
     (let arguments = (if trim_is_empty arguments0 then ''{}'' else arguments0)
      in if td_name d = ''get_agent_capabilities'' then
           obind (classified (jc_current J arguments)) (\<lambda>_. Ok AgentCapabilities)
         else if td_name d = ''get_application_help'' then
           obind (classified (jc_help J arguments)) (\<lambda>i.
           let question_chars = chars_count (trim (ahi_question i))
           in if \<not> (1 \<le> question_chars \<and> question_chars \<le> MAX_QUESTION_CHARS) then Err InputBounds
              else if (case ahi_control_id i of None \<Rightarrow> False
                       | Some control_id \<Rightarrow> \<not> (1 \<le> chars_count control_id \<and> chars_count control_id \<le> 64))
              then Err InputBounds
              else Ok (ApplicationHelp i))
         else if td_name d = ''get_current_project'' then
           obind (classified (jc_current J arguments)) (\<lambda>_. Ok CurrentProject)
         else if td_name d = ''validate_project_patch'' then
           obind (parse_json_input_with_storage_normalization J A (jc_patch J) arguments)
             (\<lambda>i. Ok (ValidateProjectPatch i))
         else if td_name d = ''calculate_project_draft'' then
           obind (parse_json_input_with_storage_normalization J A (jc_patch J) arguments)
             (\<lambda>i. Ok (CalculateProjectDraft i))
         else if td_name d = ''stage_project_patch'' then
           obind (parse_json_input_with_storage_normalization J A (jc_stage J) arguments) (\<lambda>i.
           obind (normalize_extraction_notes (sppi_omissions i)) (\<lambda>omissions.
           obind (normalize_extraction_notes (sppi_uncertainties i)) (\<lambda>uncertainties.
           Ok (StageProjectPatch (i\<lparr>sppi_omissions := omissions, sppi_uncertainties := uncertainties\<rparr>)))))
         else if td_name d = ''stage_new_project_draft'' then
           obind (parse_json_input_with_storage_normalization J A (jc_draft J) arguments) (\<lambda>i.
           obind (normalize_extraction_notes (snp_omissions i)) (\<lambda>omissions.
           obind (normalize_extraction_notes (snp_uncertainties i)) (\<lambda>uncertainties.
           if list_ex (\<lambda>r. nri_source_type r \<noteq> snp_project_type i \<or> \<not> fields_match_source_type r)
                (snp_resources i)
           then Err ResourceFieldMismatch
           else Ok (StageNewProjectDraft
             (i\<lparr>snp_omissions := omissions, snp_uncertainties := uncertainties\<rparr>)))))
         else Err UnregisteredTool)"

section \<open>Normalized measurements\<close>

text \<open>No storage field of the value is an object any more.\<close>

fun no_measurement :: "json \<Rightarrow> bool" where
  "no_measurement (JArray vs) \<longleftrightarrow> (\<forall>v\<in>set vs. no_measurement v)"
| "no_measurement (JObject members) \<longleftrightarrow>
     (\<forall>m\<in>set members.
        \<not> (fst m \<in> set STORAGE_MEASUREMENT_FIELDS \<and> json_is_object (snd m)) \<and> no_measurement (snd m))"
| "no_measurement _ \<longleftrightarrow> True"

text \<open>What the codec documents: a \<open>DecimalValue\<close> serializes as a string.\<close>

definition decimals_are_strings :: "json_codec \<Rightarrow> bool" where
  "decimals_are_strings J \<longleftrightarrow> (\<forall>d v. jc_decimal J d = Some v \<longrightarrow> (\<exists>s. v = JString s))"

lemma list_all2_source: "list_all2 P xs ys \<Longrightarrow> y \<in> set ys \<Longrightarrow> \<exists>x\<in>set xs. P x y"
  by (metis in_set_conv_nth list_all2_conv_all_nth)

lemma try_map_same: "(\<And>x. x \<in> set xs \<Longrightarrow> f x = Ok x) \<Longrightarrow> try_map f xs = Ok xs"
  by (induction xs) auto

lemma normalize_no_measurement: "no_measurement v \<Longrightarrow> normalize_storage_measurements J A v = Ok v"
proof (induction v rule: no_measurement.induct)
  case (1 vs)
  then show ?case by (simp add: try_map_same)
next
  case (2 members)
  have "try_map (\<lambda>m. obind (if fst m \<in> set STORAGE_MEASUREMENT_FIELDS \<and> json_is_object (snd m)
        then obind (classified (jc_measurement J (snd m))) (\<lambda>mm. obind (into_gb A mm) (\<lambda>gb. ok_or (jc_decimal J gb) InvalidShape))
        else normalize_storage_measurements J A (snd m)) (\<lambda>v. Ok (fst m, v))) members = Ok members"
    using 2 by (intro try_map_same) auto
  then show ?case by simp
qed auto

lemma normalized_member:
  assumes "decimals_are_strings J"
    and "obind (if isfield \<and> json_is_object v
      then obind (classified (jc_measurement J v)) (\<lambda>mm. obind (into_gb A mm) (\<lambda>gb. ok_or (jc_decimal J gb) InvalidShape))
      else normalize_storage_measurements J A v) (\<lambda>v'. Ok (k, v')) = Ok m"
    and "\<And>v'. normalize_storage_measurements J A v = Ok v' \<Longrightarrow> no_measurement v' \<and> (json_is_object v' \<longleftrightarrow> json_is_object v)"
  shows "fst m = k \<and> \<not> (isfield \<and> json_is_object (snd m)) \<and> no_measurement (snd m)"
proof (cases "isfield \<and> json_is_object v")
  case True
  then obtain gb s where "jc_decimal J gb = Some (JString s)" "m = (k, JString s)"
    using assms(1,2) by (auto simp: obind_Ok_iff decimals_are_strings_def) blast
  then show ?thesis by simp
next
  case False
  then show ?thesis using assms(2,3) by (auto simp: obind_Ok_iff split: if_splits)
qed

lemma normalize_storage_result:
  "decimals_are_strings J \<Longrightarrow> normalize_storage_measurements J A v = Ok v' \<Longrightarrow>
     no_measurement v' \<and> (json_is_object v' \<longleftrightarrow> json_is_object v)"
proof (induction v arbitrary: v' rule: no_measurement.induct)
  case (1 vs)
  then obtain vs' where vs': "v' = JArray vs'" "list_all2 (\<lambda>v w. normalize_storage_measurements J A v = Ok w) vs vs'"
    by (auto simp: obind_Ok_iff try_map_Ok_iff)
  have "no_measurement w" if w: "w \<in> set vs'" for w
  proof -
    obtain x where "x \<in> set vs" "normalize_storage_measurements J A x = Ok w"
      using list_all2_source [OF vs'(2) w] by auto
    then show ?thesis using "1.IH" "1.prems"(1) by blast
  qed
  then show ?case by (simp add: vs'(1))
next
  case (2 members)
  let ?step = "\<lambda>m. obind (if fst m \<in> set STORAGE_MEASUREMENT_FIELDS \<and> json_is_object (snd m)
      then obind (classified (jc_measurement J (snd m))) (\<lambda>mm. obind (into_gb A mm) (\<lambda>gb. ok_or (jc_decimal J gb) InvalidShape))
      else normalize_storage_measurements J A (snd m)) (\<lambda>v. Ok (fst m, v))"
  obtain ms where ms: "v' = JObject ms" "list_all2 (\<lambda>m m'. ?step m = Ok m') members ms"
    using "2.prems"(2) by (auto simp: obind_Ok_iff try_map_Ok_iff)
  have "\<not> (fst m' \<in> set STORAGE_MEASUREMENT_FIELDS \<and> json_is_object (snd m')) \<and> no_measurement (snd m')"
    if m': "m' \<in> set ms" for m'
  proof -
    obtain m where m: "m \<in> set members" "?step m = Ok m'"
      using list_all2_source [OF ms(2) m'] by auto
    then show ?thesis
      using normalized_member [OF "2.prems"(1) m(2) "2.IH" [OF m(1) "2.prems"(1)]] by (metis (full_types))
  qed
  then show ?case by (auto simp: ms(1))
qed auto

text \<open>
  the normalization of storage measurements leaves none behind, so a second pass changes nothing.
\<close>
theorem normalize_storage_idempotent:
  assumes "decimals_are_strings J" "normalize_storage_measurements J A v = Ok v'"
  shows "no_measurement v' \<and> normalize_storage_measurements J A v' = Ok v'"
  using normalize_storage_result [OF assms] normalize_no_measurement by blast

definition example_codec :: json_codec where
  "example_codec =
     \<lparr>jc_current = (\<lambda>_. Inr ()), jc_help = (\<lambda>s. Inr \<lparr>ahi_question = s, ahi_control_id = None\<rparr>),
      jc_value = (\<lambda>s. Inr (JObject [(''capacity_gb'', JObject [(s, JNull)])])),
      jc_patch = (\<lambda>_. Inr \<lparr>ppi_patch = \<lparr>pp_name = None, pp_description = None, pp_settings = None, pp_resources = None\<rparr>\<rparr>),
      jc_stage = (\<lambda>_. Inl \<lparr>se_is_syntax = False, se_is_eof = False, se_message = []\<rparr>),
      jc_draft = (\<lambda>_. Inl \<lparr>se_is_syntax = False, se_is_eof = False, se_message = []\<rparr>),
      jc_measurement = (\<lambda>v. Inr \<lparr>sm_value = (if v = JObject [(''max'', JNull)] then dec_max else 2), sm_unit = UnitTb\<rparr>),
      jc_decimal = (\<lambda>d. Some (JString (if d = 2048 then ''2048'' else ''?'')))\<rparr>"

lemma example_decimals: "decimals_are_strings example_codec"
  by (simp add: decimals_are_strings_def example_codec_def)

lemma normalize_storage_idempotent_witness:
  "no_measurement (JObject [(''capacity_gb'', JString ''2048'')]) \<and>
   normalize_storage_measurements example_codec exact_arith (JObject [(''capacity_gb'', JString ''2048'')]) =
     Ok (JObject [(''capacity_gb'', JString ''2048'')])"
  by (rule normalize_storage_idempotent [OF example_decimals, where v = "JObject [(''capacity_gb'', JObject [(''x'', JNull)])]"])
     (simp add: example_codec_def STORAGE_MEASUREMENT_FIELDS_def classified_def into_gb_def d_mul_def exact_arith_def
        in_range_def dec_max_def)

text \<open>
  a model that sends the largest decimal as a measurement in terabytes panics the parser: the
  conversion multiplies without a check, whatever the precision of the arithmetic.
\<close>
theorem measurement_overflow_panics:
  assumes "dec_laws A" "jc_value J arguments = Inr (JObject [(''capacity_gb'', JObject ms)])"
    and "jc_measurement J (JObject ms) = Inr \<lparr>sm_value = dec_max, sm_unit = UnitTb\<rparr>"
    and "td_name d = ''validate_project_patch''" "\<not> trim_is_empty arguments"
  shows "parse_input J A d arguments = Panic"
proof -
  have "dec_rounds A (dec_max * 1024) (dec_mul A dec_max 1024)"
    using assms(1) by (simp add: dec_laws_def)
  then have "dec_mul A dec_max 1024 = None"
    by (cases "dec_mul A dec_max 1024") (simp_all add: dec_rounds_def dec_max_def)
  then show ?thesis
    using assms(2-)
    by (simp add: parse_input_def parse_json_input_with_storage_normalization_def classified_def into_gb_def
        d_mul_def STORAGE_MEASUREMENT_FIELDS_def Let_def)
qed

lemma measurement_overflow_panics_witness:
  "parse_input example_codec exact_arith (TOOLS ! 3) ''max'' = Panic"
  by (rule measurement_overflow_panics [OF exact_arith_laws, where ms = "[(''max'', JNull)]"])
     (simp_all add: example_codec_def TOOLS_def trim_is_empty_def trim_start_bytes.simps byte_of_def)

end
