(* ===== verification/AssistantPolicy.thy ===== *)
theory AssistantPolicy
  imports AssistantTools
begin

text \<open>
  \<open>rust/src/assistant/policy.rs\<close>: the preflight of a proposed tool batch. The loop over the batch
  carries the identifiers it has seen, the number of mutating calls and the calls it accepted; the
  first call it rejects ends it. A \<open>HashSet\<close> of identifiers is a set.
\<close>

definition MAX_TOOL_CALLS_PER_RESPONSE :: nat where
  "MAX_TOOL_CALLS_PER_RESPONSE = 4"

definition MAX_MUTATING_CALLS_PER_BATCH :: nat where
  "MAX_MUTATING_CALLS_PER_BATCH = 1"

definition MAX_CALL_ID_CHARS :: nat where
  "MAX_CALL_ID_CHARS = 128"

datatype policy_error =
  EmptyBatch | UngroundedResponse | BatchTooLarge | BudgetExhausted | InvalidCallId | UnknownTool
| PhaseNotAllowed | ProjectContextNotAllowed | TooManyMutations
| InvalidArguments invalid_tool_arguments | ClassificationMismatch | MissingConfirmation

record proposed_tool_call =
  ptc_id :: string
  ptc_name :: string
  ptc_arguments :: string

record validated_tool_call =
  vtc_id :: string
  vtc_definition :: tool_definition
  vtc_input :: tool_input

definition is_acceptable_call_id :: "string \<Rightarrow> bool" where
  "is_acceptable_call_id call_id \<longleftrightarrow>
     1 \<le> chars_count call_id \<and> chars_count call_id \<le> MAX_CALL_ID_CHARS \<and>
     list_all (\<lambda>ch. case ch of [b] \<Rightarrow> is_ascii_alphanumeric b \<or> b = CHR ''-'' \<or> b = CHR ''_'' | _ \<Rightarrow> False)
       (utf8_chars call_id)"

definition argument_error :: "(invalid_tool_arguments, 'a) outcome \<Rightarrow> (policy_error, 'a) outcome" where
  "argument_error r = (case r of Ok v \<Rightarrow> Ok v | Err e \<Rightarrow> Err (InvalidArguments e) | Panic \<Rightarrow> Panic)"

definition classification_mismatch :: "turn_context \<Rightarrow> tool_input \<Rightarrow> bool" where
  "classification_mismatch c i \<longleftrightarrow>
     (case i of
        StageNewProjectDraft draft \<Rightarrow>
          (case ctx_classified_project_type c of
             None \<Rightarrow> False | Some project_type \<Rightarrow> project_type \<noteq> snp_project_type draft)
      | _ \<Rightarrow> False)"

text \<open>One call: its accepted form and the number of mutating calls so far.\<close>

definition preflight_call ::
  "json_codec \<Rightarrow> dec_arith \<Rightarrow> turn_context \<Rightarrow> string set \<Rightarrow> string set \<Rightarrow> nat \<Rightarrow> proposed_tool_call \<Rightarrow>
     (policy_error, validated_tool_call \<times> nat) outcome" where
  "preflight_call J A c executed_call_ids batch_call_ids mutating_calls call =
     (if \<not> is_acceptable_call_id (ptc_id call) \<or> ptc_id call \<in> executed_call_ids \<or> ptc_id call \<in> batch_call_ids
      then Err InvalidCallId
      else
        obind (ok_or (find_tool (ptc_name call)) UnknownTool) (\<lambda>d.
        let is_authoritative_read = (td_phase d = ReadPlan \<and> td_risk d = RiskRead)
        in if td_phase d \<noteq> ctx_phase c \<and> \<not> is_authoritative_read then Err PhaseNotAllowed
           else if \<not> is_available d c then Err ProjectContextNotAllowed
           else
             let mutating_calls' = (if is_mutating (td_risk d) then mutating_calls + 1 else mutating_calls)
             in if is_mutating (td_risk d) \<and> MAX_MUTATING_CALLS_PER_BATCH < mutating_calls'
                then Err TooManyMutations
                else if is_mutating (td_risk d) \<and> requires_confirmation (td_risk d) \<and>
                  \<not> is_confirmed c (td_name d) then Err MissingConfirmation
                else
                  obind (argument_error (parse_input J A d (ptc_arguments call))) (\<lambda>i.
                  if classification_mismatch c i then Err ClassificationMismatch
                  else Ok (\<lparr>vtc_id = ptc_id call, vtc_definition = d, vtc_input = i\<rparr>, mutating_calls'))))"

fun preflight_calls ::
  "json_codec \<Rightarrow> dec_arith \<Rightarrow> turn_context \<Rightarrow> string set \<Rightarrow> string set \<Rightarrow> nat \<Rightarrow> proposed_tool_call list \<Rightarrow>
     (policy_error, validated_tool_call list) outcome" where
  "preflight_calls J A c executed_call_ids batch_call_ids mutating_calls [] = Ok []"
| "preflight_calls J A c executed_call_ids batch_call_ids mutating_calls (call # calls) =
     obind (preflight_call J A c executed_call_ids batch_call_ids mutating_calls call) (\<lambda>(accepted, n).
     obind (preflight_calls J A c executed_call_ids (insert (ptc_id call) batch_call_ids) n calls) (\<lambda>rest.
     Ok (accepted # rest)))"

definition preflight ::
  "json_codec \<Rightarrow> dec_arith \<Rightarrow> proposed_tool_call list \<Rightarrow> turn_context \<Rightarrow> turn_budget \<Rightarrow> string set \<Rightarrow>
     (policy_error, validated_tool_call list) outcome" where
  "preflight J A batch c budget executed_call_ids =
     (if batch = [] then Err EmptyBatch
      else if MAX_TOOL_CALLS_PER_RESPONSE < length batch then Err BatchTooLarge
      else if remaining_tool_calls budget < length batch then Err BudgetExhausted
      else preflight_calls J A c executed_call_ids {} 0 batch)"

section \<open>When a batch is accepted\<close>

text \<open>The call as the host accepts it, judged on its own.\<close>

definition call_acceptable :: "turn_context \<Rightarrow> string set \<Rightarrow> proposed_tool_call \<Rightarrow> tool_definition \<Rightarrow> bool" where
  "call_acceptable c executed call d \<longleftrightarrow>
     is_acceptable_call_id (ptc_id call) \<and> ptc_id call \<notin> executed \<and>
     d \<in> set (schemas_for_context c) \<and> td_name d = ptc_name call"

definition accepted_as ::
  "json_codec \<Rightarrow> dec_arith \<Rightarrow> turn_context \<Rightarrow> string set \<Rightarrow> proposed_tool_call \<Rightarrow> validated_tool_call \<Rightarrow> bool" where
  "accepted_as J A c executed call v \<longleftrightarrow>
     call_acceptable c executed call (vtc_definition v) \<and> vtc_id v = ptc_id call \<and>
     parse_input J A (vtc_definition v) (ptc_arguments call) = Ok (vtc_input v) \<and>
     \<not> classification_mismatch c (vtc_input v)"

lemma tool_risks: "d \<in> set TOOLS \<Longrightarrow> \<not> is_mutating (td_risk d)"
  by (auto simp: TOOLS_def)

lemma tools_distinct: "distinct (map td_name TOOLS)"
  by (simp add: TOOLS_def)

lemma find_tool_iff: "find_tool n = Some d \<longleftrightarrow> d \<in> set TOOLS \<and> td_name d = n"
proof
  assume "find_tool n = Some d"
  then show "d \<in> set TOOLS \<and> td_name d = n" by (auto simp: find_tool_def find_Some_iff)
next
  assume d: "d \<in> set TOOLS \<and> td_name d = n"
  then obtain d' where d': "find_tool n = Some d'"
    by (cases "find_tool n") (auto simp: find_tool_def find_None_iff)
  then have "d' \<in> set TOOLS \<and> td_name d' = n" by (auto simp: find_tool_def find_Some_iff)
  then have "d' = d" using d tools_distinct by (auto simp: distinct_map inj_on_def)
  then show "find_tool n = Some d" using d' by simp
qed

lemma in_schemas_iff: "d \<in> set (schemas_for_context c) \<longleftrightarrow> d \<in> set TOOLS \<and> is_available d c"
  by (simp add: schemas_for_context_def)

lemma argument_error_Ok [simp]: "argument_error r = Ok v \<longleftrightarrow> r = Ok v"
  by (cases r) (simp_all add: argument_error_def)

lemma preflight_call_Ok:
  "preflight_call J A c executed seen m call = Ok (v, n) \<longleftrightarrow>
     accepted_as J A c executed call v \<and> ptc_id call \<notin> seen \<and> n = m"
proof (cases "find_tool (ptc_name call)")
  case None
  then show ?thesis
    using find_tool_iff [of "ptc_name call" "vtc_definition v"]
    by (auto simp: preflight_call_def accepted_as_def call_acceptable_def in_schemas_iff)
next
  case (Some d)
  then have d: "d \<in> set TOOLS" "td_name d = ptc_name call" by (simp_all add: find_tool_iff)
  have unique: "d' = d" if "d' \<in> set TOOLS" "td_name d' = ptc_name call" for d'
    using that Some by (metis find_tool_iff option.inject)
  have phase: "\<not> (td_phase d \<noteq> ctx_phase c \<and> \<not> (td_phase d = ReadPlan \<and> td_risk d = RiskRead))"
    if "is_available d c" using that by (auto simp: is_available_def)
  have pre: "preflight_call J A c executed seen m call =
      (if \<not> is_acceptable_call_id (ptc_id call) \<or> ptc_id call \<in> executed \<or> ptc_id call \<in> seen then Err InvalidCallId
       else if td_phase d \<noteq> ctx_phase c \<and> \<not> (td_phase d = ReadPlan \<and> td_risk d = RiskRead) then Err PhaseNotAllowed
       else if \<not> is_available d c then Err ProjectContextNotAllowed
       else obind (argument_error (parse_input J A d (ptc_arguments call))) (\<lambda>i.
              if classification_mismatch c i then Err ClassificationMismatch
              else Ok (\<lparr>vtc_id = ptc_id call, vtc_definition = d, vtc_input = i\<rparr>, m)))"
    using tool_risks [OF d(1)] by (simp add: preflight_call_def Some Let_def)
  show ?thesis
    unfolding pre
    using phase d unique [of "vtc_definition v"]
    by (cases v) (auto simp: accepted_as_def call_acceptable_def in_schemas_iff obind_Ok_iff split: if_splits)
qed

lemma preflight_calls_Ok:
  "preflight_calls J A c executed seen m batch = Ok vs \<longleftrightarrow>
     list_all2 (accepted_as J A c executed) batch vs \<and> distinct (map ptc_id batch) \<and>
     set (map ptc_id batch) \<inter> seen = {}"
proof (induction batch arbitrary: seen m vs)
  case (Cons call calls)
  show ?case
    by (auto simp: obind_Ok_iff preflight_call_Ok Cons.IH list_all2_Cons1)
qed auto

lemma preflight_Ok:
  "preflight J A batch c budget executed = Ok vs \<longleftrightarrow>
     1 \<le> length batch \<and> length batch \<le> 4 \<and> length batch \<le> remaining_tool_calls budget \<and>
     distinct (map ptc_id batch) \<and> list_all2 (accepted_as J A c executed) batch vs"
  by (cases "batch = []")
     (auto simp: preflight_def MAX_TOOL_CALLS_PER_RESPONSE_def preflight_calls_Ok Suc_le_eq)

text \<open>
  C30: the preflight accepts a batch exactly if it has one to four calls that all fit the remaining
  budget, their identifiers are well formed, pairwise distinct and new, and every call on its own names
  a tool the context exposes, with arguments that parse and a draft of the classified type; the calls
  it hands on are those, in order. One unacceptable call rejects the whole batch.
\<close>
theorem preflight_accepts_iff:
  "preflight J A batch c budget executed = Ok vs \<longleftrightarrow>
     1 \<le> length batch \<and> length batch \<le> 4 \<and> length batch \<le> remaining_tool_calls budget \<and>
     distinct (map ptc_id batch) \<and> list_all2 (accepted_as J A c executed) batch vs"
  by (rule preflight_Ok)

end
