(* ===== verification/AssistantDrafts.thy ===== *)
theory AssistantDrafts
  imports AssistantTools ProjectRepository
begin

text \<open>
  \<open>rust/src/assistant/tools.rs\<close>, what the tools do: read, validate and calculate the selected project,
  stage a patch with the exact list of its changes, build a new draft from host defaults. Every tool
  returns a \<open>tool_outcome\<close> and the world after it. The services of \<open>AppState\<close> a tool calls (the
  project store, the calculation and its semaphore, the price resolution, fresh UUIDs) are the
  parameter \<open>tool_services\<close>, over any world \<open>'w\<close>; \<open>serde_json::to_value\<close> of a project and of its view
  is the parameter \<open>view_codec\<close>.
\<close>

section \<open>Proposals and outcomes\<close>

definition MAX_PROPOSAL_CHANGES :: nat where
  "MAX_PROPOSAL_CHANGES = 500"

record project_patch_change =
  ppc_pointer :: string
  ppc_before :: "json option"
  ppc_after :: "json option"

record project_patch_proposal =
  ppp_action :: string
  ppp_patch :: project_patch
  ppp_changes :: "project_patch_change list"

record new_project_draft_proposal =
  npd_action :: string
  npd_project :: editable_project

datatype assistant_proposal =
  ProjectPatchProposal project_patch_proposal
| NewProjectDraftProposal new_project_draft_proposal

fun proposal_action :: "assistant_proposal \<Rightarrow> string" where
  "proposal_action (ProjectPatchProposal p) = ppp_action p"
| "proposal_action (NewProjectDraftProposal p) = npd_action p"

datatype tool_outcome =
  ToolOk json
| ToolStaged "assistant_proposal option" "string list" "string list"
| ToolInvalid "validation_issue list"
| ToolUnavailable string
| ToolError string

fun outcome_proposal :: "tool_outcome \<Rightarrow> assistant_proposal option" where
  "outcome_proposal (ToolStaged (Some p) _ _) = Some p"
| "outcome_proposal _ = None"

fun extraction_notes :: "tool_outcome \<Rightarrow> (string list \<times> string list) option" where
  "extraction_notes (ToolStaged _ omissions uncertainties) = Some (omissions, uncertainties)"
| "extraction_notes _ = None"

fun history_status :: "tool_outcome \<Rightarrow> string" where
  "history_status (ToolOk _) = ''completed''"
| "history_status (ToolStaged (Some _) _ _) = ''staged''"
| "history_status (ToolStaged None _ _) = ''reported''"
| "history_status (ToolInvalid _) = ''invalid''"
| "history_status (ToolUnavailable _) = ''unavailable''"
| "history_status (ToolError _) = ''error''"

definition MAX_TOOL_RESULT_CHARS :: nat where
  "MAX_TOOL_RESULT_CHARS = 8000"

definition quoted :: "string \<Rightarrow> string" where
  "quoted s = CHR 0x22 # s @ [CHR 0x22]"

definition error_json :: "string \<Rightarrow> string" where
  "error_json code =
     ''{'' @ quoted ''status'' @ '':'' @ quoted ''error'' @ '','' @ quoted ''code'' @ '':'' @ quoted code @ ''}''"

record project_view =
  pv_settings :: project_settings
  pv_resources :: "resource list"
  pv_resource_count :: nat
  pv_has_aws_price_snapshot :: bool
  pv_has_azure_price_snapshot :: bool

record view_codec =
  vc_project :: "editable_project \<Rightarrow> json option"
  vc_view :: "project_view \<Rightarrow> json option"
  vc_value_text :: "json \<Rightarrow> string option"
  vc_outcome_text :: "tool_outcome \<Rightarrow> string option"

definition to_bounded_json :: "view_codec \<Rightarrow> tool_outcome \<Rightarrow> string" where
  "to_bounded_json V outcome =
     (let serialized =
        (case outcome of
           ToolStaged proposal _ _ \<Rightarrow>
             vc_value_text V (JObject
               [(''result'', JObject
                  [(''action'', case proposal of None \<Rightarrow> JNull | Some p \<Rightarrow> JString (proposal_action p)),
                   (''report_recorded'', JBool True),
                   (''staged'', JBool (proposal \<noteq> None))]),
                (''status'', JString ''ok'')])
         | _ \<Rightarrow> vc_outcome_text V outcome)
      in case serialized of
           None \<Rightarrow> error_json ''result_not_serializable''
         | Some text \<Rightarrow>
             if MAX_TOOL_RESULT_CHARS < chars_count text then error_json ''result_too_large'' else text)"

definition into_ok :: "json option \<Rightarrow> tool_outcome" where
  "into_ok v = (case v of Some result \<Rightarrow> ToolOk result | None \<Rightarrow> ToolError ''result_not_serializable'')"

section \<open>The changes of a patch\<close>

definition object_keys :: "(string \<times> json) list \<Rightarrow> (string \<times> json) list \<Rightarrow> string list" where
  "object_keys before after = sort (remdups (map fst before @ map fst after))"

lemma try_fold_cong [fundef_cong]:
  "xs = ys \<Longrightarrow> a = b \<Longrightarrow> (\<And>x acc. x \<in> set ys \<Longrightarrow> f acc x = g acc x) \<Longrightarrow> try_fold f a xs = try_fold g b ys"
proof (induction xs arbitrary: ys a b)
  case (Cons x xs)
  then show ?case by (cases "g b x") auto
qed simp

definition opt_size :: "json option \<Rightarrow> nat" where
  "opt_size v = (case v of None \<Rightarrow> 0 | Some w \<Rightarrow> size w)"

lemma opt_size_object [simp]:
  "opt_size (map_of b k) + opt_size (map_of a k') < opt_size (Some (JObject b)) + opt_size (Some (JObject a))"
proof -
  have "opt_size (map_of members k) < size (JObject members)" for members k
    using json_size_get [of members k] by (cases "map_of members k") (simp_all add: opt_size_def)
  then show ?thesis by (simp add: opt_size_def add_less_mono del: json.size)
qed

lemma opt_size_array [simp]:
  "opt_size (array_get b i) + opt_size (array_get a j) < opt_size (Some (JArray b)) + opt_size (Some (JArray a))"
proof -
  have "opt_size (array_get vs i) < size (JArray vs)" for vs i
    using json_size_values [of "vs ! i" vs] by (simp add: opt_size_def array_get_def)
  then show ?thesis by (simp add: opt_size_def add_less_mono del: json.size)
qed

definition push_change ::
  "string \<Rightarrow> json option \<Rightarrow> json option \<Rightarrow> project_patch_change list \<Rightarrow>
     (unit, project_patch_change list) outcome" where
  "push_change pointer before after changes =
     (if MAX_PROPOSAL_CHANGES \<le> length changes then Err ()
      else Ok (changes @ [\<lparr>ppc_pointer = pointer, ppc_before = before, ppc_after = after\<rparr>]))"

function collect_changes ::
  "string \<Rightarrow> json option \<Rightarrow> json option \<Rightarrow> project_patch_change list \<Rightarrow>
     (unit, project_patch_change list) outcome" where
  "collect_changes pointer before after changes =
     (if before = after then Ok changes
      else case (before, after) of
        (Some (JObject b), Some (JObject a)) \<Rightarrow>
          try_fold (\<lambda>changes' k.
              let key = escape_key k
              in collect_changes (pointer @ ''/'' @ key)
                   (map_of b (unescape_key key)) (map_of a (unescape_key key)) changes')
            changes (object_keys b a)
      | (Some (JArray b), Some (JArray a)) \<Rightarrow>
          try_fold (\<lambda>changes' i.
              collect_changes (pointer @ ''/'' @ show_nat i) (array_get b i) (array_get a i) changes')
            changes [0..<max (length b) (length a)]
      | _ \<Rightarrow> push_change pointer before after changes)"
  by pat_completeness auto
termination
  by (relation "measure (\<lambda>(pointer, before, after, changes). opt_size before + opt_size after)") auto

declare collect_changes.simps [simp del]

definition patch_roots :: "project_patch \<Rightarrow> string list" where
  "patch_roots p =
     (if pp_name p \<noteq> None then [''name''] else []) @
     (if pp_description p \<noteq> None then [''description''] else []) @
     (if pp_settings p \<noteq> None then [''settings''] else []) @
     (if pp_resources p \<noteq> None then [''resources''] else [])"

definition project_patch_changes ::
  "view_codec \<Rightarrow> editable_project \<Rightarrow> editable_project \<Rightarrow> project_patch \<Rightarrow>
     (unit, project_patch_change list) outcome" where
  "project_patch_changes V base0 candidate0 p =
     obind (ok_or (vc_project V base0) ()) (\<lambda>base.
     obind (ok_or (vc_project V candidate0) ()) (\<lambda>candidate.
     try_fold (\<lambda>changes field.
         collect_changes (''/'' @ field) (json_get base field) (json_get candidate field) changes) []
       (patch_roots p)))"

section \<open>The view of a project\<close>

definition redact_resource :: "resource \<Rightarrow> nat \<Rightarrow> resource" where
  "redact_resource r index =
     (let workload_name = ''workload-'' @ show_nat (index + 1); volume_label = (\<lambda>i. ''volume-'' @ show_nat (i + 1))
      in case r of
           Ec2 e \<Rightarrow> Ec2 (e\<lparr>ec2_shared := (ec2_shared e)\<lparr>sr_workload_name := workload_name\<rparr>,
             ec2_volumes := map (\<lambda>(i, v). v\<lparr>ev_label := volume_label i, ev_aws_volume_id := None\<rparr>)
               (enumerate 0 (ec2_volumes e))\<rparr>)
         | Ec2Vm e \<Rightarrow> Ec2Vm (e\<lparr>ec2vm_shared := (ec2vm_shared e)\<lparr>sr_workload_name := workload_name\<rparr>,
             ec2vm_volumes := map (\<lambda>(i, v). v\<lparr>vv_label := volume_label i, vv_aws_volume_id := None\<rparr>)
               (enumerate 0 (ec2vm_volumes e))\<rparr>)
         | Rds e \<Rightarrow> Rds (e\<lparr>rds_shared := (rds_shared e)\<lparr>sr_workload_name := workload_name\<rparr>\<rparr>)
         | OnPrem e \<Rightarrow> OnPrem (e\<lparr>op_shared := (op_shared e)\<lparr>sr_workload_name := workload_name\<rparr>\<rparr>))"

definition view_of_project :: "editable_project \<Rightarrow> project_view" where
  "view_of_project p =
     (let resources = map (\<lambda>(index, r). redact_resource r index) (enumerate 0 (ep_resources p))
      in \<lparr>pv_settings = ep_settings p, pv_resources = resources,
          pv_resource_count = length resources,
          pv_has_aws_price_snapshot = (ep_aws_price_snapshot_id p \<noteq> None),
          pv_has_azure_price_snapshot = (ep_azure_price_snapshot_id p \<noteq> None)\<rparr>)"

section \<open>A new draft from host defaults\<close>

definition GP3_BASELINE_IOPS :: u64 where
  "GP3_BASELINE_IOPS = 3000"

definition IO2_MINIMUM_IOPS :: u64 where
  "IO2_MINIMUM_IOPS = 100"

text \<open>Each \<open>Uuid::new_v4\<close> is the next of a supply of fresh identifiers.\<close>

definition new_volume :: "uuid \<Rightarrow> new_volume_input \<Rightarrow> ebs_volume" where
  "new_volume new_id i =
     (let volume_type = unwrap_or (nvi_volume_type i) Ephemeral
      in \<lparr>ev_id = new_id, ev_label = unwrap_or (nvi_label i) ''Instance storage'',
          ev_aws_volume_id = nvi_aws_volume_id i, ev_volume_type = volume_type,
          ev_capacity_gb = unwrap_or (nvi_capacity_gb i) 0,
          ev_provisioned_iops = some_or (nvi_provisioned_iops i)
            (case volume_type of Gp3 \<Rightarrow> Some GP3_BASELINE_IOPS | Io2 \<Rightarrow> Some IO2_MINIMUM_IOPS | Ephemeral \<Rightarrow> None),
          ev_throughput_mibps = nvi_throughput_mibps i\<rparr>)"

definition new_vm_volume :: "uuid \<Rightarrow> new_volume_input \<Rightarrow> nat \<Rightarrow> vm_volume" where
  "new_vm_volume new_id i index =
     (let is_os = (index = 0);
          volume = new_volume new_id
            (i\<lparr>nvi_volume_type := some_or (nvi_volume_type i) (if is_os then Some Gp3 else None),
               nvi_label := some_or (nvi_label i) (Some (if is_os then ''OS disk'' else ''Data disk''))\<rparr>)
      in \<lparr>vv_id = ev_id volume, vv_label = ev_label volume, vv_aws_volume_id = ev_aws_volume_id volume,
          vv_volume_type = ev_volume_type volume, vv_role = (if is_os then RoleOs else RoleData),
          vv_capacity_gb = ev_capacity_gb volume, vv_provisioned_iops = ev_provisioned_iops volume,
          vv_throughput_mibps = ev_throughput_mibps volume\<rparr>)"

definition default_volume_input :: new_volume_input where
  "default_volume_input =
     \<lparr>nvi_label = None, nvi_aws_volume_id = None, nvi_volume_type = None, nvi_capacity_gb = None,
      nvi_provisioned_iops = None, nvi_throughput_mibps = None\<rparr>"

definition default_resource_input :: "project_type \<Rightarrow> new_resource_input" where
  "default_resource_input t =
     \<lparr>nri_source_type = t, nri_workload_name = None, nri_quantity = None, nri_sql_edition = None,
      nri_license_basis = None, nri_sql_data_gb = None, nri_source_ram_gb = None, nri_annual_hours = None,
      nri_mi_purchase_option = None, nri_vm_purchase_option = None, nri_instance_type = None,
      nri_volumes = None, nri_deployment = None, nri_commercial_term = None, nri_storage_class = None,
      nri_source_vcpu = None, nri_licensable_cores = None, nri_source_max_iops = None,
      nri_hardware_capex_usd = None, nri_depreciation_years = None, nri_average_power_kw_override = None\<rparr>"

definition is_ec2_type :: "project_type \<Rightarrow> bool" where
  "is_ec2_type t \<longleftrightarrow> t = PtEc2 \<or> t = PtEc2Vm"

definition new_shared_resource ::
  "uuid \<Rightarrow> new_resource_input \<Rightarrow> (string \<Rightarrow> decimal_value option) \<Rightarrow> shared_resource" where
  "new_shared_resource new_id i ec2_catalog_memory =
     \<lparr>sr_id = new_id,
      sr_workload_name = unwrap_or (nri_workload_name i)
        (if nri_source_type i = PtEc2Vm then ''Virtual machine'' else ''SQL workload''),
      sr_server_name = None, sr_quantity = unwrap_or (nri_quantity i) 1,
      sr_source_ram_gb = unwrap_or
        (some_or (nri_source_ram_gb i)
          (if is_ec2_type (nri_source_type i)
           then ec2_catalog_memory (unwrap_or (nri_instance_type i) ''r6id.8xlarge'') else None))
        (if nri_source_type i = PtRds then 128 else 256),
      sr_annual_hours = unwrap_or (nri_annual_hours i) 8760\<rparr>"

definition new_sql_workload :: "new_resource_input \<Rightarrow> sql_workload" where
  "new_sql_workload i =
     \<lparr>sql_edition = unwrap_or (nri_sql_edition i) Enterprise,
      sql_license_basis = unwrap_or (nri_license_basis i) Byol,
      sql_data_gb = unwrap_or (nri_sql_data_gb i) 1024,
      sql_mi_purchase_option = unwrap_or (nri_mi_purchase_option i) PoAhb\<rparr>"

text \<open>The resource built from the supply \<open>ids\<close>, and what is left of the supply.\<close>

definition new_resource ::
  "(nat \<Rightarrow> uuid) \<Rightarrow> nat \<Rightarrow> new_resource_input \<Rightarrow> (string \<Rightarrow> decimal_value option) \<Rightarrow>
     ('e, resource \<times> nat) outcome" where
  "new_resource ids n i ec2_catalog_memory =
     (let ec2_instance_type = unwrap_or (nri_instance_type i) ''r6id.8xlarge'';
          shared = new_shared_resource (ids n) i ec2_catalog_memory;
          sql = new_sql_workload i
      in case nri_source_type i of
           PtEc2 \<Rightarrow>
             (let inputs = unwrap_or (nri_volumes i) [default_volume_input]
              in Ok (Ec2 \<lparr>ec2_shared = shared, ec2_sql = sql, ec2_instance_type = ec2_instance_type,
                   ec2_volumes = map (\<lambda>(k, v). new_volume (ids k) v) (enumerate (Suc n) inputs)\<rparr>,
                   Suc n + length inputs))
         | PtRds \<Rightarrow>
             Ok (Rds \<lparr>rds_shared = shared, rds_sql = sql,
                   rds_instance_type = unwrap_or (nri_instance_type i) ''db.m6i.8xlarge'',
                   rds_deployment = unwrap_or (nri_deployment i) SingleAz,
                   rds_commercial_term = unwrap_or (nri_commercial_term i) ''on-demand'',
                   rds_storage_class = unwrap_or (nri_storage_class i) ''gp3'',
                   rds_source_max_iops = unwrap_or (nri_source_max_iops i) 0\<rparr>, Suc n)
         | PtOnPrem \<Rightarrow>
             Ok (OnPrem \<lparr>op_shared = shared, op_sql = sql,
                   op_source_vcpu = unwrap_or (nri_source_vcpu i) 32,
                   op_licensable_cores = unwrap_or (nri_licensable_cores i) 32,
                   op_source_max_iops = unwrap_or (nri_source_max_iops i) 0,
                   op_hardware_capex_usd = unwrap_or (nri_hardware_capex_usd i) 0,
                   op_depreciation_years = unwrap_or (nri_depreciation_years i) 5,
                   op_average_power_kw_override = nri_average_power_kw_override i\<rparr>, Suc n)
         | PtEc2Vm \<Rightarrow>
             (let inputs = (case nri_volumes i of
                    Some (v # vs) \<Rightarrow> v # vs | _ \<Rightarrow> [default_volume_input])
              in Ok (Ec2Vm \<lparr>ec2vm_shared = shared, ec2vm_instance_type = ec2_instance_type,
                   ec2vm_purchase_option = unwrap_or (nri_vm_purchase_option i) VpoPayg,
                   ec2vm_requirements = ec2_vm_requirements_defaults_for ec2_instance_type,
                   ec2vm_volumes =
                     map (\<lambda>(index, v). new_vm_volume (ids (Suc n + index)) v index) (enumerate 0 inputs)\<rparr>,
                   Suc n + length inputs))
         | PtSqlPayg \<Rightarrow> Panic)"

fun new_resources ::
  "(nat \<Rightarrow> uuid) \<Rightarrow> nat \<Rightarrow> new_resource_input list \<Rightarrow> (string \<Rightarrow> decimal_value option) \<Rightarrow>
     ('e, resource list) outcome" where
  "new_resources ids n [] mem = Ok []"
| "new_resources ids n (i # is) mem =
     obind (new_resource ids n i mem) (\<lambda>(r, n').
     obind (new_resources ids n' is mem) (\<lambda>rs. Ok (r # rs)))"

definition new_sql_payg_settings :: "new_sql_payg_settings_input option \<Rightarrow> sql_payg_settings" where
  "new_sql_payg_settings s =
     \<lparr>sps_enterprise_licensed_cores = unwrap_or (Option.bind s nsp_enterprise_licensed_cores) 0,
      sps_standard_licensed_cores = unwrap_or (Option.bind s nsp_standard_licensed_cores) 0,
      sps_software_assurance_annual_usd = unwrap_or (Option.bind s nsp_software_assurance_annual_usd) 0\<rparr>"

definition new_project_settings :: "project_type \<Rightarrow> new_project_settings_input \<Rightarrow> project_settings" where
  "new_project_settings t s =
     (let on_prem = (t = PtOnPrem); aws_project = (t = PtEc2 \<or> t = PtEc2Vm \<or> t = PtRds)
      in \<lparr>ps_project_type = t,
          ps_aws_region = (if aws_project then Some (unwrap_or (nps_aws_region s) ''eu-west-1'') else None),
          ps_azure_region = unwrap_or (nps_azure_region s) ''swedencentral'', ps_currency = ''USD'',
          ps_source_compute_discount = unwrap_or (nps_source_compute_discount s) 0,
          ps_source_license_discount = unwrap_or (nps_source_license_discount s) 0,
          ps_source_storage_discount = unwrap_or (nps_source_storage_discount s) 0,
          ps_azure_compute_discount = unwrap_or (nps_azure_compute_discount s) 0,
          ps_azure_license_discount = unwrap_or (nps_azure_license_discount s) 0,
          ps_azure_storage_discount = unwrap_or (nps_azure_storage_discount s) 0,
          ps_selected_parity_adjustment = unwrap_or (nps_selected_parity_adjustment s) 0,
          ps_default_annual_hours = unwrap_or (nps_default_annual_hours s) 8760,
          ps_default_mi_purchase_option = unwrap_or (nps_default_mi_purchase_option s) PoAhb,
          ps_enterprise_license_sa_pack =
            some_or (nps_enterprise_license_sa_pack s) (if on_prem then Some 20557 else None),
          ps_standard_license_sa_pack =
            some_or (nps_standard_license_sa_pack s) (if on_prem then Some 5363 else None),
          ps_remaining_coverage_months =
            some_or (nps_remaining_coverage_months s) (if on_prem then Some 12 else None),
          ps_electricity_rate = some_or (nps_electricity_rate s) (if on_prem then Some 0 else None),
          ps_sql_payg = (if t = PtSqlPayg then Some (new_sql_payg_settings (nps_sql_payg s)) else None)\<rparr>)"

definition new_project_draft ::
  "(nat \<Rightarrow> uuid) \<Rightarrow> stage_new_project_draft_input \<Rightarrow> (string \<Rightarrow> decimal_value option) \<Rightarrow>
     ('e, editable_project) outcome" where
  "new_project_draft ids i ec2_catalog_memory =
     obind (if snp_project_type i = PtSqlPayg then Ok []
            else if snp_resources i = [] then
              new_resources ids 0 [default_resource_input (snp_project_type i)] ec2_catalog_memory
            else new_resources ids 0 (snp_resources i) ec2_catalog_memory) (\<lambda>resources.
     Ok \<lparr>ep_name = unwrap_or (snp_name i) ''SQL TCO estimate'', ep_description = snp_description i,
         ep_settings = new_project_settings (snp_project_type i) (snp_settings i),
         ep_resources = resources, ep_aws_price_snapshot_id = None, ep_azure_price_snapshot_id = None\<rparr>)"

section \<open>The changes are exact\<close>

datatype json_step = Key string | Index nat

fun step_into :: "json option \<Rightarrow> json_step \<Rightarrow> json option" where
  "step_into (Some (JObject members)) (Key k) = map_of members k"
| "step_into (Some (JArray vs)) (Index i) = array_get vs i"
| "step_into _ _ = None"

fun json_at :: "json option \<Rightarrow> json_step list \<Rightarrow> json option" where
  "json_at v [] = v"
| "json_at v (s # ss) = json_at (step_into v s) ss"

fun render_step :: "json_step \<Rightarrow> string" where
  "render_step (Key k) = ''/'' @ escape_key k"
| "render_step (Index i) = ''/'' @ show_nat i"

definition render_path :: "json_step list \<Rightarrow> string" where
  "render_path path = concat (map render_step path)"

text \<open>The differences of two values without a limit: the paths to where they part, with both sides.\<close>

type_synonym json_difference = "json_step list \<times> json option \<times> json option"

definition under :: "json_step \<Rightarrow> json_difference list \<Rightarrow> json_difference list" where
  "under s ds = map (\<lambda>(path, before, after). (s # path, before, after)) ds"

function differences :: "json option \<Rightarrow> json option \<Rightarrow> json_difference list" where
  "differences before after =
     (if before = after then []
      else case (before, after) of
        (Some (JObject b), Some (JObject a)) \<Rightarrow>
          concat (map (\<lambda>k. under (Key k) (differences (map_of b k) (map_of a k))) (object_keys b a))
      | (Some (JArray b), Some (JArray a)) \<Rightarrow>
          concat (map (\<lambda>i. under (Index i) (differences (array_get b i) (array_get a i)))
            [0..<max (length b) (length a)])
      | _ \<Rightarrow> [([], before, after)])"
  by pat_completeness auto
termination
  by (relation "measure (\<lambda>(before, after). opt_size before + opt_size after)") auto

declare differences.simps [simp del]

definition as_change :: "string \<Rightarrow> json_difference \<Rightarrow> project_patch_change" where
  "as_change pointer d =
     (case d of (path, before, after) \<Rightarrow>
       \<lparr>ppc_pointer = pointer @ render_path path, ppc_before = before, ppc_after = after\<rparr>)"

lemma as_change_under: "map (as_change p) (under s ds) = map (as_change (p @ render_step s)) ds"
  by (auto simp: as_change_def under_def render_path_def)

definition push_all ::
  "project_patch_change list \<Rightarrow> project_patch_change list \<Rightarrow> (unit, project_patch_change list) outcome" where
  "push_all new changes =
     (if length changes + length new \<le> MAX_PROPOSAL_CHANGES then Ok (changes @ new) else Err ())"

lemma push_all_Nil: "length changes \<le> MAX_PROPOSAL_CHANGES \<Longrightarrow> push_all [] changes = Ok changes"
  by (simp add: push_all_def)

lemma try_fold_push_all:
  assumes "\<And>x acc. x \<in> set xs \<Longrightarrow> length acc \<le> MAX_PROPOSAL_CHANGES \<Longrightarrow> f acc x = push_all (g x) acc"
    and "length changes \<le> MAX_PROPOSAL_CHANGES"
  shows "try_fold f changes xs = push_all (concat (map g xs)) changes"
  using assms
proof (induction xs arbitrary: changes)
  case (Cons x xs)
  show ?case
  proof (cases "length changes + length (g x) \<le> MAX_PROPOSAL_CHANGES")
    case True
    then show ?thesis
      using Cons.IH [of "changes @ g x"] Cons.prems by (simp add: push_all_def)
  qed (use Cons.prems in \<open>simp add: push_all_def\<close>)
qed (simp add: push_all_Nil)

lemma differences_same [simp]: "differences v v = []"
  by (simp add: differences.simps)

lemma differences_leaf:
  assumes "before \<noteq> after" "\<nexists>b a. before = Some (JObject b) \<and> after = Some (JObject a)"
    "\<nexists>b a. before = Some (JArray b) \<and> after = Some (JArray a)"
  shows "differences before after = [([], before, after)]"
  by (subst differences.simps) (use assms in \<open>auto split: option.split json.split\<close>)

lemma collect_changes_leaf:
  assumes "before \<noteq> after" "\<nexists>b a. before = Some (JObject b) \<and> after = Some (JObject a)"
    "\<nexists>b a. before = Some (JArray b) \<and> after = Some (JArray a)"
  shows "collect_changes p before after changes = push_change p before after changes"
  by (subst collect_changes.simps) (use assms in \<open>auto split: option.split json.split\<close>)

lemma differences_object:
  "b \<noteq> a \<Longrightarrow> differences (Some (JObject b)) (Some (JObject a)) =
     concat (map (\<lambda>k. under (Key k) (differences (map_of b k) (map_of a k))) (object_keys b a))"
  by (simp add: differences.simps [of "Some (JObject b)"])

lemma differences_array:
  "b \<noteq> a \<Longrightarrow> differences (Some (JArray b)) (Some (JArray a)) =
     concat (map (\<lambda>i. under (Index i) (differences (array_get b i) (array_get a i))) [0..<max (length b) (length a)])"
  by (simp add: differences.simps [of "Some (JArray b)"])

text \<open>The induction the lemmas on \<open>differences\<close> use: the shapes of two values that differ.\<close>

lemma differences_induct [case_names same object array leaf]:
  assumes "\<And>v. P v v"
    and "\<And>b a. b \<noteq> a \<Longrightarrow> (\<And>k. P (map_of b k) (map_of a k)) \<Longrightarrow> P (Some (JObject b)) (Some (JObject a))"
    and "\<And>b a. b \<noteq> a \<Longrightarrow> (\<And>i. P (array_get b i) (array_get a i)) \<Longrightarrow> P (Some (JArray b)) (Some (JArray a))"
    and "\<And>before after. before \<noteq> after \<Longrightarrow> \<nexists>b a. before = Some (JObject b) \<and> after = Some (JObject a) \<Longrightarrow>
      \<nexists>b a. before = Some (JArray b) \<and> after = Some (JArray a) \<Longrightarrow> P before after"
  shows "P before after"
proof (induction "opt_size before + opt_size after" arbitrary: before after rule: less_induct)
  case less
  consider "before = after"
    | b a where "b \<noteq> a" "before = Some (JObject b)" "after = Some (JObject a)"
    | b a where "b \<noteq> a" "before = Some (JArray b)" "after = Some (JArray a)"
    | "before \<noteq> after" "\<nexists>b a. before = Some (JObject b) \<and> after = Some (JObject a)"
        "\<nexists>b a. before = Some (JArray b) \<and> after = Some (JArray a)"
    by blast
  then show ?case using assms less by cases auto
qed

lemma collect_changes_differences:
  "length changes \<le> MAX_PROPOSAL_CHANGES \<Longrightarrow>
     collect_changes p before after changes = push_all (map (as_change p) (differences before after)) changes"
proof (induction before after arbitrary: p changes rule: differences_induct)
  case (same v)
  then show ?case by (simp add: collect_changes.simps [of p] push_all_Nil)
next
  case (object b a)
  have "try_fold (\<lambda>changes' k. collect_changes (p @ ''/'' @ escape_key k) (map_of b k) (map_of a k) changes')
      changes (object_keys b a) =
    push_all (concat (map (\<lambda>k. map (as_change p) (under (Key k) (differences (map_of b k) (map_of a k))))
      (object_keys b a))) changes"
    using object by (intro try_fold_push_all) (simp_all add: as_change_under)
  then show ?case using object(1)
    by (simp add: collect_changes.simps [of p] differences_object Let_def unescape_escape map_concat comp_def)
next
  case (array b a)
  have "try_fold (\<lambda>changes' i. collect_changes (p @ ''/'' @ show_nat i) (array_get b i) (array_get a i) changes')
      changes [0..<max (length b) (length a)] =
    push_all (concat (map (\<lambda>i. map (as_change p) (under (Index i) (differences (array_get b i) (array_get a i))))
      [0..<max (length b) (length a)])) changes"
    using array by (intro try_fold_push_all) (simp_all add: as_change_under)
  then show ?case using array(1)
    by (simp add: collect_changes.simps [of p] differences_array map_concat comp_def)
next
  case (leaf before after)
  then show ?case
    by (simp add: differences_leaf collect_changes_leaf push_change_def push_all_def as_change_def render_path_def)
qed

lemma in_under: "d \<in> set (under s ds) \<longleftrightarrow> (\<exists>path x y. d = (s # path, x, y) \<and> (path, x, y) \<in> set ds)"
  by (auto simp: under_def)

lemma differences_sound:
  "(path, x, y) \<in> set (differences before after) \<Longrightarrow>
     x = json_at before path \<and> y = json_at after path \<and> x \<noteq> y"
proof (induction before after arbitrary: path rule: differences_induct)
  case (leaf before after)
  then show ?case by (simp add: differences_leaf)
qed (auto simp: differences_object differences_array in_under)

definition comparable :: "json_step list \<Rightarrow> json_step list \<Rightarrow> bool" where
  "comparable p q \<longleftrightarrow> take (length q) p = q \<or> take (length p) q = p"

definition opt_wf :: "json option \<Rightarrow> bool" where
  "opt_wf v \<longleftrightarrow> (case v of None \<Rightarrow> True | Some w \<Rightarrow> json_wf w)"

lemma sorted_alist_eq:
  fixes b a :: "(string \<times> 'v) list"
  assumes "sorted_wrt (<) (map fst b)" "sorted_wrt (<) (map fst a)" "map_of b = map_of a"
  shows "b = a"
proof -
  have "set (map fst b) = set (map fst a)"
    using assms(3) by (metis dom_map_of_conv_image_fst set_map)
  then have keys: "map fst b = map fst a"
    using assms(1,2) by (intro sorted_distinct_set_unique) (auto simp: strict_sorted_iff)
  have "set b = set a"
    using assms by (intro map_of_inject_set [THEN iffD1]) (auto simp: strict_sorted_iff)
  then show ?thesis using keys assms(1)
    by (metis distinct_map map_inj_on inf_sup_aci(5) strict_sorted_iff sup.idem)
qed

lemma opt_wf_get: "json_wf (JObject b) \<Longrightarrow> opt_wf (map_of b k)"
  by (auto simp: opt_wf_def split: option.split dest!: map_of_SomeD)

lemma opt_wf_array: "json_wf (JArray b) \<Longrightarrow> opt_wf (array_get b i)"
  by (simp add: opt_wf_def array_get_def)

lemma array_get_eq: "(\<And>i. array_get b i = array_get a i) \<Longrightarrow> b = a"
proof (intro nth_equalityI)
  assume get: "\<And>i. array_get b i = array_get a i"
  show "length b = length a"
    using get [of "length b"] get [of "length a"] by (auto simp: array_get_def split: if_splits)
  then show "b ! i = a ! i" if "i < length b" for i
    using get [of i] that by (simp add: array_get_def)
qed

lemma comparable_simps [simp]:
  "comparable [] q" "comparable (s # p) (s # q) = comparable p q"
  by (auto simp: comparable_def)

lemma object_key: "map_of b k \<noteq> map_of a k \<Longrightarrow> k \<in> set (object_keys b a)"
  by (cases "map_of b k"; cases "map_of a k") (force simp: object_keys_def dest: map_of_SomeD)+

lemma array_index: "array_get b i \<noteq> array_get a i \<Longrightarrow> i \<in> set [0..<max (length b) (length a)]"
  by (auto simp: array_get_def split: if_splits)

lemma in_concat_under:
  "x \<in> set xs \<Longrightarrow> d \<in> set (f x) \<Longrightarrow>
     (g x # fst d, snd d) \<in> set (concat (map (\<lambda>x. under (g x) (f x)) xs))"
  by (cases d) (auto simp: in_under)

lemma differences_complete:
  assumes "opt_wf before" "opt_wf after" "json_at before path \<noteq> json_at after path"
  shows "\<exists>d\<in>set (differences before after). comparable path (fst d)"
  using assms
proof (induction before after arbitrary: path rule: differences_induct)
  case (object b a)
  obtain k ss where k: "map_of b k \<noteq> map_of a k" "json_at (map_of b k) ss \<noteq> json_at (map_of a k) ss"
    "\<And>q. comparable ss q \<Longrightarrow> comparable path (Key k # q)"
  proof (cases path)
    case Nil
    obtain k where "map_of b k \<noteq> map_of a k"
      using object.hyps object.prems sorted_alist_eq [of b a] by (force simp: opt_wf_def)
    then show thesis using that [of k "[]"] Nil by simp
  next
    case (Cons s ss)
    then obtain k where s: "s = Key k"
      using object.prems by (cases s) auto
    then show thesis using that [of k ss] Cons object.prems by fastforce
  qed
  then obtain d where "d \<in> set (differences (map_of b k) (map_of a k))" "comparable ss (fst d)"
    using object.IH [of k ss] object.prems opt_wf_get [of _ k] by (auto simp: opt_wf_def [of "Some _"])
  then show ?case
    using in_concat_under [OF object_key [OF k(1)], of d "\<lambda>k. differences (map_of b k) (map_of a k)" Key] k(3) object.hyps
    by (force simp: differences_object)
next
  case (array b a)
  obtain i ss where i: "array_get b i \<noteq> array_get a i" "json_at (array_get b i) ss \<noteq> json_at (array_get a i) ss"
    "\<And>q. comparable ss q \<Longrightarrow> comparable path (Index i # q)"
  proof (cases path)
    case Nil
    obtain i where "array_get b i \<noteq> array_get a i" using array.hyps array_get_eq by blast
    then show thesis using that [of i "[]"] Nil by simp
  next
    case (Cons s ss)
    then obtain i where s: "s = Index i"
      using array.prems by (cases s) auto
    then show thesis using that [of i ss] Cons array.prems by fastforce
  qed
  then obtain d where "d \<in> set (differences (array_get b i) (array_get a i))" "comparable ss (fst d)"
    using array.IH [of i ss] array.prems opt_wf_array [of _ i] by (auto simp: opt_wf_def [of "Some _"])
  then show ?case
    using in_concat_under [OF array_index [OF i(1)], of d "\<lambda>i. differences (array_get b i) (array_get a i)" Index] i(3) array.hyps
    by (force simp: differences_array)
qed (simp_all add: differences_leaf comparable_def)

text \<open>The listed differences under some roots of two values: each one real, none left out.\<close>

definition exact_differences :: "json \<Rightarrow> json \<Rightarrow> string list \<Rightarrow> json_difference list \<Rightarrow> bool" where
  "exact_differences b a roots ds \<longleftrightarrow>
     (\<forall>(path, x, y)\<in>set ds. x = json_at (Some b) path \<and> y = json_at (Some a) path \<and> x \<noteq> y) \<and>
     (\<forall>field\<in>set roots. \<forall>path.
        json_at (Some b) (Key field # path) \<noteq> json_at (Some a) (Key field # path) \<longrightarrow>
        (\<exists>d\<in>set ds. comparable (Key field # path) (fst d)))"

definition patch_differences :: "json \<Rightarrow> json \<Rightarrow> project_patch \<Rightarrow> json_difference list" where
  "patch_differences b a p =
     concat (map (\<lambda>field. under (Key field) (differences (json_get b field) (json_get a field))) (patch_roots p))"

lemma json_at_root: "json_at (Some v) (Key field # path) = json_at (json_get v field) path"
  by (cases v) auto

lemma opt_wf_root: "json_wf v \<Longrightarrow> opt_wf (json_get v field)"
  using opt_wf_get by (cases v) (auto simp: opt_wf_def)

lemma patch_differences_exact:
  assumes "json_wf b" "json_wf a"
  shows "exact_differences b a (patch_roots p) (patch_differences b a p)"
  unfolding exact_differences_def
proof (intro conjI ballI allI impI)
  fix d assume "d \<in> set (patch_differences b a p)"
  then show "case d of (path, x, y) \<Rightarrow> x = json_at (Some b) path \<and> y = json_at (Some a) path \<and> x \<noteq> y"
    by (auto simp: patch_differences_def in_under json_at_root simp del: json_at.simps dest!: differences_sound)
next
  fix field path
  assume field: "field \<in> set (patch_roots p)"
    and "json_at (Some b) (Key field # path) \<noteq> json_at (Some a) (Key field # path)"
  then obtain d where d: "d \<in> set (differences (json_get b field) (json_get a field))" "comparable path (fst d)"
    using differences_complete [of "json_get b field" "json_get a field" path] assms
    by (auto simp: opt_wf_root json_at_root simp del: json_at.simps)
  then show "\<exists>d\<in>set (patch_differences b a p). comparable (Key field # path) (fst d)"
    using in_concat_under [OF field, of d "\<lambda>field. differences (json_get b field) (json_get a field)" Key]
    by (force simp: patch_differences_def)
qed

lemma root_pointer: "field \<in> set (patch_roots p) \<Longrightarrow> escape_key field = field"
  by (auto simp: patch_roots_def escape_key_def split: if_splits)

lemma project_patch_changes_listed:
  assumes "vc_project V base = Some b" "vc_project V candidate = Some a"
  shows "project_patch_changes V base candidate p = push_all (map (as_change []) (patch_differences b a p)) []"
proof -
  have "try_fold (\<lambda>changes field. collect_changes (''/'' @ field) (json_get b field) (json_get a field) changes) []
      (patch_roots p) =
    push_all (concat (map (\<lambda>field. map (as_change []) (under (Key field) (differences (json_get b field) (json_get a field))))
      (patch_roots p))) []"
    by (rule try_fold_push_all)
       (simp_all add: collect_changes_differences as_change_under root_pointer MAX_PROPOSAL_CHANGES_def)
  moreover have "project_patch_changes V base candidate p =
      try_fold (\<lambda>changes field. collect_changes (''/'' @ field) (json_get b field) (json_get a field) changes) []
        (patch_roots p)"
    by (simp add: project_patch_changes_def assms)
  ultimately show ?thesis by (simp add: patch_differences_def map_concat comp_def)
qed

text \<open>
  C34: the changes a staged patch lists are exactly where the serialized candidate differs from the project:
  every listed pointer resolves in both to the listed values, which differ, and every difference under a
  member the patch sets is on a listed path; more than 500 changes are refused.
\<close>
theorem patch_changes_exact:
  assumes "vc_project V base = Some b" "vc_project V candidate = Some a" "json_wf b" "json_wf a"
  shows "exact_differences b a (patch_roots p) (patch_differences b a p) \<and>
    project_patch_changes V base candidate p =
      (if length (patch_differences b a p) \<le> 500 then Ok (map (as_change []) (patch_differences b a p))
       else Err ())"
  using patch_differences_exact [OF assms(3,4)] project_patch_changes_listed [OF assms(1,2)]
  by (simp add: push_all_def MAX_PROPOSAL_CHANGES_def)

lemma patch_changes_exact_witness:
  "let V = \<lparr>vc_project = (\<lambda>p. Some (JObject [(''name'', JString (ep_name p))])), vc_view = (\<lambda>_. None),
       vc_value_text = (\<lambda>_. None), vc_outcome_text = (\<lambda>_. None)\<rparr>;
     p = \<lparr>pp_name = Some ''b'', pp_description = None, pp_settings = None, pp_resources = None\<rparr>;
     b = JObject [(''name'', JString ''a'')]; a = JObject [(''name'', JString ''b'')]
   in exact_differences b a (patch_roots p) (patch_differences b a p) \<and>
      project_patch_changes V (example_edit ''a'') (apply_patch p (example_edit ''a'')) p =
        Ok [\<lparr>ppc_pointer = ''/name'', ppc_before = Some (JString ''a''), ppc_after = Some (JString ''b'')\<rparr>]"
proof -
  let ?V = "\<lparr>vc_project = (\<lambda>p. Some (JObject [(''name'', JString (ep_name p))])), vc_view = (\<lambda>_. None),
       vc_value_text = (\<lambda>_. None), vc_outcome_text = (\<lambda>_. None)\<rparr>"
  let ?p = "\<lparr>pp_name = Some ''b'', pp_description = None, pp_settings = None, pp_resources = None\<rparr>"
  show ?thesis
    using patch_changes_exact [of ?V "example_edit ''a''" "JObject [(''name'', JString ''a'')]"
        "apply_patch ?p (example_edit ''a'')" "JObject [(''name'', JString ''b'')]" ?p]
    by (simp add: example_edit_def apply_patch_def patch_differences_def patch_roots_def differences_leaf under_def
        as_change_def render_path_def escape_key_def)
qed

section \<open>What the view of a project shows\<close>

text \<open>A resource without its workload name, volume labels and provider volume identifiers.\<close>

definition anonymous :: "resource \<Rightarrow> resource" where
  "anonymous r =
     (case r of
        Ec2 e \<Rightarrow> Ec2 (e\<lparr>ec2_shared := (ec2_shared e)\<lparr>sr_workload_name := []\<rparr>,
          ec2_volumes := map (\<lambda>v. v\<lparr>ev_label := [], ev_aws_volume_id := None\<rparr>) (ec2_volumes e)\<rparr>)
      | Ec2Vm e \<Rightarrow> Ec2Vm (e\<lparr>ec2vm_shared := (ec2vm_shared e)\<lparr>sr_workload_name := []\<rparr>,
          ec2vm_volumes := map (\<lambda>v. v\<lparr>vv_label := [], vv_aws_volume_id := None\<rparr>) (ec2vm_volumes e)\<rparr>)
      | Rds e \<Rightarrow> Rds (e\<lparr>rds_shared := (rds_shared e)\<lparr>sr_workload_name := []\<rparr>\<rparr>)
      | OnPrem e \<Rightarrow> OnPrem (e\<lparr>op_shared := (op_shared e)\<lparr>sr_workload_name := []\<rparr>\<rparr>))"

lemma map_enumerate_forget:
  "(\<And>i v. g (f i v) = h v) \<Longrightarrow> map g (map (\<lambda>(i, v). f i v) (enumerate n xs)) = map h xs"
  by (induction xs arbitrary: n) auto

lemma map_enumerate_map:
  "(\<And>i v. f i (h v) = f i v) \<Longrightarrow> map (\<lambda>(i, v). f i v) (enumerate n (map h xs)) = map (\<lambda>(i, v). f i v) (enumerate n xs)"
  by (induction xs arbitrary: n) auto

lemma redact_anonymous: "redact_resource (anonymous r) i = redact_resource r i"
  by (cases r) (simp_all add: redact_resource_def anonymous_def Let_def map_enumerate_map)

lemma anonymous_redact: "anonymous (redact_resource r i) = anonymous r"
  by (cases r) (simp_all add: redact_resource_def anonymous_def Let_def map_enumerate_forget del: map_map)

lemma redact_eq: "redact_resource r i = redact_resource r' i \<longleftrightarrow> anonymous r = anonymous r'"
  by (metis redact_anonymous anonymous_redact)

lemma redacted_list_eq:
  "map (\<lambda>(i, r). redact_resource r i) (enumerate n rs) = map (\<lambda>(i, r). redact_resource r i) (enumerate n rs') \<longleftrightarrow>
     map anonymous rs = map anonymous rs'"
proof (induction rs arbitrary: n rs')
  case (Cons r rs)
  then show ?case by (cases rs') (simp_all add: redact_eq)
next
  case Nil
  then show ?case by (cases rs') simp_all
qed

text \<open>
  the view keeps the server name of every workload as it is, although the tool's description says that
  names are removed.
\<close>
theorem project_view_shows_server_names:
  "map (\<lambda>r. sr_server_name (resource_shared r)) (pv_resources (view_of_project p)) =
     map (\<lambda>r. sr_server_name (resource_shared r)) (ep_resources p)"
proof -
  have "sr_server_name (resource_shared (redact_resource r i)) = sr_server_name (resource_shared r)" for r i
    by (cases r) (simp_all add: redact_resource_def Let_def)
  then show ?thesis by (simp add: view_of_project_def map_enumerate_forget del: map_map)
qed

lemma redacted_names:
  "map (\<lambda>r. sr_workload_name (resource_shared r)) (map (\<lambda>(i, r). redact_resource r i) (enumerate n rs)) =
     map (\<lambda>i. ''workload-'' @ show_nat (i + 1)) [n..<n + length rs]"
proof (induction rs arbitrary: n)
  case (Cons r rs)
  have "sr_workload_name (resource_shared (redact_resource r n)) = ''workload-'' @ show_nat (n + 1)"
    by (cases r) (simp_all add: redact_resource_def Let_def)
  moreover have "[n..<n + length (r # rs)] = n # [Suc n..<Suc n + length rs]" by (simp add: upt_conv_Cons del: upt_Suc)
  ultimately show ?case using Cons.IH [of "Suc n"] by (simp del: upt_Suc)
qed simp

text \<open>
  C35: what the assistant's model sees of a project hides its name and description, the workload names, the
  volume labels, the provider's volume identifiers and the snapshot identifiers, and nothing else: two
  projects have the same view exactly if they agree on the rest. Each workload is shown under its position;
  the server names are shown as the user entered them.
\<close>
theorem project_view_anonymous:
  "(view_of_project p = view_of_project p' \<longleftrightarrow>
     ep_settings p = ep_settings p' \<and> map anonymous (ep_resources p) = map anonymous (ep_resources p') \<and>
     (ep_aws_price_snapshot_id p = None \<longleftrightarrow> ep_aws_price_snapshot_id p' = None) \<and>
     (ep_azure_price_snapshot_id p = None \<longleftrightarrow> ep_azure_price_snapshot_id p' = None)) \<and>
   map (\<lambda>r. sr_workload_name (resource_shared r)) (pv_resources (view_of_project p)) =
     map (\<lambda>i. ''workload-'' @ show_nat (i + 1)) [0..<length (ep_resources p)] \<and>
   map (\<lambda>r. sr_server_name (resource_shared r)) (pv_resources (view_of_project p)) =
     map (\<lambda>r. sr_server_name (resource_shared r)) (ep_resources p)"
proof (intro conjI project_view_shows_server_names)
  show "view_of_project p = view_of_project p' \<longleftrightarrow>
     ep_settings p = ep_settings p' \<and> map anonymous (ep_resources p) = map anonymous (ep_resources p') \<and>
     (ep_aws_price_snapshot_id p = None \<longleftrightarrow> ep_aws_price_snapshot_id p' = None) \<and>
     (ep_azure_price_snapshot_id p = None \<longleftrightarrow> ep_azure_price_snapshot_id p' = None)"
    by (auto simp: view_of_project_def Let_def redacted_list_eq dest: map_eq_imp_length_eq)
  show "map (\<lambda>r. sr_workload_name (resource_shared r)) (pv_resources (view_of_project p)) =
     map (\<lambda>i. ''workload-'' @ show_nat (i + 1)) [0..<length (ep_resources p)]"
    using redacted_names [of 0 "ep_resources p"] by (simp add: view_of_project_def)
qed

section \<open>Drafts are complete\<close>

lemma new_resource_ok:
  "nri_source_type i \<noteq> PtSqlPayg \<Longrightarrow>
     \<exists>r n'. (new_resource ids n i mem :: ('e, _) outcome) = Ok (r, n') \<and> resource_project_type r = nri_source_type i"
  by (cases "nri_source_type i") (simp_all add: new_resource_def Let_def)

lemma new_resource_panics: "nri_source_type i = PtSqlPayg \<Longrightarrow> new_resource ids n i mem = Panic"
  by (simp add: new_resource_def Let_def)

lemma new_resources_ok:
  "list_all (\<lambda>i. nri_source_type i \<noteq> PtSqlPayg) is \<Longrightarrow>
     \<exists>rs. (new_resources ids n is mem :: ('e, _) outcome) = Ok rs \<and> map resource_project_type rs = map nri_source_type is"
proof (induction "is" arbitrary: n)
  case (Cons i "is")
  obtain r n' where r: "(new_resource ids n i mem :: ('e, _) outcome) = Ok (r, n')"
      "resource_project_type r = nri_source_type i"
    using new_resource_ok [of i ids n mem] Cons.prems by auto
  then show ?case using Cons.IH [of n'] Cons.prems by auto
qed simp

definition draft_of :: "stage_new_project_draft_input \<Rightarrow> editable_project \<Rightarrow> bool" where
  "draft_of i p \<longleftrightarrow>
     ps_project_type (ep_settings p) = snp_project_type i \<and>
     list_all (\<lambda>r. resource_project_type r = snp_project_type i) (ep_resources p) \<and>
     ep_aws_price_snapshot_id p = None \<and> ep_azure_price_snapshot_id p = None"

lemma new_project_draft_ok:
  assumes "list_all (\<lambda>r. nri_source_type r = snp_project_type i \<and> fields_match_source_type r) (snp_resources i)"
  shows "\<exists>p. (new_project_draft ids i mem :: ('e, _) outcome) = Ok p \<and> draft_of i p"
proof (cases "snp_project_type i = PtSqlPayg")
  case True
  then show ?thesis by (simp add: new_project_draft_def draft_of_def new_project_settings_def Let_def)
next
  case False
  define "is" where "is = (if snp_resources i = [] then [default_resource_input (snp_project_type i)] else snp_resources i)"
  have types: "\<forall>r\<in>set is. nri_source_type r = snp_project_type i"
    using assms by (auto simp: is_def default_resource_input_def list_all_iff)
  then have "list_all (\<lambda>r. nri_source_type r \<noteq> PtSqlPayg) is"
    using False by (auto simp: list_all_iff)
  then obtain rs where rs: "(new_resources ids 0 is mem :: ('e, _) outcome) = Ok rs"
      "map resource_project_type rs = map nri_source_type is"
    using new_resources_ok by blast
  have "resource_project_type ` set rs = nri_source_type ` set is"
    using rs(2) by (metis set_map)
  then have "list_all (\<lambda>r. resource_project_type r = snp_project_type i) rs"
    using types by (auto simp: list_all_iff)
  then show ?thesis
    using False rs(1) by (auto simp: new_project_draft_def draft_of_def new_project_settings_def Let_def is_def
        split: if_splits)
qed

end
