(* ===== verification/AssistantDispatch.thy ===== *)
theory AssistantDispatch
  imports AssistantDrafts
begin

text \<open>
  \<open>rust/src/assistant/tools.rs\<close>, the tools themselves and \<open>dispatch\<close>. A tool takes the world before it
  and returns its outcome and the world after it. The services of \<open>AppState\<close> it calls are the
  parameter \<open>tool_services\<close>: the project store behind its trait, the calculation with the slots of
  its semaphore, the price resolution reduced to the memory the AWS catalog gives an instance type,
  and fresh UUIDs. None of their results is assumed.
\<close>

record ('w, 'rev, 'calc) tool_services =
  ts_get_project :: "string \<Rightarrow> uuid \<Rightarrow> 'w \<Rightarrow> (repository_error, 'rev project_document) outcome \<times> 'w"
  ts_try_acquire_slot :: "'w \<Rightarrow> bool \<times> 'w"
  ts_release_slot :: "'w \<Rightarrow> 'w"
  ts_calculate :: "editable_project \<Rightarrow> 'w \<Rightarrow> (unit, 'calc) outcome \<times> 'w"
  ts_calculation_value :: "'calc \<Rightarrow> json option"
  ts_resolve_aws :: "string \<Rightarrow> string \<Rightarrow> 'w \<Rightarrow> (string \<Rightarrow> decimal_value option) option \<times> 'w"
  ts_new_uuids :: "'w \<Rightarrow> (nat \<Rightarrow> uuid) \<times> 'w"

type_synonym 'w tool_result = "(unit, tool_outcome) outcome \<times> 'w"

definition agent_capabilities :: "turn_context \<Rightarrow> tool_outcome" where
  "agent_capabilities c =
     into_ok (Some (JObject
       [(''action_boundary'', JString ''Project changes are staged for review. Persisted changes require a separate explicit confirmation.''),
        (''available_tools'', JArray (map (\<lambda>tool. JString (td_name tool)) (schemas_for_context c))),
        (''memory_boundary'', JString ''Conversation, image, and action history are request-scoped. There is no hidden or cross-session memory.''),
        (''programming'', JString ''A bounded Rust-hosted reasoning loop backed by Microsoft Foundry inference. The host owns identity, authorization, validation, calculations, persistence, and tool execution.''),
        (''selected_project'', JBool (ctx_project c \<noteq> None)),
        (''supported_actions'', JArray (map JString
          (if ctx_project c \<noteq> None
           then [''read the selected project'', ''validate project changes'', ''calculate a project draft'',
                 ''stage a reviewed project patch'', ''analyze a JPEG or PNG for project inputs'']
           else [''explain application controls'', ''describe agent capabilities'',
                 ''stage a validated new unsaved project draft'',
                 ''analyze a JPEG or PNG into a new unsaved project draft''])))]))"

definition application_help ::
  "help_entry list \<Rightarrow> application_help_input \<Rightarrow> tool_outcome" where
  "application_help entries i =
     (case ahi_control_id i of
        Some control_id \<Rightarrow>
          (case explain_control entries control_id of
             Some response \<Rightarrow> into_ok (Some (help_response_value response))
           | None \<Rightarrow> ToolError ''unknown_control_id'')
      | None \<Rightarrow>
          (case answer_question entries (ahi_question i) of
             Ok response \<Rightarrow> into_ok (Some (help_response_value response))
           | Err errors \<Rightarrow> ToolInvalid errors
           | Panic \<Rightarrow> ToolInvalid []))"

definition editable_of :: "'rev project_document \<Rightarrow> editable_project" where
  "editable_of d =
     \<lparr>ep_name = pd_name d, ep_description = pd_description d, ep_settings = pd_settings d,
      ep_resources = pd_resources d, ep_aws_price_snapshot_id = pd_aws_price_snapshot_id d,
      ep_azure_price_snapshot_id = pd_azure_price_snapshot_id d\<rparr>"

text \<open>
  \<open>read_selected_project\<close> gives no project, an outcome to return, or the project; its callers turn the
  first two into their outcome, so here both are the \<open>Err\<close> of one result.
\<close>

definition read_selected_project ::
  "('w, 'rev, 'calc) tool_services \<Rightarrow> turn_context \<Rightarrow> 'w \<Rightarrow> (tool_outcome, editable_project) outcome \<times> 'w" where
  "read_selected_project S c w =
     (case ctx_project c of
        None \<Rightarrow> (Err (ToolUnavailable ''no_selected_project''), w)
      | Some selected \<Rightarrow>
          (case ts_get_project S (ctx_owner_id c) (sel_id selected) w of
             (Ok document, w') \<Rightarrow> (Ok (editable_of document), w')
           | (Err NotFound, w') \<Rightarrow> (Err (ToolError ''project_not_found''), w')
           | (Err _, w') \<Rightarrow> (Err (ToolUnavailable ''storage_unavailable''), w')
           | (Panic, w') \<Rightarrow> (Panic, w')))"

definition on_selected_project ::
  "('w, 'rev, 'calc) tool_services \<Rightarrow> turn_context \<Rightarrow> (editable_project \<Rightarrow> 'w \<Rightarrow> 'w tool_result) \<Rightarrow>
     'w \<Rightarrow> 'w tool_result" where
  "on_selected_project S c f w =
     (case read_selected_project S c w of
        (Ok project, w') \<Rightarrow> f project w'
      | (Err outcome, w') \<Rightarrow> (Ok outcome, w')
      | (Panic, w') \<Rightarrow> (Panic, w'))"

definition current_project ::
  "view_codec \<Rightarrow> ('w, 'rev, 'calc) tool_services \<Rightarrow> turn_context \<Rightarrow> 'w \<Rightarrow> 'w tool_result" where
  "current_project V S c =
     on_selected_project S c (\<lambda>project w. (Ok (into_ok (vc_view V (view_of_project project))), w))"

definition validate_project_patch ::
  "('w, 'rev, 'calc) tool_services \<Rightarrow> turn_context \<Rightarrow> project_patch \<Rightarrow> 'w \<Rightarrow> 'w tool_result" where
  "validate_project_patch S c p =
     on_selected_project S c (\<lambda>project w.
       let issues = validate (apply_patch p project)
       in (Ok (if issues = [] then into_ok (Some (JObject [(''valid'', JBool True)]))
               else ToolInvalid issues), w))"

definition calculate_project_draft ::
  "('w, 'rev, 'calc) tool_services \<Rightarrow> turn_context \<Rightarrow> project_patch \<Rightarrow> 'w \<Rightarrow> 'w tool_result" where
  "calculate_project_draft S c p =
     on_selected_project S c (\<lambda>project w.
       let candidate = apply_patch p project; issues = validate candidate
       in if issues \<noteq> [] then (Ok (ToolInvalid issues), w)
          else
            (case ts_try_acquire_slot S w of
               (False, w1) \<Rightarrow> (Ok (ToolUnavailable ''calculation_busy''), w1)
             | (True, w1) \<Rightarrow>
                 (case ts_calculate S candidate w1 of
                    (Ok revision, w2) \<Rightarrow> (Ok (into_ok (ts_calculation_value S revision)), ts_release_slot S w2)
                  | (Err _, w2) \<Rightarrow> (Ok (ToolError ''calculation_failed''), ts_release_slot S w2)
                  | (Panic, w2) \<Rightarrow> (Panic, ts_release_slot S w2))))"

definition stage_project_patch ::
  "view_codec \<Rightarrow> ('w, 'rev, 'calc) tool_services \<Rightarrow> turn_context \<Rightarrow> stage_project_patch_input \<Rightarrow> 'w \<Rightarrow>
     'w tool_result" where
  "stage_project_patch V S c i =
     on_selected_project S c (\<lambda>project w.
       let candidate = apply_patch (sppi_patch i) project; issues = validate candidate
       in if issues \<noteq> [] then (Ok (ToolInvalid issues), w)
          else
            (case project_patch_changes V project candidate (sppi_patch i) of
               Err _ \<Rightarrow> (Ok (ToolInvalid [issue ''/patch'' ''limit''
                   (''A proposal may change at most '' @ show_nat MAX_PROPOSAL_CHANGES @ '' individual fields.'')]), w)
             | Panic \<Rightarrow> (Panic, w)
             | Ok changes \<Rightarrow>
                 if changes = [] \<and> sppi_omissions i = [] \<and> sppi_uncertainties i = [] then
                   (Ok (ToolInvalid [issue ''/patch'' ''required''
                     ''The extraction report must propose a change or identify an omission or uncertainty.'']), w)
                 else
                   (Ok (ToolStaged
                     (if changes \<noteq> [] then Some (ProjectPatchProposal
                        \<lparr>ppp_action = ''apply_project_patch'', ppp_patch = sppi_patch i, ppp_changes = changes\<rparr>)
                      else None)
                     (sppi_omissions i) (sppi_uncertainties i)), w)))"

definition EC2_CATALOG_RAM_UNAVAILABLE_UNCERTAINTY :: string where
  "EC2_CATALOG_RAM_UNAVAILABLE_UNCERTAINTY =
     ''Source RAM was not visible and authoritative AWS catalog memory was unavailable, so no project draft was created.''"

definition GP3_ASSUMED_IOPS_UNCERTAINTY :: string where
  "GP3_ASSUMED_IOPS_UNCERTAINTY =
     ''Provisioned IOPS were not visible for at least one gp3 volume, so the draft uses the AWS gp3 baseline of 3,000 IOPS, which AWS includes at no additional cost.''"

definition IO2_ASSUMED_IOPS_UNCERTAINTY :: string where
  "IO2_ASSUMED_IOPS_UNCERTAINTY =
     ''Provisioned IOPS were not visible for at least one io2 volume, so the draft uses the AWS io2 minimum of 100 IOPS. Confirm the provisioned value because io2 bills every provisioned IOPS.''"

definition ec2_catalog_ram_missing ::
  "stage_new_project_draft_input \<Rightarrow> (string \<Rightarrow> decimal_value option) \<Rightarrow> bool" where
  "ec2_catalog_ram_missing i ec2_catalog_memory \<longleftrightarrow>
     is_ec2_type (snp_project_type i) \<and>
     (if snp_resources i = [] then ec2_catalog_memory ''r6id.8xlarge'' = None
      else list_ex (\<lambda>r. nri_source_ram_gb r = None \<and>
             ec2_catalog_memory (unwrap_or (nri_instance_type r) ''r6id.8xlarge'') = None) (snp_resources i))"

definition assumed_iops :: "stage_new_project_draft_input \<Rightarrow> ebs_volume_type \<Rightarrow> bool" where
  "assumed_iops i assumed \<longleftrightarrow>
     is_ec2_type (snp_project_type i) \<and>
     list_ex (\<lambda>r. list_ex (\<lambda>v. nvi_provisioned_iops v = None \<and> nvi_volume_type v = Some assumed)
       (unwrap_or (nri_volumes r) [])) (snp_resources i)"

definition draft_uncertainties :: "stage_new_project_draft_input \<Rightarrow> string list" where
  "draft_uncertainties i =
     snp_uncertainties i @
     (if assumed_iops i Gp3 then [GP3_ASSUMED_IOPS_UNCERTAINTY] else []) @
     (if assumed_iops i Io2 then [IO2_ASSUMED_IOPS_UNCERTAINTY] else []) @
     (if snp_project_type i = PtOnPrem \<and>
         (nps_enterprise_license_sa_pack (snp_settings i) = None \<or>
          nps_standard_license_sa_pack (snp_settings i) = None)
      then [''Missing License + SA pack prices use the reviewed SQL Server 2022 public-book reference verified 2026-08-07.'']
      else []) @
     (if snp_project_type i = PtSqlPayg \<and>
         Option.bind (nps_sql_payg (snp_settings i)) nsp_software_assurance_annual_usd = None
      then [''Annual Software Assurance or renewal spend was not visible and is temporarily set to USD 0 for review.'']
      else [])"

definition stage_new_project_draft_with_ec2_memory ::
  "(nat \<Rightarrow> uuid) \<Rightarrow> turn_context \<Rightarrow> stage_new_project_draft_input \<Rightarrow> (string \<Rightarrow> decimal_value option) \<Rightarrow>
     (unit, tool_outcome) outcome" where
  "stage_new_project_draft_with_ec2_memory ids c i ec2_catalog_memory =
     (if ctx_project c \<noteq> None then Ok (ToolUnavailable ''project_already_selected'')
      else if ec2_catalog_ram_missing i ec2_catalog_memory then
        Ok (ToolStaged None (snp_omissions i)
          (if length (snp_uncertainties i) < MAX_EXTRACTION_NOTES
           then snp_uncertainties i @ [EC2_CATALOG_RAM_UNAVAILABLE_UNCERTAINTY] else snp_uncertainties i))
      else
        obind (new_project_draft ids i ec2_catalog_memory) (\<lambda>project.
        let issues = validate project
        in if issues \<noteq> [] then Ok (ToolInvalid issues)
           else Ok (ToolStaged (Some (NewProjectDraftProposal
                  \<lparr>npd_action = ''open_project_draft'', npd_project = project\<rparr>))
                  (snp_omissions i) (draft_uncertainties i))))"

definition stage_new_project_draft ::
  "('w, 'rev, 'calc) tool_services \<Rightarrow> turn_context \<Rightarrow> stage_new_project_draft_input \<Rightarrow> 'w \<Rightarrow> 'w tool_result" where
  "stage_new_project_draft S c i w =
     (let aws_region = unwrap_or (nps_aws_region (snp_settings i)) ''eu-west-1'';
          (aws_snapshot, w1) =
            (if is_ec2_type (snp_project_type i) then ts_resolve_aws S ''USD'' aws_region w else (None, w));
          (ids, w2) = ts_new_uuids S w1
      in (stage_new_project_draft_with_ec2_memory ids c i
            (\<lambda>instance_type. Option.bind aws_snapshot (\<lambda>snapshot. snapshot instance_type)), w2))"

definition dispatch ::
  "view_codec \<Rightarrow> help_entry list \<Rightarrow> ('w, 'rev, 'calc) tool_services \<Rightarrow> turn_context \<Rightarrow> tool_input \<Rightarrow> 'w \<Rightarrow>
     'w tool_result" where
  "dispatch V entries S c i w =
     (case i of
        AgentCapabilities \<Rightarrow> (Ok (agent_capabilities c), w)
      | ApplicationHelp h \<Rightarrow> (Ok (application_help entries h), w)
      | CurrentProject \<Rightarrow> current_project V S c w
      | ValidateProjectPatch p \<Rightarrow> validate_project_patch S c (ppi_patch p) w
      | CalculateProjectDraft p \<Rightarrow> calculate_project_draft S c (ppi_patch p) w
      | StageProjectPatch p \<Rightarrow> stage_project_patch V S c p w
      | StageNewProjectDraft d \<Rightarrow> stage_new_project_draft S c d w)"

section \<open>What is staged\<close>

lemma on_selected_project_Ok:
  "on_selected_project S c f w = (Ok x, w') \<Longrightarrow>
     (\<exists>selected d w1. ctx_project c = Some selected \<and>
        ts_get_project S (ctx_owner_id c) (sel_id selected) w = (Ok d, w1) \<and> f (editable_of d) w1 = (Ok x, w')) \<or>
     x \<in> {ToolUnavailable ''no_selected_project'', ToolError ''project_not_found'',
          ToolUnavailable ''storage_unavailable''}"
  by (auto simp: on_selected_project_def read_selected_project_def
      split: option.splits prod.splits outcome.splits repository_error.splits)

text \<open>
  A proposal the user may be shown: a patch of the selected project as the store returned it, with the
  exact list of its changes and a valid result; or a valid new project of the classified type.
\<close>

definition proposal_ok ::
  "view_codec \<Rightarrow> ('w, 'rev, 'calc) tool_services \<Rightarrow> turn_context \<Rightarrow> assistant_proposal \<Rightarrow> bool" where
  "proposal_ok V S c proposal \<longleftrightarrow>
     (case proposal of
        ProjectPatchProposal p \<Rightarrow>
          (\<exists>selected d w w'. ctx_project c = Some selected \<and>
             ts_get_project S (ctx_owner_id c) (sel_id selected) w = (Ok d, w') \<and>
             validate (apply_patch (ppp_patch p) (editable_of d)) = [] \<and> ppp_changes p \<noteq> [] \<and>
             project_patch_changes V (editable_of d) (apply_patch (ppp_patch p) (editable_of d)) (ppp_patch p) =
               Ok (ppp_changes p))
      | NewProjectDraftProposal p \<Rightarrow>
          ctx_project c = None \<and> validate (npd_project p) = [] \<and>
          ctx_classified_project_type c \<in> {None, Some (ps_project_type (ep_settings (npd_project p)))})"

lemma stage_project_patch_proposal:
  assumes "stage_project_patch V S c i w = (Ok outcome, w')" "outcome_proposal outcome = Some p"
  shows "proposal_ok V S c p"
  using assms on_selected_project_Ok [OF assms(1) [unfolded stage_project_patch_def]]
  by (fastforce simp: proposal_ok_def Let_def split: if_splits outcome.splits)

lemma new_project_draft_type:
  "new_project_draft ids i mem = Ok p \<Longrightarrow> ps_project_type (ep_settings p) = snp_project_type i"
  by (auto simp: new_project_draft_def obind_Ok_iff new_project_settings_def Let_def)

lemma stage_new_project_draft_proposal:
  assumes "stage_new_project_draft S c i w = (Ok outcome, w')" "outcome_proposal outcome = Some p"
    and "ctx_classified_project_type c \<in> {None, Some (snp_project_type i)}"
  shows "proposal_ok V S c p"
  using assms
  by (auto simp: stage_new_project_draft_def stage_new_project_draft_with_ec2_memory_def Let_def obind_Ok_iff
      proposal_ok_def new_project_draft_type split: if_splits prod.splits)

lemma dispatch_proposal:
  assumes "dispatch V entries S c i w = (Ok outcome, w')" "outcome_proposal outcome = Some p"
    and "\<And>draft. i = StageNewProjectDraft draft \<Longrightarrow>
      ctx_classified_project_type c \<in> {None, Some (snp_project_type draft)}"
  shows "proposal_ok V S c p"
proof (cases i)
  case (StageProjectPatch j)
  then show ?thesis using assms stage_project_patch_proposal by (simp add: dispatch_def)
next
  case (StageNewProjectDraft j)
  then show ?thesis using assms stage_new_project_draft_proposal [of S c j w outcome w'] by (simp add: dispatch_def)
next
  case (CurrentProject)
  then show ?thesis using assms
    on_selected_project_Ok [of S c "\<lambda>project w. (Ok (into_ok (vc_view V (view_of_project project))), w)"]
    by (fastforce simp: dispatch_def current_project_def into_ok_def split: option.splits)
next
  case (ValidateProjectPatch j)
  then show ?thesis using assms
    by (auto simp: dispatch_def validate_project_patch_def Let_def into_ok_def
        dest!: on_selected_project_Ok split: option.splits if_splits)
next
  case (CalculateProjectDraft j)
  then show ?thesis using assms
    by (auto simp: dispatch_def calculate_project_draft_def Let_def into_ok_def
        dest!: on_selected_project_Ok split: option.splits if_splits prod.splits bool.splits outcome.splits)
qed (use assms in \<open>auto simp: dispatch_def agent_capabilities_def application_help_def into_ok_def
       split: option.splits outcome.splits\<close>)

section \<open>A parsed draft is built\<close>

lemma parsed_draft:
  assumes "parse_input J A d arguments = Ok (StageNewProjectDraft i)"
  shows "list_all (\<lambda>r. nri_source_type r = snp_project_type i \<and> fields_match_source_type r) (snp_resources i)"
proof -
  obtain i0 omissions uncertainties where "i = i0\<lparr>snp_omissions := omissions, snp_uncertainties := uncertainties\<rparr>"
      "\<not> list_ex (\<lambda>r. nri_source_type r \<noteq> snp_project_type i0 \<or> \<not> fields_match_source_type r) (snp_resources i0)"
    using assms by (auto simp: parse_input_def Let_def obind_Ok_iff split: if_splits)
  then show ?thesis by (auto simp: list_all_iff list_ex_iff)
qed

text \<open>
  a draft the parser accepts never panics the tool that builds it; and a draft it stages has the
  requested type, only resources of that type, no snapshot identifiers, and passes validation.
\<close>
theorem parsed_draft_staged:
  "case parse_input J A d arguments of
     Ok (StageNewProjectDraft i) \<Rightarrow>
       (case fst (stage_new_project_draft S c i w) of
          Ok (ToolStaged (Some (NewProjectDraftProposal p)) _ _) \<Rightarrow>
            draft_of i (npd_project p) \<and> validate (npd_project p) = []
        | Ok _ \<Rightarrow> True
        | _ \<Rightarrow> False)
   | _ \<Rightarrow> True"
proof (cases "\<exists>i. parse_input J A d arguments = Ok (StageNewProjectDraft i)")
  case True
  then obtain i where i: "parse_input J A d arguments = Ok (StageNewProjectDraft i)" by blast
  have draft: "\<exists>p. (new_project_draft ids i mem :: (unit, _) outcome) = Ok p \<and> draft_of i p" for ids mem
    by (rule new_project_draft_ok [OF parsed_draft [OF i]])
  have "case stage_new_project_draft_with_ec2_memory ids c i mem of
          Ok (ToolStaged (Some (NewProjectDraftProposal p)) _ _) \<Rightarrow>
            draft_of i (npd_project p) \<and> validate (npd_project p) = []
        | Ok _ \<Rightarrow> True
        | _ \<Rightarrow> False" for ids mem
    using draft [of ids mem] by (auto simp: stage_new_project_draft_with_ec2_memory_def Let_def)
  then show ?thesis by (simp add: i stage_new_project_draft_def Let_def split: prod.split)
qed (auto split: outcome.split tool_input.split)

end
