(* ===== verification/AssistantTurn.thy ===== *)
theory AssistantTurn
  imports AssistantPrompt AssistantDispatch
begin

text \<open>
  \<open>rust/src/assistant/turn.rs\<close>: one bounded turn. The world \<open>'w\<close> is whatever the turn acts on; the
  clock, the model behind \<open>ModelClient::respond\<close> under \<open>tokio::time::timeout\<close> (\<open>None\<close> is the elapsed
  timeout) and the tools are the operations of \<open>turn_env\<close> on it, and nothing is assumed of them.
  \<open>turn_loop\<close> is the \<open>loop\<close> of the code and is total: every round charges one of the eight model
  requests. To state what a turn does, \<open>traced\<close> records its clock readings, requests and tool calls
  beside the world; a turn cannot tell a traced environment from the plain one.
\<close>

section \<open>The turn\<close>

definition MAX_MODEL_OUTPUT_TOKENS :: u32 where
  "MAX_MODEL_OUTPUT_TOKENS = 4000"

datatype turn_error =
  TurnQuestion "validation_issue list" | TurnDeadline | TurnBudgetError budget_error
| TurnPolicy policy_error | TurnModel model_error

record turn_outcome =
  to_answer :: string
  to_citations :: "string list"
  to_proposal :: "assistant_proposal option"
  to_omissions :: "string list"
  to_uncertainties :: "string list"
  to_routed_model :: "string option"
  to_model_requests :: u32
  to_tool_calls :: u32

text \<open>A tool that panics ends with \<open>None\<close>.\<close>

record 'w turn_env =
  te_now :: "'w \<Rightarrow> nat \<times> 'w"
  te_respond :: "model_turn_request \<Rightarrow> 'w \<Rightarrow> (model_error, model_turn_response) outcome option \<times> 'w"
  te_dispatch :: "turn_context \<Rightarrow> tool_input \<Rightarrow> 'w \<Rightarrow> tool_outcome option \<times> 'w"

record turn_codec =
  tc_json :: json_codec
  tc_arith :: dec_arith
  tc_view :: view_codec

record turn_state =
  st_image :: "model_image option"
  st_repair_attempted :: bool
  st_repair_pending :: bool
  st_transcript :: "transcript_message list"
  st_budget :: turn_budget
  st_executed :: "string set"
  st_citations :: "string list"
  st_proposal :: "assistant_proposal option"
  st_omissions :: "string list"
  st_uncertainties :: "string list"
  st_routed_model :: "string option"
  st_history :: "action_record list"

definition new_turn_state :: "string \<Rightarrow> model_image option \<Rightarrow> turn_budget \<Rightarrow> turn_state" where
  "new_turn_state question img budget =
     \<lparr>st_image = img, st_repair_attempted = False, st_repair_pending = False,
      st_transcript = [UserMessage question], st_budget = budget, st_executed = {}, st_citations = [],
      st_proposal = None, st_omissions = [], st_uncertainties = [], st_routed_model = None,
      st_history = []\<rparr>"

definition extend_citations :: "string list \<Rightarrow> tool_outcome \<Rightarrow> string list" where
  "extend_citations citations outcome =
     (case outcome of
        ToolOk result \<Rightarrow>
          (case Option.bind (json_get result ''references'') json_as_array of
             None \<Rightarrow> citations
           | Some references \<Rightarrow>
               fold (\<lambda>control_id cited. if control_id \<in> set cited then cited else cited @ [control_id])
                 (List.map_filter (\<lambda>reference. Option.bind (json_get reference ''control_id'') json_as_str) references)
                 citations)
      | _ \<Rightarrow> citations)"

definition record_outcome ::
  "turn_codec \<Rightarrow> validated_tool_call \<Rightarrow> tool_outcome \<Rightarrow> turn_state \<Rightarrow> turn_state" where
  "record_outcome T call outcome st =
     (let st1 = (case extraction_notes outcome of
            None \<Rightarrow> st
          | Some (omissions, uncertainties) \<Rightarrow>
              st\<lparr>st_omissions := omissions, st_uncertainties := uncertainties\<rparr>);
          st2 = (case outcome_proposal outcome of
            None \<Rightarrow> st1 | Some staged \<Rightarrow> st1\<lparr>st_proposal := Some staged\<rparr>)
      in st2\<lparr>st_history := st_history st2 @
                [\<lparr>ar_tool_name = td_name (vtc_definition call), ar_status = history_status outcome\<rparr>],
             st_citations := extend_citations (st_citations st2) outcome,
             st_transcript := st_transcript st2 @
                [ToolResult (vtc_id call) (td_name (vtc_definition call)) (to_bounded_json (tc_view T) outcome)]\<rparr>)"

fun execute_calls ::
  "'w turn_env \<Rightarrow> turn_codec \<Rightarrow> turn_context \<Rightarrow> validated_tool_call list \<Rightarrow> turn_state \<Rightarrow> 'w \<Rightarrow>
     (turn_error, turn_state) outcome \<times> 'w" where
  "execute_calls E T c [] st w = (Ok st, w)"
| "execute_calls E T c (call # calls) st w =
     (let (now, w1) = te_now E w
      in if turn_expired c now then (Err TurnDeadline, w1)
         else
           (case te_dispatch E c (vtc_input call) w1 of
              (None, w2) \<Rightarrow> (Panic, w2)
            | (Some outcome, w2) \<Rightarrow>
                execute_calls E T c calls
                  (record_outcome T call outcome (st\<lparr>st_executed := insert (vtc_id call) (st_executed st)\<rparr>)) w2))"

datatype turn_step = Continue turn_state | Finished "(turn_error, turn_outcome) outcome"

definition turn_answer :: "turn_context \<Rightarrow> bool \<Rightarrow> turn_state \<Rightarrow> string \<Rightarrow> turn_outcome" where
  "turn_answer c image_turn st answer =
     \<lparr>to_answer =
        (if image_turn \<and> ctx_project c = None \<and> ctx_classified_project_type c \<noteq> None \<and> st_proposal st = None
         then IMAGE_DRAFT_NOT_CREATED_ANSWER else answer),
      to_citations = st_citations st, to_proposal = st_proposal st, to_omissions = st_omissions st,
      to_uncertainties = st_uncertainties st, to_routed_model = st_routed_model st,
      to_model_requests = model_requests_used (st_budget st), to_tool_calls = tool_calls_used (st_budget st)\<rparr>"

definition may_repair_schema :: "turn_context \<Rightarrow> bool \<Rightarrow> turn_state \<Rightarrow> policy_error \<Rightarrow> bool" where
  "may_repair_schema c image_turn st e \<longleftrightarrow>
     e = InvalidArguments UnknownField \<and> image_turn \<and> ctx_project c = None \<and>
     ctx_classified_project_type c \<noteq> None \<and> st_executed st = {} \<and> \<not> st_repair_attempted st"

definition handle_output ::
  "'w turn_env \<Rightarrow> turn_codec \<Rightarrow> turn_context \<Rightarrow> bool \<Rightarrow> model_output \<Rightarrow> turn_state \<Rightarrow> 'w \<Rightarrow> turn_step \<times> 'w" where
  "handle_output E T c image_turn output st w =
     (case output of
        ModelMessage answer \<Rightarrow>
          (Finished (if st_executed st = {} then Err (TurnPolicy UngroundedResponse)
                     else Ok (turn_answer c image_turn st answer)), w)
      | ModelToolCalls proposed \<Rightarrow>
          (case preflight (tc_json T) (tc_arith T) proposed c (st_budget st) (st_executed st) of
             Panic \<Rightarrow> (Finished Panic, w)
           | Err e \<Rightarrow>
               if may_repair_schema c image_turn st e
               then (Continue (st\<lparr>st_repair_attempted := True, st_repair_pending := True\<rparr>), w)
               else (Finished (Err (TurnPolicy e)), w)
           | Ok accepted \<Rightarrow>
               (case charge_tool_calls (st_budget st) (of_nat (length accepted)) of
                  (Panic, _) \<Rightarrow> (Finished Panic, w)
                | (Err e, _) \<Rightarrow> (Finished (Err (TurnBudgetError e)), w)
                | (Ok _, budget) \<Rightarrow>
                    (case execute_calls E T c accepted
                            (st\<lparr>st_budget := budget,
                                st_transcript := st_transcript st @ [AssistantToolCalls proposed]\<rparr>) w of
                       (Ok st', w') \<Rightarrow> (Continue st', w')
                     | (Err e, w') \<Rightarrow> (Finished (Err e), w')
                     | (Panic, w') \<Rightarrow> (Finished Panic, w')))))"

definition model_request ::
  "turn_context \<Rightarrow> model_image option \<Rightarrow> turn_state \<Rightarrow> string \<Rightarrow> transcript_message list \<Rightarrow> nat \<Rightarrow>
     model_turn_request" where
  "model_request c repair_image st instruction transcript timeout =
     \<lparr>mr_system_instruction = instruction, mr_prompt_version = PROMPT_VERSION, mr_messages = transcript,
      mr_image = (if st_repair_pending st then repair_image else st_image st),
      mr_tools = schemas_for_context c,
      mr_required_tool = (if st_repair_pending st then Some ''stage_new_project_draft'' else None),
      mr_max_output_tokens = MAX_MODEL_OUTPUT_TOKENS, mr_timeout = timeout\<rparr>"

text \<open>The state once the request of a round is built; \<open>Option::take\<close> empties the image it sends.\<close>

definition requested_state :: "turn_budget \<Rightarrow> transcript_message list \<Rightarrow> turn_state \<Rightarrow> turn_state" where
  "requested_state budget transcript st =
     st\<lparr>st_budget := budget, st_repair_pending := False, st_transcript := transcript,
        st_image := (if st_repair_pending st then st_image st else None)\<rparr>"

definition note_routed_model :: "model_turn_response \<Rightarrow> turn_state \<Rightarrow> turn_state" where
  "note_routed_model response st =
     (if mresp_routed_model response \<noteq> None then st\<lparr>st_routed_model := mresp_routed_model response\<rparr> else st)"

definition turn_iteration ::
  "'w turn_env \<Rightarrow> turn_codec \<Rightarrow> turn_context \<Rightarrow> bool \<Rightarrow> model_image option \<Rightarrow> turn_state \<Rightarrow> 'w \<Rightarrow> turn_step \<times> 'w" where
  "turn_iteration E T c image_turn repair_image st w =
     (let (now, w1) = te_now E w
      in if turn_expired c now then (Finished (Err TurnDeadline), w1)
         else
           (case charge_model_request (st_budget st) of
              (Panic, _) \<Rightarrow> (Finished Panic, w1)
            | (Err e, _) \<Rightarrow> (Finished (Err (TurnBudgetError e)), w1)
            | (Ok _, budget) \<Rightarrow>
                let instruction =
                      runtime_instruction c (schemas_for_context c) (st_history st) image_turn (st_repair_pending st)
                in (case compact (st_transcript st) instruction of
                      Panic \<Rightarrow> (Finished Panic, w1)
                    | Err e \<Rightarrow> (Finished (Err (TurnBudgetError e)), w1)
                    | Ok transcript \<Rightarrow>
                        let (now', w2) = te_now E w1;
                            timeout = model_call_timeout (remaining c now');
                            (reply, w3) = te_respond E
                              (model_request c repair_image st instruction transcript timeout) w2;
                            st' = requested_state budget transcript st
                        in (case reply of
                              None \<Rightarrow> (Finished (Err (TurnModel ModelTimeout)), w3)
                            | Some Panic \<Rightarrow> (Finished Panic, w3)
                            | Some (Err e) \<Rightarrow> (Finished (Err (TurnModel e)), w3)
                            | Some (Ok response) \<Rightarrow>
                                handle_output E T c image_turn (mresp_output response)
                                  (note_routed_model response st') w3))))"

fun charge_requests :: "nat \<Rightarrow> turn_budget \<Rightarrow> (budget_error, unit) outcome \<times> turn_budget" where
  "charge_requests 0 b = (Ok (), b)"
| "charge_requests (Suc n) b =
     (case charge_model_request b of
        (Ok _, b') \<Rightarrow> charge_requests n b'
      | refused \<Rightarrow> refused)"

text \<open>What the host charges for the classification that preceded the turn.\<close>

definition charge_classification :: "turn_context \<Rightarrow> turn_budget \<Rightarrow> (budget_error, unit) outcome \<times> turn_budget" where
  "charge_classification c b =
     (if ctx_classified_project_type c \<noteq> None then
        (case charge_requests (unat (ctx_classification_model_requests c)) b of
           (Ok _, b') \<Rightarrow> charge_tool_calls b' 1
         | refused \<Rightarrow> refused)
      else (Ok (), b))"

section \<open>The loop ends\<close>

lemma record_outcome_budget [simp]: "st_budget (record_outcome T call outcome st) = st_budget st"
  by (simp add: record_outcome_def Let_def split: option.split prod.split)

lemma execute_calls_budget:
  "execute_calls E T c calls st w = (Ok st', w') \<Longrightarrow> st_budget st' = st_budget st"
proof (induction calls arbitrary: st w)
  case (Cons call calls)
  then show ?case by (fastforce simp: Let_def split: prod.splits if_splits option.splits)
qed simp

lemma charge_granted:
  "charge_model_request b = (Ok u, b') \<Longrightarrow>
     unat (tb_model_requests b) < 8 \<and> unat (tb_model_requests b') = unat (tb_model_requests b) + 1 \<and>
     tb_tool_calls b' = tb_tool_calls b"
  by (auto simp: charge_model_request_def MAX_MODEL_REQUESTS_def word_le_nat_alt unat_word_ariths not_le
      split: if_splits)

lemma tool_charge_requests: "charge_tool_calls b n = (r, b') \<Longrightarrow> tb_model_requests b' = tb_model_requests b"
  by (cases rule: charge_tool_calls_cases [of b n]) auto

lemma handle_output_requests:
  assumes "handle_output E T c image_turn output st w = (Continue st', w')"
  shows "tb_model_requests (st_budget st') = tb_model_requests (st_budget st)"
  using assms
  by (auto simp: handle_output_def split: model_output.splits outcome.splits prod.splits if_splits
      dest!: execute_calls_budget tool_charge_requests)

lemma turn_iteration_requests:
  assumes "turn_iteration E T c image_turn repair_image st w = (Continue st', w')"
  shows "unat (tb_model_requests (st_budget st')) = unat (tb_model_requests (st_budget st)) + 1 \<and>
    unat (tb_model_requests (st_budget st)) < 8"
proof -
  have routed: "st_budget (note_routed_model response st) = st_budget st" for response st
    by (simp add: note_routed_model_def)
  show ?thesis
    using assms
    by (auto simp: turn_iteration_def Let_def routed requested_state_def
        split: prod.splits if_splits outcome.splits option.splits
        dest!: handle_output_requests charge_granted)
qed

function turn_loop ::
  "'w turn_env \<Rightarrow> turn_codec \<Rightarrow> turn_context \<Rightarrow> bool \<Rightarrow> model_image option \<Rightarrow> turn_state \<Rightarrow> 'w \<Rightarrow>
     (turn_error, turn_outcome) outcome \<times> 'w" where
  "turn_loop E T c image_turn repair_image st w =
     (case turn_iteration E T c image_turn repair_image st w of
        (Finished r, w') \<Rightarrow> (r, w')
      | (Continue st', w') \<Rightarrow> turn_loop E T c image_turn repair_image st' w')"
  by pat_completeness auto
termination
proof (relation "measure (\<lambda>(E, T, c, i, r, st, w). 8 - unat (tb_model_requests (st_budget st)))", goal_cases)
  case (2 E T c i r st w step w' st')
  then show ?case using turn_iteration_requests [of E T c i r st w st' w'] by (simp, arith)
qed simp

declare turn_loop.simps [simp del]

definition run_turn_with_image ::
  "'w turn_env \<Rightarrow> turn_codec \<Rightarrow> turn_context \<Rightarrow> string \<Rightarrow> model_image option \<Rightarrow> 'w \<Rightarrow>
     (turn_error, turn_outcome) outcome \<times> 'w" where
  "run_turn_with_image E T c question0 img w =
     (let question = trim question0; question_chars = chars_count question
      in if \<not> (1 \<le> question_chars \<and> question_chars \<le> MAX_QUESTION_CHARS)
         then (Err (TurnQuestion [question_length_issue]), w)
         else
           (case charge_classification c new_turn_budget of
              (Panic, _) \<Rightarrow> (Panic, w)
            | (Err e, _) \<Rightarrow> (Err (TurnBudgetError e), w)
            | (Ok _, budget) \<Rightarrow>
                turn_loop E T c (img \<noteq> None) img (new_turn_state question img budget) w))"

definition run_turn ::
  "'w turn_env \<Rightarrow> turn_codec \<Rightarrow> turn_context \<Rightarrow> string \<Rightarrow> 'w \<Rightarrow> (turn_error, turn_outcome) outcome \<times> 'w" where
  "run_turn E T c question w = run_turn_with_image E T c question None w"

text \<open>The environment of the application: its clock, its model client and \<open>tools::dispatch\<close>.\<close>

definition app_env ::
  "('w \<Rightarrow> nat \<times> 'w) \<Rightarrow> (model_turn_request \<Rightarrow> 'w \<Rightarrow> (model_error, model_turn_response) outcome option \<times> 'w) \<Rightarrow>
     view_codec \<Rightarrow> help_entry list \<Rightarrow> ('w, 'rev, 'calc) tool_services \<Rightarrow> 'w turn_env" where
  "app_env now respond V entries S =
     \<lparr>te_now = now, te_respond = respond,
      te_dispatch = (\<lambda>c i w. case dispatch V entries S c i w of
        (Ok outcome, w') \<Rightarrow> (Some outcome, w') | (_, w') \<Rightarrow> (None, w'))\<rparr>"

end
