(* ===== verification/TurnTrace.thy ===== *)
theory TurnTrace
  imports AssistantTurn
begin

text \<open>
  What a turn does, as its trace of clock readings, model requests and tool calls: the budget, the
  deadline, the calls the policy allows, the prompts and the outcome. One invariant of the loop,
  \<open>turn_inv\<close>, kept by every tool call and every round, carries the properties.
\<close>

section \<open>Traces\<close>

datatype turn_event =
  ClockRead nat | Requested model_turn_request | Dispatched tool_input "tool_outcome option"

type_synonym 'w traced_world = "'w \<times> turn_event list"

definition traced :: "'w turn_env \<Rightarrow> 'w traced_world turn_env" where
  "traced E =
     \<lparr>te_now = (\<lambda>(w, es). case te_now E w of (t, w') \<Rightarrow> (t, (w', es @ [ClockRead t]))),
      te_respond = (\<lambda>r (w, es). case te_respond E r w of (reply, w') \<Rightarrow> (reply, (w', es @ [Requested r]))),
      te_dispatch = (\<lambda>c i (w, es). case te_dispatch E c i w of
        (outcome, w') \<Rightarrow> (outcome, (w', es @ [Dispatched i outcome])))\<rparr>"

lemma traced_simps [simp]:
  "te_now (traced E) (w, es) = (case te_now E w of (t, w') \<Rightarrow> (t, (w', es @ [ClockRead t])))"
  "te_respond (traced E) r (w, es) = (case te_respond E r w of (reply, w') \<Rightarrow> (reply, (w', es @ [Requested r])))"
  "te_dispatch (traced E) c i (w, es) =
     (case te_dispatch E c i w of (outcome, w') \<Rightarrow> (outcome, (w', es @ [Dispatched i outcome])))"
  by (simp_all add: traced_def)

fun requests :: "turn_event list \<Rightarrow> model_turn_request list" where
  "requests [] = []"
| "requests (Requested r # es) = r # requests es"
| "requests (_ # es) = requests es"

fun dispatches :: "turn_event list \<Rightarrow> (tool_input \<times> tool_outcome option) list" where
  "dispatches [] = []"
| "dispatches (Dispatched i outcome # es) = (i, outcome) # dispatches es"
| "dispatches (_ # es) = dispatches es"

lemma requests_append [simp]: "requests (es @ fs) = requests es @ requests fs"
  by (induction es rule: requests.induct) auto

lemma dispatches_append [simp]: "dispatches (es @ fs) = dispatches es @ dispatches fs"
  by (induction es rule: dispatches.induct) auto

text \<open>
  Each action begins only after the clock, read since the action before it, showed time left; a
  request is given what a later reading leaves of the turn, at most a minute.
\<close>

fun in_time :: "turn_context \<Rightarrow> nat list \<Rightarrow> turn_event list \<Rightarrow> bool" where
  "in_time c reads [] \<longleftrightarrow> True"
| "in_time c reads (ClockRead t # es) \<longleftrightarrow> in_time c (reads @ [t]) es"
| "in_time c reads (Requested r # es) \<longleftrightarrow>
     reads \<noteq> [] \<and> \<not> turn_expired c (hd reads) \<and>
     mr_timeout r = min (remaining c (last reads)) MAX_MODEL_CALL_TIMEOUT \<and> in_time c [] es"
| "in_time c reads (Dispatched i outcome # es) \<longleftrightarrow>
     reads \<noteq> [] \<and> \<not> turn_expired c (hd reads) \<and> in_time c [] es"

fun reads_after :: "nat list \<Rightarrow> turn_event list \<Rightarrow> nat list" where
  "reads_after reads [] = reads"
| "reads_after reads (ClockRead t # es) = reads_after (reads @ [t]) es"
| "reads_after reads (_ # es) = reads_after [] es"

lemma in_time_append [simp]:
  "in_time c reads (es @ fs) \<longleftrightarrow> in_time c reads es \<and> in_time c (reads_after reads es) fs"
  by (induction c reads es rule: in_time.induct) auto

lemma reads_after_append [simp]: "reads_after reads (es @ fs) = reads_after (reads_after reads es) fs"
  by (induction reads es rule: reads_after.induct) auto

text \<open>What the outcomes of the tools report: the last proposal and notes, and every citation.\<close>

type_synonym turn_report = "assistant_proposal option \<times> string list \<times> string list \<times> string list"

fun note_event :: "turn_event \<Rightarrow> turn_report \<Rightarrow> turn_report" where
  "note_event (Dispatched i (Some outcome)) (proposal, omissions, uncertainties, citations) =
     (some_or (outcome_proposal outcome) proposal,
      unwrap_or (map_option fst (extraction_notes outcome)) omissions,
      unwrap_or (map_option snd (extraction_notes outcome)) uncertainties,
      extend_citations citations outcome)"
| "note_event _ report = report"

definition reported :: "turn_event list \<Rightarrow> turn_report" where
  "reported es = fold note_event es (None, [], [], [])"

lemma reported_append [simp]: "reported (es @ [e]) = note_event e (reported es)"
  by (simp add: reported_def)

section \<open>What is allowed\<close>

fun input_tool :: "tool_input \<Rightarrow> string" where
  "input_tool AgentCapabilities = ''get_agent_capabilities''"
| "input_tool (ApplicationHelp _) = ''get_application_help''"
| "input_tool CurrentProject = ''get_current_project''"
| "input_tool (ValidateProjectPatch _) = ''validate_project_patch''"
| "input_tool (CalculateProjectDraft _) = ''calculate_project_draft''"
| "input_tool (StageProjectPatch _) = ''stage_project_patch''"
| "input_tool (StageNewProjectDraft _) = ''stage_new_project_draft''"

definition allowed :: "turn_context \<Rightarrow> tool_input \<Rightarrow> bool" where
  "allowed c i \<longleftrightarrow>
     list_ex (\<lambda>d. td_name d = input_tool i \<and> \<not> is_mutating (td_risk d)) (schemas_for_context c) \<and>
     \<not> classification_mismatch c i"

fun result_bounded :: "transcript_message \<Rightarrow> bool" where
  "result_bounded (ToolResult _ _ content) \<longleftrightarrow> chars_count content \<le> MAX_TOOL_RESULT_CHARS"
| "result_bounded _ \<longleftrightarrow> True"

definition request_ok :: "turn_context \<Rightarrow> string \<Rightarrow> model_turn_request \<Rightarrow> bool" where
  "request_ok c question r \<longleftrightarrow>
     transcript_ok question (mr_messages r) \<and> list_all result_bounded (mr_messages r) \<and>
     transcript_characters (mr_messages r) (mr_system_instruction r) \<le> 128000 \<and>
     starts_with SYSTEM_INSTRUCTION (mr_system_instruction r) \<and>
     mr_tools r = schemas_for_context c \<and> mr_max_output_tokens r = 4000"

definition repairs :: "turn_event list \<Rightarrow> nat" where
  "repairs es = length (filter (\<lambda>r. mr_required_tool r \<noteq> None) (requests es))"

definition images_sent :: "turn_event list \<Rightarrow> nat" where
  "images_sent es = length (filter (\<lambda>r. mr_image r \<noteq> None) (requests es))"

definition base_requests :: "turn_context \<Rightarrow> nat" where
  "base_requests c =
     (if ctx_classified_project_type c = None then 0 else unat (ctx_classification_model_requests c))"

definition base_calls :: "turn_context \<Rightarrow> nat" where
  "base_calls c = (if ctx_classified_project_type c = None then 0 else 1)"

definition call_ok :: "'w turn_env \<Rightarrow> turn_context \<Rightarrow> tool_input \<times> tool_outcome option \<Rightarrow> bool" where
  "call_ok E c d \<longleftrightarrow> allowed c (fst d) \<and> (\<exists>w w'. te_dispatch E c (fst d) w = (snd d, w'))"

section \<open>The invariant of the loop\<close>

definition trace_ok :: "'w turn_env \<Rightarrow> turn_context \<Rightarrow> string \<Rightarrow> turn_event list \<Rightarrow> bool" where
  "trace_ok E c q es \<longleftrightarrow>
     length (requests es) \<le> 8 - base_requests c \<and> length (dispatches es) \<le> 12 - base_calls c \<and>
     list_all (request_ok c q) (requests es) \<and> list_all (call_ok E c) (dispatches es) \<and>
     in_time c [] es \<and> repairs es \<le> 1 \<and> images_sent es \<le> 1 + repairs es"

text \<open>\<open>k\<close> calls of the batch are charged and not yet made.\<close>

definition turn_inv ::
  "'w turn_env \<Rightarrow> turn_context \<Rightarrow> string \<Rightarrow> model_image option \<Rightarrow> nat \<Rightarrow> turn_state \<Rightarrow> turn_event list \<Rightarrow> bool" where
  "turn_inv E c q img k st es \<longleftrightarrow>
     within_budget (st_budget st) \<and>
     unat (tb_model_requests (st_budget st)) = base_requests c + length (requests es) \<and>
     unat (tb_tool_calls (st_budget st)) = base_calls c + length (dispatches es) + k \<and>
     (st_executed st = {} \<longleftrightarrow> dispatches es = []) \<and>
     transcript_ok q (st_transcript st) \<and> list_all result_bounded (st_transcript st) \<and>
     reported es = (st_proposal st, st_omissions st, st_uncertainties st, st_citations st) \<and>
     list_all (request_ok c q) (requests es) \<and> list_all (call_ok E c) (dispatches es) \<and>
     in_time c [] es \<and> reads_after [] es = [] \<and>
     st_image st = (if requests es = [] then img else None) \<and>
     repairs es + (if st_repair_pending st then 1 else 0) = (if st_repair_attempted st then 1 else 0) \<and>
     images_sent es \<le> (if requests es = [] then 0 else 1) + repairs es \<and>
     (st_repair_pending st \<longrightarrow> requests es \<noteq> [])"

lemma turn_inv_trace: "turn_inv E c q img k st es \<Longrightarrow> trace_ok E c q es"
  by (auto simp: turn_inv_def trace_ok_def within_budget_def split: if_splits)

lemma trace_ok_read: "trace_ok E c q es \<Longrightarrow> trace_ok E c q (es @ [ClockRead t])"
  by (simp add: trace_ok_def repairs_def images_sent_def)

lemma parsed_input_tool: "parse_input J A d arguments = Ok i \<Longrightarrow> input_tool i = td_name d"
  by (auto simp: parse_input_def Let_def obind_Ok_iff split: if_splits)

lemma accepted_allowed: "accepted_as J A c executed call v \<Longrightarrow> allowed c (vtc_input v)"
  using parsed_input_tool tool_risks
  by (fastforce simp: accepted_as_def call_acceptable_def allowed_def in_schemas_iff list_ex_iff)

lemma bounded_json: "chars_count (to_bounded_json V outcome) \<le> MAX_TOOL_RESULT_CHARS"
  by (auto simp: to_bounded_json_def Let_def MAX_TOOL_RESULT_CHARS_def error_json_def quoted_def
      chars_count_def byte_of_def split: option.split)

lemma transcript_ok_append:
  assumes "transcript_ok q ts"
  shows "transcript_ok q (ts @ [m]) \<longleftrightarrow> answers_one_of (all_call_ids ts) m"
proof -
  obtain ms where "ts = UserMessage q # ms" "parented {} ms"
    using assms by (auto simp: transcript_ok_def split: list.splits transcript_message.splits)
  then show ?thesis by (simp add: transcript_ok_def)
qed

lemma record_outcome_simps [simp]:
  "st_executed (record_outcome T call outcome st) = st_executed st"
  "st_image (record_outcome T call outcome st) = st_image st"
  "st_repair_pending (record_outcome T call outcome st) = st_repair_pending st"
  "st_repair_attempted (record_outcome T call outcome st) = st_repair_attempted st"
  "st_transcript (record_outcome T call outcome st) = st_transcript st @
     [ToolResult (vtc_id call) (td_name (vtc_definition call)) (to_bounded_json (tc_view T) outcome)]"
  "st_proposal (record_outcome T call outcome st) = some_or (outcome_proposal outcome) (st_proposal st)"
  "st_omissions (record_outcome T call outcome st) =
     unwrap_or (map_option fst (extraction_notes outcome)) (st_omissions st)"
  "st_uncertainties (record_outcome T call outcome st) =
     unwrap_or (map_option snd (extraction_notes outcome)) (st_uncertainties st)"
  "st_citations (record_outcome T call outcome st) = extend_citations (st_citations st) outcome"
  by (simp_all add: record_outcome_def Let_def split: option.split prod.split)

lemma call_inv:
  assumes "turn_inv E c q img (Suc k) st es" "allowed c (vtc_input call)"
    and "vtc_id call \<in> all_call_ids (st_transcript st)" "\<not> turn_expired c t"
    and "te_dispatch E c (vtc_input call) w = (Some outcome, w')"
  shows "turn_inv E c q img k
    (record_outcome T call outcome (st\<lparr>st_executed := insert (vtc_id call) (st_executed st)\<rparr>))
    (es @ [ClockRead t, Dispatched (vtc_input call) (Some outcome)])"
proof -
  have "call_ok E c (vtc_input call, Some outcome)"
    using assms(2,5) by (auto simp: call_ok_def)
  moreover have "reported (es @ [ClockRead t, Dispatched (vtc_input call) (Some outcome)]) =
      note_event (Dispatched (vtc_input call) (Some outcome)) (reported es)"
    using reported_append [of "es @ [ClockRead t]"] by simp
  ultimately show ?thesis
    using assms(1,3,4)
    by (simp add: turn_inv_def transcript_ok_append bounded_json repairs_def images_sent_def)
qed

lemma call_panic_trace:
  assumes "turn_inv E c q img (Suc k) st es" "allowed c i" "\<not> turn_expired c t"
    and "te_dispatch E c i w = (None, w')"
  shows "trace_ok E c q (es @ [ClockRead t, Dispatched i None])"
proof -
  have "call_ok E c (i, None)" using assms(2,4) by (auto simp: call_ok_def)
  moreover have "Suc (length (dispatches es)) \<le> 12 - base_calls c" "reads_after [] es = []"
    using assms(1) by (auto simp: turn_inv_def within_budget_def)
  ultimately show ?thesis
    using turn_inv_trace [OF assms(1)] assms(3)
    by (simp add: trace_ok_def repairs_def images_sent_def)
qed

lemma execute_calls_inv:
  assumes "turn_inv E c q img (length calls) st es"
    and "\<forall>call\<in>set calls. allowed c (vtc_input call) \<and> vtc_id call \<in> all_call_ids (st_transcript st)"
    and "execute_calls (traced E) T c calls st (w, es) = (r, (w', es'))"
  shows "case r of Ok st' \<Rightarrow> turn_inv E c q img 0 st' es' | _ \<Rightarrow> trace_ok E c q es'"
  using assms
proof (induction calls arbitrary: st w es)
  case (Cons call calls)
  obtain t w1 where t: "te_now E w = (t, w1)" by force
  obtain outcome w2 where d: "te_dispatch E c (vtc_input call) w1 = (outcome, w2)" by force
  show ?case
  proof (cases "turn_expired c t")
    case True
    then show ?thesis
      using Cons.prems trace_ok_read [OF turn_inv_trace] by (auto simp: t)
  next
    case False
    show ?thesis
    proof (cases outcome)
      case None
      then show ?thesis
        using Cons.prems False call_panic_trace [of E c q img "length calls" st es "vtc_input call" t w1 w2] d
        by (auto simp: t)
    next
      case (Some x)
      let ?st = "record_outcome T call x (st\<lparr>st_executed := insert (vtc_id call) (st_executed st)\<rparr>)"
      have "turn_inv E c q img (length calls) ?st (es @ [ClockRead t, Dispatched (vtc_input call) (Some x)])"
        using Cons.prems False d Some by (intro call_inv [of E c q img "length calls" st es call t w1 x w2]) auto
      moreover have "execute_calls (traced E) T c calls ?st
          (w2, es @ [ClockRead t, Dispatched (vtc_input call) (Some x)]) = (r, (w', es'))"
        using Cons.prems(3) False d Some by (simp add: t)
      ultimately show ?thesis
        using Cons.prems(2) by (intro Cons.IH) auto
    qed
  qed
qed auto

section \<open>One round\<close>

definition answer_ok :: "turn_context \<Rightarrow> bool \<Rightarrow> turn_event list \<Rightarrow> turn_outcome \<Rightarrow> bool" where
  "answer_ok c image_turn es answer \<longleftrightarrow>
     dispatches es \<noteq> [] \<and>
     reported es = (to_proposal answer, to_omissions answer, to_uncertainties answer, to_citations answer) \<and>
     unat (to_model_requests answer) = base_requests c + length (requests es) \<and>
     unat (to_tool_calls answer) = base_calls c + length (dispatches es) \<and>
     (image_turn \<and> ctx_project c = None \<and> ctx_classified_project_type c \<noteq> None \<and> to_proposal answer = None \<longrightarrow>
        to_answer answer = IMAGE_DRAFT_NOT_CREATED_ANSWER)"

definition finished_ok ::
  "'w turn_env \<Rightarrow> turn_context \<Rightarrow> string \<Rightarrow> bool \<Rightarrow> turn_event list \<Rightarrow> (turn_error, turn_outcome) outcome \<Rightarrow> bool" where
  "finished_ok E c q image_turn es r \<longleftrightarrow>
     trace_ok E c q es \<and> (case r of Ok answer \<Rightarrow> answer_ok c image_turn es answer | _ \<Rightarrow> True)"

lemma answered_inv:
  assumes "turn_inv E c q img 0 st es" "st_executed st \<noteq> {}"
  shows "answer_ok c image_turn es (turn_answer c image_turn st answer)"
  using assms
  by (simp add: turn_inv_def answer_ok_def turn_answer_def model_requests_used_def tool_calls_used_def)

lemma batch_inv:
  assumes inv: "turn_inv E c q img 0 st es"
    and n: "n \<le> 4" and charge: "charge_tool_calls (st_budget st) (of_nat n) = (Ok u, budget)"
  shows "turn_inv E c q img n (st\<lparr>st_budget := budget,
    st_transcript := st_transcript st @ [AssistantToolCalls proposed]\<rparr>) es"
proof -
  have "unat (of_nat n :: u64) = n" using n by (simp add: unat_of_nat take_bit_nat_eq_self)
  then have "unat (tb_tool_calls budget) = unat (tb_tool_calls (st_budget st)) + n \<and>
      unat (tb_tool_calls budget) \<le> 12 \<and> tb_model_requests budget = tb_model_requests (st_budget st)"
    using charge by (cases rule: charge_tool_calls_cases [of "st_budget st" "of_nat n"]) auto
  then show ?thesis
    using inv by (auto simp: turn_inv_def within_budget_def transcript_ok_append)
qed

lemma accepted_parented:
  assumes "list_all2 (accepted_as J A c executed) proposed accepted"
  shows "\<forall>call\<in>set accepted. allowed c (vtc_input call) \<and>
    vtc_id call \<in> all_call_ids (ts @ [AssistantToolCalls proposed])"
proof
  fix call assume "call \<in> set accepted"
  then obtain p where "p \<in> set proposed" "accepted_as J A c executed p call"
    using assms by (metis in_set_conv_nth list_all2_conv_all_nth)
  then show "allowed c (vtc_input call) \<and> vtc_id call \<in> all_call_ids (ts @ [AssistantToolCalls proposed])"
    using accepted_allowed by (auto simp: accepted_as_def)
qed

lemma handle_output_inv:
  assumes inv: "turn_inv E c q img 0 st es"
    and round: "requests es \<noteq> []" "\<not> st_repair_pending st"
    and run: "handle_output (traced E) T c image_turn output st (w, es) = (step, (w', es'))"
  shows "case step of Continue st' \<Rightarrow> turn_inv E c q img 0 st' es'
    | Finished r \<Rightarrow> finished_ok E c q image_turn es' r"
proof (cases "output")
  case (ModelMessage answer)
  then show ?thesis
    using run turn_inv_trace [OF inv] answered_inv [OF inv]
    by (auto simp: handle_output_def finished_ok_def)
next
  case (ModelToolCalls proposed)
  show ?thesis
  proof (cases "preflight (tc_json T) (tc_arith T) proposed c (st_budget st) (st_executed st)")
    case Panic
    then show ?thesis
      using run turn_inv_trace [OF inv] by (auto simp: handle_output_def ModelToolCalls finished_ok_def)
  next
    case (Err e)
    have "turn_inv E c q img 0 (st\<lparr>st_repair_attempted := True, st_repair_pending := True\<rparr>) es"
      if "may_repair_schema c image_turn st e"
      using inv that round by (simp add: turn_inv_def may_repair_schema_def)
    then show ?thesis
      using run turn_inv_trace [OF inv] Err
      by (auto simp: handle_output_def ModelToolCalls finished_ok_def split: if_splits)
  next
    case (Ok accepted)
    then have batch: "length accepted \<le> 4"
        "list_all2 (accepted_as (tc_json T) (tc_arith T) c (st_executed st)) proposed accepted"
      by (auto simp: preflight_Ok dest: list_all2_lengthD)
    obtain charged budget where charge: "charge_tool_calls (st_budget st) (of_nat (length accepted)) = (charged, budget)"
      by force
    show ?thesis
    proof (cases charged)
      case (Ok u)
      let ?st = "st\<lparr>st_budget := budget, st_transcript := st_transcript st @ [AssistantToolCalls proposed]\<rparr>"
      obtain r w1 es1 where ex: "execute_calls (traced E) T c accepted ?st (w, es) = (r, (w1, es1))"
        by (metis prod.exhaust)
      have "case r of Ok st' \<Rightarrow> turn_inv E c q img 0 st' es1 | _ \<Rightarrow> trace_ok E c q es1"
        using batch_inv [OF inv batch(1) charge [unfolded Ok]] accepted_parented [OF batch(2)] ex
        by (intro execute_calls_inv) auto
      then show ?thesis
        using run ex charge Ok \<open>preflight _ _ _ _ _ _ = Ok accepted\<close>
        by (cases r) (auto simp: handle_output_def ModelToolCalls finished_ok_def)
    qed (use run charge Ok turn_inv_trace [OF inv] in \<open>auto simp: handle_output_def ModelToolCalls finished_ok_def\<close>)
  qed
qed

lemma starts_with_append: "starts_with p (p @ s)"
  by (simp add: starts_with_def)

lemma instruction_starts: "starts_with SYSTEM_INSTRUCTION (runtime_instruction c tools history image_turn repairing)"
  by (simp add: runtime_instruction_def Let_def starts_with_append)

lemma compact_bounded:
  "compact ts instruction = Ok ts' \<Longrightarrow> list_all result_bounded ts \<Longrightarrow> list_all result_bounded ts'"
proof (induction ts instruction rule: compact.induct)
  case (1 ts instruction)
  show ?case
  proof (cases "transcript_characters ts instruction \<le> MAX_PROMPT_CONTEXT_CHARS")
    case False
    then obtain i where i: "position is_tool_calls ts = Some i"
      using "1.prems" by (cases "position is_tool_calls ts") (simp_all add: compact.simps [of ts])
    then show ?thesis
      using "1.IH" [OF False i] "1.prems" False
      by (auto simp: compact.simps [of ts] list_all_iff dest: in_set_takeD in_set_dropD)
  qed (use "1.prems" in \<open>simp add: compact.simps [of ts]\<close>)
qed

lemma request_inv:
  fixes st c image_turn
  defines "instruction \<equiv>
    runtime_instruction c (schemas_for_context c) (st_history st) image_turn (st_repair_pending st)"
  assumes inv: "turn_inv E c q img 0 st es" and time: "\<not> turn_expired c t"
    and charge: "charge_model_request (st_budget st) = (Ok u, budget)"
    and compact: "compact (st_transcript st) instruction = Ok transcript"
  shows "turn_inv E c q img 0 (requested_state budget transcript st)
    (es @ [ClockRead t, ClockRead t', Requested
       (model_request c img st instruction transcript (model_call_timeout (remaining c t')))])"
proof -
  have "unat (tb_model_requests budget) = unat (tb_model_requests (st_budget st)) + 1 \<and>
      unat (tb_model_requests budget) \<le> 8 \<and> tb_tool_calls budget = tb_tool_calls (st_budget st)"
    using charge_granted [OF charge] by simp
  moreover have "request_ok c q (model_request c img st instruction transcript (model_call_timeout (remaining c t')))"
    using inv compact_ok [OF compact, of q] compact_bounded [OF compact] instruction_starts
    by (simp add: turn_inv_def request_ok_def model_request_def MAX_PROMPT_CONTEXT_CHARS_def instruction_def
        MAX_MODEL_OUTPUT_TOKENS_def)
  moreover have "reported (es @ [ClockRead t, ClockRead t', Requested r]) = reported es" for r
    by (simp add: reported_def)
  ultimately show ?thesis
    using inv time compact_ok [OF compact, of q] compact_bounded [OF compact]
    by (auto simp: turn_inv_def requested_state_def within_budget_def repairs_def images_sent_def
        model_request_def model_call_timeout_def)
qed

lemma note_routed_inv:
  "turn_inv E c q img k (note_routed_model response st) es \<longleftrightarrow> turn_inv E c q img k st es"
  "st_repair_pending (note_routed_model response st) = st_repair_pending st"
  by (simp_all add: note_routed_model_def turn_inv_def)

lemma turn_iteration_inv:
  assumes inv: "turn_inv E c q img 0 st es"
    and run: "turn_iteration (traced E) T c image_turn img st (w, es) = (step, (w', es'))"
  shows "case step of Continue st' \<Rightarrow> turn_inv E c q img 0 st' es'
    | Finished r \<Rightarrow> finished_ok E c q image_turn es' r"
proof -
  obtain t w1 where t: "te_now E w = (t, w1)" by force
  obtain t' w2 where t': "te_now E w1 = (t', w2)" by force
  note read = trace_ok_read [OF turn_inv_trace [OF inv], of t]
  obtain charged budget where charge: "charge_model_request (st_budget st) = (charged, budget)" by force
  let ?instruction = "runtime_instruction c (schemas_for_context c) (st_history st) image_turn (st_repair_pending st)"
  let ?es = "\<lambda>transcript. es @ [ClockRead t, ClockRead t', Requested
    (model_request c img st ?instruction transcript (model_call_timeout (remaining c t')))]"
  show ?thesis
  proof (cases "turn_expired c t \<or> (\<nexists>u. charged = Ok u) \<or> (\<nexists>ts. compact (st_transcript st) ?instruction = Ok ts)")
    case True
    then show ?thesis
      using run read
      by (cases charged; cases "compact (st_transcript st) ?instruction")
         (auto simp: turn_iteration_def t charge Let_def finished_ok_def split: if_splits)
  next
    case False
    then obtain u transcript where ok: "\<not> turn_expired c t" "charged = Ok u"
        "compact (st_transcript st) ?instruction = Ok transcript" by auto
    have inv': "turn_inv E c q img 0 (requested_state budget transcript st) (?es transcript)"
      using request_inv [OF inv ok(1)] charge ok by simp
    obtain reply w3 where reply: "te_respond E
        (model_request c img st ?instruction transcript (model_call_timeout (remaining c t'))) w2 = (reply, w3)"
      by force
    have step: "(step, (w', es')) = (case reply of
        None \<Rightarrow> (Finished (Err (TurnModel ModelTimeout)), (w3, ?es transcript))
      | Some Panic \<Rightarrow> (Finished Panic, (w3, ?es transcript))
      | Some (Err e) \<Rightarrow> (Finished (Err (TurnModel e)), (w3, ?es transcript))
      | Some (Ok response) \<Rightarrow> handle_output (traced E) T c image_turn (mresp_output response)
          (note_routed_model response (requested_state budget transcript st)) (w3, ?es transcript))"
      using run ok t' reply by (simp add: turn_iteration_def t charge Let_def)
    show ?thesis
    proof (cases "\<exists>response. reply = Some (Ok response)")
      case True
      then obtain response where "reply = Some (Ok response)" ..
      then have "handle_output (traced E) T c image_turn (mresp_output response)
          (note_routed_model response (requested_state budget transcript st)) (w3, ?es transcript) = (step, (w', es'))"
        using step by simp
      moreover have "\<not> st_repair_pending (requested_state budget transcript st)"
        by (simp add: requested_state_def)
      ultimately show ?thesis
        using inv' by (intro handle_output_inv) (simp_all add: note_routed_inv)
    next
      case False
      then show ?thesis
        using step turn_inv_trace [OF inv']
        by (auto simp: finished_ok_def split: option.splits outcome.splits)
    qed
  qed
qed

lemma turn_loop_inv:
  assumes "turn_inv E c q img 0 st es"
    and "turn_loop (traced E) T c image_turn img st (w, es) = (r, (w', es'))"
  shows "finished_ok E c q image_turn es' r"
  using assms
proof (induction "traced E" T c image_turn img st "(w, es)" arbitrary: w es rule: turn_loop.induct)
  case (1 T c image_turn img st w es)
  obtain step w1 es1 where step: "turn_iteration (traced E) T c image_turn img st (w, es) = (step, (w1, es1))"
    by (metis prod.exhaust)
  note kept = turn_iteration_inv [OF "1.prems"(1) step]
  show ?case
  proof (cases step)
    case (Continue st')
    then show ?thesis using "1.hyps" [OF step [symmetric]] "1.prems"(2) kept step
      by (simp add: turn_loop.simps [of "traced E" T c image_turn img st])
  next
    case (Finished r')
    then show ?thesis using "1.prems"(2) kept step
      by (simp add: turn_loop.simps [of "traced E" T c image_turn img st])
  qed
qed

section \<open>Tracing changes nothing\<close>

lemma execute_calls_traced:
  "execute_calls (traced E) T c calls st (w, es) = (r, (w', es')) \<Longrightarrow> execute_calls E T c calls st w = (r, w')"
proof (induction calls arbitrary: st w es)
  case (Cons call calls)
  obtain t w1 where t: "te_now E w = (t, w1)" by force
  obtain outcome w2 where d: "te_dispatch E c (vtc_input call) w1 = (outcome, w2)" by force
  show ?case using Cons by (cases outcome) (auto simp: t d split: if_splits)
qed simp

lemma handle_output_traced:
  "handle_output (traced E) T c image_turn out st (w, es) = (step, (w', es')) \<Longrightarrow>
     handle_output E T c image_turn out st w = (step, w')"
  by (auto simp: handle_output_def split: model_output.splits outcome.splits prod.splits if_splits
      dest!: execute_calls_traced)

lemma turn_iteration_traced:
  assumes run: "turn_iteration (traced E) T c image_turn img st (w, es) = (step, (w', es'))"
  shows "turn_iteration E T c image_turn img st w = (step, w')"
proof -
  obtain t w1 where t: "te_now E w = (t, w1)" by force
  obtain t' w2 where t': "te_now E w1 = (t', w2)" by force
  show ?thesis using run
    by (auto simp: turn_iteration_def t t' Let_def dest: handle_output_traced
        split: prod.splits outcome.splits option.splits if_splits)
qed

lemma turn_loop_traced:
  "turn_loop (traced E) T c image_turn img st (w, es) = (r, (w', es')) \<Longrightarrow>
     turn_loop E T c image_turn img st w = (r, w')"
proof (induction "traced E" T c image_turn img st "(w, es)" arbitrary: w es rule: turn_loop.induct)
  case (1 T c image_turn img st w es)
  obtain step w1 es1 where step: "turn_iteration (traced E) T c image_turn img st (w, es) = (step, (w1, es1))"
    by (metis prod.exhaust)
  show ?case
    using "1.hyps" [OF step [symmetric]] "1.prems" step turn_iteration_traced [OF step]
    by (cases step) (simp_all add: turn_loop.simps [of _ T c image_turn img st])
qed

section \<open>A whole turn\<close>

lemma charge_requests_granted:
  "charge_requests n b = (Ok u, b') \<Longrightarrow> within_budget b \<Longrightarrow> within_budget b' \<and>
     unat (tb_model_requests b') = unat (tb_model_requests b) + n \<and> tb_tool_calls b' = tb_tool_calls b"
proof (induction n arbitrary: b)
  case (Suc n)
  obtain r b1 where b1: "charge_model_request b = (r, b1)" by force
  then show ?case
    using Suc.prems Suc.IH [of b1] charge_granted [of b "()" b1]
    by (cases r) (auto simp: within_budget_def)
qed simp

lemma charge_classification_granted:
  assumes "charge_classification c new_turn_budget = (Ok u, b)"
  shows "within_budget b \<and> unat (tb_model_requests b) = base_requests c \<and>
    unat (tb_tool_calls b) = base_calls c"
proof (cases "ctx_classified_project_type c")
  case None
  then show ?thesis using assms new_within_budget
    by (auto simp: charge_classification_def base_requests_def base_calls_def new_turn_budget_def)
next
  case (Some p)
  obtain r b1 where b1:
      "charge_requests (unat (ctx_classification_model_requests c)) new_turn_budget = (r, b1)" by force
  then obtain u' where r: "r = Ok u'" using assms Some by (cases r) (auto simp: charge_classification_def)
  have tool: "charge_tool_calls b1 1 = (Ok u, b)" using assms Some b1 r by (auto simp: charge_classification_def)
  show ?thesis
    using charge_requests_granted [OF b1 [unfolded r] new_within_budget] tool Some
    by (cases rule: charge_tool_calls_cases [of b1 1])
       (auto simp: within_budget_def base_requests_def base_calls_def new_turn_budget_def)
qed

lemma turn_finished:
  assumes run: "run_turn_with_image (traced E) T c question img (w, []) = (r, (w', es))"
  shows "finished_ok E c (trim question) (img \<noteq> None) es r \<and>
    run_turn_with_image E T c question img w = (r, w')"
proof (cases "(1 \<le> chars_count (trim question) \<and> chars_count (trim question) \<le> MAX_QUESTION_CHARS) \<and>
    (\<exists>u. fst (charge_classification c new_turn_budget) = Ok u)")
  case True
  then obtain u b where b: "charge_classification c new_turn_budget = (Ok u, b)" by (metis prod.collapse)
  let ?st = "new_turn_state (trim question) img b"
  have inv: "turn_inv E c (trim question) img 0 ?st []"
    using charge_classification_granted [OF b]
    by (simp add: turn_inv_def new_turn_state_def transcript_ok_def reported_def repairs_def images_sent_def)
  have loop: "turn_loop (traced E) T c (img \<noteq> None) img ?st (w, []) = (r, (w', es))"
    using run True b by (simp add: run_turn_with_image_def Let_def)
  then have "run_turn_with_image E T c question img w = (r, w')"
    using turn_loop_traced [OF loop] True b by (simp add: run_turn_with_image_def Let_def)
  then show ?thesis using turn_loop_inv [OF inv loop] by blast
next
  case False
  have "es = [] \<and> (\<forall>answer. r \<noteq> Ok answer) \<and> run_turn_with_image E T c question img w = (r, w')"
    using run False
    by (cases "charge_classification c new_turn_budget"; cases "fst (charge_classification c new_turn_budget)")
       (auto simp: run_turn_with_image_def Let_def split: if_splits)
  then show ?thesis
    by (cases r) (simp_all add: finished_ok_def trace_ok_def repairs_def images_sent_def)
qed

lemma finished_turn:
  "case run_turn_with_image (traced E) T c question img (w, []) of (r, (w', es)) \<Rightarrow>
     finished_ok E c (trim question) (img \<noteq> None) es r \<and> run_turn_with_image E T c question img w = (r, w')"
  using turn_finished [where E = E and T = T and c = c and question = question and img = img and w = w] by (auto split: prod.split)

section \<open>Properties\<close>

text \<open>
  C31: whatever the model, the clock and the tools do, a turn ends after at most eight model requests and
  twelve tool calls, those of a preceding classification included; each begins only after the clock,
  read since the last one, showed time left, and a request waits at most a minute and at most for what
  is left of the turn. Recording the trace does not change the turn.
\<close>
theorem turn_bounded:
  "case run_turn_with_image (traced E) T c question img (w, []) of (r, (w', es)) \<Rightarrow>
     run_turn_with_image E T c question img w = (r, w') \<and>
     length (requests es) \<le> 8 - base_requests c \<and> length (dispatches es) \<le> 12 - base_calls c \<and>
     in_time c [] es"
  using finished_turn [where E = E and T = T and c = c and question = question and img = img and w = w] by (auto simp: finished_ok_def trace_ok_def split: prod.splits)

text \<open>
  C29: every tool a turn calls is one the context exposes (so none for another phase or for the wrong
  project selection), none of them writes or deletes persisted state, and a staged new draft has the
  classified project type.
\<close>
theorem turn_calls_allowed:
  "case run_turn_with_image (traced E) T c question img (w, []) of (r, (w', es)) \<Rightarrow>
     list_all (allowed c) (map fst (dispatches es))"
  using finished_turn [where E = E and T = T and c = c and question = question and img = img and w = w]
  by (auto simp: finished_ok_def trace_ok_def call_ok_def list_all_iff split: prod.splits)

text \<open>
  C28: every request a turn sends begins with the reviewed instruction and the user's question, fits the
  128,000 characters of the prompt context even after compaction, answers every tool result with the
  call it belongs to, holds no tool result longer than 8,000 characters and offers exactly the exposed
  tools; an image goes out once, and once more in the single schema repair.
\<close>
theorem turn_prompts_ok:
  "case run_turn_with_image (traced E) T c question img (w, []) of (r, (w', es)) \<Rightarrow>
     list_all (request_ok c (trim question)) (requests es) \<and> repairs es \<le> 1 \<and>
     images_sent es \<le> 1 + repairs es"
  using finished_turn [where E = E and T = T and c = c and question = question and img = img and w = w] by (auto simp: finished_ok_def trace_ok_def split: prod.splits)

text \<open>
  C32: a turn that answers has called a tool; its proposal, notes and citations are what the outcomes of
  its tools reported, whatever the model wrote; its counters are exact; and an image turn that staged
  no draft answers with the host's own text.
\<close>
theorem turn_answer_grounded:
  "case run_turn_with_image (traced E) T c question img (w, []) of (r, (w', es)) \<Rightarrow>
     (case r of Ok answer \<Rightarrow> answer_ok c (img \<noteq> None) es answer | _ \<Rightarrow> True)"
  using finished_turn [where E = E and T = T and c = c and question = question and img = img and w = w] by (auto simp: finished_ok_def split: prod.splits outcome.splits)

lemma reported_proposal:
  "fst (reported es) = Some p \<Longrightarrow>
     \<exists>i outcome. (i, Some outcome) \<in> set (dispatches es) \<and> outcome_proposal outcome = Some p"
proof (induction es rule: rev_induct)
  case (snoc e es)
  obtain p0 om un ci where r: "reported es = (p0, om, un, ci)" by (metis prod_cases4)
  show ?case
  proof (cases "\<exists>i outcome. e = Dispatched i (Some outcome) \<and> outcome_proposal outcome = Some p")
    case True
    then obtain i outcome where "e = Dispatched i (Some outcome)" "outcome_proposal outcome = Some p" by blast
    then show ?thesis by (intro exI [of _ i] exI [of _ outcome]) simp
  next
    case False
    then have "fst (reported es) = Some p"
      using snoc.prems r
      by (cases "(e, reported es)" rule: note_event.cases) (auto simp: some_or_def split: option.splits)
    then show ?thesis using snoc.IH by auto
  qed
qed (simp add: reported_def)

lemma app_dispatch:
  "te_dispatch (app_env now respond V entries S) c i w = (Some x, w') \<longleftrightarrow>
     dispatch V entries S c i w = (Ok x, w')"
  by (cases "dispatch V entries S c i w"; cases "fst (dispatch V entries S c i w)") (auto simp: app_env_def)

text \<open>
  C33: whatever the model proposes, the proposal a turn of the application returns is either a patch of the
  selected project, as its owner's store returned it, whose result passes validation and whose listed
  changes are those of the patch; or, where no project is selected, a new project that passes validation
  and has the type the host classified.
\<close>
theorem turn_proposal_valid:
  "case fst (run_turn_with_image (app_env now respond V entries S) T c question img w) of
     Ok answer \<Rightarrow> (case to_proposal answer of None \<Rightarrow> True | Some p \<Rightarrow> proposal_ok V S c p)
   | _ \<Rightarrow> True"
proof -
  let ?E = "app_env now respond V entries S"
  obtain r w' es where run: "run_turn_with_image (traced ?E) T c question img (w, []) = (r, (w', es))"
    by (metis prod.exhaust)
  have fin: "finished_ok ?E c (trim question) (img \<noteq> None) es r" "run_turn_with_image ?E T c question img w = (r, w')"
    using turn_finished [OF run] by auto
  have "proposal_ok V S c p" if answer: "r = Ok answer" "to_proposal answer = Some p" for answer p
  proof -
    obtain i x where d: "(i, Some x) \<in> set (dispatches es)" "outcome_proposal x = Some p"
      using fin(1) answer reported_proposal [of es p] by (auto simp: finished_ok_def answer_ok_def)
    then have "call_ok ?E c (i, Some x)"
      using fin(1) by (auto simp: finished_ok_def trace_ok_def list_all_iff)
    then obtain w1 w2 where "dispatch V entries S c i w1 = (Ok x, w2)" "allowed c i"
      by (auto simp: call_ok_def app_dispatch)
    then show ?thesis
      using d(2) by (intro dispatch_proposal [of V entries S c i w1 x w2 p])
        (auto simp: allowed_def classification_mismatch_def split: option.splits)
  qed
  then show ?thesis using fin(2) by (auto split: outcome.split option.split)
qed

end
