(* ===== verification/Snapshot.thy ===== *)
theory Snapshot
  imports Cost ClockAndHash JsonText
begin

text \<open>
  \<open>rust/src/pricing/snapshot.rs\<close> and the enums of \<open>rust/src/pricing/provider.rs\<close>: the price snapshots that
  a calculation reads. A snapshot is built from rate records in any order: provenance and metadata
  are normalized, the records sorted by their stable key and checked, and the canonical content hashed
  into the identifier. What the code takes from \<open>time\<close>, \<open>serde_json\<close>, \<open>sha2\<close> and the decimal parser is
  \<open>snapshot_env\<close>; a parsed time carries its UTC offset in seconds. A \<open>BTreeSet\<close> of keys is a set, a
  \<open>BTreeMap\<close> of groups the groups in key order.
\<close>

section \<open>Records\<close>

datatype provider = Aws | Azure

datatype resolution_status = Fresh | Cached | Stale | Unavailable

record rate_provenance =
  rp_source_url :: string
  rp_effective_at :: "string option"
  rp_source_version :: "string option"
  rp_meter_ids :: "string list"

record snapshot_metadata =
  sm_snapshot_id :: string
  sm_provider :: provider
  sm_status :: resolution_status
  sm_retrieved_at :: string
  sm_source_published_at :: "string option"
  sm_currency :: string
  sm_source_urls :: "string list"
  sm_parser_schema_version :: string
  sm_content_sha256 :: string
  sm_warnings :: "string list"

record aws_ec2_rate_record =
  ae_stable_key :: string
  ae_instance_type :: string
  ae_rate :: ec2_rate
  ae_provenance :: rate_provenance

record aws_rds_rate_record =
  ad_stable_key :: string
  ad_instance_type :: string
  ad_deployment :: rds_deployment
  ad_commercial_term :: string
  ad_storage_class :: string
  ad_rate :: rds_rate
  ad_provenance :: rate_provenance

record aws_ebs_rate_record =
  ab_stable_key :: string
  ab_rate :: ebs_rate
  ab_provenance :: rate_provenance

record azure_mi_rate_record =
  mr_stable_key :: string
  mr_configuration_key :: string
  mr_purchase_option :: purchase_option
  mr_rate :: azure_rate
  mr_provenance :: rate_provenance

record azure_vm_rate_record =
  vm_stable_key :: string
  vm_arm_sku_name :: string
  vm_purchase_option :: vm_purchase_option
  vm_hourly_rate :: decimal_value
  vm_license_hourly :: decimal_value
  vm_unit_of_measure :: string
  vm_raw_price_lexeme :: string
  vm_provenance :: rate_provenance

datatype azure_managed_disk_price_dimension =
  DimCapacityTier | DimCapacityGb | DimAdditionalIops | DimAdditionalThroughput

record azure_managed_disk_rate_record =
  mdr_stable_key :: string
  mdr_offer_key :: string
  mdr_tier_key :: "string option"
  mdr_dimension :: azure_managed_disk_price_dimension
  mdr_normalized_monthly_rate :: decimal_value
  mdr_unit_of_measure :: string
  mdr_raw_price_lexeme :: string
  mdr_provenance :: rate_provenance

record aws_price_snapshot =
  as_metadata :: snapshot_metadata
  as_source_region :: string
  as_ec2_rates :: "aws_ec2_rate_record list"
  as_rds_rates :: "aws_rds_rate_record list"
  as_ebs_rates :: "aws_ebs_rate_record list"

record azure_price_snapshot =
  zs_metadata :: snapshot_metadata
  zs_target_region :: string
  zs_mi_rates :: "azure_mi_rate_record list"
  zs_vm_rates :: "azure_vm_rate_record list"
  zs_managed_disk_rates :: "azure_managed_disk_rate_record list"

record snapshot_creation_metadata =
  cm_status :: resolution_status
  cm_retrieved_at :: string
  cm_source_published_at :: "string option"
  cm_currency :: string
  cm_source_urls :: "string list"
  cm_parser_schema_version :: string
  cm_warnings :: "string list"

datatype snapshot_error =
  InvalidRetrievedAt | InvalidScope | UnusableStatus | InvalidRateKeys | InvalidRateProvenance
| InvalidAwsRates | InvalidAzurePurchaseMatrix | InvalidAzureVmRates | Canonicalization
| StoredSnapshotMismatch

section \<open>Canonical payloads\<close>

record aws_canonical_payload =
  ap_provider :: provider
  ap_currency :: string
  ap_source_region :: string
  ap_parser_schema_version :: string
  ap_ec2_rates :: "aws_ec2_rate_record list"
  ap_rds_rates :: "aws_rds_rate_record list"
  ap_ebs_rates :: "aws_ebs_rate_record list"

record azure_canonical_payload =
  zp_provider :: provider
  zp_currency :: string
  zp_target_region :: string
  zp_parser_schema_version :: string
  zp_mi_rates :: "azure_mi_rate_record list"
  zp_vm_rates :: "azure_vm_rate_record list"
  zp_managed_disk_rates :: "azure_managed_disk_rate_record list"

record aws_service_canonical_scope =
  ss_provider :: provider
  ss_currency :: string
  ss_source_region :: string
  ss_parser_schema_version :: string

record aws_ec2_core_record =
  ce_stable_key :: string
  ce_instance_type :: string
  ce_rate :: ec2_rate

record aws_rds_core_record =
  cd_stable_key :: string
  cd_instance_type :: string
  cd_deployment :: rds_deployment
  cd_commercial_term :: string
  cd_storage_class :: string
  cd_rate :: rds_rate

record aws_ebs_core_record =
  cb_stable_key :: string
  cb_rate :: ebs_rate

record aws_ec2_service_canonical_payload =
  pe_scope :: aws_service_canonical_scope
  pe_records :: "aws_ec2_core_record list"

record aws_rds_service_canonical_payload =
  pd_scope :: aws_service_canonical_scope
  pd_records :: "aws_rds_core_record list"

record aws_ebs_service_canonical_payload =
  pb_scope :: aws_service_canonical_scope
  pb_records :: "aws_ebs_core_record list"

record aws_service_content_hashes =
  ch_ec2 :: string
  ch_rds :: string
  ch_ebs :: string

record snapshot_env =
  sx_parse_time :: "string \<Rightarrow> (instant \<times> int) option"
  sx_parse_decimal :: "string \<Rightarrow> decimal_value option"
  sx_sha256 :: "u8 list \<Rightarrow> u8 list"
  sx_aws_json :: "aws_canonical_payload \<Rightarrow> u8 list option"
  sx_azure_json :: "azure_canonical_payload \<Rightarrow> u8 list option"
  sx_ec2_json :: "aws_ec2_service_canonical_payload \<Rightarrow> u8 list option"
  sx_rds_json :: "aws_rds_service_canonical_payload \<Rightarrow> u8 list option"
  sx_ebs_json :: "aws_ebs_service_canonical_payload \<Rightarrow> u8 list option"
  sx_aws_value :: "aws_price_snapshot \<Rightarrow> json option"
  sx_azure_value :: "azure_price_snapshot \<Rightarrow> json option"

section \<open>Checks of the metadata and the records\<close>

definition validate_creation_metadata ::
  "snapshot_env \<Rightarrow> snapshot_creation_metadata \<Rightarrow> string \<Rightarrow> (snapshot_error, unit) outcome" where
  "validate_creation_metadata X m scope =
     (case sx_parse_time X (cm_retrieved_at m) of
        None \<Rightarrow> Err InvalidRetrievedAt
      | Some (_, offset) \<Rightarrow>
          if offset \<noteq> 0 then Err InvalidRetrievedAt
          else if cm_currency m = [] \<or> scope = [] \<or> cm_parser_schema_version m = [] then Err InvalidScope
          else if cm_status m = Unavailable then Err UnusableStatus
          else Ok ())"

definition sort_dedup :: "string list \<Rightarrow> string list" where
  "sort_dedup xs = remdups_adj (sort xs)"

definition normalize_creation_metadata :: "snapshot_creation_metadata \<Rightarrow> snapshot_creation_metadata" where
  "normalize_creation_metadata m =
     m\<lparr>cm_source_urls := sort_dedup (cm_source_urls m), cm_warnings := sort_dedup (cm_warnings m)\<rparr>"

definition normalize_provenance :: "rate_provenance \<Rightarrow> rate_provenance" where
  "normalize_provenance p = p\<lparr>rp_meter_ids := sort_dedup (rp_meter_ids p)\<rparr>"

fun validate_unique_keys_from :: "string set \<Rightarrow> string list \<Rightarrow> (snapshot_error, unit) outcome" where
  "validate_unique_keys_from seen [] = Ok ()"
| "validate_unique_keys_from seen (key # keys) =
     (if key = [] \<or> key \<in> seen then Err InvalidRateKeys
      else validate_unique_keys_from (insert key seen) keys)"

definition validate_unique_keys :: "string list \<Rightarrow> (snapshot_error, unit) outcome" where
  "validate_unique_keys keys = validate_unique_keys_from {} keys"

definition validate_rate_provenance :: "rate_provenance list \<Rightarrow> (snapshot_error, unit) outcome" where
  "validate_rate_provenance ps =
     (if list_ex (\<lambda>p. rp_source_url p = []) ps then Err InvalidRateProvenance else Ok ())"

definition valid_ebs_rate :: "ebs_rate \<Rightarrow> bool" where
  "valid_ebs_rate r \<longleftrightarrow>
     \<not> (eb_capacity_monthly_per_gb r \<le> 0 \<or> eb_included_throughput_mibps r < 0 \<or>
        (case eb_throughput_monthly_per_mibps r of None \<Rightarrow> False | Some v \<Rightarrow> v \<le> 0)) \<and>
     (case eb_volume_type r of
        Gp3 \<Rightarrow>
          eb_included_iops r = 3000 \<and>
          (case eb_iops_monthly_per_unit r of None \<Rightarrow> False | Some v \<Rightarrow> v > 0) \<and>
          eb_iops_tiers r = [] \<and> eb_included_throughput_mibps r = 125 \<and>
          eb_throughput_monthly_per_mibps r \<noteq> None
      | Io2 \<Rightarrow>
          eb_included_iops r = 0 \<and> eb_iops_monthly_per_unit r = None \<and> length (eb_iops_tiers r) = 3 \<and>
          it_up_to_inclusive (eb_iops_tiers r ! 0) = Some 32000 \<and>
          it_up_to_inclusive (eb_iops_tiers r ! 1) = Some 64000 \<and>
          it_up_to_inclusive (eb_iops_tiers r ! 2) = None \<and>
          list_all (\<lambda>tier. it_monthly_per_iops tier > 0) (eb_iops_tiers r)
      | Ephemeral \<Rightarrow> False)"

definition is_some_and :: "('a \<Rightarrow> bool) \<Rightarrow> 'a option \<Rightarrow> bool" where
  "is_some_and P o' = (case o' of None \<Rightarrow> False | Some v \<Rightarrow> P v)"

definition validate_aws_rates ::
  "aws_ec2_rate_record list \<Rightarrow> aws_rds_rate_record list \<Rightarrow> aws_ebs_rate_record list \<Rightarrow>
     (snapshot_error, unit) outcome" where
  "validate_aws_rates ec2_rates rds_rates ebs_rates =
     (if list_ex (\<lambda>r.
            ae_instance_type r = [] \<or> er_source_vcpu (ae_rate r) = 0 \<or>
            er_catalog_memory_gb (ae_rate r) \<le> 0 \<or> er_compute_hourly (ae_rate r) \<le> 0 \<or>
            is_some_and (\<lambda>v. v \<le> 0) (er_standard_license_hourly (ae_rate r)) \<or>
            is_some_and (\<lambda>v. v \<le> 0) (er_enterprise_license_hourly (ae_rate r))) ec2_rates \<or>
         list_ex (\<lambda>r.
            ad_instance_type r = [] \<or> ad_commercial_term r = [] \<or> ad_storage_class r = [] \<or>
            rr_source_vcpu (ad_rate r) = 0 \<or> rr_catalog_memory_gb (ad_rate r) \<le> 0 \<or>
            rr_effective_compute_hourly (ad_rate r) \<le> 0 \<or> rr_storage_monthly_per_gb (ad_rate r) \<le> 0 \<or>
            rr_standard_license_core_hourly (ad_rate r) \<le> 0 \<or>
            rr_enterprise_license_core_hourly (ad_rate r) \<le> 0) rds_rates \<or>
         list_ex (\<lambda>r. \<not> valid_ebs_rate (ab_rate r)) ebs_rates
      then Err InvalidAwsRates else Ok ())"

text \<open>The values of a \<open>BTreeMap\<close> from a key to the records pushed under it.\<close>

definition grouped :: "('a \<Rightarrow> string) \<Rightarrow> 'a list \<Rightarrow> 'a list list" where
  "grouped key rs = map (\<lambda>k. filter (\<lambda>r. key r = k) rs) (sort (remdups (map key rs)))"

definition mi_option :: "purchase_option \<Rightarrow> azure_mi_rate_record list \<Rightarrow> azure_mi_rate_record option" where
  "mi_option p configuration = find (\<lambda>r. mr_purchase_option r = p) configuration"

definition valid_azure_option_pair ::
  "azure_mi_rate_record list \<Rightarrow> purchase_option \<Rightarrow> purchase_option \<Rightarrow> bool" where
  "valid_azure_option_pair configuration licensed_option ahb_option =
     (case (mi_option licensed_option configuration, mi_option ahb_option configuration) of
        (Some licensed, Some ahb) \<Rightarrow>
          ar_compute_hourly (mr_rate licensed) > 0 \<and>
          ar_compute_hourly (mr_rate licensed) = ar_compute_hourly (mr_rate ahb) \<and>
          ar_license_hourly (mr_rate licensed) > 0 \<and> ar_license_hourly (mr_rate ahb) = 0
      | _ \<Rightarrow> False)"

definition invalid_mi_record :: "azure_mi_rate_record \<Rightarrow> bool" where
  "invalid_mi_record r \<longleftrightarrow>
     mr_configuration_key r = [] \<or> ar_compute_hourly (mr_rate r) < 0 \<or> ar_license_hourly (mr_rate r) < 0 \<or>
     ar_storage_monthly_per_gb (mr_rate r) \<le> 0 \<or> ar_additional_memory_per_gb_hourly (mr_rate r) < 0"

definition invalid_matrix :: "azure_mi_rate_record list \<Rightarrow> bool" where
  "invalid_matrix configuration =
     (let purchase_options = map mr_purchase_option configuration; first = hd configuration
      in length configuration \<noteq> length purchase_option_all \<or>
         card (set purchase_options) \<noteq> length purchase_option_all \<or>
         \<not> list_all (\<lambda>option. option \<in> set purchase_options) purchase_option_all \<or>
         list_ex (\<lambda>r.
           ar_storage_monthly_per_gb (mr_rate r) \<noteq> ar_storage_monthly_per_gb (mr_rate first) \<or>
           ar_additional_memory_per_gb_hourly (mr_rate r) \<noteq> ar_additional_memory_per_gb_hourly (mr_rate first))
           configuration \<or>
         \<not> valid_azure_option_pair configuration PoPayg PoAhb \<or>
         \<not> valid_azure_option_pair configuration PoOneYear PoAhbOneYear \<or>
         \<not> valid_azure_option_pair configuration PoThreeYear PoAhbThreeYear \<or>
         \<not> valid_azure_option_pair configuration PoSavingsOneYear PoAhbSavingsOneYear)"

definition validate_azure_purchase_matrices ::
  "azure_mi_rate_record list \<Rightarrow> (snapshot_error, unit) outcome" where
  "validate_azure_purchase_matrices records =
     (if list_ex invalid_mi_record records then Err InvalidAzurePurchaseMatrix
      else if list_ex invalid_matrix (grouped mr_configuration_key records) then Err InvalidAzurePurchaseMatrix
      else Ok ())"

definition vm_option_uses_ahb :: "vm_purchase_option \<Rightarrow> bool" where
  "vm_option_uses_ahb p \<longleftrightarrow>
     (case p of
        VpoAhb \<Rightarrow> True | VpoAhbOneYear \<Rightarrow> True | VpoAhbThreeYear \<Rightarrow> True
      | VpoAhbSavingsOneYear \<Rightarrow> True | VpoAhbSavingsThreeYear \<Rightarrow> True | _ \<Rightarrow> False)"

definition valid_raw_price :: "snapshot_env \<Rightarrow> string \<Rightarrow> bool" where
  "valid_raw_price X v = is_some_and (\<lambda>price. price > 0) (sx_parse_decimal X v)"

text \<open>The subtraction is only computed where the comparisons before it hold.\<close>

definition valid_azure_vm_option_pair ::
  "dec_arith \<Rightarrow> azure_vm_rate_record \<Rightarrow> azure_vm_rate_record \<Rightarrow> (snapshot_error, bool) outcome" where
  "valid_azure_vm_option_pair A licensed ahb =
     (if vm_hourly_rate licensed > vm_license_hourly licensed \<and> vm_license_hourly licensed > 0 \<and>
         vm_license_hourly ahb = 0
      then obind (d_sub A (vm_hourly_rate licensed) (vm_license_hourly licensed)) (\<lambda>compute.
           Ok (compute = vm_hourly_rate ahb))
      else Ok False)"

fun invalid_vm_record_from ::
  "snapshot_env \<Rightarrow> (string \<times> vm_purchase_option) set \<Rightarrow> azure_vm_rate_record list \<Rightarrow> bool" where
  "invalid_vm_record_from X vm_keys [] \<longleftrightarrow> False"
| "invalid_vm_record_from X vm_keys (r # rs) \<longleftrightarrow>
     (let business_key = (to_ascii_lowercase (vm_arm_sku_name r), vm_purchase_option r)
      in vm_arm_sku_name r = [] \<or> vm_hourly_rate r \<le> 0 \<or> vm_license_hourly r < 0 \<or>
         vm_license_hourly r > vm_hourly_rate r \<or>
         (vm_option_uses_ahb (vm_purchase_option r) \<and> vm_license_hourly r \<noteq> 0) \<or>
         vm_unit_of_measure r \<noteq> ''1 Hour'' \<or> \<not> valid_raw_price X (vm_raw_price_lexeme r) \<or>
         business_key \<in> vm_keys \<or> invalid_vm_record_from X (insert business_key vm_keys) rs)"

definition vm_option :: "vm_purchase_option \<Rightarrow> azure_vm_rate_record list \<Rightarrow> azure_vm_rate_record option" where
  "vm_option p configuration = find (\<lambda>r. vm_purchase_option r = p) configuration"

definition vm_commitment_pairs :: "(vm_purchase_option \<times> vm_purchase_option) list" where
  "vm_commitment_pairs =
     [(VpoOneYear, VpoAhbOneYear), (VpoThreeYear, VpoAhbThreeYear),
      (VpoSavingsOneYear, VpoAhbSavingsOneYear), (VpoSavingsThreeYear, VpoAhbSavingsThreeYear)]"

definition check_vm_commitment ::
  "dec_arith \<Rightarrow> azure_vm_rate_record list \<Rightarrow> azure_vm_rate_record \<Rightarrow> azure_vm_rate_record \<Rightarrow>
     vm_purchase_option \<times> vm_purchase_option \<Rightarrow> (snapshot_error, unit) outcome" where
  "check_vm_commitment A configuration payg ahb options =
     (case (vm_option (fst options) configuration, vm_option (snd options) configuration) of
        (None, None) \<Rightarrow> Ok ()
      | (Some licensed, Some ahb_commitment) \<Rightarrow>
          obind (valid_azure_vm_option_pair A licensed ahb_commitment) (\<lambda>paired.
          if paired \<and> vm_license_hourly licensed = vm_license_hourly payg \<and>
             vm_hourly_rate ahb_commitment < vm_hourly_rate ahb
          then Ok () else Err InvalidAzureVmRates)
      | _ \<Rightarrow> Err InvalidAzureVmRates)"

definition check_vm_configuration ::
  "dec_arith \<Rightarrow> azure_vm_rate_record list \<Rightarrow> (snapshot_error, unit) outcome" where
  "check_vm_configuration A configuration =
     (if length configuration = 1 \<and> vm_purchase_option (configuration ! 0) = VpoPayg \<and>
         vm_license_hourly (configuration ! 0) = 0
      then Ok ()
      else
        (case (vm_option VpoPayg configuration, vm_option VpoAhb configuration) of
           (Some payg, Some ahb) \<Rightarrow>
             obind (valid_azure_vm_option_pair A payg ahb) (\<lambda>paired.
             if \<not> paired then Err InvalidAzureVmRates
             else obind (try_map (check_vm_commitment A configuration payg ahb) vm_commitment_pairs) (\<lambda>_. Ok ()))
         | _ \<Rightarrow> Err InvalidAzureVmRates))"

definition tier_shape_valid :: "azure_managed_disk_rate_record \<Rightarrow> bool" where
  "tier_shape_valid r =
     (case mdr_dimension r of
        DimCapacityTier \<Rightarrow> mdr_tier_key r \<noteq> None
      | DimCapacityGb \<Rightarrow> mdr_tier_key r = None
      | DimAdditionalIops \<Rightarrow> mdr_tier_key r = None
      | DimAdditionalThroughput \<Rightarrow> mdr_tier_key r = None)"

fun invalid_disk_record_from ::
  "snapshot_env \<Rightarrow> (string \<times> string option \<times> azure_managed_disk_price_dimension) set \<Rightarrow>
     azure_managed_disk_rate_record list \<Rightarrow> bool" where
  "invalid_disk_record_from X disk_keys [] \<longleftrightarrow> False"
| "invalid_disk_record_from X disk_keys (r # rs) \<longleftrightarrow>
     (let business_key = (to_ascii_lowercase (mdr_offer_key r), mdr_tier_key r, mdr_dimension r)
      in mdr_offer_key r = [] \<or> \<not> tier_shape_valid r \<or> mdr_normalized_monthly_rate r \<le> 0 \<or>
         mdr_unit_of_measure r = [] \<or> \<not> valid_raw_price X (mdr_raw_price_lexeme r) \<or>
         business_key \<in> disk_keys \<or> invalid_disk_record_from X (insert business_key disk_keys) rs)"

definition validate_azure_vm_rates ::
  "snapshot_env \<Rightarrow> dec_arith \<Rightarrow> azure_vm_rate_record list \<Rightarrow> azure_managed_disk_rate_record list \<Rightarrow>
     (snapshot_error, unit) outcome" where
  "validate_azure_vm_rates X A vm_rates managed_disk_rates =
     (if invalid_vm_record_from X {} vm_rates then Err InvalidAzureVmRates
      else
        obind (try_map (check_vm_configuration A) (grouped (\<lambda>r. to_ascii_lowercase (vm_arm_sku_name r)) vm_rates)) (\<lambda>_.
        if invalid_disk_record_from X {} managed_disk_rates then Err InvalidAzureVmRates else Ok ()))"

section \<open>Creation\<close>

definition hash_canonical :: "snapshot_env \<Rightarrow> u8 list option \<Rightarrow> (snapshot_error, string) outcome" where
  "hash_canonical X json_bytes =
     obind (ok_or json_bytes Canonicalization) (\<lambda>bytes. Ok (hex_encode (sx_sha256 X bytes)))"

definition by_key :: "('a \<Rightarrow> string) \<Rightarrow> 'a list \<Rightarrow> 'a list" where
  "by_key key rs = sort_by (\<lambda>left right. cmp (key left) (key right)) rs"

definition normalize_ec2 :: "aws_ec2_rate_record \<Rightarrow> aws_ec2_rate_record" where
  "normalize_ec2 r = r\<lparr>ae_provenance := normalize_provenance (ae_provenance r)\<rparr>"

definition normalize_rds :: "aws_rds_rate_record \<Rightarrow> aws_rds_rate_record" where
  "normalize_rds r = r\<lparr>ad_provenance := normalize_provenance (ad_provenance r)\<rparr>"

definition normalize_ebs :: "aws_ebs_rate_record \<Rightarrow> aws_ebs_rate_record" where
  "normalize_ebs r = r\<lparr>ab_provenance := normalize_provenance (ab_provenance r)\<rparr>"

definition normalize_mi :: "azure_mi_rate_record \<Rightarrow> azure_mi_rate_record" where
  "normalize_mi r = r\<lparr>mr_provenance := normalize_provenance (mr_provenance r)\<rparr>"

definition normalize_vm :: "azure_vm_rate_record \<Rightarrow> azure_vm_rate_record" where
  "normalize_vm r = r\<lparr>vm_provenance := normalize_provenance (vm_provenance r)\<rparr>"

definition normalize_disk :: "azure_managed_disk_rate_record \<Rightarrow> azure_managed_disk_rate_record" where
  "normalize_disk r = r\<lparr>mdr_provenance := normalize_provenance (mdr_provenance r)\<rparr>"

text \<open>The metadata of a snapshot from those of its creation.\<close>

definition snapshot_metadata_of ::
  "provider \<Rightarrow> string \<Rightarrow> snapshot_creation_metadata \<Rightarrow> snapshot_metadata" where
  "snapshot_metadata_of p content_sha256 m0 =
     (let m = normalize_creation_metadata m0
      in \<lparr>sm_snapshot_id = (case p of Aws \<Rightarrow> ''aws-'' | Azure \<Rightarrow> ''azure-'') @ content_sha256,
          sm_provider = p, sm_status = cm_status m, sm_retrieved_at = cm_retrieved_at m,
          sm_source_published_at = cm_source_published_at m, sm_currency = cm_currency m,
          sm_source_urls = cm_source_urls m, sm_parser_schema_version = cm_parser_schema_version m,
          sm_content_sha256 = content_sha256, sm_warnings = cm_warnings m\<rparr>)"

definition aws_create ::
  "snapshot_env \<Rightarrow> snapshot_creation_metadata \<Rightarrow> string \<Rightarrow> aws_ec2_rate_record list \<Rightarrow>
     aws_rds_rate_record list \<Rightarrow> aws_ebs_rate_record list \<Rightarrow> (snapshot_error, aws_price_snapshot) outcome" where
  "aws_create X m source_region ec2_rates0 rds_rates0 ebs_rates0 =
     obind (validate_creation_metadata X m source_region) (\<lambda>_.
     let ec2_rates = by_key ae_stable_key (map normalize_ec2 ec2_rates0);
         rds_rates = by_key ad_stable_key (map normalize_rds rds_rates0);
         ebs_rates = by_key ab_stable_key (map normalize_ebs ebs_rates0)
     in obind (validate_unique_keys (map ae_stable_key ec2_rates @ map ad_stable_key rds_rates @
                 map ab_stable_key ebs_rates)) (\<lambda>_.
        obind (validate_rate_provenance (map ae_provenance ec2_rates @ map ad_provenance rds_rates @
                 map ab_provenance ebs_rates)) (\<lambda>_.
        obind (validate_aws_rates ec2_rates rds_rates ebs_rates) (\<lambda>_.
        obind (hash_canonical X (sx_aws_json X
            \<lparr>ap_provider = Aws, ap_currency = cm_currency m, ap_source_region = source_region,
             ap_parser_schema_version = cm_parser_schema_version m, ap_ec2_rates = ec2_rates,
             ap_rds_rates = rds_rates, ap_ebs_rates = ebs_rates\<rparr>)) (\<lambda>content_sha256.
        Ok \<lparr>as_metadata = snapshot_metadata_of Aws content_sha256 m, as_source_region = source_region,
            as_ec2_rates = ec2_rates, as_rds_rates = rds_rates, as_ebs_rates = ebs_rates\<rparr>)))))"

definition azure_create_with_vm_rates ::
  "snapshot_env \<Rightarrow> dec_arith \<Rightarrow> snapshot_creation_metadata \<Rightarrow> string \<Rightarrow> azure_mi_rate_record list \<Rightarrow>
     azure_vm_rate_record list \<Rightarrow> azure_managed_disk_rate_record list \<Rightarrow>
     (snapshot_error, azure_price_snapshot) outcome" where
  "azure_create_with_vm_rates X A m target_region mi_rates0 vm_rates0 managed_disk_rates0 =
     obind (validate_creation_metadata X m target_region) (\<lambda>_.
     let mi_rates = by_key mr_stable_key (map normalize_mi mi_rates0);
         vm_rates = by_key vm_stable_key (map normalize_vm vm_rates0);
         managed_disk_rates = by_key mdr_stable_key (map normalize_disk managed_disk_rates0)
     in obind (validate_unique_keys (map mr_stable_key mi_rates @ map vm_stable_key vm_rates @
                 map mdr_stable_key managed_disk_rates)) (\<lambda>_.
        obind (validate_rate_provenance (map mr_provenance mi_rates @ map vm_provenance vm_rates @
                 map mdr_provenance managed_disk_rates)) (\<lambda>_.
        obind (validate_azure_purchase_matrices mi_rates) (\<lambda>_.
        obind (validate_azure_vm_rates X A vm_rates managed_disk_rates) (\<lambda>_.
        obind (hash_canonical X (sx_azure_json X
            \<lparr>zp_provider = Azure, zp_currency = cm_currency m, zp_target_region = target_region,
             zp_parser_schema_version = cm_parser_schema_version m, zp_mi_rates = mi_rates,
             zp_vm_rates = vm_rates, zp_managed_disk_rates = managed_disk_rates\<rparr>)) (\<lambda>content_sha256.
        Ok \<lparr>zs_metadata = snapshot_metadata_of Azure content_sha256 m, zs_target_region = target_region,
            zs_mi_rates = mi_rates, zs_vm_rates = vm_rates,
            zs_managed_disk_rates = managed_disk_rates\<rparr>))))))"

definition azure_create ::
  "snapshot_env \<Rightarrow> dec_arith \<Rightarrow> snapshot_creation_metadata \<Rightarrow> string \<Rightarrow> azure_mi_rate_record list \<Rightarrow>
     (snapshot_error, azure_price_snapshot) outcome" where
  "azure_create X A m target_region mi_rates = azure_create_with_vm_rates X A m target_region mi_rates [] []"

section \<open>Lookups\<close>

definition aws_matches_scope :: "aws_price_snapshot \<Rightarrow> string \<Rightarrow> string \<Rightarrow> bool" where
  "aws_matches_scope s currency source_region \<longleftrightarrow>
     sm_provider (as_metadata s) = Aws \<and> sm_currency (as_metadata s) = currency \<and>
     as_source_region s = source_region"

definition aws_ec2_rate :: "aws_price_snapshot \<Rightarrow> string \<Rightarrow> aws_ec2_rate_record option" where
  "aws_ec2_rate s instance_type = find (\<lambda>r. ae_instance_type r = instance_type) (as_ec2_rates s)"

definition aws_rds_rate ::
  "aws_price_snapshot \<Rightarrow> string \<Rightarrow> rds_deployment \<Rightarrow> string \<Rightarrow> string \<Rightarrow> aws_rds_rate_record option" where
  "aws_rds_rate s instance_type deployment commercial_term storage_class =
     find (\<lambda>r. ad_instance_type r = instance_type \<and> ad_deployment r = deployment \<and>
                ad_commercial_term r = commercial_term \<and> ad_storage_class r = storage_class) (as_rds_rates s)"

definition azure_matches_scope :: "azure_price_snapshot \<Rightarrow> string \<Rightarrow> string \<Rightarrow> bool" where
  "azure_matches_scope s currency target_region \<longleftrightarrow>
     sm_provider (zs_metadata s) = Azure \<and> sm_currency (zs_metadata s) = currency \<and>
     zs_target_region s = target_region"

definition azure_mi_rate :: "azure_price_snapshot \<Rightarrow> string \<Rightarrow> purchase_option \<Rightarrow> azure_mi_rate_record option" where
  "azure_mi_rate s configuration_key option =
     find (\<lambda>r. mr_configuration_key r = configuration_key \<and> mr_purchase_option r = option) (zs_mi_rates s)"

definition has_complete_mi_rate_set :: "azure_price_snapshot \<Rightarrow> string \<Rightarrow> bool" where
  "has_complete_mi_rate_set s configuration_key \<longleftrightarrow>
     list_all (\<lambda>option. length (filter (\<lambda>r. mr_configuration_key r = configuration_key \<and>
       mr_purchase_option r = option) (zs_mi_rates s)) = 1) purchase_option_all"

definition azure_vm_rate :: "azure_price_snapshot \<Rightarrow> string \<Rightarrow> vm_purchase_option \<Rightarrow> azure_vm_rate_record option" where
  "azure_vm_rate s arm_sku_name option =
     find (\<lambda>r. eq_ignore_ascii_case (vm_arm_sku_name r) arm_sku_name \<and> vm_purchase_option r = option)
       (zs_vm_rates s)"

definition azure_managed_disk_rate ::
  "azure_price_snapshot \<Rightarrow> string \<Rightarrow> string option \<Rightarrow> azure_managed_disk_price_dimension \<Rightarrow>
     azure_managed_disk_rate_record option" where
  "azure_managed_disk_rate s offer_key tier_key dimension =
     find (\<lambda>r. eq_ignore_ascii_case (mdr_offer_key r) offer_key \<and> mdr_tier_key r = tier_key \<and>
                mdr_dimension r = dimension) (zs_managed_disk_rates s)"

section \<open>Stored snapshots and service hashes\<close>

definition creation_metadata :: "snapshot_metadata \<Rightarrow> snapshot_creation_metadata" where
  "creation_metadata m =
     \<lparr>cm_status = sm_status m, cm_retrieved_at = sm_retrieved_at m,
      cm_source_published_at = sm_source_published_at m, cm_currency = sm_currency m,
      cm_source_urls = sm_source_urls m, cm_parser_schema_version = sm_parser_schema_version m,
      cm_warnings = sm_warnings m\<rparr>"

definition validate_stored_aws_snapshot ::
  "snapshot_env \<Rightarrow> aws_price_snapshot \<Rightarrow> (snapshot_error, aws_price_snapshot) outcome" where
  "validate_stored_aws_snapshot X snapshot =
     obind (ok_or (sx_aws_value X snapshot) Canonicalization) (\<lambda>original.
     obind (aws_create X (creation_metadata (as_metadata snapshot)) (as_source_region snapshot)
              (as_ec2_rates snapshot) (as_rds_rates snapshot) (as_ebs_rates snapshot)) (\<lambda>rebuilt.
     obind (ok_or (sx_aws_value X rebuilt) Canonicalization) (\<lambda>value.
     if value \<noteq> original then Err StoredSnapshotMismatch else Ok rebuilt)))"

definition validate_stored_azure_snapshot ::
  "snapshot_env \<Rightarrow> dec_arith \<Rightarrow> azure_price_snapshot \<Rightarrow> (snapshot_error, azure_price_snapshot) outcome" where
  "validate_stored_azure_snapshot X A snapshot =
     obind (ok_or (sx_azure_value X snapshot) Canonicalization) (\<lambda>original.
     obind (azure_create_with_vm_rates X A (creation_metadata (zs_metadata snapshot)) (zs_target_region snapshot)
              (zs_mi_rates snapshot) (zs_vm_rates snapshot) (zs_managed_disk_rates snapshot)) (\<lambda>rebuilt.
     obind (ok_or (sx_azure_value X rebuilt) Canonicalization) (\<lambda>value.
     if value \<noteq> original then Err StoredSnapshotMismatch else Ok rebuilt)))"

definition aws_service_scope :: "string \<Rightarrow> string \<Rightarrow> string \<Rightarrow> aws_service_canonical_scope" where
  "aws_service_scope currency source_region parser_schema_version =
     \<lparr>ss_provider = Aws, ss_currency = currency, ss_source_region = source_region,
      ss_parser_schema_version = parser_schema_version\<rparr>"

definition aws_ec2_content_hash ::
  "snapshot_env \<Rightarrow> string \<Rightarrow> string \<Rightarrow> string \<Rightarrow> aws_ec2_rate_record list \<Rightarrow> (snapshot_error, string) outcome" where
  "aws_ec2_content_hash X currency source_region parser_schema_version records =
     hash_canonical X (sx_ec2_json X
       \<lparr>pe_scope = aws_service_scope currency source_region parser_schema_version,
        pe_records = map (\<lambda>r. \<lparr>ce_stable_key = ae_stable_key r, ce_instance_type = ae_instance_type r,
          ce_rate = ae_rate r\<rparr>) records\<rparr>)"

definition aws_rds_content_hash ::
  "snapshot_env \<Rightarrow> string \<Rightarrow> string \<Rightarrow> string \<Rightarrow> aws_rds_rate_record list \<Rightarrow> (snapshot_error, string) outcome" where
  "aws_rds_content_hash X currency source_region parser_schema_version records =
     hash_canonical X (sx_rds_json X
       \<lparr>pd_scope = aws_service_scope currency source_region parser_schema_version,
        pd_records = map (\<lambda>r. \<lparr>cd_stable_key = ad_stable_key r, cd_instance_type = ad_instance_type r,
          cd_deployment = ad_deployment r, cd_commercial_term = ad_commercial_term r,
          cd_storage_class = ad_storage_class r, cd_rate = ad_rate r\<rparr>) records\<rparr>)"

definition aws_ebs_content_hash ::
  "snapshot_env \<Rightarrow> string \<Rightarrow> string \<Rightarrow> string \<Rightarrow> aws_ebs_rate_record list \<Rightarrow> (snapshot_error, string) outcome" where
  "aws_ebs_content_hash X currency source_region parser_schema_version records =
     hash_canonical X (sx_ebs_json X
       \<lparr>pb_scope = aws_service_scope currency source_region parser_schema_version,
        pb_records = map (\<lambda>r. \<lparr>cb_stable_key = ab_stable_key r, cb_rate = ab_rate r\<rparr>) records\<rparr>)"

definition aws_service_content_hashes_of ::
  "snapshot_env \<Rightarrow> aws_price_snapshot \<Rightarrow> (snapshot_error, aws_service_content_hashes) outcome" where
  "aws_service_content_hashes_of X s =
     (let m = as_metadata s; currency = sm_currency m; region = as_source_region s;
          version = sm_parser_schema_version m
      in obind (aws_ec2_content_hash X currency region version (as_ec2_rates s)) (\<lambda>ec2.
         obind (aws_rds_content_hash X currency region version (as_rds_rates s)) (\<lambda>rds.
         obind (aws_ebs_content_hash X currency region version (as_ebs_rates s)) (\<lambda>ebs.
         Ok \<lparr>ch_ec2 = ec2, ch_rds = rds, ch_ebs = ebs\<rparr>))))"

definition utc_now_rfc3339 :: "time_env \<Rightarrow> instant \<Rightarrow> (snapshot_error, string) outcome" where
  "utc_now_rfc3339 T now = ok_or (te_format T now) Canonicalization"

end
