(* ===== verification/SnapshotFacts.thy ===== *)
theory SnapshotFacts
  imports Snapshot
begin

text \<open>
  What a price snapshot guarantees. The checks of \<open>rust/src/pricing/snapshot.rs\<close> are equivalent to
  declarative contracts (\<open>matrices_iff\<close>, \<open>vm_rates_iff\<close>); creation depends neither on the order of its input
  nor on repeating it on its own result; and the lookups of a created snapshot find every record.
\<close>

section \<open>Sorting and normalizing\<close>

lemma distinct_remdups_adj_sorted: "sorted xs \<Longrightarrow> distinct (remdups_adj xs)" for xs :: "string list"
  by (induction xs rule: remdups_adj.induct) (auto simp: order.strict_iff_order)

lemma sort_dedup_set: "sort_dedup xs = sorted_list_of_set (set xs)"
  by (rule sorted_distinct_set_unique) (simp_all add: sort_dedup_def distinct_remdups_adj_sorted)

lemma sort_dedup_iff: "sort_dedup xs = sort_dedup ys \<longleftrightarrow> set xs = set ys"
  by (metis List.finite_set set_sorted_list_of_set sort_dedup_set)

lemma sort_dedup_again [simp]: "sort_dedup (sort_dedup xs) = sort_dedup xs"
  by (simp add: sort_dedup_set)

lemma mset_by_key [simp]: "mset (by_key key rs) = mset rs" "set (by_key key rs) = set rs"
  by (simp_all add: by_key_def)

lemma by_key_unique:
  assumes "mset rs = mset rs'" "distinct (map key rs)"
  shows "by_key key rs = by_key key rs'"
proof -
  have "inj_on key (set rs)" using assms(2) by (simp add: distinct_map)
  then show ?thesis unfolding by_key_def
    by (intro comparator.sort_by_unique [OF comparator_cmp assms(1)]) (auto dest: inj_onD)
qed

lemma normalize_provenance_again [simp]: "normalize_provenance (normalize_provenance p) = normalize_provenance p"
  by (simp add: normalize_provenance_def)

lemma normalize_again [simp]:
  "normalize_ec2 (normalize_ec2 r) = normalize_ec2 r" "normalize_rds (normalize_rds d) = normalize_rds d"
  "normalize_ebs (normalize_ebs b) = normalize_ebs b" "normalize_mi (normalize_mi i) = normalize_mi i"
  "normalize_vm (normalize_vm v) = normalize_vm v" "normalize_disk (normalize_disk k) = normalize_disk k"
  by (simp_all add: normalize_ec2_def normalize_rds_def normalize_ebs_def normalize_mi_def normalize_vm_def
      normalize_disk_def)

lemma normalized_fixed:
  assumes "\<And>r. n (n r) = n r" "mset rs = mset (by_key key (map n rs0))"
  shows "map n rs = rs"
proof -
  have "set rs = n ` set rs0" using mset_eq_setD [OF assms(2)] by simp
  then show ?thesis using assms(1) by (intro map_idI) auto
qed

lemma unique_keys_from:
  "validate_unique_keys_from seen keys = Ok () \<longleftrightarrow> distinct keys \<and> [] \<notin> set keys \<and> set keys \<inter> seen = {}"
  by (induction keys arbitrary: seen) auto

lemma unique_keys: "validate_unique_keys keys = Ok () \<longleftrightarrow> distinct keys \<and> [] \<notin> set keys"
  by (simp add: validate_unique_keys_def unique_keys_from)

lemma unique_keys_error: "validate_unique_keys keys \<noteq> Ok () \<Longrightarrow> validate_unique_keys keys = Err InvalidRateKeys"
proof -
  have "validate_unique_keys_from seen ks = Ok () \<or> validate_unique_keys_from seen ks = Err InvalidRateKeys" for seen ks
    by (induction ks arbitrary: seen) auto
  then show "validate_unique_keys keys \<noteq> Ok () \<Longrightarrow> ?thesis" by (auto simp: validate_unique_keys_def)
qed

lemma unique_keys_mset: "mset ks = mset ks' \<Longrightarrow> validate_unique_keys ks = validate_unique_keys ks'"
  by (metis mset_eq_imp_distinct_iff mset_eq_setD unique_keys unique_keys_error)

section \<open>Creation does not depend on the order of its input\<close>

text \<open>The same creation metadata up to order and repetition of the source URLs and the warnings.\<close>

definition same_metadata :: "snapshot_creation_metadata \<Rightarrow> snapshot_creation_metadata \<Rightarrow> bool" where
  "same_metadata m m' \<longleftrightarrow>
     m\<lparr>cm_source_urls := [], cm_warnings := []\<rparr> = m'\<lparr>cm_source_urls := [], cm_warnings := []\<rparr> \<and>
     set (cm_source_urls m) = set (cm_source_urls m') \<and> set (cm_warnings m) = set (cm_warnings m')"

lemma same_metadata_normalized:
  "same_metadata m m' \<longleftrightarrow> normalize_creation_metadata m = normalize_creation_metadata m'"
  by (cases m; cases m') (auto simp: same_metadata_def normalize_creation_metadata_def sort_dedup_iff)

lemma same_metadata_fields:
  assumes "same_metadata m m'"
  shows "cm_currency m = cm_currency m'" "cm_parser_schema_version m = cm_parser_schema_version m'"
    "validate_creation_metadata X m scope = validate_creation_metadata X m' scope"
    "snapshot_metadata_of p h m = snapshot_metadata_of p h m'"
  using assms same_metadata_normalized [of m m']
  by (cases m; cases m'; simp add: same_metadata_def validate_creation_metadata_def snapshot_metadata_of_def Let_def)+

text \<open>Three lists of records with one space of keys, sorted each on its own.\<close>

lemma keyed_lists:
  fixes a a' :: "'a list" and b b' :: "'b list" and c c' :: "'c list" and ka kb kc
  assumes m: "mset a = mset a'" "mset b = mset b'" "mset c = mset c'"
  defines "keys \<equiv> \<lambda>a b c. map ka (by_key ka a) @ map kb (by_key kb b) @ map kc (by_key kc c)"
  obtains
    (unique) "validate_unique_keys (keys a b c) = Ok ()" "by_key ka a = by_key ka a'" "by_key kb b = by_key kb b'"
      "by_key kc c = by_key kc c'"
  | (repeated) "validate_unique_keys (keys a b c) = Err InvalidRateKeys"
      "validate_unique_keys (keys a' b' c') = Err InvalidRateKeys"
proof -
  have same: "mset (keys a b c) = mset (keys a' b' c')"
    using m by (simp add: keys_def)
  then have eq: "validate_unique_keys (keys a b c) = validate_unique_keys (keys a' b' c')"
    by (rule unique_keys_mset)
  show thesis
  proof (cases "validate_unique_keys (keys a b c) = Ok ()")
    case True
    then have "distinct (keys a b c)" by (simp add: unique_keys)
    then have "distinct (map ka a)" "distinct (map kb b)" "distinct (map kc c)"
      unfolding keys_def by (metis distinct_append mset_by_key(1) mset_eq_imp_distinct_iff mset_map)+
    then show thesis using True m by (intro unique) (auto intro: by_key_unique)
  next
    case False
    then show thesis using unique_keys_error eq by (intro repeated) metis+
  qed
qed

lemma aws_create_same:
  assumes "same_metadata m m'"
    and "mset (map normalize_ec2 a) = mset (map normalize_ec2 a')"
    and "mset (map normalize_rds b) = mset (map normalize_rds b')"
    and "mset (map normalize_ebs c) = mset (map normalize_ebs c')"
  shows "aws_create X m region a b c = aws_create X m' region a' b' c'"
  using keyed_lists [OF assms(2-4), of ae_stable_key ad_stable_key ab_stable_key]
  by cases (simp_all only: aws_create_def Let_def same_metadata_fields [OF assms(1)] obind.simps)

lemma azure_create_same:
  assumes "same_metadata m m'"
    and "mset (map normalize_mi a) = mset (map normalize_mi a')"
    and "mset (map normalize_vm b) = mset (map normalize_vm b')"
    and "mset (map normalize_disk c) = mset (map normalize_disk c')"
  shows "azure_create_with_vm_rates X A m region a b c = azure_create_with_vm_rates X A m' region a' b' c'"
  using keyed_lists [OF assms(2-4), of mr_stable_key vm_stable_key mdr_stable_key]
  by cases (simp_all only: azure_create_with_vm_rates_def Let_def same_metadata_fields [OF assms(1)] obind.simps)

section \<open>What a created snapshot holds\<close>

lemma hash_canonical_Ok:
  "hash_canonical X j = Ok h \<longleftrightarrow> (\<exists>bytes. j = Some bytes \<and> h = hex_encode (sx_sha256 X bytes))"
  by (auto simp: hash_canonical_def obind_Ok_iff)

lemma aws_create_OkE:
  assumes "aws_create X m region a b c = Ok s"
  obtains bytes where
    "validate_creation_metadata X m region = Ok ()"
    "as_source_region s = region"
    "as_ec2_rates s = by_key ae_stable_key (map normalize_ec2 a)"
    "as_rds_rates s = by_key ad_stable_key (map normalize_rds b)"
    "as_ebs_rates s = by_key ab_stable_key (map normalize_ebs c)"
    "validate_unique_keys (map ae_stable_key (as_ec2_rates s) @ map ad_stable_key (as_rds_rates s) @
       map ab_stable_key (as_ebs_rates s)) = Ok ()"
    "validate_rate_provenance (map ae_provenance (as_ec2_rates s) @ map ad_provenance (as_rds_rates s) @
       map ab_provenance (as_ebs_rates s)) = Ok ()"
    "validate_aws_rates (as_ec2_rates s) (as_rds_rates s) (as_ebs_rates s) = Ok ()"
    "sx_aws_json X \<lparr>ap_provider = Aws, ap_currency = cm_currency m, ap_source_region = region,
       ap_parser_schema_version = cm_parser_schema_version m, ap_ec2_rates = as_ec2_rates s,
       ap_rds_rates = as_rds_rates s, ap_ebs_rates = as_ebs_rates s\<rparr> = Some bytes"
    "as_metadata s = snapshot_metadata_of Aws (hex_encode (sx_sha256 X bytes)) m"
  using assms by (auto simp: aws_create_def Let_def obind_Ok_iff hash_canonical_Ok)

lemma azure_create_OkE:
  assumes "azure_create_with_vm_rates X A m region a b c = Ok s"
  obtains bytes where
    "validate_creation_metadata X m region = Ok ()"
    "zs_target_region s = region"
    "zs_mi_rates s = by_key mr_stable_key (map normalize_mi a)"
    "zs_vm_rates s = by_key vm_stable_key (map normalize_vm b)"
    "zs_managed_disk_rates s = by_key mdr_stable_key (map normalize_disk c)"
    "validate_unique_keys (map mr_stable_key (zs_mi_rates s) @ map vm_stable_key (zs_vm_rates s) @
       map mdr_stable_key (zs_managed_disk_rates s)) = Ok ()"
    "validate_rate_provenance (map mr_provenance (zs_mi_rates s) @ map vm_provenance (zs_vm_rates s) @
       map mdr_provenance (zs_managed_disk_rates s)) = Ok ()"
    "validate_azure_purchase_matrices (zs_mi_rates s) = Ok ()"
    "validate_azure_vm_rates X A (zs_vm_rates s) (zs_managed_disk_rates s) = Ok ()"
    "sx_azure_json X \<lparr>zp_provider = Azure, zp_currency = cm_currency m, zp_target_region = region,
       zp_parser_schema_version = cm_parser_schema_version m, zp_mi_rates = zs_mi_rates s,
       zp_vm_rates = zs_vm_rates s, zp_managed_disk_rates = zs_managed_disk_rates s\<rparr> = Some bytes"
    "zs_metadata s = snapshot_metadata_of Azure (hex_encode (sx_sha256 X bytes)) m"
  using assms by (auto simp: azure_create_with_vm_rates_def Let_def obind_Ok_iff hash_canonical_Ok)

lemma creation_metadata_again:
  "same_metadata (creation_metadata (snapshot_metadata_of p h m)) m"
  by (simp add: same_metadata_normalized normalize_creation_metadata_def creation_metadata_def
      snapshot_metadata_of_def Let_def)

lemma aws_create_again:
  assumes "aws_create X m region a b c = Ok s"
  shows "aws_create X (creation_metadata (as_metadata s)) (as_source_region s) (as_ec2_rates s) (as_rds_rates s)
    (as_ebs_rates s) = Ok s"
proof -
  from assms show ?thesis
  proof (cases rule: aws_create_OkE)
    case (1 bytes)
    have "aws_create X (creation_metadata (as_metadata s)) region (as_ec2_rates s) (as_rds_rates s) (as_ebs_rates s) =
        aws_create X m region a b c"
      by (rule aws_create_same)
         (simp_all only: 1 creation_metadata_again mset_map mset_by_key image_mset.compositionality comp_def normalize_again)
    then show ?thesis using assms 1(2) by simp
  qed
qed

lemma azure_create_again:
  assumes "azure_create_with_vm_rates X A m region a b c = Ok s"
  shows "azure_create_with_vm_rates X A (creation_metadata (zs_metadata s)) (zs_target_region s) (zs_mi_rates s)
    (zs_vm_rates s) (zs_managed_disk_rates s) = Ok s"
proof -
  from assms show ?thesis
  proof (cases rule: azure_create_OkE)
    case (1 bytes)
    have "azure_create_with_vm_rates X A (creation_metadata (zs_metadata s)) region (zs_mi_rates s) (zs_vm_rates s)
          (zs_managed_disk_rates s) = azure_create_with_vm_rates X A m region a b c"
      by (rule azure_create_same)
         (simp_all only: 1 creation_metadata_again mset_map mset_by_key image_mset.compositionality comp_def normalize_again)
    then show ?thesis using assms 1(2) by simp
  qed
qed

section \<open>Complete price matrices\<close>

definition ahb_counterpart :: "purchase_option \<Rightarrow> purchase_option option" where
  "ahb_counterpart p =
     (case p of
        PoPayg \<Rightarrow> Some PoAhb | PoOneYear \<Rightarrow> Some PoAhbOneYear | PoThreeYear \<Rightarrow> Some PoAhbThreeYear
      | PoSavingsOneYear \<Rightarrow> Some PoAhbSavingsOneYear | _ \<Rightarrow> None)"

definition mi_record_ok :: "azure_mi_rate_record \<Rightarrow> bool" where
  "mi_record_ok r \<longleftrightarrow>
     mr_configuration_key r \<noteq> [] \<and> 0 \<le> ar_compute_hourly (mr_rate r) \<and> 0 \<le> ar_license_hourly (mr_rate r) \<and>
     0 < ar_storage_monthly_per_gb (mr_rate r) \<and> 0 \<le> ar_additional_memory_per_gb_hourly (mr_rate r)"

text \<open>Two records of one configuration, the second perhaps the hybrid-benefit price of the first.\<close>

definition mi_records_agree :: "azure_mi_rate_record \<Rightarrow> azure_mi_rate_record \<Rightarrow> bool" where
  "mi_records_agree r r' \<longleftrightarrow>
     ar_storage_monthly_per_gb (mr_rate r) = ar_storage_monthly_per_gb (mr_rate r') \<and>
     ar_additional_memory_per_gb_hourly (mr_rate r) = ar_additional_memory_per_gb_hourly (mr_rate r') \<and>
     (ahb_counterpart (mr_purchase_option r) = Some (mr_purchase_option r') \<longrightarrow>
        0 < ar_compute_hourly (mr_rate r) \<and> ar_compute_hourly (mr_rate r) = ar_compute_hourly (mr_rate r') \<and>
        0 < ar_license_hourly (mr_rate r) \<and> ar_license_hourly (mr_rate r') = 0)"

text \<open>Every configuration has each of the eight options once, and its records agree.\<close>

definition matrices_complete :: "azure_mi_rate_record list \<Rightarrow> bool" where
  "matrices_complete rs \<longleftrightarrow>
     (\<forall>r\<in>set rs. mi_record_ok r \<and>
        (\<forall>p. length (filter (\<lambda>r'. mr_configuration_key r' = mr_configuration_key r \<and> mr_purchase_option r' = p) rs) = 1) \<and>
        (\<forall>r'\<in>set rs. mr_configuration_key r' = mr_configuration_key r \<longrightarrow> mi_records_agree r r'))"

lemma count_map: "count (mset (map f g)) p = length (filter (\<lambda>r. f r = p) g)"
  by (induction g) auto

lemma each_once:
  fixes f :: "'a \<Rightarrow> purchase_option"
  shows "length g = length purchase_option_all \<and> card (set (map f g)) = length purchase_option_all \<and>
     list_all (\<lambda>p. p \<in> set (map f g)) purchase_option_all \<longleftrightarrow> (\<forall>p. length (filter (\<lambda>r. f r = p) g) = 1)"
    (is "?L \<longleftrightarrow> ?R")
proof
  assume l: ?L
  then have "distinct (map f g)" by (intro card_distinct) simp
  moreover have "p \<in> set (map f g)" for p
    using l purchase_option_all_complete(1) by (auto simp: list_all_iff)
  ultimately show ?R by (metis count_map distinct_count_atmost_1)
next
  assume r: ?R
  have d: "distinct purchase_option_all"
    using purchase_option_all_complete(2) strict_sorted_iff by blast
  have "mset (map f g) = mset purchase_option_all"
  proof (rule multiset_eqI)
    fix p show "count (mset (map f g)) p = count (mset purchase_option_all) p"
      using r d purchase_option_all_complete(1) by (simp add: count_map distinct_count_atmost_1 del: mset_map)
  qed
  then have "length g = length purchase_option_all" "set (map f g) = set purchase_option_all"
    by (metis length_map size_mset, metis set_mset_mset)
  then show ?L using d by (simp add: list_all_iff distinct_card)
qed

lemma find_unique:
  assumes "length (filter P xs) = 1"
  shows "find P xs = Some x \<longleftrightarrow> x \<in> set xs \<and> P x"
proof -
  obtain y where y: "filter P xs = [y]" using assms by (auto simp: length_Suc_conv)
  have "set (filter P xs) = {y}" by (simp add: y)
  then have "\<And>x. x \<in> set xs \<and> P x \<longleftrightarrow> x = y" by auto
  moreover have "find P xs = Some y" using y by (induction xs) (auto split: if_splits)
  ultimately show ?thesis by auto
qed

lemma option_pair_iff:
  assumes "\<forall>p. length (filter (\<lambda>r. mr_purchase_option r = p) g) = 1"
  shows "valid_azure_option_pair g l a \<longleftrightarrow>
    (\<forall>r\<in>set g. \<forall>r'\<in>set g. mr_purchase_option r = l \<longrightarrow> mr_purchase_option r' = a \<longrightarrow>
       0 < ar_compute_hourly (mr_rate r) \<and> ar_compute_hourly (mr_rate r) = ar_compute_hourly (mr_rate r') \<and>
       0 < ar_license_hourly (mr_rate r) \<and> ar_license_hourly (mr_rate r') = 0)"
proof -
  have found: "\<exists>r. mi_option p g = Some r \<and> r \<in> set g \<and> mr_purchase_option r = p \<and>
      (\<forall>r'\<in>set g. mr_purchase_option r' = p \<longrightarrow> r' = r)" for p
  proof -
    obtain r where "filter (\<lambda>r. mr_purchase_option r = p) g = [r]"
      using assms by (metis One_nat_def length_0_conv length_Suc_conv)
    then have "set (filter (\<lambda>r. mr_purchase_option r = p) g) = {r}" by simp
    then have r: "\<And>x. x \<in> set g \<and> mr_purchase_option x = p \<longleftrightarrow> x = r" by auto
    then have "mi_option p g = Some r"
      using find_unique [of "\<lambda>r. mr_purchase_option r = p" g r] assms by (simp add: mi_option_def)
    then show ?thesis using r by blast
  qed
  obtain r r' where r: "mi_option l g = Some r" "r \<in> set g" "mr_purchase_option r = l"
      "\<forall>x\<in>set g. mr_purchase_option x = l \<longrightarrow> x = r"
    and r': "mi_option a g = Some r'" "r' \<in> set g" "mr_purchase_option r' = a"
      "\<forall>x\<in>set g. mr_purchase_option x = a \<longrightarrow> x = r'"
    using found [of l] found [of a] by blast
  have "(\<forall>x\<in>set g. \<forall>y\<in>set g. mr_purchase_option x = l \<longrightarrow> mr_purchase_option y = a \<longrightarrow> P x y) \<longleftrightarrow> P r r'" for P
    using r(2-4) r'(2-4) by blast
  then show ?thesis using r(1) r'(1) by (simp add: valid_azure_option_pair_def)
qed

lemma all_like_first: "h \<in> A \<Longrightarrow> (\<forall>r\<in>A. f r = f h) \<longleftrightarrow> (\<forall>r\<in>A. \<forall>r'\<in>A. f r = f r')"
  by metis

lemma agree_iff:
  assumes "\<forall>p. length (filter (\<lambda>r. mr_purchase_option r = p) g) = 1"
  shows "(\<forall>r\<in>set g. \<forall>r'\<in>set g. mi_records_agree r r') \<longleftrightarrow>
      (\<forall>r\<in>set g. \<forall>r'\<in>set g. (ar_storage_monthly_per_gb (mr_rate r), ar_additional_memory_per_gb_hourly (mr_rate r)) =
         (ar_storage_monthly_per_gb (mr_rate r'), ar_additional_memory_per_gb_hourly (mr_rate r'))) \<and>
      valid_azure_option_pair g PoPayg PoAhb \<and> valid_azure_option_pair g PoOneYear PoAhbOneYear \<and>
      valid_azure_option_pair g PoThreeYear PoAhbThreeYear \<and>
      valid_azure_option_pair g PoSavingsOneYear PoAhbSavingsOneYear"
proof -
  have counterpart: "ahb_counterpart p = Some q \<longleftrightarrow>
      p = PoPayg \<and> q = PoAhb \<or> p = PoOneYear \<and> q = PoAhbOneYear \<or> p = PoThreeYear \<and> q = PoAhbThreeYear \<or>
      p = PoSavingsOneYear \<and> q = PoAhbSavingsOneYear" for p q
    by (cases p) (auto simp: ahb_counterpart_def)
  show ?thesis unfolding option_pair_iff [OF assms] mi_records_agree_def counterpart by blast
qed

lemma invalid_matrix_iff:
  assumes "g \<noteq> []"
  shows "\<not> invalid_matrix g \<longleftrightarrow>
    (\<forall>p. length (filter (\<lambda>r. mr_purchase_option r = p) g) = 1) \<and> (\<forall>r\<in>set g. \<forall>r'\<in>set g. mi_records_agree r r')"
    (is "_ \<longleftrightarrow> ?once \<and> ?agree")
proof (cases ?once)
  case True
  have first: "hd g \<in> set g" using assms by simp
  have "\<not> list_ex (\<lambda>r. ar_storage_monthly_per_gb (mr_rate r) \<noteq> ar_storage_monthly_per_gb (mr_rate (hd g)) \<or>
         ar_additional_memory_per_gb_hourly (mr_rate r) \<noteq> ar_additional_memory_per_gb_hourly (mr_rate (hd g))) g \<longleftrightarrow>
      (\<forall>r\<in>set g. \<forall>r'\<in>set g. (ar_storage_monthly_per_gb (mr_rate r), ar_additional_memory_per_gb_hourly (mr_rate r)) =
         (ar_storage_monthly_per_gb (mr_rate r'), ar_additional_memory_per_gb_hourly (mr_rate r')))"
    unfolding all_like_first [OF first, symmetric] by (auto simp: list_ex_iff)
  moreover have "\<not> invalid_matrix g \<longleftrightarrow>
      (length g = length purchase_option_all \<and> card (set (map mr_purchase_option g)) = length purchase_option_all \<and>
       list_all (\<lambda>p. p \<in> set (map mr_purchase_option g)) purchase_option_all) \<and>
      \<not> list_ex (\<lambda>r. ar_storage_monthly_per_gb (mr_rate r) \<noteq> ar_storage_monthly_per_gb (mr_rate (hd g)) \<or>
         ar_additional_memory_per_gb_hourly (mr_rate r) \<noteq> ar_additional_memory_per_gb_hourly (mr_rate (hd g))) g \<and>
      valid_azure_option_pair g PoPayg PoAhb \<and> valid_azure_option_pair g PoOneYear PoAhbOneYear \<and>
      valid_azure_option_pair g PoThreeYear PoAhbThreeYear \<and>
      valid_azure_option_pair g PoSavingsOneYear PoAhbSavingsOneYear"
    unfolding invalid_matrix_def Let_def by blast
  ultimately show ?thesis using True by (simp only: each_once agree_iff [OF True])
next
  case False
  then show ?thesis using each_once [of g mr_purchase_option] unfolding invalid_matrix_def Let_def by blast
qed

lemma set_grouped: "set (grouped key rs) = {filter (\<lambda>r'. key r' = key r) rs | r. r \<in> set rs}"
  by (auto simp: grouped_def)

lemma matrices_iff: "validate_azure_purchase_matrices rs = Ok () \<longleftrightarrow> matrices_complete rs"
proof -
  let ?group = "\<lambda>r. filter (\<lambda>r'. mr_configuration_key r' = mr_configuration_key r) rs"
  have rec: "\<not> invalid_mi_record r \<longleftrightarrow> mi_record_ok r" for r
    by (auto simp: invalid_mi_record_def mi_record_ok_def)
  have group: "\<not> invalid_matrix (?group r) \<longleftrightarrow>
      (\<forall>p. length (filter (\<lambda>r'. mr_configuration_key r' = mr_configuration_key r \<and> mr_purchase_option r' = p) rs) = 1) \<and>
      (\<forall>r'\<in>set (?group r). \<forall>r''\<in>set (?group r). mi_records_agree r' r'')" if "r \<in> set rs" for r
  proof -
    have "?group r \<noteq> []" using that by (auto simp: filter_empty_conv)
    from invalid_matrix_iff [OF this] show ?thesis by (simp add: conj_commute)
  qed
  have "(\<forall>r\<in>set rs. \<forall>r'\<in>set (?group r). \<forall>r''\<in>set (?group r). mi_records_agree r' r'') \<longleftrightarrow>
      (\<forall>r\<in>set rs. \<forall>r'\<in>set rs. mr_configuration_key r' = mr_configuration_key r \<longrightarrow> mi_records_agree r r')"
    by auto
  moreover have "validate_azure_purchase_matrices rs = Ok () \<longleftrightarrow>
      (\<forall>r\<in>set rs. mi_record_ok r) \<and> (\<forall>r\<in>set rs. \<not> invalid_matrix (?group r))"
    by (auto simp: validate_azure_purchase_matrices_def list_ex_iff rec [symmetric] set_grouped)
  ultimately show ?thesis unfolding matrices_complete_def using group by blast
qed

section \<open>Consistent virtual machine and disk rates\<close>

definition vm_key :: "azure_vm_rate_record \<Rightarrow> string" where
  "vm_key r = to_ascii_lowercase (vm_arm_sku_name r)"

definition vm_record_ok :: "snapshot_env \<Rightarrow> azure_vm_rate_record \<Rightarrow> bool" where
  "vm_record_ok X r \<longleftrightarrow>
     vm_arm_sku_name r \<noteq> [] \<and> 0 < vm_hourly_rate r \<and> 0 \<le> vm_license_hourly r \<and>
     vm_license_hourly r \<le> vm_hourly_rate r \<and>
     (vm_uses_ahb (vm_purchase_option r) \<longrightarrow> vm_license_hourly r = 0) \<and>
     vm_unit_of_measure r = ''1 Hour'' \<and> valid_raw_price X (vm_raw_price_lexeme r)"

text \<open>The price without the license is the hybrid-benefit price.\<close>

definition vm_pair_ok :: "dec_arith \<Rightarrow> azure_vm_rate_record \<Rightarrow> azure_vm_rate_record \<Rightarrow> bool" where
  "vm_pair_ok A licensed ahb \<longleftrightarrow>
     vm_license_hourly licensed < vm_hourly_rate licensed \<and> 0 < vm_license_hourly licensed \<and>
     vm_license_hourly ahb = 0 \<and>
     dec_sub A (vm_hourly_rate licensed) (vm_license_hourly licensed) = Some (vm_hourly_rate ahb)"

text \<open>
  The prices of one size, by option: a pay-as-you-go price without license alone, or pairs of licensed
  and hybrid-benefit prices, the commitments cheaper and with the same license.
\<close>

definition vm_configuration_ok :: "dec_arith \<Rightarrow> (vm_purchase_option \<Rightarrow> azure_vm_rate_record option) \<Rightarrow> bool" where
  "vm_configuration_ok A look \<longleftrightarrow>
     (\<exists>payg. look VpoPayg = Some payg \<and>
        (vm_license_hourly payg = 0 \<and> (\<forall>p. p \<noteq> VpoPayg \<longrightarrow> look p = None) \<or>
         (\<exists>ahb. look VpoAhb = Some ahb \<and> vm_pair_ok A payg ahb \<and>
           (\<forall>(l, a)\<in>set vm_commitment_pairs.
              case (look l, look a) of
                (None, None) \<Rightarrow> True
              | (Some licensed, Some committed) \<Rightarrow>
                  vm_pair_ok A licensed committed \<and> vm_license_hourly licensed = vm_license_hourly payg \<and>
                  vm_hourly_rate committed < vm_hourly_rate ahb
              | _ \<Rightarrow> False))))"

definition vm_look :: "azure_vm_rate_record list \<Rightarrow> string \<Rightarrow> vm_purchase_option \<Rightarrow> azure_vm_rate_record option" where
  "vm_look vs k p = find (\<lambda>r. vm_key r = k \<and> vm_purchase_option r = p) vs"

definition disk_record_ok :: "snapshot_env \<Rightarrow> azure_managed_disk_rate_record \<Rightarrow> bool" where
  "disk_record_ok X r \<longleftrightarrow>
     mdr_offer_key r \<noteq> [] \<and> (mdr_tier_key r \<noteq> None \<longleftrightarrow> mdr_dimension r = DimCapacityTier) \<and>
     0 < mdr_normalized_monthly_rate r \<and> mdr_unit_of_measure r \<noteq> [] \<and> valid_raw_price X (mdr_raw_price_lexeme r)"

definition disk_key :: "azure_managed_disk_rate_record \<Rightarrow> string \<times> string option \<times> azure_managed_disk_price_dimension" where
  "disk_key r = (to_ascii_lowercase (mdr_offer_key r), mdr_tier_key r, mdr_dimension r)"

definition vm_rates_consistent ::
  "snapshot_env \<Rightarrow> dec_arith \<Rightarrow> azure_vm_rate_record list \<Rightarrow> azure_managed_disk_rate_record list \<Rightarrow> bool" where
  "vm_rates_consistent X A vs ds \<longleftrightarrow>
     (\<forall>r\<in>set vs. vm_record_ok X r \<and> vm_configuration_ok A (vm_look vs (vm_key r))) \<and>
     distinct (map (\<lambda>r. (vm_key r, vm_purchase_option r)) vs) \<and>
     (\<forall>r\<in>set ds. disk_record_ok X r) \<and> distinct (map disk_key ds)"

lemma vm_option_uses_ahb_eq: "vm_option_uses_ahb p = vm_uses_ahb p"
  by (simp add: vm_option_uses_ahb_def vm_uses_ahb_def)

lemma invalid_vm_records:
  "\<not> invalid_vm_record_from X S rs \<longleftrightarrow>
     (\<forall>r\<in>set rs. vm_record_ok X r) \<and> distinct (map (\<lambda>r. (vm_key r, vm_purchase_option r)) rs) \<and>
     (\<lambda>r. (vm_key r, vm_purchase_option r)) ` set rs \<inter> S = {}"
proof (induction rs arbitrary: S)
  case (Cons r rs)
  have "\<not> invalid_vm_record_from X S (r # rs) \<longleftrightarrow>
      vm_record_ok X r \<and> (vm_key r, vm_purchase_option r) \<notin> S \<and>
      \<not> invalid_vm_record_from X (insert (vm_key r, vm_purchase_option r) S) rs"
    by (auto simp: Let_def vm_record_ok_def vm_key_def vm_option_uses_ahb_eq not_le not_less)
  then show ?case unfolding Cons.IH by auto
qed simp

lemma invalid_disk_records:
  "\<not> invalid_disk_record_from X S rs \<longleftrightarrow>
     (\<forall>r\<in>set rs. disk_record_ok X r) \<and> distinct (map disk_key rs) \<and> disk_key ` set rs \<inter> S = {}"
proof (induction rs arbitrary: S)
  case (Cons r rs)
  have shape: "tier_shape_valid r \<longleftrightarrow> (mdr_tier_key r \<noteq> None \<longleftrightarrow> mdr_dimension r = DimCapacityTier)"
    by (cases "mdr_dimension r") (simp_all add: tier_shape_valid_def)
  have "\<not> invalid_disk_record_from X S (r # rs) \<longleftrightarrow>
      disk_record_ok X r \<and> disk_key r \<notin> S \<and> \<not> invalid_disk_record_from X (insert (disk_key r) S) rs"
    by (simp add: Let_def disk_record_ok_def disk_key_def shape not_le conj_ac)
  then show ?case unfolding Cons.IH by auto
qed simp

lemma find_filter: "find P (filter Q xs) = find (\<lambda>x. Q x \<and> P x) xs"
  by (induction xs) auto

lemma try_map_unit: "(\<exists>us. try_map f xs = Ok us) \<longleftrightarrow> (\<forall>x\<in>set xs. f x = Ok ())"
  by (induction xs) (auto simp: obind_Ok_iff)

lemma option_pair_Ok:
  "valid_azure_vm_option_pair A l a = Ok b \<Longrightarrow> b \<longleftrightarrow> vm_pair_ok A l a"
  by (auto simp: valid_azure_vm_option_pair_def vm_pair_ok_def obind_Ok_iff split: if_splits)

lemma option_pair_True: "valid_azure_vm_option_pair A l a = Ok True \<longleftrightarrow> vm_pair_ok A l a"
  by (auto simp: valid_azure_vm_option_pair_def vm_pair_ok_def obind_Ok_iff)

lemma check_commitment_Ok:
  "check_vm_commitment A g payg ahb (l, a) = Ok () \<longleftrightarrow>
     (case (vm_option l g, vm_option a g) of
        (None, None) \<Rightarrow> True
      | (Some licensed, Some committed) \<Rightarrow>
          vm_pair_ok A licensed committed \<and> vm_license_hourly licensed = vm_license_hourly payg \<and>
          vm_hourly_rate committed < vm_hourly_rate ahb
      | _ \<Rightarrow> False)"
  by (auto simp: check_vm_commitment_def obind_Ok_iff option_pair_True [symmetric] split: option.splits if_splits)

lemma only_payg:
  assumes "distinct (map vm_purchase_option g)"
  shows "length g = 1 \<and> vm_purchase_option (g ! 0) = VpoPayg \<and> vm_license_hourly (g ! 0) = 0 \<longleftrightarrow>
    (\<exists>payg. vm_option VpoPayg g = Some payg \<and> vm_license_hourly payg = 0 \<and> (\<forall>p. p \<noteq> VpoPayg \<longrightarrow> vm_option p g = None))"
    (is "?L \<longleftrightarrow> ?R")
proof
  assume ?L
  then obtain r where "g = [r]" by (auto simp: length_Suc_conv)
  then show ?R using \<open>?L\<close> by (simp add: vm_option_def)
next
  assume ?R
  then obtain payg where p: "vm_option VpoPayg g = Some payg" "vm_license_hourly payg = 0"
      "\<And>p. p \<noteq> VpoPayg \<Longrightarrow> vm_option p g = None" by blast
  have opt: "vm_purchase_option r = VpoPayg" if "r \<in> set g" for r
    using p(3) [of "vm_purchase_option r"] that by (auto simp: vm_option_def find_None_iff)
  have "payg \<in> set g" using p(1) by (auto simp: vm_option_def find_Some_iff)
  moreover have "length g \<le> 1"
  proof (cases g)
    case (Cons r rs)
    then have "rs = []" using assms opt by (cases rs) auto
    then show ?thesis using Cons by simp
  qed simp
  ultimately have "g = [payg]" by (cases g) (auto split: if_splits)
  then show ?L using p(2) opt by simp
qed

lemma check_pairs_Ok:
  "(case (payg, ahb) of
      (Some payg, Some ahb) \<Rightarrow>
        obind (valid_azure_vm_option_pair A payg ahb) (\<lambda>paired.
        if \<not> paired then Err InvalidAzureVmRates
        else obind (try_map (f payg ahb) pairs) (\<lambda>_. Ok ()))
    | _ \<Rightarrow> Err InvalidAzureVmRates) = Ok () \<longleftrightarrow>
   (\<exists>p a. payg = Some p \<and> ahb = Some a \<and> vm_pair_ok A p a \<and> (\<forall>x\<in>set pairs. f p a x = Ok ()))"
proof (cases payg; cases ahb)
  fix p a assume [simp]: "payg = Some p" "ahb = Some a"
  show ?thesis
  proof (cases "vm_pair_ok A p a")
    case True
    then show ?thesis by (simp add: option_pair_True [symmetric] obind_Ok_iff try_map_unit)
  next
    case False
    then have "valid_azure_vm_option_pair A p a \<noteq> Ok True" by (simp add: option_pair_True)
    then show ?thesis using False by (auto simp: obind_Ok_iff split: if_splits)
  qed
qed simp_all

lemma if_Ok: "(if b then Ok () else m) = Ok () \<longleftrightarrow> b \<or> m = Ok ()"
  by simp

lemma check_configuration_Ok:
  assumes "distinct (map vm_purchase_option g)"
  shows "check_vm_configuration A g = Ok () \<longleftrightarrow> vm_configuration_ok A (\<lambda>p. vm_option p g)"
proof -
  have "check_vm_configuration A g = Ok () \<longleftrightarrow>
      (\<exists>payg. vm_option VpoPayg g = Some payg \<and> vm_license_hourly payg = 0 \<and> (\<forall>p. p \<noteq> VpoPayg \<longrightarrow> vm_option p g = None)) \<or>
      (\<exists>payg ahb. vm_option VpoPayg g = Some payg \<and> vm_option VpoAhb g = Some ahb \<and> vm_pair_ok A payg ahb \<and>
         (\<forall>x\<in>set vm_commitment_pairs. check_vm_commitment A g payg ahb x = Ok ()))"
    unfolding check_vm_configuration_def only_payg [OF assms] check_pairs_Ok [symmetric] by (rule if_Ok)
  also have "\<dots> \<longleftrightarrow> vm_configuration_ok A (\<lambda>p. vm_option p g)"
  proof -
    have "(\<forall>x\<in>set vm_commitment_pairs. check_vm_commitment A g payg ahb x = Ok ()) \<longleftrightarrow>
        (\<forall>(l, a)\<in>set vm_commitment_pairs.
              case (vm_option l g, vm_option a g) of
                (None, None) \<Rightarrow> True
              | (Some licensed, Some committed) \<Rightarrow>
                  vm_pair_ok A licensed committed \<and> vm_license_hourly licensed = vm_license_hourly payg \<and>
                  vm_hourly_rate committed < vm_hourly_rate ahb
              | _ \<Rightarrow> False)" for payg ahb
      by (intro ball_cong refl) (simp only: split_paired_all prod.case check_commitment_Ok)
    then show ?thesis unfolding vm_configuration_ok_def by blast
  qed
  finally show ?thesis .
qed

lemma vm_rates_iff: "validate_azure_vm_rates X A vs ds = Ok () \<longleftrightarrow> vm_rates_consistent X A vs ds"
proof (cases "invalid_vm_record_from X {} vs")
  case True
  then show ?thesis using invalid_vm_records [of X "{}" vs]
    by (auto simp: validate_azure_vm_rates_def vm_rates_consistent_def)
next
  case False
  let ?g = "\<lambda>r. filter (\<lambda>r'. vm_key r' = vm_key r) vs"
  have d: "distinct (map (\<lambda>r. (vm_key r, vm_purchase_option r)) vs)"
    using False invalid_vm_records [of X "{}" vs] by simp
  have dg: "distinct (map vm_purchase_option (?g r))" for r
  proof -
    have "distinct (map (\<lambda>r. (vm_key r, vm_purchase_option r)) (?g r))" using d by (rule distinct_map_filter)
    then show ?thesis by (auto simp: distinct_map inj_on_def)
  qed
  have "(\<lambda>p. vm_option p (?g r)) = vm_look vs (vm_key r)" for r
    by (simp add: fun_eq_iff vm_option_def vm_look_def find_filter)
  then have conf: "check_vm_configuration A (?g r) = Ok () \<longleftrightarrow> vm_configuration_ok A (vm_look vs (vm_key r))" for r
    using check_configuration_Ok [OF dg] by simp
  have "(\<forall>g\<in>set (grouped (\<lambda>r. to_ascii_lowercase (vm_arm_sku_name r)) vs). check_vm_configuration A g = Ok ()) \<longleftrightarrow>
      (\<forall>r\<in>set vs. vm_configuration_ok A (vm_look vs (vm_key r)))"
    using conf unfolding vm_key_def set_grouped by auto
  then show ?thesis
    using False invalid_vm_records [of X "{}" vs] invalid_disk_records [of X "{}" ds]
    by (auto simp: validate_azure_vm_rates_def vm_rates_consistent_def obind_Ok_iff try_map_unit)
qed

section \<open>Lookups in a created snapshot\<close>

lemma find_by_key:
  assumes "distinct (map f xs)" "x \<in> set xs"
  shows "find (\<lambda>y. f y = f x) xs = Some x"
  using assms by (induction xs) (auto simp: image_iff)

lemma azure_vm_rate_look: "azure_vm_rate s sku p = vm_look (zs_vm_rates s) (to_ascii_lowercase sku) p"
  by (simp add: azure_vm_rate_def vm_look_def vm_key_def eq_ignore_ascii_case_def)

lemma azure_disk_rate_look:
  "azure_managed_disk_rate s k t d = find (\<lambda>r. disk_key r = (to_ascii_lowercase k, t, d)) (zs_managed_disk_rates s)"
  by (simp add: azure_managed_disk_rate_def disk_key_def eq_ignore_ascii_case_def conj_ac)

text \<open>What the calculation relies on.\<close>

definition azure_snapshot_ok :: "snapshot_env \<Rightarrow> dec_arith \<Rightarrow> azure_price_snapshot \<Rightarrow> bool" where
  "azure_snapshot_ok X A s \<longleftrightarrow>
     matrices_complete (zs_mi_rates s) \<and> vm_rates_consistent X A (zs_vm_rates s) (zs_managed_disk_rates s)"

lemma created_azure_ok:
  "azure_create_with_vm_rates X A m region a b c = Ok s \<Longrightarrow> azure_snapshot_ok X A s"
  by (erule azure_create_OkE) (simp add: azure_snapshot_ok_def matrices_iff vm_rates_iff)

lemma mi_rate_found:
  assumes "matrices_complete (zs_mi_rates s)"
  shows "r \<in> set (zs_mi_rates s) \<Longrightarrow> azure_mi_rate s (mr_configuration_key r) (mr_purchase_option r) = Some r"
    and "has_complete_mi_rate_set s k \<longleftrightarrow> (\<exists>r\<in>set (zs_mi_rates s). mr_configuration_key r = k)"
    and "azure_mi_rate s k p \<noteq> None \<longleftrightarrow> (\<exists>r\<in>set (zs_mi_rates s). mr_configuration_key r = k)"
proof -
  let ?P = "\<lambda>k p r. mr_configuration_key r = k \<and> mr_purchase_option r = p"
  have one: "length (filter (?P (mr_configuration_key r) p) (zs_mi_rates s)) = 1" if "r \<in> set (zs_mi_rates s)" for r p
    using assms that by (simp add: matrices_complete_def)
  show "azure_mi_rate s (mr_configuration_key r) (mr_purchase_option r) = Some r" if "r \<in> set (zs_mi_rates s)"
    using find_unique [OF one [OF that], of "mr_purchase_option r" r] that by (simp add: azure_mi_rate_def)
  have none: "filter (?P k p) (zs_mi_rates s) = []" if "\<not> (\<exists>r\<in>set (zs_mi_rates s). mr_configuration_key r = k)" for p
    using that by (auto simp: filter_empty_conv)
  show "has_complete_mi_rate_set s k \<longleftrightarrow> (\<exists>r\<in>set (zs_mi_rates s). mr_configuration_key r = k)"
  proof (cases "\<exists>r\<in>set (zs_mi_rates s). mr_configuration_key r = k")
    case True
    then show ?thesis using one by (auto simp: has_complete_mi_rate_set_def list_all_iff)
  next
    case False
    then show ?thesis using none [OF False] by (simp add: has_complete_mi_rate_set_def purchase_option_all_def)
  qed
  show "azure_mi_rate s k p \<noteq> None \<longleftrightarrow> (\<exists>r\<in>set (zs_mi_rates s). mr_configuration_key r = k)"
  proof
    assume "azure_mi_rate s k p \<noteq> None"
    then show "\<exists>r\<in>set (zs_mi_rates s). mr_configuration_key r = k"
      by (auto simp: azure_mi_rate_def find_None_iff)
  next
    assume "\<exists>r\<in>set (zs_mi_rates s). mr_configuration_key r = k"
    then obtain r where "r \<in> set (zs_mi_rates s)" "mr_configuration_key r = k" by blast
    then have "filter (?P k p) (zs_mi_rates s) \<noteq> []" using one [of r p] by auto
    then show "azure_mi_rate s k p \<noteq> None" by (auto simp: azure_mi_rate_def find_None_iff filter_empty_conv)
  qed
qed

lemma vm_rate_found:
  assumes "vm_rates_consistent X A (zs_vm_rates s) (zs_managed_disk_rates s)"
  shows "r \<in> set (zs_vm_rates s) \<Longrightarrow> azure_vm_rate s (vm_arm_sku_name r) (vm_purchase_option r) = Some r"
    and "d \<in> set (zs_managed_disk_rates s) \<Longrightarrow>
      azure_managed_disk_rate s (mdr_offer_key d) (mdr_tier_key d) (mdr_dimension d) = Some d"
    and "r \<in> set (zs_vm_rates s) \<Longrightarrow> vm_configuration_ok A (azure_vm_rate s (vm_arm_sku_name r))"
proof -
  show "azure_vm_rate s (vm_arm_sku_name r) (vm_purchase_option r) = Some r" if "r \<in> set (zs_vm_rates s)"
    using find_by_key [of "\<lambda>r. (vm_key r, vm_purchase_option r)" "zs_vm_rates s" r] assms that
    by (simp add: azure_vm_rate_look vm_look_def vm_rates_consistent_def vm_key_def)
  show "azure_managed_disk_rate s (mdr_offer_key d) (mdr_tier_key d) (mdr_dimension d) = Some d"
    if "d \<in> set (zs_managed_disk_rates s)"
    using find_by_key [of disk_key "zs_managed_disk_rates s" d] assms that
    unfolding azure_disk_rate_look by (simp add: vm_rates_consistent_def disk_key_def [of d])
  have "azure_vm_rate s (vm_arm_sku_name r) = vm_look (zs_vm_rates s) (vm_key r)"
    by (simp add: fun_eq_iff azure_vm_rate_look vm_key_def)
  then show "vm_configuration_ok A (azure_vm_rate s (vm_arm_sku_name r))" if "r \<in> set (zs_vm_rates s)"
    using assms that by (simp add: vm_rates_consistent_def)
qed

section \<open>Stored snapshots\<close>

text \<open>\<open>serde_json\<close> writes different values differently.\<close>

definition faithful :: "('a \<Rightarrow> 'b option) \<Rightarrow> bool" where
  "faithful f \<longleftrightarrow> (\<forall>x y. f x \<noteq> None \<longrightarrow> f x = f y \<longrightarrow> x = y)"

lemma faithfulD: "faithful f \<Longrightarrow> f x = Some v \<Longrightarrow> f y = Some v \<Longrightarrow> x = y"
  by (simp add: faithful_def)

definition created_aws :: "snapshot_env \<Rightarrow> aws_price_snapshot \<Rightarrow> bool" where
  "created_aws X s \<longleftrightarrow> (\<exists>m region a b c. aws_create X m region a b c = Ok s)"

definition created_azure :: "snapshot_env \<Rightarrow> dec_arith \<Rightarrow> azure_price_snapshot \<Rightarrow> bool" where
  "created_azure X A s \<longleftrightarrow> (\<exists>m region a b c. azure_create_with_vm_rates X A m region a b c = Ok s)"

lemma stored_aws:
  assumes "faithful (sx_aws_value X)"
  shows "validate_stored_aws_snapshot X s0 = Ok s \<longleftrightarrow> s = s0 \<and> created_aws X s0 \<and> sx_aws_value X s0 \<noteq> None"
proof
  assume "validate_stored_aws_snapshot X s0 = Ok s"
  then have v: "sx_aws_value X s0 \<noteq> None" "sx_aws_value X s0 = sx_aws_value X s" "created_aws X s"
    by (auto simp: validate_stored_aws_snapshot_def obind_Ok_iff created_aws_def split: if_splits) blast
  then have "s0 = s" using assms by (auto simp: faithful_def)
  then show "s = s0 \<and> created_aws X s0 \<and> sx_aws_value X s0 \<noteq> None" using v by simp
next
  assume "s = s0 \<and> created_aws X s0 \<and> sx_aws_value X s0 \<noteq> None"
  then show "validate_stored_aws_snapshot X s0 = Ok s"
    by (auto simp: created_aws_def validate_stored_aws_snapshot_def aws_create_again)
qed

lemma stored_azure:
  assumes "faithful (sx_azure_value X)"
  shows "validate_stored_azure_snapshot X A s0 = Ok s \<longleftrightarrow>
    s = s0 \<and> created_azure X A s0 \<and> sx_azure_value X s0 \<noteq> None"
proof
  assume "validate_stored_azure_snapshot X A s0 = Ok s"
  then have v: "sx_azure_value X s0 \<noteq> None" "sx_azure_value X s0 = sx_azure_value X s" "created_azure X A s"
    by (auto simp: validate_stored_azure_snapshot_def obind_Ok_iff created_azure_def split: if_splits) blast
  then have "s0 = s" using assms by (auto simp: faithful_def)
  then show "s = s0 \<and> created_azure X A s0 \<and> sx_azure_value X s0 \<noteq> None" using v by simp
next
  assume "s = s0 \<and> created_azure X A s0 \<and> sx_azure_value X s0 \<noteq> None"
  then show "validate_stored_azure_snapshot X A s0 = Ok s"
    by (auto simp: created_azure_def validate_stored_azure_snapshot_def azure_create_again)
qed

section \<open>Properties\<close>

text \<open>
  C12: a snapshot does not depend on the order the rates were read in, nor on the order or repetition of
  meters, source URLs and warnings: the same input makes the same snapshot with the same identifier, or
  fails with the same error.
\<close>
theorem snapshot_order_independent:
  assumes "same_metadata m m'"
    and "mset (map normalize_ec2 a) = mset (map normalize_ec2 a')"
    and "mset (map normalize_rds b) = mset (map normalize_rds b')"
    and "mset (map normalize_ebs c) = mset (map normalize_ebs c')"
    and "mset (map normalize_mi i) = mset (map normalize_mi i')"
    and "mset (map normalize_vm v) = mset (map normalize_vm v')"
    and "mset (map normalize_disk d) = mset (map normalize_disk d')"
  shows "aws_create X m region a b c = aws_create X m' region a' b' c' \<and>
    azure_create_with_vm_rates X A m region i v d = azure_create_with_vm_rates X A m' region i' v' d'"
  using aws_create_same [OF assms(1-4)] azure_create_same [OF assms(1,5-7)] by blast

text \<open>
  C13: a stored snapshot is accepted, and then unchanged, exactly if it is one that creation makes: its
  identifier, order and contents are all as creation leaves them. A snapshot just created is accepted.
\<close>
theorem stored_snapshot_iff:
  assumes "faithful (sx_aws_value X)" "faithful (sx_azure_value X)"
  shows "(validate_stored_aws_snapshot X w0 = Ok w \<longleftrightarrow> w = w0 \<and> created_aws X w0 \<and> sx_aws_value X w0 \<noteq> None) \<and>
    (validate_stored_azure_snapshot X A z0 = Ok z \<longleftrightarrow> z = z0 \<and> created_azure X A z0 \<and> sx_azure_value X z0 \<noteq> None)"
  using stored_aws [OF assms(1)] stored_azure [OF assms(2)] by blast

text \<open>
  C14: in a snapshot that creation made, every record is found under its own business key, sizes and disks
  whatever the case they are asked in; a configuration of a managed instance that is priced at all has
  each of the eight options once, consistently; and each size has a pay-as-you-go price, alone without
  a license or with its hybrid-benefit price and complete pairs of commitments.
\<close>
theorem azure_snapshot_lookups:
  assumes "azure_create_with_vm_rates X A m region a b c = Ok s"
  shows "matrices_complete (zs_mi_rates s) \<and>
    (\<forall>r. r \<in> set (zs_mi_rates s) \<longleftrightarrow> azure_mi_rate s (mr_configuration_key r) (mr_purchase_option r) = Some r) \<and>
    (\<forall>k p. azure_mi_rate s k p \<noteq> None \<longleftrightarrow> has_complete_mi_rate_set s k) \<and>
    (\<forall>r. r \<in> set (zs_vm_rates s) \<longleftrightarrow> azure_vm_rate s (vm_arm_sku_name r) (vm_purchase_option r) = Some r) \<and>
    (\<forall>r\<in>set (zs_vm_rates s). vm_record_ok X r \<and> vm_configuration_ok A (azure_vm_rate s (vm_arm_sku_name r))) \<and>
    (\<forall>d. d \<in> set (zs_managed_disk_rates s) \<longleftrightarrow>
       azure_managed_disk_rate s (mdr_offer_key d) (mdr_tier_key d) (mdr_dimension d) = Some d)"
proof -
  have ok: "matrices_complete (zs_mi_rates s)" "vm_rates_consistent X A (zs_vm_rates s) (zs_managed_disk_rates s)"
    using created_azure_ok [OF assms] by (simp_all add: azure_snapshot_ok_def)
  have "r \<in> set (zs_mi_rates s)" if "azure_mi_rate s k p = Some r" for r k p
    using that by (auto simp: azure_mi_rate_def find_Some_iff)
  moreover have "r \<in> set (zs_vm_rates s)" if "azure_vm_rate s k p = Some r" for r k p
    using that by (auto simp: azure_vm_rate_def find_Some_iff)
  moreover have "d \<in> set (zs_managed_disk_rates s)" if "azure_managed_disk_rate s k t p = Some d" for d k t p
    using that by (auto simp: azure_managed_disk_rate_def find_Some_iff)
  ultimately show ?thesis
    using ok mi_rate_found [OF ok(1)] vm_rate_found [OF ok(2)] by (auto simp: vm_rates_consistent_def)
qed

text \<open>What the identifier of a snapshot is the hash of.\<close>

definition aws_content :: "aws_price_snapshot \<Rightarrow> aws_canonical_payload" where
  "aws_content s =
     \<lparr>ap_provider = Aws, ap_currency = sm_currency (as_metadata s), ap_source_region = as_source_region s,
      ap_parser_schema_version = sm_parser_schema_version (as_metadata s), ap_ec2_rates = as_ec2_rates s,
      ap_rds_rates = as_rds_rates s, ap_ebs_rates = as_ebs_rates s\<rparr>"

definition azure_content :: "azure_price_snapshot \<Rightarrow> azure_canonical_payload" where
  "azure_content s =
     \<lparr>zp_provider = Azure, zp_currency = sm_currency (zs_metadata s), zp_target_region = zs_target_region s,
      zp_parser_schema_version = sm_parser_schema_version (zs_metadata s), zp_mi_rates = zs_mi_rates s,
      zp_vm_rates = zs_vm_rates s, zp_managed_disk_rates = zs_managed_disk_rates s\<rparr>"

lemma created_aws_id:
  assumes "created_aws X s"
  obtains bytes where "sx_aws_json X (aws_content s) = Some bytes"
    "sm_snapshot_id (as_metadata s) = ''aws-'' @ hex_encode (sx_sha256 X bytes)"
proof -
  obtain m region a b c where "aws_create X m region a b c = Ok s" using assms by (auto simp: created_aws_def)
  then show thesis
  proof (cases rule: aws_create_OkE)
    case p: (1 bytes)
    show thesis
      by (rule that [of bytes])
         (use p(2,9,10) in \<open>simp_all add: aws_content_def snapshot_metadata_of_def Let_def normalize_creation_metadata_def\<close>)
  qed
qed

lemma created_azure_id:
  assumes "created_azure X A s"
  obtains bytes where "sx_azure_json X (azure_content s) = Some bytes"
    "sm_snapshot_id (zs_metadata s) = ''azure-'' @ hex_encode (sx_sha256 X bytes)"
proof -
  obtain m region a b c where "azure_create_with_vm_rates X A m region a b c = Ok s"
    using assms by (auto simp: created_azure_def)
  then show thesis
  proof (cases rule: azure_create_OkE)
    case p: (1 bytes)
    show thesis
      by (rule that [of bytes])
         (use p(2,10,11) in \<open>simp_all add: azure_content_def snapshot_metadata_of_def Let_def normalize_creation_metadata_def\<close>)
  qed
qed

text \<open>
  C19: the identifier of a snapshot names its contents: as long as SHA-256 does not collide on the canonical
  texts of the snapshots at hand, two created AWS snapshots with one identifier have the same region,
  currency, parser version and rates, two Azure snapshots likewise, and no AWS snapshot has the identifier
  of an Azure one.
\<close>
theorem snapshot_id_names_content:
  assumes "faithful (sx_aws_json X)" "faithful (sx_azure_json X)"
    and "created_aws X s" "created_aws X s'" "created_azure X A z" "created_azure X A z'"
    and "inj_on (sx_sha256 X) {bytes. Some bytes \<in> {sx_aws_json X (aws_content s), sx_aws_json X (aws_content s'),
      sx_azure_json X (azure_content z), sx_azure_json X (azure_content z')}}"
  shows "(sm_snapshot_id (as_metadata s) = sm_snapshot_id (as_metadata s') \<longrightarrow>
      as_source_region s = as_source_region s' \<and> as_ec2_rates s = as_ec2_rates s' \<and>
      as_rds_rates s = as_rds_rates s' \<and> as_ebs_rates s = as_ebs_rates s' \<and>
      sm_currency (as_metadata s) = sm_currency (as_metadata s') \<and>
      sm_parser_schema_version (as_metadata s) = sm_parser_schema_version (as_metadata s')) \<and>
    (sm_snapshot_id (zs_metadata z) = sm_snapshot_id (zs_metadata z') \<longrightarrow>
      zs_target_region z = zs_target_region z' \<and> zs_mi_rates z = zs_mi_rates z' \<and>
      zs_vm_rates z = zs_vm_rates z' \<and> zs_managed_disk_rates z = zs_managed_disk_rates z' \<and>
      sm_currency (zs_metadata z) = sm_currency (zs_metadata z') \<and>
      sm_parser_schema_version (zs_metadata z) = sm_parser_schema_version (zs_metadata z')) \<and>
    sm_snapshot_id (as_metadata s) \<noteq> sm_snapshot_id (zs_metadata z)"
proof -
  obtain b where b: "sx_aws_json X (aws_content s) = Some b"
    "sm_snapshot_id (as_metadata s) = ''aws-'' @ hex_encode (sx_sha256 X b)" by (rule created_aws_id [OF assms(3)])
  obtain b' where b': "sx_aws_json X (aws_content s') = Some b'"
    "sm_snapshot_id (as_metadata s') = ''aws-'' @ hex_encode (sx_sha256 X b')" by (rule created_aws_id [OF assms(4)])
  obtain d where d: "sx_azure_json X (azure_content z) = Some d"
    "sm_snapshot_id (zs_metadata z) = ''azure-'' @ hex_encode (sx_sha256 X d)" by (rule created_azure_id [OF assms(5)])
  obtain d' where d': "sx_azure_json X (azure_content z') = Some d'"
    "sm_snapshot_id (zs_metadata z') = ''azure-'' @ hex_encode (sx_sha256 X d')" by (rule created_azure_id [OF assms(6)])
  have "aws_content s = aws_content s'" if "sm_snapshot_id (as_metadata s) = sm_snapshot_id (as_metadata s')"
  proof -
    have "sx_sha256 X b = sx_sha256 X b'" using that b(2) b'(2) by (simp add: hex_encode_inject)
    then have "b = b'" by (rule inj_onD [OF assms(7)]) (simp_all add: b b')
    then show ?thesis using faithfulD [OF assms(1) b(1)] b'(1) by simp
  qed
  moreover have "azure_content z = azure_content z'" if "sm_snapshot_id (zs_metadata z) = sm_snapshot_id (zs_metadata z')"
  proof -
    have "sx_sha256 X d = sx_sha256 X d'" using that d(2) d'(2) by (simp add: hex_encode_inject)
    then have "d = d'" by (rule inj_onD [OF assms(7)]) (simp_all add: d d')
    then show ?thesis using faithfulD [OF assms(2) d(1)] d'(1) by simp
  qed
  ultimately show ?thesis using b(2) d(2) by (auto simp: aws_content_def azure_content_def)
qed

section \<open>A concrete snapshot\<close>

definition example_creation :: snapshot_creation_metadata where
  "example_creation =
     \<lparr>cm_status = Fresh, cm_retrieved_at = ''2026-08-10T12:00:00Z'', cm_source_published_at = None,
      cm_currency = ''USD'', cm_source_urls = [], cm_parser_schema_version = ''v1'', cm_warnings = []\<rparr>"

definition example_provenance :: rate_provenance where
  "example_provenance = \<lparr>rp_source_url = ''url'', rp_effective_at = None, rp_source_version = None, rp_meter_ids = []\<rparr>"

definition example_mi :: "string \<Rightarrow> purchase_option \<Rightarrow> rat \<Rightarrow> azure_mi_rate_record" where
  "example_mi key option license =
     \<lparr>mr_stable_key = key, mr_configuration_key = ''gp-4'', mr_purchase_option = option,
      mr_rate = \<lparr>ar_compute_hourly = 2, ar_license_hourly = license, ar_storage_monthly_per_gb = 1,
        ar_additional_memory_per_gb_hourly = 0\<rparr>, mr_provenance = example_provenance\<rparr>"

definition example_matrix :: "azure_mi_rate_record list" where
  "example_matrix =
     [example_mi ''b'' PoAhb 0, example_mi ''a'' PoPayg 1, example_mi ''c'' PoOneYear 1, example_mi ''d'' PoAhbOneYear 0,
      example_mi ''e'' PoThreeYear 1, example_mi ''f'' PoAhbThreeYear 0, example_mi ''g'' PoSavingsOneYear 1,
      example_mi ''h'' PoAhbSavingsOneYear 0]"

definition example_vm :: "string \<Rightarrow> vm_purchase_option \<Rightarrow> rat \<Rightarrow> rat \<Rightarrow> azure_vm_rate_record" where
  "example_vm key option hourly license =
     \<lparr>vm_stable_key = key, vm_arm_sku_name = ''D4'', vm_purchase_option = option, vm_hourly_rate = hourly,
      vm_license_hourly = license, vm_unit_of_measure = ''1 Hour'', vm_raw_price_lexeme = ''1'',
      vm_provenance = example_provenance\<rparr>"

definition example_aws_snapshot :: aws_price_snapshot where
  "example_aws_snapshot =
     \<lparr>as_metadata = snapshot_metadata_of Aws [] example_creation, as_source_region = ''eu'', as_ec2_rates = [],
      as_rds_rates = [], as_ebs_rates = []\<rparr>"

definition example_azure_snapshot :: azure_price_snapshot where
  "example_azure_snapshot =
     \<lparr>zs_metadata = snapshot_metadata_of Azure [] example_creation, zs_target_region = ''eu'',
      zs_mi_rates =
        [example_mi ''a'' PoPayg 1, example_mi ''b'' PoAhb 0, example_mi ''c'' PoOneYear 1, example_mi ''d'' PoAhbOneYear 0,
         example_mi ''e'' PoThreeYear 1, example_mi ''f'' PoAhbThreeYear 0, example_mi ''g'' PoSavingsOneYear 1,
         example_mi ''h'' PoAhbSavingsOneYear 0],
      zs_vm_rates = [example_vm ''x'' VpoPayg 3 1, example_vm ''y'' VpoAhb 2 0], zs_managed_disk_rates = []\<rparr>"

definition example_snapshot_env :: snapshot_env where
  "example_snapshot_env =
     \<lparr>sx_parse_time = (\<lambda>text. if text = ''2026-08-10T12:00:00Z'' then Some (0, 0) else None),
      sx_parse_decimal = (\<lambda>text. if text = ''1'' then Some 1 else None), sx_sha256 = (\<lambda>_. []),
      sx_aws_json = (\<lambda>p. if p = \<lparr>ap_provider = Aws, ap_currency = ''USD'', ap_source_region = ''eu'',
          ap_parser_schema_version = ''v1'', ap_ec2_rates = [], ap_rds_rates = [], ap_ebs_rates = []\<rparr>
        then Some [] else None),
      sx_azure_json = (\<lambda>_. Some []), sx_ec2_json = (\<lambda>_. None), sx_rds_json = (\<lambda>_. None), sx_ebs_json = (\<lambda>_. None),
      sx_aws_value = (\<lambda>s. if s = example_aws_snapshot then Some JNull else None),
      sx_azure_value = (\<lambda>s. if s = example_azure_snapshot then Some JNull else None)\<rparr>"

lemma example_metadata_ok: "validate_creation_metadata example_snapshot_env example_creation ''eu'' = Ok ()"
  by (simp add: validate_creation_metadata_def example_snapshot_env_def example_creation_def)

lemma example_faithful:
  "faithful (sx_aws_json example_snapshot_env)" "faithful (sx_aws_value example_snapshot_env)"
  "faithful (sx_azure_value example_snapshot_env)"
  by (auto simp: faithful_def example_snapshot_env_def)

lemma example_aws_created:
  "aws_create example_snapshot_env example_creation ''eu'' [] [] [] = Ok example_aws_snapshot"
  unfolding aws_create_def example_metadata_ok
  by (simp add: by_key_def validate_unique_keys_def validate_rate_provenance_def validate_aws_rates_def
      hash_canonical_def example_aws_snapshot_def example_snapshot_env_def example_creation_def hex_encode_def)

lemma example_normalized [simp]:
  "normalize_mi (example_mi k p l) = example_mi k p l" "normalize_vm (example_vm k q h l) = example_vm k q h l"
  by (simp_all add: normalize_mi_def example_mi_def normalize_vm_def example_vm_def example_provenance_def
      normalize_provenance_def sort_dedup_def)

lemma example_fields [simp]:
  "mr_stable_key (example_mi k p l) = k" "mr_configuration_key (example_mi k p l) = ''gp-4''"
  "mr_purchase_option (example_mi k p l) = p" "mr_provenance (example_mi k p l) = example_provenance"
  "vm_stable_key (example_vm k q h l) = k" "vm_arm_sku_name (example_vm k q h l) = ''D4''"
  "vm_purchase_option (example_vm k q h l) = q" "vm_provenance (example_vm k q h l) = example_provenance"
  "vm_hourly_rate (example_vm k q h l) = h" "vm_license_hourly (example_vm k q h l) = l"
  by (simp_all add: example_mi_def example_vm_def)

lemma example_sorted:
  "by_key mr_stable_key (map normalize_mi example_matrix) = zs_mi_rates example_azure_snapshot"
  "by_key vm_stable_key (map normalize_vm [example_vm ''y'' VpoAhb 2 0, example_vm ''x'' VpoPayg 3 1]) =
     zs_vm_rates example_azure_snapshot"
  by (simp_all add: by_key_def example_matrix_def example_azure_snapshot_def cmp_def)

lemma example_matrices: "validate_azure_purchase_matrices (zs_mi_rates example_azure_snapshot) = Ok ()"
  by (simp add: validate_azure_purchase_matrices_def example_azure_snapshot_def grouped_def invalid_mi_record_def
      invalid_matrix_def purchase_option_all_def valid_azure_option_pair_def mi_option_def)
     (simp add: example_mi_def)

lemma example_vm_rates:
  "validate_azure_vm_rates example_snapshot_env exact_arith (zs_vm_rates example_azure_snapshot) [] = Ok ()"
proof -
  let ?x = "example_vm ''x'' VpoPayg 3 1" and ?y = "example_vm ''y'' VpoAhb 2 0"
  have "vm_record_ok example_snapshot_env ?x" "vm_record_ok example_snapshot_env ?y"
    by (simp_all add: vm_record_ok_def valid_raw_price_def is_some_and_def vm_uses_ahb_def)
       (simp_all add: example_vm_def example_snapshot_env_def)
  moreover have "vm_pair_ok exact_arith ?x ?y"
    by (simp add: vm_pair_ok_def exact_arith_def in_range_def dec_max_def)
  then have "vm_configuration_ok exact_arith (vm_look [?x, ?y] (vm_key ?x))"
    by (auto simp: vm_configuration_ok_def vm_look_def vm_key_def vm_commitment_pairs_def)
  ultimately show ?thesis
    unfolding vm_rates_iff by (simp add: vm_rates_consistent_def example_azure_snapshot_def vm_key_def)
qed

lemma example_azure_created:
  "azure_create_with_vm_rates example_snapshot_env exact_arith example_creation ''eu'' example_matrix
     [example_vm ''y'' VpoAhb 2 0, example_vm ''x'' VpoPayg 3 1] [] = Ok example_azure_snapshot"
proof -
  have empty: "by_key mdr_stable_key (map normalize_disk []) = []" by (simp add: by_key_def)
  have keys: "validate_unique_keys (map mr_stable_key (zs_mi_rates example_azure_snapshot) @
      map vm_stable_key (zs_vm_rates example_azure_snapshot) @ map mdr_stable_key []) = Ok ()"
    by (simp add: validate_unique_keys_def example_azure_snapshot_def)
  have provenance: "validate_rate_provenance (map mr_provenance (zs_mi_rates example_azure_snapshot) @
      map vm_provenance (zs_vm_rates example_azure_snapshot) @ map mdr_provenance []) = Ok ()"
    by (simp add: validate_rate_provenance_def example_azure_snapshot_def example_provenance_def)
  have hash: "hash_canonical example_snapshot_env (sx_azure_json example_snapshot_env p) = Ok []" for p
    by (simp add: hash_canonical_def example_snapshot_env_def hex_encode_def)
  show ?thesis
    unfolding azure_create_with_vm_rates_def Let_def example_metadata_ok example_sorted empty obind.simps keys
      provenance example_matrices example_vm_rates hash
    by (simp add: example_azure_snapshot_def)
qed

lemma snapshot_order_independent_witness:
  "aws_create example_snapshot_env example_creation ''eu'' [] [] [] =
     aws_create example_snapshot_env (example_creation\<lparr>cm_warnings := []\<rparr>) ''eu'' [] [] [] \<and>
   azure_create_with_vm_rates example_snapshot_env exact_arith example_creation ''eu'' example_matrix
     [example_vm ''y'' VpoAhb 2 0, example_vm ''x'' VpoPayg 3 1] [] =
   azure_create_with_vm_rates example_snapshot_env exact_arith (example_creation\<lparr>cm_warnings := []\<rparr>) ''eu''
     (rev example_matrix) [example_vm ''x'' VpoPayg 3 1, example_vm ''y'' VpoAhb 2 0] []"
  by (rule snapshot_order_independent) (simp_all add: same_metadata_def example_creation_def flip: rev_map)

lemma stored_snapshot_iff_witness:
  "validate_stored_aws_snapshot example_snapshot_env example_aws_snapshot = Ok example_aws_snapshot \<and>
   validate_stored_azure_snapshot example_snapshot_env exact_arith example_azure_snapshot = Ok example_azure_snapshot"
proof -
  have "created_aws example_snapshot_env example_aws_snapshot" "created_azure example_snapshot_env exact_arith example_azure_snapshot"
    using example_aws_created example_azure_created unfolding created_aws_def created_azure_def by blast+
  then show ?thesis
    using stored_snapshot_iff [OF example_faithful(2,3), of example_aws_snapshot example_aws_snapshot exact_arith
        example_azure_snapshot example_azure_snapshot]
    by (simp add: example_snapshot_env_def)
qed

lemma azure_snapshot_lookups_witness:
  "has_complete_mi_rate_set example_azure_snapshot ''gp-4'' \<and>
   azure_vm_rate example_azure_snapshot ''D4'' VpoPayg = Some (example_vm ''x'' VpoPayg 3 1)"
proof -
  note found = azure_snapshot_lookups [OF example_azure_created]
  have "example_mi ''a'' PoPayg 1 \<in> set (zs_mi_rates example_azure_snapshot)"
    "example_vm ''x'' VpoPayg 3 1 \<in> set (zs_vm_rates example_azure_snapshot)"
    by (simp_all add: example_azure_snapshot_def)
  then have "azure_mi_rate example_azure_snapshot (mr_configuration_key (example_mi ''a'' PoPayg 1))
      (mr_purchase_option (example_mi ''a'' PoPayg 1)) = Some (example_mi ''a'' PoPayg 1)"
    "azure_vm_rate example_azure_snapshot (vm_arm_sku_name (example_vm ''x'' VpoPayg 3 1))
      (vm_purchase_option (example_vm ''x'' VpoPayg 3 1)) = Some (example_vm ''x'' VpoPayg 3 1)"
    using found by blast+
  moreover have "azure_mi_rate example_azure_snapshot ''gp-4'' PoPayg \<noteq> None \<longleftrightarrow>
      has_complete_mi_rate_set example_azure_snapshot ''gp-4''" using found by blast
  ultimately show ?thesis by simp
qed

definition example_empty_aws :: "string \<Rightarrow> u8 \<Rightarrow> aws_price_snapshot" where
  "example_empty_aws region byte =
     \<lparr>as_metadata = snapshot_metadata_of Aws (hex_encode [byte]) example_creation, as_source_region = region,
      as_ec2_rates = [], as_rds_rates = [], as_ebs_rates = []\<rparr>"

definition example_empty_azure :: azure_price_snapshot where
  "example_empty_azure =
     \<lparr>zs_metadata = snapshot_metadata_of Azure (hex_encode [3]) example_creation, zs_target_region = ''eu'',
      zs_mi_rates = [], zs_vm_rates = [], zs_managed_disk_rates = []\<rparr>"

definition example_hash_env :: snapshot_env where
  "example_hash_env = example_snapshot_env
     \<lparr>sx_sha256 := (\<lambda>bytes. bytes),
      sx_aws_json := (\<lambda>p. if p = aws_content (example_empty_aws ''eu'' 1) then Some [1]
        else if p = aws_content (example_empty_aws ''us'' 2) then Some [2] else None),
      sx_azure_json := (\<lambda>p. if p = azure_content example_empty_azure then Some [3] else None)\<rparr>"

lemma example_empty_created:
  "created_aws example_hash_env (example_empty_aws ''eu'' 1)" "created_aws example_hash_env (example_empty_aws ''us'' 2)"
  "created_azure example_hash_env exact_arith example_empty_azure"
proof -
  have md: "validate_creation_metadata example_hash_env example_creation ''eu'' = Ok ()"
    "validate_creation_metadata example_hash_env example_creation ''us'' = Ok ()"
    by (simp_all add: validate_creation_metadata_def example_hash_env_def example_snapshot_env_def example_creation_def)
  have "aws_create example_hash_env example_creation ''eu'' [] [] [] = Ok (example_empty_aws ''eu'' 1)"
    "aws_create example_hash_env example_creation ''us'' [] [] [] = Ok (example_empty_aws ''us'' 2)"
    unfolding aws_create_def md
    by (simp_all add: by_key_def validate_unique_keys_def validate_rate_provenance_def validate_aws_rates_def
        hash_canonical_def example_hash_env_def aws_content_def example_empty_aws_def snapshot_metadata_of_def
        normalize_creation_metadata_def example_creation_def Let_def)
  then show "created_aws example_hash_env (example_empty_aws ''eu'' 1)"
    "created_aws example_hash_env (example_empty_aws ''us'' 2)" unfolding created_aws_def by blast+
  have "azure_create_with_vm_rates example_hash_env exact_arith example_creation ''eu'' [] [] [] = Ok example_empty_azure"
    unfolding azure_create_with_vm_rates_def md
    by (simp add: by_key_def validate_unique_keys_def validate_rate_provenance_def validate_azure_purchase_matrices_def
        validate_azure_vm_rates_def grouped_def hash_canonical_def example_hash_env_def azure_content_def
        example_empty_azure_def snapshot_metadata_of_def normalize_creation_metadata_def example_creation_def Let_def)
  then show "created_azure example_hash_env exact_arith example_empty_azure" unfolding created_azure_def by blast
qed

lemma snapshot_id_names_content_witness:
  "sm_snapshot_id (as_metadata (example_empty_aws ''eu'' 1)) \<noteq> sm_snapshot_id (as_metadata (example_empty_aws ''us'' 2))"
proof -
  have "faithful (sx_aws_json example_hash_env)" "faithful (sx_azure_json example_hash_env)"
    by (auto simp: faithful_def example_hash_env_def)
  moreover have "inj_on (sx_sha256 example_hash_env) B" for B by (simp add: example_hash_env_def)
  ultimately show ?thesis
    using snapshot_id_names_content [OF _ _ example_empty_created(1,2,3,3)] by (auto simp: example_empty_aws_def)
qed

end
