(* ===== verification/SnapshotCache.thy ===== *)
theory SnapshotCache
  imports SnapshotFacts
begin

text \<open>
  \<open>rust/src/pricing/repository.rs\<close>, the process-local cache of price snapshots, and
  \<open>rust/src/pricing/warnings.rs\<close>. Each provider has a map behind its own lock; a map is an association list
  in iteration order and a poisoned lock a flag. An entry carries the monotonic clock reading of its
  insertion. Reads take the monotonic clock (for the age of the entry) and the wall clock (for the age of
  the content, which decides the status the caller sees).
\<close>

section \<open>The cache\<close>

definition HOT_CACHE_MAX_AGE :: int where
  "HOT_CACHE_MAX_AGE = duration_seconds (15 * 60)"

definition FRESH_MAX_AGE :: int where
  "FRESH_MAX_AGE = duration_seconds (24 * 3600)"

definition USABLE_MAX_AGE :: int where
  "USABLE_MAX_AGE = duration_days 7"

definition HOT_ENTRY_MAX_AGE :: nat where
  "HOT_ENTRY_MAX_AGE = 15 * 60 * 1000000000"

definition MAX_HOT_SNAPSHOTS_PER_PROVIDER :: nat where
  "MAX_HOT_SNAPSHOTS_PER_PROVIDER = 256"

datatype snapshot_repository_error = RepositoryUnavailable | InvalidData | PayloadTooLarge

record 'a hot_snapshot =
  hs_snapshot :: 'a
  hs_inserted_at :: nat

record 'a hot_map =
  hm_entries :: "(string, 'a hot_snapshot) hash_map"
  hm_poisoned :: bool

record in_memory_snapshot_repository =
  ir_aws :: "aws_price_snapshot hot_map"
  ir_azure :: "azure_price_snapshot hot_map"

definition new_snapshot_repository :: in_memory_snapshot_repository where
  "new_snapshot_repository =
     \<lparr>ir_aws = \<lparr>hm_entries = [], hm_poisoned = False\<rparr>, ir_azure = \<lparr>hm_entries = [], hm_poisoned = False\<rparr>\<rparr>"

definition insert_hot ::
  "nat \<Rightarrow> (string, 'a hot_snapshot) hash_map \<Rightarrow> string \<Rightarrow> 'a \<Rightarrow> (string, 'a hot_snapshot) hash_map" where
  "insert_hot clock snapshots snapshot_id snapshot =
     (let snapshots' =
        (if map_of snapshots snapshot_id = None \<and> MAX_HOT_SNAPSHOTS_PER_PROVIDER \<le> length snapshots
         then case min_by (\<lambda>l r. cmp (hs_inserted_at (snd l)) (hs_inserted_at (snd r))) snapshots of
                None \<Rightarrow> snapshots
              | Some (oldest_id, _) \<Rightarrow> AList.delete oldest_id snapshots
         else snapshots)
      in AList.update snapshot_id \<lparr>hs_snapshot = snapshot, hs_inserted_at = clock\<rparr> snapshots')"

definition locked_entries ::
  "'a hot_map \<Rightarrow> (snapshot_repository_error, (string, 'a hot_snapshot) hash_map) outcome" where
  "locked_entries m = (if hm_poisoned m then Err RepositoryUnavailable else Ok (hm_entries m))"

definition put_aws ::
  "nat \<Rightarrow> aws_price_snapshot \<Rightarrow> in_memory_snapshot_repository \<Rightarrow>
     (snapshot_repository_error, unit) outcome \<times> in_memory_snapshot_repository" where
  "put_aws clock snapshot s =
     (case locked_entries (ir_aws s) of
        Ok snapshots \<Rightarrow>
          (Ok (), s\<lparr>ir_aws := (ir_aws s)\<lparr>hm_entries :=
             insert_hot clock snapshots (sm_snapshot_id (as_metadata snapshot)) snapshot\<rparr>\<rparr>)
      | Err e \<Rightarrow> (Err e, s) | Panic \<Rightarrow> (Panic, s))"

definition put_azure ::
  "nat \<Rightarrow> azure_price_snapshot \<Rightarrow> in_memory_snapshot_repository \<Rightarrow>
     (snapshot_repository_error, unit) outcome \<times> in_memory_snapshot_repository" where
  "put_azure clock snapshot s =
     (case locked_entries (ir_azure s) of
        Ok snapshots \<Rightarrow>
          (Ok (), s\<lparr>ir_azure := (ir_azure s)\<lparr>hm_entries :=
             insert_hot clock snapshots (sm_snapshot_id (zs_metadata snapshot)) snapshot\<rparr>\<rparr>)
      | Err e \<Rightarrow> (Err e, s) | Panic \<Rightarrow> (Panic, s))"

definition effective_status :: "time_env \<Rightarrow> snapshot_metadata \<Rightarrow> instant \<Rightarrow> resolution_status option" where
  "effective_status T m now =
     Option.bind (te_parse T (sm_retrieved_at m)) (\<lambda>retrieved_at.
     let age = now - retrieved_at
     in if age < 0 \<or> USABLE_MAX_AGE < age then None
        else if FRESH_MAX_AGE < age then Some Stale
        else if HOT_CACHE_MAX_AGE < age \<or> sm_status m \<noteq> Fresh then Some Cached
        else Some Fresh)"

definition classify_aws :: "time_env \<Rightarrow> aws_price_snapshot \<Rightarrow> instant \<Rightarrow> aws_price_snapshot option" where
  "classify_aws T snapshot now =
     Option.bind (effective_status T (as_metadata snapshot) now) (\<lambda>status.
     if sm_status (as_metadata snapshot) = status then Some snapshot
     else Some (snapshot\<lparr>as_metadata := (as_metadata snapshot)\<lparr>sm_status := status\<rparr>\<rparr>))"

definition classify_azure :: "time_env \<Rightarrow> azure_price_snapshot \<Rightarrow> instant \<Rightarrow> azure_price_snapshot option" where
  "classify_azure T snapshot now =
     Option.bind (effective_status T (zs_metadata snapshot) now) (\<lambda>status.
     if sm_status (zs_metadata snapshot) = status then Some snapshot
     else Some (snapshot\<lparr>zs_metadata := (zs_metadata snapshot)\<lparr>sm_status := status\<rparr>\<rparr>))"

text \<open>\<open>max_by\<close> of the standard library keeps the last of equal maxima.\<close>

fun max_by :: "('a \<Rightarrow> 'a \<Rightarrow> ordering) \<Rightarrow> 'a list \<Rightarrow> 'a option" where
  "max_by c [] = None"
| "max_by c (x # xs) = Some (fold (\<lambda>y best. if c best y = Greater then best else y) xs x)"

definition hot_entry :: "nat \<Rightarrow> 'a hot_snapshot \<Rightarrow> bool" where
  "hot_entry clock entry \<longleftrightarrow> clock - hs_inserted_at entry \<le> HOT_ENTRY_MAX_AGE"

definition get_aws ::
  "time_env \<Rightarrow> instant \<Rightarrow> in_memory_snapshot_repository \<Rightarrow> string \<Rightarrow>
     (snapshot_repository_error, aws_price_snapshot option) outcome" where
  "get_aws T now s snapshot_id =
     obind (locked_entries (ir_aws s)) (\<lambda>snapshots.
     Ok (Option.bind (map_option hs_snapshot (map_of snapshots snapshot_id)) (\<lambda>snapshot. classify_aws T snapshot now)))"

definition get_aws_hot ::
  "time_env \<Rightarrow> nat \<Rightarrow> instant \<Rightarrow> in_memory_snapshot_repository \<Rightarrow> string \<Rightarrow>
     (snapshot_repository_error, aws_price_snapshot option) outcome" where
  "get_aws_hot T clock now s snapshot_id =
     obind (locked_entries (ir_aws s)) (\<lambda>snapshots.
     Ok (Option.bind (map_of snapshots snapshot_id) (\<lambda>entry.
       if hot_entry clock entry then classify_aws T (hs_snapshot entry) now else None)))"

definition get_azure ::
  "time_env \<Rightarrow> instant \<Rightarrow> in_memory_snapshot_repository \<Rightarrow> string \<Rightarrow>
     (snapshot_repository_error, azure_price_snapshot option) outcome" where
  "get_azure T now s snapshot_id =
     obind (locked_entries (ir_azure s)) (\<lambda>snapshots.
     Ok (Option.bind (map_option hs_snapshot (map_of snapshots snapshot_id)) (\<lambda>snapshot. classify_azure T snapshot now)))"

definition get_azure_hot ::
  "time_env \<Rightarrow> nat \<Rightarrow> instant \<Rightarrow> in_memory_snapshot_repository \<Rightarrow> string \<Rightarrow>
     (snapshot_repository_error, azure_price_snapshot option) outcome" where
  "get_azure_hot T clock now s snapshot_id =
     obind (locked_entries (ir_azure s)) (\<lambda>snapshots.
     Ok (Option.bind (map_of snapshots snapshot_id) (\<lambda>entry.
       if hot_entry clock entry then classify_azure T (hs_snapshot entry) now else None)))"

text \<open>The times of retrieval are compared as the texts they are stored as.\<close>

definition latest_aws :: "string \<Rightarrow> string \<Rightarrow> aws_price_snapshot list \<Rightarrow> aws_price_snapshot option" where
  "latest_aws currency source_region snapshots =
     max_by (\<lambda>l r. cmp (sm_retrieved_at (as_metadata l)) (sm_retrieved_at (as_metadata r)))
       (filter (\<lambda>s. aws_matches_scope s currency source_region) snapshots)"

definition latest_azure :: "string \<Rightarrow> string \<Rightarrow> azure_price_snapshot list \<Rightarrow> azure_price_snapshot option" where
  "latest_azure currency target_region snapshots =
     max_by (\<lambda>l r. cmp (sm_retrieved_at (zs_metadata l)) (sm_retrieved_at (zs_metadata r)))
       (filter (\<lambda>s. azure_matches_scope s currency target_region) snapshots)"

definition find_aws ::
  "time_env \<Rightarrow> instant \<Rightarrow> in_memory_snapshot_repository \<Rightarrow> string \<Rightarrow> string \<Rightarrow>
     (snapshot_repository_error, aws_price_snapshot option) outcome" where
  "find_aws T now s currency source_region =
     obind (locked_entries (ir_aws s)) (\<lambda>snapshots.
     Ok (Option.bind (latest_aws currency source_region (map (\<lambda>e. hs_snapshot (snd e)) snapshots))
           (\<lambda>snapshot. classify_aws T snapshot now)))"

definition find_aws_hot ::
  "time_env \<Rightarrow> nat \<Rightarrow> instant \<Rightarrow> in_memory_snapshot_repository \<Rightarrow> string \<Rightarrow> string \<Rightarrow>
     (snapshot_repository_error, aws_price_snapshot option) outcome" where
  "find_aws_hot T clock now s currency source_region =
     obind (locked_entries (ir_aws s)) (\<lambda>snapshots.
     Ok (Option.bind (latest_aws currency source_region
             (map (\<lambda>e. hs_snapshot (snd e)) (filter (\<lambda>e. hot_entry clock (snd e)) snapshots)))
           (\<lambda>snapshot. classify_aws T snapshot now)))"

definition find_azure ::
  "time_env \<Rightarrow> instant \<Rightarrow> in_memory_snapshot_repository \<Rightarrow> string \<Rightarrow> string \<Rightarrow>
     (snapshot_repository_error, azure_price_snapshot option) outcome" where
  "find_azure T now s currency target_region =
     obind (locked_entries (ir_azure s)) (\<lambda>snapshots.
     Ok (Option.bind (latest_azure currency target_region (map (\<lambda>e. hs_snapshot (snd e)) snapshots))
           (\<lambda>snapshot. classify_azure T snapshot now)))"

definition find_azure_hot ::
  "time_env \<Rightarrow> nat \<Rightarrow> instant \<Rightarrow> in_memory_snapshot_repository \<Rightarrow> string \<Rightarrow> string \<Rightarrow>
     (snapshot_repository_error, azure_price_snapshot option) outcome" where
  "find_azure_hot T clock now s currency target_region =
     obind (locked_entries (ir_azure s)) (\<lambda>snapshots.
     Ok (Option.bind (latest_azure currency target_region
             (map (\<lambda>e. hs_snapshot (snd e)) (filter (\<lambda>e. hot_entry clock (snd e)) snapshots)))
           (\<lambda>snapshot. classify_azure T snapshot now)))"

definition note_latest ::
  "aws_price_snapshot \<Rightarrow> (string \<times> string, aws_price_snapshot) hash_map \<Rightarrow>
     (string \<times> string, aws_price_snapshot) hash_map" where
  "note_latest snapshot latest =
     (let key = (sm_currency (as_metadata snapshot), as_source_region snapshot)
      in case map_of latest key of
           Some current \<Rightarrow>
             if sm_retrieved_at (as_metadata snapshot) \<le> sm_retrieved_at (as_metadata current) then latest
             else AList.update key snapshot latest
         | None \<Rightarrow> AList.update key snapshot latest)"

definition list_latest_aws ::
  "time_env \<Rightarrow> instant \<Rightarrow> in_memory_snapshot_repository \<Rightarrow>
     (snapshot_repository_error, aws_price_snapshot list) outcome" where
  "list_latest_aws T now s =
     obind (locked_entries (ir_aws s)) (\<lambda>snapshots.
     let latest = fold note_latest (map (\<lambda>e. hs_snapshot (snd e)) snapshots) [];
         ordered = sort_by (\<lambda>l r. then_with (cmp (fst (fst l)) (fst (fst r))) (cmp (snd (fst l)) (snd (fst r)))) latest
     in Ok (List.map_filter (\<lambda>e. classify_aws T (snd e) now) ordered))"

section \<open>Warnings relevant for resources\<close>

definition EC2_STANDARD_PREFIX :: string where
  "EC2_STANDARD_PREFIX = ''EC2 Standard SQL rate for ''"

definition EC2_ENTERPRISE_PREFIX :: string where
  "EC2_ENTERPRISE_PREFIX = ''EC2 Enterprise SQL rate for ''"

definition EC2_FALLBACK_SUFFIX :: string where
  "EC2_FALLBACK_SUFFIX = '' uses the regional four-core-minimum fallback.''"

definition RDS_STORAGE_PREFIX :: string where
  "RDS_STORAGE_PREFIX = ''RDS ''"

definition RDS_STORAGE_SUFFIX :: string where
  "RDS_STORAGE_SUFFIX = '' has no matching SQL Server storage rate.''"

definition RDS_STANDARD_LICENSE_PREFIX :: string where
  "RDS_STANDARD_LICENSE_PREFIX = ''RDS Standard OCPU license meter is unavailable;''"

definition RDS_ENTERPRISE_LICENSE_PREFIX :: string where
  "RDS_ENTERPRISE_LICENSE_PREFIX = ''RDS Enterprise OCPU license meter is unavailable;''"

definition strip_suffix :: "string \<Rightarrow> string \<Rightarrow> string option" where
  "strip_suffix p s = map_option rev (strip_prefix (rev p) (rev s))"

fun split_once_space :: "string \<Rightarrow> (string \<times> string) option" where
  "split_once_space [] = None"
| "split_once_space (c # cs) =
     (if c = CHR '' '' then Some ([], cs)
      else map_option (\<lambda>(l, r). (c # l, r)) (split_once_space cs))"

definition rds_deployment_key :: "rds_deployment \<Rightarrow> string" where
  "rds_deployment_key d = (case d of SingleAz \<Rightarrow> ''single-az'' | MultiAz \<Rightarrow> ''multi-az'')"

definition has_ec2 :: "resource list \<Rightarrow> string \<Rightarrow> sql_edition \<Rightarrow> bool" where
  "has_ec2 resources instance_type edition \<longleftrightarrow>
     list_ex (\<lambda>r. case r of Ec2 e \<Rightarrow> ec2_instance_type e = instance_type \<and> sql_edition (ec2_sql e) = edition
       | _ \<Rightarrow> False) resources"

definition has_rds_edition :: "resource list \<Rightarrow> sql_edition \<Rightarrow> bool" where
  "has_rds_edition resources edition \<longleftrightarrow>
     list_ex (\<lambda>r. case r of Rds e \<Rightarrow> sql_edition (rds_sql e) = edition | _ \<Rightarrow> False) resources"

definition is_relevant :: "string \<Rightarrow> resource list \<Rightarrow> bool" where
  "is_relevant warning resources \<longleftrightarrow>
     (case Option.bind (strip_prefix EC2_STANDARD_PREFIX warning) (strip_suffix EC2_FALLBACK_SUFFIX) of
        Some instance_type \<Rightarrow> has_ec2 resources instance_type Standard
      | None \<Rightarrow>
     (case Option.bind (strip_prefix EC2_ENTERPRISE_PREFIX warning) (strip_suffix EC2_FALLBACK_SUFFIX) of
        Some instance_type \<Rightarrow> has_ec2 resources instance_type Enterprise
      | None \<Rightarrow>
     (case Option.bind (strip_prefix RDS_STORAGE_PREFIX warning) (strip_suffix RDS_STORAGE_SUFFIX) of
        Some instance_and_deployment \<Rightarrow>
          (case split_once_space instance_and_deployment of
             None \<Rightarrow> True
           | Some (instance_type, deployment) \<Rightarrow>
               list_ex (\<lambda>r. case r of
                   Rds e \<Rightarrow> rds_instance_type e = instance_type \<and> rds_deployment_key (rds_deployment e) = deployment
                 | _ \<Rightarrow> False) resources)
      | None \<Rightarrow>
          if starts_with RDS_STANDARD_LICENSE_PREFIX warning then has_rds_edition resources Standard
          else if starts_with RDS_ENTERPRISE_LICENSE_PREFIX warning then has_rds_edition resources Enterprise
          else True)))"

definition relevant_for_resources :: "string list \<Rightarrow> resource list \<Rightarrow> string list" where
  "relevant_for_resources warnings resources = filter (\<lambda>warning. is_relevant warning resources) warnings"

section \<open>Entries of a map\<close>

lemma max_by_in: "max_by c xs = Some m \<Longrightarrow> m \<in> set xs"
proof (cases xs)
  case (Cons x ys)
  have "fold (\<lambda>y best. if c best y = Greater then best else y) ys x \<in> insert x (set ys)" for x
    by (induction ys arbitrary: x) fastforce+
  then show "max_by c xs = Some m \<Longrightarrow> ?thesis" using Cons by auto
qed simp

lemma max_by_None [simp]: "max_by c xs = None \<longleftrightarrow> xs = []"
  by (cases xs) simp_all

lemma max_by_cmp_greatest:
  fixes f :: "'a \<Rightarrow> 'b::linorder"
  assumes "max_by (\<lambda>l r. cmp (f l) (f r)) xs = Some m" "x \<in> set xs"
  shows "f x \<le> f m"
proof -
  have "\<forall>x\<in>insert z (set ys). f x \<le> f (fold (\<lambda>y best. if cmp (f best) (f y) = Greater then best else y) ys z)" for z ys
  proof (induction ys arbitrary: z)
    case (Cons a ys)
    define b where "b = (if cmp (f z) (f a) = Greater then z else a)"
    have b: "f z \<le> f b" "f a \<le> f b" by (auto simp: b_def)
    have "\<forall>x\<in>insert b (set ys). f x \<le> f (fold (\<lambda>y best. if cmp (f best) (f y) = Greater then best else y) ys b)"
      by (rule Cons.IH)
    moreover have "fold (\<lambda>y best. if cmp (f best) (f y) = Greater then best else y) (a # ys) z =
        fold (\<lambda>y best. if cmp (f best) (f y) = Greater then best else y) ys b" by (simp add: b_def)
    ultimately show ?case using b by (auto simp only: set_simps insert_iff intro: order_trans)
  qed simp
  then show ?thesis using assms by (cases xs) auto
qed

text \<open>Keys are the identifiers of the snapshots they lead to, and a map holds at most 256.\<close>

definition hot_map_ok :: "('a \<Rightarrow> string) \<Rightarrow> (string, 'a hot_snapshot) hash_map \<Rightarrow> bool" where
  "hot_map_ok id_of m \<longleftrightarrow>
     well_keyed m \<and> length m \<le> MAX_HOT_SNAPSHOTS_PER_PROVIDER \<and> (\<forall>(k, e)\<in>set m. k = id_of (hs_snapshot e))"

lemma insert_hot_cases:
  obtains (update) "insert_hot clock m k x = AList.update k \<lparr>hs_snapshot = x, hs_inserted_at = clock\<rparr> m"
      "map_of m k \<noteq> None \<or> length m < MAX_HOT_SNAPSHOTS_PER_PROVIDER"
  | (evict) oldest e where
      "insert_hot clock m k x = AList.update k \<lparr>hs_snapshot = x, hs_inserted_at = clock\<rparr> (AList.delete oldest m)"
      "map_of m k = None" "MAX_HOT_SNAPSHOTS_PER_PROVIDER \<le> length m" "(oldest, e) \<in> set m"
      "\<And>k' e'. (k', e') \<in> set m \<Longrightarrow> hs_inserted_at e \<le> hs_inserted_at e'"
proof (cases "map_of m k = None \<and> MAX_HOT_SNAPSHOTS_PER_PROVIDER \<le> length m")
  case False
  then show thesis by (intro update) (auto simp: insert_hot_def)
next
  case True
  then have "m \<noteq> []" by (auto simp: MAX_HOT_SNAPSHOTS_PER_PROVIDER_def)
  then obtain o' where o: "min_by (\<lambda>l r. cmp (hs_inserted_at (snd l)) (hs_inserted_at (snd r))) m = Some o'"
    by (cases "min_by (\<lambda>l r. cmp (hs_inserted_at (snd l)) (hs_inserted_at (snd r))) m") simp_all
  show thesis
  proof (rule evict)
    show "insert_hot clock m k x = AList.update k \<lparr>hs_snapshot = x, hs_inserted_at = clock\<rparr> (AList.delete (fst o') m)"
      using True o by (simp add: insert_hot_def split: prod.split)
    show "(fst o', snd o') \<in> set m" using min_by_in [OF o] by simp
    show "hs_inserted_at (snd o') \<le> hs_inserted_at e'" if "(k', e') \<in> set m" for k' e'
      using comparator.min_by_least [OF comparator_cmp o that] by (simp add: not_less)
  qed (use True in auto)
qed

lemma length_update: "length (AList.update k v m) = (if map_of m k = None then Suc (length m) else length m)"
  by (induction m) auto

lemma length_delete: "(k, v) \<in> set m \<Longrightarrow> length (AList.delete k m) < length m"
  by (induction m) (auto simp: AList.delete_eq less_Suc_eq_le)

lemma delete_subset: "set (AList.delete k m) \<subseteq> set m"
  by (simp add: AList.delete_eq)

lemma hot_map_ok_insert:
  assumes "hot_map_ok id_of m"
  shows "hot_map_ok id_of (insert_hot clock m (id_of x) x)"
proof -
  let ?e = "\<lparr>hs_snapshot = x, hs_inserted_at = clock\<rparr>"
  have upd: "hot_map_ok id_of (AList.update (id_of x) ?e m')"
    if "hot_map_ok id_of m'" "map_of m' (id_of x) \<noteq> None \<or> length m' < MAX_HOT_SNAPSHOTS_PER_PROVIDER" for m'
  proof -
    have "k = id_of (hs_snapshot e)" if e: "(k, e) \<in> set (AList.update (id_of x) ?e m')" for k e
    proof -
      have wk: "well_keyed m'" using \<open>hot_map_ok id_of m'\<close> by (simp add: hot_map_ok_def)
      have "map_of (AList.update (id_of x) ?e m') k = Some e"
        using e well_keyed_in_map_of [OF well_keyed_update [OF wk]] by blast
      then show ?thesis
        using \<open>hot_map_ok id_of m'\<close> by (auto simp: map_of_update_apply hot_map_ok_def split: if_splits dest: map_of_SomeD)
    qed
    then show ?thesis using that by (auto simp: hot_map_ok_def length_update)
  qed
  show ?thesis
  proof (cases rule: insert_hot_cases [of clock m "id_of x" x])
    case update
    then show ?thesis using upd [OF assms] by simp
  next
    case (evict oldest e)
    have "hot_map_ok id_of (AList.delete oldest m)"
      using assms length_delete [OF evict(4)] delete_subset [of oldest m] by (fastforce simp: hot_map_ok_def)
    moreover have "length (AList.delete oldest m) < MAX_HOT_SNAPSHOTS_PER_PROVIDER"
      using assms length_delete [OF evict(4)] by (simp add: hot_map_ok_def)
    ultimately show ?thesis using upd evict(1) by simp
  qed
qed

text \<open>The entries at least as young as a given one, apart from it.\<close>

definition younger_keys :: "string \<Rightarrow> nat \<Rightarrow> (string, 'a hot_snapshot) hash_map \<Rightarrow> string set" where
  "younger_keys k t m = {k'. k' \<noteq> k \<and> (\<exists>e. map_of m k' = Some e \<and> t \<le> hs_inserted_at e)}"

lemma younger_keys_finite [simp]: "finite (younger_keys k t m)"
  by (rule finite_subset [of _ "dom (map_of m)"]) (auto simp: younger_keys_def finite_dom_map_of)

lemma younger_keys_change:
  "younger_keys k t (AList.update k' e m) \<subseteq> insert k' (younger_keys k t m)"
  "younger_keys k t (AList.delete k' m) \<subseteq> younger_keys k t m"
  by (auto simp: younger_keys_def map_of_update_apply map_of_delete_apply split: if_splits)

lemma younger_keys_all:
  assumes "well_keyed m" "map_of m k = Some e" "\<And>k' e'. (k', e') \<in> set m \<Longrightarrow> t \<le> hs_inserted_at e'"
  shows "card (younger_keys k t m) = length m - 1"
proof -
  have "younger_keys k t m = fst ` set m - {k}"
  proof (intro set_eqI iffI)
    fix k' assume "k' \<in> fst ` set m - {k}"
    then obtain e' where e': "(k', e') \<in> set m" "k' \<noteq> k" by auto
    then show "k' \<in> younger_keys k t m"
      using assms(3) [OF e'(1)] well_keyed_in_map_of [OF assms(1)] by (auto simp: younger_keys_def)
  qed (force simp: younger_keys_def dest: map_of_SomeD)
  moreover have "card (fst ` set m) = length m"
    using assms(1) distinct_card [of "map fst m"] by (simp add: well_keyed_def)
  moreover have "k \<in> fst ` set m" using assms(2) map_of_SomeD by force
  ultimately show ?thesis by simp
qed

lemma younger_insert:
  assumes "well_keyed m" "map_of m k = Some e" "k' \<noteq> k"
    and "card (younger_keys k (hs_inserted_at e) m) < MAX_HOT_SNAPSHOTS_PER_PROVIDER - 1"
  shows "map_of (insert_hot clock m k' x) k = Some e" "well_keyed (insert_hot clock m k' x)"
    "card (younger_keys k (hs_inserted_at e) (insert_hot clock m k' x)) \<le> Suc (card (younger_keys k (hs_inserted_at e) m))"
proof -
  let ?Y = "younger_keys k (hs_inserted_at e)"
  have "map_of (insert_hot clock m k' x) k = Some e \<and> well_keyed (insert_hot clock m k' x) \<and>
      ?Y (insert_hot clock m k' x) \<subseteq> insert k' (?Y m)"
  proof (cases rule: insert_hot_cases [of clock m k' x])
    case update
    then show ?thesis using assms(1-3) younger_keys_change(1) by (simp add: map_of_update_apply)
  next
    case (evict oldest e0)
    have "oldest \<noteq> k"
    proof
      assume "oldest = k"
      then have "e0 = e" using evict(4) assms(1,2) well_keyed_in_map_of by fastforce
      then have "card (?Y m) = length m - 1"
        using younger_keys_all [OF assms(1,2)] evict(5) by blast
      then show False using assms(4) evict(3) by simp
    qed
    moreover have "?Y (AList.update k' \<lparr>hs_snapshot = x, hs_inserted_at = clock\<rparr> (AList.delete oldest m)) \<subseteq> insert k' (?Y m)"
      using younger_keys_change by (meson insert_mono subset_trans)
    ultimately show ?thesis using assms(1-3) evict(1) by (simp add: map_of_update_apply map_of_delete_apply)
  qed
  then show "map_of (insert_hot clock m k' x) k = Some e" "well_keyed (insert_hot clock m k' x)"
    "card (?Y (insert_hot clock m k' x)) \<le> Suc (card (?Y m))"
    using card_mono [of "insert k' (?Y m)" "?Y (insert_hot clock m k' x)"] by (auto simp: card_insert_if split: if_splits)
qed

lemma recent_entry_kept:
  assumes "well_keyed m" "map_of m k = Some e" "k \<notin> fst ` set later"
    and "card (younger_keys k (hs_inserted_at e) m) + length later < MAX_HOT_SNAPSHOTS_PER_PROVIDER"
  shows "map_of (fold (\<lambda>(k', clock, x) m. insert_hot clock m k' x) later m) k = Some e"
  using assms
proof (induction later arbitrary: m)
  case (Cons a later)
  obtain k' clock x where a: "a = (k', clock, x)" by (metis prod_cases3)
  have "k' \<noteq> k" "card (younger_keys k (hs_inserted_at e) m) < MAX_HOT_SNAPSHOTS_PER_PROVIDER - 1"
    using Cons.prems(3,4) a by auto
  from younger_insert [OF Cons.prems(1,2) this, of clock x] show ?case
    using Cons.prems(3,4) a by (simp add: Cons.IH)
qed simp

section \<open>Properties\<close>

text \<open>Content as it is served: from within a week, never unavailable, and otherwise as it was stored.\<close>

definition status_of_age :: "resolution_status \<Rightarrow> int \<Rightarrow> resolution_status" where
  "status_of_age stored age =
     (if duration_seconds 86400 < age then Stale
      else if duration_seconds 900 < age \<or> stored \<noteq> Fresh then Cached else Fresh)"

definition served_at :: "time_env \<Rightarrow> instant \<Rightarrow> snapshot_metadata \<Rightarrow> snapshot_metadata \<Rightarrow> bool" where
  "served_at T now stored served \<longleftrightarrow>
     (case te_parse T (sm_retrieved_at stored) of
        None \<Rightarrow> False
      | Some retrieved_at \<Rightarrow>
          retrieved_at \<le> now \<and> now - retrieved_at \<le> duration_seconds (7 * 86400) \<and>
          served = stored\<lparr>sm_status := status_of_age (sm_status stored) (now - retrieved_at)\<rparr>)"

definition served_aws :: "time_env \<Rightarrow> instant \<Rightarrow> aws_price_snapshot \<Rightarrow> aws_price_snapshot \<Rightarrow> bool" where
  "served_aws T now stored served \<longleftrightarrow>
     served_at T now (as_metadata stored) (as_metadata served) \<and> served = stored\<lparr>as_metadata := as_metadata served\<rparr>"

definition served_azure :: "time_env \<Rightarrow> instant \<Rightarrow> azure_price_snapshot \<Rightarrow> azure_price_snapshot \<Rightarrow> bool" where
  "served_azure T now stored served \<longleftrightarrow>
     served_at T now (zs_metadata stored) (zs_metadata served) \<and> served = stored\<lparr>zs_metadata := zs_metadata served\<rparr>"

lemma effective_status_iff:
  "effective_status T m now = Some st \<longleftrightarrow> served_at T now m (m\<lparr>sm_status := st\<rparr>)"
proof (cases "te_parse T (sm_retrieved_at m)")
  case (Some r)
  have "m\<lparr>sm_status := st\<rparr> = m\<lparr>sm_status := st'\<rparr> \<longleftrightarrow> st = st'" for st'
    by (metis snapshot_metadata.select_convs(3) snapshot_metadata.surjective snapshot_metadata.update_convs(3))
  then show ?thesis
    using Some by (auto simp: effective_status_def served_at_def status_of_age_def Let_def USABLE_MAX_AGE_def
        FRESH_MAX_AGE_def HOT_CACHE_MAX_AGE_def duration_days_def)
qed (simp add: effective_status_def served_at_def)

lemma classify_iff:
  "classify_aws T w now = Some w' \<longleftrightarrow> served_aws T now w w'"
  "classify_azure T z now = Some z' \<longleftrightarrow> served_azure T now z z'"
proof -
  have same: "m\<lparr>sm_status := sm_status m\<rparr> = m" for m :: snapshot_metadata by simp
  have "classify_aws T w now = Some w' \<longleftrightarrow>
      (\<exists>st. effective_status T (as_metadata w) now = Some st \<and> w' = w\<lparr>as_metadata := (as_metadata w)\<lparr>sm_status := st\<rparr>\<rparr>)"
    by (cases "effective_status T (as_metadata w) now") (auto simp: classify_aws_def)
  also have "\<dots> \<longleftrightarrow> served_aws T now w w'"
    by (cases w; cases w') (auto simp: effective_status_iff served_aws_def served_at_def split: option.splits)
  finally show "classify_aws T w now = Some w' \<longleftrightarrow> served_aws T now w w'" .
  have "classify_azure T z now = Some z' \<longleftrightarrow>
      (\<exists>st. effective_status T (zs_metadata z) now = Some st \<and> z' = z\<lparr>zs_metadata := (zs_metadata z)\<lparr>sm_status := st\<rparr>\<rparr>)"
    by (cases "effective_status T (zs_metadata z) now") (auto simp: classify_azure_def)
  also have "\<dots> \<longleftrightarrow> served_azure T now z z'"
    by (cases z; cases z') (auto simp: effective_status_iff served_azure_def served_at_def split: option.splits)
  finally show "classify_azure T z now = Some z' \<longleftrightarrow> served_azure T now z z'" .
qed

text \<open>What a lookup answers: an unusable lock, or served content of an entry that qualifies, or nothing.\<close>

definition answers ::
  "'a hot_map \<Rightarrow> (string \<Rightarrow> 'a hot_snapshot \<Rightarrow> bool) \<Rightarrow> ('a \<Rightarrow> 'a \<Rightarrow> bool) \<Rightarrow>
     (snapshot_repository_error, 'a option) outcome \<Rightarrow> bool" where
  "answers m qualifies served r \<longleftrightarrow>
     (case r of
        Ok None \<Rightarrow> \<not> hm_poisoned m
      | Ok (Some x) \<Rightarrow> \<not> hm_poisoned m \<and> (\<exists>(k, e)\<in>set (hm_entries m). qualifies k e \<and> served (hs_snapshot e) x)
      | Err e \<Rightarrow> e = RepositoryUnavailable \<and> hm_poisoned m
      | Panic \<Rightarrow> False)"

lemma answers_obind:
  assumes "\<And>x. \<not> hm_poisoned m \<Longrightarrow> f (hm_entries m) = Some x \<Longrightarrow>
      \<exists>(k, e)\<in>set (hm_entries m). qualifies k e \<and> served (hs_snapshot e) x"
  shows "answers m qualifies served (obind (locked_entries m) (\<lambda>es. Ok (f es)))"
  using assms by (auto simp: answers_def locked_entries_def split: option.split)

text \<open>The entry is in the scope and no other considered entry of the scope has a greater time of retrieval.\<close>

definition latest_in ::
  "('a \<Rightarrow> bool) \<Rightarrow> ('a \<Rightarrow> string) \<Rightarrow> (string, 'a hot_snapshot) hash_map \<Rightarrow> 'a hot_snapshot \<Rightarrow> bool" where
  "latest_in scoped retrieved es e \<longleftrightarrow>
     scoped (hs_snapshot e) \<and>
     (\<forall>(k', e')\<in>set es. scoped (hs_snapshot e') \<longrightarrow> retrieved (hs_snapshot e') \<le> retrieved (hs_snapshot e))"

lemma latest_picked:
  assumes "max_by (\<lambda>l r. cmp (retrieved l) (retrieved r)) (filter scoped (map (\<lambda>e. hs_snapshot (snd e)) es)) = Some x"
  shows "\<exists>(k, e)\<in>set es. latest_in scoped retrieved es e \<and> hs_snapshot e = x"
proof -
  have x: "x \<in> set (filter scoped (map (\<lambda>e. hs_snapshot (snd e)) es))" using assms by (rule max_by_in)
  then obtain k e where e: "(k, e) \<in> set es" "hs_snapshot e = x" "scoped x" by auto
  have "retrieved y \<le> retrieved x" if "y \<in> set (filter scoped (map (\<lambda>e. hs_snapshot (snd e)) es))" for y
    using max_by_cmp_greatest [OF assms that] .
  then have "latest_in scoped retrieved es e" using e by (fastforce simp: latest_in_def)
  then show ?thesis using e by blast
qed

definition aws_retrieved :: "aws_price_snapshot \<Rightarrow> string" where
  "aws_retrieved s = sm_retrieved_at (as_metadata s)"

definition azure_retrieved :: "azure_price_snapshot \<Rightarrow> string" where
  "azure_retrieved s = sm_retrieved_at (zs_metadata s)"

definition hot_entries :: "nat \<Rightarrow> 'a hot_map \<Rightarrow> (string, 'a hot_snapshot) hash_map" where
  "hot_entries clock m = filter (\<lambda>e. hot_entry clock (snd e)) (hm_entries m)"


section \<open>Sequences of insertions\<close>

datatype snapshot_put = PutAws nat aws_price_snapshot | PutAzure nat azure_price_snapshot

fun run_put :: "snapshot_put \<Rightarrow> in_memory_snapshot_repository \<Rightarrow> in_memory_snapshot_repository" where
  "run_put (PutAws clock snapshot) s = snd (put_aws clock snapshot s)"
| "run_put (PutAzure clock snapshot) s = snd (put_azure clock snapshot s)"

definition aws_id :: "aws_price_snapshot \<Rightarrow> string" where
  "aws_id s = sm_snapshot_id (as_metadata s)"

definition azure_id :: "azure_price_snapshot \<Rightarrow> string" where
  "azure_id s = sm_snapshot_id (zs_metadata s)"

fun put_id :: "snapshot_put \<Rightarrow> string" where
  "put_id (PutAws clock snapshot) = aws_id snapshot"
| "put_id (PutAzure clock snapshot) = azure_id snapshot"

lemma put_aws_entries:
  "hm_poisoned (ir_aws (snd (put_aws clock w s))) = hm_poisoned (ir_aws s)"
  "ir_azure (snd (put_aws clock w s)) = ir_azure s"
  "\<not> hm_poisoned (ir_aws s) \<Longrightarrow>
     hm_entries (ir_aws (snd (put_aws clock w s))) = insert_hot clock (hm_entries (ir_aws s)) (aws_id w) w"
  "hm_poisoned (ir_aws s) \<Longrightarrow> snd (put_aws clock w s) = s"
  by (simp_all add: put_aws_def locked_entries_def aws_id_def)

lemma put_azure_entries:
  "hm_poisoned (ir_azure (snd (put_azure clock z s))) = hm_poisoned (ir_azure s)"
  "ir_aws (snd (put_azure clock z s)) = ir_aws s"
  "\<not> hm_poisoned (ir_azure s) \<Longrightarrow>
     hm_entries (ir_azure (snd (put_azure clock z s))) = insert_hot clock (hm_entries (ir_azure s)) (azure_id z) z"
  "hm_poisoned (ir_azure s) \<Longrightarrow> snd (put_azure clock z s) = s"
  by (simp_all add: put_azure_def locked_entries_def azure_id_def)

fun aws_puts :: "snapshot_put list \<Rightarrow> (string \<times> nat \<times> aws_price_snapshot) list" where
  "aws_puts [] = []"
| "aws_puts (PutAws clock w # ps) = (aws_id w, clock, w) # aws_puts ps"
| "aws_puts (PutAzure clock z # ps) = aws_puts ps"

lemma aws_entries_after:
  "\<not> hm_poisoned (ir_aws s) \<Longrightarrow>
     \<not> hm_poisoned (ir_aws (fold run_put ps s)) \<and>
     hm_entries (ir_aws (fold run_put ps s)) =
       fold (\<lambda>(k, clock, x) m. insert_hot clock m k x) (aws_puts ps) (hm_entries (ir_aws s))"
  by (induction ps arbitrary: s rule: aws_puts.induct) (simp_all add: put_aws_entries put_azure_entries)

lemma aws_puts_bounds: "length (aws_puts ps) \<le> length ps" "fst ` set (aws_puts ps) \<subseteq> put_id ` set ps"
  by (induction ps rule: aws_puts.induct) auto

lemma hot_maps_ok_put:
  assumes "hot_map_ok aws_id (hm_entries (ir_aws s))" "hot_map_ok azure_id (hm_entries (ir_azure s))"
  shows "hot_map_ok aws_id (hm_entries (ir_aws (run_put p s))) \<and>
    hot_map_ok azure_id (hm_entries (ir_azure (run_put p s)))"
proof (cases p)
  case (PutAws clock w)
  then show ?thesis using assms hot_map_ok_insert [OF assms(1)]
    by (cases "hm_poisoned (ir_aws s)") (simp_all add: put_aws_entries)
next
  case (PutAzure clock z)
  then show ?thesis using assms hot_map_ok_insert [OF assms(2)]
    by (cases "hm_poisoned (ir_azure s)") (simp_all add: put_azure_entries)
qed

text \<open>
  whatever is inserted, the cache holds at most 256 snapshots of each provider, each under its own
  identifier and no identifier twice.
\<close>
theorem cache_bounded:
  "hot_map_ok aws_id (hm_entries (ir_aws (fold run_put ps new_snapshot_repository))) \<and>
   hot_map_ok azure_id (hm_entries (ir_azure (fold run_put ps new_snapshot_repository)))"
proof -
  have inv: "hot_map_ok aws_id (hm_entries (ir_aws (fold run_put ps s))) \<and>
      hot_map_ok azure_id (hm_entries (ir_azure (fold run_put ps s)))"
    if "hot_map_ok aws_id (hm_entries (ir_aws s))" "hot_map_ok azure_id (hm_entries (ir_azure s))" for s
    using that by (induction ps arbitrary: s) (simp_all add: hot_maps_ok_put)
  show ?thesis by (rule inv) (simp_all add: hot_map_ok_def new_snapshot_repository_def)
qed

text \<open>
  a snapshot just inserted outlives the next 255 insertions of others, in any order of providers and
  whatever their clock readings: a lookup still serves it as its age allows.
\<close>
theorem recent_snapshot_kept:
  assumes "hot_map_ok aws_id (hm_entries (ir_aws s))" "\<not> hm_poisoned (ir_aws s)"
    and "\<forall>(k, e)\<in>set (hm_entries (ir_aws s)). hs_inserted_at e < clock"
    and "length later \<le> 255" "aws_id w \<notin> put_id ` set later"
  shows "get_aws T now (fold run_put later (snd (put_aws clock w s))) (aws_id w) = Ok (classify_aws T w now)"
proof -
  let ?m = "insert_hot clock (hm_entries (ir_aws s)) (aws_id w) w"
  let ?e = "\<lparr>hs_snapshot = w, hs_inserted_at = clock\<rparr>"
  have wk: "well_keyed (hm_entries (ir_aws s))" using assms(1) by (simp add: hot_map_ok_def)
  have m: "well_keyed ?m" "map_of ?m (aws_id w) = Some ?e"
    by (cases rule: insert_hot_cases [of clock "hm_entries (ir_aws s)" "aws_id w" w];
        simp add: wk map_of_update_apply)+
  have none: "younger_keys (aws_id w) clock ?m = {}"
  proof -
    have old: "hs_inserted_at e < clock" if "map_of (hm_entries (ir_aws s)) k = Some e" for k e
      using assms(3) map_of_SomeD [OF that] by auto
    have "map_of (hm_entries (ir_aws s)) k = Some e" if "map_of ?m k = Some e" "k \<noteq> aws_id w" for k e
      by (cases rule: insert_hot_cases [of clock "hm_entries (ir_aws s)" "aws_id w" w])
         (use that in \<open>simp_all add: map_of_update_apply map_of_delete_apply split: if_splits\<close>)
    then show ?thesis using old by (fastforce simp: younger_keys_def not_le)
  qed
  have kept: "map_of (fold (\<lambda>(k, clock, x) m. insert_hot clock m k x) (aws_puts later) ?m) (aws_id w) = Some ?e"
  proof (rule recent_entry_kept [OF m])
    show "aws_id w \<notin> fst ` set (aws_puts later)" using aws_puts_bounds(2) assms(5) by blast
    show "card (younger_keys (aws_id w) (hs_inserted_at ?e) ?m) + length (aws_puts later) < MAX_HOT_SNAPSHOTS_PER_PROVIDER"
      using aws_puts_bounds(1) [of later] assms(4) none
      by (simp add: MAX_HOT_SNAPSHOTS_PER_PROVIDER_def)
  qed
  have "\<not> hm_poisoned (ir_aws (snd (put_aws clock w s)))" using assms(2) by (simp add: put_aws_entries)
  from aws_entries_after [OF this, of later] kept show ?thesis
    using assms(2) by (simp add: get_aws_def locked_entries_def put_aws_entries)
qed

text \<open>
  the lookup by scope compares times of retrieval as texts: of two snapshots taken half a second
  apart, the first on a full second, it serves the older one, in whatever order they were inserted.
\<close>
theorem find_prefers_older:
  assumes "aws_matches_scope a currency region" "aws_matches_scope b currency region" "aws_id a \<noteq> aws_id b"
    and "aws_retrieved a = ''2026-08-10T12:00:00Z''" "aws_retrieved b = ''2026-08-10T12:00:00.5Z''"
  shows "find_aws T now (fold run_put [PutAws 0 a, PutAws 1 b] new_snapshot_repository) currency region =
      Ok (classify_aws T a now) \<and>
    find_aws T now (fold run_put [PutAws 0 b, PutAws 1 a] new_snapshot_repository) currency region =
      Ok (classify_aws T a now)"
proof -
  have less: "aws_retrieved b < aws_retrieved a" unfolding assms(4,5) by simp
  then have cmp: "cmp (aws_retrieved a) (aws_retrieved b) = Greater" "cmp (aws_retrieved b) (aws_retrieved a) \<noteq> Greater"
    by simp_all
  have entries: "hm_entries (ir_aws (fold run_put [PutAws 0 x, PutAws 1 y] new_snapshot_repository)) =
      [(aws_id x, \<lparr>hs_snapshot = x, hs_inserted_at = 0\<rparr>), (aws_id y, \<lparr>hs_snapshot = y, hs_inserted_at = 1\<rparr>)]"
    "\<not> hm_poisoned (ir_aws (fold run_put [PutAws 0 x, PutAws 1 y] new_snapshot_repository))"
    if "aws_id x \<noteq> aws_id y" for x y
    using that by (simp_all add: put_aws_def locked_entries_def new_snapshot_repository_def insert_hot_def aws_id_def
        MAX_HOT_SNAPSHOTS_PER_PROVIDER_def)
  show ?thesis
    unfolding find_aws_def locked_entries_def latest_aws_def
    using entries [OF assms(3)] entries [OF assms(3) [symmetric]] assms(1,2) cmp
    by (simp add: aws_retrieved_def)
qed

section \<open>Which warnings are relevant\<close>

text \<open>
  The forms of the warnings that name what they concern: the fallback license rate of an EC2 instance type
  with an edition, the missing storage rate of an RDS instance type and deployment, and the missing license
  meter of an RDS edition. A text that ends like a storage warning is none of the last form.
\<close>

datatype warning_form =
    FallbackLicense sql_edition string
  | MissingStorage string string
  | MissingMeter sql_edition

fun has_form :: "string \<Rightarrow> warning_form \<Rightarrow> bool" where
  "has_form w (FallbackLicense Standard t) \<longleftrightarrow>
     w = ''EC2 Standard SQL rate for '' @ t @ '' uses the regional four-core-minimum fallback.''"
| "has_form w (FallbackLicense Enterprise t) \<longleftrightarrow>
     w = ''EC2 Enterprise SQL rate for '' @ t @ '' uses the regional four-core-minimum fallback.''"
| "has_form w (MissingStorage t d) \<longleftrightarrow>
     CHR '' '' \<notin> set t \<and> w = ''RDS '' @ t @ '' '' @ d @ '' has no matching SQL Server storage rate.''"
| "has_form w (MissingMeter edition) \<longleftrightarrow>
     (\<exists>rest. w = (case edition of Standard \<Rightarrow> ''RDS Standard OCPU license meter is unavailable;''
        | Enterprise \<Rightarrow> ''RDS Enterprise OCPU license meter is unavailable;'') @ rest) \<and>
     (\<nexists>x. w = ''RDS '' @ x @ '' has no matching SQL Server storage rate.'')"

fun concerns :: "resource list \<Rightarrow> warning_form \<Rightarrow> bool" where
  "concerns rs (FallbackLicense edition t) \<longleftrightarrow>
     (\<exists>e. Ec2 e \<in> set rs \<and> ec2_instance_type e = t \<and> sql_edition (ec2_sql e) = edition)"
| "concerns rs (MissingStorage t d) \<longleftrightarrow>
     (\<exists>e. Rds e \<in> set rs \<and> rds_instance_type e = t \<and>
        d = (case rds_deployment e of SingleAz \<Rightarrow> ''single-az'' | MultiAz \<Rightarrow> ''multi-az''))"
| "concerns rs (MissingMeter edition) \<longleftrightarrow>
     (\<exists>e. Rds e \<in> set rs \<and> sql_edition (rds_sql e) = edition)"

lemma strip_prefix_iff: "strip_prefix p s = Some x \<longleftrightarrow> s = p @ x"
  by (auto simp: strip_prefix_def) (metis append_take_drop_id)

lemma strip_both_iff: "Option.bind (strip_prefix p w) (strip_suffix q) = Some x \<longleftrightarrow> w = p @ x @ q"
proof -
  have "strip_suffix q s = Some x \<longleftrightarrow> s = x @ q" for s
    by (auto simp: strip_suffix_def strip_prefix_iff) (metis rev_append rev_rev_ident)+
  then show ?thesis by (auto simp: bind_eq_Some_conv strip_prefix_iff)
qed

lemma starts_with_iff: "starts_with p s \<longleftrightarrow> (\<exists>rest. s = p @ rest)"
  by (auto simp: starts_with_def) (metis append_take_drop_id)

lemma split_once_space_Some: "split_once_space x = Some (l, r) \<longleftrightarrow> CHR '' '' \<notin> set l \<and> x = l @ CHR '' '' # r"
proof (induction x arbitrary: l)
  case (Cons c cs)
  then show ?case by (cases l) auto
qed simp

lemma all_warning_forms:
  "(\<forall>f. P f) \<longleftrightarrow>
     (\<forall>t. P (FallbackLicense Standard t)) \<and> (\<forall>t. P (FallbackLicense Enterprise t)) \<and>
     (\<forall>t d. P (MissingStorage t d)) \<and> P (MissingMeter Standard) \<and> P (MissingMeter Enterprise)"
proof (intro iffI allI)
  fix f
  assume "(\<forall>t. P (FallbackLicense Standard t)) \<and> (\<forall>t. P (FallbackLicense Enterprise t)) \<and>
     (\<forall>t d. P (MissingStorage t d)) \<and> P (MissingMeter Standard) \<and> P (MissingMeter Enterprise)"
  then show "P f" by (cases f; cases "case f of FallbackLicense ed _ \<Rightarrow> ed | MissingMeter ed \<Rightarrow> ed | _ \<Rightarrow> Standard") simp_all
qed simp

lemma relevant_resource_iff:
  "has_ec2 rs t ed \<longleftrightarrow> concerns rs (FallbackLicense ed t)"
  "has_rds_edition rs ed \<longleftrightarrow> concerns rs (MissingMeter ed)"
  "list_ex (\<lambda>r. case r of Rds e \<Rightarrow> rds_instance_type e = t \<and> rds_deployment_key (rds_deployment e) = d
     | _ \<Rightarrow> False) rs \<longleftrightarrow> concerns rs (MissingStorage t d)"
  by (induction rs)
     (auto simp: has_ec2_def has_rds_edition_def rds_deployment_key_def split: resource.split)

lemma storage_form:
  "(\<exists>t d. has_form (''RDS '' @ x @ '' has no matching SQL Server storage rate.'') (MissingStorage t d)) \<longleftrightarrow>
     split_once_space x \<noteq> None"
  "has_form (''RDS '' @ x @ '' has no matching SQL Server storage rate.'') (MissingStorage t d) \<longleftrightarrow>
     split_once_space x = Some (t, d)"
proof -
  have "''RDS '' @ x @ '' has no matching SQL Server storage rate.'' =
      ''RDS '' @ t @ '' '' @ d @ '' has no matching SQL Server storage rate.'' \<longleftrightarrow>
      x @ '' has no matching SQL Server storage rate.'' =
      (t @ '' '' @ d) @ '' has no matching SQL Server storage rate.''" for t d
    by (simp only: append_assoc same_append_eq)
  then have "''RDS '' @ x @ '' has no matching SQL Server storage rate.'' =
      ''RDS '' @ t @ '' '' @ d @ '' has no matching SQL Server storage rate.'' \<longleftrightarrow> x = t @ '' '' @ d" for t d
    by (simp only: append_same_eq)
  then show "has_form (''RDS '' @ x @ '' has no matching SQL Server storage rate.'') (MissingStorage t d) \<longleftrightarrow>
     split_once_space x = Some (t, d)" for t d
    unfolding has_form.simps split_once_space_Some by simp
  then show "(\<exists>t d. has_form (''RDS '' @ x @ '' has no matching SQL Server storage rate.'') (MissingStorage t d)) \<longleftrightarrow>
     split_once_space x \<noteq> None" by fastforce
qed

lemma is_relevant_forms: "is_relevant w rs \<longleftrightarrow> (\<forall>f. has_form w f \<longrightarrow> concerns rs f)"
proof -
  let ?m = "\<lambda>p q. Option.bind (strip_prefix p w) (strip_suffix q)"
  consider (standard) t where "w = ''EC2 Standard SQL rate for '' @ t @ '' uses the regional four-core-minimum fallback.''"
    | (enterprise) t where "w = ''EC2 Enterprise SQL rate for '' @ t @ '' uses the regional four-core-minimum fallback.''"
    | (storage) x where "w = ''RDS '' @ x @ '' has no matching SQL Server storage rate.''"
    | (other) "\<nexists>t. w = ''EC2 Standard SQL rate for '' @ t @ '' uses the regional four-core-minimum fallback.''"
      "\<nexists>t. w = ''EC2 Enterprise SQL rate for '' @ t @ '' uses the regional four-core-minimum fallback.''"
      "\<nexists>x. w = ''RDS '' @ x @ '' has no matching SQL Server storage rate.''" by blast
  then show ?thesis
  proof cases
    case standard
    then have "?m EC2_STANDARD_PREFIX EC2_FALLBACK_SUFFIX = Some t"
      unfolding strip_both_iff EC2_STANDARD_PREFIX_def EC2_FALLBACK_SUFFIX_def .
    then show ?thesis
      by (simp add: is_relevant_def relevant_resource_iff(1) all_warning_forms standard del: concerns.simps)
  next
    case enterprise
    then have "?m EC2_ENTERPRISE_PREFIX EC2_FALLBACK_SUFFIX = Some t"
      unfolding strip_both_iff EC2_ENTERPRISE_PREFIX_def EC2_FALLBACK_SUFFIX_def .
    moreover have "?m EC2_STANDARD_PREFIX EC2_FALLBACK_SUFFIX = None"
      unfolding enterprise EC2_STANDARD_PREFIX_def by (simp add: strip_prefix_def)
    ultimately show ?thesis
      by (simp add: is_relevant_def relevant_resource_iff(1) all_warning_forms enterprise del: concerns.simps)
  next
    case storage
    then have m: "?m RDS_STORAGE_PREFIX RDS_STORAGE_SUFFIX = Some x"
      unfolding strip_both_iff RDS_STORAGE_PREFIX_def RDS_STORAGE_SUFFIX_def .
    have none: "?m EC2_STANDARD_PREFIX EC2_FALLBACK_SUFFIX = None" "?m EC2_ENTERPRISE_PREFIX EC2_FALLBACK_SUFFIX = None"
      unfolding storage EC2_STANDARD_PREFIX_def EC2_ENTERPRISE_PREFIX_def by (simp_all add: strip_prefix_def)
    have forms: "\<not> has_form w (FallbackLicense ed t)" "\<not> has_form w (MissingMeter ed)" for ed t
      using storage by (cases ed; simp)+
    have "is_relevant w rs \<longleftrightarrow> (case split_once_space x of None \<Rightarrow> True | Some (t, d) \<Rightarrow> concerns rs (MissingStorage t d))"
      unfolding is_relevant_def none m by (simp add: relevant_resource_iff(3) split: option.split del: concerns.simps)
    moreover have "has_form w (MissingStorage t d) \<longleftrightarrow> split_once_space x = Some (t, d)" for t d
      unfolding storage by (rule storage_form(2))
    ultimately show ?thesis using forms
      by (auto simp: all_warning_forms split: option.split simp del: has_form.simps concerns.simps)
  next
    case other
    have none: "?m EC2_STANDARD_PREFIX EC2_FALLBACK_SUFFIX = None" "?m EC2_ENTERPRISE_PREFIX EC2_FALLBACK_SUFFIX = None"
      "?m RDS_STORAGE_PREFIX RDS_STORAGE_SUFFIX = None"
      using other by (simp_all only: not_Some_eq [symmetric] strip_both_iff EC2_STANDARD_PREFIX_def
          EC2_ENTERPRISE_PREFIX_def RDS_STORAGE_PREFIX_def EC2_FALLBACK_SUFFIX_def RDS_STORAGE_SUFFIX_def) auto
    have storage: "\<not> has_form w (MissingStorage t d)" for t d
      using other(3) by (metis append.assoc has_form.simps(3))
    have license: "\<not> has_form w (FallbackLicense ed t)" for ed t using other(1,2) by (cases ed) auto
    have meter: "has_form w (MissingMeter Standard) \<longleftrightarrow> starts_with RDS_STANDARD_LICENSE_PREFIX w"
      "has_form w (MissingMeter Enterprise) \<longleftrightarrow> starts_with RDS_ENTERPRISE_LICENSE_PREFIX w"
      using other(3) by (simp_all add: starts_with_iff RDS_STANDARD_LICENSE_PREFIX_def RDS_ENTERPRISE_LICENSE_PREFIX_def)
    have "\<not> (starts_with RDS_STANDARD_LICENSE_PREFIX w \<and> starts_with RDS_ENTERPRISE_LICENSE_PREFIX w)"
      by (auto simp: starts_with_iff RDS_STANDARD_LICENSE_PREFIX_def RDS_ENTERPRISE_LICENSE_PREFIX_def)
    then show ?thesis
      unfolding is_relevant_def none
      by (auto simp: all_warning_forms storage license meter relevant_resource_iff(2)
          simp del: has_form.simps concerns.simps)
  qed
qed

text \<open>
  C21: of the warnings of a snapshot a project is shown, in their order, exactly those that concern one of its
  resources, or that have none of the three forms: the fallback license rate of an instance type and
  edition concerns an EC2 resource with both, the missing storage rate of an instance type and deployment an
  RDS resource with both, and the missing license meter of an edition an RDS resource with that edition.
\<close>
theorem warnings_relevant_iff:
  "relevant_for_resources ws rs = filter (\<lambda>w. \<forall>f. has_form w f \<longrightarrow> concerns rs f) ws"
  unfolding relevant_for_resources_def is_relevant_forms ..

section \<open>Concrete lookups\<close>

definition example_cached :: "string \<Rightarrow> string \<Rightarrow> aws_price_snapshot" where
  "example_cached i retrieved =
     \<lparr>as_metadata = (snapshot_metadata_of Aws i (example_creation\<lparr>cm_retrieved_at := retrieved\<rparr>)),
      as_source_region = ''eu'', as_ec2_rates = [], as_rds_rates = [], as_ebs_rates = []\<rparr>"

lemma example_cached_simps [simp]:
  "aws_id (example_cached i r) = ''aws-'' @ i" "aws_retrieved (example_cached i r) = r"
  "aws_matches_scope (example_cached i r) ''USD'' ''eu''"
  by (simp_all add: example_cached_def aws_id_def aws_retrieved_def aws_matches_scope_def snapshot_metadata_of_def
      normalize_creation_metadata_def example_creation_def)

lemma recent_snapshot_kept_witness:
  "get_aws (example_time 9) 5 (fold run_put [PutAws 0 (example_cached ''2'' ''4'')]
       (snd (put_aws 3 (example_cached ''1'' ''2'') new_snapshot_repository))) ''aws-1'' =
     Ok (classify_aws (example_time 9) (example_cached ''1'' ''2'') 5)"
  using recent_snapshot_kept [of new_snapshot_repository 3 "[PutAws 0 (example_cached ''2'' ''4'')]"
      "example_cached ''1'' ''2''" "example_time 9" 5]
  by (simp add: hot_map_ok_def new_snapshot_repository_def)

lemma find_prefers_older_witness:
  "find_aws (example_time 9) 5 (fold run_put [PutAws 0 (example_cached ''1'' ''2026-08-10T12:00:00Z''),
       PutAws 1 (example_cached ''2'' ''2026-08-10T12:00:00.5Z'')] new_snapshot_repository) ''USD'' ''eu'' =
     Ok (classify_aws (example_time 9) (example_cached ''1'' ''2026-08-10T12:00:00Z'') 5)"
  using find_prefers_older [of "example_cached ''1'' ''2026-08-10T12:00:00Z''" "''USD''" "''eu''"
      "example_cached ''2'' ''2026-08-10T12:00:00.5Z''" "example_time 9" 5] by simp

lemma warnings_relevant_iff_witness:
  "relevant_for_resources [''RDS Standard OCPU license meter is unavailable; x'', ''stale''] [] = [''stale'']"
proof -
  have "has_form ''RDS Standard OCPU license meter is unavailable; x'' (MissingMeter Standard)"
  proof -
    have "''RDS Standard OCPU license meter is unavailable; x'' \<noteq> ''RDS '' @ y @ '' has no matching SQL Server storage rate.''" for y
      by (auto dest: arg_cong [of _ _ last])
    then show ?thesis by (auto simp: Cons_eq_append_conv)
  qed
  moreover have "\<not> has_form ''stale'' f" for f by (cases "(''stale'', f)" rule: has_form.cases) (auto split: sql_edition.splits)
  ultimately show ?thesis unfolding warnings_relevant_iff by (force simp del: has_form.simps)
qed

end
