(* ===== verification/WorkflowSteps.thy ===== *)
theory WorkflowSteps
  imports SqlPayg VmTargetSelector Cost
begin

text \<open>
  \<open>rust/src/calculation/workflow.rs\<close>: the data of a calculation and the steps that explain it. A step's
  \<open>BTreeMap\<close> of texts is the association list of its keys, each once, with the values before they are
  rendered: \<open>to_string\<close> of a number is the number. A step divides amounts the calculation has already
  computed, so building an explanation can panic where a product or quotient overflows.
\<close>

section \<open>Data\<close>

datatype pricing_status = PsFresh | PsCached | PsStale | PsUnavailable | PsNotRequired

record storage_inputs =
  si_sql_data_gb_per_instance :: decimal_value
  si_persistent_ebs_gb_per_instance :: decimal_value
  si_azure_storage_gb_per_instance :: decimal_value

datatype step_value =
  TextValue string | IntValue nat | DecValue rat | JoinedValue string "fmt_text list"

record explanation_step =
  xs_code :: string
  xs_message :: string
  xs_values :: "(string \<times> step_value) list"

section \<open>Names and quotients\<close>

definition saturating_add :: "'l::len word \<Rightarrow> 'l word \<Rightarrow> 'l word" where
  "saturating_add a b = (if unat a + unat b < 2 ^ LENGTH('l) then a + b else - 1)"

definition bool_text :: "bool \<Rightarrow> string" where
  "bool_text b = (if b then ''true'' else ''false'')"

text \<open>\<open>map_or_else(String::new, to_string)\<close>\<close>

definition dec_or_empty :: "decimal_value option \<Rightarrow> step_value" where
  "dec_or_empty v = (case v of None \<Rightarrow> TextValue [] | Some d \<Rightarrow> DecValue d)"

definition divide_or_zero :: "dec_arith \<Rightarrow> rat \<Rightarrow> rat \<Rightarrow> ('e, rat) outcome" where
  "divide_or_zero A numerator denominator = (if denominator = 0 then Ok 0 else d_div A numerator denominator)"

fun vm_burst_policy_name :: "vm_burst_policy \<Rightarrow> string" where
  "vm_burst_policy_name ConfirmedBurstCompatible = ''confirmed_burst_compatible''"
| "vm_burst_policy_name RequiresSustainedCpu = ''requires_sustained_cpu''"
| "vm_burst_policy_name BurstUnknown = ''unknown''"
| "vm_burst_policy_name BurstNotApplicable = ''not_applicable''"

fun vm_instance_store_name :: "vm_instance_store_use \<Rightarrow> string" where
  "vm_instance_store_name StoreUnknown = ''unknown''"
| "vm_instance_store_name StoreNotUsed = ''not_used''"
| "vm_instance_store_name StoreUsed = ''used''"

fun vm_high_frequency_requirement_name :: "vm_high_frequency_requirement \<Rightarrow> string" where
  "vm_high_frequency_requirement_name HfRequired = ''required''"
| "vm_high_frequency_requirement_name HfUnknown = ''unknown''"
| "vm_high_frequency_requirement_name HfCapacityFitAccepted = ''capacity_fit_accepted''"
| "vm_high_frequency_requirement_name HfNotApplicable = ''not_applicable''"

text \<open>The derived \<open>Debug\<close> names in lower case.\<close>

fun source_class_name :: "source_class \<Rightarrow> string" where
  "source_class_name ScBurstable = ''burstable''"
| "source_class_name ScGeneralPurpose = ''generalpurpose''"
| "source_class_name ScMemoryOptimized = ''memoryoptimized''"
| "source_class_name ScHighFrequencyMemoryOptimized = ''highfrequencymemoryoptimized''"

fun lineage_name :: "vm_lineage \<Rightarrow> string" where
  "lineage_name Burstable = ''burstable''"
| "lineage_name GeneralPurpose = ''generalpurpose''"
| "lineage_name MemoryOptimized = ''memoryoptimized''"

definition disk_summary :: "selected_managed_disk \<Rightarrow> fmt_text" where
  "disk_summary disk =
     Fmt ''{}:{}:{}GiB:{}IOPS:{}MBps''
       [ArgStr (sd_label disk),
        ArgStr (case sd_tier_key disk of None \<Rightarrow> sd_offer_key disk | Some tier_key \<Rightarrow> tier_key),
        ArgDec (sd_capacity_gb disk), ArgInt (unat (sd_provisioned_iops disk)),
        ArgDec (sd_provisioned_throughput_mbps disk)]"

section \<open>Steps\<close>

definition source_input_step ::
  "dec_arith \<Rightarrow> u32 \<Rightarrow> u64 \<Rightarrow> resource \<Rightarrow> storage_inputs \<Rightarrow> ('e, explanation_step) outcome" where
  "source_input_step A source_vcpu maximum_iops resource storage_inputs =
     (let shared = resource_shared resource
      in obind (d_add A (si_sql_data_gb_per_instance storage_inputs) (si_persistent_ebs_gb_per_instance storage_inputs)) (\<lambda>required.
      Ok \<lparr>xs_code = ''source_inputs'',
      xs_message = ''Effective source sizing inputs were applied without consolidation.'',
      xs_values =
      [(''source_vcpu'', IntValue (unat source_vcpu)),
       (''source_ram_gb'', DecValue (sr_source_ram_gb shared)),
       (''sql_data_gb'', DecValue (si_sql_data_gb_per_instance storage_inputs)),
       (''persistent_ebs_gb'', DecValue (si_persistent_ebs_gb_per_instance storage_inputs)),
       (''azure_required_storage_gb'', DecValue required),
       (''azure_configured_storage_gb'', DecValue (si_azure_storage_gb_per_instance storage_inputs)),
       (''source_max_iops'', IntValue (unat maximum_iops)),
       (''quantity'', IntValue (unat (sr_quantity shared))),
       (''annual_hours_per_instance'', DecValue (sr_annual_hours shared))]\<rparr>))"

definition vm_assumptions_step ::
  "ec2_vm_resource \<Rightarrow> explanation_step" where
  "vm_assumptions_step resource =
     (let requirements = ec2vm_requirements resource
      in \<lparr>xs_code = ''vm_assumptions'',
      xs_message = ''The approved first-release EC2 VM assumptions were applied and remain explicit.'',
      xs_values =
      [(''instance_type'', TextValue (ec2vm_instance_type resource)),
       (''source_operating_system'', TextValue ''windows''),
       (''source_tenancy'', TextValue ''shared''),
       (''source_purchase_option'', TextValue ''on_demand''),
       (''target_license'', TextValue ''windows_license_included''),
       (''azure_hybrid_benefit'', TextValue ''false''),
       (''burst_policy'', TextValue (vm_burst_policy_name (vmr_burst_policy requirements))),
       (''source_instance_store'', TextValue (vm_instance_store_name (vmr_instance_store_use requirements))),
       (''required_local_temp_disk_gb'', dec_or_empty (vmr_required_local_temp_disk_gb requirements)),
       (''ephemeral_data_loss_acceptable'', TextValue (case vmr_ephemeral_data_loss_acceptable requirements of None \<Rightarrow> [] | Some b \<Rightarrow> bool_text b)),
       (''high_frequency_requirement'', TextValue (vm_high_frequency_requirement_name (vmr_high_frequency_requirement requirements))),
       (''requested_target_arm_sku'', TextValue (case vmr_requested_target_arm_sku requirements of None \<Rightarrow> [] | Some sku \<Rightarrow> sku)),
       (''target_topology'', TextValue ''one_vm_per_source_vm''),
       (''disk_topology'', TextValue ''one_managed_disk_per_persistent_ebs_volume'')]\<rparr>)"

definition vm_source_input_step ::
  "dec_arith \<Rightarrow> ec2_vm_resource \<Rightarrow> u32 \<Rightarrow> source_class \<Rightarrow> vm_volume_requirement list \<Rightarrow>
     ('e, explanation_step) outcome" where
  "vm_source_input_step A resource source_vcpu source_class volumes =
     (let shared = ec2vm_shared resource
      in obind (d_sum A 0 (map vr_capacity_gb volumes)) (\<lambda>capacity.
      Ok \<lparr>xs_code = ''vm_source_inputs'',
      xs_message = ''The source VM shape and persistent volumes were preserved without consolidation.'',
      xs_values =
      [(''source_vcpu'', IntValue (unat source_vcpu)),
       (''source_ram_gb'', DecValue (sr_source_ram_gb shared)),
       (''source_class'', TextValue (source_class_name source_class)),
       (''persistent_volume_count'', IntValue (length volumes)),
       (''persistent_volume_gb'', DecValue capacity),
       (''quantity'', IntValue (unat (sr_quantity shared))),
       (''annual_hours_per_instance'', DecValue (sr_annual_hours shared))]\<rparr>))"

definition vm_source_cost_formula_step ::
  "dec_arith \<Rightarrow> ec2_vm_resource \<Rightarrow> project_settings \<Rightarrow> source_cost_breakdown \<Rightarrow>
     ('e, explanation_step) outcome" where
  "vm_source_cost_formula_step A resource settings costs =
     (let quantity = dec_of (sr_quantity (ec2vm_shared resource)); hours = sr_annual_hours (ec2vm_shared resource)
      in obind (d_mul A quantity hours) (\<lambda>instance_hours.
      obind (divide_or_zero A (sc_compute_gross costs) instance_hours) (\<lambda>hourly.
      Ok \<lparr>xs_code = ''source_cost_formula'',
      xs_message = ''AWS Windows Shared On-Demand compute and persistent EBS costs were calculated from the resolved snapshot.'',
      xs_values =
      [(''compute_formula'', TextValue ''compute_gross = quantity * annual_hours_per_instance * windows_shared_ondemand_hourly''),
       (''windows_shared_ondemand_hourly'', DecValue hourly),
       (''compute_gross'', DecValue (sc_compute_gross costs)),
       (''source_compute_discount'', DecValue (ps_source_compute_discount settings)),
       (''compute_net'', DecValue (sc_compute_net costs)),
       (''storage_formula'', TextValue ''storage_gross = quantity * 12 * sum(ebs_volume_monthly_cost)''),
       (''storage_gross'', DecValue (sc_storage_gross costs)),
       (''source_storage_discount'', DecValue (ps_source_storage_discount settings)),
       (''storage_net'', DecValue (sc_storage_net costs)),
       (''source_total'', DecValue (sc_total costs))]\<rparr>)))"

definition vm_target_selection_step ::
  "selected_vm_target \<Rightarrow> string list \<Rightarrow> explanation_step" where
  "vm_target_selection_step selected disk_source_urls =
     \<lparr>xs_code = ''vm_target_selection'',
      xs_message = ''The smallest reviewed current-generation Azure VM and one capability-fit managed disk per source volume were selected.'',
      xs_values =
      [(''arm_sku_name'', TextValue (vt_arm_sku_name selected)),
       (''lineage'', TextValue (lineage_name (vt_lineage selected))),
       (''generation'', TextValue (vt_generation selected)),
       (''vcpus'', IntValue (unat (vt_vcpus selected))),
       (''memory_gb'', DecValue (vt_memory_gb selected)),
       (''managed_disks'', JoinedValue ''; '' (map disk_summary (vt_disks selected))),
       (''disk_source_urls'', JoinedValue '' '' (map (\<lambda>url. Fmt url []) disk_source_urls))]\<rparr>"

definition vm_azure_cost_formula_step ::
  "selected_vm_target \<Rightarrow> ec2_vm_resource \<Rightarrow> decimal_value \<Rightarrow> decimal_value \<Rightarrow> decimal_value \<Rightarrow>
     project_settings \<Rightarrow> azure_cost_breakdown \<Rightarrow> explanation_step" where
  "vm_azure_cost_formula_step selected resource vm_total_hourly_rate vm_license_hourly_rate
     managed_disk_monthly_per_instance settings costs =
     (let shared = ec2vm_shared resource
      in \<lparr>xs_code = ''azure_vm_cost_formula'',
      xs_message = ''Azure VM base compute, Windows license, and selected managed-disk costs were calculated from one coherent snapshot for the selected purchase option.'',
      xs_values =
      [(''arm_sku_name'', TextValue (vt_arm_sku_name selected)),
       (''compute_formula'', TextValue ''compute_gross = quantity * annual_hours_per_instance * (vm_total_hourly - windows_license_hourly)''),
       (''vm_purchase_option'', TextValue (vm_purchase_option_as_str (ec2vm_purchase_option resource))),
       (''vm_total_hourly'', DecValue vm_total_hourly_rate),
       (''windows_license_hourly'', DecValue vm_license_hourly_rate),
       (''compute_gross'', DecValue (ac_compute_gross costs)),
       (''azure_compute_discount'', DecValue (ps_azure_compute_discount settings)),
       (''storage_formula'', TextValue ''storage_gross = quantity * 12 * sum(managed_disk_monthly_cost)''),
       (''managed_disk_monthly_per_instance'', DecValue managed_disk_monthly_per_instance),
       (''storage_gross'', DecValue (ac_storage_gross costs)),
       (''azure_storage_discount'', DecValue (ps_azure_storage_discount settings)),
       (''storage_net'', DecValue (ac_storage_net costs)),
       (''license_formula'', TextValue ''license_gross = quantity * annual_hours_per_instance * windows_license_hourly''),
       (''license_gross'', DecValue (ac_license_gross costs)),
       (''license_net'', DecValue (ac_license_net costs)),
       (''azure_license_discount'', DecValue (ps_azure_license_discount settings)),
       (''quantity'', IntValue (unat (sr_quantity shared))),
       (''annual_hours_per_instance'', DecValue (sr_annual_hours shared)),
       (''azure_total_before_parity'', DecValue (ac_total_before_parity costs))]\<rparr>)"

definition source_formula_values ::
  "dec_arith \<Rightarrow> resource \<Rightarrow> project_settings \<Rightarrow> source_cost_breakdown \<Rightarrow> ('e, (string \<times> step_value) list) outcome" where
  "source_formula_values A resource settings costs =
     (let shared = resource_shared resource; quantity = dec_of (sr_quantity shared); hours = sr_annual_hours shared
      in obind (d_mul A quantity hours) (\<lambda>instance_hours.
      obind (divide_or_zero A (sc_compute_gross costs) instance_hours) (\<lambda>compute_hourly.
      Ok
      [(''compute_formula'', TextValue ''compute_gross = quantity * annual_hours_per_instance * compute_hourly''),
       (''quantity'', IntValue (unat (sr_quantity shared))),
       (''annual_hours_per_instance'', DecValue (sr_annual_hours shared)),
       (''compute_hourly'', DecValue compute_hourly),
       (''compute_gross'', DecValue (sc_compute_gross costs)),
       (''compute_net_formula'', TextValue ''compute_net = compute_gross * (1 - source_compute_discount)''),
       (''source_compute_discount'', DecValue (ps_source_compute_discount settings)),
       (''compute_net'', DecValue (sc_compute_net costs)),
       (''license_net_formula'', TextValue ''license_net = license_gross * (1 - source_license_discount)''),
       (''source_license_discount'', DecValue (ps_source_license_discount settings)),
       (''license_gross'', DecValue (sc_license_gross costs)),
       (''license_net'', DecValue (sc_license_net costs)),
       (''storage_net_formula'', TextValue ''storage_net = storage_gross * (1 - source_storage_discount)''),
       (''source_storage_discount'', DecValue (ps_source_storage_discount settings)),
       (''storage_gross'', DecValue (sc_storage_gross costs)),
       (''storage_net'', DecValue (sc_storage_net costs)),
       (''source_total_formula'', TextValue ''source_total = compute_net + license_net + storage_net''),
       (''source_total'', DecValue (sc_total costs))])))"

definition ec2_formula_values ::
  "dec_arith \<Rightarrow> resource \<Rightarrow> source_cost_breakdown \<Rightarrow> ('e, (string \<times> step_value) list) outcome" where
  "ec2_formula_values A resource costs =
     (let shared = resource_shared resource; quantity = dec_of (sr_quantity shared); hours = sr_annual_hours shared
      in obind (d_mul A quantity hours) (\<lambda>instance_hours.
      obind (divide_or_zero A (sc_license_gross costs) instance_hours) (\<lambda>license_hourly.
      obind (d_mul A quantity 12) (\<lambda>instance_months.
      obind (divide_or_zero A (sc_storage_gross costs) instance_months) (\<lambda>monthly_storage.
      Ok
      [(''license_formula'', TextValue ''license_gross = quantity * annual_hours_per_instance * license_hourly''),
       (''license_hourly'', DecValue license_hourly),
       (''storage_formula'', TextValue ''storage_gross = quantity * 12 * monthly_storage_per_instance''),
       (''monthly_storage_per_instance'', DecValue monthly_storage)])))))"

definition rds_formula_values ::
  "dec_arith \<Rightarrow> resource \<Rightarrow> rds_resource \<Rightarrow> u32 \<Rightarrow> source_cost_breakdown \<Rightarrow> ('e, (string \<times> step_value) list) outcome" where
  "rds_formula_values A resource rds source_vcpu costs =
     (let shared = resource_shared resource; quantity = dec_of (sr_quantity shared); hours = sr_annual_hours shared
      in obind (d_prod A quantity [hours, dec_of source_vcpu]) (\<lambda>core_hours.
      obind (divide_or_zero A (sc_license_gross costs) core_hours) (\<lambda>core_hourly.
      obind (d_prod A quantity [sql_data_gb (rds_sql rds), 12]) (\<lambda>gb_months.
      obind (divide_or_zero A (sc_storage_gross costs) gb_months) (\<lambda>monthly_per_gb.
      Ok
      [(''license_formula'',
         TextValue ''license_gross = quantity * annual_hours_per_instance * source_vcpu * regional_edition_core_hourly''),
       (''source_vcpu'', IntValue (unat source_vcpu)),
       (''regional_edition_core_hourly'', DecValue core_hourly),
       (''storage_formula'',
         TextValue ''storage_gross = quantity * sql_data_gb_per_instance * 12 * storage_monthly_per_gb''),
       (''sql_data_gb_per_instance'', DecValue (sql_data_gb (rds_sql rds))),
       (''storage_monthly_per_gb'', DecValue monthly_per_gb)])))))"

definition source_cost_formula_step ::
  "dec_arith \<Rightarrow> resource \<Rightarrow> u32 \<Rightarrow> project_settings \<Rightarrow> source_cost_breakdown \<Rightarrow>
     ('e, explanation_step option) outcome" where
  "source_cost_formula_step A resource source_vcpu settings costs =
     obind (source_formula_values A resource settings costs) (\<lambda>shared_values.
     let step_of = (\<lambda>values. Some
       \<lparr>xs_code = ''source_cost_formula'',
        xs_message = ''Source component costs were calculated from the resolved AWS rates and project discounts.'',
        xs_values = shared_values @ values\<rparr>)
     in (case resource of
           Ec2 _ \<Rightarrow> obind (ec2_formula_values A resource costs) (\<lambda>values. Ok (step_of values))
         | Rds rds \<Rightarrow> obind (rds_formula_values A resource rds source_vcpu costs) (\<lambda>values. Ok (step_of values))
         | OnPrem _ \<Rightarrow> Ok None
         | Ec2Vm _ \<Rightarrow> Ok None))"

definition azure_cost_formula_step ::
  "dec_arith \<Rightarrow> selected_target \<Rightarrow> resource \<Rightarrow> decimal_value \<Rightarrow> azure_rate \<Rightarrow> project_settings \<Rightarrow>
     azure_cost_breakdown \<Rightarrow> ('e, explanation_step) outcome" where
  "azure_cost_formula_step A selected resource azure_storage_gb_per_instance rate settings costs =
     (let shared = resource_shared resource
      in obind (azure_mi_billable_storage_gb A azure_storage_gb_per_instance) (\<lambda>billable_storage_gb.
      Ok \<lparr>xs_code = ''azure_cost_formula'',
      xs_message = ''Azure component costs were calculated from the selected MI shape and resolved purchase-option rates.'',
      xs_values =
      [(''compute_formula'', TextValue ''compute_gross = quantity * annual_hours_per_instance * mi_compute_hourly''),
       (''quantity'', IntValue (unat (sr_quantity shared))),
       (''annual_hours_per_instance'', DecValue (sr_annual_hours shared)),
       (''mi_compute_hourly'', DecValue (ar_compute_hourly rate)),
       (''compute_gross'', DecValue (ac_compute_gross costs)),
       (''additional_ram_gb_formula'', TextValue ''additional_ram_gb = max(0, selected_mi_ram_gb - included_mi_ram_gb)''),
       (''included_mi_ram_gb'', DecValue (st_included_memory_gb selected)),
       (''selected_mi_ram_gb'', DecValue (st_selected_memory_gb selected)),
       (''additional_ram_gb'', DecValue (ac_additional_ram_gb costs)),
       (''additional_ram_formula'', TextValue ''additional_ram_gross = quantity * annual_hours_per_instance * additional_ram_gb * additional_memory_per_gb_hourly''),
       (''additional_memory_per_gb_hourly'', DecValue (ar_additional_memory_per_gb_hourly rate)),
       (''additional_ram_gross'', DecValue (ac_additional_ram_gross costs)),
       (''compute_plus_ram_net_formula'', TextValue ''compute_plus_ram_net = (compute_gross + additional_ram_gross) * (1 - azure_compute_discount)''),
       (''azure_compute_discount'', DecValue (ps_azure_compute_discount settings)),
       (''compute_plus_ram_net'', DecValue (ac_compute_plus_ram_net costs)),
       (''license_formula'', TextValue ''license_gross = quantity * annual_hours_per_instance * mi_license_hourly''),
       (''mi_license_hourly'', DecValue (ar_license_hourly rate)),
       (''license_gross'', DecValue (ac_license_gross costs)),
       (''license_net_formula'', TextValue ''license_net = license_gross * (1 - azure_license_discount)''),
       (''azure_license_discount'', DecValue (ps_azure_license_discount settings)),
       (''license_net'', DecValue (ac_license_net costs)),
       (''storage_formula'', TextValue ''azure_billable_storage_gb_per_instance = max(azure_configured_storage_gb_per_instance - 32, 0); storage_gross = quantity * azure_billable_storage_gb_per_instance * 12 * mi_storage_monthly_per_gb''),
       (''azure_configured_storage_gb_per_instance'', DecValue azure_storage_gb_per_instance),
       (''azure_included_storage_gb_per_instance'', TextValue ''32''),
       (''azure_billable_storage_gb_per_instance'', DecValue billable_storage_gb),
       (''mi_storage_monthly_per_gb'', DecValue (ar_storage_monthly_per_gb rate)),
       (''storage_gross'', DecValue (ac_storage_gross costs)),
       (''storage_net_formula'', TextValue ''storage_net = storage_gross * (1 - azure_storage_discount)''),
       (''azure_storage_discount'', DecValue (ps_azure_storage_discount settings)),
       (''storage_net'', DecValue (ac_storage_net costs)),
       (''azure_total_before_parity_formula'', TextValue ''azure_total_before_parity = compute_plus_ram_net + license_net + storage_net''),
       (''azure_total_before_parity'', DecValue (ac_total_before_parity costs))]\<rparr>))"

definition savings_formula_step ::
  "source_cost_breakdown \<Rightarrow> azure_cost_breakdown \<Rightarrow> savings_breakdown \<Rightarrow> explanation_step" where
  "savings_formula_step source azure savings =
     \<lparr>xs_code = ''savings_formula'',
      xs_message = ''Savings before parity are source component costs minus Azure component costs.'',
      xs_values =
      [(''compute_savings_formula'', TextValue ''compute_savings = source_compute_net - azure_compute_plus_ram_net''),
       (''source_compute_net'', DecValue (sc_compute_net source)),
       (''azure_compute_plus_ram_net'', DecValue (ac_compute_plus_ram_net azure)),
       (''compute_savings'', DecValue (sb_compute_savings savings)),
       (''license_savings_formula'', TextValue ''license_savings = source_license_net - azure_license_net''),
       (''source_license_net'', DecValue (sc_license_net source)),
       (''azure_license_net'', DecValue (ac_license_net azure)),
       (''license_savings'', DecValue (sb_license_savings savings)),
       (''storage_savings_formula'', TextValue ''storage_savings = source_storage_net - azure_storage_net''),
       (''source_storage_net'', DecValue (sc_storage_net source)),
       (''azure_storage_net'', DecValue (ac_storage_net azure)),
       (''storage_savings'', DecValue (sb_storage_savings savings)),
       (''total_savings_formula'', TextValue ''total_savings = source_total - azure_total_before_parity''),
       (''source_total'', DecValue (sc_total source)),
       (''azure_total_before_parity'', DecValue (ac_total_before_parity azure)),
       (''total_savings'', DecValue (sb_total_savings savings))]\<rparr>"

definition parity_formula_step ::
  "source_cost_breakdown \<Rightarrow> azure_cost_breakdown \<Rightarrow> savings_breakdown \<Rightarrow> explanation_step" where
  "parity_formula_step source azure savings =
     \<lparr>xs_code = ''parity_formula'',
      xs_message = ''Parity applies the selected adjustment to the Azure total and compares it with the source total.'',
      xs_values =
      [(''required_adjustment_formula'', TextValue ''required_adjustment = if azure_total_before_parity == 0 then 0 else 1 - source_total / azure_total_before_parity''),
       (''source_total'', DecValue (sc_total source)),
       (''azure_total_before_parity'', DecValue (ac_total_before_parity azure)),
       (''required_adjustment'', DecValue (sb_required_adjustment savings)),
       (''azure_after_selected_parity_formula'', TextValue ''azure_after_selected_parity = azure_total_before_parity * (1 - selected_adjustment)''),
       (''selected_adjustment'', DecValue (sb_selected_adjustment savings)),
       (''azure_after_selected_parity'', DecValue (sb_azure_after_selected_parity savings)),
       (''difference_formula'', TextValue ''difference = azure_after_selected_parity - source_total''),
       (''difference'', DecValue (sb_difference savings))]\<rparr>"

definition source_provenance_step ::
  "string \<Rightarrow> string \<Rightarrow> explanation_step" where
  "source_provenance_step source_url retrieved_at =
     \<lparr>xs_code = ''source_price_provenance'',
      xs_message = ''Source rates were resolved from the immutable AWS snapshot.'',
      xs_values =
      [(''source_url'', TextValue source_url),
       (''retrieved_at'', TextValue retrieved_at)]\<rparr>"

definition target_provenance_step ::
  "string \<Rightarrow> string \<Rightarrow> explanation_step" where
  "target_provenance_step source_url retrieved_at =
     \<lparr>xs_code = ''target_price_provenance'',
      xs_message = ''Target rates were resolved from the immutable Azure snapshot.'',
      xs_values =
      [(''source_url'', TextValue source_url),
       (''retrieved_at'', TextValue retrieved_at)]\<rparr>"

definition on_prem_power_step ::
  "on_prem_explanation \<Rightarrow> on_prem_resource \<Rightarrow> explanation_step" where
  "on_prem_power_step explanation resource =
     (let shared = op_shared resource
      in \<lparr>xs_code = ''on_prem_power_estimate'',
      xs_message = ''Indicative server power was estimated from fixed coefficients; an explicit override takes precedence.'',
      xs_values =
      [(''fixed_kw'', TextValue ''0.100''),
       (''kw_per_vcpu'', TextValue ''0.0125''),
       (''kw_per_ram_gb'', TextValue ''0.000375''),
       (''kw_per_data_tb'', TextValue ''0.010''),
       (''source_vcpu'', IntValue (unat (op_source_vcpu resource))),
       (''source_ram_gb'', DecValue (sr_source_ram_gb shared)),
       (''sql_data_gb'', DecValue (sql_data_gb (op_sql resource))),
       (''estimated_power_kw'', DecValue (oe_estimated_power_kw explanation)),
       (''effective_power_kw'', DecValue (oe_effective_power_kw explanation)),
       (''override_applied'', TextValue (bool_text (oe_power_override_applied explanation))),
       (''annual_kwh'', DecValue (oe_annual_kwh explanation))]\<rparr>)"

definition on_prem_cost_formula_step ::
  "on_prem_resource \<Rightarrow> project_settings \<Rightarrow> source_cost_breakdown \<Rightarrow> on_prem_explanation \<Rightarrow> explanation_step" where
  "on_prem_cost_formula_step resource settings costs explanation =
     (let shared = op_shared resource;
          license_price = (case sql_edition (op_sql resource) of
                             Standard \<Rightarrow> ps_standard_license_sa_pack settings
                           | Enterprise \<Rightarrow> ps_enterprise_license_sa_pack settings)
      in \<lparr>xs_code = ''source_cost_formula'',
      xs_message = ''On-premises component costs were calculated from hardware depreciation, License + SA, and electricity inputs.'',
      xs_values =
      [(''quantity'', IntValue (unat (sr_quantity shared))),
       (''annual_hours_per_instance'', DecValue (sr_annual_hours shared)),
       (''hardware_formula'', TextValue ''hardware_annual = quantity * hardware_capex_usd / depreciation_years''),
       (''hardware_capex_usd'', DecValue (op_hardware_capex_usd resource)),
       (''depreciation_years'', DecValue (op_depreciation_years resource)),
       (''hardware_annual'', DecValue (sc_hardware_annual costs)),
       (''compute_gross'', DecValue (sc_compute_gross costs)),
       (''compute_net'', DecValue (sc_compute_net costs)),
       (''license_formula'', TextValue ''license_gross = quantity * license_pack_count * license_sa_usd_per_two_core_pack * 12 / remaining_coverage_months''),
       (''licensable_cores'', IntValue (unat (op_licensable_cores resource))),
       (''license_pack_count'', IntValue (unat (oe_license_pack_count explanation))),
       (''license_sa_usd_per_two_core_pack'', dec_or_empty license_price),
       (''remaining_coverage_months'', (case ps_remaining_coverage_months settings of None \<Rightarrow> TextValue [] | Some months \<Rightarrow> IntValue (unat months))),
       (''license_gross'', DecValue (sc_license_gross costs)),
       (''license_net_formula'', TextValue ''license_net = license_gross * (1 - source_license_discount)''),
       (''source_license_discount'', DecValue (ps_source_license_discount settings)),
       (''license_net'', DecValue (sc_license_net costs)),
       (''electricity_formula'', TextValue ''electricity_annual = annual_kwh * electricity_rate_usd_per_kwh''),
       (''annual_kwh'', DecValue (oe_annual_kwh explanation)),
       (''electricity_rate_usd_per_kwh'', dec_or_empty (ps_electricity_rate settings)),
       (''electricity_annual'', DecValue (sc_electricity_annual costs)),
       (''source_total_formula'', TextValue ''source_total = hardware_annual + license_net + electricity_annual''),
       (''source_total'', DecValue (sc_total costs))]\<rparr>)"

end
