(* ===== verification/Workflow.thy ===== *)
theory Workflow
  imports WorkflowSteps SnapshotCache TargetSelector
begin

text \<open>
  \<open>rust/src/calculation/workflow.rs\<close>: a calculation takes a project's settings and resources and at most one
  price snapshot per provider, resolves the source of every resource, selects a target, prices both sides and
  sums the portfolio. A rate that is missing or unusable does not fail the calculation: it leaves the costs
  open and adds an unresolved component. Arithmetic that overflows panics.
\<close>

section \<open>Data\<close>

record purchase_option_discounts =
  pod_payg :: decimal_value
  pod_one_year_reserved :: decimal_value
  pod_three_year_reserved :: decimal_value
  pod_one_year_savings_plan :: decimal_value
  pod_azure_hybrid_benefit :: decimal_value

record vm_purchase_option_pricing =
  vpp_purchase_option :: vm_purchase_option
  vpp_available :: bool
  vpp_compute_discount :: "decimal_value option"
  vpp_license_discount :: "decimal_value option"

record unresolved_component =
  uc_provider :: "provider option"
  uc_code :: string
  uc_message :: fmt_text

record resource_calculation =
  rc_resource_id :: uuid
  rc_storage_inputs :: storage_inputs
  rc_mapping_status :: "mapping_status option"
  rc_aws_pricing_status :: pricing_status
  rc_azure_pricing_status :: pricing_status
  rc_target_selection :: "target_selection option"
  rc_vm_target_selection :: "vm_target_selection option"
  rc_source_costs :: "source_cost_breakdown option"
  rc_azure_costs :: "azure_cost_breakdown option"
  rc_purchase_option_discounts :: "purchase_option_discounts option"
  rc_vm_purchase_option_pricing :: "vm_purchase_option_pricing list option"
  rc_savings :: "savings_breakdown option"
  rc_explanation_steps :: "explanation_step list"
  rc_unresolved_components :: "unresolved_component list"

record portfolio_totals =
  pt_aws_all_rows_total :: "decimal_value option"
  pt_aws_mapped_rows_total :: decimal_value
  pt_azure_mapped_rows_total :: decimal_value
  pt_required_portfolio_adjustment :: decimal_value
  pt_selected_parity_adjustment :: decimal_value
  pt_portfolio_after_selected_parity :: decimal_value
  pt_portfolio_difference :: decimal_value
  pt_comparable_resource_count :: nat
  pt_no_mapping_resource_count :: nat
  pt_price_unavailable_resource_count :: nat

record calculation_revision =
  cr_formula_version :: string
  cr_aws_snapshot_id :: "string option"
  cr_azure_snapshot_id :: "string option"
  cr_resource_results :: "resource_calculation list"
  cr_portfolio_totals :: portfolio_totals
  cr_warnings :: "string list"
  cr_sql_payg_analysis :: "sql_payg_analysis option"

record calculation_engine =
  ce_capabilities :: capability_catalog
  ce_vm_capabilities :: vm_capability_catalog
  ce_managed_disk_capabilities :: managed_disk_catalog
  ce_formula_version :: string

record calculation_input =
  ci_settings :: project_settings
  ci_resources :: "resource list"
  ci_aws_snapshot :: "aws_price_snapshot option"
  ci_azure_snapshot :: "azure_price_snapshot option"
  ci_expected_formula_version :: "string option"

datatype calculation_error =
  EmptyCapabilityCatalog | FormulaVersionMismatch | CalculationInvalid "validation_issue list"
| SnapshotScopeMismatch provider | InvalidTargetSelection
| CalculationTarget target_selection_error | CalculationVmTarget vm_target_selection_error
| CalculationCost cost_error | CalculationSqlPayg sql_payg_error

type_synonym 'a calculation_result = "(calculation_error, 'a) outcome"

record resolved_source =
  rs_source_vcpu :: "u32 option"
  rs_source_max_iops :: "u64 option"
  rs_costs :: "source_cost_breakdown option"
  rs_pricing_status :: pricing_status
  rs_explanation_steps :: "explanation_step list"
  rs_unresolved_components :: "unresolved_component list"

text \<open>\<open>?\<close> on another error type converts it with \<open>From\<close>; \<open>zip\<close> of two options.\<close>

definition zip_option :: "'a option \<Rightarrow> 'b option \<Rightarrow> ('a \<times> 'b) option" where
  "zip_option x y = (case x of None \<Rightarrow> None | Some a \<Rightarrow> (case y of None \<Rightarrow> None | Some b \<Rightarrow> Some (a, b)))"

section \<open>The engine\<close>

definition engine_new :: "capability_catalog \<Rightarrow> string \<Rightarrow> calculation_engine calculation_result" where
  "engine_new capabilities formula_version =
     (if cc_candidates capabilities = [] then Err EmptyCapabilityCatalog
      else Ok
        \<lparr>ce_capabilities = capabilities,
         ce_vm_capabilities = \<lparr>vcc_schema_version = ''unconfigured'', vcc_candidates = []\<rparr>,
         ce_managed_disk_capabilities = \<lparr>dc_schema_version = ''unconfigured'', dc_offers = []\<rparr>,
         ce_formula_version = formula_version\<rparr>)"

definition engine_with_vm_catalogs ::
  "capability_catalog \<Rightarrow> vm_capability_catalog \<Rightarrow> managed_disk_catalog \<Rightarrow> string \<Rightarrow>
     calculation_engine calculation_result" where
  "engine_with_vm_catalogs capabilities vm_capabilities managed_disk_capabilities formula_version =
     obind (engine_new capabilities formula_version) (\<lambda>engine.
     Ok (engine\<lparr>ce_vm_capabilities := vm_capabilities,
                ce_managed_disk_capabilities := managed_disk_capabilities\<rparr>))"

definition validate_calculation_input ::
  "calculation_engine \<Rightarrow> calculation_input \<Rightarrow> unit calculation_result" where
  "validate_calculation_input E i =
     (if ci_expected_formula_version i \<notin> {None, Some (ce_formula_version E)} then Err FormulaVersionMismatch
      else
        let validation_project =
              \<lparr>ep_name = ''Calculation'', ep_description = None, ep_settings = ci_settings i,
               ep_resources = ci_resources i,
               ep_aws_price_snapshot_id =
                 map_option (\<lambda>s. sm_snapshot_id (as_metadata s)) (ci_aws_snapshot i),
               ep_azure_price_snapshot_id =
                 map_option (\<lambda>s. sm_snapshot_id (zs_metadata s)) (ci_azure_snapshot i)\<rparr>;
            issues = validate validation_project
        in if issues \<noteq> [] then Err (CalculationInvalid issues)
           else
             obind (case ci_aws_snapshot i of
                      None \<Rightarrow> Ok ()
                    | Some snapshot \<Rightarrow>
                        obind (ok_or (ps_aws_region (ci_settings i)) (SnapshotScopeMismatch Aws)) (\<lambda>source_region.
                        if \<not> aws_matches_scope snapshot (ps_currency (ci_settings i)) source_region
                        then Err (SnapshotScopeMismatch Aws) else Ok ())) (\<lambda>_.
             (case ci_azure_snapshot i of
                None \<Rightarrow> Ok ()
              | Some snapshot \<Rightarrow>
                  if \<not> azure_matches_scope snapshot (ps_currency (ci_settings i)) (ps_azure_region (ci_settings i))
                  then Err (SnapshotScopeMismatch Azure) else Ok ())))"

section \<open>Rates and discounts\<close>

fun pricing_status_of :: "resolution_status \<Rightarrow> pricing_status" where
  "pricing_status_of Fresh = PsFresh"
| "pricing_status_of Cached = PsCached"
| "pricing_status_of Stale = PsStale"
| "pricing_status_of Unavailable = PsUnavailable"

fun cost_error_text :: "cost_error \<Rightarrow> fmt_text" where
  "cost_error_text MissingSourceLicenseRate = Fmt ''a required source SQL license rate is unavailable'' []"
| "cost_error_text (MissingEbsRate t) =
     Fmt ''a required EBS rate is unavailable for {}''
       [ArgStr (case t of Gp3 \<Rightarrow> ''Gp3'' | Io2 \<Rightarrow> ''Io2'' | Ephemeral \<Rightarrow> ''Ephemeral'')]"
| "cost_error_text MissingProvisionedIops =
     Fmt ''persistent EBS volumes require an explicit provisioned IOPS value'' []"
| "cost_error_text InvalidIopsTiers = Fmt ''the EBS IOPS tier schedule is invalid or incomplete'' []"
| "cost_error_text MissingAzureManagedDiskRate =
     Fmt ''a required Azure managed-disk price dimension is unavailable'' []"
| "cost_error_text InvalidAzureVmRateComponents =
     Fmt ''the Azure VM license rate exceeds its total hourly rate'' []"
| "cost_error_text MissingOnPremLicenseSettings = Fmt ''on-premises License + SA settings are incomplete'' []"
| "cost_error_text MissingElectricityRate = Fmt ''on-premises electricity settings are incomplete'' []"
| "cost_error_text NegativeRate = Fmt ''a price rate must not be negative'' []"

definition cost_unresolved :: "provider \<Rightarrow> cost_error \<Rightarrow> unresolved_component" where
  "cost_unresolved provider error =
     \<lparr>uc_provider = Some provider, uc_code = ''incomplete_rate_set'', uc_message = cost_error_text error\<rparr>"

definition unavailable_source :: "provider \<Rightarrow> string \<Rightarrow> resolved_source" where
  "unavailable_source provider code =
     \<lparr>rs_source_vcpu = None, rs_source_max_iops = None, rs_costs = None, rs_pricing_status = PsUnavailable,
      rs_explanation_steps = [],
      rs_unresolved_components =
        [\<lparr>uc_provider = Some provider, uc_code = code,
          uc_message = Fmt ''A usable source price record is not available.'' []\<rparr>]\<rparr>"

definition rate_discount :: "dec_arith \<Rightarrow> decimal_value \<Rightarrow> decimal_value \<Rightarrow> ('e, decimal_value) outcome" where
  "rate_discount A baseline applied =
     (if baseline = 0 then Ok 0
      else obind (d_div A applied baseline) (\<lambda>ratio.
           obind (d_sub A 1 ratio) (\<lambda>discount. Ok (min (max discount 0) 1))))"

definition purchase_option_discounts_of ::
  "dec_arith \<Rightarrow> azure_price_snapshot \<Rightarrow> string \<Rightarrow> ('e, purchase_option_discounts option) outcome" where
  "purchase_option_discounts_of A snapshot configuration_key =
     (let rate = (\<lambda>option. map_option mr_rate (azure_mi_rate snapshot configuration_key option))
      in (case (rate PoPayg, rate PoAhb, rate PoOneYear, rate PoThreeYear, rate PoSavingsOneYear) of
            (Some payg, Some ahb, Some one_year, Some three_year, Some savings_one_year) \<Rightarrow>
              obind (rate_discount A (ar_compute_hourly payg) (ar_compute_hourly one_year)) (\<lambda>one_year_reserved.
              obind (rate_discount A (ar_compute_hourly payg) (ar_compute_hourly three_year)) (\<lambda>three_year_reserved.
              obind (rate_discount A (ar_compute_hourly payg) (ar_compute_hourly savings_one_year)) (\<lambda>one_year_savings.
              obind (rate_discount A (ar_license_hourly payg) (ar_license_hourly ahb)) (\<lambda>hybrid_benefit.
              Ok (Some \<lparr>pod_payg = 0, pod_one_year_reserved = one_year_reserved,
                        pod_three_year_reserved = three_year_reserved,
                        pod_one_year_savings_plan = one_year_savings,
                        pod_azure_hybrid_benefit = hybrid_benefit\<rparr>)))))
          | _ \<Rightarrow> Ok None))"

fun vm_disk_dimension :: "azure_managed_disk_price_dimension \<Rightarrow> vm_disk_price_dimension" where
  "vm_disk_dimension DimCapacityTier = CapacityTier"
| "vm_disk_dimension DimCapacityGb = CapacityGb"
| "vm_disk_dimension DimAdditionalIops = AdditionalIops"
| "vm_disk_dimension DimAdditionalThroughput = AdditionalThroughput"

text \<open>Collecting into a map keeps the last of equal keys.\<close>

definition vm_price_availability_of :: "azure_price_snapshot \<Rightarrow> vm_price_availability" where
  "vm_price_availability_of snapshot =
     \<lparr>pa_vm_hourly_rates =
        map_of (rev (map (\<lambda>r. (to_ascii_lowercase (vm_arm_sku_name r), vm_hourly_rate r))
          (filter (\<lambda>r. vm_purchase_option r = VpoPayg) (zs_vm_rates snapshot)))),
      pa_managed_disk_dimensions =
        set (map (\<lambda>r. \<lparr>dk_offer_key = mdr_offer_key r, dk_tier_key = mdr_tier_key r,
                       dk_dimension = vm_disk_dimension (mdr_dimension r)\<rparr>) (zs_managed_disk_rates snapshot))\<rparr>"

definition vm_option_pricing ::
  "dec_arith \<Rightarrow> azure_vm_rate_record option \<Rightarrow> azure_price_snapshot \<Rightarrow> string \<Rightarrow> vm_purchase_option \<Rightarrow>
     ('e, vm_purchase_option_pricing) outcome" where
  "vm_option_pricing A payg snapshot arm_sku_name option =
     (let rate = azure_vm_rate snapshot arm_sku_name option
      in obind (case zip_option payg rate of
                  None \<Rightarrow> Ok None
                | Some (payg, rate) \<Rightarrow>
                    obind (d_sub A (vm_hourly_rate payg) (vm_license_hourly payg)) (\<lambda>payg_compute.
                    obind (d_sub A (vm_hourly_rate rate) (vm_license_hourly rate)) (\<lambda>option_compute.
                    obind (rate_discount A payg_compute option_compute) (\<lambda>compute.
                    obind (rate_discount A (vm_license_hourly payg) (vm_license_hourly rate)) (\<lambda>license.
                    Ok (Some (compute, license))))))) (\<lambda>discounts.
         Ok \<lparr>vpp_purchase_option = option, vpp_available = rate \<noteq> None,
             vpp_compute_discount = map_option fst discounts, vpp_license_discount = map_option snd discounts\<rparr>))"

definition vm_purchase_option_pricing_of ::
  "dec_arith \<Rightarrow> azure_price_snapshot \<Rightarrow> string \<Rightarrow> ('e, vm_purchase_option_pricing list) outcome" where
  "vm_purchase_option_pricing_of A snapshot arm_sku_name =
     try_map (vm_option_pricing A (azure_vm_rate snapshot arm_sku_name VpoPayg) snapshot arm_sku_name)
       vm_purchase_option_all"

definition storage_inputs_of :: "dec_arith \<Rightarrow> resource \<Rightarrow> ('e, storage_inputs) outcome" where
  "storage_inputs_of A resource =
     (let sql_data = (case resource_sql resource of None \<Rightarrow> 0 | Some sql \<Rightarrow> sql_data_gb sql)
      in obind (case resource of
                  Ec2 r \<Rightarrow> d_sum A 0 (map ev_capacity_gb
                             (filter (\<lambda>v. ev_volume_type v \<noteq> Ephemeral) (ec2_volumes r)))
                | Ec2Vm r \<Rightarrow> d_sum A 0 (map vv_capacity_gb
                             (filter (\<lambda>v. vv_volume_type v \<noteq> Ephemeral) (ec2vm_volumes r)))
                | Rds _ \<Rightarrow> Ok 0
                | OnPrem _ \<Rightarrow> Ok 0) (\<lambda>persistent.
         obind (case resource of
                  Ec2Vm _ \<Rightarrow> Ok persistent
                | _ \<Rightarrow> obind (d_add A sql_data persistent) (azure_mi_configured_storage_gb A)) (\<lambda>azure.
         Ok \<lparr>si_sql_data_gb_per_instance = sql_data, si_persistent_ebs_gb_per_instance = persistent,
             si_azure_storage_gb_per_instance = azure\<rparr>)))"

section \<open>Sources\<close>

text \<open>The two arms of each \<open>match calculate_*_source\<close>: the same record with or without costs.\<close>

definition rated_source ::
  "u32 \<Rightarrow> u64 option \<Rightarrow> aws_price_snapshot \<Rightarrow> rate_provenance \<Rightarrow> source_cost_breakdown cost_result \<Rightarrow>
     ('e, resolved_source) outcome" where
  "rated_source vcpu maximum_iops snapshot provenance result =
     (let unpriced = \<lparr>rs_source_vcpu = Some vcpu, rs_source_max_iops = maximum_iops, rs_costs = None,
            rs_pricing_status = PsUnavailable,
            rs_explanation_steps =
              [source_provenance_step (rp_source_url provenance) (sm_retrieved_at (as_metadata snapshot))],
            rs_unresolved_components = []\<rparr>
      in (case result of
            Ok costs \<Rightarrow>
              Ok (unpriced\<lparr>rs_costs := Some costs,
                           rs_pricing_status := pricing_status_of (sm_status (as_metadata snapshot))\<rparr>)
          | Err error \<Rightarrow> Ok (unpriced\<lparr>rs_unresolved_components := [cost_unresolved Aws error]\<rparr>)
          | Panic \<Rightarrow> Panic))"

definition resolve_ec2_source ::
  "dec_arith \<Rightarrow> ec2_resource \<Rightarrow> calculation_input \<Rightarrow> ('e, resolved_source) outcome" where
  "resolve_ec2_source A resource i =
     (case ci_aws_snapshot i of
        None \<Rightarrow> Ok (unavailable_source Aws ''aws_snapshot_unavailable'')
      | Some snapshot \<Rightarrow>
          (case aws_ec2_rate snapshot (ec2_instance_type resource) of
             None \<Rightarrow> Ok (unavailable_source Aws ''ec2_rate_unavailable'')
           | Some record \<Rightarrow>
               (case source_max_iops resource of
                  Err error \<Rightarrow>
                    rated_source (er_source_vcpu (ae_rate record)) None snapshot (ae_provenance record) (Err error)
                | Panic \<Rightarrow> Panic
                | Ok maximum_iops \<Rightarrow>
                    rated_source (er_source_vcpu (ae_rate record)) (Some maximum_iops) snapshot (ae_provenance record)
                      (calculate_ec2_source A resource (ae_rate record) (map ab_rate (as_ebs_rates snapshot))
                         (ci_settings i)))))"

definition resolve_rds_source ::
  "dec_arith \<Rightarrow> rds_resource \<Rightarrow> calculation_input \<Rightarrow> ('e, resolved_source) outcome" where
  "resolve_rds_source A resource i =
     (case ci_aws_snapshot i of
        None \<Rightarrow> Ok (unavailable_source Aws ''aws_snapshot_unavailable'')
      | Some snapshot \<Rightarrow>
          (case aws_rds_rate snapshot (rds_instance_type resource) (rds_deployment resource)
                  (rds_commercial_term resource) (rds_storage_class resource) of
             None \<Rightarrow> Ok (unavailable_source Aws ''rds_rate_unavailable'')
           | Some record \<Rightarrow>
               rated_source (rr_source_vcpu (ad_rate record)) (Some (rds_source_max_iops resource)) snapshot
                 (ad_provenance record) (calculate_rds_source A resource (ad_rate record) (ci_settings i))))"

definition vm_source_max_iops :: "ec2_vm_resource \<Rightarrow> u64" where
  "vm_source_max_iops resource =
     foldl saturating_add 0
       (List.map_filter vv_provisioned_iops (filter (\<lambda>v. vv_volume_type v \<noteq> Ephemeral) (ec2vm_volumes resource)))"

definition resolve_ec2_vm_source ::
  "dec_arith \<Rightarrow> ec2_vm_resource \<Rightarrow> calculation_input \<Rightarrow> ('e, resolved_source) outcome" where
  "resolve_ec2_vm_source A resource i =
     (case ci_aws_snapshot i of
        None \<Rightarrow> Ok (unavailable_source Aws ''aws_snapshot_unavailable'')
      | Some snapshot \<Rightarrow>
          (case aws_ec2_rate snapshot (ec2vm_instance_type resource) of
             None \<Rightarrow> Ok (unavailable_source Aws ''ec2_vm_rate_unavailable'')
           | Some record \<Rightarrow>
               rated_source (er_source_vcpu (ae_rate record)) (Some (vm_source_max_iops resource)) snapshot
                 (ae_provenance record)
                 (calculate_ec2_vm_source A resource (ae_rate record) (map ab_rate (as_ebs_rates snapshot))
                    (ci_settings i))))"

definition resolve_on_prem_source ::
  "dec_arith \<Rightarrow> on_prem_resource \<Rightarrow> project_settings \<Rightarrow> resolved_source cost_result" where
  "resolve_on_prem_source A resource settings =
     obind (calculate_on_prem_source A resource settings) (\<lambda>result.
     Ok \<lparr>rs_source_vcpu = Some (op_source_vcpu resource), rs_source_max_iops = Some (op_source_max_iops resource),
         rs_costs = Some (ocr_costs result), rs_pricing_status = PsNotRequired,
         rs_explanation_steps =
           [on_prem_power_step (ocr_explanation result) resource,
            on_prem_cost_formula_step resource settings (ocr_costs result) (ocr_explanation result)],
         rs_unresolved_components = []\<rparr>)"

definition resolve_source :: "dec_arith \<Rightarrow> resource \<Rightarrow> calculation_input \<Rightarrow> resolved_source calculation_result" where
  "resolve_source A resource i =
     (case resource of
        Ec2 r \<Rightarrow> resolve_ec2_source A r i
      | Rds r \<Rightarrow> resolve_rds_source A r i
      | OnPrem r \<Rightarrow> map_err CalculationCost (resolve_on_prem_source A r (ci_settings i))
      | Ec2Vm _ \<Rightarrow> Panic)"

section \<open>Azure costs\<close>

type_synonym azure_costs_outcome =
  "azure_cost_breakdown option \<times> purchase_option_discounts option \<times> pricing_status \<times>
     unresolved_component list \<times> explanation_step list"

definition azure_unresolved :: "string \<Rightarrow> fmt_text \<Rightarrow> unresolved_component" where
  "azure_unresolved code message = \<lparr>uc_provider = Some Azure, uc_code = code, uc_message = message\<rparr>"

definition no_azure_costs :: "unresolved_component \<Rightarrow> azure_costs_outcome" where
  "no_azure_costs component = (None, None, PsUnavailable, [component], [])"

definition resolve_azure_costs ::
  "dec_arith \<Rightarrow> selected_target \<Rightarrow> resource \<Rightarrow> decimal_value \<Rightarrow> calculation_input \<Rightarrow>
     ('e, azure_costs_outcome) outcome" where
  "resolve_azure_costs A selected resource azure_storage_gb_per_instance i =
     (case ci_azure_snapshot i of
        None \<Rightarrow> Ok (no_azure_costs (azure_unresolved ''azure_snapshot_unavailable''
                  (Fmt ''A usable Azure price snapshot is required for target cost.'' [])))
      | Some snapshot \<Rightarrow>
          if \<not> has_complete_mi_rate_set snapshot (st_configuration_key selected)
          then Ok (no_azure_costs (azure_unresolved ''azure_price_set_incomplete''
                 (Fmt ''The selected target does not have all eight purchase options and required component prices.'' [])))
          else
            (case resource_sql resource of
               None \<Rightarrow> Ok (no_azure_costs (azure_unresolved ''azure_rate_unavailable''
                         (Fmt ''SQL Managed Instance rates do not apply to this workload.'' [])))
             | Some sql \<Rightarrow>
                 (case azure_mi_rate snapshot (st_configuration_key selected) (sql_mi_purchase_option sql) of
                    None \<Rightarrow> Ok (no_azure_costs (azure_unresolved ''azure_rate_unavailable''
                              (Fmt ''The selected target does not have a complete purchase-option rate.'' [])))
                  | Some record \<Rightarrow>
                      (case calculate_azure A (sr_quantity (resource_shared resource))
                              (sr_annual_hours (resource_shared resource)) azure_storage_gb_per_instance
                              (st_included_memory_gb selected) (st_selected_memory_gb selected)
                              (mr_rate record) (ci_settings i) of
                         Ok costs \<Rightarrow>
                           obind (purchase_option_discounts_of A snapshot (st_configuration_key selected)) (\<lambda>discounts.
                           obind (azure_cost_formula_step A selected resource azure_storage_gb_per_instance
                                    (mr_rate record) (ci_settings i) costs) (\<lambda>formula_step.
                           Ok (Some costs, discounts, pricing_status_of (sm_status (zs_metadata snapshot)), [],
                               [target_provenance_step (rp_source_url (mr_provenance record))
                                  (sm_retrieved_at (zs_metadata snapshot)), formula_step])))
                       | Err error \<Rightarrow> Ok (no_azure_costs (cost_unresolved Azure error))
                       | Panic \<Rightarrow> Panic))))"

definition resolve_managed_disk_monthly ::
  "dec_arith \<Rightarrow> azure_price_snapshot \<Rightarrow> selected_managed_disk \<Rightarrow> (decimal_value \<times> string list) cost_result" where
  "resolve_managed_disk_monthly A snapshot disk =
     (let (capacity_dimension, tier_key) =
        (case sd_tier_key disk of Some tier_key \<Rightarrow> (DimCapacityTier, Some tier_key) | None \<Rightarrow> (DimCapacityGb, None))
      in obind (ok_or (azure_managed_disk_rate snapshot (sd_offer_key disk) tier_key capacity_dimension)
                  MissingAzureManagedDiskRate) (\<lambda>capacity.
         obind (if sd_tier_key disk \<noteq> None then Ok (None, None, [])
                else
                  obind (ok_or (azure_managed_disk_rate snapshot (sd_offer_key disk) None DimAdditionalIops)
                           MissingAzureManagedDiskRate) (\<lambda>iops.
                  obind (ok_or (azure_managed_disk_rate snapshot (sd_offer_key disk) None DimAdditionalThroughput)
                           MissingAzureManagedDiskRate) (\<lambda>throughput.
                  Ok (Some (mdr_normalized_monthly_rate iops), Some (mdr_normalized_monthly_rate throughput),
                      [rp_source_url (mdr_provenance iops), rp_source_url (mdr_provenance throughput)]))))
               (\<lambda>(iops_rate, throughput_rate, more_urls).
         obind (calculate_azure_managed_disk_monthly A disk
                  \<lparr>md_capacity_monthly = mdr_normalized_monthly_rate capacity,
                   md_additional_iops_monthly_per_unit = iops_rate,
                   md_additional_throughput_monthly_per_mbps = throughput_rate\<rparr>) (\<lambda>cost.
         Ok (cost, rp_source_url (mdr_provenance capacity) # more_urls)))))"

text \<open>The loop over the disks: the sum so far and the addresses so far.\<close>

definition managed_disks_monthly ::
  "dec_arith \<Rightarrow> azure_price_snapshot \<Rightarrow> selected_managed_disk list \<Rightarrow> (rat \<times> string list) cost_result" where
  "managed_disks_monthly A snapshot disks =
     try_fold (\<lambda>(monthly_disks, disk_source_urls) disk.
       obind (resolve_managed_disk_monthly A snapshot disk) (\<lambda>(cost, source_urls).
       obind (d_add A monthly_disks cost) (\<lambda>sum. Ok (sum, disk_source_urls @ source_urls)))) (0, []) disks"

type_synonym vm_costs_outcome =
  "azure_cost_breakdown option \<times> pricing_status \<times> unresolved_component list \<times> explanation_step list"

definition no_vm_costs :: "unresolved_component \<Rightarrow> vm_costs_outcome" where
  "no_vm_costs component = (None, PsUnavailable, [component], [])"

definition resolve_azure_vm_costs ::
  "dec_arith \<Rightarrow> selected_vm_target \<Rightarrow> ec2_vm_resource \<Rightarrow> calculation_input \<Rightarrow> ('e, vm_costs_outcome) outcome" where
  "resolve_azure_vm_costs A selected resource i =
     (case ci_azure_snapshot i of
        None \<Rightarrow> Ok (no_vm_costs (azure_unresolved ''azure_snapshot_unavailable''
                  (Fmt ''A usable Azure price snapshot is required for VM target cost.'' [])))
      | Some snapshot \<Rightarrow>
          (case azure_vm_rate snapshot (vt_arm_sku_name selected) (ec2vm_purchase_option resource) of
             None \<Rightarrow> Ok (no_vm_costs (azure_unresolved ''azure_vm_purchase_option_unavailable''
                  (Fmt ''The selected Azure VM {} does not have an exact rate for purchase option {}.''
                     [ArgStr (vt_arm_sku_name selected),
                      ArgStr (vm_purchase_option_as_str (ec2vm_purchase_option resource))])))
           | Some vm_rate \<Rightarrow>
               (case managed_disks_monthly A snapshot (vt_disks selected) of
                  Err error \<Rightarrow> Ok (no_vm_costs (cost_unresolved Azure error))
                | Panic \<Rightarrow> Panic
                | Ok (monthly_disks, disk_source_urls) \<Rightarrow>
                    (case calculate_azure_vm A (sr_quantity (ec2vm_shared resource))
                            (sr_annual_hours (ec2vm_shared resource)) (vm_hourly_rate vm_rate)
                            (vm_license_hourly vm_rate) monthly_disks (ci_settings i) of
                       Ok costs \<Rightarrow>
                         Ok (Some costs, pricing_status_of (sm_status (zs_metadata snapshot)), [],
                             [target_provenance_step (rp_source_url (vm_provenance vm_rate))
                                (sm_retrieved_at (zs_metadata snapshot)),
                              vm_target_selection_step selected (sort_dedup disk_source_urls),
                              vm_azure_cost_formula_step selected resource (vm_hourly_rate vm_rate)
                                (vm_license_hourly vm_rate) monthly_disks (ci_settings i) costs])
                     | Err error \<Rightarrow> Ok (no_vm_costs (cost_unresolved Azure error))
                     | Panic \<Rightarrow> Panic))))"

section \<open>One resource\<close>

text \<open>The result of every early return: no Azure costs, discounts, option prices or savings.\<close>

definition unpriced_result ::
  "uuid \<Rightarrow> storage_inputs \<Rightarrow> resolved_source \<Rightarrow> mapping_status option \<Rightarrow> pricing_status \<Rightarrow> target_selection option \<Rightarrow>
     vm_target_selection option \<Rightarrow> resource_calculation" where
  "unpriced_result resource_id storage source mapping azure_status target_selection vm_target_selection =
     \<lparr>rc_resource_id = resource_id, rc_storage_inputs = storage, rc_mapping_status = mapping,
      rc_aws_pricing_status = rs_pricing_status source, rc_azure_pricing_status = azure_status,
      rc_target_selection = target_selection, rc_vm_target_selection = vm_target_selection,
      rc_source_costs = rs_costs source, rc_azure_costs = None, rc_purchase_option_discounts = None,
      rc_vm_purchase_option_pricing = None, rc_savings = None,
      rc_explanation_steps = rs_explanation_steps source,
      rc_unresolved_components = rs_unresolved_components source\<rparr>"

definition push_step :: "explanation_step \<Rightarrow> resolved_source \<Rightarrow> resolved_source" where
  "push_step step source = source\<lparr>rs_explanation_steps := rs_explanation_steps source @ [step]\<rparr>"

definition push_unresolved :: "provider option \<Rightarrow> string \<Rightarrow> fmt_text \<Rightarrow> resolved_source \<Rightarrow> resolved_source" where
  "push_unresolved provider code message source =
     source\<lparr>rs_unresolved_components := rs_unresolved_components source @
       [\<lparr>uc_provider = provider, uc_code = code, uc_message = message\<rparr>]\<rparr>"

definition savings_of ::
  "dec_arith \<Rightarrow> source_cost_breakdown option \<Rightarrow> azure_cost_breakdown option \<Rightarrow> decimal_value \<Rightarrow>
     ('e, savings_breakdown option \<times> explanation_step list) outcome" where
  "savings_of A costs azure_costs adjustment =
     (case zip_option costs azure_costs of
        None \<Rightarrow> Ok (None, [])
      | Some (source, azure) \<Rightarrow>
          obind (calculate_savings A source azure adjustment) (\<lambda>savings.
          Ok (Some savings, [savings_formula_step source azure savings, parity_formula_step source azure savings])))"

definition mi_selection_request ::
  "resource \<Rightarrow> u32 \<Rightarrow> u64 \<Rightarrow> storage_inputs \<Rightarrow> calculation_input \<Rightarrow> target_selection_request" where
  "mi_selection_request resource source_vcpu maximum_iops storage i =
     \<lparr>tr_azure_region = ps_azure_region (ci_settings i), tr_source_vcpu = source_vcpu,
      tr_source_memory_gb = sr_source_ram_gb (resource_shared resource),
      tr_required_storage_gb = si_azure_storage_gb_per_instance storage,
      tr_source_max_iops = maximum_iops, tr_workbook_parity_mode = True\<rparr>"

definition mapped_mi_result ::
  "dec_arith \<Rightarrow> resource \<Rightarrow> calculation_input \<Rightarrow> storage_inputs \<Rightarrow> resolved_source \<Rightarrow> target_selection \<Rightarrow>
     selected_target \<Rightarrow> resource_calculation calculation_result" where
  "mapped_mi_result A resource i storage source target_selection selected =
     obind (resolve_azure_costs A selected resource (si_azure_storage_gb_per_instance storage) i)
       (\<lambda>(azure_costs, discounts, azure_pricing_status, azure_unresolved, azure_steps).
     obind (savings_of A (rs_costs source) azure_costs (ps_selected_parity_adjustment (ci_settings i)))
       (\<lambda>(savings, savings_steps).
     Ok ((unpriced_result (sr_id (resource_shared resource)) storage source (Some Mapped) azure_pricing_status
            (Some target_selection) None)
          \<lparr>rc_azure_costs := azure_costs, rc_purchase_option_discounts := discounts, rc_savings := savings,
           rc_explanation_steps := rs_explanation_steps source @ azure_steps @ savings_steps,
           rc_unresolved_components := rs_unresolved_components source @ azure_unresolved\<rparr>)))"

definition explain_source ::
  "dec_arith \<Rightarrow> resource \<Rightarrow> calculation_input \<Rightarrow> storage_inputs \<Rightarrow> u32 \<Rightarrow> u64 \<Rightarrow> resolved_source \<Rightarrow>
     ('e, resolved_source) outcome" where
  "explain_source A resource i storage source_vcpu maximum_iops source =
     obind (source_input_step A source_vcpu maximum_iops resource storage) (\<lambda>input_step.
     obind (case rs_costs source of
              None \<Rightarrow> Ok None
            | Some costs \<Rightarrow> source_cost_formula_step A resource source_vcpu (ci_settings i) costs) (\<lambda>formula_step.
     let source' = push_step input_step source
     in Ok (case formula_step of None \<Rightarrow> source' | Some step \<Rightarrow> push_step step source')))"

text \<open>The path of SQL Server workloads, from the storage that every resource computes first.\<close>

definition calculate_mi_resource ::
  "calculation_engine \<Rightarrow> dec_arith \<Rightarrow> resource \<Rightarrow> storage_inputs \<Rightarrow> calculation_input \<Rightarrow>
     resource_calculation calculation_result" where
  "calculate_mi_resource E A resource storage i =
     obind (resolve_source A resource i) (\<lambda>source.
     case rs_source_vcpu source of
       None \<Rightarrow>
         Ok (unpriced_result (sr_id (resource_shared resource)) storage
               (push_unresolved (Some Aws) ''source_metadata_unavailable''
                  (Fmt ''Source sizing metadata is unavailable, so target mapping was not evaluated.'' []) source)
               None PsUnavailable None None)
     | Some source_vcpu \<Rightarrow>
         let maximum_iops = (case rs_source_max_iops source of None \<Rightarrow> 0 | Some iops \<Rightarrow> iops)
         in obind (map_err CalculationTarget (select_target A (ce_capabilities E)
                     (mi_selection_request resource source_vcpu maximum_iops storage i))) (\<lambda>target_selection.
            obind (explain_source A resource i storage source_vcpu maximum_iops source) (\<lambda>source.
            if ts_mapping_status target_selection = NoMapping
            then Ok (unpriced_result (sr_id (resource_shared resource)) storage source (Some NoMapping) PsNotRequired
                       (Some target_selection) None)
            else
              obind (ok_or (ts_selected target_selection) InvalidTargetSelection) (\<lambda>selected.
              mapped_mi_result A resource i storage source target_selection selected))))"

section \<open>A virtual machine\<close>

definition effective_vm_class ::
  "ec2_vm_requirements \<Rightarrow> source_class \<Rightarrow> source_class \<times> vm_recommendation_status \<times> vm_selection_reason list" where
  "effective_vm_class requirements source_class =
     (let (effective_source_class, recommendation_status, semantic_reasons) =
        (if source_class = ScBurstable
         then (case vmr_burst_policy requirements of
                 ConfirmedBurstCompatible \<Rightarrow> (source_class, Recommended, [])
               | BurstNotApplicable \<Rightarrow> (source_class, Recommended, [])
               | RequiresSustainedCpu \<Rightarrow> (ScGeneralPurpose, Recommended, [])
               | BurstUnknown \<Rightarrow>
                   (ScGeneralPurpose, CapacityFitReviewRequired,
                    [vm_reason BurstPolicyReviewRequired
                       (Fmt ''Burst suitability is unknown, so a conservative D-series capacity fit was evaluated and requires review.'' [])]))
         else (source_class, Recommended, []))
      in if source_class = ScHighFrequencyMemoryOptimized
         then (effective_source_class, CapacityFitReviewRequired,
               semantic_reasons @
               [vm_reason HighFrequencyReviewRequired
                  (Fmt (case vmr_high_frequency_requirement requirements of
                          HfRequired \<Rightarrow> ''Per-core performance is required; the selected E-series target is capacity-only and is not a performance-equivalence recommendation.''
                        | HfUnknown \<Rightarrow> ''Per-core performance requirements are unknown; the selected E-series target is capacity-only and requires review.''
                        | HfCapacityFitAccepted \<Rightarrow> ''The E-series target is a capacity fit only; per-core performance equivalence is not claimed.''
                        | HfNotApplicable \<Rightarrow> ''The E-series target is a capacity fit only; per-core performance equivalence is not claimed.'') [])])
         else (effective_source_class, recommendation_status, semantic_reasons))"

definition vm_volume_requirements :: "ec2_vm_resource \<Rightarrow> vm_volume_requirement list" where
  "vm_volume_requirements resource =
     map (\<lambda>v. \<lparr>vr_volume_id = vv_id v, vr_label = vv_label v, vr_role = vv_role v,
                vr_capacity_gb = vv_capacity_gb v,
                vr_iops = (case vv_provisioned_iops v of None \<Rightarrow> 0 | Some iops \<Rightarrow> iops),
                vr_throughput_mbps = (case vv_throughput_mibps v of None \<Rightarrow> 0 | Some t \<Rightarrow> t)\<rparr>)
       (filter (\<lambda>v. vv_volume_type v \<noteq> Ephemeral) (ec2vm_volumes resource))"

definition vm_local_capacity :: "ec2_vm_resource \<Rightarrow> decimal_value" where
  "vm_local_capacity resource =
     (case vmr_required_local_temp_disk_gb (ec2vm_requirements resource) of None \<Rightarrow> 0 | Some gb \<Rightarrow> gb)"

definition vm_incomplete_reason ::
  "ec2_vm_resource \<Rightarrow> vm_volume_requirement list \<Rightarrow> vm_selection_reason option" where
  "vm_incomplete_reason resource volumes =
     (let requirements = ec2vm_requirements resource
      in if list_ex (\<lambda>v. vr_role v = RoleUnknown) volumes
         then Some (vm_reason VolumeRoleUnconfirmed
                (Fmt ''Every persistent volume must be confirmed as the OS or a data disk before target selection.'' []))
         else if vmr_instance_store_use requirements = StoreUnknown
         then Some (vm_reason InstanceStoreReviewRequired
                (Fmt ''Source instance-store use is unknown and must be confirmed before target selection.'' []))
         else if vmr_instance_store_use requirements = StoreUsed \<and>
                 (vm_local_capacity resource \<le> 0 \<or> vmr_ephemeral_data_loss_acceptable requirements = None)
         then Some (vm_reason InstanceStoreReviewRequired
                (Fmt ''Used instance storage requires positive capacity and an explicit ephemeral data-loss decision.'' []))
         else None)"

definition vm_not_evaluated ::
  "vm_recommendation_status \<Rightarrow> source_class \<Rightarrow> vm_selection_reason list \<Rightarrow> vm_target_selection" where
  "vm_not_evaluated status source_class reasons =
     \<lparr>vs_mapping_status = NoMapping, vs_recommendation_status = status,
      vs_requested_lineage = target_lineage source_class, vs_selected = None, vs_candidates = [],
      vs_outcome_reasons = reasons\<rparr>"

definition vm_selection_request ::
  "ec2_vm_resource \<Rightarrow> calculation_input \<Rightarrow> source_class \<Rightarrow> u32 \<Rightarrow> vm_volume_requirement list \<Rightarrow>
     vm_target_selection_request" where
  "vm_selection_request resource i source_class source_vcpu volumes =
     \<lparr>vq_azure_region = ps_azure_region (ci_settings i), vq_source_class = source_class,
      vq_minimum_vcpu = source_vcpu, vq_minimum_memory_gb = sr_source_ram_gb (ec2vm_shared resource),
      vq_requires_local_temp_disk = (vmr_instance_store_use (ec2vm_requirements resource) = StoreUsed),
      vq_minimum_local_temp_disk_gb = vm_local_capacity resource, vq_volumes = volumes,
      vq_requested_target_arm_sku = vmr_requested_target_arm_sku (ec2vm_requirements resource),
      vq_price_availability = map_option vm_price_availability_of (ci_azure_snapshot i)\<rparr>"

definition vm_price_blocked :: "vm_target_selection \<Rightarrow> bool" where
  "vm_price_blocked target_selection \<longleftrightarrow>
     list_ex (\<lambda>candidate. ve_rejection_reasons candidate \<noteq> [] \<and>
       list_all (\<lambda>reason. vsr_code reason = PriceUnavailable) (ve_rejection_reasons candidate))
       (vs_candidates target_selection)"

definition vm_no_mapping_result ::
  "ec2_vm_resource \<Rightarrow> storage_inputs \<Rightarrow> resolved_source \<Rightarrow> vm_target_selection \<Rightarrow> resource_calculation" where
  "vm_no_mapping_result resource storage source target_selection =
     (let message = Fmt ''No technically eligible reviewed Azure VM has complete PAYG VM and managed-disk prices in the coherent snapshot.'' []
      in if vm_price_blocked target_selection
         then unpriced_result (sr_id (ec2vm_shared resource)) storage
                (push_unresolved (Some Azure) ''azure_vm_price_unavailable'' message source)
                (Some NoMapping) PsUnavailable None
                (Some (target_selection\<lparr>vs_recommendation_status := Incomplete,
                   vs_outcome_reasons := vs_outcome_reasons target_selection @ [vm_reason PriceUnavailable message]\<rparr>))
         else unpriced_result (sr_id (ec2vm_shared resource)) storage source (Some NoMapping) PsNotRequired None
                (Some target_selection))"

definition vm_mapped_result ::
  "dec_arith \<Rightarrow> ec2_vm_resource \<Rightarrow> calculation_input \<Rightarrow> storage_inputs \<Rightarrow> resolved_source \<Rightarrow> vm_target_selection \<Rightarrow>
     selected_vm_target \<Rightarrow> resource_calculation calculation_result" where
  "vm_mapped_result A resource i storage source target_selection selected =
     obind (case ci_azure_snapshot i of
              None \<Rightarrow> Ok None
            | Some snapshot \<Rightarrow>
                obind (vm_purchase_option_pricing_of A snapshot (vt_arm_sku_name selected)) (\<lambda>prices. Ok (Some prices)))
       (\<lambda>option_pricing.
     obind (d_sum A 0 (map sd_capacity_gb (vt_disks selected))) (\<lambda>azure_storage.
     obind (resolve_azure_vm_costs A selected resource i) (\<lambda>(azure_costs, azure_pricing_status, unresolved, steps).
     obind (savings_of A (rs_costs source) azure_costs (ps_selected_parity_adjustment (ci_settings i)))
       (\<lambda>(savings, savings_steps).
     let target_selection' =
           (if azure_costs = None
            then target_selection\<lparr>vs_recommendation_status := Incomplete,
                   vs_outcome_reasons := vs_outcome_reasons target_selection @
                     [vm_reason PriceUnavailable
                        (Fmt ''The selected VM or one of its managed disks lacks a complete coherent target price.'' [])]\<rparr>
            else target_selection)
     in Ok ((unpriced_result (sr_id (ec2vm_shared resource))
               (storage\<lparr>si_azure_storage_gb_per_instance := azure_storage\<rparr>) source (Some Mapped)
               azure_pricing_status None (Some target_selection'))
             \<lparr>rc_azure_costs := azure_costs, rc_vm_purchase_option_pricing := option_pricing, rc_savings := savings,
              rc_explanation_steps := rs_explanation_steps source @ steps @ savings_steps,
              rc_unresolved_components := rs_unresolved_components source @ unresolved\<rparr>)))))"

text \<open>What follows the classification of the source: requirements that rule a target out, then the selection.\<close>

definition select_vm_resource ::
  "calculation_engine \<Rightarrow> dec_arith \<Rightarrow> ec2_vm_resource \<Rightarrow> storage_inputs \<Rightarrow> calculation_input \<Rightarrow> resolved_source \<Rightarrow>
     source_class \<Rightarrow> vm_recommendation_status \<Rightarrow> vm_selection_reason list \<Rightarrow> u32 \<Rightarrow>
     resource_calculation calculation_result" where
  "select_vm_resource E A resource storage i source source_class recommendation_status semantic_reasons source_vcpu =
     (let resource_id = sr_id (ec2vm_shared resource); requirements = ec2vm_requirements resource;
          volumes = vm_volume_requirements resource
      in case vm_incomplete_reason resource volumes of
           Some incomplete_reason \<Rightarrow>
             Ok (unpriced_result resource_id storage source None PsNotRequired None
                   (Some (vm_not_evaluated Incomplete source_class (semantic_reasons @ [incomplete_reason]))))
         | None \<Rightarrow>
             if vmr_instance_store_use requirements = StoreUsed \<and>
                vmr_ephemeral_data_loss_acceptable requirements = Some False
             then Ok (unpriced_result resource_id storage source (Some NoMapping) PsNotRequired None
                    (Some (vm_not_evaluated NoEligibleTarget source_class
                       (semantic_reasons @
                        [vm_reason EphemeralDataLossIncompatible
                           (Fmt ''The workload cannot tolerate ephemeral data loss, so an Azure temporary disk cannot satisfy the declared instance-store requirement.'' [])]))))
             else
               obind (map_err CalculationVmTarget
                        (select_vm_target A (ce_vm_capabilities E) (ce_managed_disk_capabilities E)
                          (vm_selection_request resource i source_class source_vcpu volumes))) (\<lambda>evaluated.
               let target_selection =
                     evaluated\<lparr>vs_recommendation_status :=
                         (if vs_mapping_status evaluated = Mapped then recommendation_status
                          else vs_recommendation_status evaluated),
                       vs_outcome_reasons := vs_outcome_reasons evaluated @ semantic_reasons\<rparr>
               in if vs_mapping_status target_selection = NoMapping
                  then Ok (vm_no_mapping_result resource storage source target_selection)
                  else
                    obind (ok_or (vs_selected target_selection) InvalidTargetSelection) (\<lambda>selected.
                    vm_mapped_result A resource i storage source target_selection selected)))"

definition calculate_ec2_vm_resource ::
  "calculation_engine \<Rightarrow> dec_arith \<Rightarrow> ec2_vm_resource \<Rightarrow> storage_inputs \<Rightarrow> calculation_input \<Rightarrow>
     resource_calculation calculation_result" where
  "calculate_ec2_vm_resource E A resource storage i =
     obind (resolve_ec2_vm_source A resource i) (\<lambda>resolved.
     let source = push_step (vm_assumptions_step resource) resolved; resource_id = sr_id (ec2vm_shared resource)
     in case rs_source_vcpu source of
          None \<Rightarrow>
            Ok (unpriced_result resource_id storage
                  (push_unresolved (Some Aws) ''source_metadata_unavailable''
                     (Fmt ''Source sizing metadata is unavailable, so VM target mapping was not evaluated.'' []) source)
                  None PsUnavailable None None)
        | Some source_vcpu \<Rightarrow>
            (case classify_source_instance (ec2vm_instance_type resource) of
               None \<Rightarrow>
                 Ok (unpriced_result resource_id storage
                       (push_unresolved None ''source_class_unsupported''
                          (Fmt ''{} is not in the reviewed EC2 VM family mapping policy.''
                             [ArgStr (ec2vm_instance_type resource)]) source)
                       None PsNotRequired None None)
             | Some source_class \<Rightarrow>
                 let (effective_source_class, recommendation_status, semantic_reasons) =
                       effective_vm_class (ec2vm_requirements resource) source_class
                 in obind (vm_source_input_step A resource source_vcpu effective_source_class
                            (vm_volume_requirements resource)) (\<lambda>input_step.
                    obind (case rs_costs source of
                             None \<Rightarrow> Ok []
                           | Some costs \<Rightarrow>
                               obind (vm_source_cost_formula_step A resource (ci_settings i) costs) (\<lambda>step.
                               Ok [step])) (\<lambda>formula_steps.
                    select_vm_resource E A resource storage i
                      (source\<lparr>rs_explanation_steps := rs_explanation_steps source @ input_step # formula_steps\<rparr>)
                      effective_source_class recommendation_status semantic_reasons source_vcpu))))"

definition calculate_resource ::
  "calculation_engine \<Rightarrow> dec_arith \<Rightarrow> calculation_input \<Rightarrow> resource \<Rightarrow> resource_calculation calculation_result" where
  "calculate_resource E A i resource =
     obind (storage_inputs_of A resource) (\<lambda>storage.
     case resource of
       Ec2Vm vm \<Rightarrow> calculate_ec2_vm_resource E A vm storage i
     | _ \<Rightarrow> calculate_mi_resource E A resource storage i)"

section \<open>The portfolio and the revision\<close>

definition priced_pair :: "resource_calculation \<Rightarrow> (source_cost_breakdown \<times> azure_cost_breakdown) option" where
  "priced_pair r = zip_option (rc_source_costs r) (rc_azure_costs r)"

definition calculate_portfolio ::
  "dec_arith \<Rightarrow> resource_calculation list \<Rightarrow> decimal_value \<Rightarrow> ('e, portfolio_totals) outcome" where
  "calculate_portfolio A results selected_adjustment =
     obind (if list_all (\<lambda>r. rc_source_costs r \<noteq> None) results
            then obind (d_sum A 0 (map sc_total (List.map_filter rc_source_costs results))) (\<lambda>sum. Ok (Some sum))
            else Ok None) (\<lambda>aws_all_rows_total.
     let comparable = List.map_filter priced_pair results
     in obind (d_sum A 0 (map (\<lambda>p. sc_total (fst p)) comparable)) (\<lambda>aws_mapped_rows_total.
        obind (d_sum A 0 (map (\<lambda>p. ac_total_before_parity (snd p)) comparable)) (\<lambda>azure_mapped_rows_total.
        obind (if azure_mapped_rows_total = 0 then Ok 0
               else obind (d_div A aws_mapped_rows_total azure_mapped_rows_total) (\<lambda>ratio. d_sub A 1 ratio))
          (\<lambda>required_portfolio_adjustment.
        obind (d_sub A 1 selected_adjustment) (\<lambda>kept.
        obind (d_mul A azure_mapped_rows_total kept) (\<lambda>portfolio_after_selected_parity.
        obind (d_sub A portfolio_after_selected_parity aws_mapped_rows_total) (\<lambda>portfolio_difference.
        Ok \<lparr>pt_aws_all_rows_total = aws_all_rows_total,
            pt_aws_mapped_rows_total = aws_mapped_rows_total,
            pt_azure_mapped_rows_total = azure_mapped_rows_total,
            pt_required_portfolio_adjustment = required_portfolio_adjustment,
            pt_selected_parity_adjustment = selected_adjustment,
            pt_portfolio_after_selected_parity = portfolio_after_selected_parity,
            pt_portfolio_difference = portfolio_difference,
            pt_comparable_resource_count = length comparable,
            pt_no_mapping_resource_count =
              length (filter (\<lambda>r. rc_mapping_status r = Some NoMapping) results),
            pt_price_unavailable_resource_count =
              length (filter (\<lambda>r. rc_aws_pricing_status r = PsUnavailable \<or>
                                  rc_azure_pricing_status r = PsUnavailable) results)\<rparr>)))))))"

definition calculate_sql_payg ::
  "calculation_engine \<Rightarrow> dec_arith \<Rightarrow> calculation_input \<Rightarrow> calculation_revision calculation_result" where
  "calculate_sql_payg E A i =
     obind (ok_or (ps_sql_payg (ci_settings i))
              (CalculationInvalid [issue ''/settings/sql_payg'' ''required''
                 ''SQL Pay As You Go licensing inputs are required.''])) (\<lambda>settings.
     obind (map_err CalculationSqlPayg (SqlPayg.calculate A
              \<lparr>spi_enterprise_licensed_cores = sps_enterprise_licensed_cores settings,
               spi_standard_licensed_cores = sps_standard_licensed_cores settings,
               spi_software_assurance_annual_usd = sps_software_assurance_annual_usd settings,
               spi_annual_hours = ps_default_annual_hours (ci_settings i),
               spi_applied_payg_discount = ps_selected_parity_adjustment (ci_settings i)\<rparr>)) (\<lambda>analysis.
     let source_total = spa_software_assurance_annual_usd analysis;
         payg_net_total = spa_payg_net_annual_usd analysis
     in obind (d_sub A payg_net_total source_total) (\<lambda>difference.
        Ok \<lparr>cr_formula_version = ce_formula_version E, cr_aws_snapshot_id = None, cr_azure_snapshot_id = None,
            cr_resource_results = [],
            cr_portfolio_totals =
              \<lparr>pt_aws_all_rows_total = Some source_total, pt_aws_mapped_rows_total = source_total,
               pt_azure_mapped_rows_total = spa_payg_gross_annual_usd analysis,
               pt_required_portfolio_adjustment = spa_required_payg_discount analysis,
               pt_selected_parity_adjustment = spa_applied_payg_discount analysis,
               pt_portfolio_after_selected_parity = payg_net_total, pt_portfolio_difference = difference,
               pt_comparable_resource_count = 1, pt_no_mapping_resource_count = 0,
               pt_price_unavailable_resource_count = 0\<rparr>,
            cr_warnings =
              [''The estimate compares annual Software Assurance or renewal spend with Azure Arc SQL Server PAYG licensing at the entered utilization and applied discount; perpetual acquisition cost is excluded as a sunk cost.'',
               ''Agreement, entitlement, true-up, buyout, passive replica, outsourcing, and edition-specific terms must be confirmed against the customer's current contract and Microsoft Product Terms.''],
            cr_sql_payg_analysis = Some analysis\<rparr>)))"

definition calculation_warnings :: "calculation_input \<Rightarrow> string list" where
  "calculation_warnings i =
     sort_dedup
       ((case ci_aws_snapshot i of None \<Rightarrow> []
         | Some s \<Rightarrow> relevant_for_resources (sm_warnings (as_metadata s)) (ci_resources i)) @
        (case ci_azure_snapshot i of None \<Rightarrow> []
         | Some s \<Rightarrow> relevant_for_resources (sm_warnings (zs_metadata s)) (ci_resources i)) @
        (if is_some_and (\<lambda>s. sm_status (as_metadata s) = Stale) (ci_aws_snapshot i)
         then [''AWS pricing snapshot is stale but still within the usable window.''] else []) @
        (if is_some_and (\<lambda>s. sm_status (zs_metadata s) = Stale) (ci_azure_snapshot i)
         then [''Azure pricing snapshot is stale but still within the usable window.''] else []))"

definition engine_calculate ::
  "calculation_engine \<Rightarrow> dec_arith \<Rightarrow> calculation_input \<Rightarrow> calculation_revision calculation_result" where
  "engine_calculate E A i =
     obind (validate_calculation_input E i) (\<lambda>_.
     if ps_project_type (ci_settings i) = PtSqlPayg then calculate_sql_payg E A i
     else
       obind (try_map (calculate_resource E A i) (ci_resources i)) (\<lambda>resource_results.
       obind (calculate_portfolio A resource_results (ps_selected_parity_adjustment (ci_settings i)))
         (\<lambda>portfolio_totals.
       Ok \<lparr>cr_formula_version = ce_formula_version E,
           cr_aws_snapshot_id = map_option (\<lambda>s. sm_snapshot_id (as_metadata s)) (ci_aws_snapshot i),
           cr_azure_snapshot_id = map_option (\<lambda>s. sm_snapshot_id (zs_metadata s)) (ci_azure_snapshot i),
           cr_resource_results = resource_results, cr_portfolio_totals = portfolio_totals,
           cr_warnings = calculation_warnings i, cr_sql_payg_analysis = None\<rparr>)))"

end
