(* ===== verification/WorkflowErrors.thy ===== *)
theory WorkflowErrors
  imports Workflow SnapshotFacts
begin

text \<open>
  When a calculation fails. The selectors, the cost engine and the explanations have errors of their own;
  after the input's validation none of them can reach the caller, so a calculation ends with an error
  exactly if its input is not acceptable. \<open>no_err\<close> collects the rules that follow the structure of a term.
\<close>

lemma list_all2_in_right: "list_all2 P xs ys \<Longrightarrow> y \<in> set ys \<Longrightarrow> \<exists>x\<in>set xs. P x y"
  by (induction rule: list_all2_induct) auto

named_theorems no_err_intros "outcomes that are no error"

definition no_err :: "('e, 'a) outcome \<Rightarrow> bool" where
  "no_err m \<longleftrightarrow> (\<forall>e. m \<noteq> Err e)"

lemma no_err_ends [no_err_intros]: "no_err (Ok x)" "no_err Panic"
  by (simp_all add: no_err_def)

lemma no_err_obind [no_err_intros]:
  "no_err m \<Longrightarrow> (\<And>x. m = Ok x \<Longrightarrow> no_err (f x)) \<Longrightarrow> no_err (obind m f)"
  by (auto simp: no_err_def obind_Err_iff)

lemma no_err_arith [no_err_intros]:
  "no_err (d_add A x y)" "no_err (d_sub A x y)" "no_err (d_mul A x y)" "no_err (d_div A x y)" "no_err (d_rem A x y)"
  by (simp_all add: no_err_def)

lemma no_err_try_fold [no_err_intros]: "(\<And>a x. x \<in> set xs \<Longrightarrow> no_err (f a x)) \<Longrightarrow> no_err (try_fold f a xs)"
proof (induction xs arbitrary: a)
  case (Cons x xs)
  have "no_err (f a x)" using Cons.prems by simp
  moreover have "no_err (try_fold f a' xs)" for a' using Cons.prems by (intro Cons.IH) simp
  ultimately show ?case unfolding try_fold.simps by (intro no_err_obind)
qed (simp add: no_err_ends)

lemma no_err_try_map [no_err_intros]: "(\<And>x. x \<in> set xs \<Longrightarrow> no_err (f x)) \<Longrightarrow> no_err (try_map f xs)"
  by (induction xs) (simp_all add: no_err_intros)

lemma no_err_sums [no_err_intros]: "no_err (d_sum A x ys)" "no_err (d_prod A x ys)"
  unfolding d_sum_def d_prod_def by (intro no_err_intros)+

lemma no_err_if [no_err_intros]: "(b \<Longrightarrow> no_err m) \<Longrightarrow> (\<not> b \<Longrightarrow> no_err n) \<Longrightarrow> no_err (if b then m else n)"
  by simp

lemma no_err_option [no_err_intros]:
  "(r = None \<Longrightarrow> no_err m) \<Longrightarrow> (\<And>x. r = Some x \<Longrightarrow> no_err (f x)) \<Longrightarrow> no_err (case r of None \<Rightarrow> m | Some x \<Rightarrow> f x)"
  by (cases r) simp_all

lemma no_err_prod [no_err_intros]: "(\<And>x y. p = (x, y) \<Longrightarrow> no_err (f x y)) \<Longrightarrow> no_err (case p of (x, y) \<Rightarrow> f x y)"
  by (cases p) simp

lemma no_err_Let [no_err_intros]: "no_err (f x) \<Longrightarrow> no_err (Let x f)"
  by simp

lemma no_err_caught [no_err_intros]:
  "(\<And>x. m = Ok x \<Longrightarrow> no_err (f x)) \<Longrightarrow> (\<And>e. m = Err e \<Longrightarrow> no_err (g e)) \<Longrightarrow> no_err p \<Longrightarrow>
     no_err (case m of Ok x \<Rightarrow> f x | Err e \<Rightarrow> g e | Panic \<Rightarrow> p)"
  by (cases m) simp_all

lemma no_err_resource [no_err_intros]:
  "(\<And>x. r = Ec2 x \<Longrightarrow> no_err (f x)) \<Longrightarrow> (\<And>x. r = Ec2Vm x \<Longrightarrow> no_err (g x)) \<Longrightarrow> (\<And>x. r = Rds x \<Longrightarrow> no_err (h x)) \<Longrightarrow>
     (\<And>x. r = OnPrem x \<Longrightarrow> no_err (k x)) \<Longrightarrow>
     no_err (case r of Ec2 x \<Rightarrow> f x | Ec2Vm x \<Rightarrow> g x | Rds x \<Rightarrow> h x | OnPrem x \<Rightarrow> k x)"
  by (cases r) simp_all

lemma no_err_map_err [no_err_intros]: "no_err m \<Longrightarrow> no_err (map_err f m)"
  by (cases m) (simp_all add: no_err_def)

lemma no_err_ok_or [no_err_intros]: "r \<noteq> None \<Longrightarrow> no_err (ok_or r e)"
  by (auto simp: no_err_def)

lemma no_err_or_panic [no_err_intros]: "no_err (or_panic r)"
  by (simp add: no_err_def)

section \<open>The selectors\<close>

lemma no_err_sorted [no_err_intros]:
  assumes "\<And>x y. no_err (c x y)"
  shows "no_err (try_sort_by c xs)" "no_err (try_min_by c xs)"
proof -
  have i: "no_err (try_insort_by c x ys)" for x ys
    by (induction ys) (auto intro!: no_err_intros assms)
  show "no_err (try_sort_by c xs)" by (induction xs) (auto intro!: no_err_intros i)
  have "no_err (try_min_from c b ys)" for b ys
    by (induction ys arbitrary: b) (auto intro!: no_err_intros assms)
  then show "no_err (try_min_by c xs)" by (cases xs) (auto intro!: no_err_intros)
qed

lemma no_err_candidates [no_err_intros]:
  "no_err (eligible_candidates A cat q tier b)" "no_err (closest_capacity_candidate A cat q tier b)"
  "no_err (selected_target_of A e)"
  unfolding eligible_candidates_def closest_capacity_candidate_def closest_of_def selected_target_of_def
    compare_candidates_def [abs_def] compare_capacity_def [abs_def] decimal_distance_def
  by (intro no_err_intros)+

lemma no_err_select_target: "validate_request q = Ok () \<Longrightarrow> no_err (select_target A cat q)"
  unfolding select_target_def by (simp, intro no_err_intros)

lemma select_target_mapped:
  "select_target A cat q = Ok s \<Longrightarrow> ts_mapping_status s = (if ts_selected s \<noteq> None then Mapped else NoMapping)"
  by (erule select_target_elim) simp

lemma no_err_vm_candidates [no_err_intros]:
  "no_err (evaluate_vm_candidate A dc q c)" "no_err (best_candidate A q es)"
  unfolding evaluate_vm_candidate_def select_disks_def select_disk_def offer_disk_def independent_disk_def
    round_up_capacity_def aggregate_rejections_def best_candidate_def rank_def [abs_def] disk_capacity_def
  by (intro no_err_intros)+

lemma no_err_select_vm_target: "vm_validate_request q = Ok () \<Longrightarrow> no_err (select_vm_target A vcat dc q)"
  unfolding select_vm_target_def by (simp, intro no_err_intros)

lemma select_vm_target_mapped:
  "select_vm_target A vcat dc q = Ok s \<Longrightarrow> vs_mapping_status s = (if vs_selected s \<noteq> None then Mapped else NoMapping)"
  by (erule select_vm_target_elim) (simp split: if_splits)

section \<open>Costs and explanations\<close>

lemma no_err_steps [no_err_intros]:
  "no_err (divide_or_zero A x y)"
  "no_err (source_input_step A vcpu iops r si)" "no_err (vm_source_input_step A vm vcpu cls vs)"
  "no_err (vm_source_cost_formula_step A vm settings costs)"
  "no_err (source_cost_formula_step A r vcpu settings costs)"
  "no_err (azure_cost_formula_step A t r gb rate settings ac)"
  unfolding divide_or_zero_def source_input_step_def vm_source_input_step_def vm_source_cost_formula_step_def
    source_cost_formula_step_def source_formula_values_def ec2_formula_values_def rds_formula_values_def
    azure_cost_formula_step_def azure_mi_billable_storage_gb_def
  by (intro no_err_intros)+

lemma no_err_amounts [no_err_intros]:
  "no_err (rate_discount A x y)" "no_err (purchase_option_discounts_of A z key)"
  "no_err (vm_purchase_option_pricing_of A z sku)" "no_err (storage_inputs_of A r)"
  "no_err (savings_of A sc ac adj)" "no_err (calculate_portfolio A cs adj)"
  unfolding rate_discount_def purchase_option_discounts_of_def vm_purchase_option_pricing_of_def
    vm_option_pricing_def [abs_def] storage_inputs_of_def azure_mi_configured_storage_gb_def [abs_def]
    savings_of_def calculate_savings_def calculate_portfolio_def
  by (intro no_err_intros)+

lemma no_err_resolved [no_err_intros]:
  "no_err (rated_source vcpu iops w p result)" "no_err (resolve_ec2_source A e i)" "no_err (resolve_rds_source A d i)"
  "no_err (resolve_ec2_vm_source A vm i)" "no_err (resolve_azure_costs A t r gb i)"
  "no_err (resolve_azure_vm_costs A vt vm i)"
  unfolding rated_source_def resolve_ec2_source_def resolve_rds_source_def resolve_ec2_vm_source_def
    resolve_azure_costs_def resolve_azure_vm_costs_def
  by (intro no_err_intros)+

lemma no_err_on_prem:
  assumes "on_prem_settings_ok settings"
  shows "no_err (calculate_on_prem_source A r settings)"
proof -
  obtain e t m k where s: "ps_enterprise_license_sa_pack settings = Some e" "ps_standard_license_sa_pack settings = Some t"
    "ps_remaining_coverage_months settings = Some m" "ps_electricity_rate settings = Some k" "0 < e" "0 < t" "0 \<le> k"
    using assms by (auto simp: on_prem_settings_ok_def)
  then have v: "no_err (validate_rate e)" "no_err (validate_rate t)" "no_err (validate_rate k)"
    by (simp_all add: validate_rate_def no_err_def)
  show ?thesis
    unfolding calculate_on_prem_source_def estimated_power_def apply_discount_def source_costs_def s option.simps
    by (intro no_err_intros) (use v s in \<open>auto split: sql_edition.splits\<close>)
qed

section \<open>Acceptable input\<close>

definition validation_project :: "calculation_input \<Rightarrow> editable_project" where
  "validation_project i =
     \<lparr>ep_name = ''Calculation'', ep_description = None, ep_settings = ci_settings i, ep_resources = ci_resources i,
      ep_aws_price_snapshot_id = map_option (\<lambda>s. sm_snapshot_id (as_metadata s)) (ci_aws_snapshot i),
      ep_azure_price_snapshot_id = map_option (\<lambda>s. sm_snapshot_id (zs_metadata s)) (ci_azure_snapshot i)\<rparr>"

definition aws_in_scope :: "project_settings \<Rightarrow> aws_price_snapshot \<Rightarrow> bool" where
  "aws_in_scope settings s \<longleftrightarrow>
     sm_provider (as_metadata s) = Aws \<and> sm_currency (as_metadata s) = ps_currency settings \<and>
     ps_aws_region settings = Some (as_source_region s)"

definition azure_in_scope :: "project_settings \<Rightarrow> azure_price_snapshot \<Rightarrow> bool" where
  "azure_in_scope settings s \<longleftrightarrow>
     sm_provider (zs_metadata s) = Azure \<and> sm_currency (zs_metadata s) = ps_currency settings \<and>
     ps_azure_region settings = zs_target_region s"

definition calculation_input_ok :: "calculation_engine \<Rightarrow> calculation_input \<Rightarrow> bool" where
  "calculation_input_ok E i \<longleftrightarrow>
     (\<forall>v. ci_expected_formula_version i = Some v \<longrightarrow> v = ce_formula_version E) \<and>
     project_ok (validation_project i) \<and>
     (\<forall>s. ci_aws_snapshot i = Some s \<longrightarrow> aws_in_scope (ci_settings i) s) \<and>
     (\<forall>s. ci_azure_snapshot i = Some s \<longrightarrow> azure_in_scope (ci_settings i) s)"

lemma validate_calculation_input_Ok:
  "validate_calculation_input E i = Ok () \<longleftrightarrow> calculation_input_ok E i"
  "validate_calculation_input E i \<noteq> Panic"
proof -
  define version where "version \<longleftrightarrow> ci_expected_formula_version i \<notin> {None, Some (ce_formula_version E)}"
  have v: "\<not> version \<longleftrightarrow> (\<forall>v. ci_expected_formula_version i = Some v \<longrightarrow> v = ce_formula_version E)"
    by (cases "ci_expected_formula_version i") (simp_all add: version_def)
  define scopes :: "unit calculation_result" where "scopes =
     obind (case ci_aws_snapshot i of
              None \<Rightarrow> Ok ()
            | Some snapshot \<Rightarrow>
                obind (ok_or (ps_aws_region (ci_settings i)) (SnapshotScopeMismatch Aws)) (\<lambda>source_region.
                if \<not> aws_matches_scope snapshot (ps_currency (ci_settings i)) source_region
                then Err (SnapshotScopeMismatch Aws) else Ok ())) (\<lambda>_.
     (case ci_azure_snapshot i of
        None \<Rightarrow> Ok ()
      | Some snapshot \<Rightarrow>
          if \<not> azure_matches_scope snapshot (ps_currency (ci_settings i)) (ps_azure_region (ci_settings i))
          then Err (SnapshotScopeMismatch Azure) else Ok ()))"
  have split: "validate_calculation_input E i =
      (if version then Err FormulaVersionMismatch
       else if validate (validation_project i) \<noteq> [] then Err (CalculationInvalid (validate (validation_project i)))
       else scopes)"
    by (simp add: validate_calculation_input_def version_def scopes_def validation_project_def Let_def)
  have s: "scopes = Ok () \<longleftrightarrow> (\<forall>s. ci_aws_snapshot i = Some s \<longrightarrow> aws_in_scope (ci_settings i) s) \<and>
      (\<forall>s. ci_azure_snapshot i = Some s \<longrightarrow> azure_in_scope (ci_settings i) s)"
    by (auto simp: scopes_def obind_Ok_iff aws_in_scope_def azure_in_scope_def aws_matches_scope_def
        azure_matches_scope_def split: option.splits if_splits)
  show "validate_calculation_input E i = Ok () \<longleftrightarrow> calculation_input_ok E i"
    unfolding split using v s by (auto simp: calculation_input_ok_def validate_Nil)
  have "scopes \<noteq> Panic"
    by (auto simp: scopes_def obind_Panic_iff split: option.splits if_splits)
  then show "validate_calculation_input E i \<noteq> Panic" unfolding split by simp
qed

text \<open>What the project's contract says of one resource.\<close>

lemma input_resource_ok:
  assumes "calculation_input_ok E i" "r \<in> set (ci_resources i)"
  shows "shared_ok (ci_settings i) r" "kind_ok r" "settings_ok (ci_settings i)"
  using assms by (simp_all add: calculation_input_ok_def project_ok_def validation_project_def)

lemma created_aws_vcpus:
  assumes "created_aws X s"
  shows "aws_ec2_rate s t = Some rec \<Longrightarrow> er_source_vcpu (ae_rate rec) \<noteq> 0"
    "aws_rds_rate s t d c k = Some rec' \<Longrightarrow> rr_source_vcpu (ad_rate rec') \<noteq> 0"
proof -
  obtain m region a b c where "aws_create X m region a b c = Ok s" using assms by (auto simp: created_aws_def)
  then have "validate_aws_rates (as_ec2_rates s) (as_rds_rates s) (as_ebs_rates s) = Ok ()"
    by (rule aws_create_OkE)
  then have v: "\<forall>rec\<in>set (as_ec2_rates s). er_source_vcpu (ae_rate rec) \<noteq> 0"
    "\<forall>rec\<in>set (as_rds_rates s). rr_source_vcpu (ad_rate rec) \<noteq> 0"
    by (auto simp: validate_aws_rates_def list_ex_iff split: if_splits)
  show "aws_ec2_rate s t = Some rec \<Longrightarrow> er_source_vcpu (ae_rate rec) \<noteq> 0"
    using v(1) by (auto simp: aws_ec2_rate_def find_Some_iff)
  show "aws_rds_rate s t d c' k = Some rec' \<Longrightarrow> rr_source_vcpu (ad_rate rec') \<noteq> 0" for c'
    using v(2) by (auto simp: aws_rds_rate_def find_Some_iff)
qed

lemma rated_source_vcpu:
  "rated_source vcpu iops s p result = Ok source \<Longrightarrow> rs_source_vcpu source = Some vcpu"
  by (auto simp: rated_source_def Let_def split: outcome.splits)

definition aws_created :: "snapshot_env \<Rightarrow> calculation_input \<Rightarrow> bool" where
  "aws_created X i \<longleftrightarrow> (\<forall>s. ci_aws_snapshot i = Some s \<longrightarrow> created_aws X s)"

lemma resolved_vcpu:
  assumes "aws_created X i" "kind_ok r"
  shows "resolve_source A r i = Ok source \<Longrightarrow> rs_source_vcpu source \<noteq> Some 0"
    "r = Ec2Vm vm \<Longrightarrow> resolve_ec2_vm_source A vm i = Ok source' \<Longrightarrow> rs_source_vcpu source' \<noteq> Some 0"
proof -
  have c: "ci_aws_snapshot i = Some s \<Longrightarrow> created_aws X s" for s using assms(1) by (simp add: aws_created_def)
  have ec2: "rs_source_vcpu source \<noteq> Some 0" if "resolve_ec2_source A e i = Ok source" for e
    using that by (auto simp: resolve_ec2_source_def unavailable_source_def split: option.splits outcome.splits
        dest!: rated_source_vcpu c created_aws_vcpus(1))
  have rds: "rs_source_vcpu source \<noteq> Some 0" if "resolve_rds_source A d i = Ok source" for d
    using that by (auto simp: resolve_rds_source_def unavailable_source_def split: option.splits
        dest!: rated_source_vcpu c created_aws_vcpus(2))
  have prem: "rs_source_vcpu source \<noteq> Some 0"
    if "map_err CalculationCost (resolve_on_prem_source A p (ci_settings i)) = Ok source" "op_source_vcpu p \<noteq> 0" for p
    using that by (cases "resolve_on_prem_source A p (ci_settings i)") (auto simp: resolve_on_prem_source_def obind_Ok_iff)
  show "resolve_source A r i = Ok source \<Longrightarrow> rs_source_vcpu source \<noteq> Some 0"
    using assms(2) by (cases r) (auto simp: resolve_source_def one_le_word_iff dest: ec2 rds prem)
  show "r = Ec2Vm vm \<Longrightarrow> resolve_ec2_vm_source A vm i = Ok source' \<Longrightarrow> rs_source_vcpu source' \<noteq> Some 0"
    by (auto simp: resolve_ec2_vm_source_def unavailable_source_def split: option.splits
        dest!: rated_source_vcpu c created_aws_vcpus(1))
qed

section \<open>No error after the validation\<close>

lemma configured_storage_nonneg:
  assumes "dec_laws A" "storage_inputs_of A r = (Ok si :: ('e, storage_inputs) outcome)" "\<And>vm. r \<noteq> Ec2Vm vm"
  shows "0 \<le> si_azure_storage_gb_per_instance si"
proof -
  obtain required where "azure_mi_configured_storage_gb A required =
      (Ok (si_azure_storage_gb_per_instance si) :: ('e, decimal_value) outcome)"
    using assms(2,3) by (cases r) (auto simp: storage_inputs_of_def obind_Ok_iff Let_def)
  then show ?thesis
    using mul_nonneg [OF assms(1)]
    by (fastforce simp: azure_mi_configured_storage_gb_def obind_Ok_iff AZURE_MI_STORAGE_UNIT_GB_def)
qed

lemma no_err_mi_resource:
  assumes "dec_laws A" "aws_created X i" "calculation_input_ok E i" "r \<in> set (ci_resources i)"
    and "storage_inputs_of A r = Ok si" and vm: "\<And>vm. r \<noteq> Ec2Vm vm"
  shows "no_err (calculate_mi_resource E A r si i)"
proof -
  note ok = input_resource_ok [OF assms(3,4)]
  have prem: "on_prem_settings_ok (ci_settings i)" if "r = OnPrem p" for p
    using ok that by (auto simp: shared_ok_def settings_ok_def)
  have src: "no_err (resolve_source A r i)"
    unfolding resolve_source_def resolve_on_prem_source_def
    by (intro no_err_intros no_err_on_prem) (use prem in auto)
  have req: "validate_request (mi_selection_request r vcpu iops si i) = Ok ()" if "vcpu \<noteq> 0" for vcpu iops
    using ok that configured_storage_nonneg [OF assms(1,5) vm]
    by (simp add: validate_request_Ok mi_selection_request_def shared_ok_def)
  have vcpu: "vcpu \<noteq> 0" if "resolve_source A r i = Ok source" "rs_source_vcpu source = Some vcpu" for source vcpu
    using resolved_vcpu(1) [OF assms(2) ok(2) that(1)] that(2) by auto
  have selected: "ts_selected s \<noteq> None"
    if "map_err f (select_target A cat q) = Ok s" "ts_mapping_status s \<noteq> NoMapping"
    for f :: "target_selection_error \<Rightarrow> calculation_error" and cat q s
    using that select_target_mapped [of A cat q s] by (cases "select_target A cat q") (auto split: if_splits)
  show ?thesis
    unfolding calculate_mi_resource_def explain_source_def mapped_mi_result_def
    by (intro no_err_intros src no_err_select_target req) (auto dest: vcpu selected)
qed

lemma vm_requirements_of_volumes:
  assumes "\<forall>v\<in>set (ec2vm_volumes vm). vm_volume_ok v"
  shows "map vr_role (vm_volume_requirements vm) = map vv_role (ec2vm_volumes vm)"
proof -
  have "filter (\<lambda>v. vv_volume_type v \<noteq> Ephemeral) (ec2vm_volumes vm) = ec2vm_volumes vm"
    using assms by (simp add: filter_id_conv vm_volume_ok_def)
  then show ?thesis by (simp add: vm_volume_requirements_def)
qed

lemma length_filter_map: "length (filter (\<lambda>x. P (f x)) xs) = length (filter P (map f xs))"
  by (simp add: filter_map comp_def)

lemma no_err_vm_resource:
  assumes "aws_created X i" "calculation_input_ok E i" "Ec2Vm vm \<in> set (ci_resources i)"
  shows "no_err (calculate_ec2_vm_resource E A vm si i)"
proof -
  note ok = input_resource_ok [OF assms(2,3)]
  have roles: "map vr_role (vm_volume_requirements vm) = map vv_role (ec2vm_volumes vm)"
    using ok(2) by (intro vm_requirements_of_volumes) simp
  then have len: "length (vm_volume_requirements vm) = length (ec2vm_volumes vm)"
    by (rule map_eq_imp_length_eq)
  have "length (filter (\<lambda>v. vr_role v = RoleOs) (vm_volume_requirements vm)) =
      length (filter (\<lambda>role. role = RoleOs) (map vr_role (vm_volume_requirements vm)))" by (rule length_filter_map)
  also have "\<dots> = length (filter (\<lambda>role. role = RoleOs) (map vv_role (ec2vm_volumes vm)))" by (simp only: roles)
  also have "\<dots> = length (filter (\<lambda>v. vv_role v = RoleOs) (ec2vm_volumes vm))" by (rule length_filter_map [symmetric])
  also have "\<dots> = 1" using ok(2) by simp
  finally have os: "length (filter (\<lambda>v. vr_role v = RoleOs) (vm_volume_requirements vm)) = 1" .
  have req: "vm_validate_request (vm_selection_request vm i cls vcpu (vm_volume_requirements vm)) = Ok ()"
    if "vcpu \<noteq> 0" for cls vcpu
    using ok that len os by (auto simp: vm_validate_request_def vm_selection_request_def shared_ok_def)
  have vcpu: "vcpu \<noteq> 0" if "resolve_ec2_vm_source A vm i = Ok source" "rs_source_vcpu source = Some vcpu" for source vcpu
    using resolved_vcpu(2) [OF assms(1) ok(2) refl that(1)] that(2) by auto
  have selected: "vs_selected s \<noteq> None"
    if "map_err f (select_vm_target A cat dc q) = Ok s" "vs_mapping_status s \<noteq> NoMapping"
    for f :: "vm_target_selection_error \<Rightarrow> calculation_error" and cat dc q s
    using that select_vm_target_mapped [of A cat dc q s] by (cases "select_vm_target A cat dc q") (auto split: if_splits)
  show ?thesis
    unfolding calculate_ec2_vm_resource_def select_vm_resource_def vm_mapped_result_def
    by (intro no_err_intros no_err_select_vm_target req) (auto simp: push_step_def dest: vcpu selected)
qed

lemma no_err_payg:
  assumes "calculation_input_ok E i" "ps_project_type (ci_settings i) = PtSqlPayg"
  shows "no_err (calculate_sql_payg E A i)"
proof -
  have s: "settings_ok (ci_settings i)"
    using assms(1) by (simp add: calculation_input_ok_def project_ok_def validation_project_def)
  then obtain p where p: "ps_sql_payg (ci_settings i) = Some p" "sql_payg_settings_ok p"
    using assms(2) by (auto simp: settings_ok_def)
  have "is_percent (ps_selected_parity_adjustment (ci_settings i))" "0 \<le> ps_default_annual_hours (ci_settings i)"
    "ps_default_annual_hours (ci_settings i) \<le> 8784"
    using s by (auto simp: settings_ok_def settings_percents_def)
  then have v: "no_err (SqlPayg.validate_input
      \<lparr>spi_enterprise_licensed_cores = sps_enterprise_licensed_cores p,
       spi_standard_licensed_cores = sps_standard_licensed_cores p,
       spi_software_assurance_annual_usd = sps_software_assurance_annual_usd p,
       spi_annual_hours = ps_default_annual_hours (ci_settings i),
       spi_applied_payg_discount = ps_selected_parity_adjustment (ci_settings i)\<rparr>)"
    using p(2) by (simp add: SqlPayg.validate_input_def sql_payg_settings_ok_def MAX_ANNUAL_HOURS_def no_err_def)
  show ?thesis
    unfolding calculate_sql_payg_def SqlPayg.calculate_def payg_gross_annual_def raw_discount_of_def
    by (intro no_err_intros) (use v p(1) in simp_all)
qed

lemma no_err_revision:
  assumes "dec_laws A" "aws_created X i" "calculation_input_ok E i"
  shows "no_err (engine_calculate E A i)"
proof -
  have "no_err (calculate_resource E A i r)" if "r \<in> set (ci_resources i)" for r
    unfolding calculate_resource_def
    by (intro no_err_intros no_err_mi_resource [OF assms that] no_err_vm_resource [OF assms(2,3)]) (use that in auto)
  moreover have "validate_calculation_input E i = Ok ()" using assms(3) validate_calculation_input_Ok(1) by blast
  ultimately show ?thesis
    unfolding engine_calculate_def by (intro no_err_intros no_err_payg [OF assms(3)]) (simp_all add: no_err_ends)
qed

section \<open>The property\<close>

text \<open>
  C2: a calculation over a price snapshot that creation made ends with an error exactly if its input is
  not acceptable: another formula version is expected, the project has an issue, or a snapshot is of another
  provider, currency or region. Missing and unusable prices, a source of an unknown family, a request no
  target meets and the internal error of a mapped selection without a target never surface as errors.
\<close>
theorem calculation_fails_iff:
  assumes "dec_laws A" "\<forall>s. ci_aws_snapshot i = Some s \<longrightarrow> created_aws X s"
  shows "(\<exists>e. engine_calculate E A i = Err e) \<longleftrightarrow> \<not> calculation_input_ok E i"
proof (cases "calculation_input_ok E i")
  case True
  then have "no_err (engine_calculate E A i)"
    using no_err_revision [OF assms(1)] assms(2) by (simp add: aws_created_def)
  then show ?thesis using True by (simp add: no_err_def)
next
  case False
  then obtain e where "validate_calculation_input E i = Err e"
    using validate_calculation_input_Ok [of E i] by (cases "validate_calculation_input E i") auto
  then show ?thesis using False by (simp add: engine_calculate_def)
qed

section \<open>Examples\<close>

definition example_engine :: calculation_engine where
  "example_engine =
     \<lparr>ce_capabilities = example_catalog, ce_vm_capabilities = example_vm_catalog,
      ce_managed_disk_capabilities = example_disk_catalog, ce_formula_version = ''1''\<rparr>"

definition example_calculation :: "project_type \<Rightarrow> resource list \<Rightarrow> aws_price_snapshot option \<Rightarrow> calculation_input" where
  "example_calculation t rs aws =
     \<lparr>ci_settings = example_settings t, ci_resources = rs, ci_aws_snapshot = aws, ci_azure_snapshot = None,
      ci_expected_formula_version = Some ''1''\<rparr>"

lemma example_calculation_ok:
  assumes "t \<in> {PtEc2, PtEc2Vm, PtRds, PtOnPrem}"
  shows "calculation_input_ok example_engine (example_calculation t [] None)"
proof -
  have "chars_count ''Calculation'' \<in> {1..100}" by code_simp
  then show ?thesis
    using example_settings_ok [OF assms]
    by (simp add: calculation_input_ok_def project_ok_def validation_project_def example_calculation_def
        example_engine_def longer_than_def snapshot_ok_def)
qed

theorem calculation_fails_iff_witness:
  "(\<exists>e. engine_calculate example_engine exact_arith (example_calculation PtEc2 [] (Some example_aws_snapshot)) = Err e) \<and>
   \<not> (\<exists>e. engine_calculate example_engine exact_arith (example_calculation PtEc2 [] None) = Err e)"
proof -
  have "created_aws example_snapshot_env example_aws_snapshot"
    unfolding created_aws_def by (intro exI) (rule example_aws_created)
  then have "\<forall>s. ci_aws_snapshot (example_calculation PtEc2 [] (Some example_aws_snapshot)) = Some s \<longrightarrow>
      created_aws example_snapshot_env s" by (simp add: example_calculation_def)
  moreover have "\<not> calculation_input_ok example_engine (example_calculation PtEc2 [] (Some example_aws_snapshot))"
    by (simp add: calculation_input_ok_def example_calculation_def aws_in_scope_def example_settings_def
        example_aws_snapshot_def)
  moreover have "\<forall>s. ci_aws_snapshot (example_calculation PtEc2 [] None) = Some s \<longrightarrow> created_aws example_snapshot_env s"
    by (simp add: example_calculation_def)
  ultimately show ?thesis
    using calculation_fails_iff [OF exact_arith_laws] example_calculation_ok [of PtEc2] by blast
qed

end
