(* ===== verification/WorkflowFacts.thy ===== *)
theory WorkflowFacts
  imports WorkflowErrors
begin

text \<open>
  What a calculation returns: results of the right shape, prices taken from the snapshots it was given, amounts
  that are sane, and a portfolio that is the sum of its rows.
\<close>

section \<open>The shape of a result\<close>

definition unresolved_for :: "provider \<Rightarrow> unresolved_component list \<Rightarrow> bool" where
  "unresolved_for p components \<longleftrightarrow> (\<exists>u\<in>set components. uc_provider u = Some p)"

definition has_target :: "resource \<Rightarrow> resource_calculation \<Rightarrow> bool" where
  "has_target r c \<longleftrightarrow>
     (case r of
        Ec2Vm _ \<Rightarrow> \<exists>s. rc_vm_target_selection c = Some s \<and> vs_selected s \<noteq> None
      | _ \<Rightarrow> \<exists>s. rc_target_selection c = Some s \<and> ts_selected s \<noteq> None)"

definition kind_fields :: "resource \<Rightarrow> resource_calculation \<Rightarrow> bool" where
  "kind_fields r c \<longleftrightarrow>
     (case r of
        Ec2Vm _ \<Rightarrow> rc_target_selection c = None \<and> rc_purchase_option_discounts c = None
      | _ \<Rightarrow> rc_vm_target_selection c = None \<and> rc_vm_purchase_option_pricing c = None)"

definition result_typed :: "resource \<Rightarrow> resource_calculation \<Rightarrow> bool" where
  "result_typed r c \<longleftrightarrow>
     rc_resource_id c = sr_id (resource_shared r) \<and> kind_fields r c \<and>
     (rc_mapping_status c = Some Mapped \<longleftrightarrow> has_target r c) \<and>
     (rc_azure_costs c \<noteq> None \<longrightarrow> has_target r c) \<and>
     (rc_savings c \<noteq> None \<longleftrightarrow> rc_source_costs c \<noteq> None \<and> rc_azure_costs c \<noteq> None) \<and>
     (rc_source_costs c = None \<longrightarrow>
        rc_aws_pricing_status c = PsUnavailable \<and> unresolved_for Aws (rc_unresolved_components c)) \<and>
     (has_target r c \<and> rc_azure_costs c = None \<longrightarrow>
        rc_azure_pricing_status c = PsUnavailable \<and> unresolved_for Azure (rc_unresolved_components c))"

definition source_explained :: "resolved_source \<Rightarrow> bool" where
  "source_explained s \<longleftrightarrow>
     (rs_costs s = None \<longrightarrow> rs_pricing_status s = PsUnavailable \<and> unresolved_for Aws (rs_unresolved_components s))"

lemma unresolved_for_simps [simp]:
  "unresolved_for p (xs @ ys) \<longleftrightarrow> unresolved_for p xs \<or> unresolved_for p ys" "\<not> unresolved_for p []"
  "unresolved_for p (x # xs) \<longleftrightarrow> uc_provider x = Some p \<or> unresolved_for p xs"
  by (auto simp: unresolved_for_def)

lemma push_explained [simp]:
  "source_explained s \<Longrightarrow> source_explained (push_step x s)"
  "source_explained s \<Longrightarrow> source_explained (push_unresolved p code m s)"
  "source_explained s \<Longrightarrow> source_explained (s\<lparr>rs_explanation_steps := xs\<rparr>)"
  by (auto simp: source_explained_def push_step_def push_unresolved_def)

lemma resolved_explained:
  "rated_source vcpu iops w p result = Ok s \<Longrightarrow> source_explained s" "source_explained (unavailable_source Aws code)"
  by (auto simp: rated_source_def source_explained_def unavailable_source_def cost_unresolved_def Let_def
      split: outcome.splits)

lemma resolve_source_explained: "resolve_source A r i = Ok s \<Longrightarrow> source_explained s"
proof (cases r)
  case (OnPrem p)
  assume "resolve_source A r i = Ok s"
  then show ?thesis using OnPrem
    by (cases "resolve_on_prem_source A p (ci_settings i)")
       (auto simp: resolve_source_def resolve_on_prem_source_def obind_Ok_iff source_explained_def)
qed (auto simp: resolve_source_def resolve_ec2_source_def resolve_rds_source_def
      dest: resolved_explained(1) split: option.splits outcome.splits intro: resolved_explained(2))

lemma resolve_vm_source_explained: "resolve_ec2_vm_source A vm i = Ok s \<Longrightarrow> source_explained s"
  by (auto simp: resolve_ec2_vm_source_def dest: resolved_explained(1) split: option.splits
      intro: resolved_explained(2))

lemma explain_source_Ok:
  assumes "explain_source A r i si vcpu iops s = Ok s'"
  shows "rs_costs s' = rs_costs s" "source_explained s \<Longrightarrow> source_explained s'"
    "rs_unresolved_components s' = rs_unresolved_components s" "rs_pricing_status s' = rs_pricing_status s"
  using assms by (auto simp: explain_source_def obind_Ok_iff Let_def push_step_def split: option.splits)

lemma unpriced_result_fields [simp]:
  "rc_resource_id (unpriced_result n si s m z t v) = n" "rc_mapping_status (unpriced_result n si s m z t v) = m"
  "rc_aws_pricing_status (unpriced_result n si s m z t v) = rs_pricing_status s"
  "rc_azure_pricing_status (unpriced_result n si s m z t v) = z"
  "rc_target_selection (unpriced_result n si s m z t v) = t"
  "rc_vm_target_selection (unpriced_result n si s m z t v) = v"
  "rc_source_costs (unpriced_result n si s m z t v) = rs_costs s" "rc_azure_costs (unpriced_result n si s m z t v) = None"
  "rc_purchase_option_discounts (unpriced_result n si s m z t v) = None"
  "rc_vm_purchase_option_pricing (unpriced_result n si s m z t v) = None" "rc_savings (unpriced_result n si s m z t v) = None"
  "rc_unresolved_components (unpriced_result n si s m z t v) = rs_unresolved_components s"
  "rc_storage_inputs (unpriced_result n si s m z t v) = si"
  by (simp_all add: unpriced_result_def)

section \<open>How the paths end\<close>

text \<open>A SQL Server workload ends without a target or with the selected target priced.\<close>

inductive mi_outcome ::
  "dec_arith \<Rightarrow> resource \<Rightarrow> storage_inputs \<Rightarrow> calculation_input \<Rightarrow> resource_calculation \<Rightarrow> bool"
  for A r si i where
  unpriced:
    "resolve_source A r i = Ok source \<Longrightarrow> source_explained s \<Longrightarrow> rs_costs s = rs_costs source \<Longrightarrow>
     st \<noteq> Some Mapped \<Longrightarrow> \<forall>t. ts = Some t \<longrightarrow> ts_selected t = None \<Longrightarrow>
     mi_outcome A r si i (unpriced_result (sr_id (resource_shared r)) si s st z ts None)"
| priced:
    "resolve_source A r i = Ok source \<Longrightarrow> source_explained s \<Longrightarrow> rs_costs s = rs_costs source \<Longrightarrow>
     ts_selected t = Some selected \<Longrightarrow>
     resolve_azure_costs A selected r (si_azure_storage_gb_per_instance si) i =
       (Ok (ac, ds, z, un, steps) :: azure_costs_outcome calculation_result) \<Longrightarrow>
     savings_of A (rs_costs source) ac (ps_selected_parity_adjustment (ci_settings i)) =
       (Ok (sv, svs) :: (savings_breakdown option \<times> explanation_step list) calculation_result) \<Longrightarrow>
     mi_outcome A r si i
       ((unpriced_result (sr_id (resource_shared r)) si s (Some Mapped) z (Some t) None)
          \<lparr>rc_azure_costs := ac, rc_purchase_option_discounts := ds, rc_savings := sv, rc_explanation_steps := xs,
           rc_unresolved_components := rs_unresolved_components s @ un\<rparr>)"

lemma select_target_wrapped:
  "map_err f (select_target A cat q) = Ok t \<Longrightarrow> ts_mapping_status t = (if ts_selected t \<noteq> None then Mapped else NoMapping)"
  using select_target_mapped by (cases "select_target A cat q") auto

lemma select_vm_target_wrapped:
  "map_err f (select_vm_target A cat dc q) = Ok t \<Longrightarrow> select_vm_target A cat dc q = Ok t"
  by (cases "select_vm_target A cat dc q") auto

lemma mi_outcome_if:
  assumes "calculate_mi_resource E A r si i = Ok c"
  shows "mi_outcome A r si i c"
proof -
  obtain source where src: "resolve_source A r i = Ok source" and
    rest: "(case rs_source_vcpu source of
       None \<Rightarrow>
         Ok (unpriced_result (sr_id (resource_shared r)) si
               (push_unresolved (Some Aws) ''source_metadata_unavailable''
                  (Fmt ''Source sizing metadata is unavailable, so target mapping was not evaluated.'' []) source)
               None PsUnavailable None None)
     | Some source_vcpu \<Rightarrow>
         let maximum_iops = (case rs_source_max_iops source of None \<Rightarrow> 0 | Some iops \<Rightarrow> iops)
         in obind (map_err CalculationTarget (select_target A (ce_capabilities E)
                     (mi_selection_request r source_vcpu maximum_iops si i))) (\<lambda>target_selection.
            obind (explain_source A r i si source_vcpu maximum_iops source) (\<lambda>source.
            if ts_mapping_status target_selection = NoMapping
            then Ok (unpriced_result (sr_id (resource_shared r)) si source (Some NoMapping) PsNotRequired
                       (Some target_selection) None)
            else
              obind (ok_or (ts_selected target_selection) InvalidTargetSelection) (\<lambda>selected.
              mapped_mi_result A r i si source target_selection selected)))) = Ok c"
    using assms unfolding calculate_mi_resource_def obind_Ok_iff by blast
  note x = resolve_source_explained [OF src]
  show ?thesis
  proof (cases "rs_source_vcpu source")
    case None
    then have c: "c = unpriced_result (sr_id (resource_shared r)) si
               (push_unresolved (Some Aws) ''source_metadata_unavailable''
                  (Fmt ''Source sizing metadata is unavailable, so target mapping was not evaluated.'' []) source)
               None PsUnavailable None None" using rest by simp
    show ?thesis unfolding c
      by (rule mi_outcome.unpriced [OF src push_explained(2) [OF x]]) (simp_all add: push_unresolved_def)
  next
    case (Some vcpu)
    then obtain iops t s where
      t: "map_err CalculationTarget (select_target A (ce_capabilities E) (mi_selection_request r vcpu iops si i)) = Ok t" and
      s: "explain_source A r i si vcpu iops source = (Ok s :: resolved_source calculation_result)" and
      c: "(if ts_mapping_status t = NoMapping
            then Ok (unpriced_result (sr_id (resource_shared r)) si s (Some NoMapping) PsNotRequired (Some t) None)
            else obind (ok_or (ts_selected t) InvalidTargetSelection) (mapped_mi_result A r i si s t)) = Ok c"
      using rest by (auto simp: obind_Ok_iff Let_def)
    note sel = select_target_wrapped [OF t] and e = explain_source_Ok [OF s]
    show ?thesis
    proof (cases "ts_selected t")
      case None
      then have c: "c = unpriced_result (sr_id (resource_shared r)) si s (Some NoMapping) PsNotRequired (Some t) None"
        using c sel by simp
      show ?thesis unfolding c by (rule mi_outcome.unpriced [OF src e(2) [OF x] e(1)]) (simp_all add: None)
    next
      case (Some selected)
      then have "mapped_mi_result A r i si s t selected = Ok c" using c sel by simp
      then obtain ac ds z un steps sv svs where
        "resolve_azure_costs A selected r (si_azure_storage_gb_per_instance si) i =
           (Ok (ac, ds, z, un, steps) :: azure_costs_outcome calculation_result)"
        "savings_of A (rs_costs source) ac (ps_selected_parity_adjustment (ci_settings i)) =
           (Ok (sv, svs) :: (savings_breakdown option \<times> explanation_step list) calculation_result)" and
        c: "c = (unpriced_result (sr_id (resource_shared r)) si s (Some Mapped) z (Some t) None)
          \<lparr>rc_azure_costs := ac, rc_purchase_option_discounts := ds, rc_savings := sv,
           rc_explanation_steps := rs_explanation_steps s @ steps @ svs,
           rc_unresolved_components := rs_unresolved_components s @ un\<rparr>"
        using e(1) by (auto simp: mapped_mi_result_def obind_Ok_iff)
      then show ?thesis unfolding c by (intro mi_outcome.priced [OF src e(2) [OF x] e(1) Some])
    qed
  qed
qed

text \<open>A virtual machine likewise; a selected size comes from the selector, whose reasons only grow.\<close>

inductive vm_outcome ::
  "calculation_engine \<Rightarrow> dec_arith \<Rightarrow> ec2_vm_resource \<Rightarrow> storage_inputs \<Rightarrow> calculation_input \<Rightarrow> resource_calculation \<Rightarrow> bool"
  for E A vm si i where
  vm_unpriced:
    "resolve_ec2_vm_source A vm i = (Ok source :: resolved_source calculation_result) \<Longrightarrow> source_explained s \<Longrightarrow> rs_costs s = rs_costs source \<Longrightarrow>
     st \<noteq> Some Mapped \<Longrightarrow> \<forall>t. ts = Some t \<longrightarrow> vs_selected t = None \<Longrightarrow>
     vm_outcome E A vm si i (unpriced_result (sr_id (ec2vm_shared vm)) si s st z None ts)"
| vm_priced:
    "resolve_ec2_vm_source A vm i = (Ok source :: resolved_source calculation_result) \<Longrightarrow> source_explained s \<Longrightarrow> rs_costs s = rs_costs source \<Longrightarrow>
     select_vm_target A (ce_vm_capabilities E) (ce_managed_disk_capabilities E)
       (vm_selection_request vm i cls vcpu (vm_volume_requirements vm)) = Ok evaluated \<Longrightarrow>
     vs_selected evaluated = Some selected \<Longrightarrow> vs_selected t = Some selected \<Longrightarrow>
     resolve_azure_vm_costs A selected vm i = (Ok (ac, z, un, steps) :: vm_costs_outcome calculation_result) \<Longrightarrow>
     savings_of A (rs_costs source) ac (ps_selected_parity_adjustment (ci_settings i)) =
       (Ok (sv, svs) :: (savings_breakdown option \<times> explanation_step list) calculation_result) \<Longrightarrow>
     (\<And>snapshot. ci_azure_snapshot i = Some snapshot \<Longrightarrow> \<exists>ps. prices = Some ps \<and>
        vm_purchase_option_pricing_of A snapshot (vt_arm_sku_name selected) =
          (Ok ps :: vm_purchase_option_pricing list calculation_result)) \<Longrightarrow>
     vm_outcome E A vm si i
       ((unpriced_result (sr_id (ec2vm_shared vm)) si' s (Some Mapped) z None (Some t))
          \<lparr>rc_azure_costs := ac, rc_vm_purchase_option_pricing := prices, rc_savings := sv, rc_explanation_steps := xs,
           rc_unresolved_components := rs_unresolved_components s @ un\<rparr>)"

lemma vm_no_mapping_outcome:
  assumes "resolve_ec2_vm_source A vm i = (Ok source :: resolved_source calculation_result)" "source_explained s" "rs_costs s = rs_costs source" "vs_selected t = None"
  shows "vm_outcome E A vm si i (vm_no_mapping_result vm si s t)"
proof (cases "vm_price_blocked t")
  case True
  then show ?thesis unfolding vm_no_mapping_result_def Let_def if_P [OF True]
    by (intro vm_unpriced [OF assms(1) push_explained(2) [OF assms(2)]])
       (simp_all add: assms(3,4) push_unresolved_def)
next
  case False
  then show ?thesis unfolding vm_no_mapping_result_def Let_def if_not_P [OF False]
    by (intro vm_unpriced [OF assms(1,2,3)]) (simp_all add: assms(4))
qed

lemma vm_mapped_outcome:
  assumes src: "resolve_ec2_vm_source A vm i = (Ok source :: resolved_source calculation_result)" and s: "source_explained s" "rs_costs s = rs_costs source"
    and sel: "select_vm_target A (ce_vm_capabilities E) (ce_managed_disk_capabilities E)
       (vm_selection_request vm i cls vcpu (vm_volume_requirements vm)) = Ok evaluated"
       "vs_selected evaluated = Some selected" "vs_selected t = Some selected"
    and "vm_mapped_result A vm i si s t selected = Ok c"
  shows "vm_outcome E A vm si i c"
proof -
  define priced where "priced = (\<lambda>prices gb (ac, z, un, steps).
     obind (savings_of A (rs_costs s) ac (ps_selected_parity_adjustment (ci_settings i))) (\<lambda>(sv, svs).
     let t' = (if ac = None
            then t\<lparr>vs_recommendation_status := Incomplete,
                   vs_outcome_reasons := vs_outcome_reasons t @
                     [vm_reason PriceUnavailable
                        (Fmt ''The selected VM or one of its managed disks lacks a complete coherent target price.'' [])]\<rparr>
            else t)
     in Ok ((unpriced_result (sr_id (ec2vm_shared vm)) (si\<lparr>si_azure_storage_gb_per_instance := gb\<rparr>) s (Some Mapped)
               z None (Some t'))
             \<lparr>rc_azure_costs := ac, rc_vm_purchase_option_pricing := prices, rc_savings := sv,
              rc_explanation_steps := rs_explanation_steps s @ steps @ svs,
              rc_unresolved_components := rs_unresolved_components s @ un\<rparr>)) :: resource_calculation calculation_result)"
  have "\<exists>prices gb res.
    (case ci_azure_snapshot i of None \<Rightarrow> Ok None
      | Some snapshot \<Rightarrow>
          obind (vm_purchase_option_pricing_of A snapshot (vt_arm_sku_name selected)) (\<lambda>prices. Ok (Some prices))) =
     (Ok prices :: vm_purchase_option_pricing list option calculation_result) \<and>
    resolve_azure_vm_costs A selected vm i = (Ok res :: vm_costs_outcome calculation_result) \<and> priced prices gb res = Ok c"
    using assms(7) unfolding vm_mapped_result_def obind_Ok_iff priced_def by blast
  then obtain prices gb ac z un steps where
    p: "(case ci_azure_snapshot i of None \<Rightarrow> Ok None
      | Some snapshot \<Rightarrow>
          obind (vm_purchase_option_pricing_of A snapshot (vt_arm_sku_name selected)) (\<lambda>prices. Ok (Some prices))) =
     (Ok prices :: vm_purchase_option_pricing list option calculation_result)" and
    r: "resolve_azure_vm_costs A selected vm i = (Ok (ac, z, un, steps) :: vm_costs_outcome calculation_result)" and
    c: "priced prices gb (ac, z, un, steps) = Ok c" by auto
  obtain sv svs where sv: "savings_of A (rs_costs source) ac (ps_selected_parity_adjustment (ci_settings i)) =
       (Ok (sv, svs) :: (savings_breakdown option \<times> explanation_step list) calculation_result)"
    using c unfolding priced_def s(2) by (auto simp: obind_Ok_iff)
  define t' where "t' = (if ac = None
            then t\<lparr>vs_recommendation_status := Incomplete,
                   vs_outcome_reasons := vs_outcome_reasons t @
                     [vm_reason PriceUnavailable
                        (Fmt ''The selected VM or one of its managed disks lacks a complete coherent target price.'' [])]\<rparr>
            else t)"
  have t': "vs_selected t' = Some selected" using sel(3) by (simp add: t'_def)
  have c: "c = (unpriced_result (sr_id (ec2vm_shared vm)) (si\<lparr>si_azure_storage_gb_per_instance := gb\<rparr>) s (Some Mapped) z
               None (Some t'))
          \<lparr>rc_azure_costs := ac, rc_vm_purchase_option_pricing := prices, rc_savings := sv,
           rc_explanation_steps := rs_explanation_steps s @ steps @ svs,
           rc_unresolved_components := rs_unresolved_components s @ un\<rparr>"
    using c by (simp add: priced_def s(2) sv Let_def t'_def)
  from p have "\<exists>ps. prices = Some ps \<and>
        vm_purchase_option_pricing_of A snapshot (vt_arm_sku_name selected) =
          (Ok ps :: vm_purchase_option_pricing list calculation_result)"
    if "ci_azure_snapshot i = Some snapshot" for snapshot
    using that by (auto simp: obind_Ok_iff)
  then show ?thesis unfolding c by (intro vm_priced [OF src s sel(1,2) t' r sv])
qed

lemma select_vm_resource_outcome:
  assumes src: "resolve_ec2_vm_source A vm i = (Ok source :: resolved_source calculation_result)"
    and s: "source_explained s" "rs_costs s = rs_costs source"
    and "select_vm_resource E A vm si i s cls status reasons vcpu = Ok c"
  shows "vm_outcome E A vm si i c"
proof -
  have skip: "vm_outcome E A vm si i (unpriced_result (sr_id (ec2vm_shared vm)) si s st z None
      (Some (vm_not_evaluated status' cls reasons')))" if "st \<noteq> Some Mapped" for st z status' reasons'
    using that by (intro vm_unpriced [OF src s]) (simp_all add: vm_not_evaluated_def)
  define requirements where "requirements = ec2vm_requirements vm"
  show ?thesis
  proof (cases "vm_incomplete_reason vm (vm_volume_requirements vm)")
    case (Some reason')
    then show ?thesis using assms(4) skip by (auto simp: select_vm_resource_def Let_def)
  next
    case None
    show ?thesis
    proof (cases "vmr_instance_store_use requirements = StoreUsed \<and>
                vmr_ephemeral_data_loss_acceptable requirements = Some False")
      case True
      then show ?thesis using assms(4) None skip by (auto simp: select_vm_resource_def Let_def requirements_def)
    next
      case False
      obtain evaluated t where
        sel: "select_vm_target A (ce_vm_capabilities E) (ce_managed_disk_capabilities E)
           (vm_selection_request vm i cls vcpu (vm_volume_requirements vm)) = Ok evaluated" and
        t: "vs_mapping_status t = vs_mapping_status evaluated" "vs_selected t = vs_selected evaluated" and
        c: "(if vs_mapping_status t = NoMapping then Ok (vm_no_mapping_result vm si s t)
             else obind (ok_or (vs_selected t) InvalidTargetSelection) (vm_mapped_result A vm i si s t)) = Ok c"
      proof -
        obtain evaluated where e: "map_err CalculationVmTarget
            (select_vm_target A (ce_vm_capabilities E) (ce_managed_disk_capabilities E)
              (vm_selection_request vm i cls vcpu (vm_volume_requirements vm))) = Ok evaluated" and
          c: "(let target_selection =
                     evaluated\<lparr>vs_recommendation_status :=
                         (if vs_mapping_status evaluated = Mapped then status else vs_recommendation_status evaluated),
                       vs_outcome_reasons := vs_outcome_reasons evaluated @ reasons\<rparr>
               in if vs_mapping_status target_selection = NoMapping
                  then Ok (vm_no_mapping_result vm si s target_selection)
                  else obind (ok_or (vs_selected target_selection) InvalidTargetSelection) (\<lambda>selected.
                    vm_mapped_result A vm i si s target_selection selected)) = Ok c"
          using assms(4) unfolding select_vm_resource_def Let_def None option.case requirements_def [symmetric]
            if_not_P [OF False] obind_Ok_iff by blast
        from c show thesis unfolding Let_def by (rule that [OF select_vm_target_wrapped [OF e], rotated 2]) simp_all
      qed
      show ?thesis
      proof (cases "vs_selected evaluated")
        case None
        then have "c = vm_no_mapping_result vm si s t" using c t select_vm_target_mapped [OF sel] by simp
        then show ?thesis using vm_no_mapping_outcome [OF src s] None t by simp
      next
        case (Some selected)
        then have "vm_mapped_result A vm i si s t selected = Ok c" using c t select_vm_target_mapped [OF sel] by simp
        then show ?thesis by (rule vm_mapped_outcome [OF src s sel Some, rotated]) (simp add: t Some)
      qed
    qed
  qed
qed

lemma vm_outcome_if:
  assumes "calculate_ec2_vm_resource E A vm si i = Ok c"
  shows "vm_outcome E A vm si i c"
proof -
  obtain resolved where src: "resolve_ec2_vm_source A vm i = (Ok resolved :: resolved_source calculation_result)"
    using assms unfolding calculate_ec2_vm_resource_def obind_Ok_iff by blast
  define source where "source = push_step (vm_assumptions_step vm) resolved"
  have s: "source_explained source" "rs_costs source = rs_costs resolved"
    using resolve_vm_source_explained [OF src] by (simp_all add: source_def) (simp add: push_step_def)
  note c = assms [unfolded calculate_ec2_vm_resource_def src obind.simps Let_def, folded source_def]
  have skip: "vm_outcome E A vm si i (unpriced_result (sr_id (ec2vm_shared vm)) si
      (push_unresolved p code m source) None z None None)" for p code m z
    by (rule vm_unpriced [OF src push_explained(2) [OF s(1)]]) (simp_all add: push_unresolved_def s(2))
  show ?thesis
  proof (cases "rs_source_vcpu source")
    case None
    then show ?thesis using c skip by auto
  next
    case (Some vcpu)
    note vcpu = Some
    show ?thesis
    proof (cases "classify_source_instance (ec2vm_instance_type vm)")
      case None
      then show ?thesis using c vcpu skip by auto
    next
      case (Some cls)
      then obtain steps cls' status reasons where
        "select_vm_resource E A vm si i (source\<lparr>rs_explanation_steps := steps\<rparr>) cls' status reasons vcpu = Ok c"
        using c vcpu by (auto simp: obind_Ok_iff split: prod.splits)
      then show ?thesis by (rule select_vm_resource_outcome [OF src push_explained(3) [OF s(1)], rotated]) (simp add: s(2))
    qed
  qed
qed

lemma calculate_resource_cases:
  assumes "calculate_resource E A i r = Ok c"
  obtains (mi) si where "\<And>vm. r \<noteq> Ec2Vm vm" "storage_inputs_of A r = (Ok si :: storage_inputs calculation_result)"
      "mi_outcome A r si i c"
  | (vm) vm si where "r = Ec2Vm vm" "storage_inputs_of A r = (Ok si :: storage_inputs calculation_result)"
      "vm_outcome E A vm si i c"
proof -
  obtain si where si: "storage_inputs_of A r = (Ok si :: storage_inputs calculation_result)" and
    c: "(case r of Ec2Vm vm \<Rightarrow> calculate_ec2_vm_resource E A vm si i | _ \<Rightarrow> calculate_mi_resource E A r si i) = Ok c"
    using assms unfolding calculate_resource_def obind_Ok_iff by blast
  show thesis
  proof (cases "\<exists>vm. r = Ec2Vm vm")
    case True
    then show thesis using c vm_outcome_if vm si by auto
  next
    case False
    then have "calculate_mi_resource E A r si i = Ok c" using c by (cases r) auto
    then show thesis using False mi_outcome_if mi si by blast
  qed
qed

section \<open>Priced targets\<close>

lemma azure_costs_explained:
  "resolve_azure_costs A t r gb i = Ok (None, ds, z, un, steps) \<Longrightarrow> z = PsUnavailable \<and> unresolved_for Azure un"
  "resolve_azure_vm_costs A vt vm i = Ok (None, z, un, steps) \<Longrightarrow> z = PsUnavailable \<and> unresolved_for Azure un"
  by (auto simp: resolve_azure_costs_def resolve_azure_vm_costs_def no_azure_costs_def no_vm_costs_def
      azure_unresolved_def cost_unresolved_def obind_Ok_iff split: option.splits outcome.splits if_splits)

lemma savings_of_Ok:
  assumes "savings_of A sc ac adj = (Ok (sv, steps) :: ('e, savings_breakdown option \<times> explanation_step list) outcome)"
  shows "sv \<noteq> None \<longleftrightarrow> sc \<noteq> None \<and> ac \<noteq> None"
    and "sv = Some s \<Longrightarrow> \<exists>source azure. sc = Some source \<and> ac = Some azure \<and>
        calculate_savings A source azure adj = (Ok s :: ('e, savings_breakdown) outcome)"
  using assms by (auto simp: savings_of_def zip_option_def obind_Ok_iff split: option.splits)

section \<open>Properties\<close>

lemma result_typed_resource:
  assumes "calculate_resource E A i r = Ok c"
  shows "result_typed r c"
  using assms
proof (cases rule: calculate_resource_cases)
  case (mi si)
  have r: "kind_fields r c \<longleftrightarrow> rc_vm_target_selection c = None \<and> rc_vm_purchase_option_pricing c = None"
    "has_target r c \<longleftrightarrow> (\<exists>s. rc_target_selection c = Some s \<and> ts_selected s \<noteq> None)"
    using mi(1) by (cases r; simp add: kind_fields_def has_target_def)+
  show ?thesis using mi(3)
  proof cases
    case (unpriced source s st ts z)
    then show ?thesis unfolding result_typed_def r by (auto simp: source_explained_def)
  next
    case (priced source s t selected ac ds z un steps sv svs xs)
    then show ?thesis
      using savings_of_Ok(1) [OF priced(7)] azure_costs_explained(1) [of A selected r _ i ds z un steps] priced(6)
      unfolding result_typed_def r by (cases ac) (auto simp: source_explained_def)
  qed
next
  case (vm vm si)
  show ?thesis using vm(3)
  proof cases
    case (vm_unpriced source s st ts z)
    then show ?thesis using vm(1) by (auto simp: result_typed_def kind_fields_def has_target_def source_explained_def)
  next
    case (vm_priced source s cls vcpu evaluated selected t ac z un steps sv svs prices si' xs)
    then show ?thesis
      using savings_of_Ok(1) [OF vm_priced(9)] azure_costs_explained(2) [of A selected vm i z un steps] vm(1)
      by (cases ac) (auto simp: result_typed_def kind_fields_def has_target_def source_explained_def)
  qed
qed

lemma engine_calculate_results:
  assumes "engine_calculate E A i = Ok revision" "ps_project_type (ci_settings i) \<noteq> PtSqlPayg"
  shows "list_all2 (\<lambda>r c. calculate_resource E A i r = Ok c) (ci_resources i) (cr_resource_results revision)"
    and "calculate_portfolio A (cr_resource_results revision) (ps_selected_parity_adjustment (ci_settings i)) =
      (Ok (cr_portfolio_totals revision) :: portfolio_totals calculation_result)"
    and "calculation_input_ok E i"
  using assms by (auto simp: engine_calculate_def obind_Ok_iff try_map_Ok_iff simp flip: validate_calculation_input_Ok(1))

text \<open>
  C17: a calculation returns one result per resource, in order, and every result has the shape its kind
  of workload requires: SQL Server workloads carry a managed instance selection, virtual machines a size
  selection with option prices; there are Azure costs only for a selected target and savings exactly where
  both sides are priced; and what is not priced is marked unavailable and explained by a component of that
  provider.
\<close>
theorem calculation_results_typed:
  assumes "engine_calculate E A i = Ok revision" "ps_project_type (ci_settings i) \<noteq> PtSqlPayg"
  shows "list_all2 result_typed (ci_resources i) (cr_resource_results revision)"
  using engine_calculate_results(1) [OF assms] by (rule list_all2_mono) (rule result_typed_resource)

section \<open>Where the prices come from\<close>

definition source_quote :: "dec_arith \<Rightarrow> calculation_input \<Rightarrow> resource \<Rightarrow> source_cost_breakdown \<Rightarrow> bool" where
  "source_quote A i r costs \<longleftrightarrow>
     (case r of
        Ec2 e \<Rightarrow> \<exists>w. ci_aws_snapshot i = Some w \<and> (\<exists>rec\<in>set (as_ec2_rates w).
          ae_instance_type rec = ec2_instance_type e \<and>
          calculate_ec2_source A e (ae_rate rec) (map ab_rate (as_ebs_rates w)) (ci_settings i) = Ok costs)
      | Ec2Vm vm \<Rightarrow> \<exists>w. ci_aws_snapshot i = Some w \<and> (\<exists>rec\<in>set (as_ec2_rates w).
          ae_instance_type rec = ec2vm_instance_type vm \<and>
          calculate_ec2_vm_source A vm (ae_rate rec) (map ab_rate (as_ebs_rates w)) (ci_settings i) = Ok costs)
      | Rds d \<Rightarrow> \<exists>w. ci_aws_snapshot i = Some w \<and> (\<exists>rec\<in>set (as_rds_rates w).
          ad_instance_type rec = rds_instance_type d \<and> ad_deployment rec = rds_deployment d \<and>
          ad_commercial_term rec = rds_commercial_term d \<and> ad_storage_class rec = rds_storage_class d \<and>
          calculate_rds_source A d (ad_rate rec) (ci_settings i) = Ok costs)
      | OnPrem p \<Rightarrow> \<exists>result. calculate_on_prem_source A p (ci_settings i) = Ok result \<and> costs = ocr_costs result)"

definition vm_quote ::
  "dec_arith \<Rightarrow> calculation_input \<Rightarrow> ec2_vm_resource \<Rightarrow> resource_calculation \<Rightarrow> azure_cost_breakdown \<Rightarrow> bool" where
  "vm_quote A i vm c costs \<longleftrightarrow>
     (\<exists>z s t disks urls. ci_azure_snapshot i = Some z \<and> rc_vm_target_selection c = Some s \<and> vs_selected s = Some t \<and>
        managed_disks_monthly A z (vt_disks t) = Ok (disks, urls) \<and>
        (\<exists>rec\<in>set (zs_vm_rates z).
          eq_ignore_ascii_case (vm_arm_sku_name rec) (vt_arm_sku_name t) \<and>
          vm_purchase_option rec = ec2vm_purchase_option vm \<and>
          calculate_azure_vm A (sr_quantity (ec2vm_shared vm)) (sr_annual_hours (ec2vm_shared vm))
            (vm_hourly_rate rec) (vm_license_hourly rec) disks (ci_settings i) = Ok costs))"

definition mi_quote ::
  "dec_arith \<Rightarrow> calculation_input \<Rightarrow> resource \<Rightarrow> resource_calculation \<Rightarrow> azure_cost_breakdown \<Rightarrow> bool" where
  "mi_quote A i r c costs \<longleftrightarrow>
     (\<exists>z s t sql. ci_azure_snapshot i = Some z \<and> rc_target_selection c = Some s \<and> ts_selected s = Some t \<and>
        resource_sql r = Some sql \<and>
        (\<exists>rec\<in>set (zs_mi_rates z).
          mr_configuration_key rec = st_configuration_key t \<and> mr_purchase_option rec = sql_mi_purchase_option sql \<and>
          calculate_azure A (sr_quantity (resource_shared r)) (sr_annual_hours (resource_shared r))
            (si_azure_storage_gb_per_instance (rc_storage_inputs c)) (st_included_memory_gb t)
            (st_selected_memory_gb t) (mr_rate rec) (ci_settings i) = Ok costs))"

definition azure_quote ::
  "dec_arith \<Rightarrow> calculation_input \<Rightarrow> resource \<Rightarrow> resource_calculation \<Rightarrow> azure_cost_breakdown \<Rightarrow> bool" where
  "azure_quote A i r c costs \<longleftrightarrow> (case r of Ec2Vm vm \<Rightarrow> vm_quote A i vm c costs | _ \<Rightarrow> mi_quote A i r c costs)"

definition savings_quote :: "dec_arith \<Rightarrow> calculation_input \<Rightarrow> resource_calculation \<Rightarrow> savings_breakdown \<Rightarrow> bool" where
  "savings_quote A i c savings \<longleftrightarrow>
     (\<exists>source azure. rc_source_costs c = Some source \<and> rc_azure_costs c = Some azure \<and>
        calculate_savings A source azure (ps_selected_parity_adjustment (ci_settings i)) =
          (Ok savings :: savings_breakdown calculation_result))"

definition result_quoted :: "dec_arith \<Rightarrow> calculation_input \<Rightarrow> resource \<Rightarrow> resource_calculation \<Rightarrow> bool" where
  "result_quoted A i r c \<longleftrightarrow>
     (\<forall>costs. rc_source_costs c = Some costs \<longrightarrow> source_quote A i r costs) \<and>
     (\<forall>costs. rc_azure_costs c = Some costs \<longrightarrow> azure_quote A i r c costs) \<and>
     (\<forall>savings. rc_savings c = Some savings \<longrightarrow> savings_quote A i c savings)"

lemma rated_source_costs:
  "rated_source vcpu iops w p result = Ok s \<Longrightarrow> rs_costs s = Some costs \<Longrightarrow> result = Ok costs"
  by (auto simp: rated_source_def Let_def split: outcome.splits)

lemma resolve_source_quote:
  assumes "resolve_source A r i = Ok s" "rs_costs s = Some costs"
  shows "source_quote A i r costs"
proof (cases r)
  case (Ec2 e)
  then show ?thesis using assms
    by (fastforce simp: source_quote_def resolve_source_def resolve_ec2_source_def unavailable_source_def
        aws_ec2_rate_def find_Some_iff in_set_conv_nth split: option.splits outcome.splits dest!: rated_source_costs)
next
  case (Rds d)
  then show ?thesis using assms
    by (fastforce simp: source_quote_def resolve_source_def resolve_rds_source_def unavailable_source_def
        aws_rds_rate_def find_Some_iff in_set_conv_nth split: option.splits dest!: rated_source_costs)
next
  case (OnPrem p)
  then show ?thesis using assms
    by (cases "resolve_on_prem_source A p (ci_settings i)")
       (auto simp: source_quote_def resolve_source_def resolve_on_prem_source_def obind_Ok_iff)
qed (use assms(1) in \<open>simp add: resolve_source_def\<close>)

lemma resolve_vm_source_quote:
  assumes "resolve_ec2_vm_source A vm i = Ok s" "rs_costs s = Some costs"
  shows "source_quote A i (Ec2Vm vm) costs"
  using assms by (fastforce simp: source_quote_def resolve_ec2_vm_source_def unavailable_source_def
        aws_ec2_rate_def find_Some_iff in_set_conv_nth split: option.splits dest!: rated_source_costs)

lemma resolve_azure_quote:
  assumes "resolve_azure_costs A t r gb i = Ok (Some costs, ds, st, un, steps)"
  shows "\<exists>z sql. ci_azure_snapshot i = Some z \<and> resource_sql r = Some sql \<and>
      (\<exists>rec\<in>set (zs_mi_rates z).
          mr_configuration_key rec = st_configuration_key t \<and> mr_purchase_option rec = sql_mi_purchase_option sql \<and>
          calculate_azure A (sr_quantity (resource_shared r)) (sr_annual_hours (resource_shared r)) gb
            (st_included_memory_gb t) (st_selected_memory_gb t) (mr_rate rec) (ci_settings i) = Ok costs)"
  using assms by (fastforce simp: resolve_azure_costs_def no_azure_costs_def obind_Ok_iff azure_mi_rate_def
      find_Some_iff in_set_conv_nth split: option.splits outcome.splits if_splits)

lemma resolve_azure_vm_quote:
  assumes "resolve_azure_vm_costs A t vm i = Ok (Some costs, st, un, steps)"
  shows "\<exists>z disks urls. ci_azure_snapshot i = Some z \<and> managed_disks_monthly A z (vt_disks t) = Ok (disks, urls) \<and>
      (\<exists>rec\<in>set (zs_vm_rates z).
          eq_ignore_ascii_case (vm_arm_sku_name rec) (vt_arm_sku_name t) \<and>
          vm_purchase_option rec = ec2vm_purchase_option vm \<and>
          calculate_azure_vm A (sr_quantity (ec2vm_shared vm)) (sr_annual_hours (ec2vm_shared vm))
            (vm_hourly_rate rec) (vm_license_hourly rec) disks (ci_settings i) = Ok costs)"
  using assms by (fastforce simp: resolve_azure_vm_costs_def no_vm_costs_def azure_vm_rate_def
      find_Some_iff in_set_conv_nth split: option.splits outcome.splits)

lemma result_quoted_resource:
  assumes "calculate_resource E A i r = Ok c"
  shows "result_quoted A i r c"
  using assms
proof (cases rule: calculate_resource_cases)
  case (mi si)
  have q: "azure_quote A i r c' costs \<longleftrightarrow> mi_quote A i r c' costs" for c' costs
    using mi(1) by (cases r; simp add: azure_quote_def)
  show ?thesis using mi(3)
  proof cases
    case (unpriced source s st ts z)
    then show ?thesis using resolve_source_quote by (auto simp: result_quoted_def)
  next
    case (priced source s t selected ac ds z un steps sv svs xs)
    have "mi_quote A i r c costs" if "ac = Some costs" for costs
      using resolve_azure_quote [OF priced(6) [unfolded that]] priced(1,5) by (auto simp: mi_quote_def)
    moreover have "savings_quote A i c v" if "sv = Some v" for v
      using savings_of_Ok(2) [OF priced(7) that] priced(1,4) by (auto simp: savings_quote_def)
    ultimately show ?thesis
      using resolve_source_quote [OF priced(2)] priced(1,4) by (auto simp: result_quoted_def q)
  qed
next
  case (vm vm si)
  show ?thesis using vm(3)
  proof cases
    case (vm_unpriced source s st ts z)
    then show ?thesis using resolve_vm_source_quote [OF vm_unpriced(2)] vm(1) by (auto simp: result_quoted_def)
  next
    case (vm_priced source s cls vcpu evaluated selected t ac z un steps sv svs prices si' xs)
    have "vm_quote A i vm c costs" if "ac = Some costs" for costs
      using resolve_azure_vm_quote [OF vm_priced(8) [unfolded that]] vm_priced(1,7) by (auto simp: vm_quote_def)
    moreover have "savings_quote A i c v" if "sv = Some v" for v
      using savings_of_Ok(2) [OF vm_priced(9) that] vm_priced(1,4) by (auto simp: savings_quote_def)
    ultimately show ?thesis
      using resolve_vm_source_quote [OF vm_priced(2)] vm_priced(1,4) vm(1)
      by (auto simp: result_quoted_def azure_quote_def)
  qed
qed

text \<open>
  C3: every amount of a result comes from the snapshots of the calculation: the source costs are the
  cost engine's for a rate of the AWS snapshot under the resource's own business key (or the settings' own
  prices on premises), the Azure costs are the cost engine's for a rate of the selected target under the
  resource's purchase option, and the savings are those of exactly these two amounts.
\<close>
theorem calculation_quotes:
  assumes "engine_calculate E A i = Ok revision" "ps_project_type (ci_settings i) \<noteq> PtSqlPayg"
  shows "list_all2 (result_quoted A i) (ci_resources i) (cr_resource_results revision)"
  using engine_calculate_results(1) [OF assms] by (rule list_all2_mono) (rule result_quoted_resource)

section \<open>Sane amounts\<close>

lemma source_quote_sane:
  assumes "dec_laws A" "calculation_input_ok E i" "r \<in> set (ci_resources i)" "source_quote A i r costs"
  shows "source_costs_sane costs"
proof -
  note ok = input_resource_ok [OF assms(2,3)]
  show ?thesis
  proof (cases r)
    case (Ec2 e)
    then show ?thesis using assms(4) ok calculate_ec2_source_sane [OF assms(1) ok(3)] by (auto simp: source_quote_def)
  next
    case (Ec2Vm vm)
    then show ?thesis using assms(4) ok calculate_ec2_vm_source_sane [OF assms(1) ok(3)] by (auto simp: source_quote_def)
  next
    case (Rds d)
    then show ?thesis using assms(4) ok calculate_rds_source_sane [OF assms(1) ok(3)] by (auto simp: source_quote_def)
  next
    case (OnPrem p)
    then show ?thesis using assms(4) ok calculate_on_prem_source_sane [OF assms(1) ok(3)] by (auto simp: source_quote_def)
  qed
qed

lemma azure_quote_sane:
  assumes "dec_laws A" "calculation_input_ok E i" "r \<in> set (ci_resources i)" "azure_quote A i r c costs"
  shows "azure_costs_sane A costs"
proof -
  note ok = input_resource_ok [OF assms(2,3)]
  have "0 \<le> sr_annual_hours (resource_shared r)" using ok(1) by (simp add: shared_ok_def)
  then show ?thesis
    using assms(4) calculate_azure_sane [OF assms(1) ok(3)] calculate_azure_vm_sane [OF assms(1) ok(3)]
    by (cases r) (auto simp: azure_quote_def mi_quote_def vm_quote_def)
qed

lemma sum_nonneg_repr:
  assumes "dec_laws A" "dec_sum A x ys = Some z" "0 \<le> x" "dec_repr A x" "\<forall>y\<in>set ys. 0 \<le> y"
  shows "0 \<le> z \<and> dec_repr A z"
  using assms(2-)
proof (induction ys arbitrary: x)
  case (Cons y ys)
  then obtain x' where x': "dec_add A x y = Some x'" "dec_sum A x' ys = Some z" by (auto simp: bind_eq_Some_conv)
  show ?case
    by (rule Cons.IH [OF x'(2)]) (use Cons.prems add_nonneg [OF assms(1) x'(1)] ops_repr(1) [OF assms(1) x'(1)] in auto)
qed simp

definition result_sane :: "dec_arith \<Rightarrow> resource_calculation \<Rightarrow> bool" where
  "result_sane A c \<longleftrightarrow>
     (\<forall>costs. rc_source_costs c = Some costs \<longrightarrow> source_costs_sane costs) \<and>
     (\<forall>costs. rc_azure_costs c = Some costs \<longrightarrow> azure_costs_sane A costs)"

definition totals_sane :: "portfolio_totals \<Rightarrow> bool" where
  "totals_sane t \<longleftrightarrow>
     (\<forall>total. pt_aws_all_rows_total t = Some total \<longrightarrow> 0 \<le> total) \<and>
     0 \<le> pt_aws_mapped_rows_total t \<and> 0 \<le> pt_portfolio_after_selected_parity t \<and>
     pt_portfolio_after_selected_parity t \<le> pt_azure_mapped_rows_total t"

lemma in_map_filter: "y \<in> set (List.map_filter f xs) \<longleftrightarrow> (\<exists>x\<in>set xs. f x = Some y)"
  by (auto simp: map_filter_set)

lemma portfolio_sane:
  assumes "dec_laws A" "calculate_portfolio A cs adj = (Ok t :: portfolio_totals calculation_result)" "is_percent adj"
    and "\<forall>c\<in>set cs. result_sane A c"
  shows "totals_sane t"
proof -
  have tot: "source_costs_sane s \<Longrightarrow> 0 \<le> sc_total s" "azure_costs_sane A a \<Longrightarrow> 0 \<le> ac_total_before_parity a" for s a
    by (auto simp: source_costs_sane_def azure_costs_sane_def)
  have pos: "\<forall>x\<in>set (map sc_total (List.map_filter rc_source_costs cs)). 0 \<le> x"
    "\<forall>x\<in>set (map (\<lambda>p. sc_total (fst p)) (List.map_filter priced_pair cs)). 0 \<le> x"
    "\<forall>x\<in>set (map (\<lambda>p. ac_total_before_parity (snd p)) (List.map_filter priced_pair cs)). 0 \<le> x"
    using assms(4) tot by (fastforce simp: in_map_filter result_sane_def priced_pair_def zip_option_def
        split: option.splits)+
  note sum = sum_nonneg_repr [OF assms(1) _ order_refl zero_one_repr(1) [OF assms(1)]]
  obtain kept where
    all: "\<forall>total. pt_aws_all_rows_total t = Some total \<longrightarrow>
       dec_sum A 0 (map sc_total (List.map_filter rc_source_costs cs)) = Some total" and
    m: "dec_sum A 0 (map (\<lambda>p. sc_total (fst p)) (List.map_filter priced_pair cs)) = Some (pt_aws_mapped_rows_total t)"
    "dec_sum A 0 (map (\<lambda>p. ac_total_before_parity (snd p)) (List.map_filter priced_pair cs)) =
       Some (pt_azure_mapped_rows_total t)" and
    k: "dec_sub A 1 adj = Some kept"
    "dec_mul A (pt_azure_mapped_rows_total t) kept = Some (pt_portfolio_after_selected_parity t)"
    using assms(2) by (auto simp: calculate_portfolio_def obind_Ok_iff Let_def split: if_splits)
  have kept: "0 \<le> kept" "kept \<le> 1"
    using sub_nonneg [OF assms(1) k(1)] sub_le [OF assms(1) k(1)] zero_one_repr [OF assms(1)] assms(3)
    by (auto simp: is_percent_def)
  note az = sum [OF m(2) pos(3)]
  show ?thesis unfolding totals_sane_def
    using sum [OF _ pos(1)] all sum [OF m(1) pos(2)] mul_nonneg [OF assms(1) k(2)] az kept
      mul_percent_le [OF assms(1) k(2)] by blast
qed

lemma calculated_row_sane:
  assumes "dec_laws A" "engine_calculate E A i = Ok revision" "ps_project_type (ci_settings i) \<noteq> PtSqlPayg"
    and "c \<in> set (cr_resource_results revision)"
  shows "result_sane A c"
proof -
  note r = engine_calculate_results [OF assms(2,3)]
  obtain x where x: "x \<in> set (ci_resources i)" "calculate_resource E A i x = Ok c"
    using list_all2_in_right [OF r(1) assms(4)] by blast
  then show ?thesis
    using result_quoted_resource [OF x(2)] source_quote_sane [OF assms(1) r(3) x(1)]
      azure_quote_sane [OF assms(1) r(3) x(1)]
    by (auto simp: result_sane_def result_quoted_def)
qed

lemma calculated_percent:
  "calculation_input_ok E i \<Longrightarrow> is_percent (ps_selected_parity_adjustment (ci_settings i))"
  by (auto simp: calculation_input_ok_def project_ok_def validation_project_def settings_ok_def
        settings_percents_def)


section \<open>A priced calculation\<close>

definition example_mi_snapshot :: azure_price_snapshot where
  "example_mi_snapshot =
     example_azure_snapshot\<lparr>zs_target_region := ''eastus'',
       zs_metadata := (zs_metadata example_azure_snapshot)\<lparr>sm_snapshot_id := ''azure-'' @ replicate 64 CHR ''0''\<rparr>,
       zs_mi_rates := map (\<lambda>r. r\<lparr>mr_configuration_key := ''g4''\<rparr>) (zs_mi_rates example_azure_snapshot)\<rparr>"

definition example_server :: on_prem_resource where
  "example_server =
     (example_on_prem 20000)\<lparr>op_source_vcpu := 4, op_source_max_iops := 6400,
       op_shared := example_shared\<lparr>sr_source_ram_gb := 32\<rparr>\<rparr>"

definition example_priced_calculation :: calculation_input where
  "example_priced_calculation =
     (example_calculation PtOnPrem [OnPrem example_server] None)\<lparr>ci_azure_snapshot := Some example_mi_snapshot\<rparr>"

definition fully_priced :: "calculation_revision \<Rightarrow> bool" where
  "fully_priced revision \<longleftrightarrow> cr_resource_results revision \<noteq> [] \<and>
     list_all (\<lambda>c. rc_source_costs c \<noteq> None \<and> rc_azure_costs c \<noteq> None \<and> rc_savings c \<noteq> None)
       (cr_resource_results revision)"

lemma example_priced_ok: "calculation_input_ok example_engine example_priced_calculation"
proof -
  have "is_snapshot_id (''azure-'' @ replicate 64 CHR ''0'') ''azure-''" by code_simp
  then have "snapshot_ok (Some (sm_snapshot_id (zs_metadata example_mi_snapshot))) ''azure-''"
    by (simp add: snapshot_ok_def example_mi_snapshot_def)
  moreover have "kind_ok (OnPrem example_server)" by (simp add: example_server_def example_on_prem_def)
  moreover have "shared_ok (example_settings PtOnPrem) (OnPrem example_server)"
    using example_shared_ok [of "OnPrem (example_on_prem 20000)" PtOnPrem]
    by (simp add: shared_ok_def example_server_def example_on_prem_def example_shared_def)
  ultimately have "project_ok (validation_project example_priced_calculation)"
    using example_calculation_ok [of PtOnPrem]
    by (simp add: calculation_input_ok_def project_ok_def validation_project_def example_priced_calculation_def
        example_calculation_def MAX_PROJECT_RESOURCES_def del: kind_ok.simps)
  moreover have "azure_in_scope (example_settings PtOnPrem) example_mi_snapshot"
    by (simp add: azure_in_scope_def example_mi_snapshot_def example_azure_snapshot_def snapshot_metadata_of_def
        example_creation_def example_settings_def normalize_creation_metadata_def Let_def)
  ultimately show ?thesis
    by (simp add: calculation_input_ok_def example_priced_calculation_def example_calculation_def example_engine_def)
qed

lemma example_priced_kind: "ps_project_type (ci_settings example_priced_calculation) \<noteq> PtSqlPayg"
  by (simp add: example_priced_calculation_def example_calculation_def example_settings_def)

lemma example_priced_resources: "ci_resources example_priced_calculation = [OnPrem example_server]"
  by (simp add: example_priced_calculation_def example_calculation_def)

lemma example_server_storage:
  "storage_inputs_of exact_arith (OnPrem example_server) = (Ok \<lparr>si_sql_data_gb_per_instance = 100,
     si_persistent_ebs_gb_per_instance = 0, si_azure_storage_gb_per_instance = 128\<rparr> :: storage_inputs calculation_result)"
  by code_simp

lemma example_server_request:
  "mi_selection_request (OnPrem example_server) 4 6400 \<lparr>si_sql_data_gb_per_instance = 100,
     si_persistent_ebs_gb_per_instance = 0, si_azure_storage_gb_per_instance = 128\<rparr> example_priced_calculation =
   example_request 6400 32"
  by (simp add: mi_selection_request_def example_request_def example_priced_calculation_def example_calculation_def
      example_settings_def example_server_def)

definition example_server_costs :: source_cost_breakdown where
  "example_server_costs =
     \<lparr>sc_compute_gross = 8000, sc_compute_net = 8000, sc_license_gross = 8000, sc_license_net = 7200,
      sc_storage_gross = 0, sc_storage_net = 0, sc_hardware_annual = 8000, sc_electricity_annual = 8760,
      sc_total = 23960\<rparr>"

definition example_server_target_costs :: azure_cost_breakdown where
  "example_server_target_costs =
     \<lparr>ac_compute_gross = 35040, ac_additional_ram_gb = 20, ac_additional_ram_gross = 0,
      ac_compute_plus_ram_net = 28032, ac_license_gross = 17520, ac_license_net = 17520,
      ac_storage_gross = 2304, ac_storage_net = 2304, ac_total_before_parity = 47856\<rparr>"

lemma example_server_source:
  "\<exists>source. resolve_source exact_arith (OnPrem example_server) example_priced_calculation = Ok source \<and>
     rs_source_vcpu source = Some 4 \<and> rs_source_max_iops source = Some 6400 \<and>
     rs_costs source = Some example_server_costs"
proof -
  have "\<exists>result. calculate_on_prem_source exact_arith example_server (example_settings PtOnPrem) = Ok result \<and>
      ocr_costs result = example_server_costs"
    by (simp add: calculate_on_prem_source_def estimated_power_def example_server_def example_on_prem_def
        example_shared_def example_settings_def example_sql_def div_ceil_def cost_eval example_server_costs_def)
  then show ?thesis
    by (auto simp: resolve_source_def resolve_on_prem_source_def example_priced_calculation_def
        example_calculation_def example_server_def)
qed

lemma example_server_azure_costs:
  assumes "st_configuration_key t = ''g4''" "st_included_memory_gb t = 28" "st_selected_memory_gb t = 48"
  shows "\<exists>discounts un steps z. resolve_azure_costs exact_arith t (OnPrem example_server) 128 example_priced_calculation =
     (Ok (Some example_server_target_costs, discounts, z, un, steps) :: azure_costs_outcome calculation_result)"
proof -
  define rate where "rate = \<lparr>ar_compute_hourly = 2, ar_license_hourly = 1, ar_storage_monthly_per_gb = 1,
     ar_additional_memory_per_gb_hourly = 0\<rparr>"
  have "has_complete_mi_rate_set example_mi_snapshot ''g4''" by code_simp
  moreover have "map_option mr_rate (azure_mi_rate example_mi_snapshot ''g4'' PoPayg) = Some rate"
    unfolding rate_def by code_simp
  moreover have "purchase_option_discounts_of exact_arith example_mi_snapshot ''g4'' =
      (Ok (Some \<lparr>pod_payg = 0, pod_one_year_reserved = 0, pod_three_year_reserved = 0,
         pod_one_year_savings_plan = 0, pod_azure_hybrid_benefit = 1\<rparr>) :: purchase_option_discounts option calculation_result)"
    by code_simp
  moreover have "calculate_azure exact_arith 2 8760 128 28 48 rate (example_settings PtOnPrem) =
      Ok example_server_target_costs"
    by (simp add: calculate_azure_def rate_def example_settings_def cost_eval example_server_target_costs_def
        azure_mi_billable_storage_gb_def AZURE_MI_STORAGE_UNIT_GB_def)
  moreover have "\<exists>step. azure_cost_formula_step exact_arith t (OnPrem example_server) 128 rate (example_settings PtOnPrem)
      example_server_target_costs = (Ok step :: explanation_step calculation_result)"
    by (simp add: azure_cost_formula_step_def azure_mi_billable_storage_gb_def AZURE_MI_STORAGE_UNIT_GB_def cost_eval)
  ultimately show ?thesis
    using assms by (auto simp: resolve_azure_costs_def example_priced_calculation_def example_calculation_def
        example_server_def example_on_prem_def example_shared_def example_sql_def)
qed

lemma example_server_savings:
  "\<exists>sv steps. savings_of exact_arith (Some example_server_costs) (Some example_server_target_costs) 0 =
     (Ok (Some sv, steps) :: (savings_breakdown option \<times> explanation_step list) calculation_result)"
  by (simp add: savings_of_def zip_option_def calculate_savings_def example_server_costs_def
      example_server_target_costs_def cost_eval)

lemma example_server_explained:
  "rs_costs source = Some example_server_costs \<Longrightarrow>
   \<exists>source'. explain_source exact_arith (OnPrem example_server) example_priced_calculation
     \<lparr>si_sql_data_gb_per_instance = 100, si_persistent_ebs_gb_per_instance = 0, si_azure_storage_gb_per_instance = 128\<rparr>
     4 6400 source = (Ok source' :: resolved_source calculation_result) \<and> rs_costs source' = Some example_server_costs"
  by (simp add: explain_source_def source_input_step_def source_cost_formula_step_def source_formula_values_def
      divide_or_zero_def push_step_def example_server_costs_def example_server_def example_on_prem_def example_shared_def
      example_sql_def cost_eval)

lemma example_priced_row:
  "\<exists>revision c. engine_calculate example_engine exact_arith example_priced_calculation = Ok revision \<and>
     cr_resource_results revision = [c] \<and> rc_source_costs c = Some example_server_costs \<and>
     rc_azure_costs c = Some example_server_target_costs \<and> rc_savings c \<noteq> None"
proof -
  let ?i = example_priced_calculation and ?r = "OnPrem example_server"
  obtain si where si: "storage_inputs_of exact_arith ?r = (Ok si :: storage_inputs calculation_result)"
    "si = \<lparr>si_sql_data_gb_per_instance = 100, si_persistent_ebs_gb_per_instance = 0,
       si_azure_storage_gb_per_instance = 128\<rparr>"
    "mi_selection_request ?r 4 6400 si ?i = example_request 6400 32"
    using example_server_storage example_server_request by blast
  obtain source where source: "resolve_source exact_arith ?r ?i = Ok source" "rs_source_vcpu source = Some 4"
    "rs_source_max_iops source = Some 6400" "rs_costs source = Some example_server_costs"
    using example_server_source by blast
  obtain s t where sel: "select_target exact_arith example_catalog (example_request 6400 32) = Ok s" "ts_selected s = Some t"
    "st_configuration_key t = ''g4''" "st_included_memory_gb t = 28" "st_selected_memory_gb t = 48"
    using example_selection by blast
  have st: "ts_mapping_status s = Mapped" using select_target_mapped [OF sel(1)] sel(2) by simp
  obtain source' where e: "explain_source exact_arith ?r ?i si 4 6400 source = (Ok source' :: resolved_source calculation_result)"
    "rs_costs source' = Some example_server_costs"
    using example_server_explained [OF source(4)] si(2) by blast
  have "ps_selected_parity_adjustment (ci_settings ?i) = 0"
    by (simp add: example_priced_calculation_def example_calculation_def example_settings_def)
  note adj = this example_priced_resources
  obtain ds un steps z sv xs where
    az: "resolve_azure_costs exact_arith t ?r 128 ?i =
       (Ok (Some example_server_target_costs, ds, z, un, steps) :: azure_costs_outcome calculation_result)" and
    sv: "savings_of exact_arith (Some example_server_costs) (Some example_server_target_costs) 0 =
     (Ok (Some sv, xs) :: (savings_breakdown option \<times> explanation_step list) calculation_result)"
    using example_server_azure_costs [OF sel(3-5)] example_server_savings by blast
  have gb: "si_azure_storage_gb_per_instance si = 128" using si(2) by simp
  obtain c where c: "calculate_resource example_engine exact_arith ?i ?r = Ok c"
    "rc_source_costs c = Some example_server_costs" "rc_azure_costs c = Some example_server_target_costs"
    "rc_savings c = Some sv"
    using az [folded gb] sv by (auto simp: calculate_resource_def si(1,3) calculate_mi_resource_def source sel st e
        example_engine_def mapped_mi_result_def adj)
  have "\<exists>t. calculate_portfolio exact_arith [c] 0 = (Ok t :: portfolio_totals calculation_result)"
    by (simp add: calculate_portfolio_def priced_pair_def zip_option_def map_filter_simps c cost_eval
        example_server_costs_def example_server_target_costs_def)
  moreover have "validate_calculation_input example_engine ?i = Ok ()"
    using example_priced_ok validate_calculation_input_Ok(1) by blast
  ultimately show ?thesis
    using c example_priced_kind by (auto simp: engine_calculate_def adj)
qed

lemma example_priced:
  "\<exists>revision. engine_calculate example_engine exact_arith example_priced_calculation = Ok revision \<and>
     fully_priced revision"
  using example_priced_row by (auto simp: fully_priced_def)

theorem calculation_results_typed_witness:
  "\<exists>revision. engine_calculate example_engine exact_arith example_priced_calculation = Ok revision \<and>
     fully_priced revision \<and> list_ex (has_target (OnPrem example_server)) (cr_resource_results revision)"
proof -
  obtain revision where r: "engine_calculate example_engine exact_arith example_priced_calculation = Ok revision"
    "fully_priced revision" using example_priced by blast
  from calculation_results_typed [OF r(1) example_priced_kind] obtain c where
    "cr_resource_results revision = [c]" "result_typed (OnPrem example_server) c"
    by (auto simp: example_priced_resources list_all2_Cons1)
  then show ?thesis using r by (auto simp: fully_priced_def result_typed_def)
qed

theorem calculation_quotes_witness:
  "\<exists>revision costs c. engine_calculate example_engine exact_arith example_priced_calculation = Ok revision \<and>
     cr_resource_results revision = [c] \<and>
     azure_quote exact_arith example_priced_calculation (OnPrem example_server) c costs"
proof -
  obtain revision where r: "engine_calculate example_engine exact_arith example_priced_calculation = Ok revision"
    "fully_priced revision" using example_priced by blast
  from calculation_quotes [OF r(1) example_priced_kind] obtain c where
    c: "cr_resource_results revision = [c]" "result_quoted exact_arith example_priced_calculation (OnPrem example_server) c"
    by (auto simp: example_priced_resources list_all2_Cons1)
  then obtain costs where "rc_azure_costs c = Some costs" using r(2) by (auto simp: fully_priced_def)
  then show ?thesis using r(1) c by (auto simp: result_quoted_def)
qed


end
