(* ===== verification/WorkflowPortfolio.thy ===== *)
theory WorkflowPortfolio
  imports WorkflowFacts
begin

text \<open>
  The portfolio of a calculation is the sum of its rows: every total is the sum of the amounts of the rows
  that are priced on both sides, and the difference it reports is the sum of the differences of those rows.
  Each step of the code rounds to a decimal; \<open>portfolio_sums\<close> allows every amount an error. With exact
  arithmetic it is zero; with any arithmetic that meets the laws of \<open>Decimal\<close> it stays below \<open>10 ^ - 13\<close>, as
  long as no row exceeds ten billion a year.
\<close>

definition priced_rows :: "resource_calculation list \<Rightarrow> resource_calculation list" where
  "priced_rows cs = filter (\<lambda>c. rc_savings c \<noteq> None) cs"

definition row_source :: "resource_calculation \<Rightarrow> rat" where
  "row_source c = sc_total (the (rc_source_costs c))"

definition row_azure :: "resource_calculation \<Rightarrow> rat" where
  "row_azure c = ac_total_before_parity (the (rc_azure_costs c))"

definition row_difference :: "resource_calculation \<Rightarrow> rat" where
  "row_difference c = sb_difference (the (rc_savings c))"

definition portfolio_sums :: "rat \<Rightarrow> rat \<Rightarrow> resource_calculation list \<Rightarrow> portfolio_totals \<Rightarrow> bool" where
  "portfolio_sums tolerance adjustment cs t \<longleftrightarrow>
     pt_comparable_resource_count t = length (priced_rows cs) \<and>
     (if list_all (\<lambda>c. rc_source_costs c \<noteq> None) cs
      then \<exists>all. pt_aws_all_rows_total t = Some all \<and> \<bar>all - sum_list (map row_source cs)\<bar> \<le> tolerance
      else pt_aws_all_rows_total t = None) \<and>
     \<bar>pt_aws_mapped_rows_total t - sum_list (map row_source (priced_rows cs))\<bar> \<le> tolerance \<and>
     \<bar>pt_azure_mapped_rows_total t - sum_list (map row_azure (priced_rows cs))\<bar> \<le> tolerance \<and>
     \<bar>pt_portfolio_after_selected_parity t - pt_azure_mapped_rows_total t * (1 - adjustment)\<bar> \<le> tolerance \<and>
     \<bar>pt_portfolio_difference t - sum_list (map row_difference (priced_rows cs))\<bar> \<le> tolerance \<and>
     (pt_azure_mapped_rows_total t \<noteq> 0 \<and> adjustment = pt_required_portfolio_adjustment t \<longrightarrow>
        \<bar>pt_portfolio_difference t\<bar> \<le> tolerance)"

lemma exact_values:
  "dec_add exact_arith x y = Some z \<Longrightarrow> z = x + y" "dec_sub exact_arith x y = Some z \<Longrightarrow> z = x - y"
  "dec_mul exact_arith x y = Some z \<Longrightarrow> z = x * y" "dec_div exact_arith x y = Some z \<Longrightarrow> z = x / y"
  by (auto simp: exact_arith_def in_range_def split: if_splits)

lemma exact_sum: "dec_sum exact_arith x ys = Some z \<Longrightarrow> z = x + sum_list ys"
proof (induction ys arbitrary: x)
  case (Cons y ys)
  then show ?case by (fastforce simp: bind_eq_Some_conv dest: exact_values(1))
qed simp

lemma exact_savings:
  assumes "calculate_savings exact_arith source azure adjustment = (Ok s :: savings_breakdown calculation_result)"
  shows "sb_difference s = ac_total_before_parity azure * (1 - adjustment) - sc_total source"
proof -
  obtain kept after d where
    "dec_sub exact_arith 1 adjustment = Some kept" "dec_mul exact_arith (ac_total_before_parity azure) kept = Some after"
    "dec_sub exact_arith after (sc_total source) = Some d" "sb_difference s = d"
    using assms unfolding calculate_savings_def obind_Ok_iff d_ops_Ok outcome.inject by auto
  then show ?thesis by (auto dest!: exact_values)
qed

lemma typed_priced:
  assumes "\<forall>c\<in>set cs. rc_savings c \<noteq> None \<longleftrightarrow> rc_source_costs c \<noteq> None \<and> rc_azure_costs c \<noteq> None"
  shows "List.map_filter priced_pair cs =
    map (\<lambda>c. (the (rc_source_costs c), the (rc_azure_costs c))) (priced_rows cs)"
  using assms
  by (induction cs) (auto simp: priced_rows_def priced_pair_def zip_option_def map_filter_simps split: option.splits)

lemma all_sources:
  "list_all (\<lambda>c. rc_source_costs c \<noteq> None) cs \<Longrightarrow>
     map sc_total (List.map_filter rc_source_costs cs) = map row_source cs"
  by (induction cs) (auto simp: map_filter_simps row_source_def)

lemma sum_list_linear: "sum_list (map (\<lambda>c. f c * k - g c) cs) = sum_list (map f cs) * k - (sum_list (map g cs) :: rat)"
  by (induction cs) (simp_all add: algebra_simps)

lemma calculate_portfolio_sums:
  assumes "calculate_portfolio exact_arith cs adjustment = (Ok t :: portfolio_totals calculation_result)"
    and "\<forall>c\<in>set cs. rc_savings c \<noteq> None \<longleftrightarrow> rc_source_costs c \<noteq> None \<and> rc_azure_costs c \<noteq> None"
    and "\<forall>c\<in>set (priced_rows cs). row_difference c = row_azure c * (1 - adjustment) - row_source c"
  shows "portfolio_sums 0 adjustment cs t"
proof -
  define priced where "priced = priced_rows cs"
  have pairs: "map (\<lambda>p. sc_total (fst p)) (List.map_filter priced_pair cs) = map row_source priced"
    "map (\<lambda>p. ac_total_before_parity (snd p)) (List.map_filter priced_pair cs) = map row_azure priced"
    "length (List.map_filter priced_pair cs) = length priced"
    unfolding typed_priced [OF assms(2)] priced_def by (simp_all add: row_source_def row_azure_def comp_def)
  obtain all s a req kept after d where
    all: "(if list_all (\<lambda>r. rc_source_costs r \<noteq> None) cs
            then obind (d_sum exact_arith 0 (map sc_total (List.map_filter rc_source_costs cs))) (\<lambda>sum. Ok (Some sum))
            else Ok None) = (Ok all :: rat option calculation_result)" and
    s: "dec_sum exact_arith 0 (map row_source priced) = Some s" and
    a: "dec_sum exact_arith 0 (map row_azure priced) = Some a" and
    req: "(if a = 0 then Ok 0 else obind (d_div exact_arith s a) (\<lambda>ratio. d_sub exact_arith 1 ratio)) =
      (Ok req :: rat calculation_result)" and
    k: "dec_sub exact_arith 1 adjustment = Some kept" "dec_mul exact_arith a kept = Some after"
      "dec_sub exact_arith after s = Some d" and
    t: "pt_comparable_resource_count t = length priced" "pt_aws_all_rows_total t = all" "pt_aws_mapped_rows_total t = s"
      "pt_azure_mapped_rows_total t = a" "pt_portfolio_after_selected_parity t = after" "pt_portfolio_difference t = d"
      "pt_required_portfolio_adjustment t = req"
    using assms(1) unfolding calculate_portfolio_def Let_def pairs obind_Ok_iff d_ops_Ok outcome.inject
    by auto
  have sums: "s = sum_list (map row_source priced)" "a = sum_list (map row_azure priced)"
    using exact_sum [OF s] exact_sum [OF a] by simp_all
  have after: "after = a * (1 - adjustment)" "d = after - s"
    using k by (auto dest!: exact_values)
  have "map row_difference priced = map (\<lambda>c. row_azure c * (1 - adjustment) - row_source c) priced"
    using assms(3) by (simp add: priced_def)
  then have diff: "d = sum_list (map row_difference priced)"
    by (simp only: after sums sum_list_linear)
  have "all = (if list_all (\<lambda>c. rc_source_costs c \<noteq> None) cs then Some (sum_list (map row_source cs)) else None)"
    using all by (auto simp: obind_Ok_iff d_sum_eq all_sources dest: exact_sum split: if_splits)
  moreover have "a \<noteq> 0 \<Longrightarrow> req = 1 - s / a"
    using req by (auto simp: obind_Ok_iff d_ops_Ok dest!: exact_values)
  ultimately show ?thesis
    unfolding portfolio_sums_def priced_def [symmetric] t by (auto simp: sums(1,2) [symmetric] after diff [symmetric])
qed

lemma calculated_rows:
  assumes "engine_calculate E A i = Ok revision" "ps_project_type (ci_settings i) \<noteq> PtSqlPayg"
    and "c \<in> set (cr_resource_results revision)"
  shows "rc_savings c \<noteq> None \<longleftrightarrow> rc_source_costs c \<noteq> None \<and> rc_azure_costs c \<noteq> None"
    "rc_savings c = Some savings \<Longrightarrow> savings_quote A i c savings"
proof -
  obtain x where x: "calculate_resource E A i x = Ok c"
    using list_all2_in_right [OF engine_calculate_results(1) [OF assms(1,2)] assms(3)] by blast
  show "rc_savings c \<noteq> None \<longleftrightarrow> rc_source_costs c \<noteq> None \<and> rc_azure_costs c \<noteq> None"
    using result_typed_resource [OF x] by (simp add: result_typed_def)
  show "rc_savings c = Some savings \<Longrightarrow> savings_quote A i c savings"
    using result_quoted_resource [OF x] by (simp add: result_quoted_def)
qed

text \<open>with exact arithmetic the portfolio is exactly the sum of its rows.\<close>
theorem portfolio_sums_exact:
  assumes "engine_calculate E exact_arith i = Ok revision" "ps_project_type (ci_settings i) \<noteq> PtSqlPayg"
  shows "portfolio_sums 0 (ps_selected_parity_adjustment (ci_settings i)) (cr_resource_results revision)
    (cr_portfolio_totals revision)"
proof -
  note r = engine_calculate_results [OF assms] and rows = calculated_rows [OF assms]
  show ?thesis
  proof (rule calculate_portfolio_sums [OF r(2)])
    show "\<forall>c\<in>set (priced_rows (cr_resource_results revision)).
        row_difference c = row_azure c * (1 - ps_selected_parity_adjustment (ci_settings i)) - row_source c"
      using rows(2) exact_savings
      by (fastforce simp: priced_rows_def savings_quote_def row_difference_def row_azure_def row_source_def)
  qed (use rows(1) in blast)
qed

section \<open>Rounding\<close>

lemma close_trans: "\<bar>x - y\<bar> \<le> d \<Longrightarrow> \<bar>y - z\<bar> \<le> e \<Longrightarrow> \<bar>x - z\<bar> \<le> d + e" for x y z :: rat
  by linarith

text \<open>Below seven trillion each operation is off by at most \<open>10 ^ - 16\<close>.\<close>

lemma step_errors:
  assumes "dec_laws A"
  shows "dec_add A x y = Some z \<Longrightarrow> \<bar>x + y\<bar> \<le> 7 * 10 ^ 12 \<Longrightarrow> \<bar>z - (x + y)\<bar> \<le> 1 / 10 ^ 16"
    "dec_sub A x y = Some z \<Longrightarrow> \<bar>x - y\<bar> \<le> 7 * 10 ^ 12 \<Longrightarrow> \<bar>z - (x - y)\<bar> \<le> 1 / 10 ^ 16"
    "dec_mul A x y = Some z \<Longrightarrow> \<bar>x * y\<bar> \<le> 7 * 10 ^ 12 \<Longrightarrow> \<bar>z - x * y\<bar> \<le> 1 / 10 ^ 16"
  using rounds_error [OF assms, of _ z 16] laws_rounds(1-3) [OF assms, of x y] by simp_all

lemma sum_error:
  assumes "dec_laws A" "dec_sum A x ys = Some z" "0 \<le> x" "\<forall>y\<in>set ys. 0 \<le> y"
    and "x + sum_list ys + of_nat (length ys) / 10 ^ 16 \<le> 7 * 10 ^ 12"
  shows "\<bar>z - (x + sum_list ys)\<bar> \<le> of_nat (length ys) / 10 ^ 16"
  using assms(2-)
proof (induction ys arbitrary: x)
  case (Cons y ys)
  obtain x' where x': "dec_add A x y = Some x'" "dec_sum A x' ys = Some z"
    using Cons.prems(1) by (auto simp: bind_eq_Some_conv)
  have pos: "0 \<le> y" "0 \<le> sum_list ys" using Cons.prems(3) by (auto intro: sum_list_nonneg)
  have bound: "x + y + sum_list ys + of_nat (length ys) / 10 ^ 16 + 1 / 10 ^ 16 \<le> 7 * 10 ^ 12"
    using Cons.prems(4) by (simp add: add_divide_distrib algebra_simps)
  have n: "(0 :: rat) \<le> of_nat (length ys) / 10 ^ 16" by simp
  have small: "\<bar>x + y\<bar> \<le> 7 * 10 ^ 12" using bound pos Cons.prems(2) n by simp
  have e: "\<bar>x' - (x + y)\<bar> \<le> 1 / 10 ^ 16" by (rule step_errors(1) [OF assms(1) x'(1) small])
  have "0 \<le> x'" by (rule add_nonneg [OF assms(1) x'(1) Cons.prems(2) pos(1)])
  moreover have "x' + sum_list ys + of_nat (length ys) / 10 ^ 16 \<le> 7 * 10 ^ 12" using e bound by linarith
  ultimately have "\<bar>z - (x' + sum_list ys)\<bar> \<le> of_nat (length ys) / 10 ^ 16"
    using Cons.IH [OF x'(2)] Cons.prems(3) by simp
  then have "\<bar>z - (x + y + sum_list ys)\<bar> \<le> of_nat (length ys) / 10 ^ 16 + 1 / 10 ^ 16" using e by linarith
  then show ?case by (simp add: add_divide_distrib algebra_simps)
qed simp

lemma sum_list_close:
  "\<forall>c\<in>set cs. \<bar>f c - g c\<bar> \<le> e \<Longrightarrow> \<bar>sum_list (map f cs) - sum_list (map g cs)\<bar> \<le> of_nat (length cs) * (e :: rat)"
proof (induction cs)
  case (Cons c cs)
  then have "\<bar>f c - g c\<bar> \<le> e" "\<bar>sum_list (map f cs) - sum_list (map g cs)\<bar> \<le> of_nat (length cs) * e" by simp_all
  then have "\<bar>f c - g c + (sum_list (map f cs) - sum_list (map g cs))\<bar> \<le> e + of_nat (length cs) * e" by linarith
  then show ?case by (simp add: algebra_simps)
qed simp

lemma sum_list_bounds:
  assumes "\<forall>c\<in>set cs. 0 \<le> f c \<and> f c \<le> (10 ^ 10 :: rat)" "length cs \<le> 100"
  shows "0 \<le> sum_list (map f cs)" "sum_list (map f cs) \<le> 10 ^ 12"
proof -
  show "0 \<le> sum_list (map f cs)" using assms(1) by (intro sum_list_nonneg) auto
  have "sum_list (map f cs) \<le> of_nat (length cs) * 10 ^ 10"
    using assms(1) by (induction cs) (auto simp: algebra_simps)
  moreover have "of_nat (length cs) * 10 ^ 10 \<le> (100 * 10 ^ 10 :: rat)"
    using assms(2) by (intro mult_right_mono) simp_all
  ultimately show "sum_list (map f cs) \<le> 10 ^ 12" by simp
qed

lemma rows_total:
  assumes "dec_laws A" "dec_sum A 0 (map f cs) = Some z" "\<forall>c\<in>set cs. 0 \<le> f c \<and> f c \<le> 10 ^ 10" "length cs \<le> 100"
  shows "\<bar>z - sum_list (map f cs)\<bar> \<le> 100 / 10 ^ 16" "0 \<le> z" "z \<le> 2 * 10 ^ 12"
proof -
  note b = sum_list_bounds [OF assms(3,4)]
  have n: "(of_nat (length cs) :: rat) \<le> 100" using assms(4) by simp
  then have "0 + sum_list (map f cs) + of_nat (length (map f cs)) / 10 ^ 16 \<le> 7 * 10 ^ 12" using b(2) by simp
  then have "\<bar>z - (0 + sum_list (map f cs))\<bar> \<le> of_nat (length (map f cs)) / 10 ^ 16"
    using assms(3) by (intro sum_error [OF assms(1,2)]) simp_all
  then show e: "\<bar>z - sum_list (map f cs)\<bar> \<le> 100 / 10 ^ 16" using n by simp
  have "\<bar>z - sum_list (map f cs)\<bar> \<le> 1" by (rule order_trans [OF e]) simp
  then show "z \<le> 2 * 10 ^ 12" using b(2) by simp
  show "0 \<le> z" using sum_nonneg_repr [OF assms(1,2)] zero_one_repr(1) [OF assms(1)] assms(3) by simp
qed

text \<open>The part of the Azure costs an adjustment keeps, and the required adjustment, are exact to \<open>10 ^ - 28\<close>.\<close>

lemma unit_error:
  assumes "dec_laws A" "dec_rounds A e (Some z)" "\<bar>e\<bar> \<le> 7"
  shows "\<bar>z - e\<bar> \<le> 1 / 10 ^ 28"
  using rounds_error [OF assms(1,2), of 28] assms(3) by simp

lemma kept_part:
  assumes "dec_laws A" "is_percent adjustment" "dec_sub A 1 adjustment = Some kept"
  shows "0 \<le> kept" "kept \<le> 1" "\<bar>kept - (1 - adjustment)\<bar> \<le> 1 / 10 ^ 28"
proof -
  have p: "0 \<le> adjustment" "adjustment \<le> 1" using assms(2) by (simp_all add: is_percent_def)
  show "0 \<le> kept" by (rule sub_nonneg [OF assms(1,3) p(2)])
  show "kept \<le> 1" using sub_le [OF assms(1,3)] zero_one_repr(2) [OF assms(1)] p(1) by simp
  have "dec_rounds A (1 - adjustment) (Some kept)" using laws_rounds(2) [OF assms(1), of 1 adjustment] assms(3) by simp
  then show "\<bar>kept - (1 - adjustment)\<bar> \<le> 1 / 10 ^ 28" by (rule unit_error [OF assms(1)]) (use p in simp)
qed

text \<open>Where the required adjustment is no less than zero, the source costs at most twice the Azure costs.\<close>

lemma required_part:
  assumes "dec_laws A" "0 < a" "0 \<le> s" "dec_div A s a = Some ratio" "dec_sub A 1 ratio = Some req" "0 \<le> req"
  shows "\<bar>1 - req - s / a\<bar> \<le> 2 / 10 ^ 28"
proof -
  have d: "dec_rounds A (s / a) (Some ratio)" using laws_rounds(4) [OF assms(1), of a s] assms(2,4) by simp
  have m: "dec_rounds A (1 - ratio) (Some req)" using laws_rounds(2) [OF assms(1), of 1 ratio] assms(5) by simp
  have "0 \<le> s / a" using assms(2,3) by simp
  have repr: "dec_repr A (of_int n)" if "\<bar>n\<bar> < 2 ^ 96" for n by (rule int_repr [OF assms(1) that])
  have r2: "s / a < 2"
  proof (rule ccontr)
    assume "\<not> s / a < 2"
    then have "2 \<le> ratio" using rounds_ge [OF d, of 2] repr [of 2] by simp
    then have "req \<le> -1" using rounds_le [OF m, of "-1"] repr [of "-1"] by simp
    then show False using assms(6) by simp
  qed
  have r: "0 \<le> ratio" "ratio \<le> 2"
    using rounds_ge [OF d, of 0] rounds_le [OF d, of 2] repr [of 2] zero_one_repr(1) [OF assms(1)] r2 \<open>0 \<le> s / a\<close>
    by simp_all
  have "\<bar>ratio - s / a\<bar> \<le> 1 / 10 ^ 28" by (rule unit_error [OF assms(1) d]) (use r2 \<open>0 \<le> s / a\<close> in simp)
  moreover have "\<bar>req - (1 - ratio)\<bar> \<le> 1 / 10 ^ 28" by (rule unit_error [OF assms(1) m]) (use r in simp)
  then have "\<bar>(1 - req) - ratio\<bar> \<le> 1 / 10 ^ 28" by linarith
  ultimately have "\<bar>(1 - req) - s / a\<bar> \<le> 1 / 10 ^ 28 + 1 / 10 ^ 28"
    by (intro close_trans [of "1 - req" ratio])
  then show ?thesis by simp
qed

lemma row_difference_close:
  assumes "dec_laws A" "calculate_savings A source azure adjustment = (Ok s :: savings_breakdown calculation_result)"
    and "dec_sub A 1 adjustment = Some kept" "0 \<le> kept" "kept \<le> 1"
    and "0 \<le> sc_total source" "sc_total source \<le> 10 ^ 10"
    and "0 \<le> ac_total_before_parity azure" "ac_total_before_parity azure \<le> 10 ^ 10"
  shows "\<bar>sb_difference s - (ac_total_before_parity azure * kept - sc_total source)\<bar> \<le> 2 / 10 ^ 16"
proof -
  let ?z = "ac_total_before_parity azure" and ?s = "sc_total source"
  obtain after where o: "dec_mul A ?z kept = Some after" "dec_sub A after ?s = Some (sb_difference s)"
    using assms(2,3) unfolding calculate_savings_def obind_Ok_iff d_ops_Ok outcome.inject by auto
  have p: "0 \<le> ?z * kept" "?z * kept \<le> 10 ^ 10"
    using assms(4,5,8,9) mult_mono [of ?z "10 ^ 10" kept 1] by simp_all
  have e: "\<bar>after - ?z * kept\<bar> \<le> 1 / 10 ^ 16"
    by (rule step_errors(3) [OF assms(1) o(1)]) (use p in simp)
  then have "\<bar>after - ?z * kept\<bar> \<le> 1" by (rule order_trans) simp
  then have "\<bar>after - ?s\<bar> \<le> 7 * 10 ^ 12" using p assms(6,7) by (simp add: abs_le_iff)
  then have "\<bar>sb_difference s - (after - ?s)\<bar> \<le> 1 / 10 ^ 16" by (rule step_errors(2) [OF assms(1) o(2)])
  then have "\<bar>sb_difference s - (?z * kept - ?s)\<bar> \<le> 1 / 10 ^ 16 + 1 / 10 ^ 16"
    by (rule close_trans) (use e in \<open>simp add: algebra_simps\<close>)
  then show ?thesis by simp
qed

lemma scaled_close:
  assumes "0 \<le> a" "a \<le> 2 * 10 ^ 12" "\<bar>x - y\<bar> \<le> e / 10 ^ 28" "0 \<le> e"
  shows "\<bar>a * x - a * y\<bar> \<le> e * 2 / (10 ^ 16 :: rat)"
proof -
  have "\<bar>a * x - a * y\<bar> = a * \<bar>x - y\<bar>" using assms(1) by (simp add: abs_mult flip: right_diff_distrib)
  also have "\<dots> \<le> 2 * 10 ^ 12 * (e / 10 ^ 28)" using assms by (intro mult_mono) simp_all
  finally show ?thesis by simp
qed

text \<open>The rounded Azure total after the adjustment, and the difference to the source total.\<close>

lemma adjusted_total:
  assumes "dec_laws A" "is_percent adjustment" "dec_sub A 1 adjustment = Some kept"
    and "dec_mul A a kept = Some after" "dec_sub A after s = Some d"
    and "0 \<le> a" "a \<le> 2 * 10 ^ 12" "0 \<le> s" "s \<le> 2 * 10 ^ 12"
  shows "\<bar>after - a * (1 - adjustment)\<bar> \<le> 3 / 10 ^ 16" "\<bar>d - (a * kept - s)\<bar> \<le> 2 / 10 ^ 16"
proof -
  note k = kept_part [OF assms(1-3)]
  have p: "0 \<le> a * kept" "a * kept \<le> 2 * 10 ^ 12"
    using k(1,2) assms(6,7) mult_mono [of a "2 * 10 ^ 12" kept 1] by simp_all
  have after: "\<bar>after - a * kept\<bar> \<le> 1 / 10 ^ 16"
    by (rule step_errors(3) [OF assms(1,4)]) (use p in simp)
  from close_trans [OF after scaled_close [OF assms(6,7) k(3)]]
  show "\<bar>after - a * (1 - adjustment)\<bar> \<le> 3 / 10 ^ 16" by simp
  have "\<bar>after - a * kept\<bar> \<le> 1" by (rule order_trans [OF after]) simp
  then have "\<bar>after - s\<bar> \<le> 7 * 10 ^ 12" using p assms(8,9) by (simp add: abs_le_iff)
  then have "\<bar>d - (after - s)\<bar> \<le> 1 / 10 ^ 16" by (rule step_errors(2) [OF assms(1,5)])
  moreover have "\<bar>(after - s) - (a * kept - s)\<bar> \<le> 1 / 10 ^ 16" using after by (simp add: algebra_simps)
  ultimately have "\<bar>d - (a * kept - s)\<bar> \<le> 1 / 10 ^ 16 + 1 / 10 ^ 16" by (rule close_trans)
  then show "\<bar>d - (a * kept - s)\<bar> \<le> 2 / 10 ^ 16" by simp
qed

lemma required_difference:
  assumes "dec_laws A" "is_percent adjustment" "dec_sub A 1 adjustment = Some kept"
    and "dec_div A s a = Some ratio" "dec_sub A 1 ratio = Some adjustment"
    and "0 < a" "a \<le> 2 * 10 ^ 12" "0 \<le> s"
  shows "\<bar>a * kept - s\<bar> \<le> 6 / 10 ^ 16"
proof -
  have "0 \<le> adjustment" using assms(2) by (simp add: is_percent_def)
  then have "\<bar>1 - adjustment - s / a\<bar> \<le> 2 / 10 ^ 28" by (rule required_part [OF assms(1,6,8,4,5)])
  with kept_part(3) [OF assms(1-3)] have "\<bar>kept - s / a\<bar> \<le> 1 / 10 ^ 28 + 2 / 10 ^ 28" by (rule close_trans)
  then have "\<bar>kept - s / a\<bar> \<le> 3 / 10 ^ 28" by simp
  then have "\<bar>a * kept - a * (s / a)\<bar> \<le> 3 * 2 / 10 ^ 16" using assms(6,7) by (intro scaled_close) simp_all
  then show ?thesis using assms(6) by simp
qed

lemma difference_rows:
  fixes d kept s a S Z D :: rat
  assumes "\<bar>d - (a * kept - s)\<bar> \<le> 2 / 10 ^ 16" "0 \<le> kept" "kept \<le> 1"
    and "\<bar>s - S\<bar> \<le> 100 / 10 ^ 16" "\<bar>a - Z\<bar> \<le> 100 / 10 ^ 16" "\<bar>D - (Z * kept - S)\<bar> \<le> 200 / 10 ^ 16"
  shows "\<bar>d - D\<bar> \<le> 1 / 10 ^ 13"
proof -
  have "\<bar>a * kept - Z * kept\<bar> = \<bar>a - Z\<bar> * kept" using assms(2) by (simp add: abs_mult flip: left_diff_distrib)
  also have "\<dots> \<le> 100 / 10 ^ 16 * 1" using assms(2,3,5) by (intro mult_mono) simp_all
  finally have "\<bar>(a * kept - s) - (Z * kept - s)\<bar> \<le> 100 / 10 ^ 16" by simp
  moreover have "\<bar>(Z * kept - s) - (Z * kept - S)\<bar> \<le> 100 / 10 ^ 16" using assms(4) by (simp add: abs_minus_commute)
  ultimately have "\<bar>(a * kept - s) - (Z * kept - S)\<bar> \<le> 100 / 10 ^ 16 + 100 / 10 ^ 16" by (rule close_trans)
  with assms(1) have "\<bar>d - (Z * kept - S)\<bar> \<le> 2 / 10 ^ 16 + (100 / 10 ^ 16 + 100 / 10 ^ 16)" by (rule close_trans)
  moreover have "\<bar>(Z * kept - S) - D\<bar> \<le> 200 / 10 ^ 16" using assms(6) by (simp only: abs_minus_commute)
  ultimately have "\<bar>d - D\<bar> \<le> 2 / 10 ^ 16 + (100 / 10 ^ 16 + 100 / 10 ^ 16) + 200 / 10 ^ 16" by (rule close_trans)
  then show ?thesis by (rule order_trans) simp
qed

section \<open>The portfolio in rounding arithmetic\<close>

definition moderate_rows :: "resource_calculation list \<Rightarrow> bool" where
  "moderate_rows cs \<longleftrightarrow> length cs \<le> 100 \<and>
     (\<forall>c\<in>set cs. (\<forall>s. rc_source_costs c = Some s \<longrightarrow> sc_total s \<le> 10 ^ 10) \<and>
        (\<forall>z. rc_azure_costs c = Some z \<longrightarrow> ac_total_before_parity z \<le> 10 ^ 10))"

definition quoted_rows :: "dec_arith \<Rightarrow> rat \<Rightarrow> resource_calculation list \<Rightarrow> bool" where
  "quoted_rows A adjustment cs \<longleftrightarrow>
     (\<forall>c\<in>set cs. result_sane A c \<and>
        (rc_savings c \<noteq> None \<longleftrightarrow> rc_source_costs c \<noteq> None \<and> rc_azure_costs c \<noteq> None) \<and>
        (\<forall>s. rc_savings c = Some s \<longrightarrow> (\<exists>source azure.
           rc_source_costs c = Some source \<and> rc_azure_costs c = Some azure \<and>
           calculate_savings A source azure adjustment = (Ok s :: savings_breakdown calculation_result))))"

lemma moderate_source:
  assumes "quoted_rows A adjustment cs" "moderate_rows cs" "c \<in> set cs" "rc_source_costs c \<noteq> None"
  shows "0 \<le> row_source c \<and> row_source c \<le> 10 ^ 10"
  using assms by (auto simp: quoted_rows_def moderate_rows_def result_sane_def source_costs_sane_def row_source_def
      intro: order_trans)

lemma moderate_azure:
  assumes "quoted_rows A adjustment cs" "moderate_rows cs" "c \<in> set cs" "rc_azure_costs c \<noteq> None"
  shows "0 \<le> row_azure c \<and> row_azure c \<le> 10 ^ 10"
  using assms by (auto simp: quoted_rows_def moderate_rows_def result_sane_def azure_costs_sane_def row_azure_def
      intro: order_trans)

lemma moderate_length: "moderate_rows cs \<Longrightarrow> length cs \<le> 100 \<and> length (priced_rows cs) \<le> 100"
  unfolding moderate_rows_def priced_rows_def using length_filter_le order_trans by blast

lemma priced_row:
  assumes "quoted_rows A adjustment cs" "moderate_rows cs" "c \<in> set (priced_rows cs)"
  shows "0 \<le> row_source c \<and> row_source c \<le> 10 ^ 10" "0 \<le> row_azure c \<and> row_azure c \<le> 10 ^ 10"
    "\<exists>s source azure. rc_savings c = Some s \<and> rc_source_costs c = Some source \<and> rc_azure_costs c = Some azure \<and>
       calculate_savings A source azure adjustment = (Ok s :: savings_breakdown calculation_result)"
proof -
  have c: "c \<in> set cs" "rc_savings c \<noteq> None" using assms(3) by (simp_all add: priced_rows_def)
  then show q: "\<exists>s source azure. rc_savings c = Some s \<and> rc_source_costs c = Some source \<and> rc_azure_costs c = Some azure \<and>
       calculate_savings A source azure adjustment = (Ok s :: savings_breakdown calculation_result)"
    using assms(1) by (fastforce simp: quoted_rows_def)
  show "0 \<le> row_source c \<and> row_source c \<le> 10 ^ 10" "0 \<le> row_azure c \<and> row_azure c \<le> 10 ^ 10"
    using moderate_source [OF assms(1,2) c(1)] moderate_azure [OF assms(1,2) c(1)] q by auto
qed

lemma priced_differences:
  assumes "dec_laws A" "quoted_rows A adjustment cs" "moderate_rows cs" "is_percent adjustment"
    and "dec_sub A 1 adjustment = Some kept"
  shows "\<bar>sum_list (map row_difference (priced_rows cs)) - (sum_list (map row_azure (priced_rows cs)) * kept
    - sum_list (map row_source (priced_rows cs)))\<bar> \<le> 200 / 10 ^ 16"
proof -
  note k = kept_part [OF assms(1,4,5)]
  have "\<forall>c\<in>set (priced_rows cs). \<bar>row_difference c - (row_azure c * kept - row_source c)\<bar> \<le> 2 / 10 ^ 16"
  proof
    fix c assume c: "c \<in> set (priced_rows cs)"
    note b = priced_row(1,2) [OF assms(2,3) c]
    obtain s source azure where q: "rc_savings c = Some s" "rc_source_costs c = Some source" "rc_azure_costs c = Some azure"
      "calculate_savings A source azure adjustment = (Ok s :: savings_breakdown calculation_result)"
      using priced_row(3) [OF assms(2,3) c] by blast
    show "\<bar>row_difference c - (row_azure c * kept - row_source c)\<bar> \<le> 2 / 10 ^ 16"
      using row_difference_close [OF assms(1) q(4) assms(5) k(1,2)] b q(1-3)
      by (simp add: row_difference_def row_azure_def row_source_def)
  qed
  from sum_list_close [OF this]
  have "\<bar>sum_list (map row_difference (priced_rows cs)) - sum_list (map (\<lambda>c. row_azure c * kept - row_source c) (priced_rows cs))\<bar>
      \<le> of_nat (length (priced_rows cs)) * (2 / 10 ^ 16)" .
  moreover have "length (priced_rows cs) \<le> 100" using moderate_length [OF assms(3)] by simp
  then have "of_nat (length (priced_rows cs)) * (2 / 10 ^ 16) \<le> (100 * (2 / 10 ^ 16) :: rat)"
    by (intro mult_right_mono) simp_all
  ultimately show ?thesis unfolding sum_list_linear by simp
qed

lemma calculate_portfolio_close:
  assumes laws: "dec_laws A" and t: "calculate_portfolio A cs adjustment = (Ok t :: portfolio_totals calculation_result)"
    and q: "quoted_rows A adjustment cs" and m: "moderate_rows cs" and adj: "is_percent adjustment"
  shows "portfolio_sums (1 / 10 ^ 13) adjustment cs t"
proof -
  let ?p = "priced_rows cs"
  have typed: "\<forall>c\<in>set cs. rc_savings c \<noteq> None \<longleftrightarrow> rc_source_costs c \<noteq> None \<and> rc_azure_costs c \<noteq> None"
    using q by (simp add: quoted_rows_def)
  have pairs: "map (\<lambda>p. sc_total (fst p)) (List.map_filter priced_pair cs) = map row_source ?p"
    "map (\<lambda>p. ac_total_before_parity (snd p)) (List.map_filter priced_pair cs) = map row_azure ?p"
    "length (List.map_filter priced_pair cs) = length ?p"
    unfolding typed_priced [OF typed] by (simp_all add: row_source_def row_azure_def comp_def)
  obtain all s a req kept after d where
    all: "(if list_all (\<lambda>r. rc_source_costs r \<noteq> None) cs
            then obind (d_sum A 0 (map sc_total (List.map_filter rc_source_costs cs))) (\<lambda>sum. Ok (Some sum))
            else Ok None) = (Ok all :: rat option calculation_result)" and
    s: "dec_sum A 0 (map row_source ?p) = Some s" and a: "dec_sum A 0 (map row_azure ?p) = Some a" and
    req: "(if a = 0 then Ok 0 else obind (d_div A s a) (\<lambda>ratio. d_sub A 1 ratio)) = (Ok req :: rat calculation_result)" and
    k: "dec_sub A 1 adjustment = Some kept" "dec_mul A a kept = Some after" "dec_sub A after s = Some d" and
    v: "pt_comparable_resource_count t = length ?p" "pt_aws_all_rows_total t = all" "pt_aws_mapped_rows_total t = s"
      "pt_azure_mapped_rows_total t = a" "pt_portfolio_after_selected_parity t = after" "pt_portfolio_difference t = d"
      "pt_required_portfolio_adjustment t = req"
    using t unfolding calculate_portfolio_def Let_def pairs obind_Ok_iff d_ops_Ok outcome.inject by auto
  have n: "length cs \<le> 100" "length ?p \<le> 100"
    using moderate_length [OF m] by simp_all
  note S = rows_total [OF laws s _ n(2)] and Z = rows_total [OF laws a _ n(2)]
  have S: "\<bar>s - sum_list (map row_source ?p)\<bar> \<le> 100 / 10 ^ 16" "0 \<le> s" "s \<le> 2 * 10 ^ 12"
    and Z: "\<bar>a - sum_list (map row_azure ?p)\<bar> \<le> 100 / 10 ^ 16" "0 \<le> a" "a \<le> 2 * 10 ^ 12"
    using S Z priced_row(1,2) [OF q m] by blast+
  note t' = adjusted_total [OF laws adj k(1) k(2) k(3) Z(2,3) S(2,3)]
  have diff: "\<bar>d - sum_list (map row_difference ?p)\<bar> \<le> 1 / 10 ^ 13"
    by (rule difference_rows [OF t'(2) kept_part(1,2) [OF laws adj k(1)] S(1) Z(1) priced_differences [OF laws q m adj k(1)]])
  have none: "\<bar>d\<bar> \<le> 1 / 10 ^ 13" if nz: "a \<noteq> 0" "adjustment = req"
  proof -
    obtain ratio where r: "dec_div A s a = Some ratio" "dec_sub A 1 ratio = Some adjustment"
      using req nz by (auto simp: obind_Ok_iff)
    have "\<bar>(a * kept - s) - 0\<bar> \<le> 6 / 10 ^ 16"
      using required_difference [OF laws adj k(1) r _ Z(3) S(2)] Z(2) nz(1) by simp
    with t'(2) have "\<bar>d - 0\<bar> \<le> 2 / 10 ^ 16 + 6 / 10 ^ 16" by (rule close_trans)
    then show ?thesis by simp
  qed
  have every: "\<exists>x. all = Some x \<and> \<bar>x - sum_list (map row_source cs)\<bar> \<le> 1 / 10 ^ 13"
    if l: "list_all (\<lambda>c. rc_source_costs c \<noteq> None) cs"
  proof -
    obtain x where x: "all = Some x" "dec_sum A 0 (map row_source cs) = Some x"
      using all l by (auto simp: obind_Ok_iff all_sources)
    have "\<bar>x - sum_list (map row_source cs)\<bar> \<le> 100 / 10 ^ 16"
      using rows_total(1) [OF laws x(2) _ n(1)] moderate_source [OF q m] l by (simp add: list_all_iff)
    then show ?thesis using x(1) by simp
  qed
  show ?thesis unfolding portfolio_sums_def v
    using every all S(1) Z(1) t'(1) diff none by (auto split: if_splits)
qed

text \<open>
  C15: the portfolio totals are the sums of the rows: the number of the rows priced on both sides is exact,
  and as long as no row costs more than ten billion a year, what AWS and Azure cost over those rows, the
  source total over all rows where every row has one, the Azure total after the selected adjustment and the
  difference are within \<open>10 ^ - 13\<close> of the sums of the rows' amounts and differences, whatever the
  roundings of the decimal arithmetic; and so close to zero is the difference when the selected adjustment is
  the required one.
\<close>
theorem portfolio_sums_rows:
  assumes "dec_laws A" "engine_calculate E A i = Ok revision" "ps_project_type (ci_settings i) \<noteq> PtSqlPayg"
    and "\<forall>c\<in>set (cr_resource_results revision).
      (\<forall>s. rc_source_costs c = Some s \<longrightarrow> sc_total s \<le> 10 ^ 10) \<and>
      (\<forall>z. rc_azure_costs c = Some z \<longrightarrow> ac_total_before_parity z \<le> 10 ^ 10)"
  shows "portfolio_sums (1 / 10 ^ 13) (ps_selected_parity_adjustment (ci_settings i))
    (cr_resource_results revision) (cr_portfolio_totals revision)"
proof -
  note r = engine_calculate_results [OF assms(2,3)] and rows = calculated_rows [OF assms(2,3)]
  have "length (ci_resources i) \<le> 100"
    using r(3) by (simp add: calculation_input_ok_def project_ok_def validation_project_def MAX_PROJECT_RESOURCES_def)
  then have "moderate_rows (cr_resource_results revision)"
    using assms(4) list_all2_lengthD [OF r(1)] by (simp add: moderate_rows_def)
  moreover have "quoted_rows A (ps_selected_parity_adjustment (ci_settings i)) (cr_resource_results revision)"
    using rows calculated_row_sane [OF assms(1-3)] unfolding quoted_rows_def savings_quote_def by blast
  ultimately show ?thesis by (intro calculate_portfolio_close [OF assms(1) r(2)] calculated_percent [OF r(3)])
qed

theorem portfolio_sums_rows_witness:
  "\<exists>revision. engine_calculate example_engine exact_arith example_priced_calculation = Ok revision \<and>
     priced_rows (cr_resource_results revision) \<noteq> [] \<and>
     portfolio_sums (1 / 10 ^ 13) 0 (cr_resource_results revision) (cr_portfolio_totals revision)"
proof -
  obtain revision c where r: "engine_calculate example_engine exact_arith example_priced_calculation = Ok revision"
    "cr_resource_results revision = [c]" "rc_source_costs c = Some example_server_costs"
    "rc_azure_costs c = Some example_server_target_costs" "rc_savings c \<noteq> None"
    using example_priced_row by blast
  have adj: "ps_selected_parity_adjustment (ci_settings example_priced_calculation) = 0"
    by (simp add: example_priced_calculation_def example_calculation_def example_settings_def)
  have "portfolio_sums (1 / 10 ^ 13) (ps_selected_parity_adjustment (ci_settings example_priced_calculation))
      (cr_resource_results revision) (cr_portfolio_totals revision)"
    by (rule portfolio_sums_rows [OF exact_arith_laws r(1) example_priced_kind])
       (simp add: r example_server_costs_def example_server_target_costs_def)
  then show ?thesis using r unfolding adj by (auto simp: priced_rows_def)
qed

end
