(* ===== verification/WorkflowVmPrices.thy ===== *)
theory WorkflowVmPrices
  imports WorkflowErrors
begin

text \<open>
  The selection of a virtual machine and its pricing read the same snapshot: a size the selection recommends
  can be priced, unless its purchase option is not listed. The two disagree on one point: pricing demands both
  performance prices of an independently provisioned disk even where nothing beyond the baseline is billed.
\<close>

section \<open>What the selection sees is what pricing finds\<close>

text \<open>Both performance prices of a disk provisioned by the gigabyte; a tier has none.\<close>

definition performance_rates_listed :: "azure_price_snapshot \<Rightarrow> selected_managed_disk \<Rightarrow> bool" where
  "performance_rates_listed s d \<longleftrightarrow>
     (sd_tier_key d = None \<longrightarrow>
        azure_managed_disk_rate s (sd_offer_key d) None DimAdditionalIops \<noteq> None \<and>
        azure_managed_disk_rate s (sd_offer_key d) None DimAdditionalThroughput \<noteq> None)"

lemma available_rate:
  "pa_vm_hourly_rates (vm_price_availability_of s) (to_ascii_lowercase sku) \<noteq> None \<longleftrightarrow> azure_vm_rate s sku VpoPayg \<noteq> None"
proof -
  have "pa_vm_hourly_rates (vm_price_availability_of s) (to_ascii_lowercase sku) \<noteq> None \<longleftrightarrow>
      to_ascii_lowercase sku \<in> (to_ascii_lowercase \<circ> vm_arm_sku_name) ` {r \<in> set (zs_vm_rates s). vm_purchase_option r = VpoPayg}"
    by (simp add: vm_price_availability_of_def map_of_eq_None_iff image_image comp_def)
  also have "\<dots> \<longleftrightarrow> azure_vm_rate s sku VpoPayg \<noteq> None"
    
  proof -
    have "azure_vm_rate s sku VpoPayg = None \<longleftrightarrow>
        (\<forall>r\<in>set (zs_vm_rates s). to_ascii_lowercase sku = to_ascii_lowercase (vm_arm_sku_name r) \<longrightarrow>
           vm_purchase_option r \<noteq> VpoPayg)"
      by (auto simp: azure_vm_rate_look vm_look_def vm_key_def find_None_iff)
    then show ?thesis by auto
  qed
  finally show ?thesis .
qed

lemma vm_disk_dimension_inj: "vm_disk_dimension d = vm_disk_dimension d' \<longleftrightarrow> d = d'"
  by (cases d; cases d') simp_all

lemma available_disk:
  "\<lparr>dk_offer_key = k, dk_tier_key = t, dk_dimension = vm_disk_dimension d\<rparr>
     \<in> pa_managed_disk_dimensions (vm_price_availability_of s) \<longleftrightarrow>
   (\<exists>r\<in>set (zs_managed_disk_rates s). mdr_offer_key r = k \<and> mdr_tier_key r = t \<and> mdr_dimension r = d)"
  by (auto simp: vm_price_availability_of_def vm_disk_dimension_inj)

lemma disk_rate_listed:
  "r \<in> set (zs_managed_disk_rates s) \<Longrightarrow>
     azure_managed_disk_rate s (mdr_offer_key r) (mdr_tier_key r) (mdr_dimension r) \<noteq> None"
  by (auto simp: azure_managed_disk_rate_def find_None_iff eq_ignore_ascii_case_def)

lemma disk_listed:
  assumes "\<lparr>dk_offer_key = k, dk_tier_key = t, dk_dimension = vm_disk_dimension d\<rparr>
     \<in> pa_managed_disk_dimensions (vm_price_availability_of s)"
  shows "azure_managed_disk_rate s k t d \<noteq> None"
proof -
  obtain r where r: "r \<in> set (zs_managed_disk_rates s)" "mdr_offer_key r = k" "mdr_tier_key r = t" "mdr_dimension r = d"
    using assms unfolding available_disk by blast
  show "azure_managed_disk_rate s k t d \<noteq> None" unfolding r(2-4) [symmetric] by (rule disk_rate_listed [OF r(1)])
qed

lemma complete_disk:
  assumes "managed_disk_price_is_complete (vm_price_availability_of s) d"
  shows "sd_tier_key d = Some t \<Longrightarrow> azure_managed_disk_rate s (sd_offer_key d) (Some t) DimCapacityTier \<noteq> None"
    and "sd_tier_key d = None \<Longrightarrow> azure_managed_disk_rate s (sd_offer_key d) None DimCapacityGb \<noteq> None"
proof -
  have "sd_tier_key d = Some t \<Longrightarrow> \<lparr>dk_offer_key = sd_offer_key d, dk_tier_key = Some t,
      dk_dimension = vm_disk_dimension DimCapacityTier\<rparr> \<in> pa_managed_disk_dimensions (vm_price_availability_of s)"
    using assms by (simp add: managed_disk_price_is_complete_def Let_def)
  then show "sd_tier_key d = Some t \<Longrightarrow> azure_managed_disk_rate s (sd_offer_key d) (Some t) DimCapacityTier \<noteq> None"
    by (rule disk_listed)
  have "sd_tier_key d = None \<Longrightarrow> \<lparr>dk_offer_key = sd_offer_key d, dk_tier_key = None,
      dk_dimension = vm_disk_dimension DimCapacityGb\<rparr> \<in> pa_managed_disk_dimensions (vm_price_availability_of s)"
    using assms by (simp add: managed_disk_price_is_complete_def Let_def)
  then show "sd_tier_key d = None \<Longrightarrow> azure_managed_disk_rate s (sd_offer_key d) None DimCapacityGb \<noteq> None"
    by (rule disk_listed)
qed

lemma resolved_disk_listed: "resolve_managed_disk_monthly A s d = Ok x \<Longrightarrow> performance_rates_listed s d"
  by (auto simp: performance_rates_listed_def resolve_managed_disk_monthly_def obind_Ok_iff)

lemma resolved_disks_listed:
  assumes "managed_disks_monthly A s ds = Ok x" "d \<in> set ds"
  shows "performance_rates_listed s d"
proof -
  have "\<exists>y. resolve_managed_disk_monthly A s d = Ok y"
    if "try_fold (\<lambda>(monthly_disks, disk_source_urls) disk.
       obind (resolve_managed_disk_monthly A s disk) (\<lambda>(cost, source_urls).
       obind (d_add A monthly_disks cost) (\<lambda>sum. Ok (sum, disk_source_urls @ source_urls)))) start ds = Ok x" for start
    using that assms(2) by (induction ds arbitrary: start) (auto simp: obind_Ok_iff split: prod.splits)
  then show ?thesis using assms(1) resolved_disk_listed unfolding managed_disks_monthly_def by blast
qed

section \<open>Disks are priced\<close>

definition disk_sane :: "selected_managed_disk \<Rightarrow> bool" where
  "disk_sane d \<longleftrightarrow> 0 \<le> sd_capacity_gb d \<and> (sd_tier_key d = None \<longrightarrow> 0 \<le> sd_billed_additional_throughput_mbps d)"

lemma disk_rate_positive:
  assumes "\<forall>r\<in>set (zs_managed_disk_rates s). 0 < mdr_normalized_monthly_rate r" "azure_managed_disk_rate s k t d = Some r"
  shows "0 \<le> mdr_normalized_monthly_rate r"
proof -
  have "r \<in> set (zs_managed_disk_rates s)"
    using assms(2) by (auto simp: azure_managed_disk_rate_def find_Some_iff)
  then show ?thesis using assms(1) by (simp add: less_imp_le)
qed

lemma disk_monthly:
  assumes "dec_laws A" "disk_sane d" "0 \<le> md_capacity_monthly rate"
    and "sd_tier_key d = None \<Longrightarrow> \<exists>iops. md_additional_iops_monthly_per_unit rate = Some iops \<and> 0 \<le> iops"
    and "sd_tier_key d = None \<Longrightarrow> \<exists>t. md_additional_throughput_monthly_per_mbps rate = Some t \<and> 0 \<le> t"
  shows "no_err (calculate_azure_managed_disk_monthly A d rate)"
    and "calculate_azure_managed_disk_monthly A d rate = Ok cost \<Longrightarrow> 0 \<le> cost"
proof -
  have v: "no_err (validate_rate x)" if "0 \<le> x" for x using that by (simp add: validate_rate_def no_err_def)
  show "no_err (calculate_azure_managed_disk_monthly A d rate)"
    unfolding calculate_azure_managed_disk_monthly_def
    by (intro no_err_intros v) (use assms(3-5) in auto)
  show "0 \<le> cost" if priced: "calculate_azure_managed_disk_monthly A d rate = Ok cost"
  proof (cases "sd_tier_key d")
    case (Some t)
    then show ?thesis using priced assms(3) by (auto simp: calculate_azure_managed_disk_monthly_def obind_Ok_iff)
  next
    case None
    then obtain x y where r: "md_additional_iops_monthly_per_unit rate = Some x" "0 \<le> x"
      "md_additional_throughput_monthly_per_mbps rate = Some y" "0 \<le> y" using assms(4,5) by blast
    obtain c i s t where p: "dec_mul A (sd_capacity_gb d) (md_capacity_monthly rate) = Some c"
      "dec_mul A (dec_of (sd_billed_additional_iops d)) x = Some i" "dec_add A c i = Some s"
      "dec_mul A (sd_billed_additional_throughput_mbps d) y = Some t" "dec_add A s t = Some cost"
      using priced None r by (auto simp: calculate_azure_managed_disk_monthly_def obind_Ok_iff)
    have "0 \<le> c" "0 \<le> i" "0 \<le> t"
      using mul_nonneg [OF assms(1) p(1)] mul_nonneg [OF assms(1) p(2)] mul_nonneg [OF assms(1) p(4)] assms(2,3) r None
      by (simp_all add: disk_sane_def dec_of_nonneg)
    then show ?thesis
      using add_nonneg [OF assms(1) p(3)] add_nonneg [OF assms(1) p(5)] by blast
  qed
qed

lemma resolved_disk:
  assumes "dec_laws A" "\<forall>r\<in>set (zs_managed_disk_rates s). 0 < mdr_normalized_monthly_rate r" "performance_rates_listed s d"
    and "managed_disk_price_is_complete (vm_price_availability_of s) d" "disk_sane d"
  shows "no_err (resolve_managed_disk_monthly A s d)"
    and "resolve_managed_disk_monthly A s d = Ok (cost, urls) \<Longrightarrow> 0 \<le> cost"
proof -
  note c = complete_disk [OF assms(4)] and pos = disk_rate_positive [OF assms(2)]
  show "no_err (resolve_managed_disk_monthly A s d)"
    unfolding resolve_managed_disk_monthly_def Let_def
    by (cases "sd_tier_key d"; simp only: option.case prod.case; intro no_err_intros disk_monthly(1) [OF assms(1,5)])
       (use c assms(3) in \<open>auto simp: performance_rates_listed_def dest: pos\<close>)
  show "0 \<le> cost" if ok: "resolve_managed_disk_monthly A s d = Ok (cost, urls)"
  proof (cases "sd_tier_key d")
    case (Some t)
    obtain r where r: "azure_managed_disk_rate s (sd_offer_key d) (Some t) DimCapacityTier = Some r" using c(1) [OF Some] by blast
    then have "calculate_azure_managed_disk_monthly A d
        \<lparr>md_capacity_monthly = mdr_normalized_monthly_rate r, md_additional_iops_monthly_per_unit = None,
         md_additional_throughput_monthly_per_mbps = None\<rparr> = Ok cost"
      using ok Some by (auto simp: resolve_managed_disk_monthly_def obind_Ok_iff)
    from disk_monthly(2) [OF assms(1,5) _ _ _ this] show ?thesis using pos [OF r] Some by simp
  next
    case None
    obtain r x y where r: "azure_managed_disk_rate s (sd_offer_key d) None DimCapacityGb = Some r"
      "azure_managed_disk_rate s (sd_offer_key d) None DimAdditionalIops = Some x"
      "azure_managed_disk_rate s (sd_offer_key d) None DimAdditionalThroughput = Some y"
      using c(2) [OF None] assms(3) None by (auto simp: performance_rates_listed_def)
    then have "calculate_azure_managed_disk_monthly A d
        \<lparr>md_capacity_monthly = mdr_normalized_monthly_rate r,
         md_additional_iops_monthly_per_unit = Some (mdr_normalized_monthly_rate x),
         md_additional_throughput_monthly_per_mbps = Some (mdr_normalized_monthly_rate y)\<rparr> = Ok cost"
      using ok None by (auto simp: resolve_managed_disk_monthly_def obind_Ok_iff)
    from disk_monthly(2) [OF assms(1,5) _ _ _ this] show ?thesis using pos [OF r(1)] pos [OF r(2)] pos [OF r(3)] by simp
  qed
qed

lemma disks_monthly:
  assumes "\<And>d. d \<in> set ds \<Longrightarrow> no_err (resolve_managed_disk_monthly A s d)" "dec_laws A"
    and "\<And>d cost urls. d \<in> set ds \<Longrightarrow> resolve_managed_disk_monthly A s d = Ok (cost, urls) \<Longrightarrow> 0 \<le> cost"
  shows "no_err (managed_disks_monthly A s ds)" and "managed_disks_monthly A s ds = Ok (monthly, us) \<Longrightarrow> 0 \<le> monthly"
proof -
  show "no_err (managed_disks_monthly A s ds)"
    unfolding managed_disks_monthly_def by (intro no_err_intros) (auto intro!: no_err_intros assms(1) split: prod.split)
  have "0 \<le> monthly" if "0 \<le> fst start" "try_fold (\<lambda>(monthly_disks, disk_source_urls) disk.
       obind (resolve_managed_disk_monthly A s disk) (\<lambda>(cost, source_urls).
       obind (d_add A monthly_disks cost) (\<lambda>sum. Ok (sum, disk_source_urls @ source_urls)))) start ds = Ok (monthly, us)" for start
    using that assms(3)
  proof (induction ds arbitrary: start)
    case (Cons d ds)
    then obtain cost urls x where x: "resolve_managed_disk_monthly A s d = Ok (cost, urls)" "dec_add A (fst start) cost = Some x"
      "try_fold (\<lambda>(monthly_disks, disk_source_urls) disk.
       obind (resolve_managed_disk_monthly A s disk) (\<lambda>(cost, source_urls).
       obind (d_add A monthly_disks cost) (\<lambda>sum. Ok (sum, disk_source_urls @ source_urls)))) (x, snd start @ urls) ds = Ok (monthly, us)"
      by (auto simp: obind_Ok_iff split: prod.splits)
    have "0 \<le> x" using add_nonneg [OF assms(2) x(2)] Cons.prems(1,3) x(1) by auto
    then show ?case using Cons.IH [OF _ x(3)] Cons.prems(3) by auto
  qed simp
  then show "managed_disks_monthly A s ds = Ok (monthly, us) \<Longrightarrow> 0 \<le> monthly"
    unfolding managed_disks_monthly_def by fastforce
qed

section \<open>A recommended size is priced\<close>

lemma tiered_disk_tier: "tiered_disk offer v = Some d \<Longrightarrow> sd_tier_key d \<noteq> None"
  by (auto simp: tiered_disk_def)

lemma offered_disk_sane:
  assumes "dec_laws A" "offer_values_ok A offer" "dec_repr A (vr_capacity_gb v)" "0 \<le> vr_capacity_gb v"
    and "offer_disk A offer v = Ok (Some d)"
  shows "disk_sane d"
proof -
  have "0 \<le> sd_capacity_gb d"
    using offer_disk_serves [OF assms] assms(4) by (auto simp: disk_serves_def)
  moreover have "0 \<le> sd_billed_additional_throughput_mbps d" if "sd_tier_key d = None"
    using assms(5) that tiered_disk_tier [of offer v d]
    by (auto simp: offer_disk_def independent_disk_def Let_def obind_Ok_iff split: if_splits option.splits)
  ultimately show ?thesis by (simp add: disk_sane_def)
qed

definition volumes_representable :: "dec_arith \<Rightarrow> ec2_vm_resource \<Rightarrow> bool" where
  "volumes_representable A vm \<longleftrightarrow> (\<forall>v\<in>set (ec2vm_volumes vm). 0 \<le> vv_capacity_gb v \<and> dec_repr A (vv_capacity_gb v))"

lemma selected_vm_fits:
  assumes "select_vm_target A vcat dc q = Ok e" "vs_selected e = Some t"
  shows "\<exists>c. vm_fits A dc q c (vt_disks t) \<and> vt_arm_sku_name t = vc_arm_sku_name c"
proof -
  obtain results best where r:
    "list_all2 (\<lambda>c res. evaluate_vm_candidate A dc q c = (Ok res :: (vm_target_selection_error, _) outcome))
       (vcc_candidates vcat) results"
    "best_candidate A q (present (map snd results)) =
       (Ok best :: (vm_target_selection_error, evaluated_candidate option) outcome)"
    "vs_selected e = map_option selected_vm_target_of best"
    by (rule select_vm_target_elim [OF assms(1)])
  obtain b where "best = Some b" "t = selected_vm_target_of b" using r(3) assms(2) by (cases best) auto
  then show ?thesis
    using best_candidate_spec(2) [OF r(2)] eligible_sizes [OF r(1), of b] by (auto simp: selected_vm_target_of_def Let_def)
qed

lemma selected_disks_sane:
  assumes "dec_laws A" "\<forall>o'\<in>set (dc_offers dc). offer_values_ok A o'" "volumes_representable A vm"
    and "vm_fits A dc (vm_selection_request vm i cls vcpu (vm_volume_requirements vm)) c ds" "d \<in> set ds"
  shows "disk_sane d"
proof -
  have "list_all2 (\<lambda>v d. select_disk A dc (ps_azure_region (ci_settings i)) v =
      (Ok (Some d) :: (vm_target_selection_error, selected_managed_disk option) outcome)) (vm_volume_requirements vm) ds"
    using assms(4) by (simp add: vm_fits_def vm_selection_request_def)
  from list_all2_in_right [OF this assms(5)] obtain v where v: "v \<in> set (vm_volume_requirements vm)"
    "select_disk A dc (ps_azure_region (ci_settings i)) v =
      (Ok (Some d) :: (vm_target_selection_error, selected_managed_disk option) outcome)"
    by blast
  have "0 \<le> vr_capacity_gb v" "dec_repr A (vr_capacity_gb v)"
    using v(1) assms(3) by (auto simp: vm_volume_requirements_def volumes_representable_def)
  moreover obtain offer where "offer \<in> set (dc_offers dc)"
    "offer_disk A offer v = (Ok (Some d) :: (vm_target_selection_error, selected_managed_disk option) outcome)"
    by (rule select_disk_Some [OF v(2)])
  ultimately show ?thesis using offered_disk_sane [OF assms(1)] assms(2) by blast
qed

lemma azure_vm_no_err:
  assumes "0 \<le> h" "0 \<le> l" "0 \<le> d" "l \<le> h"
  shows "no_err (calculate_azure_vm A n hours h l d settings)"
proof -
  have v: "no_err (validate_rate x)" if "0 \<le> x" for x using that by (simp add: validate_rate_def no_err_def)
  show ?thesis
    unfolding calculate_azure_vm_def apply_discount_def Let_def
    by (intro no_err_intros v) (use assms in auto)
qed

text \<open>
  C16: let an Azure snapshot pass the checks of creation, let the catalogue's capacity steps and minima and
  the volumes' capacities be values the decimal type holds, and let the selection over the prices of that
  snapshot recommend a size. Then the snapshot lists the pay-as-you-go price of the size, and unless the
  arithmetic overflows, its Azure costs are known exactly if the snapshot lists the purchase option the
  resource asks for and, of every recommended disk that is provisioned by the gigabyte, both performance
  prices, even where none is billed; no other price can be missing.
\<close>
theorem recommended_vm_priced:
  assumes "dec_laws A" "azure_snapshot_ok X A s" "ci_azure_snapshot i = Some s"
    and "\<forall>o'\<in>set (dc_offers dc). offer_values_ok A o'" "volumes_representable A vm"
    and "select_vm_target A vcat dc (vm_selection_request vm i cls vcpu (vm_volume_requirements vm)) = Ok e"
    and "vs_selected e = Some t"
    and "resolve_azure_vm_costs A t vm i = (Ok (costs, status, un, steps) :: vm_costs_outcome calculation_result)"
  shows "azure_vm_rate s (vt_arm_sku_name t) VpoPayg \<noteq> None \<and>
    (costs \<noteq> None \<longleftrightarrow>
       azure_vm_rate s (vt_arm_sku_name t) (ec2vm_purchase_option vm) \<noteq> None \<and>
       (\<forall>d\<in>set (vt_disks t). sd_tier_key d = None \<longrightarrow>
          azure_managed_disk_rate s (sd_offer_key d) None DimAdditionalIops \<noteq> None \<and>
          azure_managed_disk_rate s (sd_offer_key d) None DimAdditionalThroughput \<noteq> None))"
proof -
  let ?q = "vm_selection_request vm i cls vcpu (vm_volume_requirements vm)"
  let ?rate = "azure_vm_rate s (vt_arm_sku_name t) (ec2vm_purchase_option vm)"
  obtain c where c: "vm_fits A dc ?q c (vt_disks t)" "vt_arm_sku_name t = vc_arm_sku_name c"
    using selected_vm_fits [OF assms(6,7)] by blast
  have p: "hourly_rate_of ?q c \<noteq> None" "\<forall>d\<in>set (vt_disks t). managed_disk_price_is_complete (vm_price_availability_of s) d"
    using c(1) assms(3) by (simp_all add: vm_fits_def prices_complete_def vm_selection_request_def)
  have payg: "azure_vm_rate s (vt_arm_sku_name t) VpoPayg \<noteq> None"
    using p(1) assms(3) unfolding c(2) available_rate [symmetric] by (simp add: hourly_rate_of_def vm_selection_request_def)
  have rates: "\<forall>r\<in>set (zs_managed_disk_rates s). 0 < mdr_normalized_monthly_rate r"
    "\<forall>r\<in>set (zs_vm_rates s). 0 < vm_hourly_rate r \<and> 0 \<le> vm_license_hourly r \<and> vm_license_hourly r \<le> vm_hourly_rate r"
    using assms(2) by (simp_all add: azure_snapshot_ok_def vm_rates_consistent_def disk_record_ok_def vm_record_ok_def)
  have "costs \<noteq> None" if listed: "?rate = Some r" and all: "\<forall>d\<in>set (vt_disks t). performance_rates_listed s d" for r
  proof -
    have disk: "no_err (resolve_managed_disk_monthly A s d)"
      "resolve_managed_disk_monthly A s d = Ok (cost, urls) \<Longrightarrow> 0 \<le> cost" if d: "d \<in> set (vt_disks t)" for d cost urls
      using resolved_disk [OF assms(1) rates(1) bspec [OF all d]] p(2) d selected_disks_sane [OF assms(1,4,5) c(1) d]
      by blast+
    have disks: "no_err (managed_disks_monthly A s (vt_disks t))"
      "managed_disks_monthly A s (vt_disks t) = Ok (monthly, us) \<Longrightarrow> 0 \<le> monthly" for monthly us
      by (rule disks_monthly(1) [OF disk(1) assms(1)], assumption, rule disk(2), assumption+)
         (rule disks_monthly(2) [OF disk(1) assms(1)], assumption, rule disk(2), assumption+)
    have "0 < vm_hourly_rate r" "0 \<le> vm_license_hourly r" "vm_license_hourly r \<le> vm_hourly_rate r"
      using listed rates(2) by (auto simp: azure_vm_rate_def find_Some_iff)
    then have "no_err (calculate_azure_vm A (sr_quantity (ec2vm_shared vm)) (sr_annual_hours (ec2vm_shared vm))
        (vm_hourly_rate r) (vm_license_hourly r) monthly (ci_settings i))" if "0 \<le> monthly" for monthly
      using that by (intro azure_vm_no_err) auto
    then show ?thesis using assms(3,8) listed disks
      by (auto simp: resolve_azure_vm_costs_def no_err_def split: outcome.splits)
  qed
  moreover have "?rate \<noteq> None \<and> (\<forall>d\<in>set (vt_disks t). performance_rates_listed s d)" if "costs \<noteq> None"
    using assms(3,8) that resolved_disks_listed [of A s "vt_disks t"]
    by (auto simp: resolve_azure_vm_costs_def no_vm_costs_def split: option.splits outcome.splits)
  ultimately have "costs \<noteq> None \<longleftrightarrow> ?rate \<noteq> None \<and> (\<forall>d\<in>set (vt_disks t). performance_rates_listed s d)" by blast
  then show ?thesis using payg unfolding performance_rates_listed_def by blast
qed

definition example_disk_rate :: "string \<Rightarrow> string option \<Rightarrow> azure_managed_disk_price_dimension \<Rightarrow> azure_managed_disk_rate_record" where
  "example_disk_rate offer tier dimension =
     \<lparr>mdr_stable_key = ''k'', mdr_offer_key = offer, mdr_tier_key = tier, mdr_dimension = dimension,
      mdr_normalized_monthly_rate = 1, mdr_unit_of_measure = ''1/Month'', mdr_raw_price_lexeme = ''1'',
      mdr_provenance = example_provenance\<rparr>"

definition example_vm_snapshot :: "azure_managed_disk_rate_record list \<Rightarrow> azure_price_snapshot" where
  "example_vm_snapshot others =
     example_azure_snapshot\<lparr>zs_managed_disk_rates := example_disk_rate ''premium-ssd'' (Some ''P10'') DimCapacityTier # others\<rparr>"

definition example_windows_vm :: ec2_vm_resource where
  "example_windows_vm =
     example_ec2_vm\<lparr>ec2vm_shared := example_shared\<lparr>sr_source_ram_gb := 16\<rparr>, ec2vm_purchase_option := VpoAhb,
       ec2vm_volumes :=
         [\<lparr>vv_id = 7, vv_label = ''disk'', vv_aws_volume_id = None, vv_volume_type = Gp3, vv_role = RoleOs,
           vv_capacity_gb = 101, vv_provisioned_iops = Some 400, vv_throughput_mibps = Some 60\<rparr>]\<rparr>"

definition example_vm_calculation :: "azure_price_snapshot \<Rightarrow> calculation_input" where
  "example_vm_calculation s =
     (example_calculation PtEc2Vm [Ec2Vm example_windows_vm] None)\<lparr>ci_azure_snapshot := Some s\<rparr>"

definition example_one_size :: vm_capability_catalog where
  "example_one_size = \<lparr>vcc_schema_version = ''1'', vcc_candidates = [example_size ''D4'' 4]\<rparr>"

lemma example_vm_snapshot_ok: "azure_snapshot_ok example_snapshot_env exact_arith (example_vm_snapshot [])"
proof -
  have "matrices_complete (zs_mi_rates example_azure_snapshot)" using example_matrices by (simp add: matrices_iff)
  moreover have "vm_rates_consistent example_snapshot_env exact_arith (zs_vm_rates example_azure_snapshot) []"
    using example_vm_rates by (simp add: vm_rates_iff)
  ultimately show ?thesis
    by (simp add: azure_snapshot_ok_def example_vm_snapshot_def vm_rates_consistent_def disk_record_ok_def
        example_disk_rate_def valid_raw_price_def is_some_and_def example_snapshot_env_def)
qed

lemma example_vm_requirements:
  "vm_selection_request example_windows_vm (example_vm_calculation s) ScGeneralPurpose 4 (vm_volume_requirements example_windows_vm) =
     example_vm_request\<lparr>vq_price_availability := Some (vm_price_availability_of s)\<rparr>"
  by (simp add: vm_selection_request_def example_windows_vm_def example_ec2_vm_def example_vm_calculation_def
      example_calculation_def example_settings_def vm_volume_requirements_def example_vm_request_def example_volume_def
      ec2_vm_requirements_default_def vm_local_capacity_def)

lemma example_priced_selection:
  "\<exists>e t. select_vm_target exact_arith example_one_size example_disk_catalog
     (example_vm_request\<lparr>vq_price_availability := Some (vm_price_availability_of (example_vm_snapshot []))\<rparr>) = Ok e \<and>
     vs_selected e = Some t \<and> vt_arm_sku_name t = ''D4'' \<and> vt_disks t = [example_os_disk]"
proof -
  let ?s = "example_vm_snapshot []" and ?c = "example_size ''D4'' 4"
  let ?q = "example_vm_request\<lparr>vq_price_availability := Some (vm_price_availability_of ?s)\<rparr>"
  have rate: "azure_vm_rate ?s ''D4'' VpoPayg \<noteq> None" by code_simp
  then have hourly: "hourly_rate_of ?q ?c \<noteq> None"
    using available_rate [of ?s "''D4''"] by (simp add: hourly_rate_of_def example_size_def)
  have disk: "managed_disk_price_is_complete (vm_price_availability_of ?s) example_os_disk"
    using available_disk [of "''premium-ssd''" "Some ''P10''" DimCapacityTier ?s]
    by (simp add: managed_disk_price_is_complete_def example_os_disk_def example_vm_snapshot_def example_disk_rate_def)
  have "price_rejections ?q ?c [example_os_disk] = []"
    using hourly disk by (simp add: price_rejections_Nil prices_complete_def)
  moreover have "select_disks exact_arith example_disk_catalog ?q =
     (Ok [Some example_os_disk] :: (vm_target_selection_error, selected_managed_disk option list) outcome)"
    using example_disks by (simp add: select_disks_def)
  moreover have "aggregate_rejections exact_arith ?q ?c [example_os_disk] =
      (Ok [] :: (vm_target_selection_error, vm_selection_reason list) outcome)"
    by (simp add: aggregate_rejections_def aggregate_iops_def example_vm_request_def example_size_def
        example_os_disk_def exact_arith_eval)
  moreover have "capability_rejections ?q ?c = []"
    by (simp add: capability_rejections_Nil capabilities_fit_def example_vm_request_def
        example_size_def data_disk_count_def example_volume_def eq_ignore_ascii_case_def)
  ultimately have "evaluate_vm_candidate exact_arith example_disk_catalog ?q ?c =
     (Ok (Some (vm_evaluation ?c []), Some \<lparr>ec_candidate = ?c, ec_disks = [example_os_disk], ec_hourly_rate = hourly_rate_of ?q ?c\<rparr>)
      :: (vm_target_selection_error, _) outcome)"
    by (simp add: evaluate_vm_candidate_def Let_def example_vm_request_def example_size_def eq_ignore_ascii_case_def)
  moreover have "vm_validate_request ?q = Ok ()"
    by (simp add: vm_validate_request_def example_vm_request_def example_volume_def)
  moreover have "vq_requested_target_arm_sku ?q = None" by (simp add: example_vm_request_def)
  ultimately show ?thesis
    by (simp add: select_vm_target_def example_one_size_def best_candidate_def Let_def selected_vm_target_of_def
        example_size_def)
qed

lemma example_vm_costs:
  assumes "vt_arm_sku_name t = ''D4''" "vt_disks t = [example_os_disk]"
  shows "\<exists>costs status un steps. resolve_azure_vm_costs exact_arith t example_windows_vm (example_vm_calculation (example_vm_snapshot [])) =
     (Ok (costs, status, un, steps) :: vm_costs_outcome calculation_result)"
proof -
  let ?s = "example_vm_snapshot []"
  have rate: "azure_vm_rate ?s ''D4'' VpoAhb = Some (example_vm ''y'' VpoAhb 2 0)"
    by (simp add: azure_vm_rate_def example_vm_snapshot_def example_azure_snapshot_def eq_ignore_ascii_case_def)
  have "azure_managed_disk_rate ?s ''premium-ssd'' (Some ''P10'') DimCapacityTier =
      Some (example_disk_rate ''premium-ssd'' (Some ''P10'') DimCapacityTier)"
    by (simp add: azure_managed_disk_rate_def example_vm_snapshot_def example_disk_rate_def eq_ignore_ascii_case_def)
  then have "resolve_managed_disk_monthly exact_arith ?s example_os_disk = Ok (1, [''url''])"
    by (simp add: resolve_managed_disk_monthly_def example_os_disk_def example_disk_rate_def
        calculate_azure_managed_disk_monthly_def validate_rate_def example_provenance_def)
  then have "managed_disks_monthly exact_arith ?s [example_os_disk] = Ok (1, [''url''])"
    by (simp add: managed_disks_monthly_def exact_arith_eval)
  moreover have "\<exists>costs. calculate_azure_vm exact_arith 2 8760 2 0 1 (example_settings PtEc2Vm) = Ok costs"
    by (simp add: calculate_azure_vm_def example_settings_def cost_eval)
  ultimately show ?thesis
    using rate by (auto simp: resolve_azure_vm_costs_def assms example_vm_calculation_def example_windows_vm_def
        example_calculation_def example_shared_def)
qed

theorem recommended_vm_priced_witness:
  "\<exists>t costs status un steps. resolve_azure_vm_costs exact_arith t example_windows_vm (example_vm_calculation (example_vm_snapshot [])) =
     (Ok (Some costs, status, un, steps) :: vm_costs_outcome calculation_result)"
proof -
  let ?s = "example_vm_snapshot []"
  obtain e t where sel: "select_vm_target exact_arith example_one_size example_disk_catalog
     (vm_selection_request example_windows_vm (example_vm_calculation ?s) ScGeneralPurpose 4 (vm_volume_requirements example_windows_vm)) = Ok e"
     "vs_selected e = Some t" "vt_arm_sku_name t = ''D4''" "vt_disks t = [example_os_disk]"
    using example_priced_selection unfolding example_vm_requirements by blast
  obtain costs status un steps where r: "resolve_azure_vm_costs exact_arith t example_windows_vm (example_vm_calculation ?s) =
     (Ok (costs, status, un, steps) :: vm_costs_outcome calculation_result)"
    using example_vm_costs [OF sel(3,4)] by blast
  have "ci_azure_snapshot (example_vm_calculation ?s) = Some ?s" by (simp add: example_vm_calculation_def)
  moreover have "volumes_representable exact_arith example_windows_vm"
    by (simp add: volumes_representable_def example_windows_vm_def exact_arith_def dec_max_def)
  moreover have "sd_tier_key example_os_disk \<noteq> None" by (simp add: example_os_disk_def)
  ultimately have "costs \<noteq> None \<longleftrightarrow> azure_vm_rate ?s (vt_arm_sku_name t) (ec2vm_purchase_option example_windows_vm) \<noteq> None"
    using recommended_vm_priced [OF exact_arith_laws example_vm_snapshot_ok _ example_offers_ok _ sel(1,2) r] sel(4) by auto
  moreover have "azure_vm_rate ?s ''D4'' VpoAhb \<noteq> None" by code_simp
  ultimately have "costs \<noteq> None" by (simp add: sel(3) example_windows_vm_def)
  then show ?thesis using r by blast
qed

section \<open>Where they disagree\<close>

text \<open>
  C40: an independently provisioned disk within its baseline needs no performance price for the
  selection, but pricing refuses it where the snapshot lists none: the recommended size stays without costs.
\<close>
theorem baseline_disk_not_priced:
  assumes "ci_azure_snapshot i = Some s" "d \<in> set (vt_disks t)" "sd_tier_key d = None" "sd_billed_additional_iops d = 0"
    and "sd_billed_additional_throughput_mbps d = 0"
    and "\<exists>r\<in>set (zs_managed_disk_rates s). mdr_offer_key r = sd_offer_key d \<and> mdr_tier_key r = None \<and>
      mdr_dimension r = DimCapacityGb"
    and "azure_managed_disk_rate s (sd_offer_key d) None DimAdditionalIops = None"
  shows "managed_disk_price_is_complete (vm_price_availability_of s) d \<and>
    resolve_azure_vm_costs A t vm i \<noteq> (Ok (Some costs, status, un, steps) :: vm_costs_outcome calculation_result)"
proof
  show "managed_disk_price_is_complete (vm_price_availability_of s) d"
    using available_disk [of "sd_offer_key d" None DimCapacityGb s] assms(3-6) by (simp add: managed_disk_price_is_complete_def)
  have "managed_disks_monthly A s (vt_disks t) \<noteq> Ok x" for x
    using resolved_disks_listed [of A s "vt_disks t" x, OF _ assms(2)] assms(3,7)
    unfolding performance_rates_listed_def by blast
  then show "resolve_azure_vm_costs A t vm i \<noteq> (Ok (Some costs, status, un, steps) :: vm_costs_outcome calculation_result)"
    using assms(1) by (auto simp: resolve_azure_vm_costs_def no_vm_costs_def split: option.splits outcome.splits)
qed

theorem baseline_disk_not_priced_witness:
  "\<exists>s t. vt_disks t = [example_disk] \<and> managed_disk_price_is_complete (vm_price_availability_of s) example_disk \<and>
     (\<nexists>costs status un steps. resolve_azure_vm_costs exact_arith t example_windows_vm (example_vm_calculation s) =
       (Ok (Some costs, status, un, steps) :: vm_costs_outcome calculation_result))"
proof -
  let ?s = "example_vm_snapshot [example_disk_rate ''premium-ssd-v2'' None DimCapacityGb]"
  let ?t = "(selected_vm_target_of (example_evaluated ''D4'' 4))\<lparr>vt_disks := [example_disk]\<rparr>"
  have "ci_azure_snapshot (example_vm_calculation ?s) = Some ?s" by (simp add: example_vm_calculation_def)
  moreover have "example_disk \<in> set (vt_disks ?t)" "sd_tier_key example_disk = None" "sd_billed_additional_iops example_disk = 0"
    "sd_billed_additional_throughput_mbps example_disk = 0" by (simp_all add: example_disk_def)
  moreover have "\<exists>r\<in>set (zs_managed_disk_rates ?s). mdr_offer_key r = sd_offer_key example_disk \<and> mdr_tier_key r = None \<and>
      mdr_dimension r = DimCapacityGb"
    by (simp add: example_vm_snapshot_def example_disk_rate_def example_disk_def)
  moreover have "azure_managed_disk_rate ?s (sd_offer_key example_disk) None DimAdditionalIops = None"
    by (simp add: azure_managed_disk_rate_def example_vm_snapshot_def example_disk_rate_def)
  ultimately have "managed_disk_price_is_complete (vm_price_availability_of ?s) example_disk \<and>
     resolve_azure_vm_costs exact_arith ?t example_windows_vm (example_vm_calculation ?s) \<noteq>
       (Ok (Some costs, status, un, steps) :: vm_costs_outcome calculation_result)" for costs status un steps
    by (rule baseline_disk_not_priced)
  then show ?thesis by (intro exI [of _ ?s] exI [of _ ?t]) simp
qed

end
