(* ===== verification/PriceDocuments.thy ===== *)
theory PriceDocuments
  imports SnapshotFacts
begin

text \<open>
  \<open>rust/src/persistence/pricing_cache.rs\<close>, the price documents: a snapshot of AWS prices is stored as a
  state document, which names three service documents by their content hashes. A snapshot is loaded
  only from documents that agree with each other and with their hashes. The three service document types
  have the same fields; they are one record over the type of the rate records. What the code takes from
  \<open>serde_json\<close> beyond \<open>snapshot_env\<close> is \<open>cache_env\<close>.
\<close>

section \<open>Documents\<close>

definition PRICING_CACHE_PARTITION :: string where "PRICING_CACHE_PARTITION = ''pricing''"

definition AWS_STATE_DOCUMENT_TYPE :: string where "AWS_STATE_DOCUMENT_TYPE = ''aws_price_state''"

definition AWS_EC2_DOCUMENT_TYPE :: string where "AWS_EC2_DOCUMENT_TYPE = ''aws_ec2_prices''"

definition AWS_RDS_DOCUMENT_TYPE :: string where "AWS_RDS_DOCUMENT_TYPE = ''aws_rds_prices''"

definition AWS_EBS_DOCUMENT_TYPE :: string where "AWS_EBS_DOCUMENT_TYPE = ''aws_ebs_prices''"

definition AZURE_SNAPSHOT_DOCUMENT_TYPE :: string where
  "AZURE_SNAPSHOT_DOCUMENT_TYPE = ''azure_price_snapshot''"

definition PERSISTENT_DOCUMENT_TTL :: int where "PERSISTENT_DOCUMENT_TTL = -1"

datatype pricing_cache_document_error = EnvelopeMismatch | DocSnapshot snapshot_error

type_synonym 'a doc_result = "(pricing_cache_document_error, 'a) outcome"

record aws_snapshot_state_document =
  sd_id :: string
  sd_document_type :: string
  sd_cache_partition :: string
  sd_provider :: provider
  sd_currency :: string
  sd_source_region :: string
  sd_snapshot_id :: string
  sd_metadata :: snapshot_metadata
  sd_ec2_content_sha256 :: string
  sd_rds_content_sha256 :: string
  sd_ebs_content_sha256 :: string
  sd_ttl :: int

record 'r aws_component_document =
  cp_id :: string
  cp_document_type :: string
  cp_cache_partition :: string
  cp_provider :: provider
  cp_currency :: string
  cp_source_region :: string
  cp_parser_schema_version :: string
  cp_content_sha256 :: string
  cp_records_sha256 :: string
  cp_rate_records :: "'r list"
  cp_ttl :: int

type_synonym aws_ec2_price_document = "aws_ec2_rate_record aws_component_document"

type_synonym aws_rds_price_document = "aws_rds_rate_record aws_component_document"

type_synonym aws_ebs_price_document = "aws_ebs_rate_record aws_component_document"

record aws_price_documents =
  pds_state :: aws_snapshot_state_document
  pds_ec2 :: aws_ec2_price_document
  pds_rds :: aws_rds_price_document
  pds_ebs :: aws_ebs_price_document

record azure_snapshot_document =
  zd_id :: string
  zd_document_type :: string
  zd_cache_partition :: string
  zd_provider :: provider
  zd_currency :: string
  zd_target_region :: string
  zd_retrieved_at :: string
  zd_snapshot :: azure_price_snapshot

text \<open>\<open>serde_json::to_vec\<close> and \<open>to_value\<close> at the types the documents use.\<close>

record cache_env =
  cx_snapshot :: snapshot_env
  cx_ec2_bytes :: "aws_ec2_rate_record list \<Rightarrow> u8 list option"
  cx_rds_bytes :: "aws_rds_rate_record list \<Rightarrow> u8 list option"
  cx_ebs_bytes :: "aws_ebs_rate_record list \<Rightarrow> u8 list option"
  cx_ec2_value :: "aws_ec2_rate_record list \<Rightarrow> json option"
  cx_rds_value :: "aws_rds_rate_record list \<Rightarrow> json option"
  cx_ebs_value :: "aws_ebs_rate_record list \<Rightarrow> json option"
  cx_metadata_value :: "snapshot_metadata \<Rightarrow> json option"

section \<open>Text forms\<close>

definition valid_hash :: "string \<Rightarrow> bool" where
  "valid_hash value \<longleftrightarrow>
     length value = 64 \<and> list_all (\<lambda>byte. is_ascii_digit byte \<or> CHR ''a'' \<le> byte \<and> byte \<le> CHR ''f'') value"

definition valid_snapshot_id :: "string \<Rightarrow> bool" where
  "valid_snapshot_id value \<longleftrightarrow>
     is_some_and valid_hash
       (case strip_prefix ''aws-'' value of Some h \<Rightarrow> Some h | None \<Rightarrow> strip_prefix ''azure-'' value)"

definition parse_utc :: "(string \<Rightarrow> (instant \<times> int) option) \<Rightarrow> string \<Rightarrow> instant doc_result" where
  "parse_utc parse value =
     obind (ok_or (parse value) EnvelopeMismatch) (\<lambda>(timestamp, offset).
     if offset \<noteq> 0 then Err EnvelopeMismatch else Ok timestamp)"

definition hash_serialized :: "cache_env \<Rightarrow> u8 list option \<Rightarrow> (snapshot_error, string) outcome" where
  "hash_serialized C json_bytes =
     obind (ok_or json_bytes Canonicalization) (\<lambda>bytes. Ok (hex_encode (sx_sha256 (cx_snapshot C) bytes)))"

definition aws_state_document_id :: "string \<Rightarrow> string \<Rightarrow> string" where
  "aws_state_document_id currency source_region =
     ''aws-current-'' @ to_ascii_lowercase currency @ ''-'' @ source_region"

definition aws_component_document_id :: "string \<Rightarrow> string \<Rightarrow> string" where
  "aws_component_document_id service content_sha256 = ''aws-'' @ service @ ''-'' @ content_sha256"

section \<open>The state document\<close>

definition state_document_new ::
  "aws_price_snapshot \<Rightarrow> aws_service_content_hashes \<Rightarrow> aws_snapshot_state_document" where
  "state_document_new s hashes =
     \<lparr>sd_id = aws_state_document_id (sm_currency (as_metadata s)) (as_source_region s),
      sd_document_type = AWS_STATE_DOCUMENT_TYPE, sd_cache_partition = PRICING_CACHE_PARTITION,
      sd_provider = Aws, sd_currency = sm_currency (as_metadata s), sd_source_region = as_source_region s,
      sd_snapshot_id = sm_snapshot_id (as_metadata s), sd_metadata = as_metadata s,
      sd_ec2_content_sha256 = ch_ec2 hashes, sd_rds_content_sha256 = ch_rds hashes,
      sd_ebs_content_sha256 = ch_ebs hashes, sd_ttl = PERSISTENT_DOCUMENT_TTL\<rparr>"

definition state_document_validate :: "cache_env \<Rightarrow> aws_snapshot_state_document \<Rightarrow> unit doc_result" where
  "state_document_validate C d =
     (if sd_id d \<noteq> aws_state_document_id (sd_currency d) (sd_source_region d) \<or>
         sd_document_type d \<noteq> AWS_STATE_DOCUMENT_TYPE \<or>
         sd_cache_partition d \<noteq> PRICING_CACHE_PARTITION \<or>
         sd_provider d \<noteq> Aws \<or>
         sm_provider (sd_metadata d) \<noteq> Aws \<or>
         sd_currency d \<noteq> sm_currency (sd_metadata d) \<or>
         sd_snapshot_id d \<noteq> sm_snapshot_id (sd_metadata d) \<or>
         \<not> valid_snapshot_id (sd_snapshot_id d) \<or>
         sm_content_sha256 (sd_metadata d) \<noteq> drop 4 (sd_snapshot_id d) \<or>
         sm_status (sd_metadata d) = Unavailable \<or>
         \<not> valid_hash (sd_ec2_content_sha256 d) \<or>
         \<not> valid_hash (sd_rds_content_sha256 d) \<or>
         \<not> valid_hash (sd_ebs_content_sha256 d) \<or>
         sd_ttl d \<noteq> PERSISTENT_DOCUMENT_TTL
      then Err EnvelopeMismatch
      else obind (parse_utc (sx_parse_time (cx_snapshot C)) (sm_retrieved_at (sd_metadata d))) (\<lambda>_. Ok ()))"

section \<open>The service documents\<close>

definition component_document_new ::
  "string \<Rightarrow> string \<Rightarrow> aws_price_snapshot \<Rightarrow> string \<Rightarrow> string \<Rightarrow> 'r list \<Rightarrow> 'r aws_component_document" where
  "component_document_new service document_type s content_sha256 records_sha256 records =
     \<lparr>cp_id = aws_component_document_id service content_sha256, cp_document_type = document_type,
      cp_cache_partition = PRICING_CACHE_PARTITION, cp_provider = Aws,
      cp_currency = sm_currency (as_metadata s), cp_source_region = as_source_region s,
      cp_parser_schema_version = sm_parser_schema_version (as_metadata s),
      cp_content_sha256 = content_sha256, cp_records_sha256 = records_sha256,
      cp_rate_records = records, cp_ttl = PERSISTENT_DOCUMENT_TTL\<rparr>"

definition ec2_document_new ::
  "cache_env \<Rightarrow> aws_price_snapshot \<Rightarrow> string \<Rightarrow> (snapshot_error, aws_ec2_price_document) outcome" where
  "ec2_document_new C s content_sha256 =
     obind (hash_serialized C (cx_ec2_bytes C (as_ec2_rates s))) (\<lambda>records_sha256.
     Ok (component_document_new ''ec2'' AWS_EC2_DOCUMENT_TYPE s content_sha256 records_sha256 (as_ec2_rates s)))"

definition rds_document_new ::
  "cache_env \<Rightarrow> aws_price_snapshot \<Rightarrow> string \<Rightarrow> (snapshot_error, aws_rds_price_document) outcome" where
  "rds_document_new C s content_sha256 =
     obind (hash_serialized C (cx_rds_bytes C (as_rds_rates s))) (\<lambda>records_sha256.
     Ok (component_document_new ''rds'' AWS_RDS_DOCUMENT_TYPE s content_sha256 records_sha256 (as_rds_rates s)))"

definition ebs_document_new ::
  "cache_env \<Rightarrow> aws_price_snapshot \<Rightarrow> string \<Rightarrow> (snapshot_error, aws_ebs_price_document) outcome" where
  "ebs_document_new C s content_sha256 =
     obind (hash_serialized C (cx_ebs_bytes C (as_ebs_rates s))) (\<lambda>records_sha256.
     Ok (component_document_new ''ebs'' AWS_EBS_DOCUMENT_TYPE s content_sha256 records_sha256 (as_ebs_rates s)))"

definition validate_component_envelope ::
  "'r aws_component_document \<Rightarrow> string \<Rightarrow> string \<Rightarrow> string \<Rightarrow> string \<Rightarrow> unit doc_result" where
  "validate_component_envelope d service document_type computed_hash computed_records_hash =
     (if cp_id d \<noteq> aws_component_document_id service (cp_content_sha256 d) \<or>
         cp_document_type d \<noteq> document_type \<or>
         cp_cache_partition d \<noteq> PRICING_CACHE_PARTITION \<or>
         cp_provider d \<noteq> Aws \<or>
         cp_currency d = [] \<or> cp_source_region d = [] \<or> cp_parser_schema_version d = [] \<or>
         cp_content_sha256 d \<noteq> computed_hash \<or>
         cp_records_sha256 d \<noteq> computed_records_hash \<or>
         cp_ttl d \<noteq> PERSISTENT_DOCUMENT_TTL
      then Err EnvelopeMismatch else Ok ())"

definition component_matches_scope :: "'r aws_component_document \<Rightarrow> aws_snapshot_state_document \<Rightarrow> bool" where
  "component_matches_scope d state \<longleftrightarrow>
     cp_currency d = sd_currency state \<and> cp_source_region d = sd_source_region state \<and>
     cp_parser_schema_version d = sm_parser_schema_version (sd_metadata state)"

definition component_metadata :: "'r aws_component_document \<Rightarrow> snapshot_creation_metadata" where
  "component_metadata d =
     \<lparr>cm_status = Fresh, cm_retrieved_at = ''1970-01-01T00:00:00Z'', cm_source_published_at = None,
      cm_currency = cp_currency d, cm_source_urls = [],
      cm_parser_schema_version = cp_parser_schema_version d, cm_warnings = []\<rparr>"

definition validate_component_round_trip :: "json \<Rightarrow> json option \<Rightarrow> unit doc_result" where
  "validate_component_round_trip original rebuilt =
     obind (ok_or rebuilt (DocSnapshot Canonicalization)) (\<lambda>value.
     if value \<noteq> original then Err (DocSnapshot StoredSnapshotMismatch) else Ok ())"

definition validate_ec2_records :: "cache_env \<Rightarrow> aws_ec2_price_document \<Rightarrow> unit doc_result" where
  "validate_ec2_records C d =
     obind (ok_or (cx_ec2_value C (cp_rate_records d)) (DocSnapshot Canonicalization)) (\<lambda>original.
     obind (map_err DocSnapshot (aws_create (cx_snapshot C) (component_metadata d) (cp_source_region d)
              (cp_rate_records d) [] [])) (\<lambda>rebuilt.
     validate_component_round_trip original (cx_ec2_value C (as_ec2_rates rebuilt))))"

definition validate_rds_records :: "cache_env \<Rightarrow> aws_rds_price_document \<Rightarrow> unit doc_result" where
  "validate_rds_records C d =
     obind (ok_or (cx_rds_value C (cp_rate_records d)) (DocSnapshot Canonicalization)) (\<lambda>original.
     obind (map_err DocSnapshot (aws_create (cx_snapshot C) (component_metadata d) (cp_source_region d)
              [] (cp_rate_records d) [])) (\<lambda>rebuilt.
     validate_component_round_trip original (cx_rds_value C (as_rds_rates rebuilt))))"

definition validate_ebs_records :: "cache_env \<Rightarrow> aws_ebs_price_document \<Rightarrow> unit doc_result" where
  "validate_ebs_records C d =
     obind (ok_or (cx_ebs_value C (cp_rate_records d)) (DocSnapshot Canonicalization)) (\<lambda>original.
     obind (map_err DocSnapshot (aws_create (cx_snapshot C) (component_metadata d) (cp_source_region d)
              [] [] (cp_rate_records d))) (\<lambda>rebuilt.
     validate_component_round_trip original (cx_ebs_value C (as_ebs_rates rebuilt))))"

definition ec2_document_validate :: "cache_env \<Rightarrow> aws_ec2_price_document \<Rightarrow> unit doc_result" where
  "ec2_document_validate C d =
     obind (map_err DocSnapshot (aws_ec2_content_hash (cx_snapshot C) (cp_currency d) (cp_source_region d)
              (cp_parser_schema_version d) (cp_rate_records d))) (\<lambda>computed_hash.
     obind (map_err DocSnapshot (hash_serialized C (cx_ec2_bytes C (cp_rate_records d)))) (\<lambda>records_hash.
     obind (validate_component_envelope d ''ec2'' AWS_EC2_DOCUMENT_TYPE computed_hash records_hash) (\<lambda>_.
     validate_ec2_records C d)))"

definition rds_document_validate :: "cache_env \<Rightarrow> aws_rds_price_document \<Rightarrow> unit doc_result" where
  "rds_document_validate C d =
     obind (map_err DocSnapshot (aws_rds_content_hash (cx_snapshot C) (cp_currency d) (cp_source_region d)
              (cp_parser_schema_version d) (cp_rate_records d))) (\<lambda>computed_hash.
     obind (map_err DocSnapshot (hash_serialized C (cx_rds_bytes C (cp_rate_records d)))) (\<lambda>records_hash.
     obind (validate_component_envelope d ''rds'' AWS_RDS_DOCUMENT_TYPE computed_hash records_hash) (\<lambda>_.
     validate_rds_records C d)))"

definition ebs_document_validate :: "cache_env \<Rightarrow> aws_ebs_price_document \<Rightarrow> unit doc_result" where
  "ebs_document_validate C d =
     obind (map_err DocSnapshot (aws_ebs_content_hash (cx_snapshot C) (cp_currency d) (cp_source_region d)
              (cp_parser_schema_version d) (cp_rate_records d))) (\<lambda>computed_hash.
     obind (map_err DocSnapshot (hash_serialized C (cx_ebs_bytes C (cp_rate_records d)))) (\<lambda>records_hash.
     obind (validate_component_envelope d ''ebs'' AWS_EBS_DOCUMENT_TYPE computed_hash records_hash) (\<lambda>_.
     validate_ebs_records C d)))"

section \<open>Loading and publishing\<close>

definition aws_into_snapshot ::
  "cache_env \<Rightarrow> aws_snapshot_state_document \<Rightarrow> aws_ec2_price_document \<Rightarrow> aws_rds_price_document \<Rightarrow>
     aws_ebs_price_document \<Rightarrow> aws_price_snapshot doc_result" where
  "aws_into_snapshot C state ec2 rds ebs =
     obind (state_document_validate C state) (\<lambda>_.
     obind (ec2_document_validate C ec2) (\<lambda>_.
     obind (rds_document_validate C rds) (\<lambda>_.
     obind (ebs_document_validate C ebs) (\<lambda>_.
     if cp_content_sha256 ec2 \<noteq> sd_ec2_content_sha256 state \<or>
        cp_content_sha256 rds \<noteq> sd_rds_content_sha256 state \<or>
        cp_content_sha256 ebs \<noteq> sd_ebs_content_sha256 state \<or>
        \<not> component_matches_scope ec2 state \<or> \<not> component_matches_scope rds state \<or>
        \<not> component_matches_scope ebs state
     then Err EnvelopeMismatch
     else obind (map_err DocSnapshot (aws_create (cx_snapshot C) (creation_metadata (sd_metadata state))
              (sd_source_region state) (cp_rate_records ec2) (cp_rate_records rds) (cp_rate_records ebs))) (\<lambda>snapshot.
        obind (ok_or (cx_metadata_value C (as_metadata snapshot)) (DocSnapshot Canonicalization)) (\<lambda>rebuilt.
        obind (ok_or (cx_metadata_value C (sd_metadata state)) (DocSnapshot Canonicalization)) (\<lambda>expected.
        if rebuilt \<noteq> expected then Err (DocSnapshot StoredSnapshotMismatch) else Ok snapshot)))))))"

definition aws_documents_new :: "cache_env \<Rightarrow> aws_price_snapshot \<Rightarrow> aws_price_documents doc_result" where
  "aws_documents_new C s =
     obind (map_err DocSnapshot (aws_service_content_hashes_of (cx_snapshot C) s)) (\<lambda>hashes.
     obind (map_err DocSnapshot (ec2_document_new C s (ch_ec2 hashes))) (\<lambda>ec2.
     obind (map_err DocSnapshot (rds_document_new C s (ch_rds hashes))) (\<lambda>rds.
     obind (map_err DocSnapshot (ebs_document_new C s (ch_ebs hashes))) (\<lambda>ebs.
     Ok \<lparr>pds_state = state_document_new s hashes, pds_ec2 = ec2, pds_rds = rds, pds_ebs = ebs\<rparr>))))"

definition state_for_components ::
  "cache_env \<Rightarrow> aws_price_snapshot \<Rightarrow> aws_ec2_price_document \<Rightarrow> aws_rds_price_document \<Rightarrow>
     aws_ebs_price_document \<Rightarrow> (aws_snapshot_state_document \<times> aws_price_snapshot) doc_result" where
  "state_for_components C incoming ec2 rds ebs =
     obind (ec2_document_validate C ec2) (\<lambda>_.
     obind (rds_document_validate C rds) (\<lambda>_.
     obind (ebs_document_validate C ebs) (\<lambda>_.
     if \<not> list_all (\<lambda>(currency, region, parser).
            currency = sm_currency (as_metadata incoming) \<and> region = as_source_region incoming \<and>
            parser = sm_parser_schema_version (as_metadata incoming))
          [(cp_currency ec2, cp_source_region ec2, cp_parser_schema_version ec2),
           (cp_currency rds, cp_source_region rds, cp_parser_schema_version rds),
           (cp_currency ebs, cp_source_region ebs, cp_parser_schema_version ebs)]
     then Err EnvelopeMismatch
     else obind (map_err DocSnapshot (aws_create (cx_snapshot C) (creation_metadata (as_metadata incoming))
              (as_source_region incoming) (cp_rate_records ec2) (cp_rate_records rds) (cp_rate_records ebs))) (\<lambda>persisted.
        obind (aws_documents_new C persisted) (\<lambda>documents. Ok (pds_state documents, persisted))))))"

definition azure_document_new :: "azure_price_snapshot \<Rightarrow> azure_snapshot_document" where
  "azure_document_new s =
     \<lparr>zd_id = sm_snapshot_id (zs_metadata s), zd_document_type = AZURE_SNAPSHOT_DOCUMENT_TYPE,
      zd_cache_partition = PRICING_CACHE_PARTITION, zd_provider = Azure,
      zd_currency = sm_currency (zs_metadata s), zd_target_region = zs_target_region s,
      zd_retrieved_at = sm_retrieved_at (zs_metadata s), zd_snapshot = s\<rparr>"

definition azure_into_snapshot ::
  "cache_env \<Rightarrow> dec_arith \<Rightarrow> azure_snapshot_document \<Rightarrow> azure_price_snapshot doc_result" where
  "azure_into_snapshot C A d =
     (let s = zd_snapshot d
      in if zd_id d \<noteq> sm_snapshot_id (zs_metadata s) \<or>
            zd_document_type d \<noteq> AZURE_SNAPSHOT_DOCUMENT_TYPE \<or>
            zd_cache_partition d \<noteq> PRICING_CACHE_PARTITION \<or>
            zd_provider d \<noteq> Azure \<or>
            sm_provider (zs_metadata s) \<noteq> Azure \<or>
            zd_currency d \<noteq> sm_currency (zs_metadata s) \<or>
            zd_target_region d \<noteq> zs_target_region s \<or>
            zd_retrieved_at d \<noteq> sm_retrieved_at (zs_metadata s)
         then Err EnvelopeMismatch
         else map_err DocSnapshot (validate_stored_azure_snapshot (cx_snapshot C) A s))"

section \<open>What a valid service document holds\<close>

text \<open>
  Documented behaviour of \<open>serde_json\<close> on these types (structures of strings, integers, decimals and
  lists, written in full) and of the digest; \<open>1970-01-01T00:00:00Z\<close> is a time.
\<close>

definition cache_laws :: "cache_env \<Rightarrow> bool" where
  "cache_laws C \<longleftrightarrow>
     (\<forall>rs. cx_ec2_bytes C rs \<noteq> None) \<and> (\<forall>rs. cx_rds_bytes C rs \<noteq> None) \<and> (\<forall>rs. cx_ebs_bytes C rs \<noteq> None) \<and>
     (\<forall>rs. cx_ec2_value C rs \<noteq> None) \<and> (\<forall>rs. cx_rds_value C rs \<noteq> None) \<and> (\<forall>rs. cx_ebs_value C rs \<noteq> None) \<and>
     (\<forall>m. cx_metadata_value C m \<noteq> None) \<and> (\<forall>p. sx_aws_json (cx_snapshot C) p \<noteq> None) \<and>
     (\<forall>p. sx_ec2_json (cx_snapshot C) p \<noteq> None) \<and> (\<forall>p. sx_rds_json (cx_snapshot C) p \<noteq> None) \<and>
     (\<forall>p. sx_ebs_json (cx_snapshot C) p \<noteq> None) \<and>
     faithful (cx_ec2_value C) \<and> faithful (cx_rds_value C) \<and> faithful (cx_ebs_value C) \<and>
     faithful (cx_metadata_value C) \<and>
     (\<forall>bytes. length (sx_sha256 (cx_snapshot C) bytes) = 32) \<and>
     sx_parse_time (cx_snapshot C) ''1970-01-01T00:00:00Z'' = Some (0, 0)"

lemma faithful_total:
  assumes "faithful f" "\<And>x. f x \<noteq> None"
  shows "f x = f y \<longleftrightarrow> x = y"
  using assms faithfulD [OF assms(1)] by (metis option.exhaust)

lemma valid_hash_hex: "length bytes = 32 \<Longrightarrow> valid_hash (hex_encode bytes)"
proof -
  have digit: "is_ascii_digit (hex_digit n) \<or> CHR ''a'' \<le> hex_digit n \<and> hex_digit n \<le> CHR ''f''" if "n < 16" for n
  proof -
    have "n \<in> set [0..<16]" using that by simp
    then show ?thesis
      by (simp add: upt_rec hex_digit_def is_ascii_digit_def less_eq_char_def byte_of_def) (elim disjE; simp)
  qed
  have "unat b div 16 < 16" for b :: u8
    using unsigned_less [of b, where 'a = nat] by (simp add: less_mult_imp_div_less)
  then have "list_all (\<lambda>byte. is_ascii_digit byte \<or> CHR ''a'' \<le> byte \<and> byte \<le> CHR ''f'') (hex_byte b)" for b
    using digit by (simp add: hex_byte_def)
  then show "length bytes = 32 \<Longrightarrow> valid_hash (hex_encode bytes)"
    unfolding valid_hash_def hex_encode_length by (simp add: hex_encode_concat list_all_iff)
qed

lemma parse_utc_Ok: "parse_utc parse value = Ok t \<longleftrightarrow> parse value = Some (t, 0)"
  by (auto simp: parse_utc_def obind_Ok_iff)

text \<open>Creating a snapshot from some of the lists of a snapshot keeps these lists.\<close>

lemma by_key_fixed:
  assumes "aws_create X m region a b c = Ok s"
  shows "by_key ae_stable_key (map normalize_ec2 (as_ec2_rates s)) = as_ec2_rates s"
    and "by_key ad_stable_key (map normalize_rds (as_rds_rates s)) = as_rds_rates s"
    and "by_key ab_stable_key (map normalize_ebs (as_ebs_rates s)) = as_ebs_rates s"
  using aws_create_again [OF assms] by (auto elim!: aws_create_OkE)

lemma create_part:
  assumes created: "aws_create X m region a b c = Ok s"
    and json: "\<And>p. sx_aws_json X p \<noteq> None"
    and metadata: "validate_creation_metadata X m' region' = Ok ()"
    and parts: "a' = as_ec2_rates s \<or> a' = []" "b' = as_rds_rates s \<or> b' = []" "c' = as_ebs_rates s \<or> c' = []"
  obtains t where "aws_create X m' region' a' b' c' = Ok t" "as_ec2_rates t = a'" "as_rds_rates t = b'"
    "as_ebs_rates t = c'"
proof -
  have fixed: "by_key ae_stable_key (map normalize_ec2 a') = a'" "by_key ad_stable_key (map normalize_rds b') = b'"
      "by_key ab_stable_key (map normalize_ebs c') = c'"
    using parts by_key_fixed [OF created] by (auto simp: by_key_def)
  have sub: "set a' \<subseteq> set (as_ec2_rates s)" "set b' \<subseteq> set (as_rds_rates s)" "set c' \<subseteq> set (as_ebs_rates s)"
    using parts by auto
  from created show thesis
  proof (cases rule: aws_create_OkE)
    case (1 bytes)
    have "validate_unique_keys (map ae_stable_key a' @ map ad_stable_key b' @ map ab_stable_key c') = Ok ()"
      using 1(6) parts by (auto simp: unique_keys)
    moreover have "validate_rate_provenance (map ae_provenance a' @ map ad_provenance b' @ map ab_provenance c') = Ok ()"
      using 1(7) sub by (auto simp: validate_rate_provenance_def list_ex_iff split: if_splits)
    moreover have "validate_aws_rates a' b' c' = Ok ()"
      using 1(8) sub unfolding validate_aws_rates_def list_ex_iff by (auto split: if_splits)
    ultimately have "\<exists>t. aws_create X m' region' a' b' c' = Ok t"
      using json [of "\<lparr>ap_provider = Aws, ap_currency = cm_currency m', ap_source_region = region',
        ap_parser_schema_version = cm_parser_schema_version m', ap_ec2_rates = a', ap_rds_rates = b',
        ap_ebs_rates = c'\<rparr>"]
      by (auto simp: aws_create_def Let_def metadata fixed hash_canonical_def)
    then obtain t where "aws_create X m' region' a' b' c' = Ok t" by blast
    then show thesis by (intro that [of t]) (auto elim!: aws_create_OkE simp: fixed)
  qed
qed

text \<open>A service document is valid for a snapshot exactly if it is the one written for it.\<close>

lemma hash_serialized_total: "json_bytes \<noteq> None \<Longrightarrow> \<exists>h. hash_serialized C json_bytes = Ok h"
  by (auto simp: hash_serialized_def)

lemma hash_canonical_valid:
  "cache_laws C \<Longrightarrow> hash_canonical (cx_snapshot C) j = Ok h \<Longrightarrow> valid_hash h"
  by (auto simp: hash_canonical_Ok cache_laws_def valid_hash_hex)

lemma envelope_Ok:
  "validate_component_envelope d service document_type h rh = Ok () \<longleftrightarrow>
     cp_currency d \<noteq> [] \<and> cp_source_region d \<noteq> [] \<and> cp_parser_schema_version d \<noteq> [] \<and>
     d = \<lparr>cp_id = aws_component_document_id service h, cp_document_type = document_type,
          cp_cache_partition = PRICING_CACHE_PARTITION, cp_provider = Aws, cp_currency = cp_currency d,
          cp_source_region = cp_source_region d, cp_parser_schema_version = cp_parser_schema_version d,
          cp_content_sha256 = h, cp_records_sha256 = rh, cp_rate_records = cp_rate_records d,
          cp_ttl = PERSISTENT_DOCUMENT_TTL\<rparr>"
  by (cases d) (auto simp: validate_component_envelope_def)

lemma component_creation:
  assumes "cache_laws C"
  shows "validate_creation_metadata (cx_snapshot C) (component_metadata d) (cp_source_region d) = Ok () \<longleftrightarrow>
    cp_currency d \<noteq> [] \<and> cp_source_region d \<noteq> [] \<and> cp_parser_schema_version d \<noteq> []"
  using assms by (auto simp: validate_creation_metadata_def component_metadata_def cache_laws_def)

lemma round_trip_Ok:
  assumes "faithful f" "\<And>x. f x \<noteq> None"
  shows "obind (ok_or (f x) e) (\<lambda>original. obind m (\<lambda>rebuilt. validate_component_round_trip original (f (g rebuilt)))) =
      Ok () \<longleftrightarrow> (\<exists>rebuilt. m = Ok rebuilt \<and> g rebuilt = x)"
proof -
  have "obind (ok_or (f x) e) (\<lambda>original. validate_component_round_trip original (f y)) = Ok () \<longleftrightarrow> y = x" for y
    using assms(2) [of x] assms(2) [of y] faithful_total [OF assms, of y x]
    by (auto simp: validate_component_round_trip_def)
  then show ?thesis
    using assms(2) [of x] by (cases m) (auto simp: obind_Ok_iff)
qed

lemma ec2_records_Ok:
  "cache_laws C \<Longrightarrow> validate_ec2_records C d = Ok () \<longleftrightarrow>
     (\<exists>t. aws_create (cx_snapshot C) (component_metadata d) (cp_source_region d) (cp_rate_records d) [] [] = Ok t \<and>
          as_ec2_rates t = cp_rate_records d)"
  unfolding validate_ec2_records_def by (subst round_trip_Ok) (auto simp: cache_laws_def map_err_iff)

lemma rds_records_Ok:
  "cache_laws C \<Longrightarrow> validate_rds_records C d = Ok () \<longleftrightarrow>
     (\<exists>t. aws_create (cx_snapshot C) (component_metadata d) (cp_source_region d) [] (cp_rate_records d) [] = Ok t \<and>
          as_rds_rates t = cp_rate_records d)"
  unfolding validate_rds_records_def by (subst round_trip_Ok) (auto simp: cache_laws_def map_err_iff)

lemma ebs_records_Ok:
  "cache_laws C \<Longrightarrow> validate_ebs_records C d = Ok () \<longleftrightarrow>
     (\<exists>t. aws_create (cx_snapshot C) (component_metadata d) (cp_source_region d) [] [] (cp_rate_records d) = Ok t \<and>
          as_ebs_rates t = cp_rate_records d)"
  unfolding validate_ebs_records_def by (subst round_trip_Ok) (auto simp: cache_laws_def map_err_iff)

text \<open>The scope of a document is the one of a snapshot.\<close>

definition scope_of :: "aws_price_snapshot \<Rightarrow> 'r aws_component_document \<Rightarrow> bool" where
  "scope_of s d \<longleftrightarrow>
     cp_currency d = sm_currency (as_metadata s) \<and> cp_source_region d = as_source_region s \<and>
     cp_parser_schema_version d = sm_parser_schema_version (as_metadata s)"

lemma created_metadata:
  assumes "aws_create X m region a b c = Ok s"
  shows "sm_currency (as_metadata s) \<noteq> []" "as_source_region s \<noteq> []" "sm_parser_schema_version (as_metadata s) \<noteq> []"
    "validate_creation_metadata X (creation_metadata (as_metadata s)) (as_source_region s) = Ok ()"
    "sm_provider (as_metadata s) = Aws" "sm_status (as_metadata s) \<noteq> Unavailable"
    "\<exists>t. sx_parse_time X (sm_retrieved_at (as_metadata s)) = Some (t, 0)"
    "\<exists>bytes. sm_content_sha256 (as_metadata s) = hex_encode (sx_sha256 X bytes) \<and>
       sm_snapshot_id (as_metadata s) = ''aws-'' @ hex_encode (sx_sha256 X bytes)"
proof -
  from aws_create_again [OF assms]
  have v: "validate_creation_metadata X (creation_metadata (as_metadata s)) (as_source_region s) = Ok ()"
    by (rule aws_create_OkE)
  show "validate_creation_metadata X (creation_metadata (as_metadata s)) (as_source_region s) = Ok ()" by (rule v)
  show "sm_currency (as_metadata s) \<noteq> []" "as_source_region s \<noteq> []" "sm_parser_schema_version (as_metadata s) \<noteq> []"
    "sm_status (as_metadata s) \<noteq> Unavailable" "\<exists>t. sx_parse_time X (sm_retrieved_at (as_metadata s)) = Some (t, 0)"
    using v by (auto simp: validate_creation_metadata_def creation_metadata_def split: option.splits if_splits)
  show "sm_provider (as_metadata s) = Aws" "\<exists>bytes. sm_content_sha256 (as_metadata s) = hex_encode (sx_sha256 X bytes) \<and>
       sm_snapshot_id (as_metadata s) = ''aws-'' @ hex_encode (sx_sha256 X bytes)"
    using assms by (auto elim!: aws_create_OkE simp: snapshot_metadata_of_def Let_def)
qed

lemma component_document_iff:
  assumes "aws_create X m region a b c = Ok s"
    and new: "created = Ok (component_document_new service document_type s h rh rates)"
    and valid: "scope_of s d \<Longrightarrow> cp_rate_records d = rates \<Longrightarrow>
      valid \<longleftrightarrow> validate_component_envelope d service document_type h rh = Ok ()"
  shows "created = Ok d \<longleftrightarrow> valid \<and> scope_of s d \<and> cp_rate_records d = rates"
proof (cases "scope_of s d \<and> cp_rate_records d = rates")
  case True
  then have scope: "cp_currency d = sm_currency (as_metadata s)" "cp_source_region d = as_source_region s"
      "cp_parser_schema_version d = sm_parser_schema_version (as_metadata s)" "cp_rate_records d = rates"
    by (simp_all add: scope_of_def)
  have "valid \<longleftrightarrow> d = component_document_new service document_type s h rh rates"
    using valid True created_metadata(1-3) [OF assms(1)]
    unfolding envelope_Ok scope by (simp add: component_document_new_def)
  then show ?thesis using True by (auto simp: new)
next
  case False
  then show ?thesis by (auto simp: new component_document_new_def scope_of_def)
qed

lemma scope_creation:
  assumes "cache_laws C" "aws_create (cx_snapshot C) m region a b c = Ok s" "scope_of s d"
  shows "validate_creation_metadata (cx_snapshot C) (component_metadata d) (cp_source_region d) = Ok ()"
  using created_metadata(1-3) [OF assms(2)] assms(3)
  unfolding component_creation [OF assms(1)] scope_of_def by simp

lemma ec2_document_iff:
  assumes "cache_laws C" "aws_create (cx_snapshot C) m region a b c = Ok s"
    and "aws_ec2_content_hash (cx_snapshot C) (sm_currency (as_metadata s)) (as_source_region s)
      (sm_parser_schema_version (as_metadata s)) (as_ec2_rates s) = Ok h"
  shows "ec2_document_new C s h = Ok d \<longleftrightarrow>
    ec2_document_validate C d = Ok () \<and> scope_of s d \<and> cp_rate_records d = as_ec2_rates s"
proof -
  obtain rh where rh: "hash_serialized C (cx_ec2_bytes C (as_ec2_rates s)) = Ok rh"
    using assms(1) hash_serialized_total by (metis cache_laws_def)
  show ?thesis
  proof (rule component_document_iff [OF assms(2), where rh = rh])
    assume "scope_of s d" "cp_rate_records d = as_ec2_rates s"
    moreover from create_part [OF assms(2) _ scope_creation [OF assms(1,2) this(1)], of "cp_rate_records d" "[]" "[]"]
    have "validate_ec2_records C d = Ok ()"
      using assms(1) \<open>cp_rate_records d = _\<close> by (metis cache_laws_def ec2_records_Ok)
    ultimately show "ec2_document_validate C d = Ok () \<longleftrightarrow>
        validate_component_envelope d ''ec2'' AWS_EC2_DOCUMENT_TYPE h rh = Ok ()"
      by (simp add: ec2_document_validate_def scope_of_def assms(3) rh obind_Ok_iff)
  qed (simp add: ec2_document_new_def rh)
qed

lemma rds_document_iff:
  assumes "cache_laws C" "aws_create (cx_snapshot C) m region a b c = Ok s"
    and "aws_rds_content_hash (cx_snapshot C) (sm_currency (as_metadata s)) (as_source_region s)
      (sm_parser_schema_version (as_metadata s)) (as_rds_rates s) = Ok h"
  shows "rds_document_new C s h = Ok d \<longleftrightarrow>
    rds_document_validate C d = Ok () \<and> scope_of s d \<and> cp_rate_records d = as_rds_rates s"
proof -
  obtain rh where rh: "hash_serialized C (cx_rds_bytes C (as_rds_rates s)) = Ok rh"
    using assms(1) hash_serialized_total by (metis cache_laws_def)
  show ?thesis
  proof (rule component_document_iff [OF assms(2), where rh = rh])
    assume "scope_of s d" "cp_rate_records d = as_rds_rates s"
    moreover from create_part [OF assms(2) _ scope_creation [OF assms(1,2) this(1)], of "[]" "cp_rate_records d" "[]"]
    have "validate_rds_records C d = Ok ()"
      using assms(1) \<open>cp_rate_records d = _\<close> by (metis cache_laws_def rds_records_Ok)
    ultimately show "rds_document_validate C d = Ok () \<longleftrightarrow>
        validate_component_envelope d ''rds'' AWS_RDS_DOCUMENT_TYPE h rh = Ok ()"
      by (simp add: rds_document_validate_def scope_of_def assms(3) rh obind_Ok_iff)
  qed (simp add: rds_document_new_def rh)
qed

lemma ebs_document_iff:
  assumes "cache_laws C" "aws_create (cx_snapshot C) m region a b c = Ok s"
    and "aws_ebs_content_hash (cx_snapshot C) (sm_currency (as_metadata s)) (as_source_region s)
      (sm_parser_schema_version (as_metadata s)) (as_ebs_rates s) = Ok h"
  shows "ebs_document_new C s h = Ok d \<longleftrightarrow>
    ebs_document_validate C d = Ok () \<and> scope_of s d \<and> cp_rate_records d = as_ebs_rates s"
proof -
  obtain rh where rh: "hash_serialized C (cx_ebs_bytes C (as_ebs_rates s)) = Ok rh"
    using assms(1) hash_serialized_total by (metis cache_laws_def)
  show ?thesis
  proof (rule component_document_iff [OF assms(2), where rh = rh])
    assume "scope_of s d" "cp_rate_records d = as_ebs_rates s"
    moreover from create_part [OF assms(2) _ scope_creation [OF assms(1,2) this(1)], of "[]" "[]" "cp_rate_records d"]
    have "validate_ebs_records C d = Ok ()"
      using assms(1) \<open>cp_rate_records d = _\<close> by (metis cache_laws_def ebs_records_Ok)
    ultimately show "ebs_document_validate C d = Ok () \<longleftrightarrow>
        validate_component_envelope d ''ebs'' AWS_EBS_DOCUMENT_TYPE h rh = Ok ()"
      by (simp add: ebs_document_validate_def scope_of_def assms(3) rh obind_Ok_iff)
  qed (simp add: ebs_document_new_def rh)
qed

text \<open>The records of a valid document are already in the normal form of a snapshot.\<close>

lemma valid_records_fixed:
  assumes "cache_laws C"
  shows "ec2_document_validate C e = Ok () \<Longrightarrow>
      by_key ae_stable_key (map normalize_ec2 (cp_rate_records e)) = cp_rate_records e"
    and "rds_document_validate C r = Ok () \<Longrightarrow>
      by_key ad_stable_key (map normalize_rds (cp_rate_records r)) = cp_rate_records r"
    and "ebs_document_validate C b = Ok () \<Longrightarrow>
      by_key ab_stable_key (map normalize_ebs (cp_rate_records b)) = cp_rate_records b"
  by (auto simp: ec2_document_validate_def rds_document_validate_def ebs_document_validate_def obind_Ok_iff
      ec2_records_Ok [OF assms] rds_records_Ok [OF assms] ebs_records_Ok [OF assms] elim!: aws_create_OkE)

lemma created_from_valid:
  assumes "cache_laws C" "ec2_document_validate C e = Ok ()" "rds_document_validate C r = Ok ()"
    "ebs_document_validate C b = Ok ()"
    and "aws_create X m region (cp_rate_records e) (cp_rate_records r) (cp_rate_records b) = Ok s"
  shows "as_ec2_rates s = cp_rate_records e" "as_rds_rates s = cp_rate_records r" "as_ebs_rates s = cp_rate_records b"
  using assms(5) valid_records_fixed [OF assms(1)] assms(2-4) by (auto elim!: aws_create_OkE)

lemma service_hashes_total:
  assumes "cache_laws C"
  obtains h where "aws_service_content_hashes_of (cx_snapshot C) s = Ok h"
    "aws_ec2_content_hash (cx_snapshot C) (sm_currency (as_metadata s)) (as_source_region s)
      (sm_parser_schema_version (as_metadata s)) (as_ec2_rates s) = Ok (ch_ec2 h)"
    "aws_rds_content_hash (cx_snapshot C) (sm_currency (as_metadata s)) (as_source_region s)
      (sm_parser_schema_version (as_metadata s)) (as_rds_rates s) = Ok (ch_rds h)"
    "aws_ebs_content_hash (cx_snapshot C) (sm_currency (as_metadata s)) (as_source_region s)
      (sm_parser_schema_version (as_metadata s)) (as_ebs_rates s) = Ok (ch_ebs h)"
    "valid_hash (ch_ec2 h)" "valid_hash (ch_rds h)" "valid_hash (ch_ebs h)"
proof -
  have total: "\<exists>h. hash_canonical (cx_snapshot C) j = Ok h" if "j \<noteq> None" for j
    using that by (auto simp: hash_canonical_def)
  have json: "sx_ec2_json (cx_snapshot C) pe \<noteq> None" "sx_rds_json (cx_snapshot C) pr \<noteq> None"
      "sx_ebs_json (cx_snapshot C) pb \<noteq> None" for pe pr pb
    using assms unfolding cache_laws_def by blast+
  obtain e where e: "aws_ec2_content_hash (cx_snapshot C) (sm_currency (as_metadata s)) (as_source_region s)
      (sm_parser_schema_version (as_metadata s)) (as_ec2_rates s) = Ok e"
    using total [OF json(1)] unfolding aws_ec2_content_hash_def by blast
  obtain r where r: "aws_rds_content_hash (cx_snapshot C) (sm_currency (as_metadata s)) (as_source_region s)
      (sm_parser_schema_version (as_metadata s)) (as_rds_rates s) = Ok r"
    using total [OF json(2)] unfolding aws_rds_content_hash_def by blast
  obtain b where b: "aws_ebs_content_hash (cx_snapshot C) (sm_currency (as_metadata s)) (as_source_region s)
      (sm_parser_schema_version (as_metadata s)) (as_ebs_rates s) = Ok b"
    using total [OF json(3)] unfolding aws_ebs_content_hash_def by blast
  have "valid_hash e" "valid_hash r" "valid_hash b"
    using e r b hash_canonical_valid [OF assms]
    by (auto simp: aws_ec2_content_hash_def aws_rds_content_hash_def aws_ebs_content_hash_def)
  then show thesis
    using e r b by (intro that [of "\<lparr>ch_ec2 = e, ch_rds = r, ch_ebs = b\<rparr>"])
      (simp_all add: aws_service_content_hashes_of_def Let_def)
qed

lemma documents_new_Ok:
  assumes "cache_laws C" "aws_create (cx_snapshot C) m region a b c = Ok s"
  shows "aws_documents_new C s = Ok ds \<longleftrightarrow>
    (\<exists>h. aws_service_content_hashes_of (cx_snapshot C) s = Ok h \<and> pds_state ds = state_document_new s h \<and>
       ec2_document_new C s (ch_ec2 h) = Ok (pds_ec2 ds) \<and> rds_document_new C s (ch_rds h) = Ok (pds_rds ds) \<and>
       ebs_document_new C s (ch_ebs h) = Ok (pds_ebs ds))"
  by (cases ds) (auto simp: aws_documents_new_def obind_Ok_iff map_err_iff)

lemma state_document_valid:
  assumes "cache_laws C" "aws_create (cx_snapshot C) m region a b c = Ok s"
    and "aws_service_content_hashes_of (cx_snapshot C) s = Ok h"
  shows "state_document_validate C (state_document_new s h) = Ok ()"
proof -
  obtain bytes t where s: "sm_content_sha256 (as_metadata s) = hex_encode bytes"
      "sm_snapshot_id (as_metadata s) = ''aws-'' @ hex_encode bytes" "length bytes = 32"
      "sx_parse_time (cx_snapshot C) (sm_retrieved_at (as_metadata s)) = Some (t, 0)"
    using created_metadata(7,8) [OF assms(2)] assms(1) unfolding cache_laws_def by blast
  have "valid_snapshot_id (sm_snapshot_id (as_metadata s))"
    using s(3) by (simp add: s(2) valid_snapshot_id_def strip_prefix_def is_some_and_def valid_hash_hex)
  then show ?thesis
    using service_hashes_total [OF assms(1), of s] assms(3) created_metadata(5,6) [OF assms(2)]
    by (auto simp: state_document_validate_def state_document_new_def s parse_utc_def)
qed

lemma state_document_fields [simp]:
  "sd_metadata (state_document_new s h) = as_metadata s"
  "sd_source_region (state_document_new s h) = as_source_region s"
  "sd_ec2_content_sha256 (state_document_new s h) = ch_ec2 h"
  "sd_rds_content_sha256 (state_document_new s h) = ch_rds h"
  "sd_ebs_content_sha256 (state_document_new s h) = ch_ebs h"
  by (simp_all add: state_document_new_def)

lemma scope_of_state:
  "scope_of s d \<Longrightarrow> component_matches_scope d (state_document_new s h)"
  "state_document_new s h = state \<Longrightarrow> component_matches_scope d state \<Longrightarrow> scope_of s d"
  by (auto simp: scope_of_def component_matches_scope_def state_document_new_def)

lemma content_of_new:
  "ec2_document_new C s h = Ok e \<Longrightarrow> cp_content_sha256 e = h"
  "rds_document_new C s h = Ok r \<Longrightarrow> cp_content_sha256 r = h"
  "ebs_document_new C s h = Ok b \<Longrightarrow> cp_content_sha256 b = h"
  by (auto simp: ec2_document_new_def rds_document_new_def ebs_document_new_def obind_Ok_iff
      component_document_new_def)

text \<open>The documents written for a created snapshot load back to it.\<close>

lemma written_documents_load:
  assumes laws: "cache_laws C" and created: "aws_create (cx_snapshot C) m region a b c = Ok s"
    and new: "aws_documents_new C s = Ok ds"
  shows "aws_into_snapshot C (pds_state ds) (pds_ec2 ds) (pds_rds ds) (pds_ebs ds) = Ok s"
proof -
  obtain h where h: "aws_service_content_hashes_of (cx_snapshot C) s = Ok h" "pds_state ds = state_document_new s h"
      "ec2_document_new C s (ch_ec2 h) = Ok (pds_ec2 ds)" "rds_document_new C s (ch_rds h) = Ok (pds_rds ds)"
      "ebs_document_new C s (ch_ebs h) = Ok (pds_ebs ds)"
    using new documents_new_Ok [OF laws created] by blast
  have hashes: "aws_ec2_content_hash (cx_snapshot C) (sm_currency (as_metadata s)) (as_source_region s)
        (sm_parser_schema_version (as_metadata s)) (as_ec2_rates s) = Ok (ch_ec2 h)"
      "aws_rds_content_hash (cx_snapshot C) (sm_currency (as_metadata s)) (as_source_region s)
        (sm_parser_schema_version (as_metadata s)) (as_rds_rates s) = Ok (ch_rds h)"
      "aws_ebs_content_hash (cx_snapshot C) (sm_currency (as_metadata s)) (as_source_region s)
        (sm_parser_schema_version (as_metadata s)) (as_ebs_rates s) = Ok (ch_ebs h)"
    using h(1) by (auto simp: aws_service_content_hashes_of_def Let_def obind_Ok_iff)
  note valid = h(3) [unfolded ec2_document_iff [OF laws created hashes(1)]]
    h(4) [unfolded rds_document_iff [OF laws created hashes(2)]]
    h(5) [unfolded ebs_document_iff [OF laws created hashes(3)]]
  have "cx_metadata_value C (as_metadata s) \<noteq> None" using laws unfolding cache_laws_def by blast
  then show ?thesis
    using valid state_document_valid [OF laws created h(1)] aws_create_again [OF created]
      content_of_new(1) [OF h(3)] content_of_new(2) [OF h(4)] content_of_new(3) [OF h(5)]
    by (auto simp: aws_into_snapshot_def h(2) scope_of_state(1))
qed

text \<open>Documents that load are those written for the loaded snapshot.\<close>

lemma into_snapshot_OkE:
  assumes "cache_laws C" "aws_into_snapshot C st e r b = Ok s"
  obtains "state_document_validate C st = Ok ()" "ec2_document_validate C e = Ok ()"
    "rds_document_validate C r = Ok ()" "ebs_document_validate C b = Ok ()"
    "cp_content_sha256 e = sd_ec2_content_sha256 st" "cp_content_sha256 r = sd_rds_content_sha256 st"
    "cp_content_sha256 b = sd_ebs_content_sha256 st" "component_matches_scope e st"
    "component_matches_scope r st" "component_matches_scope b st"
    "aws_create (cx_snapshot C) (creation_metadata (sd_metadata st)) (sd_source_region st) (cp_rate_records e)
       (cp_rate_records r) (cp_rate_records b) = Ok s"
    "as_metadata s = sd_metadata st"
proof -
  have "faithful (cx_metadata_value C)" using assms(1) by (simp add: cache_laws_def)
  note same = faithfulD [OF this]
  show thesis
    using assms(2) unfolding aws_into_snapshot_def
    by (intro that) (auto simp: obind_Ok_iff map_err_iff split: if_splits intro: same)
qed

lemma state_document_determined:
  assumes "state_document_validate C st = Ok ()"
  shows "st = \<lparr>sd_id = aws_state_document_id (sm_currency (sd_metadata st)) (sd_source_region st),
      sd_document_type = AWS_STATE_DOCUMENT_TYPE, sd_cache_partition = PRICING_CACHE_PARTITION, sd_provider = Aws,
      sd_currency = sm_currency (sd_metadata st), sd_source_region = sd_source_region st,
      sd_snapshot_id = sm_snapshot_id (sd_metadata st), sd_metadata = sd_metadata st,
      sd_ec2_content_sha256 = sd_ec2_content_sha256 st, sd_rds_content_sha256 = sd_rds_content_sha256 st,
      sd_ebs_content_sha256 = sd_ebs_content_sha256 st, sd_ttl = PERSISTENT_DOCUMENT_TTL\<rparr>"
  using assms by (cases st) (simp add: state_document_validate_def split: if_splits)

lemma valid_documents_new:
  assumes laws: "cache_laws C" and created: "aws_create (cx_snapshot C) m region a b c = Ok s"
    and valid: "ec2_document_validate C e = Ok ()" "rds_document_validate C r = Ok ()" "ebs_document_validate C d = Ok ()"
    and scope: "scope_of s e" "scope_of s r" "scope_of s d"
    and rates: "as_ec2_rates s = cp_rate_records e" "as_rds_rates s = cp_rate_records r"
      "as_ebs_rates s = cp_rate_records d"
  obtains h where "aws_service_content_hashes_of (cx_snapshot C) s = Ok h"
    "aws_documents_new C s = Ok \<lparr>pds_state = state_document_new s h, pds_ec2 = e, pds_rds = r, pds_ebs = d\<rparr>"
    "cp_content_sha256 e = ch_ec2 h" "cp_content_sha256 r = ch_rds h" "cp_content_sha256 d = ch_ebs h"
proof -
  obtain h where h: "aws_service_content_hashes_of (cx_snapshot C) s = Ok h"
      "aws_ec2_content_hash (cx_snapshot C) (sm_currency (as_metadata s)) (as_source_region s)
        (sm_parser_schema_version (as_metadata s)) (as_ec2_rates s) = Ok (ch_ec2 h)"
      "aws_rds_content_hash (cx_snapshot C) (sm_currency (as_metadata s)) (as_source_region s)
        (sm_parser_schema_version (as_metadata s)) (as_rds_rates s) = Ok (ch_rds h)"
      "aws_ebs_content_hash (cx_snapshot C) (sm_currency (as_metadata s)) (as_source_region s)
        (sm_parser_schema_version (as_metadata s)) (as_ebs_rates s) = Ok (ch_ebs h)"
    by (rule service_hashes_total [OF laws])
  have new: "ec2_document_new C s (ch_ec2 h) = Ok e" "rds_document_new C s (ch_rds h) = Ok r"
      "ebs_document_new C s (ch_ebs h) = Ok d"
    unfolding ec2_document_iff [OF laws created h(2)] rds_document_iff [OF laws created h(3)]
      ebs_document_iff [OF laws created h(4)]
    by (simp_all add: valid scope rates)
  show thesis
    by (rule that [OF h(1) _ content_of_new(1) [OF new(1)] content_of_new(2) [OF new(2)] content_of_new(3) [OF new(3)]])
       (simp add: aws_documents_new_def h(1) new)
qed

lemma loaded_documents_written:
  assumes laws: "cache_laws C" and loaded: "aws_into_snapshot C st e r d = Ok s"
  shows "created_aws (cx_snapshot C) s"
    and "aws_documents_new C s = Ok \<lparr>pds_state = st, pds_ec2 = e, pds_rds = r, pds_ebs = d\<rparr>"
proof -
  from laws loaded show "created_aws (cx_snapshot C) s"
    unfolding created_aws_def by (rule into_snapshot_OkE) blast
  from laws loaded show "aws_documents_new C s = Ok \<lparr>pds_state = st, pds_ec2 = e, pds_rds = r, pds_ebs = d\<rparr>"
  proof (rule into_snapshot_OkE)
    assume valid: "state_document_validate C st = Ok ()" "ec2_document_validate C e = Ok ()"
        "rds_document_validate C r = Ok ()" "ebs_document_validate C d = Ok ()"
      and content: "cp_content_sha256 e = sd_ec2_content_sha256 st" "cp_content_sha256 r = sd_rds_content_sha256 st"
        "cp_content_sha256 d = sd_ebs_content_sha256 st"
      and scope: "component_matches_scope e st" "component_matches_scope r st" "component_matches_scope d st"
      and created: "aws_create (cx_snapshot C) (creation_metadata (sd_metadata st)) (sd_source_region st)
        (cp_rate_records e) (cp_rate_records r) (cp_rate_records d) = Ok s"
      and metadata: "as_metadata s = sd_metadata st"
    have region: "as_source_region s = sd_source_region st" using created by (rule aws_create_OkE)
    note st = state_document_determined [OF valid(1)]
    have currency: "sd_currency st = sm_currency (sd_metadata st)" by (subst st) simp
    have "scope_of s e" "scope_of s r" "scope_of s d"
      using scope by (simp_all add: scope_of_def component_matches_scope_def metadata region currency)
    from valid_documents_new [OF laws created valid(2-4) this created_from_valid [OF laws valid(2-4) created]]
    obtain h where h: "aws_documents_new C s =
          Ok \<lparr>pds_state = state_document_new s h, pds_ec2 = e, pds_rds = r, pds_ebs = d\<rparr>"
        "cp_content_sha256 e = ch_ec2 h" "cp_content_sha256 r = ch_rds h" "cp_content_sha256 d = ch_ebs h" .
    have "state_document_new s h = st"
      using content h(2-4) by (subst st) (simp add: state_document_new_def metadata region)
    then show ?thesis by (simp add: h(1))
  qed
qed

text \<open>A refresh that finds its own documents publishes its own state.\<close>

lemma own_components_publish:
  assumes "cache_laws C" "aws_create (cx_snapshot C) m region a b c = Ok s" "aws_documents_new C s = Ok ds"
  shows "state_for_components C s (pds_ec2 ds) (pds_rds ds) (pds_ebs ds) = Ok (pds_state ds, s)"
  using assms(1) written_documents_load [OF assms]
proof (rule into_snapshot_OkE)
  assume valid: "ec2_document_validate C (pds_ec2 ds) = Ok ()" "rds_document_validate C (pds_rds ds) = Ok ()"
    "ebs_document_validate C (pds_ebs ds) = Ok ()"
  have "scope_of s (pds_ec2 ds) \<and> scope_of s (pds_rds ds) \<and> scope_of s (pds_ebs ds) \<and>
      cp_rate_records (pds_ec2 ds) = as_ec2_rates s \<and> cp_rate_records (pds_rds ds) = as_rds_rates s \<and>
      cp_rate_records (pds_ebs ds) = as_ebs_rates s"
    using assms(3)
    by (auto simp: aws_documents_new_def obind_Ok_iff map_err_iff ec2_document_new_def rds_document_new_def
        ebs_document_new_def component_document_new_def scope_of_def)
  then show ?thesis
    using aws_create_again [OF assms(2)] by (simp add: state_for_components_def valid scope_of_def assms(3))
qed

section \<open>Properties\<close>

text \<open>
  C10: a created snapshot of AWS prices is stored as four documents, and four documents load exactly if
  they are the ones written for a created snapshot, and then to this snapshot: no field of them, no
  record and no hash can differ.
\<close>
theorem price_documents_roundtrip:
  assumes "cache_laws C"
  shows "(created_aws (cx_snapshot C) s \<longrightarrow> (\<exists>ds. aws_documents_new C s = Ok ds)) \<and>
    (aws_into_snapshot C st e r d = Ok s \<longleftrightarrow>
       created_aws (cx_snapshot C) s \<and>
       aws_documents_new C s = Ok \<lparr>pds_state = st, pds_ec2 = e, pds_rds = r, pds_ebs = d\<rparr>)"
proof (intro conjI impI iffI)
  assume "created_aws (cx_snapshot C) s"
  obtain h where h: "aws_service_content_hashes_of (cx_snapshot C) s = Ok h"
    by (rule service_hashes_total [OF assms])
  have bytes: "cx_ec2_bytes C re \<noteq> None" "cx_rds_bytes C rr \<noteq> None" "cx_ebs_bytes C rb \<noteq> None" for re rr rb
    using assms unfolding cache_laws_def by blast+
  obtain he hr hb where "hash_serialized C (cx_ec2_bytes C (as_ec2_rates s)) = Ok he"
      "hash_serialized C (cx_rds_bytes C (as_rds_rates s)) = Ok hr"
      "hash_serialized C (cx_ebs_bytes C (as_ebs_rates s)) = Ok hb"
    using hash_serialized_total bytes by metis
  then show "\<exists>ds. aws_documents_new C s = Ok ds"
    by (simp add: aws_documents_new_def h ec2_document_new_def rds_document_new_def ebs_document_new_def)
next
  assume "created_aws (cx_snapshot C) s \<and>
    aws_documents_new C s = Ok \<lparr>pds_state = st, pds_ec2 = e, pds_rds = r, pds_ebs = d\<rparr>"
  then show "aws_into_snapshot C st e r d = Ok s"
    using written_documents_load [OF assms] by (fastforce simp: created_aws_def)
qed (use loaded_documents_written [OF assms] in auto)

text \<open>
  C11: a refresh that reuses service documents another process wrote publishes a state document under
  which exactly these documents load, to the snapshot it goes on with; the scope and the retrieval are the
  incoming snapshot's and the rates the documents'.
\<close>
theorem published_components_load:
  assumes "cache_laws C" "state_for_components C incoming e r d = Ok (st, s)"
  shows "aws_into_snapshot C st e r d = Ok s \<and>
    as_source_region s = as_source_region incoming \<and> as_ec2_rates s = cp_rate_records e \<and>
    as_rds_rates s = cp_rate_records r \<and> as_ebs_rates s = cp_rate_records d \<and>
    sm_retrieved_at (as_metadata s) = sm_retrieved_at (as_metadata incoming)"
proof -
  have valid: "ec2_document_validate C e = Ok ()" "rds_document_validate C r = Ok ()" "ebs_document_validate C d = Ok ()"
    and created: "aws_create (cx_snapshot C) (creation_metadata (as_metadata incoming)) (as_source_region incoming)
      (cp_rate_records e) (cp_rate_records r) (cp_rate_records d) = Ok s"
    and state: "obind (aws_documents_new C s) (\<lambda>documents. Ok (pds_state documents, s)) = Ok (st, s)"
    and scope: "cp_currency e = sm_currency (as_metadata incoming)" "cp_currency r = sm_currency (as_metadata incoming)"
      "cp_currency d = sm_currency (as_metadata incoming)" "cp_source_region e = as_source_region incoming"
      "cp_source_region r = as_source_region incoming" "cp_source_region d = as_source_region incoming"
      "cp_parser_schema_version e = sm_parser_schema_version (as_metadata incoming)"
      "cp_parser_schema_version r = sm_parser_schema_version (as_metadata incoming)"
      "cp_parser_schema_version d = sm_parser_schema_version (as_metadata incoming)"
    using assms(2) by (auto simp: state_for_components_def obind_Ok_iff map_err_iff split: if_splits)
  note rates = created_from_valid [OF assms(1) valid created]
  have s: "as_source_region s = as_source_region incoming" "sm_currency (as_metadata s) = sm_currency (as_metadata incoming)"
      "sm_parser_schema_version (as_metadata s) = sm_parser_schema_version (as_metadata incoming)"
      "sm_retrieved_at (as_metadata s) = sm_retrieved_at (as_metadata incoming)"
    using created
    by (auto elim!: aws_create_OkE simp: snapshot_metadata_of_def normalize_creation_metadata_def creation_metadata_def
        Let_def)
  have "scope_of s e" "scope_of s r" "scope_of s d" using scope by (simp_all add: scope_of_def s)
  from valid_documents_new [OF assms(1) created valid this rates]
  obtain h where h: "aws_documents_new C s =
      Ok \<lparr>pds_state = state_document_new s h, pds_ec2 = e, pds_rds = r, pds_ebs = d\<rparr>" .
  then have "st = state_document_new s h" using state by simp
  then show ?thesis
    using written_documents_load [OF assms(1) created h] rates s by simp
qed

section \<open>A concrete environment\<close>

text \<open>An injective JSON form of the rate records and the metadata.\<close>

definition json_nat :: "nat \<Rightarrow> json" where
  "json_nat n = JNumber (show_nat n)"

definition json_rat :: "rat \<Rightarrow> json" where
  "json_rat r = JArray [JBool (r < 0), json_nat (nat (abs (fst (quotient_of r)))), json_nat (nat (snd (quotient_of r)))]"

fun json_option :: "('a \<Rightarrow> json) \<Rightarrow> 'a option \<Rightarrow> json" where
  "json_option f None = JNull"
| "json_option f (Some x) = JArray [f x]"

definition json_strings :: "string list \<Rightarrow> json" where
  "json_strings xs = JArray (map JString xs)"

lemma json_nat_inject [simp]: "json_nat m = json_nat n \<longleftrightarrow> m = n"
  by (simp add: json_nat_def)

lemma json_rat_inject [simp]: "json_rat a = json_rat b \<longleftrightarrow> a = b"
proof
  assume eq: "json_rat a = json_rat b"
  obtain p q where a: "quotient_of a = (p, q)" by fastforce
  obtain p' q' where b: "quotient_of b = (p', q')" by fastforce
  have pos: "q > 0" "q' > 0" using quotient_of_denom_pos [OF a] quotient_of_denom_pos [OF b] by simp_all
  have "a < 0 \<longleftrightarrow> p < 0" "b < 0 \<longleftrightarrow> p' < 0"
    using pos by (simp_all add: quotient_of_div [OF a] quotient_of_div [OF b] divide_less_0_iff)
  then have "p = p'" "q = q'" using eq pos by (auto simp: json_rat_def a b abs_if split: if_splits)
  then show "a = b" using quotient_of_div [OF a] quotient_of_div [OF b] by simp
qed simp

lemma json_option_inject:
  "(\<And>x y. f x = f y \<longleftrightarrow> x = y) \<Longrightarrow> json_option f a = json_option f b \<longleftrightarrow> a = b"
  by (cases a; cases b) simp_all

lemma json_strings_inject [simp]: "json_strings xs = json_strings ys \<longleftrightarrow> xs = ys"
  by (simp add: json_strings_def inj_map_eq_map inj_def)

lemma json_options_inject [simp]:
  "json_option JString s = json_option JString s' \<longleftrightarrow> s = s'" "json_option json_rat r = json_option json_rat r' \<longleftrightarrow> r = r'"
  "json_option (\<lambda>w :: u64. json_nat (unat w)) w = json_option (\<lambda>w. json_nat (unat w)) w' \<longleftrightarrow> w = w'"
  by (simp_all add: json_option_inject word_unat_eq_iff)

definition json_provenance :: "rate_provenance \<Rightarrow> json" where
  "json_provenance p =
     JArray [JString (rp_source_url p), json_option JString (rp_effective_at p),
       json_option JString (rp_source_version p), json_strings (rp_meter_ids p)]"

definition json_ec2_record :: "aws_ec2_rate_record \<Rightarrow> json" where
  "json_ec2_record r =
     JArray [JString (ae_stable_key r), JString (ae_instance_type r), json_nat (unat (er_source_vcpu (ae_rate r))),
       json_rat (er_catalog_memory_gb (ae_rate r)), json_rat (er_compute_hourly (ae_rate r)),
       json_option json_rat (er_standard_license_hourly (ae_rate r)),
       json_option json_rat (er_enterprise_license_hourly (ae_rate r)), json_provenance (ae_provenance r)]"

definition json_rds_record :: "aws_rds_rate_record \<Rightarrow> json" where
  "json_rds_record r =
     JArray [JString (ad_stable_key r), JString (ad_instance_type r), JBool (ad_deployment r = MultiAz),
       JString (ad_commercial_term r), JString (ad_storage_class r), json_nat (unat (rr_source_vcpu (ad_rate r))),
       json_rat (rr_catalog_memory_gb (ad_rate r)), json_rat (rr_effective_compute_hourly (ad_rate r)),
       json_rat (rr_storage_monthly_per_gb (ad_rate r)), json_rat (rr_standard_license_core_hourly (ad_rate r)),
       json_rat (rr_enterprise_license_core_hourly (ad_rate r)), json_provenance (ad_provenance r)]"

definition json_tier :: "iops_price_tier \<Rightarrow> json" where
  "json_tier t = JArray [json_option (\<lambda>w. json_nat (unat w)) (it_up_to_inclusive t), json_rat (it_monthly_per_iops t)]"

definition json_volume_type :: "ebs_volume_type \<Rightarrow> json" where
  "json_volume_type v = JArray [JBool (v = Gp3), JBool (v = Io2)]"

definition json_ebs_record :: "aws_ebs_rate_record \<Rightarrow> json" where
  "json_ebs_record r =
     JArray [JString (ab_stable_key r), json_volume_type (eb_volume_type (ab_rate r)),
       json_rat (eb_capacity_monthly_per_gb (ab_rate r)), json_nat (unat (eb_included_iops (ab_rate r))),
       json_option json_rat (eb_iops_monthly_per_unit (ab_rate r)), JArray (map json_tier (eb_iops_tiers (ab_rate r))),
       json_rat (eb_included_throughput_mibps (ab_rate r)),
       json_option json_rat (eb_throughput_monthly_per_mibps (ab_rate r)), json_provenance (ab_provenance r)]"

definition json_status :: "resolution_status \<Rightarrow> json" where
  "json_status s = JArray [JBool (s = Fresh), JBool (s = Cached), JBool (s = Stale)]"

definition json_metadata :: "snapshot_metadata \<Rightarrow> json" where
  "json_metadata m =
     JArray [JString (sm_snapshot_id m), JBool (sm_provider m = Aws), json_status (sm_status m),
       JString (sm_retrieved_at m), json_option JString (sm_source_published_at m), JString (sm_currency m),
       json_strings (sm_source_urls m), JString (sm_parser_schema_version m), JString (sm_content_sha256 m),
       json_strings (sm_warnings m)]"

lemma json_provenance_inject [simp]: "json_provenance a = json_provenance b \<longleftrightarrow> a = b"
  by (cases a; cases b) (simp add: json_provenance_def)

lemma json_ec2_inject: "json_ec2_record a = json_ec2_record b \<Longrightarrow> a = b"
  by (cases a; cases b; cases "ae_rate a"; cases "ae_rate b") (simp add: json_ec2_record_def word_unat_eq_iff)

lemma json_rds_inject: "json_rds_record a = json_rds_record b \<Longrightarrow> a = b"
  by (cases a; cases b; cases "ad_rate a"; cases "ad_rate b"; cases "ad_deployment a"; cases "ad_deployment b")
     (simp_all add: json_rds_record_def word_unat_eq_iff)

lemma json_tier_inject: "json_tier a = json_tier b \<Longrightarrow> a = b"
  by (cases a; cases b) (simp add: json_tier_def)

lemma json_volume_type_inject [simp]: "json_volume_type a = json_volume_type b \<longleftrightarrow> a = b"
  by (cases a; cases b) (simp_all add: json_volume_type_def)

lemma json_ebs_inject: "json_ebs_record a = json_ebs_record b \<Longrightarrow> a = b"
  by (cases a; cases b; cases "ab_rate a"; cases "ab_rate b")
     (simp add: json_ebs_record_def word_unat_eq_iff inj_map_eq_map [OF injI [OF json_tier_inject]])

lemma json_status_inject [simp]: "json_status a = json_status b \<longleftrightarrow> a = b"
  by (cases a; cases b) (simp_all add: json_status_def)

lemma json_metadata_inject: "json_metadata a = json_metadata b \<Longrightarrow> a = b"
  by (cases a; cases b; cases "sm_provider a"; cases "sm_provider b") (simp_all add: json_metadata_def)

definition example_cache_env :: cache_env where
  "example_cache_env =
     \<lparr>cx_snapshot = example_snapshot_env\<lparr>sx_parse_time := \<lambda>_. Some (0, 0),
        sx_sha256 := \<lambda>bytes. take 32 (bytes @ replicate 32 0), sx_aws_json := \<lambda>_. Some [],
        sx_ec2_json := \<lambda>_. Some [], sx_rds_json := \<lambda>_. Some [], sx_ebs_json := \<lambda>_. Some []\<rparr>,
      cx_ec2_bytes = \<lambda>_. Some [], cx_rds_bytes = \<lambda>_. Some [], cx_ebs_bytes = \<lambda>_. Some [],
      cx_ec2_value = \<lambda>rs. Some (JArray (map json_ec2_record rs)),
      cx_rds_value = \<lambda>rs. Some (JArray (map json_rds_record rs)),
      cx_ebs_value = \<lambda>rs. Some (JArray (map json_ebs_record rs)),
      cx_metadata_value = \<lambda>m. Some (json_metadata m)\<rparr>"

lemma example_cache_laws: "cache_laws example_cache_env"
  by (auto simp: cache_laws_def example_cache_env_def faithful_def min_def dest: json_metadata_inject
      intro: map_injective [OF _ injI [OF json_ec2_inject]] map_injective [OF _ injI [OF json_rds_inject]]
        map_injective [OF _ injI [OF json_ebs_inject]])

definition example_ec2_record :: aws_ec2_rate_record where
  "example_ec2_record =
     \<lparr>ae_stable_key = ''k'', ae_instance_type = ''m5.large'',
      ae_rate = \<lparr>er_source_vcpu = 2, er_catalog_memory_gb = 8, er_compute_hourly = 1,
        er_standard_license_hourly = None, er_enterprise_license_hourly = None\<rparr>,
      ae_provenance = example_provenance\<rparr>"

lemma example_cache_created:
  "\<exists>s. aws_create (cx_snapshot example_cache_env) example_creation ''eu'' [example_ec2_record] [] [] = Ok s"
  unfolding aws_create_def Let_def
  by (simp add: by_key_def validate_creation_metadata_def example_cache_env_def example_creation_def
      validate_unique_keys_def validate_rate_provenance_def validate_aws_rates_def is_some_and_def hash_canonical_def
      example_ec2_record_def normalize_ec2_def normalize_provenance_def sort_dedup_def example_provenance_def)

lemma price_documents_roundtrip_witness:
  "\<exists>s ds. as_source_region s = ''eu'' \<and> aws_documents_new example_cache_env s = Ok ds \<and>
     aws_into_snapshot example_cache_env (pds_state ds) (pds_ec2 ds) (pds_rds ds) (pds_ebs ds) = Ok s"
proof -
  obtain s where s: "aws_create (cx_snapshot example_cache_env) example_creation ''eu'' [example_ec2_record] [] [] = Ok s"
    using example_cache_created by blast
  then have region: "as_source_region s = ''eu''" by (rule aws_create_OkE)
  have created: "created_aws (cx_snapshot example_cache_env) s" using s unfolding created_aws_def by blast
  then obtain ds where ds: "aws_documents_new example_cache_env s = Ok ds"
    using price_documents_roundtrip [OF example_cache_laws] by blast
  then have "aws_into_snapshot example_cache_env (pds_state ds) (pds_ec2 ds) (pds_rds ds) (pds_ebs ds) = Ok s"
    using price_documents_roundtrip [OF example_cache_laws, of s "pds_state ds" "pds_ec2 ds" "pds_rds ds" "pds_ebs ds"]
      created by simp
  then show ?thesis using region ds by blast
qed

lemma published_components_load_witness:
  "\<exists>s st e r d. state_for_components example_cache_env s e r d = Ok (st, s) \<and>
     aws_into_snapshot example_cache_env st e r d = Ok s"
proof -
  obtain s where s: "aws_create (cx_snapshot example_cache_env) example_creation ''eu'' [example_ec2_record] [] [] = Ok s"
    using example_cache_created by blast
  obtain h where h: "aws_service_content_hashes_of (cx_snapshot example_cache_env) s = Ok h"
    by (rule service_hashes_total [OF example_cache_laws])
  then obtain ds where ds: "aws_documents_new example_cache_env s = Ok ds"
    by (simp add: aws_documents_new_def ec2_document_new_def rds_document_new_def ebs_document_new_def
        hash_serialized_def example_cache_env_def)
  have "state_for_components example_cache_env s (pds_ec2 ds) (pds_rds ds) (pds_ebs ds) = Ok (pds_state ds, s)"
    by (rule own_components_publish [OF example_cache_laws s ds])
  with published_components_load [OF example_cache_laws this] show ?thesis by blast
qed

end
