(* ===== verification/RefreshLease.thy ===== *)
theory RefreshLease
  imports PriceDocuments SnapshotCache
begin

text \<open>
  The refresh lease: the documents of \<open>rust/src/persistence/pricing_cache.rs\<close>, the decisions of
  \<open>rust/src/pricing/repository.rs\<close> and the operations of \<open>CosmosSnapshotRepository\<close> in
  \<open>rust/src/persistence/cosmos.rs\<close> that claim and publish a lease. An asynchronous function is the tree of
  what it does next at each \<open>await\<close>: it ends, reads the clock or calls the container, and continues with the
  answer. The container itself is not part of the source; \<open>LeaseSystem\<close> says what is assumed of it.
\<close>

section \<open>Documents\<close>

definition REFRESH_LEASE_DOCUMENT_TYPE :: string where
  "REFRESH_LEASE_DOCUMENT_TYPE = ''pricing_refresh_lease''"

definition REFRESH_LEASE_TTL_SECONDS :: int where
  "REFRESH_LEASE_TTL_SECONDS = 150"

definition REFRESH_LEASE_ID_PREFIX :: string where
  "REFRESH_LEASE_ID_PREFIX = ''refresh-lease-''"

datatype provider_error = PriceNotFound | ScopeUnsupported | TemporarilyUnavailable | SchemaChanged

datatype refresh_lease_status = InProgress | LeaseSucceeded string | LeaseFailed provider_error

datatype refresh_lease_decision = Acquired | Pending | LeaseDone string | LeaseError provider_error

datatype refresh_lease_outcome = OutcomeSucceeded string | OutcomeFailed provider_error

record refresh_lease_document =
  rl_id :: string
  rl_document_type :: string
  rl_cache_partition :: string
  rl_cache_key_sha256 :: string
  rl_owner_token :: string
  rl_leased_at :: string
  rl_expires_at :: string
  rl_completed_at :: "string option"
  rl_status :: refresh_lease_status
  rl_ttl :: int

text \<open>
  From \<open>time\<close> and \<open>uuid\<close>: the RFC 3339 parser with the offset of the parsed time, and parsing a UUID and
  writing it again in canonical form.
\<close>

record lease_env =
  lx_time :: time_env
  lx_parse :: "string \<Rightarrow> (instant \<times> int) option"
  lx_uuid :: "string \<Rightarrow> string option"

definition lease_laws :: "lease_env \<Rightarrow> bool" where
  "lease_laws L \<longleftrightarrow>
     (\<forall>t d r. te_checked_add (lx_time L) t d = Some r \<longrightarrow> r = t + d) \<and>
     (\<forall>t text. te_format (lx_time L) t = Some text \<longrightarrow> lx_parse L text = Some (t, 0))"

definition cache_format_timestamp :: "lease_env \<Rightarrow> instant \<Rightarrow> string doc_result" where
  "cache_format_timestamp L t = ok_or (te_format (lx_time L) t) EnvelopeMismatch"

definition canonical_uuid :: "lease_env \<Rightarrow> string \<Rightarrow> bool" where
  "canonical_uuid L token \<longleftrightarrow> is_some_and (\<lambda>text. text = token) (lx_uuid L token)"

definition completed_within :: "lease_env \<Rightarrow> instant \<Rightarrow> instant \<Rightarrow> string \<Rightarrow> bool doc_result" where
  "completed_within L leased_at expires_at completed_at =
     obind (parse_utc (lx_parse L) completed_at) (\<lambda>t. Ok (leased_at \<le> t \<and> t \<le> expires_at))"

definition lease_validate :: "lease_env \<Rightarrow> refresh_lease_document \<Rightarrow> unit doc_result" where
  "lease_validate L d =
     obind (parse_utc (lx_parse L) (rl_leased_at d)) (\<lambda>leased_at.
     obind (parse_utc (lx_parse L) (rl_expires_at d)) (\<lambda>expires_at.
     if \<not> valid_hash (rl_cache_key_sha256 d) \<or>
        rl_id d \<noteq> REFRESH_LEASE_ID_PREFIX @ rl_cache_key_sha256 d \<or>
        rl_document_type d \<noteq> REFRESH_LEASE_DOCUMENT_TYPE \<or>
        rl_cache_partition d \<noteq> PRICING_CACHE_PARTITION \<or>
        \<not> canonical_uuid L (rl_owner_token d) \<or>
        expires_at - leased_at \<noteq> duration_seconds REFRESH_LEASE_TTL_SECONDS \<or>
        rl_ttl d \<noteq> REFRESH_LEASE_TTL_SECONDS
     then Err EnvelopeMismatch
     else case (rl_status d, rl_completed_at d) of
         (InProgress, None) \<Rightarrow> Ok ()
       | (LeaseSucceeded snapshot_id, Some completed_at) \<Rightarrow>
           if valid_snapshot_id snapshot_id
           then obind (completed_within L leased_at expires_at completed_at) (\<lambda>in_time.
                if in_time then Ok () else Err EnvelopeMismatch)
           else Err EnvelopeMismatch
       | (LeaseFailed _, Some completed_at) \<Rightarrow>
           obind (completed_within L leased_at expires_at completed_at) (\<lambda>in_time.
           if in_time then Ok () else Err EnvelopeMismatch)
       | _ \<Rightarrow> Err EnvelopeMismatch))"

definition lease_new :: "lease_env \<Rightarrow> string \<Rightarrow> string \<Rightarrow> instant \<Rightarrow> refresh_lease_document doc_result" where
  "lease_new L cache_key_sha256 owner_token now =
     obind (or_panic (te_checked_add (lx_time L) now (duration_seconds REFRESH_LEASE_TTL_SECONDS))) (\<lambda>expires_at.
     obind (cache_format_timestamp L now) (\<lambda>leased_text.
     obind (cache_format_timestamp L expires_at) (\<lambda>expires_text.
     let document =
       \<lparr>rl_id = REFRESH_LEASE_ID_PREFIX @ cache_key_sha256, rl_document_type = REFRESH_LEASE_DOCUMENT_TYPE,
        rl_cache_partition = PRICING_CACHE_PARTITION, rl_cache_key_sha256 = cache_key_sha256,
        rl_owner_token = owner_token, rl_leased_at = leased_text, rl_expires_at = expires_text,
        rl_completed_at = None, rl_status = InProgress, rl_ttl = REFRESH_LEASE_TTL_SECONDS\<rparr>
     in obind (lease_validate L document) (\<lambda>_. Ok document))))"

definition completed_for :: "lease_env \<Rightarrow> refresh_lease_document \<Rightarrow> instant \<Rightarrow> bool doc_result" where
  "completed_for L d request_started_at =
     (case rl_completed_at d of
        None \<Rightarrow> Ok False
      | Some completed_at \<Rightarrow>
          obind (parse_utc (lx_parse L) completed_at) (\<lambda>t. Ok (request_started_at \<le> t)))"

definition lease_decision ::
  "lease_env \<Rightarrow> refresh_lease_document \<Rightarrow> instant \<Rightarrow> instant \<Rightarrow> refresh_lease_decision option doc_result" where
  "lease_decision L d request_started_at now =
     obind (lease_validate L d) (\<lambda>_.
     case rl_status d of
       InProgress \<Rightarrow>
         obind (parse_utc (lx_parse L) (rl_expires_at d)) (\<lambda>expires_at.
         if expires_at \<le> now then Ok None else Ok (Some Pending))
     | LeaseSucceeded snapshot_id \<Rightarrow>
         obind (completed_for L d request_started_at) (\<lambda>completed.
         if completed then Ok (Some (LeaseDone snapshot_id)) else Ok None)
     | LeaseFailed error \<Rightarrow>
         obind (completed_for L d request_started_at) (\<lambda>completed.
         if completed then Ok (Some (LeaseError error)) else Ok None))"

definition lease_complete ::
  "lease_env \<Rightarrow> refresh_lease_document \<Rightarrow> string \<Rightarrow> refresh_lease_outcome \<Rightarrow> instant \<Rightarrow>
     refresh_lease_document doc_result" where
  "lease_complete L d owner_token outcome now =
     obind (lease_validate L d) (\<lambda>_.
     if rl_owner_token d \<noteq> owner_token \<or> rl_status d \<noteq> InProgress then Err EnvelopeMismatch
     else obind (parse_utc (lx_parse L) (rl_expires_at d)) (\<lambda>expires_at.
       if expires_at \<le> now then Err EnvelopeMismatch
       else obind (cache_format_timestamp L now) (\<lambda>completed_text.
         obind (case outcome of
                  OutcomeSucceeded snapshot_id \<Rightarrow>
                    if valid_snapshot_id snapshot_id then Ok (LeaseSucceeded snapshot_id) else Err EnvelopeMismatch
                | OutcomeFailed error \<Rightarrow> Ok (LeaseFailed error)) (\<lambda>status.
         let completed = d\<lparr>rl_completed_at := Some completed_text, rl_status := status\<rparr>
         in obind (lease_validate L completed) (\<lambda>_. Ok completed)))))"

definition matches_outcome ::
  "lease_env \<Rightarrow> refresh_lease_document \<Rightarrow> string \<Rightarrow> refresh_lease_outcome \<Rightarrow> bool doc_result" where
  "matches_outcome L d owner_token outcome =
     obind (lease_validate L d) (\<lambda>_.
     Ok (rl_owner_token d = owner_token \<and>
         (case (rl_status d, outcome) of
            (LeaseSucceeded stored, OutcomeSucceeded expected) \<Rightarrow> stored = expected
          | (LeaseFailed stored, OutcomeFailed expected) \<Rightarrow> stored = expected
          | _ \<Rightarrow> False)))"

section \<open>Asynchronous operations\<close>

definition CONDITIONAL_WRITE_ATTEMPTS :: nat where
  "CONDITIONAL_WRITE_ATTEMPTS = 5"

text \<open>
  An error of the client is its status code. A read answers with the \<open>ETag\<close> header, where there is one, and
  the body, which may fail to parse.
\<close>

type_synonym 'd item_answer = "(u16, string option \<times> (u16, 'd) outcome) outcome"

datatype ('d, 'a) item_io =
  Done 'a
| Now "instant \<Rightarrow> ('d, 'a) item_io"
| CreateItem 'd "(u16, unit) outcome \<Rightarrow> ('d, 'a) item_io"
| ReadItem string "'d item_answer \<Rightarrow> ('d, 'a) item_io"
| ReplaceItem string 'd string "(u16, unit) outcome \<Rightarrow> ('d, 'a) item_io"

type_synonym 'a lease_io = "(refresh_lease_document, 'a) item_io"

type_synonym 'a snapshot_result = "(snapshot_repository_error, 'a) outcome"

definition map_snapshot_cosmos_error :: "u16 \<Rightarrow> snapshot_repository_error" where
  "map_snapshot_cosmos_error status = (if status = 413 then PayloadTooLarge else RepositoryUnavailable)"

definition map_cache_document_error :: "pricing_cache_document_error \<Rightarrow> snapshot_repository_error" where
  "map_cache_document_error error = InvalidData"

text \<open>\<open>?\<close> on a result that is at hand, and on the answer of a call.\<close>

fun io_try ::
  "('e, 'a) outcome \<Rightarrow> ('a \<Rightarrow> ('d, ('e, 'b) outcome) item_io) \<Rightarrow> ('d, ('e, 'b) outcome) item_io" where
  "io_try (Ok x) f = f x"
| "io_try (Err e) f = Done (Err e)"
| "io_try Panic f = Done Panic"

definition answered_lease ::
  "lease_env \<Rightarrow> ((refresh_lease_document \<times> string) option \<Rightarrow> 'b snapshot_result lease_io) \<Rightarrow> refresh_lease_document item_answer \<Rightarrow>
     'b snapshot_result lease_io" where
  "answered_lease L continue answer =
     (case answer of
        Ok (header, body) \<Rightarrow>
          io_try (ok_or (case header of Some etag \<Rightarrow> if etag = [] then None else Some etag | None \<Rightarrow> None) InvalidData)
            (\<lambda>etag.
             io_try (map_err map_snapshot_cosmos_error body) (\<lambda>document.
             io_try (map_err map_cache_document_error (lease_validate L document)) (\<lambda>_.
             continue (Some (document, etag)))))
      | Err status \<Rightarrow>
          if status = 404 then continue None else Done (Err (map_snapshot_cosmos_error status))
      | Panic \<Rightarrow> Done Panic)"

definition read_refresh_lease ::
  "lease_env \<Rightarrow> string \<Rightarrow> ((refresh_lease_document \<times> string) option \<Rightarrow> 'b snapshot_result lease_io) \<Rightarrow>
     'b snapshot_result lease_io" where
  "read_refresh_lease L lease_id continue = ReadItem lease_id (answered_lease L continue)"

fun answered_replace ::
  "(bool \<Rightarrow> 'b snapshot_result lease_io) \<Rightarrow> (u16, unit) outcome \<Rightarrow> 'b snapshot_result lease_io" where
  "answered_replace continue (Ok _) = continue True"
| "answered_replace continue (Err status) =
     (if status = 412 \<or> status = 404 then continue False else Done (Err (map_snapshot_cosmos_error status)))"
| "answered_replace continue Panic = Done Panic"

definition replace_refresh_lease ::
  "lease_env \<Rightarrow> refresh_lease_document \<Rightarrow> string \<Rightarrow> (bool \<Rightarrow> 'b snapshot_result lease_io) \<Rightarrow>
     'b snapshot_result lease_io" where
  "replace_refresh_lease L document etag continue =
     io_try (map_err map_cache_document_error (lease_validate L document)) (\<lambda>_.
     ReplaceItem (rl_id document) document etag (answered_replace continue))"

fun claim_attempts ::
  "lease_env \<Rightarrow> string \<Rightarrow> string \<Rightarrow> instant \<Rightarrow> nat \<Rightarrow> refresh_lease_decision snapshot_result lease_io" where
  "claim_attempts L cache_key_sha256 owner_token request_started_at 0 = Done (Ok Pending)"
| "claim_attempts L cache_key_sha256 owner_token request_started_at (Suc n) =
     Now (\<lambda>now.
     io_try (map_err map_cache_document_error (lease_new L cache_key_sha256 owner_token now)) (\<lambda>candidate.
     CreateItem candidate (\<lambda>answer.
       case answer of
         Ok _ \<Rightarrow> Done (Ok Acquired)
       | Err status \<Rightarrow>
           if status = 409
           then read_refresh_lease L (rl_id candidate) (\<lambda>found.
             case found of
               None \<Rightarrow> claim_attempts L cache_key_sha256 owner_token request_started_at n
             | Some (existing, etag) \<Rightarrow>
                 io_try (map_err map_cache_document_error (lease_decision L existing request_started_at now))
                   (\<lambda>decision.
                    case decision of
                      Some d \<Rightarrow> Done (Ok d)
                    | None \<Rightarrow>
                        replace_refresh_lease L candidate etag (\<lambda>replaced.
                        if replaced then Done (Ok Acquired)
                        else claim_attempts L cache_key_sha256 owner_token request_started_at n)))
           else Done (Err (map_snapshot_cosmos_error status))
       | Panic \<Rightarrow> Done Panic)))"

definition cosmos_parse_utc_timestamp :: "lease_env \<Rightarrow> string \<Rightarrow> instant snapshot_result" where
  "cosmos_parse_utc_timestamp L value =
     obind (ok_or (lx_parse L value) InvalidData) (\<lambda>(timestamp, offset).
     if offset \<noteq> 0 then Err InvalidData else Ok timestamp)"

definition claim_refresh_lease ::
  "lease_env \<Rightarrow> string \<Rightarrow> string \<Rightarrow> string \<Rightarrow> refresh_lease_decision snapshot_result lease_io" where
  "claim_refresh_lease L cache_key_sha256 owner_token request_started_at =
     io_try (cosmos_parse_utc_timestamp L request_started_at) (\<lambda>started_at.
     claim_attempts L cache_key_sha256 owner_token started_at CONDITIONAL_WRITE_ATTEMPTS)"

fun publish_attempts ::
  "lease_env \<Rightarrow> string \<Rightarrow> string \<Rightarrow> refresh_lease_outcome \<Rightarrow> nat \<Rightarrow> unit snapshot_result lease_io" where
  "publish_attempts L lease_id owner_token outcome 0 = Done (Err RepositoryUnavailable)"
| "publish_attempts L lease_id owner_token outcome (Suc n) =
     read_refresh_lease L lease_id (\<lambda>found.
     case found of
       None \<Rightarrow> Done (Err RepositoryUnavailable)
     | Some (existing, etag) \<Rightarrow>
         if rl_owner_token existing \<noteq> owner_token then Done (Err RepositoryUnavailable)
         else io_try (map_err map_cache_document_error (matches_outcome L existing owner_token outcome)) (\<lambda>same.
           if same then Done (Ok ())
           else Now (\<lambda>now.
             io_try (map_err (\<lambda>_. RepositoryUnavailable) (lease_complete L existing owner_token outcome now))
               (\<lambda>completed.
                replace_refresh_lease L completed etag (\<lambda>replaced.
                if replaced then Done (Ok ()) else publish_attempts L lease_id owner_token outcome n)))))"

definition publish_refresh_lease ::
  "lease_env \<Rightarrow> string \<Rightarrow> string \<Rightarrow> refresh_lease_outcome \<Rightarrow> unit snapshot_result lease_io" where
  "publish_refresh_lease L cache_key_sha256 owner_token outcome =
     publish_attempts L (''refresh-lease-'' @ cache_key_sha256) owner_token outcome CONDITIONAL_WRITE_ATTEMPTS"

end
