(* ===== verification/LeaseSystem.thy ===== *)
theory LeaseSystem
  imports RefreshLease
begin

text \<open>
  Processes that claim and publish refresh leases against one container. A process is the tree of its
  operation (\<open>RefreshLease\<close>); a step of the system answers its next call. Assumed of the container, as
  Cosmos DB documents it: a create succeeds only where there is no item, a replace with \<open>If-Match\<close> only on
  the version it names, every accepted write gets a new \<open>ETag\<close>, and an item is removed no earlier than its
  time to live after its last write. Every call may fail with any status, a write that fails may have been
  applied, and a read may return any version there has been. All processes read the same clock.
\<close>

section \<open>What the document operations guarantee\<close>

lemma lease_lawsD:
  assumes "lease_laws L"
  shows "te_checked_add (lx_time L) t d = Some r \<Longrightarrow> r = t + d"
    and "te_format (lx_time L) t = Some text \<Longrightarrow> lx_parse L text = Some (t, 0)"
  using assms by (simp_all add: lease_laws_def)

definition lease_span :: int where
  "lease_span = duration_seconds REFRESH_LEASE_TTL_SECONDS"

lemma lease_span_pos: "0 < lease_span"
  by (simp add: lease_span_def duration_seconds_def REFRESH_LEASE_TTL_SECONDS_def)

lemma lease_validE:
  assumes "lease_validate L d = Ok ()"
  obtains a where "lx_parse L (rl_leased_at d) = Some (a, 0)" "lx_parse L (rl_expires_at d) = Some (a + lease_span, 0)"
    "rl_id d = REFRESH_LEASE_ID_PREFIX @ rl_cache_key_sha256 d" "rl_ttl d = REFRESH_LEASE_TTL_SECONDS"
    "rl_status d = InProgress \<and> rl_completed_at d = None \<or>
     rl_status d \<noteq> InProgress \<and> (\<exists>text t. rl_completed_at d = Some text \<and> lx_parse L text = Some (t, 0) \<and>
       a \<le> t \<and> t \<le> a + lease_span)"
proof -
  obtain a b where ab: "lx_parse L (rl_leased_at d) = Some (a, 0)" "lx_parse L (rl_expires_at d) = Some (b, 0)"
    using assms by (auto simp: lease_validate_def obind_Ok_iff parse_utc_Ok)
  have parsed: "parse_utc (lx_parse L) (rl_leased_at d) = Ok a" "parse_utc (lx_parse L) (rl_expires_at d) = Ok b"
    using ab by (simp_all add: parse_utc_Ok)
  have "b = a + lease_span" "rl_id d = REFRESH_LEASE_ID_PREFIX @ rl_cache_key_sha256 d"
      "rl_ttl d = REFRESH_LEASE_TTL_SECONDS"
    using assms by (auto simp: lease_validate_def parsed lease_span_def split: if_splits)
  moreover have "rl_status d = InProgress \<and> rl_completed_at d = None \<or>
     rl_status d \<noteq> InProgress \<and> (\<exists>text t. rl_completed_at d = Some text \<and> lx_parse L text = Some (t, 0) \<and>
       a \<le> t \<and> t \<le> b)"
    using assms
    by (auto simp: lease_validate_def parsed completed_within_def obind_Ok_iff parse_utc_Ok
        split: if_splits refresh_lease_status.splits option.splits)
  ultimately show thesis using ab by (intro that [of a]) auto
qed

lemma lease_new_Ok:
  assumes "lease_laws L" "lease_new L key token t = Ok d"
  shows "lease_validate L d = Ok ()" "rl_owner_token d = token" "rl_status d = InProgress" "rl_completed_at d = None"
    "rl_id d = REFRESH_LEASE_ID_PREFIX @ key" "lx_parse L (rl_leased_at d) = Some (t, 0)"
    "lx_parse L (rl_expires_at d) = Some (t + lease_span, 0)"
  using assms(2) lease_lawsD [OF assms(1)]
  by (auto simp: lease_new_def obind_Ok_iff cache_format_timestamp_def Let_def lease_span_def)

lemma decision_None:
  assumes "lease_decision L d started now = Ok None"
  shows "rl_status d = InProgress \<Longrightarrow> lx_parse L (rl_expires_at d) = Some (b, 0) \<Longrightarrow> b \<le> now"
  using assms by (auto simp: lease_decision_def obind_Ok_iff parse_utc_def split: if_splits)

lemma decision_available:
  assumes valid: "lease_validate L d = Ok ()"
    and leased: "lx_parse L (rl_leased_at d) = Some (a, 0)" "a + lease_span \<le> now"
    and completed: "\<And>text t. rl_completed_at d = Some text \<Longrightarrow> lx_parse L text = Some (t, 0) \<Longrightarrow> t < started"
  shows "lease_decision L d started now = Ok None"
  using valid
proof (rule lease_validE)
  fix a' assume a': "lx_parse L (rl_leased_at d) = Some (a', 0)" "lx_parse L (rl_expires_at d) = Some (a' + lease_span, 0)"
    and cases: "rl_status d = InProgress \<and> rl_completed_at d = None \<or>
     rl_status d \<noteq> InProgress \<and> (\<exists>text t. rl_completed_at d = Some text \<and> lx_parse L text = Some (t, 0) \<and>
       a' \<le> t \<and> t \<le> a' + lease_span)"
  have "parse_utc (lx_parse L) (rl_expires_at d) = Ok (a + lease_span)" using a' leased by (simp add: parse_utc_Ok)
  moreover have "completed_for L d started = Ok False" if "rl_completed_at d = Some tx" "lx_parse L tx = Some (t, 0)"
    for tx t using completed [OF that] that by (simp add: completed_for_def obind_Ok_iff parse_utc_Ok)
  ultimately show ?thesis
    using cases leased(2) by (auto simp: lease_decision_def valid split: refresh_lease_status.splits)
qed

lemma complete_Ok:
  assumes "lease_laws L" "lease_complete L d token outcome now = Ok d'"
  shows "lease_validate L d = Ok ()" "rl_owner_token d = token" "rl_status d = InProgress"
    "lease_validate L d' = Ok ()" "rl_id d' = rl_id d" "rl_leased_at d' = rl_leased_at d"
    "\<exists>text. rl_completed_at d' = Some text \<and> lx_parse L text = Some (now, 0)"
  using assms(2) lease_lawsD(2) [OF assms(1)]
  by (auto simp: lease_complete_def obind_Ok_iff cache_format_timestamp_def Let_def split: if_splits)

section \<open>The system\<close>

datatype lease_process =
  Claiming "refresh_lease_decision snapshot_result lease_io"
| Publishing "unit snapshot_result lease_io"

text \<open>
  The clock; every version there has been of an item, with its \<open>ETag\<close>; the current item of each
  identifier, with its \<open>ETag\<close> and the time of its last write; the process of each owner token; and the
  document whose write the container last confirmed to a claim.
\<close>

record lease_system =
  ls_clock :: instant
  ls_versions :: "(string \<times> refresh_lease_document) set"
  ls_items :: "string \<Rightarrow> (string \<times> refresh_lease_document \<times> instant) option"
  ls_processes :: "string \<Rightarrow> lease_process option"
  ls_written :: "string \<Rightarrow> refresh_lease_document option"

definition lease_start :: "instant \<Rightarrow> lease_system" where
  "lease_start t =
     \<lparr>ls_clock = t, ls_versions = {}, ls_items = (\<lambda>_. None), ls_processes = (\<lambda>_. None), ls_written = (\<lambda>_. None)\<rparr>"

definition fresh :: "lease_system \<Rightarrow> string \<Rightarrow> bool" where
  "fresh s etag \<longleftrightarrow> etag \<noteq> [] \<and> etag \<notin> fst ` ls_versions s"

definition store_item :: "lease_system \<Rightarrow> string \<Rightarrow> string \<Rightarrow> refresh_lease_document \<Rightarrow> lease_system" where
  "store_item s i etag d =
     s\<lparr>ls_versions := insert (etag, d) (ls_versions s), ls_items := (ls_items s)(i \<mapsto> (etag, d, ls_clock s))\<rparr>"

text \<open>One call of a process: its answer, and the document of a confirmed write.\<close>

inductive io_step ::
  "lease_system \<Rightarrow> 'a lease_io \<Rightarrow> lease_system \<Rightarrow> 'a lease_io \<Rightarrow> refresh_lease_document option \<Rightarrow> bool" where
  io_now: "io_step s (Now k) s (k (ls_clock s)) None"
| io_created: "ls_items s (rl_id d) = None \<Longrightarrow> fresh s etag \<Longrightarrow>
    io_step s (CreateItem d k) (store_item s (rl_id d) etag d) (k (Ok ())) (Some d)"
| io_create_lost: "ls_items s (rl_id d) = None \<Longrightarrow> fresh s etag \<Longrightarrow>
    io_step s (CreateItem d k) (store_item s (rl_id d) etag d) (k (Err status)) None"
| io_create_failed: "io_step s (CreateItem d k) s (k (Err status)) None"
| io_read: "(etag, d) \<in> ls_versions s \<Longrightarrow> rl_id d = i \<Longrightarrow> io_step s (ReadItem i k) s (k (Ok (Some etag, Ok d))) None"
| io_read_failed: "(\<And>etag d. answer \<noteq> Ok (Some etag, Ok d)) \<Longrightarrow> io_step s (ReadItem i k) s (k answer) None"
| io_replaced: "ls_items s i = Some (etag, d0, w) \<Longrightarrow> fresh s etag' \<Longrightarrow>
    io_step s (ReplaceItem i d etag k) (store_item s i etag' d) (k (Ok ())) (Some d)"
| io_replace_lost: "ls_items s i = Some (etag, d0, w) \<Longrightarrow> fresh s etag' \<Longrightarrow>
    io_step s (ReplaceItem i d etag k) (store_item s i etag' d) (k (Err status)) None"
| io_replace_failed: "io_step s (ReplaceItem i d etag k) s (k (Err status)) None"

text \<open>Time passes, the container removes an expired item, a process starts or makes a step.\<close>

inductive idle_step :: "lease_system \<Rightarrow> lease_system \<Rightarrow> bool" where
  tick: "ls_clock s \<le> t \<Longrightarrow> idle_step s (s\<lparr>ls_clock := t\<rparr>)"
| evict: "ls_items s i = Some (etag, d, w) \<Longrightarrow> w + duration_seconds (rl_ttl d) \<le> ls_clock s \<Longrightarrow>
    idle_step s (s\<lparr>ls_items := (ls_items s)(i := None)\<rparr>)"

inductive lease_step :: "lease_env \<Rightarrow> lease_system \<Rightarrow> lease_system \<Rightarrow> bool" for L where
  idle: "idle_step s s' \<Longrightarrow> lease_step L s s'"
| start_claim: "ls_processes s p = None \<Longrightarrow>
    lease_step L s (s\<lparr>ls_processes := (ls_processes s)(p \<mapsto> Claiming (claim_refresh_lease L key p started))\<rparr>)"
| claim_call: "ls_processes s p = Some (Claiming io) \<Longrightarrow> io_step s io s' io' written \<Longrightarrow>
    lease_step L s (s'\<lparr>ls_processes := (ls_processes s)(p \<mapsto> Claiming io'),
      ls_written := (case written of None \<Rightarrow> ls_written s | Some d \<Rightarrow> (ls_written s)(p \<mapsto> d))\<rparr>)"
| start_publish: "ls_processes s p = Some (Claiming (Done (Ok Acquired))) \<Longrightarrow>
    lease_step L s (s\<lparr>ls_processes := (ls_processes s)(p \<mapsto> Publishing (publish_refresh_lease L key p outcome))\<rparr>)"
| publish_call: "ls_processes s p = Some (Publishing io) \<Longrightarrow> io_step s io s' io' written \<Longrightarrow>
    lease_step L s (s'\<lparr>ls_processes := (ls_processes s)(p \<mapsto> Publishing io')\<rparr>)"

inductive lease_reachable :: "lease_env \<Rightarrow> lease_system \<Rightarrow> bool" for L where
  reach_start: "lease_reachable L (lease_start t)"
| reach_step: "lease_reachable L s \<Longrightarrow> lease_step L s s' \<Longrightarrow> lease_reachable L s'"

definition holds_lease :: "lease_system \<Rightarrow> string \<Rightarrow> bool" where
  "holds_lease s p \<longleftrightarrow> ls_processes s p = Some (Claiming (Done (Ok Acquired)))"

section \<open>What the operations do to the container\<close>

text \<open>
  A program follows a discipline if it creates and replaces only what \<open>cr\<close> and \<open>rp\<close> allow after the clock
  readings \<open>T\<close> and the versions \<open>R\<close> it has seen, writes nothing after a confirmed write \<open>w\<close>, and ends as
  \<open>po\<close> says.
\<close>

primrec follows ::
  "(instant set \<Rightarrow> refresh_lease_document \<Rightarrow> bool) \<Rightarrow>
   (instant set \<Rightarrow> refresh_lease_document \<Rightarrow> refresh_lease_document \<Rightarrow> bool) \<Rightarrow>
   (refresh_lease_document option \<Rightarrow> 'a \<Rightarrow> bool) \<Rightarrow> 'a lease_io \<Rightarrow>
   instant set \<Rightarrow> (string \<times> refresh_lease_document) set \<Rightarrow> refresh_lease_document option \<Rightarrow> bool" where
  "follows cr rp po (Done r) T R w \<longleftrightarrow> po w r"
| "follows cr rp po (Now k) T R w \<longleftrightarrow> (\<forall>t. follows cr rp po (k t) (insert t T) R w)"
| "follows cr rp po (CreateItem d k) T R w \<longleftrightarrow>
     w = None \<and> cr T d \<and> follows cr rp po (k (Ok ())) T R (Some d) \<and>
     (\<forall>status. follows cr rp po (k (Err status)) T R None)"
| "follows cr rp po (ReadItem i k) T R w \<longleftrightarrow>
     (\<forall>etag d. rl_id d = i \<longrightarrow> follows cr rp po (k (Ok (Some etag, Ok d))) T (insert (etag, d) R) w) \<and>
     (\<forall>answer. (\<forall>etag d. answer \<noteq> Ok (Some etag, Ok d)) \<longrightarrow> follows cr rp po (k answer) T R w)"
| "follows cr rp po (ReplaceItem i d etag k) T R w \<longleftrightarrow>
     w = None \<and> rl_id d = i \<and> (\<exists>d0. (etag, d0) \<in> R \<and> rp T d0 d) \<and> follows cr rp po (k (Ok ())) T R (Some d) \<and>
     (\<forall>status. follows cr rp po (k (Err status)) T R None)"

definition claim_creates :: "lease_env \<Rightarrow> string \<Rightarrow> instant set \<Rightarrow> refresh_lease_document \<Rightarrow> bool" where
  "claim_creates L p T d \<longleftrightarrow> (\<exists>key. \<exists>t\<in>T. lease_new L key p t = Ok d)"

definition claim_replaces ::
  "lease_env \<Rightarrow> string \<Rightarrow> instant set \<Rightarrow> refresh_lease_document \<Rightarrow> refresh_lease_document \<Rightarrow> bool" where
  "claim_replaces L p T d0 d \<longleftrightarrow>
     (\<exists>key started. \<exists>t\<in>T. lease_new L key p t = Ok d \<and> lease_decision L d0 started t = Ok None)"

definition claim_ends :: "refresh_lease_document option \<Rightarrow> refresh_lease_decision snapshot_result \<Rightarrow> bool" where
  "claim_ends w r \<longleftrightarrow> (r = Ok Acquired \<longrightarrow> w \<noteq> None)"

definition publish_replaces ::
  "lease_env \<Rightarrow> string \<Rightarrow> instant set \<Rightarrow> refresh_lease_document \<Rightarrow> refresh_lease_document \<Rightarrow> bool" where
  "publish_replaces L p T d0 d \<longleftrightarrow> (\<exists>outcome. \<exists>t\<in>T. lease_complete L d0 p outcome t = Ok d)"

abbreviation claim_follows :: "lease_env \<Rightarrow> string \<Rightarrow> refresh_lease_decision snapshot_result lease_io \<Rightarrow>
    instant set \<Rightarrow> (string \<times> refresh_lease_document) set \<Rightarrow> refresh_lease_document option \<Rightarrow> bool" where
  "claim_follows L p \<equiv> follows (claim_creates L p) (claim_replaces L p) claim_ends"

abbreviation publish_follows :: "lease_env \<Rightarrow> string \<Rightarrow> unit snapshot_result lease_io \<Rightarrow>
    instant set \<Rightarrow> (string \<times> refresh_lease_document) set \<Rightarrow> refresh_lease_document option \<Rightarrow> bool" where
  "publish_follows L p \<equiv> follows (\<lambda>_ _. False) (publish_replaces L p) (\<lambda>_ _. True)"

lemma follows_try:
  assumes "\<And>x. m = Ok x \<Longrightarrow> follows cr rp po (f x) T R w" "\<And>e. m = Err e \<Longrightarrow> po w (Err e)" "m = Panic \<Longrightarrow> po w Panic"
  shows "follows cr rp po (io_try m f) T R w"
  using assms by (cases m) auto

lemma follows_read:
  assumes failed: "\<And>e. po w (Err e)" "po w Panic"
    and missing: "follows cr rp po (continue None) T R w"
    and found: "\<And>d etag. rl_id d = i \<Longrightarrow> follows cr rp po (continue (Some (d, etag))) T (insert (etag, d) R) w"
  shows "follows cr rp po (read_refresh_lease L i continue) T R w"
  unfolding read_refresh_lease_def follows.simps
proof (intro conjI allI impI)
  show "follows cr rp po (answered_lease L continue (Ok (Some etag, Ok d))) T (insert (etag, d) R) w"
    if "rl_id d = i" for etag d
    using found [OF that] failed by (auto simp: answered_lease_def intro!: follows_try)
  show "follows cr rp po (answered_lease L continue answer) T R w"
    if "\<forall>etag d. answer \<noteq> Ok (Some etag, Ok d)" for answer
    using that missing failed
    by (auto intro!: follows_try simp: answered_lease_def map_err_iff split: outcome.split option.splits if_splits)
qed

lemma follows_replace:
  assumes failed: "\<And>e. po None (Err e)" "po None Panic"
    and allowed: "(etag, d0) \<in> R" "rp T d0 d"
    and ended: "follows cr rp po (continue True) T R (Some d)" "follows cr rp po (continue False) T R None"
  shows "follows cr rp po (replace_refresh_lease L d etag continue) T R None"
  unfolding replace_refresh_lease_def
  by (rule follows_try) (use failed in \<open>auto simp: ended intro!: exI [of _ d0] allowed\<close>)

lemma decision_not_acquired: "lease_decision L d started now \<noteq> Ok (Some Acquired)"
  by (auto simp: lease_decision_def obind_Ok_iff split: refresh_lease_status.splits if_splits)

lemma claim_ends_simps [simp]:
  "claim_ends w (Err e)" "claim_ends w Panic" "claim_ends w (Ok Pending)" "claim_ends (Some d) r"
  "lease_decision L d' started now = Ok (Some decision) \<Longrightarrow> claim_ends w (Ok decision)"
  using decision_not_acquired by (auto simp: claim_ends_def)

lemma claim_found:
  assumes again: "\<And>T R. claim_follows L p again T R None"
    and new: "lease_new L key p now = Ok candidate" "now \<in> T" and seen: "(etag, d) \<in> R"
  shows "claim_follows L p
     (io_try (map_err map_cache_document_error (lease_decision L d started now)) (\<lambda>decision.
        case decision of
          Some d \<Rightarrow> Done (Ok d)
        | None \<Rightarrow>
            replace_refresh_lease L candidate etag (\<lambda>replaced. if replaced then Done (Ok Acquired) else again))) T R None"
proof (rule follows_try)
  fix decision
  assume "map_err map_cache_document_error (lease_decision L d started now) = Ok decision"
  then have decision: "lease_decision L d started now = Ok decision" by (simp add: map_err_iff)
  show "claim_follows L p (case decision of
          Some d \<Rightarrow> Done (Ok d)
        | None \<Rightarrow>
            replace_refresh_lease L candidate etag (\<lambda>replaced. if replaced then Done (Ok Acquired) else again)) T R None"
  proof (cases decision)
    case None
    then have "claim_replaces L p T d candidate" using new decision by (auto simp: claim_replaces_def)
    then show ?thesis using seen again by (simp add: None) (rule follows_replace, simp_all)
  qed (use decision in simp)
qed simp_all

lemma claim_attempts_follow: "claim_follows L p (claim_attempts L key p started n) T R None"
proof (induction n arbitrary: T R)
  case (Suc n)
  have "claim_follows L p (CreateItem candidate (\<lambda>answer.
       case answer of
         Ok _ \<Rightarrow> Done (Ok Acquired)
       | Err status \<Rightarrow>
           if status = 409
           then read_refresh_lease L (rl_id candidate) (\<lambda>found.
             case found of
               None \<Rightarrow> claim_attempts L key p started n
             | Some (existing, etag) \<Rightarrow>
                 io_try (map_err map_cache_document_error (lease_decision L existing started now))
                   (\<lambda>decision.
                    case decision of
                      Some d \<Rightarrow> Done (Ok d)
                    | None \<Rightarrow>
                        replace_refresh_lease L candidate etag (\<lambda>replaced.
                        if replaced then Done (Ok Acquired) else claim_attempts L key p started n)))
           else Done (Err (map_snapshot_cosmos_error status))
       | Panic \<Rightarrow> Done Panic)) (insert now T) R None"
    if new: "lease_new L key p now = Ok candidate" for candidate now T R
  proof -
    have "claim_creates L p (insert now T) candidate" using new by (auto simp: claim_creates_def)
    then show ?thesis
      unfolding follows.simps using claim_found [OF Suc.IH new] Suc.IH by (auto intro!: follows_read)
  qed
  then show ?case by (auto intro!: follows_try simp: map_err_iff)
qed simp

lemma claim_follows_code: "claim_follows L p (claim_refresh_lease L key p started) T R None"
  unfolding claim_refresh_lease_def by (intro follows_try claim_attempts_follow) simp_all

lemma publish_attempts_follow: "publish_follows L p (publish_attempts L i p outcome n) T R None"
proof (induction n arbitrary: T R)
  case (Suc n)
  have "publish_follows L p (replace_refresh_lease L completed etag (\<lambda>replaced.
        if replaced then Done (Ok ()) else publish_attempts L i p outcome n)) (insert now T) (insert (etag, d) R) None"
    if "lease_complete L d p outcome now = Ok completed" for completed now etag d T R
  proof (rule follows_replace)
    show "publish_replaces L p (insert now T) d completed" using that by (auto simp: publish_replaces_def)
  qed (simp_all add: Suc.IH)
  then show ?case
    by (auto intro!: follows_try follows_read simp: map_err_iff split: option.split)
qed simp

lemma publish_follows_code: "publish_follows L p (publish_refresh_lease L key p outcome) T R None"
  by (simp add: publish_refresh_lease_def publish_attempts_follow)

section \<open>The invariant\<close>

text \<open>
  A process that was told that its write succeeded holds a document leased from a clock reading; until the
  lease ends, this document is the stored one.
\<close>

definition lease_holder :: "lease_env \<Rightarrow> lease_system \<Rightarrow> string \<Rightarrow> bool" where
  "lease_holder L s p \<longleftrightarrow>
     (\<forall>d. ls_written s p = Some d \<longrightarrow>
        (\<exists>key t. lease_new L key p t = Ok d \<and> t \<le> ls_clock s \<and>
           (ls_clock s < t + lease_span \<longrightarrow>
              (\<exists>etag w. ls_items s (rl_id d) = Some (etag, d, w) \<and> t \<le> w))))"

definition process_ok :: "lease_env \<Rightarrow> lease_system \<Rightarrow> string \<Rightarrow> lease_process \<Rightarrow> bool" where
  "process_ok L s p pr \<longleftrightarrow>
     (\<exists>T R. (\<forall>t\<in>T. t \<le> ls_clock s) \<and> R \<subseteq> ls_versions s \<and>
        (case pr of
           Claiming io \<Rightarrow> claim_follows L p io T R (ls_written s p) \<and> lease_holder L s p
         | Publishing io \<Rightarrow> (\<exists>w. publish_follows L p io T R w)))"

definition version_ok :: "lease_env \<Rightarrow> instant \<Rightarrow> string \<times> refresh_lease_document \<Rightarrow> bool" where
  "version_ok L now v \<longleftrightarrow>
     fst v \<noteq> [] \<and> lease_validate L (snd v) = Ok () \<and>
     (\<exists>a. lx_parse L (rl_leased_at (snd v)) = Some (a, 0) \<and> a \<le> now) \<and>
     (\<forall>text t. rl_completed_at (snd v) = Some text \<longrightarrow> lx_parse L text = Some (t, 0) \<longrightarrow> t \<le> now)"

definition lease_inv :: "lease_env \<Rightarrow> lease_system \<Rightarrow> bool" where
  "lease_inv L s \<longleftrightarrow>
     (\<forall>etag d d'. (etag, d) \<in> ls_versions s \<longrightarrow> (etag, d') \<in> ls_versions s \<longrightarrow> d = d') \<and>
     (\<forall>v\<in>ls_versions s. version_ok L (ls_clock s) v) \<and>
     (\<forall>i etag d w. ls_items s i = Some (etag, d, w) \<longrightarrow> (etag, d) \<in> ls_versions s \<and> rl_id d = i \<and> w \<le> ls_clock s) \<and>
     (\<forall>p. case ls_processes s p of None \<Rightarrow> ls_written s p = None | Some pr \<Rightarrow> process_ok L s p pr)"

lemma lease_invD:
  assumes "lease_inv L s"
  shows "(etag, d) \<in> ls_versions s \<Longrightarrow> (etag, d') \<in> ls_versions s \<Longrightarrow> d = d'"
    and "v \<in> ls_versions s \<Longrightarrow> version_ok L (ls_clock s) v"
    and "ls_items s i = Some (etag, d, w) \<Longrightarrow> (etag, d) \<in> ls_versions s"
    and "ls_items s i = Some (etag, d, w) \<Longrightarrow> rl_id d = i"
    and "ls_items s i = Some (etag, d, w) \<Longrightarrow> w \<le> ls_clock s"
    and "ls_processes s p = Some pr \<Longrightarrow> process_ok L s p pr"
    and "ls_processes s p = None \<Longrightarrow> ls_written s p = None"
proof -
  show "ls_processes s p = Some pr \<Longrightarrow> process_ok L s p pr" "ls_processes s p = None \<Longrightarrow> ls_written s p = None"
    using assms unfolding lease_inv_def by (metis option.simps(5), metis option.simps(4))
qed (use assms in \<open>unfold lease_inv_def, blast+\<close>)

lemma lease_invI:
  assumes "\<And>etag d d'. (etag, d) \<in> ls_versions s \<Longrightarrow> (etag, d') \<in> ls_versions s \<Longrightarrow> d = d'"
    and "\<And>v. v \<in> ls_versions s \<Longrightarrow> version_ok L (ls_clock s) v"
    and "\<And>i etag d w. ls_items s i = Some (etag, d, w) \<Longrightarrow> (etag, d) \<in> ls_versions s \<and> rl_id d = i \<and> w \<le> ls_clock s"
    and "\<And>p pr. ls_processes s p = Some pr \<Longrightarrow> process_ok L s p pr"
    and "\<And>p. ls_processes s p = None \<Longrightarrow> ls_written s p = None"
  shows "lease_inv L s"
  unfolding lease_inv_def using assms by (auto split: option.split)

text \<open>One call, seen from the invariant: the program goes on in its discipline, and the container stays or
  stores an allowed document in place of nothing or of an allowed one.\<close>

definition allowed_write ::
  "(instant set \<Rightarrow> refresh_lease_document \<Rightarrow> bool) \<Rightarrow>
   (instant set \<Rightarrow> refresh_lease_document \<Rightarrow> refresh_lease_document \<Rightarrow> bool) \<Rightarrow>
   lease_system \<Rightarrow> instant set \<Rightarrow> (string \<times> refresh_lease_document) set \<Rightarrow> refresh_lease_document \<Rightarrow> bool" where
  "allowed_write cr rp s T R d \<longleftrightarrow>
     ls_items s (rl_id d) = None \<and> cr T d \<or>
     (\<exists>etag d0 d1 w. ls_items s (rl_id d) = Some (etag, d0, w) \<and> (etag, d1) \<in> R \<and> rp T d1 d)"

lemma io_step_follows:
  assumes "io_step s io s' io' written" "follows cr rp po io T R w" "R \<subseteq> ls_versions s"
  obtains T' R' where "T' \<subseteq> insert (ls_clock s) T" "R' \<subseteq> ls_versions s"
    "follows cr rp po io' T' R' (case written of None \<Rightarrow> w | Some d \<Rightarrow> Some d)"
    "s' = s \<and> written = None \<or>
     w = None \<and> (\<exists>etag d. fresh s etag \<and> s' = store_item s (rl_id d) etag d \<and> (written = None \<or> written = Some d) \<and>
       allowed_write cr rp s T R d)"
  using assms
proof (cases rule: io_step.cases)
  case (io_now k)
  then show ?thesis using assms by (intro that [of "insert (ls_clock s) T" R]) auto
next
  case (io_created d etag k)
  then have "w = None" "allowed_write cr rp s T R d" using assms by (auto simp: allowed_write_def)
  with io_created show ?thesis using assms by (intro that [of T R]) auto
next
  case (io_create_lost d etag k status)
  then have "w = None" "allowed_write cr rp s T R d" using assms by (auto simp: allowed_write_def)
  with io_create_lost show ?thesis using assms by (intro that [of T R]) auto
next
  case (io_create_failed d k status)
  then show ?thesis using assms by (intro that [of T R]) auto
next
  case (io_read etag d i k)
  then show ?thesis using assms by (intro that [of T "insert (etag, d) R"]) auto
next
  case (io_read_failed answer i k)
  then show ?thesis using assms by (intro that [of T R]) auto
next
  case (io_replaced i etag d0 w0 etag' d k)
  then have "w = None" "rl_id d = i" "allowed_write cr rp s T R d" using assms by (auto simp: allowed_write_def)
  with io_replaced show ?thesis using assms by (intro that [of T R]) auto
next
  case (io_replace_lost i etag d0 w0 etag' d k status)
  then have "w = None" "rl_id d = i" "allowed_write cr rp s T R d" using assms by (auto simp: allowed_write_def)
  with io_replace_lost show ?thesis using assms by (intro that [of T R]) auto
next
  case (io_replace_failed i d etag k status)
  then show ?thesis using assms by (intro that [of T R]) auto
qed

text \<open>A write leaves every other holder in place, unless it replaces a lease that has ended.\<close>

lemma store_item_fields [simp]:
  "ls_clock (store_item s i etag d) = ls_clock s" "ls_processes (store_item s i etag d) = ls_processes s"
  "ls_written (store_item s i etag d) = ls_written s"
  "ls_versions (store_item s i etag d) = insert (etag, d) (ls_versions s)"
  "ls_items (store_item s i etag d) = (ls_items s)(i \<mapsto> (etag, d, ls_clock s))"
  by (simp_all add: store_item_def)

lemma holder_mono:
  assumes "lease_holder L s q" "ls_clock s \<le> ls_clock s'" "ls_written s' q = ls_written s q"
    and "\<And>key t d etag w. lease_new L key q t = Ok d \<Longrightarrow> ls_clock s' < t + lease_span \<Longrightarrow>
      ls_items s (rl_id d) = Some (etag, d, w) \<Longrightarrow> t \<le> w \<Longrightarrow> ls_items s' (rl_id d) = Some (etag, d, w)"
  shows "lease_holder L s' q"
  unfolding lease_holder_def
proof (intro allI impI)
  fix d assume "ls_written s' q = Some d"
  then obtain key t where t: "lease_new L key q t = Ok d" "t \<le> ls_clock s"
      "ls_clock s < t + lease_span \<longrightarrow> (\<exists>etag w. ls_items s (rl_id d) = Some (etag, d, w) \<and> t \<le> w)"
    using assms(1,3) unfolding lease_holder_def by auto
  then have "\<exists>etag w. ls_items s' (rl_id d) = Some (etag, d, w) \<and> t \<le> w" if "ls_clock s' < t + lease_span"
    using assms(2) assms(4) [OF t(1) that] that by fastforce
  then show "\<exists>key t. lease_new L key q t = Ok d \<and> t \<le> ls_clock s' \<and> (ls_clock s' < t + lease_span \<longrightarrow>
      (\<exists>etag w. ls_items s' (rl_id d) = Some (etag, d, w) \<and> t \<le> w))"
    using t assms(2) by (intro exI [of _ key] exI [of _ t]) auto
qed

lemma holder_stored:
  assumes "lease_laws L" "lease_holder L s q"
    and "\<And>etag0 d0 w0 b. ls_items s i = Some (etag0, d0, w0) \<Longrightarrow> rl_owner_token d0 = q \<Longrightarrow> rl_status d0 = InProgress \<Longrightarrow>
      lx_parse L (rl_expires_at d0) = Some (b, 0) \<Longrightarrow> b \<le> ls_clock s"
  shows "lease_holder L (store_item s i etag d) q"
proof (rule holder_mono [OF assms(2)])
  fix key t d' etag' w
  assume t: "lease_new L key q t = Ok d'" "ls_clock (store_item s i etag d) < t + lease_span"
      "ls_items s (rl_id d') = Some (etag', d', w)"
  then have "rl_id d' \<noteq> i"
    using assms(3) [of etag' d' w "t + lease_span"] lease_new_Ok [OF assms(1) t(1)] by auto
  then show "ls_items (store_item s i etag d) (rl_id d') = Some (etag', d', w)" using t by simp
qed simp_all

lemma process_ok_mono:
  assumes "process_ok L s p pr" "ls_clock s \<le> ls_clock s'" "ls_versions s \<subseteq> ls_versions s'" "ls_written s' p = ls_written s p"
    and "\<And>io. pr = Claiming io \<Longrightarrow> lease_holder L s p \<Longrightarrow> lease_holder L s' p"
  shows "process_ok L s' p pr"
proof -
  obtain T R where tr: "\<forall>t\<in>T. t \<le> ls_clock s" "R \<subseteq> ls_versions s"
      "case pr of Claiming io \<Rightarrow> claim_follows L p io T R (ls_written s p) \<and> lease_holder L s p
         | Publishing io \<Rightarrow> (\<exists>w. publish_follows L p io T R w)"
    using assms(1) unfolding process_ok_def by blast
  show ?thesis unfolding process_ok_def
    by (rule exI [of _ T], rule exI [of _ R]) (use tr assms(2-5) in \<open>fastforce split: lease_process.splits\<close>)
qed

lemma lease_inv_start: "lease_inv L (lease_start t)"
  by (simp add: lease_inv_def lease_start_def)

lemma version_ok_mono: "version_ok L t v \<Longrightarrow> t \<le> t' \<Longrightarrow> version_ok L t' v"
  unfolding version_ok_def by (meson order_trans)

lemma lease_inv_idle:
  assumes "idle_step s s'" "lease_inv L s" "lease_laws L"
  shows "lease_inv L s'"
  using assms(1)
proof cases
  case (tick t)
  have holder: "lease_holder L s' p" if "lease_holder L s p" for p
    by (rule holder_mono [OF that]) (use tick in auto)
  have "process_ok L s' p pr" if "ls_processes s p = Some pr" for p pr
    by (rule process_ok_mono [OF lease_invD(6) [OF assms(2) that]]) (use tick holder in auto)
  moreover have "version_ok L t v" if "v \<in> ls_versions s" for v
    using lease_invD(2) [OF assms(2) that] tick by (auto intro: version_ok_mono)
  moreover have "w \<le> t" if "ls_items s i = Some (etag, d, w)" for i etag d w
    using lease_invD(5) [OF assms(2) that] tick by simp
  ultimately show ?thesis
    using tick lease_invD(1,3,4,7) [OF assms(2)] by (intro lease_invI) simp_all
next
  case (evict i etag d w)
  have holder: "lease_holder L s' p" if hold: "lease_holder L s p" for p
  proof (rule holder_mono [OF hold])
    fix key u d' etag' w'
    assume u: "lease_new L key p u = Ok d'" "ls_clock s' < u + lease_span" "ls_items s (rl_id d') = Some (etag', d', w')"
      "u \<le> w'"
    have "rl_ttl d' = REFRESH_LEASE_TTL_SECONDS"
      using lease_new_Ok(1) [OF assms(3) u(1)] by (rule lease_validE)
    then have "rl_id d' \<noteq> i" using u evict by (auto simp: lease_span_def)
    then show "ls_items s' (rl_id d') = Some (etag', d', w')" using u evict by simp
  qed (use evict in auto)
  have "process_ok L s' p pr" if "ls_processes s p = Some pr" for p pr
    by (rule process_ok_mono [OF lease_invD(6) [OF assms(2) that]]) (use evict holder in auto)
  then show ?thesis
    using evict lease_invD [OF assms(2)] by (intro lease_invI) (auto split: if_splits)
qed

lemma allowed_write_ok:
  assumes laws: "lease_laws L" and inv: "lease_inv L s" and seen: "\<forall>t\<in>T. t \<le> ls_clock s" "R \<subseteq> ls_versions s"
    and allowed: "allowed_write cr rp s T R d"
    and created: "cr T d \<Longrightarrow> \<exists>key. \<exists>t\<in>T. lease_new L key p t = Ok d"
    and replaced: "\<And>d0. rp T d0 d \<Longrightarrow>
      (\<exists>key started. \<exists>t\<in>T. lease_new L key p t = Ok d \<and> lease_decision L d0 started t = Ok None) \<or>
      (\<exists>outcome. \<exists>t\<in>T. lease_complete L d0 p outcome t = Ok d)"
  shows "version_ok L (ls_clock s) (etag, d) \<longleftrightarrow> etag \<noteq> []"
    and "q \<noteq> p \<Longrightarrow> ls_items s (rl_id d) = Some (etag0, d0, w0) \<Longrightarrow> rl_owner_token d0 = q \<Longrightarrow>
      rl_status d0 = InProgress \<Longrightarrow> lx_parse L (rl_expires_at d0) = Some (b, 0) \<Longrightarrow> b \<le> ls_clock s"
proof -
  have current: "rp T d0 d" if "ls_items s (rl_id d) = Some (etag0, d0, w0)" "\<not> (ls_items s (rl_id d) = None \<and> cr T d)"
    for etag0 d0 w0
    using allowed that seen(2) lease_invD(1) [OF inv lease_invD(3) [OF inv that(1)]]
    by (auto simp: allowed_write_def)
  show "b \<le> ls_clock s" if "q \<noteq> p" "ls_items s (rl_id d) = Some (etag0, d0, w0)" "rl_owner_token d0 = q"
      "rl_status d0 = InProgress" "lx_parse L (rl_expires_at d0) = Some (b, 0)"
  proof -
    have "rp T d0 d" using current that by auto
    from replaced [OF this] show ?thesis
    proof (elim disjE exE bexE conjE)
      fix key started t assume "t \<in> T" "lease_decision L d0 started t = Ok None"
      then show ?thesis using decision_None that seen(1) by force
    next
      fix outcome t assume "lease_complete L d0 p outcome t = Ok d"
      then show ?thesis using complete_Ok(2) [OF laws] that by force
    qed
  qed
  have made: "(\<exists>key. \<exists>t\<in>T. lease_new L key p t = Ok d) \<or>
      (\<exists>etag0 d0 w0 outcome. \<exists>t\<in>T. ls_items s (rl_id d) = Some (etag0, d0, w0) \<and> lease_complete L d0 p outcome t = Ok d)"
  proof (cases "ls_items s (rl_id d)")
    case None
    then show ?thesis using allowed created by (auto simp: allowed_write_def)
  next
    case (Some v)
    obtain e0 d0 w0 where v: "v = (e0, d0, w0)" by (cases v)
    then have "rp T d0 d" using current Some by simp
    from replaced [OF this] show ?thesis using Some v by blast
  qed
  have "lease_validate L d = Ok () \<and> (\<exists>a. lx_parse L (rl_leased_at d) = Some (a, 0) \<and> a \<le> ls_clock s) \<and>
     (\<forall>text t. rl_completed_at d = Some text \<longrightarrow> lx_parse L text = Some (t, 0) \<longrightarrow> t \<le> ls_clock s)"
    using made
  proof (elim disjE exE bexE conjE)
    fix key t assume "t \<in> T" "lease_new L key p t = Ok d"
    then show ?thesis using lease_new_Ok [OF laws] seen(1) by fastforce
  next
    fix etag0 d0 w0 outcome t
    assume c: "t \<in> T" "ls_items s (rl_id d) = Some (etag0, d0, w0)" "lease_complete L d0 p outcome t = Ok d"
    have "version_ok L (ls_clock s) (etag0, d0)" using lease_invD(2,3) [OF inv] c(2) by blast
    then show ?thesis using complete_Ok [OF laws c(3)] c(1) seen(1) by (auto simp: version_ok_def)
  qed
  then show "version_ok L (ls_clock s) (etag, d) \<longleftrightarrow> etag \<noteq> []" by (auto simp: version_ok_def)
qed

lemma lease_inv_write:
  assumes laws: "lease_laws L" and inv: "lease_inv L s" and seen: "\<forall>t\<in>T. t \<le> ls_clock s" "R \<subseteq> ls_versions s"
    and allowed: "allowed_write cr rp s T R d"
    and created: "cr T d \<Longrightarrow> \<exists>key. \<exists>t\<in>T. lease_new L key p t = Ok d"
    and replaced: "\<And>d0. rp T d0 d \<Longrightarrow>
      (\<exists>key started. \<exists>t\<in>T. lease_new L key p t = Ok d \<and> lease_decision L d0 started t = Ok None) \<or>
      (\<exists>outcome. \<exists>t\<in>T. lease_complete L d0 p outcome t = Ok d)"
    and fresh: "fresh s etag"
    and others: "\<And>q. q \<noteq> p \<Longrightarrow> written' q = ls_written s q"
    and own: "process_ok L (store_item s (rl_id d) etag d\<lparr>ls_processes := (ls_processes s)(p \<mapsto> pr), ls_written := written'\<rparr>) p pr"
  shows "lease_inv L (store_item s (rl_id d) etag d\<lparr>ls_processes := (ls_processes s)(p \<mapsto> pr), ls_written := written'\<rparr>)"
    (is "lease_inv L ?s'")
proof (rule lease_invI)
  have valid: "version_ok L (ls_clock s) (etag, d) \<longleftrightarrow> etag \<noteq> []"
    by (rule allowed_write_ok(1) [OF laws inv seen allowed]) (rule created replaced, assumption)+
  have ended: "b \<le> ls_clock s" if "q \<noteq> p" "ls_items s (rl_id d) = Some (etag0, d0, w0)" "rl_owner_token d0 = q"
      "rl_status d0 = InProgress" "lx_parse L (rl_expires_at d0) = Some (b, 0)" for q etag0 d0 w0 b
    using created replaced that by (rule allowed_write_ok(2) [OF laws inv seen allowed])
  show "version_ok L (ls_clock ?s') v" if "v \<in> ls_versions ?s'" for v
    using that valid fresh lease_invD(2) [OF inv, of v] by (cases "v = (etag, d)") (simp_all add: fresh_def)
  have new: "(etag, x) \<notin> ls_versions s" for x using fresh by (force simp: fresh_def)
  show "x = y" if "(e, x) \<in> ls_versions ?s'" "(e, y) \<in> ls_versions ?s'" for e x y
    using that new lease_invD(1) [OF inv, of e x y] by auto
  show "ls_items ?s' i = Some (e, x, w) \<Longrightarrow> (e, x) \<in> ls_versions ?s' \<and> rl_id x = i \<and> w \<le> ls_clock ?s'" for i e x w
    using lease_invD(3-5) [OF inv] by (auto split: if_splits)
  show "ls_written ?s' q = None" if "ls_processes ?s' q = None" for q
    using that lease_invD(7) [OF inv] others by (auto split: if_splits)
  show "process_ok L ?s' q x" if q: "ls_processes ?s' q = Some x" for q x
  proof (cases "q = p")
    case True
    then show ?thesis using q own by simp
  next
    case False
    have holder: "lease_holder L ?s' q" if hold: "lease_holder L s q"
      by (rule holder_mono [OF holder_stored [OF laws hold ended [OF False], where etag = etag and d = d]])
         (simp_all add: others [OF False])
    have x: "ls_processes s q = Some x" using q False by simp
    show ?thesis
      by (rule process_ok_mono [OF lease_invD(6) [OF inv x]]) (simp_all add: others [OF False] holder subset_insertI)
  qed
qed

lemma lease_inv_process:
  assumes "lease_inv L s" "process_ok L s p pr"
  shows "lease_inv L (s\<lparr>ls_processes := (ls_processes s)(p \<mapsto> pr)\<rparr>)"
proof -
  have same: "process_ok L (s\<lparr>ls_processes := m\<rparr>) q x \<longleftrightarrow> process_ok L s q x" for m q x
    by (simp add: process_ok_def lease_holder_def cong: lease_process.case_cong)
  show ?thesis
    using lease_invD [OF assms(1)] assms(2) by (intro lease_invI) (auto simp: same split: if_splits)
qed

lemma claim_call_inv:
  assumes laws: "lease_laws L" and inv: "lease_inv L s" and p: "ls_processes s p = Some (Claiming io)"
    and step: "io_step s io s' io' written"
  shows "lease_inv L (s'\<lparr>ls_processes := (ls_processes s)(p \<mapsto> Claiming io'),
      ls_written := (case written of None \<Rightarrow> ls_written s | Some d \<Rightarrow> (ls_written s)(p \<mapsto> d))\<rparr>)"
proof -
  obtain T R where tr: "\<forall>t\<in>T. t \<le> ls_clock s" "R \<subseteq> ls_versions s" "claim_follows L p io T R (ls_written s p)"
      "lease_holder L s p"
    using lease_invD(6) [OF inv p] by (auto simp: process_ok_def)
  from step tr(3,2) show ?thesis
  proof (rule io_step_follows)
    fix T' R'
    assume tr': "T' \<subseteq> insert (ls_clock s) T" "R' \<subseteq> ls_versions s"
      and follows': "claim_follows L p io' T' R' (case written of None \<Rightarrow> ls_written s p | Some d \<Rightarrow> Some d)"
      and "s' = s \<and> written = None \<or> ls_written s p = None \<and> (\<exists>etag d. fresh s etag \<and>
        s' = store_item s (rl_id d) etag d \<and> (written = None \<or> written = Some d) \<and>
        allowed_write (claim_creates L p) (claim_replaces L p) s T R d)"
    from this(4) consider (same) "s' = s" "written = None" | (wrote) etag d where "ls_written s p = None" "fresh s etag"
        "s' = store_item s (rl_id d) etag d" "written = None \<or> written = Some d"
        "allowed_write (claim_creates L p) (claim_replaces L p) s T R d"
      by blast
    then show ?thesis
    proof cases
      case same
      have "process_ok L s p (Claiming io')"
        unfolding process_ok_def
        by (rule exI [of _ T'], rule exI [of _ R']) (use tr tr' follows' same in auto)
      from lease_inv_process [OF inv this] show ?thesis by (simp add: same)
    next
      case (wrote etag d)
      note w = wrote(1-3) and written = wrote(4) and allowed = wrote(5)
      let ?written = "case written of None \<Rightarrow> ls_written s | Some d \<Rightarrow> (ls_written s)(p \<mapsto> d)"
      let ?s = "store_item s (rl_id d) etag d\<lparr>ls_processes := (ls_processes s)(p \<mapsto> Claiming io'), ls_written := ?written\<rparr>"
      obtain key t where t: "t \<in> T" "lease_new L key p t = Ok d"
        using allowed by (auto simp: allowed_write_def claim_creates_def claim_replaces_def)
      have holder: "lease_holder L ?s p"
      proof (cases written)
        case None
        then show ?thesis using w(1) by (simp add: lease_holder_def)
      next
        case (Some d')
        then have "d' = d" using written by simp
        then show ?thesis using Some t tr(1) by (auto simp: lease_holder_def)
      qed
      have "process_ok L ?s p (Claiming io')"
        unfolding process_ok_def
        by (rule exI [of _ T'], rule exI [of _ R'])
           (use tr tr' follows' holder w(1) in \<open>auto split: option.splits\<close>)
      then have "lease_inv L ?s"
        by (intro lease_inv_write [OF laws inv tr(1,2) allowed _ _ w(2), where p = p])
           (auto simp: claim_creates_def claim_replaces_def split: option.split)
      then show ?thesis by (simp add: w(3))
    qed
  qed
qed

lemma publish_call_inv:
  assumes laws: "lease_laws L" and inv: "lease_inv L s" and p: "ls_processes s p = Some (Publishing io)"
    and step: "io_step s io s' io' written"
  shows "lease_inv L (s'\<lparr>ls_processes := (ls_processes s)(p \<mapsto> Publishing io')\<rparr>)"
proof -
  obtain T R w where tr: "\<forall>t\<in>T. t \<le> ls_clock s" "R \<subseteq> ls_versions s" "publish_follows L p io T R w"
    using lease_invD(6) [OF inv p] by (auto simp: process_ok_def)
  from step tr(3,2) show ?thesis
  proof (rule io_step_follows)
    fix T' R'
    assume tr': "T' \<subseteq> insert (ls_clock s) T" "R' \<subseteq> ls_versions s"
      and follows': "publish_follows L p io' T' R' (case written of None \<Rightarrow> w | Some d \<Rightarrow> Some d)"
      and "s' = s \<and> written = None \<or> w = None \<and> (\<exists>etag d. fresh s etag \<and>
        s' = store_item s (rl_id d) etag d \<and> (written = None \<or> written = Some d) \<and>
        allowed_write (\<lambda>_ _. False) (publish_replaces L p) s T R d)"
    from this(4) consider (same) "s' = s" "written = None" | (wrote) etag d where "w = None" "fresh s etag"
        "s' = store_item s (rl_id d) etag d" "written = None \<or> written = Some d"
        "allowed_write (\<lambda>_ _. False) (publish_replaces L p) s T R d"
      by blast
    then show ?thesis
    proof cases
      case same
      have "process_ok L s p (Publishing io')"
        unfolding process_ok_def
        by (rule exI [of _ T'], rule exI [of _ R']) (use tr tr' follows' in auto)
      from lease_inv_process [OF inv this] show ?thesis by (simp add: same)
    next
      case (wrote etag d)
      note w = wrote(2,3) and allowed = wrote(5)
      let ?s = "store_item s (rl_id d) etag d\<lparr>ls_processes := (ls_processes s)(p \<mapsto> Publishing io'),
          ls_written := ls_written s\<rparr>"
      have "process_ok L ?s p (Publishing io')"
        unfolding process_ok_def
        by (rule exI [of _ T'], rule exI [of _ R']) (use tr tr' follows' in auto)
      then have "lease_inv L ?s"
        by (intro lease_inv_write [OF laws inv tr(1,2) allowed _ _ w(1), where p = p]) (auto simp: publish_replaces_def)
      moreover have "?s = s'\<lparr>ls_processes := (ls_processes s)(p \<mapsto> Publishing io')\<rparr>"
        by (simp add: w(2) store_item_def)
      ultimately show ?thesis by simp
    qed
  qed
qed

lemma lease_step_inv:
  assumes "lease_laws L" "lease_step L s s'" "lease_inv L s"
  shows "lease_inv L s'"
  using assms(2)
proof cases
  case idle
  then show ?thesis using lease_inv_idle assms by blast
next
  case (start_claim p key started)
  have "ls_written s p = None" using lease_invD(7) [OF assms(3) start_claim(2)] .
  then have "process_ok L s p (Claiming (claim_refresh_lease L key p started))"
    using claim_follows_code [of L p key started "{}" "{}"] by (auto simp: process_ok_def lease_holder_def)
  then show ?thesis using lease_inv_process assms(3) start_claim by blast
next
  case (start_publish p key outcome)
  have "process_ok L s p (Publishing (publish_refresh_lease L key p outcome))"
    using publish_follows_code [of L p key outcome "{}" "{}"] by (auto simp: process_ok_def)
  then show ?thesis using lease_inv_process assms(3) start_publish by blast
qed (use claim_call_inv publish_call_inv assms in blast)+

lemma lease_reachable_inv: "lease_laws L \<Longrightarrow> lease_reachable L s \<Longrightarrow> lease_inv L s"
  by (rotate_tac, induction rule: lease_reachable.induct) (auto intro: lease_inv_start lease_step_inv)

section \<open>A process alone\<close>

text \<open>The container answers one process without a failure; nothing else happens meanwhile.\<close>

definition fresh_etag :: "lease_system \<Rightarrow> string" where
  "fresh_etag s = replicate (Suc (Max (insert 0 (length ` fst ` ls_versions s)))) CHR ''x''"

primrec run_alone :: "'a lease_io \<Rightarrow> lease_system \<Rightarrow> 'a \<times> lease_system" where
  "run_alone (Done r) s = (r, s)"
| "run_alone (Now k) s = run_alone (k (ls_clock s)) s"
| "run_alone (CreateItem d k) s =
     (if ls_items s (rl_id d) = None
      then run_alone (k (Ok ())) (store_item s (rl_id d) (fresh_etag s) d)
      else run_alone (k (Err 409)) s)"
| "run_alone (ReadItem i k) s =
     (case ls_items s i of
        None \<Rightarrow> run_alone (k (Err 404)) s
      | Some (etag, d, _) \<Rightarrow> run_alone (k (Ok (Some etag, Ok d))) s)"
| "run_alone (ReplaceItem i d etag k) s =
     (case ls_items s i of
        None \<Rightarrow> run_alone (k (Err 404)) s
      | Some (current, _, _) \<Rightarrow>
          if current = etag then run_alone (k (Ok ())) (store_item s i (fresh_etag s) d)
          else run_alone (k (Err 412)) s)"

lemma fresh_etag_fresh: "finite (ls_versions s) \<Longrightarrow> fresh s (fresh_etag s)"
proof -
  assume fin: "finite (ls_versions s)"
  have "length e \<le> Max (insert 0 (length ` fst ` ls_versions s))" if "e \<in> fst ` ls_versions s" for e
    using that fin by (intro Max_ge) auto
  then have "fresh_etag s \<notin> fst ` ls_versions s" by (force simp: fresh_etag_def)
  then show ?thesis by (simp add: fresh_def fresh_etag_def)
qed

lemma io_step_finite: "io_step s io s' io' written \<Longrightarrow> finite (ls_versions s) \<Longrightarrow> finite (ls_versions s')"
  by (erule io_step.cases) simp_all

lemma lease_reachable_finite: "lease_reachable L s \<Longrightarrow> finite (ls_versions s)"
proof (induction rule: lease_reachable.induct)
  case (reach_step s s')
  from reach_step(2,3) show ?case
    by cases (auto elim!: idle_step.cases dest: io_step_finite)
qed (simp add: lease_start_def)

text \<open>Such a run is one of the system's.\<close>

definition same_container :: "lease_system \<Rightarrow> lease_system \<Rightarrow> bool" where
  "same_container s u \<longleftrightarrow>
     ls_clock s = ls_clock u \<and> ls_versions s = ls_versions u \<and> ls_items s = ls_items u"

lemma claim_call_reaches:
  assumes "lease_reachable L u" "ls_processes u p = Some (Claiming io)" "io_step u io v io' written" "same_container s v"
  obtains u' where "lease_step L u u'" "lease_reachable L u'" "ls_processes u' p = Some (Claiming io')" "same_container s u'"
    "ls_processes u' = (ls_processes u)(p \<mapsto> Claiming io')"
proof -
  let ?u = "v\<lparr>ls_processes := (ls_processes u)(p \<mapsto> Claiming io'),
      ls_written := (case written of None \<Rightarrow> ls_written u | Some d \<Rightarrow> (ls_written u)(p \<mapsto> d))\<rparr>"
  have step: "lease_step L u ?u" by (rule claim_call [OF assms(2,3)])
  show thesis
    using assms(4) by (intro that [OF step reach_step [OF assms(1) step]]) (simp_all add: same_container_def)
qed

lemma store_same: "same_container s u \<Longrightarrow> same_container (store_item s i (fresh_etag s) d) (store_item u i (fresh_etag u) d)"
  by (simp add: same_container_def fresh_etag_def)

lemma run_step:
  assumes "lease_step L u v" "ls_processes v = (ls_processes u)(p \<mapsto> x)"
    and "\<exists>u'. (lease_step L)\<^sup>*\<^sup>* v u' \<and> ls_processes u' = (ls_processes v)(p \<mapsto> y) \<and> same_container s' u'"
  shows "\<exists>u'. (lease_step L)\<^sup>*\<^sup>* u u' \<and> ls_processes u' = (ls_processes u)(p \<mapsto> y) \<and> same_container s' u'"
  using assms by (metis converse_rtranclp_into_rtranclp fun_upd_upd)

lemma run_alone_steps:
  assumes "lease_laws L" "lease_reachable L u" "ls_processes u p = Some (Claiming io)" "same_container s u"
    "run_alone io s = (r, s')"
  shows "\<exists>u'. (lease_step L)\<^sup>*\<^sup>* u u' \<and> ls_processes u' = (ls_processes u)(p \<mapsto> Claiming (Done r)) \<and>
    same_container s' u'"
  using assms(2-5)
proof (induction io arbitrary: s u)
  case (Done x)
  then show ?case by (intro exI [of _ u]) (auto simp: fun_upd_idem)
next
  case (Now k)
  have "io_step u (Now k) u (k (ls_clock u)) None" by (rule io_now)
  from claim_call_reaches [OF Now.prems(1,2) this Now.prems(3)] obtain u' where u': "lease_step L u u'"
      "lease_reachable L u'" "ls_processes u' p = Some (Claiming (k (ls_clock u)))" "same_container s u'"
        "ls_processes u' = (ls_processes u)(p \<mapsto> Claiming (k (ls_clock u)))" .
  have "run_alone (k (ls_clock u)) s = (r, s')" using Now.prems(3,4) by (simp add: same_container_def)
  from Now.IH [OF rangeI u'(2-4) this] show ?case by (rule run_step [OF u'(1,5)])
next
  case (CreateItem d k)
  have same: "ls_items u (rl_id d) = ls_items s (rl_id d)" using CreateItem.prems(3) by (simp add: same_container_def)
  show ?case
  proof (cases "ls_items s (rl_id d) = None")
    case True
    have "io_step u (CreateItem d k) (store_item u (rl_id d) (fresh_etag u) d) (k (Ok ())) (Some d)"
      using True same CreateItem.prems(1) by (intro io_created fresh_etag_fresh lease_reachable_finite) auto
    from claim_call_reaches [OF CreateItem.prems(1,2) this store_same [OF CreateItem.prems(3)]]
    obtain u' where u': "lease_step L u u'" "lease_reachable L u'" "ls_processes u' p = Some (Claiming (k (Ok ())))"
        "same_container (store_item s (rl_id d) (fresh_etag s) d) u'"
        "ls_processes u' = (ls_processes u)(p \<mapsto> Claiming (k (Ok ())))" .
    have "run_alone (k (Ok ())) (store_item s (rl_id d) (fresh_etag s) d) = (r, s')" using CreateItem.prems(4) True by simp
    from CreateItem.IH [OF rangeI u'(2-4) this] show ?thesis by (rule run_step [OF u'(1,5)])
  next
    case False
    from claim_call_reaches [OF CreateItem.prems(1,2) io_create_failed CreateItem.prems(3), of 409]
    obtain u' where u': "lease_step L u u'" "lease_reachable L u'" "ls_processes u' p = Some (Claiming (k (Err 409)))"
        "same_container s u'"
        "ls_processes u' = (ls_processes u)(p \<mapsto> Claiming (k (Err 409)))" .
    have "run_alone (k (Err 409)) s = (r, s')" using CreateItem.prems(4) False by simp
    from CreateItem.IH [OF rangeI u'(2-4) this] show ?thesis by (rule run_step [OF u'(1,5)])
  qed
next
  case (ReadItem i k)
  have "\<exists>answer. io_step u (ReadItem i k) u (k answer) None \<and> run_alone (k answer) s = (r, s')"
  proof (cases "ls_items s i")
    case None
    then show ?thesis using ReadItem.prems(4) by (intro exI [of _ "Err 404"]) (auto intro: io_read_failed)
  next
    case (Some v)
    obtain etag d w where v: "v = (etag, d, w)" by (cases v)
    have item: "ls_items u i = Some (etag, d, w)" using Some v ReadItem.prems(3) by (simp add: same_container_def)
    note inv = lease_reachable_inv [OF assms(1) ReadItem.prems(1)]
    show ?thesis using ReadItem.prems(4) Some v io_read [OF lease_invD(3,4) [OF inv item]]
      by (intro exI [of _ "Ok (Some etag, Ok d)"]) simp
  qed
  then obtain answer where a: "io_step u (ReadItem i k) u (k answer) None" "run_alone (k answer) s = (r, s')" by blast
  from claim_call_reaches [OF ReadItem.prems(1,2) a(1) ReadItem.prems(3)]
  obtain u' where u': "lease_step L u u'" "lease_reachable L u'" "ls_processes u' p = Some (Claiming (k answer))"
      "same_container s u'"
        "ls_processes u' = (ls_processes u)(p \<mapsto> Claiming (k answer))" .
  from ReadItem.IH [OF rangeI u'(2-4) a(2)] show ?case by (rule run_step [OF u'(1,5)])
next
  case (ReplaceItem i d etag k)
  have same: "ls_items u i = ls_items s i" using ReplaceItem.prems(3) by (simp add: same_container_def)
  have fresh: "fresh u (fresh_etag u)" using ReplaceItem.prems(1) by (intro fresh_etag_fresh lease_reachable_finite)
  have "\<exists>answer v t written. io_step u (ReplaceItem i d etag k) v (k answer) written \<and> same_container t v \<and>
      run_alone (k answer) t = (r, s')"
  proof (cases "\<exists>d0 w. ls_items s i = Some (etag, d0, w)")
    case True
    then obtain d0 w where item: "ls_items s i = Some (etag, d0, w)" by blast
    have "io_step u (ReplaceItem i d etag k) (store_item u i (fresh_etag u) d) (k (Ok ())) (Some d)"
      using item same fresh by (intro io_replaced) auto
    then show ?thesis using item ReplaceItem.prems(4) store_same [OF ReplaceItem.prems(3)] by fastforce
  next
    case False
    then have "\<exists>status. run_alone (k (Err status)) s = (r, s')"
      using ReplaceItem.prems(4) by (auto split: option.splits prod.splits if_splits)
    then show ?thesis using io_replace_failed ReplaceItem.prems(3) by blast
  qed
  then obtain answer v t written where a: "io_step u (ReplaceItem i d etag k) v (k answer) written" "same_container t v"
      "run_alone (k answer) t = (r, s')" by blast
  from claim_call_reaches [OF ReplaceItem.prems(1,2) a(1,2)]
  obtain u' where u': "lease_step L u u'" "lease_reachable L u'" "ls_processes u' p = Some (Claiming (k answer))"
      "same_container t u'"
        "ls_processes u' = (ls_processes u)(p \<mapsto> Claiming (k answer))" .
  from ReplaceItem.IH [OF rangeI u'(2-4) a(3)] show ?case by (rule run_step [OF u'(1,5)])
qed

section \<open>Properties\<close>

text \<open>
  C6: at most one process holds a refresh lease. Whatever the interleaving and the failures of the
  container, a process whose claim ended with \<open>Acquired\<close> has stored a document of its own, leased for 150
  seconds from a clock reading; until that time is over the document stays the stored one, and the lease of
  every other process that was told \<open>Acquired\<close> for the same item has ended.
\<close>
theorem lease_exclusive:
  assumes "lease_laws L" "lease_reachable L s" "holds_lease s p"
  shows "\<exists>d a. ls_written s p = Some d \<and> rl_owner_token d = p \<and>
    lx_parse L (rl_leased_at d) = Some (a, 0) \<and> a \<le> ls_clock s \<and>
    lx_parse L (rl_expires_at d) = Some (a + lease_span, 0) \<and>
    (ls_clock s < a + lease_span \<longrightarrow>
       (\<exists>etag w. ls_items s (rl_id d) = Some (etag, d, w)) \<and>
       (\<forall>q d' b. q \<noteq> p \<longrightarrow> holds_lease s q \<longrightarrow> ls_written s q = Some d' \<longrightarrow> rl_id d' = rl_id d \<longrightarrow>
          lx_parse L (rl_expires_at d') = Some (b, 0) \<longrightarrow> b \<le> ls_clock s))"
proof -
  note inv = lease_reachable_inv [OF assms(1,2)]
  have held: "\<exists>d key t. ls_written s q = Some d \<and> lease_new L key q t = Ok d \<and> t \<le> ls_clock s \<and>
      (ls_clock s < t + lease_span \<longrightarrow> (\<exists>etag w. ls_items s (rl_id d) = Some (etag, d, w)))" if q: "holds_lease s q" for q
  proof -
    have "process_ok L s q (Claiming (Done (Ok Acquired)))" using lease_invD(6) [OF inv] q by (simp add: holds_lease_def)
    then have "ls_written s q \<noteq> None" "lease_holder L s q" by (auto simp: process_ok_def claim_ends_def)
    then show ?thesis unfolding lease_holder_def by blast
  qed
  obtain d key t where d: "ls_written s p = Some d" "lease_new L key p t = Ok d" "t \<le> ls_clock s"
      "ls_clock s < t + lease_span \<longrightarrow> (\<exists>etag w. ls_items s (rl_id d) = Some (etag, d, w))"
    using held [OF assms(3)] by blast
  note new = lease_new_Ok [OF assms(1) d(2)]
  have "b \<le> ls_clock s" if other: "ls_clock s < t + lease_span" "q \<noteq> p" "holds_lease s q" "ls_written s q = Some d'"
      "rl_id d' = rl_id d" "lx_parse L (rl_expires_at d') = Some (b, 0)" for q d' b
  proof -
    obtain key' u where u: "lease_new L key' q u = Ok d'"
        "ls_clock s < u + lease_span \<longrightarrow> (\<exists>etag w. ls_items s (rl_id d') = Some (etag, d', w))"
      using held [OF other(3)] other(4) by auto
    have "d' \<noteq> d" using lease_new_Ok(2) [OF assms(1) u(1)] new(2) other(2) by auto
    then show ?thesis using u(2) d(4) other lease_new_Ok(7) [OF assms(1) u(1)] by force
  qed
  then show ?thesis using d new by blast
qed

text \<open>While nothing but time and the container's clean-up happens, the versions stay and items only go.\<close>

lemma idle_items:
  assumes "idle_step\<^sup>*\<^sup>* s s'"
  shows "ls_versions s' = ls_versions s \<and> ls_processes s' = ls_processes s \<and>
    (\<forall>i v. ls_items s' i = Some v \<longrightarrow> ls_items s i = Some v)"
  using assms
proof (induction rule: rtranclp_induct)
  case (step t u)
  from step(2) show ?case using step(3) by cases (auto split: if_splits)
qed simp

lemma idle_reachable: "idle_step\<^sup>*\<^sup>* s s' \<Longrightarrow> lease_reachable L s \<Longrightarrow> lease_reachable L s'"
  by (induction rule: rtranclp_induct) (auto intro: reach_step idle)

lemma claim_alone:
  assumes laws: "lease_laws L" and inv: "lease_inv L s"
    and new: "lease_new L key p (ls_clock s) = Ok d"
    and ended: "\<And>etag d0 w. ls_items s (rl_id d) = Some (etag, d0, w) \<Longrightarrow>
      lease_decision L d0 started (ls_clock s) = Ok None"
  shows "run_alone (claim_attempts L key p started (Suc n)) s = (Ok Acquired, store_item s (rl_id d) (fresh_etag s) d)"
proof (cases "ls_items s (rl_id d)")
  case None
  then show ?thesis by (simp add: new)
next
  case (Some v)
  obtain etag d0 w where v: "v = (etag, d0, w)" by (cases v)
  have item: "ls_items s (rl_id d) = Some (etag, d0, w)" using Some v by simp
  have "version_ok L (ls_clock s) (etag, d0)" using lease_invD(2,3) [OF inv] item by blast
  then have "etag \<noteq> []" "lease_validate L d0 = Ok ()" by (simp_all add: version_ok_def)
  then show ?thesis
    using lease_new_Ok(1) [OF laws new]
    by (simp add: new item read_refresh_lease_def answered_lease_def ended [OF item] replace_refresh_lease_def)
qed

text \<open>
  C7: a lost holder blocks nobody for long. From any state the processes can reach, wherever each of them
  stopped, once 150 seconds have passed, with or without the container's clean-up, a new process that claims
  for a request made after those events acquires the lease if it runs alone and no call fails, at the first
  attempt; and this run is one of the system's.
\<close>
theorem lease_available:
  assumes "lease_laws L" "lease_reachable L s" "idle_step\<^sup>*\<^sup>* s s'" "ls_clock s + lease_span \<le> ls_clock s'"
    and "ls_processes s p = None" "lx_parse L started = Some (t, 0)" "ls_clock s < t"
    and "lease_new L key p (ls_clock s') = Ok d"
  shows "run_alone (claim_refresh_lease L key p started) s' =
      (Ok Acquired, store_item s' (rl_id d) (fresh_etag s') d) \<and>
    (\<exists>s''. (lease_step L)\<^sup>*\<^sup>* s' s'' \<and> holds_lease s'' p)"
proof -
  note reach = idle_reachable [OF assms(3,2)] and idle = idle_items [OF assms(3)]
  note inv = lease_reachable_inv [OF assms(1) reach]
  have free: "lease_decision L d0 t (ls_clock s') = Ok None" if item: "ls_items s' (rl_id d) = Some (etag, d0, w)" for etag d0 w
  proof -
    have "(etag, d0) \<in> ls_versions s" using lease_invD(3) [OF inv item] idle by simp
    then have v: "version_ok L (ls_clock s) (etag, d0)" by (rule lease_invD(2) [OF lease_reachable_inv [OF assms(1,2)]])
    then obtain a where a: "lx_parse L (rl_leased_at d0) = Some (a, 0)" "a \<le> ls_clock s" by (auto simp: version_ok_def)
    show ?thesis
      by (rule decision_available [OF _ a(1)]) (use v a(2) assms(4,7) in \<open>fastforce simp: version_ok_def\<close>)+
  qed
  have "claim_refresh_lease L key p started = claim_attempts L key p t (Suc 4)"
    by (simp add: claim_refresh_lease_def cosmos_parse_utc_timestamp_def assms(6) CONDITIONAL_WRITE_ATTEMPTS_def
        eval_nat_numeral del: claim_attempts.simps)
  then have run: "run_alone (claim_refresh_lease L key p started) s' =
      (Ok Acquired, store_item s' (rl_id d) (fresh_etag s') d)"
    by (simp only:) (rule claim_alone [OF assms(1) inv assms(8)], rule free)
  let ?u = "s'\<lparr>ls_processes := (ls_processes s')(p \<mapsto> Claiming (claim_refresh_lease L key p started))\<rparr>"
  have start: "lease_step L s' ?u" using assms(5) idle by (intro start_claim) simp
  have "\<exists>s''. (lease_step L)\<^sup>*\<^sup>* ?u s'' \<and> ls_processes s'' = (ls_processes ?u)(p \<mapsto> Claiming (Done (Ok Acquired))) \<and>
      same_container (store_item s' (rl_id d) (fresh_etag s') d) s''"
    by (rule run_alone_steps [OF assms(1) reach_step [OF reach start] _ _ run]) (simp_all add: same_container_def)
  then show ?thesis
    using run start unfolding holds_lease_def by (metis converse_rtranclp_into_rtranclp fun_upd_same)
qed

section \<open>A concrete system\<close>

definition example_lease_env :: lease_env where
  "example_lease_env =
     \<lparr>lx_time = example_time (10 ^ 15), lx_parse = \<lambda>text. map_option (\<lambda>t. (t, 0)) (te_parse (example_time (10 ^ 15)) text),
      lx_uuid = Some\<rparr>"

lemma example_lease_laws: "lease_laws example_lease_env"
  using example_time_laws [of "10 ^ 15"] by (simp add: lease_laws_def example_lease_env_def time_laws_def)

definition example_key :: string where
  "example_key = replicate 64 CHR ''a''"

lemma example_lease_new:
  assumes "0 \<le> t" "t \<le> 10 ^ 14"
  shows "\<exists>d. lease_new example_lease_env example_key p t = Ok d"
proof -
  have "valid_hash example_key" by (simp add: valid_hash_def example_key_def list_all_iff)
  then show ?thesis
    using assms
    by (simp add: lease_new_def example_lease_env_def cache_format_timestamp_def Let_def lease_validate_def parse_utc_def
        canonical_uuid_def is_some_and_def duration_seconds_def REFRESH_LEASE_TTL_SECONDS_def)
qed

lemma reachable_steps: "(lease_step L)\<^sup>*\<^sup>* s s' \<Longrightarrow> lease_reachable L s \<Longrightarrow> lease_reachable L s'"
  by (induction rule: rtranclp_induct) (auto intro: reach_step)

lemma example_attempts:
  "claim_refresh_lease example_lease_env key p (show_nat n) =
     claim_attempts example_lease_env key p (int n) (Suc 4)"
  by (simp add: claim_refresh_lease_def cosmos_parse_utc_timestamp_def CONDITIONAL_WRITE_ATTEMPTS_def
      example_lease_env_def eval_nat_numeral del: claim_attempts.simps)

lemma example_acquired:
  "\<exists>s. lease_reachable example_lease_env s \<and> holds_lease s ''a'' \<and> ls_clock s = 0 \<and> ls_processes s ''b'' = None"
proof -
  let ?L = example_lease_env
  let ?u = "lease_start 0\<lparr>ls_processes := (ls_processes (lease_start 0))(''a'' \<mapsto>
      Claiming (claim_refresh_lease ?L example_key ''a'' (show_nat 0)))\<rparr>"
  have start: "lease_reachable ?L ?u" by (rule reach_step [OF reach_start start_claim]) (simp add: lease_start_def)
  obtain d where d: "lease_new ?L example_key ''a'' 0 = Ok d" using example_lease_new by fastforce
  have "run_alone (claim_refresh_lease ?L example_key ''a'' (show_nat 0)) (lease_start 0) =
      (Ok Acquired, store_item (lease_start 0) (rl_id d) (fresh_etag (lease_start 0)) d)"
    unfolding example_attempts
    by (rule claim_alone [OF example_lease_laws lease_inv_start]) (use d in \<open>simp_all add: lease_start_def\<close>)
  note run = this
  have "ls_processes ?u ''a'' = Some (Claiming (claim_refresh_lease ?L example_key ''a'' (show_nat 0)))"
    "same_container (lease_start 0) ?u" by (simp_all add: same_container_def)
  from run_alone_steps [OF example_lease_laws start this run]
  obtain s where "(lease_step ?L)\<^sup>*\<^sup>* ?u s" "ls_processes s = (ls_processes ?u)(''a'' \<mapsto> Claiming (Done (Ok Acquired)))"
      "same_container (store_item (lease_start 0) (rl_id d) (fresh_etag (lease_start 0)) d) s"
    by blast
  then show ?thesis
    using reachable_steps start by (intro exI [of _ s]) (auto simp: holds_lease_def same_container_def lease_start_def)
qed

lemma lease_exclusive_witness:
  "\<exists>s d. lease_reachable example_lease_env s \<and> holds_lease s ''a'' \<and> ls_written s ''a'' = Some d \<and>
     (\<exists>etag w. ls_items s (rl_id d) = Some (etag, d, w))"
proof -
  obtain s where s: "lease_reachable example_lease_env s" "holds_lease s ''a''" "ls_clock s = 0"
    using example_acquired by blast
  from lease_exclusive [OF example_lease_laws s(1,2)]
  obtain d a where d: "ls_written s ''a'' = Some d" "a \<le> ls_clock s" "lx_parse example_lease_env (rl_leased_at d) = Some (a, 0)"
      "ls_clock s < a + lease_span \<longrightarrow> (\<exists>etag w. ls_items s (rl_id d) = Some (etag, d, w))"
    by blast
  have "0 \<le> a" using d(3) by (auto simp: example_lease_env_def example_time_def split: if_splits)
  then have "ls_clock s < a + lease_span" using s(3) lease_span_pos by simp
  then show ?thesis using s d by blast
qed

lemma lease_available_witness:
  "\<exists>s s''. lease_reachable example_lease_env s \<and> holds_lease s ''a'' \<and>
     (lease_step example_lease_env)\<^sup>*\<^sup>* (s\<lparr>ls_clock := lease_span\<rparr>) s'' \<and> holds_lease s'' ''b''"
proof -
  obtain s where s: "lease_reachable example_lease_env s" "holds_lease s ''a''" "ls_clock s = 0" "ls_processes s ''b'' = None"
    using example_acquired by blast
  have "idle_step s (s\<lparr>ls_clock := lease_span\<rparr>)" using s(3) lease_span_pos by (intro tick) simp
  then have wait: "idle_step\<^sup>*\<^sup>* s (s\<lparr>ls_clock := lease_span\<rparr>)" by blast
  have "lease_span \<le> 10 ^ 14"
    by (simp add: lease_span_def duration_seconds_def REFRESH_LEASE_TTL_SECONDS_def)
  then obtain d where d: "lease_new example_lease_env example_key ''b'' (ls_clock (s\<lparr>ls_clock := lease_span\<rparr>)) = Ok d"
    using example_lease_new [of lease_span] lease_span_pos by auto
  have "lx_parse example_lease_env (show_nat 1) = Some (1, 0)" by (simp add: example_lease_env_def)
  from lease_available [OF example_lease_laws s(1) wait _ s(4) this _ d] s show ?thesis by auto
qed

end
