(* ===== verification/RefreshQuota.thy ===== *)
theory RefreshQuota
  imports LeaseSystem
begin

text \<open>
  The refresh quota: the documents of \<open>rust/src/persistence/pricing_cache.rs\<close>, the decisions of
  \<open>rust/src/rate_limit.rs\<close> and \<open>consume_refresh_quota\<close> of \<open>rust/src/persistence/cosmos.rs\<close>. An identity may start
  a bounded number of price refreshes in a window of one hour, which begins with the first of them; an
  operation is counted once however often it is submitted.
\<close>

section \<open>Documents\<close>

definition REFRESH_QUOTA_DOCUMENT_TYPE :: string where
  "REFRESH_QUOTA_DOCUMENT_TYPE = ''pricing_refresh_quota''"

definition REFRESH_QUOTA_TTL_SECONDS :: int where
  "REFRESH_QUOTA_TTL_SECONDS = 60 * 60"

definition REFRESH_QUOTA_ID_PREFIX :: string where
  "REFRESH_QUOTA_ID_PREFIX = ''refresh-quota-''"

definition MAX_PROVIDER_REFRESHES_PER_HOUR :: u32 where
  "MAX_PROVIDER_REFRESHES_PER_HOUR = 10000"

record refresh_quota_document =
  rq_id :: string
  rq_document_type :: string
  rq_cache_partition :: string
  rq_identity_sha256 :: string
  rq_window_started_at :: string
  rq_expires_at :: string
  rq_limit :: u32
  rq_count :: u32
  rq_operation_tokens :: "string list"
  rq_ttl :: int

datatype refresh_quota_mutation =
  QuotaUnchanged | QuotaLimited u64 | QuotaReplace refresh_quota_document

datatype refresh_quota_decision = QuotaAllowed | QuotaExceeded u64

datatype refresh_quota_error = QuotaUnavailable | QuotaInvalidData

definition validate_quota_inputs :: "lease_env \<Rightarrow> string \<Rightarrow> string \<Rightarrow> u32 \<Rightarrow> unit doc_result" where
  "validate_quota_inputs L identity_sha256 operation_token limit =
     (if valid_hash identity_sha256 \<and> canonical_uuid L operation_token \<and>
         1 \<le> limit \<and> limit \<le> MAX_PROVIDER_REFRESHES_PER_HOUR
      then Ok () else Err EnvelopeMismatch)"

definition remaining_seconds :: "instant \<Rightarrow> instant \<Rightarrow> u64 doc_result" where
  "remaining_seconds expires_at now =
     (let remaining = expires_at - now
      in if remaining \<le> 0 then Ok 0
         else let whole_seconds = remaining div duration_seconds 1;
                  rounded_seconds =
                    (if duration_seconds whole_seconds < remaining then whole_seconds + 1 else whole_seconds);
                  seconds = min rounded_seconds REFRESH_QUOTA_TTL_SECONDS
              in if seconds < 0 then Err EnvelopeMismatch else Ok (word_of_int seconds))"

definition quota_validate :: "lease_env \<Rightarrow> refresh_quota_document \<Rightarrow> unit doc_result" where
  "quota_validate L d =
     obind (parse_utc (lx_parse L) (rq_window_started_at d)) (\<lambda>window_started_at.
     obind (parse_utc (lx_parse L) (rq_expires_at d)) (\<lambda>expires_at.
     let valid_operations =
       card (set (rq_operation_tokens d)) = length (rq_operation_tokens d) \<and>
       list_all (canonical_uuid L) (rq_operation_tokens d)
     in if \<not> valid_hash (rq_identity_sha256 d) \<or>
           rq_id d \<noteq> REFRESH_QUOTA_ID_PREFIX @ rq_identity_sha256 d \<or>
           rq_document_type d \<noteq> REFRESH_QUOTA_DOCUMENT_TYPE \<or>
           rq_cache_partition d \<noteq> PRICING_CACHE_PARTITION \<or>
           rq_limit d = 0 \<or> MAX_PROVIDER_REFRESHES_PER_HOUR < rq_limit d \<or>
           rq_count d = 0 \<or> unat (rq_count d) \<noteq> length (rq_operation_tokens d) \<or>
           rq_limit d < rq_count d \<or> \<not> valid_operations \<or>
           expires_at - window_started_at \<noteq> duration_seconds REFRESH_QUOTA_TTL_SECONDS \<or>
           \<not> (1 \<le> rq_ttl d \<and> rq_ttl d \<le> REFRESH_QUOTA_TTL_SECONDS)
        then Err EnvelopeMismatch else Ok ()))"

definition quota_new ::
  "lease_env \<Rightarrow> string \<Rightarrow> string \<Rightarrow> u32 \<Rightarrow> instant \<Rightarrow> refresh_quota_document doc_result" where
  "quota_new L identity_sha256 operation_token limit now =
     obind (validate_quota_inputs L identity_sha256 operation_token limit) (\<lambda>_.
     obind (cache_format_timestamp L now) (\<lambda>window_started_at.
     obind (or_panic (te_checked_add (lx_time L) now (duration_seconds REFRESH_QUOTA_TTL_SECONDS))) (\<lambda>expires.
     obind (cache_format_timestamp L expires) (\<lambda>expires_at.
     let document =
       \<lparr>rq_id = REFRESH_QUOTA_ID_PREFIX @ identity_sha256, rq_document_type = REFRESH_QUOTA_DOCUMENT_TYPE,
        rq_cache_partition = PRICING_CACHE_PARTITION, rq_identity_sha256 = identity_sha256,
        rq_window_started_at = window_started_at, rq_expires_at = expires_at, rq_limit = limit, rq_count = 1,
        rq_operation_tokens = [operation_token], rq_ttl = REFRESH_QUOTA_TTL_SECONDS\<rparr>
     in obind (quota_validate L document) (\<lambda>_. Ok document)))))"

definition i32_try_from :: "u64 \<Rightarrow> int option" where
  "i32_try_from w = (if uint w < 2 ^ 31 then Some (uint w) else None)"

definition quota_consume ::
  "lease_env \<Rightarrow> refresh_quota_document \<Rightarrow> string \<Rightarrow> string \<Rightarrow> u32 \<Rightarrow> instant \<Rightarrow>
     refresh_quota_mutation doc_result" where
  "quota_consume L d identity_sha256 operation_token limit now =
     obind (quota_validate L d) (\<lambda>_.
     obind (validate_quota_inputs L identity_sha256 operation_token limit) (\<lambda>_.
     if rq_identity_sha256 d \<noteq> identity_sha256 then Err EnvelopeMismatch
     else if list_ex (\<lambda>applied. applied = operation_token) (rq_operation_tokens d) then Ok QuotaUnchanged
     else obind (parse_utc (lx_parse L) (rq_expires_at d)) (\<lambda>expires_at.
       if expires_at \<le> now
       then obind (quota_new L identity_sha256 operation_token limit now) (\<lambda>document. Ok (QuotaReplace document))
       else obind (remaining_seconds expires_at now) (\<lambda>retry_after.
         if min (rq_limit d) limit \<le> rq_count d then Ok (QuotaLimited retry_after)
         else obind (ok_or (i32_try_from retry_after) EnvelopeMismatch) (\<lambda>ttl.
           let updated = d\<lparr>rq_count := rq_count d + 1,
                 rq_operation_tokens := rq_operation_tokens d @ [operation_token], rq_ttl := ttl\<rparr>
           in obind (quota_validate L updated) (\<lambda>_. Ok (QuotaReplace updated)))))))"

section \<open>The stored quota\<close>

type_synonym 'a quota_result = "(refresh_quota_error, 'a) outcome"

type_synonym 'a quota_io = "(refresh_quota_document, 'a) item_io"

definition map_quota_cosmos_error :: "u16 \<Rightarrow> refresh_quota_error" where
  "map_quota_cosmos_error status = QuotaUnavailable"

definition map_quota_document_error :: "pricing_cache_document_error \<Rightarrow> refresh_quota_error" where
  "map_quota_document_error error = QuotaInvalidData"

definition answered_quota ::
  "lease_env \<Rightarrow> refresh_quota_document item_answer \<Rightarrow> (refresh_quota_document \<times> string) option quota_result" where
  "answered_quota L answer =
     (case answer of
        Ok (header, body) \<Rightarrow>
          obind (ok_or (case header of Some etag \<Rightarrow> if etag = [] then None else Some etag | None \<Rightarrow> None) QuotaInvalidData)
            (\<lambda>etag.
             obind (map_err (\<lambda>_. QuotaInvalidData) body) (\<lambda>document.
             obind (map_err map_quota_document_error (quota_validate L document)) (\<lambda>_.
             Ok (Some (document, etag)))))
      | Err status \<Rightarrow> if status = 404 then Ok None else Err (map_quota_cosmos_error status)
      | Panic \<Rightarrow> Panic)"

definition read_refresh_quota ::
  "lease_env \<Rightarrow> string \<Rightarrow> ((refresh_quota_document \<times> string) option quota_result \<Rightarrow> 'b quota_io) \<Rightarrow> 'b quota_io" where
  "read_refresh_quota L quota_id continue = ReadItem quota_id (\<lambda>answer. continue (answered_quota L answer))"

fun quota_replaced :: "(u16, unit) outcome \<Rightarrow> bool quota_result" where
  "quota_replaced (Ok _) = Ok True"
| "quota_replaced (Err status) =
     (if status = 412 \<or> status = 404 then Ok False else Err (map_quota_cosmos_error status))"
| "quota_replaced Panic = Panic"

definition replace_refresh_quota ::
  "lease_env \<Rightarrow> refresh_quota_document \<Rightarrow> string \<Rightarrow> (bool quota_result \<Rightarrow> 'b quota_io) \<Rightarrow> 'b quota_io" where
  "replace_refresh_quota L document etag continue =
     (case map_err map_quota_document_error (quota_validate L document) of
        Ok _ \<Rightarrow> ReplaceItem (rq_id document) document etag (\<lambda>answer. continue (quota_replaced answer))
      | Err e \<Rightarrow> continue (Err e)
      | Panic \<Rightarrow> continue Panic)"

fun consume_attempts ::
  "lease_env \<Rightarrow> string \<Rightarrow> string \<Rightarrow> u32 \<Rightarrow> string \<Rightarrow> nat \<Rightarrow> refresh_quota_decision quota_result quota_io" where
  "consume_attempts L identity_sha256 operation_token limit quota_id 0 = Done (Err QuotaUnavailable)"
| "consume_attempts L identity_sha256 operation_token limit quota_id (Suc n) =
     read_refresh_quota L quota_id (\<lambda>current.
       case current of
         Ok (Some (document, etag)) \<Rightarrow>
           Now (\<lambda>now.
           io_try (map_err map_quota_document_error
                     (quota_consume L document identity_sha256 operation_token limit now)) (\<lambda>mutation.
             case mutation of
               QuotaUnchanged \<Rightarrow> Done (Ok QuotaAllowed)
             | QuotaLimited retry_after_seconds \<Rightarrow> Done (Ok (QuotaExceeded retry_after_seconds))
             | QuotaReplace updated \<Rightarrow>
                 replace_refresh_quota L updated etag (\<lambda>replaced.
                   case replaced of
                     Ok True \<Rightarrow> Done (Ok QuotaAllowed)
                   | Ok False \<Rightarrow> consume_attempts L identity_sha256 operation_token limit quota_id n
                   | Err QuotaUnavailable \<Rightarrow> consume_attempts L identity_sha256 operation_token limit quota_id n
                   | Err error \<Rightarrow> Done (Err error)
                   | Panic \<Rightarrow> Done Panic)))
       | Ok None \<Rightarrow>
           Now (\<lambda>now.
           io_try (map_err map_quota_document_error (quota_new L identity_sha256 operation_token limit now))
             (\<lambda>candidate.
              CreateItem candidate (\<lambda>answer.
                case answer of
                  Ok _ \<Rightarrow> Done (Ok QuotaAllowed)
                | Err status \<Rightarrow> consume_attempts L identity_sha256 operation_token limit quota_id n
                | Panic \<Rightarrow> Done Panic)))
       | Err QuotaUnavailable \<Rightarrow> consume_attempts L identity_sha256 operation_token limit quota_id n
       | Err error \<Rightarrow> Done (Err error)
       | Panic \<Rightarrow> Done Panic)"

definition consume_refresh_quota ::
  "lease_env \<Rightarrow> string \<Rightarrow> string \<Rightarrow> u32 \<Rightarrow> refresh_quota_decision quota_result quota_io" where
  "consume_refresh_quota L identity_sha256 operation_token limit =
     Now (\<lambda>now.
     io_try (map_err map_quota_document_error (quota_new L identity_sha256 operation_token limit now)) (\<lambda>initial.
     consume_attempts L identity_sha256 operation_token limit (rq_id initial) CONDITIONAL_WRITE_ATTEMPTS))"

section \<open>One request after the other\<close>

text \<open>
  An operation runs alone, at one instant, against the one stored item; no call fails. The container may also drop
  the item at its time to live; that is the store \<open>None\<close>, from which every statement below may start as well.
\<close>

primrec item_run :: "('d, 'a) item_io \<Rightarrow> instant \<Rightarrow> 'd option \<Rightarrow> 'a \<times> 'd option" where
  "item_run (Done r) now store = (r, store)"
| "item_run (Now k) now store = item_run (k now) now store"
| "item_run (CreateItem d k) now store =
     (case store of
        None \<Rightarrow> item_run (k (Ok ())) now (Some d)
      | Some _ \<Rightarrow> item_run (k (Err 409)) now store)"
| "item_run (ReadItem i k) now store =
     (case store of
        None \<Rightarrow> item_run (k (Err 404)) now store
      | Some d \<Rightarrow> item_run (k (Ok (Some ''etag'', Ok d))) now store)"
| "item_run (ReplaceItem i d etag k) now store =
     (case store of
        None \<Rightarrow> item_run (k (Err 404)) now store
      | Some _ \<Rightarrow> item_run (k (Ok ())) now (Some d))"

definition quota_serve ::
  "lease_env \<Rightarrow> string \<Rightarrow> u32 \<Rightarrow> refresh_quota_document option \<Rightarrow> string \<times> instant \<Rightarrow>
     refresh_quota_decision quota_result \<times> refresh_quota_document option" where
  "quota_serve L identity_sha256 limit store request =
     item_run (consume_refresh_quota L identity_sha256 (fst request) limit) (snd request) store"

section \<open>The contract\<close>

text \<open>The begin of the current window and the operations counted in it.\<close>

definition quota_hour :: int where
  "quota_hour = duration_seconds REFRESH_QUOTA_TTL_SECONDS"

definition retry_seconds :: "int \<Rightarrow> u64" where
  "retry_seconds remaining = word_of_int (min ((remaining + 999999999) div 1000000000) 3600)"

fun window_spec ::
  "nat \<Rightarrow> (instant \<times> string list) option \<Rightarrow> string \<times> instant \<Rightarrow>
     refresh_quota_decision \<times> (instant \<times> string list) option" where
  "window_spec limit None (token, now) = (QuotaAllowed, Some (now, [token]))"
| "window_spec limit (Some (start, tokens)) (token, now) =
     (if token \<in> set tokens then (QuotaAllowed, Some (start, tokens))
      else if start + quota_hour \<le> now then (QuotaAllowed, Some (now, [token]))
      else if length tokens < limit then (QuotaAllowed, Some (start, tokens @ [token]))
      else (QuotaExceeded (retry_seconds (start + quota_hour - now)), Some (start, tokens)))"

definition quota_window :: "lease_env \<Rightarrow> refresh_quota_document \<Rightarrow> instant \<times> string list" where
  "quota_window L d =
     (case lx_parse L (rq_window_started_at d) of Some (t, _) \<Rightarrow> t | None \<Rightarrow> 0, rq_operation_tokens d)"

definition quota_stored :: "lease_env \<Rightarrow> string \<Rightarrow> u32 \<Rightarrow> refresh_quota_document option \<Rightarrow> bool" where
  "quota_stored L identity_sha256 limit store \<longleftrightarrow>
     (\<forall>d. store = Some d \<longrightarrow>
        quota_validate L d = Ok () \<and> rq_identity_sha256 d = identity_sha256 \<and> rq_limit d = limit)"

lemma retry_seconds_eq:
  assumes "now < expires_at"
  shows "remaining_seconds expires_at now = Ok (retry_seconds (expires_at - now))"
    and "0 < uint (retry_seconds (expires_at - now))" "uint (retry_seconds (expires_at - now)) \<le> 3600"
proof -
  let ?r = "expires_at - now"
  have ceil: "(if ?r div 1000000000 * 1000000000 < ?r then ?r div 1000000000 + 1 else ?r div 1000000000) =
      (?r + 999999999) div 1000000000"
    by (auto split: if_splits)
  have pos: "0 < (?r + 999999999) div 1000000000" using assms by (simp add: pos_imp_zdiv_pos_iff)
  show "remaining_seconds expires_at now = Ok (retry_seconds ?r)"
    using assms ceil pos
    by (simp add: remaining_seconds_def duration_seconds_def Let_def retry_seconds_def REFRESH_QUOTA_TTL_SECONDS_def)
  have "uint (word_of_int v :: u64) = v" if "0 < v" "v \<le> 3600" for v
    using that by (simp add: uint_word_of_int)
  then show "0 < uint (retry_seconds ?r)" "uint (retry_seconds ?r) \<le> 3600"
    using pos by (simp_all add: retry_seconds_def min_def)
qed

lemma quota_new_Ok:
  assumes "lease_laws L" "quota_new L identity_sha256 token limit now = Ok d"
  shows "quota_validate L d = Ok ()" "rq_identity_sha256 d = identity_sha256" "rq_limit d = limit"
    "quota_window L d = (now, [token])" "validate_quota_inputs L identity_sha256 token limit = Ok ()"
  using assms by (auto simp: quota_new_def obind_Ok_iff cache_format_timestamp_def Let_def quota_window_def lease_laws_def)

lemma quota_validE:
  assumes "quota_validate L d = Ok ()"
  obtains start where "lx_parse L (rq_window_started_at d) = Some (start, 0)"
    "lx_parse L (rq_expires_at d) = Some (start + quota_hour, 0)" "quota_window L d = (start, rq_operation_tokens d)"
    "unat (rq_count d) = length (rq_operation_tokens d)" "unat (rq_count d) \<le> unat (rq_limit d)"
    "distinct (rq_operation_tokens d)" "rq_limit d \<le> MAX_PROVIDER_REFRESHES_PER_HOUR"
proof -
  obtain a b where ab: "lx_parse L (rq_window_started_at d) = Some (a, 0)" "lx_parse L (rq_expires_at d) = Some (b, 0)"
    using assms by (auto simp: quota_validate_def obind_Ok_iff parse_utc_Ok)
  have parsed: "parse_utc (lx_parse L) (rq_window_started_at d) = Ok a" "parse_utc (lx_parse L) (rq_expires_at d) = Ok b"
    using ab by (simp_all add: parse_utc_Ok)
  have "b = a + quota_hour" "unat (rq_count d) = length (rq_operation_tokens d)" "rq_count d \<le> rq_limit d"
      "card (set (rq_operation_tokens d)) = length (rq_operation_tokens d)"
      "rq_limit d \<le> MAX_PROVIDER_REFRESHES_PER_HOUR"
    using assms by (auto simp: quota_validate_def parsed quota_hour_def Let_def not_less split: if_splits)
  then show thesis
    using ab by (intro that [of a]) (simp_all add: quota_window_def card_distinct word_le_nat_alt)
qed

text \<open>Counting one more operation keeps the document valid.\<close>

lemma quota_counted:
  assumes "quota_validate L d = Ok ()" "rq_count d < rq_limit d" "token \<notin> set (rq_operation_tokens d)"
    "canonical_uuid L token" "1 \<le> ttl" "ttl \<le> REFRESH_QUOTA_TTL_SECONDS"
  shows "quota_validate L (d\<lparr>rq_count := rq_count d + 1, rq_operation_tokens := rq_operation_tokens d @ [token],
    rq_ttl := ttl\<rparr>) = Ok ()"
proof -
  obtain a b where parsed: "parse_utc (lx_parse L) (rq_window_started_at d) = Ok a" "parse_utc (lx_parse L) (rq_expires_at d) = Ok b"
    using assms(1) by (auto simp: quota_validate_def obind_Ok_iff)
  have next_count: "unat (rq_count d + 1) = unat (rq_count d) + 1"
    using assms(2) unsigned_less [of "rq_limit d", where 'a = nat] by (simp add: unat_word_ariths word_less_nat_alt)
  then have "rq_count d + 1 \<noteq> 0" "\<not> rq_limit d < rq_count d + 1"
    using assms(2) by (auto simp: word_less_nat_alt)
  then show ?thesis
    using assms next_count
    by (auto simp: quota_validate_def parsed Let_def split: if_splits)
qed

lemma quota_consume_spec:
  assumes valid: "quota_validate L d = Ok ()" and inputs: "validate_quota_inputs L identity_sha256 token limit = Ok ()"
    and d: "rq_identity_sha256 d = identity_sha256" "rq_limit d = limit"
    and start: "lx_parse L (rq_window_started_at d) = Some (start, 0)"
  shows "token \<in> set (rq_operation_tokens d) \<Longrightarrow> quota_consume L d identity_sha256 token limit now = Ok QuotaUnchanged"
    and "token \<notin> set (rq_operation_tokens d) \<Longrightarrow> start + quota_hour \<le> now \<Longrightarrow>
      quota_new L identity_sha256 token limit now = Ok d0 \<Longrightarrow>
      quota_consume L d identity_sha256 token limit now = Ok (QuotaReplace d0)"
    and "token \<notin> set (rq_operation_tokens d) \<Longrightarrow> now < start + quota_hour \<Longrightarrow>
      length (rq_operation_tokens d) < unat limit \<Longrightarrow>
      \<exists>ttl. let d' = d\<lparr>rq_count := rq_count d + 1, rq_operation_tokens := rq_operation_tokens d @ [token], rq_ttl := ttl\<rparr>
        in quota_validate L d' = Ok () \<and> quota_consume L d identity_sha256 token limit now = Ok (QuotaReplace d')"
    and "token \<notin> set (rq_operation_tokens d) \<Longrightarrow> now < start + quota_hour \<Longrightarrow>
      \<not> length (rq_operation_tokens d) < unat limit \<Longrightarrow>
      quota_consume L d identity_sha256 token limit now = Ok (QuotaLimited (retry_seconds (start + quota_hour - now)))"
proof -
  have count: "unat (rq_count d) = length (rq_operation_tokens d)"
    and expires: "parse_utc (lx_parse L) (rq_expires_at d) = Ok (start + quota_hour)"
    using valid start by (auto elim!: quota_validE simp: parse_utc_Ok)
  have applied: "list_ex (\<lambda>applied. applied = token) (rq_operation_tokens d) \<longleftrightarrow> token \<in> set (rq_operation_tokens d)"
    by (simp add: list_ex_iff)
  have full: "limit \<le> rq_count d \<longleftrightarrow> \<not> length (rq_operation_tokens d) < unat limit"
    by (simp add: count [symmetric] word_le_nat_alt not_less)
  note consume = quota_consume_def valid inputs d applied expires full
  show "token \<in> set (rq_operation_tokens d) \<Longrightarrow> quota_consume L d identity_sha256 token limit now = Ok QuotaUnchanged"
    by (simp add: consume)
  show "token \<notin> set (rq_operation_tokens d) \<Longrightarrow> start + quota_hour \<le> now \<Longrightarrow>
      quota_new L identity_sha256 token limit now = Ok d0 \<Longrightarrow>
      quota_consume L d identity_sha256 token limit now = Ok (QuotaReplace d0)"
    by (simp add: consume)
  let ?retry = "retry_seconds (start + quota_hour - now)"
  show "token \<notin> set (rq_operation_tokens d) \<Longrightarrow> now < start + quota_hour \<Longrightarrow>
      \<not> length (rq_operation_tokens d) < unat limit \<Longrightarrow>
      quota_consume L d identity_sha256 token limit now = Ok (QuotaLimited ?retry)"
    by (simp add: consume retry_seconds_eq)
  assume free: "token \<notin> set (rq_operation_tokens d)" "now < start + quota_hour"
      "length (rq_operation_tokens d) < unat limit"
  have uuid: "canonical_uuid L token" using inputs by (auto simp: validate_quota_inputs_def split: if_splits)
  have ttl: "1 \<le> uint ?retry" "uint ?retry \<le> REFRESH_QUOTA_TTL_SECONDS" "i32_try_from ?retry = Some (uint ?retry)"
    using retry_seconds_eq(2,3) [OF free(2)] by (simp_all add: REFRESH_QUOTA_TTL_SECONDS_def i32_try_from_def)
  have less: "rq_count d < rq_limit d" using free(3) by (simp add: word_less_nat_alt d count)
  have valid': "quota_validate L (d\<lparr>rq_count := rq_count d + 1, rq_operation_tokens := rq_operation_tokens d @ [token],
      rq_ttl := uint ?retry\<rparr>) = Ok ()"
    by (rule quota_counted [OF valid less free(1) uuid ttl(1,2)])
  then show "\<exists>ttl. let d' = d\<lparr>rq_count := rq_count d + 1, rq_operation_tokens := rq_operation_tokens d @ [token], rq_ttl := ttl\<rparr>
        in quota_validate L d' = Ok () \<and> quota_consume L d identity_sha256 token limit now = Ok (QuotaReplace d')"
    using free by (intro exI [of _ "uint ?retry"]) (simp add: consume retry_seconds_eq ttl(3) Let_def)
qed

lemma quota_serve_spec:
  assumes laws: "lease_laws L" and stored: "quota_stored L identity_sha256 limit store"
    and fresh: "quota_new L identity_sha256 (fst request) limit (snd request) = Ok d0"
  shows "fst (quota_serve L identity_sha256 limit store request) =
      Ok (fst (window_spec (unat limit) (map_option (quota_window L) store) request)) \<and>
    map_option (quota_window L) (snd (quota_serve L identity_sha256 limit store request)) =
      snd (window_spec (unat limit) (map_option (quota_window L) store) request) \<and>
    quota_stored L identity_sha256 limit (snd (quota_serve L identity_sha256 limit store request))"
proof -
  obtain token now where request: "request = (token, now)" by (cases request)
  note new = quota_new_Ok [OF laws fresh [unfolded request fst_conv snd_conv]]
  have fresh': "quota_new L identity_sha256 token limit now = Ok d0" using fresh request by simp
  obtain n where n: "CONDITIONAL_WRITE_ATTEMPTS = Suc n" by (simp add: CONDITIONAL_WRITE_ATTEMPTS_def eval_nat_numeral)
  have attempts: "quota_serve L identity_sha256 limit store (token, now) =
      item_run (consume_attempts L identity_sha256 token limit (rq_id d0) (Suc n)) now store"
    by (simp add: quota_serve_def consume_refresh_quota_def fresh' n del: consume_attempts.simps)
  have "fst (quota_serve L identity_sha256 limit store (token, now)) =
      Ok (fst (window_spec (unat limit) (map_option (quota_window L) store) (token, now))) \<and>
    map_option (quota_window L) (snd (quota_serve L identity_sha256 limit store (token, now))) =
      snd (window_spec (unat limit) (map_option (quota_window L) store) (token, now)) \<and>
    quota_stored L identity_sha256 limit (snd (quota_serve L identity_sha256 limit store (token, now)))"
  proof (cases store)
    case None
    then show ?thesis unfolding attempts
      using new by (simp add: read_refresh_quota_def answered_quota_def fresh' quota_stored_def)
  next
    case (Some d)
    then have d: "quota_validate L d = Ok ()" "rq_identity_sha256 d = identity_sha256" "rq_limit d = limit"
      using stored by (simp_all add: quota_stored_def)
    obtain start where start: "lx_parse L (rq_window_started_at d) = Some (start, 0)"
        "quota_window L d = (start, rq_operation_tokens d)"
      using d(1) by (rule quota_validE)
    note consume = quota_consume_spec [OF d(1) new(5) d(2,3) start(1)]
    note run = read_refresh_quota_def answered_quota_def d(1) Some start(2) quota_stored_def replace_refresh_quota_def
    consider (same) "token \<in> set (rq_operation_tokens d)"
      | (ended) "token \<notin> set (rq_operation_tokens d)" "start + quota_hour \<le> now"
      | (counted) "token \<notin> set (rq_operation_tokens d)" "now < start + quota_hour" "length (rq_operation_tokens d) < unat limit"
      | (full) "token \<notin> set (rq_operation_tokens d)" "now < start + quota_hour" "\<not> length (rq_operation_tokens d) < unat limit"
      by linarith
    then show ?thesis
    proof cases
      case same
      then show ?thesis unfolding attempts using consume(1) d by (simp add: run)
    next
      case ended
      then show ?thesis unfolding attempts using consume(2) [OF ended fresh'] d new by (simp add: run)
    next
      case full
      then show ?thesis unfolding attempts using consume(4) [OF full] d by (simp add: run)
    next
      case counted
      then obtain ttl where "quota_validate L (d\<lparr>rq_count := rq_count d + 1, rq_operation_tokens := rq_operation_tokens d @ [token],
            rq_ttl := ttl\<rparr>) = Ok ()"
          "quota_consume L d identity_sha256 token limit now = Ok (QuotaReplace (d\<lparr>rq_count := rq_count d + 1,
            rq_operation_tokens := rq_operation_tokens d @ [token], rq_ttl := ttl\<rparr>))"
        using consume(3) [OF counted] by (auto simp: Let_def)
      then show ?thesis unfolding attempts using counted d start by (simp add: run) (simp add: quota_window_def)
    qed
  qed
  then show ?thesis by (simp only: request)
qed

section \<open>Bounds of the contract\<close>

definition allowed_tokens :: "(string \<times> instant) list \<Rightarrow> refresh_quota_decision list \<Rightarrow> string set" where
  "allowed_tokens requests decisions = {token. \<exists>now. ((token, now), QuotaAllowed) \<in> set (zip requests decisions)}"

lemma allowed_tokens_Cons:
  "allowed_tokens (q # qs) (r # rs) = (if r = QuotaAllowed then {fst q} else {}) \<union> allowed_tokens qs rs"
  by (cases q) (auto simp: allowed_tokens_def)

lemma window_kept:
  assumes "length tokens \<le> limit" "token \<in> set tokens \<or> now < start + quota_hour"
  obtains tokens1 r where "window_spec limit (Some (start, tokens)) (token, now) = (r, Some (start, tokens1))"
    "length tokens1 \<le> limit" "set tokens \<subseteq> set tokens1" "r = QuotaAllowed \<longrightarrow> token \<in> set tokens1"
proof (cases "token \<in> set tokens")
  case False
  then show thesis
    using assms that [of _ "if length tokens < limit then tokens @ [token] else tokens"]
    by (cases "length tokens < limit") auto
qed (use assms that [of QuotaAllowed tokens] in auto)

lemma one_window:
  assumes "\<forall>q\<in>set qs. snd q < start + quota_hour" "length tokens \<le> limit"
  shows "\<exists>tokens'. length tokens' \<le> limit \<and> set tokens \<subseteq> set tokens' \<and>
    allowed_tokens qs (fst (run_ops (window_spec limit) (Some (start, tokens)) qs)) \<subseteq> set tokens'"
  using assms
proof (induction qs arbitrary: tokens)
  case (Cons q qs)
  obtain token now where q: "q = (token, now)" by (cases q)
  have "token \<in> set tokens \<or> now < start + quota_hour" using Cons.prems(1) by (simp add: q)
  from window_kept [OF Cons.prems(2) this]
  obtain tokens1 r where step: "window_spec limit (Some (start, tokens)) q = (r, Some (start, tokens1))"
      "length tokens1 \<le> limit" "set tokens \<subseteq> set tokens1" "r = QuotaAllowed \<longrightarrow> token \<in> set tokens1"
    unfolding q .
  from Cons.IH [OF _ step(2)] Cons.prems(1)
  obtain tokens' where "length tokens' \<le> limit" "set tokens1 \<subseteq> set tokens'"
      "allowed_tokens qs (fst (run_ops (window_spec limit) (Some (start, tokens1)) qs)) \<subseteq> set tokens'" by auto
  then show ?case using step(3,4)
    by (intro exI [of _ tokens']) (simp add: run_ops_Cons [of "window_spec limit", OF step(1)] allowed_tokens_Cons, auto simp: q)
qed (auto simp: allowed_tokens_def)

lemma two_windows:
  assumes "\<forall>q\<in>set qs. t \<le> snd q \<and> snd q < t + quota_hour" "length tokens \<le> limit" "0 < limit"
  shows "\<exists>A B. length A \<le> limit \<and> length B \<le> limit \<and> set tokens \<subseteq> set A \<union> set B \<and>
    allowed_tokens qs (fst (run_ops (window_spec limit) (Some (start, tokens)) qs)) \<subseteq> set A \<union> set B"
  using assms(1,2)
proof (induction qs arbitrary: tokens)
  case Nil
  then show ?case by (intro exI [of _ tokens] exI [of _ "[]"]) (simp add: allowed_tokens_def)
next
  case (Cons q qs)
  obtain token now where q: "q = (token, now)" by (cases q)
  show ?case
  proof (cases "token \<notin> set tokens \<and> start + quota_hour \<le> now")
    case True
    then have step: "window_spec limit (Some (start, tokens)) q = (QuotaAllowed, Some (now, [token]))" by (simp add: q)
    obtain B where "length B \<le> limit" "set [token] \<subseteq> set B"
        "allowed_tokens qs (fst (run_ops (window_spec limit) (Some (now, [token])) qs)) \<subseteq> set B"
      using one_window [of qs now "[token]" limit] Cons.prems(1) assms(3) by (fastforce simp: q)
    then show ?thesis
      using Cons.prems(2) by (intro exI [of _ tokens] exI [of _ B]) (simp add: run_ops_Cons [of "window_spec limit", OF step] allowed_tokens_Cons, auto simp: q)
  next
    case False
    then have "token \<in> set tokens \<or> now < start + quota_hour" by auto
    from window_kept [OF Cons.prems(2) this]
    obtain tokens1 r where step: "window_spec limit (Some (start, tokens)) q = (r, Some (start, tokens1))"
        "length tokens1 \<le> limit" "set tokens \<subseteq> set tokens1" "r = QuotaAllowed \<longrightarrow> token \<in> set tokens1"
      unfolding q .
    from Cons.IH [OF _ step(2)] Cons.prems(1)
    obtain A B where "length A \<le> limit" "length B \<le> limit" "set tokens1 \<subseteq> set A \<union> set B"
        "allowed_tokens qs (fst (run_ops (window_spec limit) (Some (start, tokens1)) qs)) \<subseteq> set A \<union> set B" by auto
    then show ?thesis
      using step(3,4)
      by (intro exI [of _ A] exI [of _ B]) (simp add: run_ops_Cons [of "window_spec limit", OF step(1)] allowed_tokens_Cons, auto simp: q)
  qed
qed

section \<open>Sequences of requests\<close>

lemma quota_runs:
  assumes "lease_laws L" "quota_stored L identity_sha256 limit store"
    "\<forall>q\<in>set qs. \<exists>d. quota_new L identity_sha256 (fst q) limit (snd q) = Ok d"
  shows "fst (run_ops (quota_serve L identity_sha256 limit) store qs) =
      map Ok (fst (run_ops (window_spec (unat limit)) (map_option (quota_window L) store) qs)) \<and>
    map_option (quota_window L) (snd (run_ops (quota_serve L identity_sha256 limit) store qs)) =
      snd (run_ops (window_spec (unat limit)) (map_option (quota_window L) store) qs)"
  using assms(2,3)
proof (induction qs arbitrary: store)
  case (Cons q qs)
  let ?serve = "quota_serve L identity_sha256 limit" and ?spec = "window_spec (unat limit)"
  obtain d where "quota_new L identity_sha256 (fst q) limit (snd q) = Ok d" using Cons.prems(2) by auto
  note served = quota_serve_spec [OF assms(1) Cons.prems(1) this]
  obtain r store' where serve: "?serve store q = (r, store')" by fastforce
  obtain s window' where spec: "?spec (map_option (quota_window L) store) q = (s, window')" by fastforce
  have "r = Ok s" "map_option (quota_window L) store' = window'" "quota_stored L identity_sha256 limit store'"
    using served by (simp_all add: serve spec)
  then show ?case
    using Cons.IH [of store'] Cons.prems(2)
    by (simp add: run_ops_Cons [of ?serve, OF serve] run_ops_Cons [of ?spec, OF spec])
qed simp

lemma stored_window:
  assumes "quota_stored L identity_sha256 limit (Some d)"
  obtains start where "quota_window L d = (start, rq_operation_tokens d)" "length (rq_operation_tokens d) \<le> unat limit"
  using assms by (auto simp: quota_stored_def elim!: quota_validE)

text \<open>The operations let through by a sequence of requests.\<close>

definition let_through ::
  "(string \<times> instant) list \<Rightarrow> refresh_quota_decision quota_result list \<Rightarrow> string set" where
  "let_through requests decisions = {token. \<exists>now. ((token, now), Ok QuotaAllowed) \<in> set (zip requests decisions)}"

lemma let_through_Ok: "let_through qs (map Ok rs) = allowed_tokens qs rs"
  by (auto simp: let_through_def allowed_tokens_def zip_map2)

lemma window_limit: "validate_quota_inputs L identity_sha256 token limit = Ok () \<Longrightarrow> 0 < unat limit"
  by (auto simp: validate_quota_inputs_def word_le_nat_alt split: if_splits)

lemma card_two_lists:
  assumes "S \<subseteq> set A \<union> set B" "length A \<le> n" "length B \<le> n"
  shows "card S \<le> 2 * n"
proof -
  have "card S \<le> card (set (A @ B))" using assms(1) by (intro card_mono) auto
  also have "\<dots> \<le> length (A @ B)" by (rule card_length)
  finally show ?thesis using assms(2,3) by simp
qed

lemma spec_bounded:
  assumes "\<forall>q\<in>set qs. t \<le> snd q \<and> snd q < t + quota_hour" "0 < limit"
    "\<And>start tokens. window = Some (start, tokens) \<Longrightarrow> length tokens \<le> limit"
  shows "card (allowed_tokens qs (fst (run_ops (window_spec limit) window qs))) \<le> (if window = None then limit else 2 * limit)"
proof (cases window)
  case (Some w)
  obtain start tokens where w: "w = (start, tokens)" by (cases w)
  obtain A B where "length A \<le> limit" "length B \<le> limit"
      "allowed_tokens qs (fst (run_ops (window_spec limit) (Some (start, tokens)) qs)) \<subseteq> set A \<union> set B"
    using two_windows [OF assms(1) assms(3) [OF Some [unfolded w]] assms(2), of start] by blast
  then show ?thesis using card_two_lists by (simp add: Some w)
next
  case None
  show ?thesis
  proof (cases qs)
    case (Cons q qs')
    obtain token now where q: "q = (token, now)" by (cases q)
    have step: "window_spec limit None q = (QuotaAllowed, Some (now, [token]))" by (simp add: q)
    have "\<forall>q\<in>set qs'. snd q < now + quota_hour" using assms(1) by (fastforce simp: Cons q)
    then obtain B where B: "length B \<le> limit" "set [token] \<subseteq> set B"
        "allowed_tokens qs' (fst (run_ops (window_spec limit) (Some (now, [token])) qs')) \<subseteq> set B"
      using one_window [of qs' now "[token]" limit] assms(2) by (metis One_nat_def Suc_leI length_Cons list.size(3))
    have "allowed_tokens qs (fst (run_ops (window_spec limit) None qs)) \<subseteq> set B"
      unfolding Cons using B(2,3)
      by (simp add: run_ops_Cons [of "window_spec limit", OF step] allowed_tokens_Cons) (simp add: q)
    then have "card (allowed_tokens qs (fst (run_ops (window_spec limit) None qs))) \<le> card (set B)"
      by (intro card_mono) auto
    then show ?thesis using None B(1) card_length [of B] by simp
  qed (simp add: None allowed_tokens_def)
qed

section \<open>The properties\<close>

text \<open>
  C8: Requests that come one after the other are decided as the contract says: the code's conditional writes on the
  stored document, over any sequence of requests, give the decisions of a window of one hour that begins with its
  first operation, counts an operation once, admits as many operations as the limit and tells a refused caller the
  seconds left, and the document kept is that window.
\<close>

theorem quota_refines_windows:
  assumes "lease_laws L" "quota_stored L identity_sha256 limit store"
    "\<forall>q\<in>set qs. \<exists>d. quota_new L identity_sha256 (fst q) limit (snd q) = Ok d"
  shows "fst (run_ops (quota_serve L identity_sha256 limit) store qs) =
      map Ok (fst (run_ops (window_spec (unat limit)) (map_option (quota_window L) store) qs)) \<and>
    map_option (quota_window L) (snd (run_ops (quota_serve L identity_sha256 limit) store qs)) =
      snd (run_ops (window_spec (unat limit)) (map_option (quota_window L) store) qs)"
  by (rule quota_runs [OF assms])

text \<open>
  Such requests start in any hour at most twice as many refreshes as the limit, whatever document is stored before it,
  and at most the limit if none is; they may repeat operations and come in any order of their instants. The bound for
  concurrent requests is in \<open>QuotaSystem\<close>.
\<close>

theorem quota_bounded:
  assumes "lease_laws L" "quota_stored L identity_sha256 limit store"
    "\<forall>q\<in>set qs. \<exists>d. quota_new L identity_sha256 (fst q) limit (snd q) = Ok d"
    "\<forall>q\<in>set qs. t \<le> snd q \<and> snd q < t + quota_hour"
  shows "card (let_through qs (fst (run_ops (quota_serve L identity_sha256 limit) store qs)))
    \<le> (if store = None then unat limit else 2 * unat limit)"
proof (cases qs)
  case (Cons q qs')
  then obtain d where "quota_new L identity_sha256 (fst q) limit (snd q) = Ok d" using assms(3) by auto
  from window_limit [OF quota_new_Ok(5) [OF assms(1) this]] have "0 < unat limit" .
  moreover have "length tokens \<le> unat limit" if w: "map_option (quota_window L) store = Some (start, tokens)" for start tokens
    using w assms(2) by (cases store) (auto elim: stored_window)
  ultimately show ?thesis
    using spec_bounded [OF assms(4), of "unat limit" "map_option (quota_window L) store"] quota_runs [OF assms(1-3)]
    by (simp add: let_through_Ok)
qed (simp add: let_through_def)

section \<open>Concrete requests\<close>

lemma example_quota_new:
  assumes "0 \<le> t" "t \<le> 10 ^ 14"
  shows "\<exists>d. quota_new example_lease_env example_key p 1 t = Ok d"
proof -
  have "valid_hash example_key" by (simp add: valid_hash_def example_key_def list_all_iff)
  then show ?thesis
    using assms
    by (simp add: quota_new_def validate_quota_inputs_def MAX_PROVIDER_REFRESHES_PER_HOUR_def example_lease_env_def
        cache_format_timestamp_def Let_def quota_validate_def parse_utc_def canonical_uuid_def is_some_and_def
        duration_seconds_def REFRESH_QUOTA_TTL_SECONDS_def)
qed

definition example_requests :: "(string \<times> instant) list" where
  "example_requests = [(''a'', 0), (''b'', 5000000001), (''a'', 6000000000)]"

lemma example_requestable:
  "\<forall>q\<in>set example_requests. \<exists>d. quota_new example_lease_env example_key (fst q) 1 (snd q) = Ok d"
  using example_quota_new by (simp add: example_requests_def)

text \<open>With a limit of one, the second operation is refused with the seconds left and the first may come again.\<close>

theorem quota_refines_windows_witness:
  "fst (run_ops (quota_serve example_lease_env example_key 1) None example_requests) =
     [Ok QuotaAllowed, Ok (QuotaExceeded 3595), Ok QuotaAllowed]"
  using quota_refines_windows [OF example_lease_laws, of example_key 1 None, OF _ example_requestable]
  by (simp add: quota_stored_def) (simp add: example_requests_def run_ops.simps(2) quota_hour_def duration_seconds_def
      REFRESH_QUOTA_TTL_SECONDS_def retry_seconds_def)

theorem quota_bounded_witness:
  "card (let_through example_requests
     (fst (run_ops (quota_serve example_lease_env example_key 1) None example_requests))) \<le> 1"
  using quota_bounded [OF example_lease_laws, of example_key 1 None example_requests 0, OF _ example_requestable]
  by (simp add: quota_stored_def example_requests_def quota_hour_def duration_seconds_def REFRESH_QUOTA_TTL_SECONDS_def)

end
