(* ===== verification/QuotaSystem.thy ===== *)
theory QuotaSystem
  imports RefreshQuota
begin

text \<open>
  Processes that consume refresh quota against one container, in any interleaving: the trees of
  \<open>consume_refresh_quota\<close> (\<open>rust/src/persistence/cosmos.rs\<close>) for any identities and operations under one limit.
  A step answers the next call of one process. Assumed of the container, as Cosmos DB documents it: a create succeeds
  only where there is no item, a replace with \<open>If-Match\<close> only on the version it names, every accepted write gets a
  new \<open>ETag\<close>, and an item is removed no earlier than its time to live after its last write. Every call may fail with
  any status, a write that fails may have been applied, and a read may return any version there has been of its item.
  All processes read one clock, and any time may pass between a reading and the call that follows it.
\<close>

section \<open>The system\<close>

record quota_process =
  qp_identity :: string
  qp_token :: string
  qp_io :: "refresh_quota_decision quota_result quota_io"

type_synonym quota_version = "string \<times> refresh_quota_document \<times> instant"

text \<open>The clock; every version there has been of an item, with its \<open>ETag\<close> and the time of its write; the current
  item of each identifier; and the processes.\<close>

record quota_system =
  qs_clock :: instant
  qs_versions :: "quota_version set"
  qs_items :: "string \<Rightarrow> quota_version option"
  qs_processes :: "nat \<Rightarrow> quota_process option"

definition quota_start :: "instant \<Rightarrow> quota_system" where
  "quota_start t = \<lparr>qs_clock = t, qs_versions = {}, qs_items = (\<lambda>_. None), qs_processes = (\<lambda>_. None)\<rparr>"

definition unused_etag :: "quota_system \<Rightarrow> string \<Rightarrow> bool" where
  "unused_etag s etag \<longleftrightarrow> etag \<noteq> [] \<and> etag \<notin> fst ` qs_versions s"

definition put_quota :: "quota_system \<Rightarrow> string \<Rightarrow> string \<Rightarrow> refresh_quota_document \<Rightarrow> quota_system" where
  "put_quota s i etag d =
     s\<lparr>qs_versions := insert (etag, d, qs_clock s) (qs_versions s), qs_items := (qs_items s)(i \<mapsto> (etag, d, qs_clock s))\<rparr>"

inductive quota_call ::
  "quota_system \<Rightarrow> refresh_quota_decision quota_result quota_io \<Rightarrow>
     quota_system \<Rightarrow> refresh_quota_decision quota_result quota_io \<Rightarrow> bool" where
  call_now: "quota_call s (Now k) s (k (qs_clock s))"
| call_created: "qs_items s (rq_id d) = None \<Longrightarrow> unused_etag s etag \<Longrightarrow>
    quota_call s (CreateItem d k) (put_quota s (rq_id d) etag d) (k (Ok ()))"
| call_create_lost: "qs_items s (rq_id d) = None \<Longrightarrow> unused_etag s etag \<Longrightarrow>
    quota_call s (CreateItem d k) (put_quota s (rq_id d) etag d) (k (Err status))"
| call_create_failed: "quota_call s (CreateItem d k) s (k (Err status))"
| call_read: "(etag, d, w) \<in> qs_versions s \<Longrightarrow> rq_id d = i \<Longrightarrow> quota_call s (ReadItem i k) s (k (Ok (Some etag, Ok d)))"
| call_read_failed: "(\<And>etag d. answer \<noteq> Ok (Some etag, Ok d)) \<Longrightarrow> quota_call s (ReadItem i k) s (k answer)"
| call_replaced: "qs_items s i = Some (etag, d0, w) \<Longrightarrow> unused_etag s etag' \<Longrightarrow>
    quota_call s (ReplaceItem i d etag k) (put_quota s i etag' d) (k (Ok ()))"
| call_replace_lost: "qs_items s i = Some (etag, d0, w) \<Longrightarrow> unused_etag s etag' \<Longrightarrow>
    quota_call s (ReplaceItem i d etag k) (put_quota s i etag' d) (k (Err status))"
| call_replace_failed: "quota_call s (ReplaceItem i d etag k) s (k (Err status))"

text \<open>Time passes, the container removes an item whose time to live has ended, an operation is submitted (again), a
  process makes a call.\<close>

inductive quota_step :: "lease_env \<Rightarrow> u32 \<Rightarrow> quota_system \<Rightarrow> quota_system \<Rightarrow> bool" for L limit where
  quota_tick: "qs_clock s \<le> t \<Longrightarrow> quota_step L limit s (s\<lparr>qs_clock := t\<rparr>)"
| quota_evict: "qs_items s i = Some (etag, d, w) \<Longrightarrow> w + duration_seconds (rq_ttl d) \<le> qs_clock s \<Longrightarrow>
    quota_step L limit s (s\<lparr>qs_items := (qs_items s)(i := None)\<rparr>)"
| quota_submit: "qs_processes s n = None \<Longrightarrow>
    quota_step L limit s (s\<lparr>qs_processes := (qs_processes s)(n \<mapsto>
      \<lparr>qp_identity = key, qp_token = token, qp_io = consume_refresh_quota L key token limit\<rparr>)\<rparr>)"
| quota_call_step: "qs_processes s n = Some p \<Longrightarrow> quota_call s (qp_io p) s' io' \<Longrightarrow>
    quota_step L limit s (s'\<lparr>qs_processes := (qs_processes s)(n \<mapsto> p\<lparr>qp_io := io'\<rparr>)\<rparr>)"

inductive quota_reachable :: "lease_env \<Rightarrow> u32 \<Rightarrow> quota_system \<Rightarrow> bool" for L limit where
  quota_reach_start: "quota_reachable L limit (quota_start t)"
| quota_reach_step: "quota_reachable L limit s \<Longrightarrow> quota_step L limit s s' \<Longrightarrow> quota_reachable L limit s'"

section \<open>What an operation does\<close>

text \<open>
  A program keeps the discipline of a quota operation, with the clock readings \<open>T\<close> since its last read, the version
  \<open>R\<close> it read last and whether it knows that its operation is counted, if it creates only what \<open>quota_new\<close> gives for
  one of these readings, replaces only the version it read last by what \<open>quota_consume\<close> gives on it for one of these
  readings, and lets its caller through only if the operation is known to be counted.
\<close>

abbreviation quota_item :: "string \<Rightarrow> string" where
  "quota_item key \<equiv> REFRESH_QUOTA_ID_PREFIX @ key"

primrec keeps_quota ::
  "lease_env \<Rightarrow> u32 \<Rightarrow> string \<Rightarrow> string \<Rightarrow> refresh_quota_decision quota_result quota_io \<Rightarrow>
     instant set \<Rightarrow> (string \<times> refresh_quota_document) option \<Rightarrow> bool \<Rightarrow> bool" where
  "keeps_quota L limit key token (Done r) T R known \<longleftrightarrow> (r = Ok QuotaAllowed \<longrightarrow> known)"
| "keeps_quota L limit key token (Now k) T R known \<longleftrightarrow> (\<forall>t. keeps_quota L limit key token (k t) (insert t T) R known)"
| "keeps_quota L limit key token (CreateItem d k) T R known \<longleftrightarrow>
     (\<exists>t\<in>T. quota_new L key token limit t = Ok d) \<and>
     keeps_quota L limit key token (k (Ok ())) T R True \<and>
     (\<forall>status. keeps_quota L limit key token (k (Err status)) T R known)"
| "keeps_quota L limit key token (ReadItem i k) T R known \<longleftrightarrow>
     i = quota_item key \<and>
     (\<forall>etag d. keeps_quota L limit key token (k (Ok (Some etag, Ok d))) {} (Some (etag, d))
        (known \<or> token \<in> set (rq_operation_tokens d))) \<and>
     (\<forall>answer. (\<forall>etag d. answer \<noteq> Ok (Some etag, Ok d)) \<longrightarrow> keeps_quota L limit key token (k answer) T R known)"
| "keeps_quota L limit key token (ReplaceItem i d etag k) T R known \<longleftrightarrow>
     i = quota_item key \<and>
     (\<exists>d0. R = Some (etag, d0) \<and> (\<exists>t\<in>T. quota_consume L d0 key token limit t = Ok (QuotaReplace d))) \<and>
     keeps_quota L limit key token (k (Ok ())) T R True \<and>
     (\<forall>status. keeps_quota L limit key token (k (Err status)) T R known)"

lemma keeps_quota_try:
  assumes "\<And>x. m = Ok x \<Longrightarrow> keeps_quota L limit key token (f x) T R known"
  shows "keeps_quota L limit key token (io_try m f) T R known"
  using assms by (cases m) auto

lemma consume_unchanged:
  assumes "quota_consume L d key token limit now = Ok QuotaUnchanged"
  shows "token \<in> set (rq_operation_tokens d)"
  using assms by (auto simp: quota_consume_def obind_Ok_iff Let_def list_ex_iff split: if_splits)

lemma quota_new_id: "quota_new L key token limit now = Ok d \<Longrightarrow> rq_id d = quota_item key"
  by (auto simp: quota_new_def obind_Ok_iff Let_def)

lemma quota_valid_id: "quota_validate L d = Ok () \<Longrightarrow> rq_id d = quota_item (rq_identity_sha256 d)"
  by (auto simp: quota_validate_def obind_Ok_iff Let_def split: if_splits)

lemma consume_replace:
  assumes "quota_consume L d key token limit now = Ok (QuotaReplace d')"
  shows "quota_validate L d = Ok ()" "quota_validate L d' = Ok ()" "rq_id d' = quota_item key"
proof -
  have "quota_validate L d = Ok () \<and> quota_validate L d' = Ok () \<and> rq_identity_sha256 d' = key"
    using assms
    by (auto simp: quota_consume_def quota_new_def obind_Ok_iff Let_def split: if_splits)
  then show "quota_validate L d = Ok ()" "quota_validate L d' = Ok ()" "rq_id d' = quota_item key"
    using quota_valid_id by auto
qed

lemma keeps_quota_replace:
  assumes "rq_id d = quota_item key" "R = Some (etag, d0)" "t \<in> T"
    "quota_consume L d0 key token limit t = Ok (QuotaReplace d)"
    "keeps_quota L limit key token (continue (Ok True)) T R True"
    "keeps_quota L limit key token (continue (Ok False)) T R known"
    "keeps_quota L limit key token (continue (Err QuotaUnavailable)) T R known"
  shows "keeps_quota L limit key token (replace_refresh_quota L d etag continue) T R known"
  using assms consume_replace(2) [OF assms(4)]
  by (auto simp: replace_refresh_quota_def map_quota_cosmos_error_def)

lemma answered_quota_cases:
  obtains (found) etag d where "answer = Ok (Some etag, Ok d)" "answered_quota L answer = Ok (Some (d, etag))"
  | (missing) "\<forall>etag d. answer \<noteq> Ok (Some etag, Ok d)" "answered_quota L answer = Ok None"
  | (failed) e where "answered_quota L answer = Err e"
  | (panicked) "answered_quota L answer = Panic"
proof (cases "answered_quota L answer")
  case (Ok r)
  then show thesis
    using found missing
    by (auto simp: answered_quota_def obind_Ok_iff map_err_iff split: outcome.splits option.splits if_splits)
qed (use failed panicked in auto)

lemma attempts_keep: "keeps_quota L limit key token (consume_attempts L key token limit (quota_item key) n) T R known"
proof (induction n arbitrary: T R known)
  case (Suc n T R known)
  let ?after = "\<lambda>document etag. Now (\<lambda>now.
           io_try (map_err map_quota_document_error (quota_consume L document key token limit now)) (\<lambda>mutation.
             case mutation of
               QuotaUnchanged \<Rightarrow> Done (Ok QuotaAllowed)
             | QuotaLimited retry_after_seconds \<Rightarrow> Done (Ok (QuotaExceeded retry_after_seconds))
             | QuotaReplace updated \<Rightarrow>
                 replace_refresh_quota L updated etag (\<lambda>replaced.
                   case replaced of
                     Ok True \<Rightarrow> Done (Ok QuotaAllowed)
                   | Ok False \<Rightarrow> consume_attempts L key token limit (quota_item key) n
                   | Err QuotaUnavailable \<Rightarrow> consume_attempts L key token limit (quota_item key) n
                   | Err error \<Rightarrow> Done (Err error)
                   | Panic \<Rightarrow> Done Panic)))"
  have known: "keeps_quota L limit key token (?after d etag) {} (Some (etag, d))
      (known \<or> token \<in> set (rq_operation_tokens d))" for d etag known
    using consume_replace(3)
    by (auto intro!: keeps_quota_try keeps_quota_replace simp: Suc.IH map_err_iff consume_unchanged
        split: refresh_quota_mutation.split)
  let ?missing = "Now (\<lambda>now.
           io_try (map_err map_quota_document_error (quota_new L key token limit now))
             (\<lambda>candidate.
              CreateItem candidate (\<lambda>answer.
                case answer of
                  Ok _ \<Rightarrow> Done (Ok QuotaAllowed)
                | Err status \<Rightarrow> consume_attempts L key token limit (quota_item key) n
                | Panic \<Rightarrow> Done Panic)))"
  have missing: "keeps_quota L limit key token ?missing T R known" for T R known
    by (auto intro!: keeps_quota_try simp: Suc.IH map_err_iff)
  show ?case
    unfolding consume_attempts.simps read_refresh_quota_def keeps_quota.simps(4)
  proof (intro conjI allI impI, goal_cases)
    case (2 etag d)
    show ?case
      using known [of d etag known] Suc.IH
      by (cases rule: answered_quota_cases [of "Ok (Some etag, Ok d)" L]) (auto split: refresh_quota_error.split)
  next
    case (3 answer)
    then show ?case
      using missing [of T R known] Suc.IH
      by (cases rule: answered_quota_cases [of answer L]) (auto split: refresh_quota_error.split)
  qed simp
qed simp

lemma operation_keeps: "keeps_quota L limit key token (consume_refresh_quota L key token limit) {} None False"
  unfolding consume_refresh_quota_def
  by (auto intro!: keeps_quota_try attempts_keep simp: map_err_iff quota_new_id)

section \<open>The documents of the container\<close>

abbreviation window_start :: "lease_env \<Rightarrow> refresh_quota_document \<Rightarrow> instant" where
  "window_start L d \<equiv> fst (quota_window L d)"

text \<open>A version is valid, its window began before it was written, and its time to live covers the window.\<close>

definition quota_version_ok :: "lease_env \<Rightarrow> u32 \<Rightarrow> instant \<Rightarrow> quota_version \<Rightarrow> bool" where
  "quota_version_ok L limit now v \<longleftrightarrow>
     (case v of (etag, d, w) \<Rightarrow>
        quota_validate L d = Ok () \<and> rq_limit d = limit \<and> window_start L d \<le> w \<and> w \<le> now \<and>
        window_start L d + quota_hour \<le> w + duration_seconds (rq_ttl d))"

definition quota_container_ok :: "lease_env \<Rightarrow> u32 \<Rightarrow> quota_system \<Rightarrow> bool" where
  "quota_container_ok L limit s \<longleftrightarrow>
     (\<forall>etag v v'. (etag, v) \<in> qs_versions s \<longrightarrow> (etag, v') \<in> qs_versions s \<longrightarrow> v = v') \<and>
     (\<forall>v\<in>qs_versions s. quota_version_ok L limit (qs_clock s) v) \<and>
     (\<forall>i etag d w. qs_items s i = Some (etag, d, w) \<longrightarrow> (etag, d, w) \<in> qs_versions s \<and> rq_id d = i)"

text \<open>What a step does to the clock, the versions and the items.\<close>

definition writable :: "lease_env \<Rightarrow> u32 \<Rightarrow> quota_system \<Rightarrow> refresh_quota_document \<Rightarrow> bool" where
  "writable L limit s d \<longleftrightarrow>
     qs_items s (rq_id d) = None \<and> (\<exists>key token t. t \<le> qs_clock s \<and> quota_new L key token limit t = Ok d) \<or>
     (\<exists>etag d0 w key token t. qs_items s (rq_id d) = Some (etag, d0, w) \<and> w \<le> t \<and> t \<le> qs_clock s \<and>
        quota_consume L d0 key token limit t = Ok (QuotaReplace d))"

inductive quota_effect :: "lease_env \<Rightarrow> u32 \<Rightarrow> quota_system \<Rightarrow> quota_system \<Rightarrow> bool" for L limit s s' where
  effect_quiet: "qs_clock s \<le> qs_clock s' \<Longrightarrow> qs_versions s' = qs_versions s \<Longrightarrow> qs_items s' = qs_items s \<Longrightarrow>
    quota_effect L limit s s'"
| effect_evicted: "qs_items s i = Some (etag, d, w) \<Longrightarrow> w + duration_seconds (rq_ttl d) \<le> qs_clock s \<Longrightarrow>
    qs_clock s' = qs_clock s \<Longrightarrow> qs_versions s' = qs_versions s \<Longrightarrow> qs_items s' = (qs_items s)(i := None) \<Longrightarrow>
    quota_effect L limit s s'"
| effect_written: "unused_etag s etag \<Longrightarrow> writable L limit s d \<Longrightarrow> qs_clock s' = qs_clock s \<Longrightarrow>
    qs_versions s' = insert (etag, d, qs_clock s) (qs_versions s) \<Longrightarrow>
    qs_items s' = (qs_items s)(rq_id d \<mapsto> (etag, d, qs_clock s)) \<Longrightarrow> quota_effect L limit s s'"

lemma effect_grows:
  assumes "quota_effect L limit s s'"
  shows "qs_clock s \<le> qs_clock s'" "qs_versions s \<subseteq> qs_versions s'"
  using assms by (auto elim: quota_effect.cases)

text \<open>A document that takes another's place in its window, or begins a window.\<close>

lemma consume_replaced:
  assumes laws: "lease_laws L" and consumed: "quota_consume L d key token limit t = Ok (QuotaReplace d')"
    and d: "rq_limit d = limit"
  obtains (begins) "window_start L d + quota_hour \<le> t" "quota_new L key token limit t = Ok d'"
  | (counts) ttl where "t < window_start L d + quota_hour" "length (rq_operation_tokens d) < unat limit"
      "d' = d\<lparr>rq_count := rq_count d + 1, rq_operation_tokens := rq_operation_tokens d @ [token], rq_ttl := ttl\<rparr>"
      "window_start L d \<le> t \<Longrightarrow> window_start L d + quota_hour \<le> t + duration_seconds ttl"
proof -
  have valid: "quota_validate L d = Ok ()" by (rule consume_replace(1) [OF consumed])
  then obtain start where start: "lx_parse L (rq_expires_at d) = Some (start + quota_hour, 0)"
      "quota_window L d = (start, rq_operation_tokens d)" "unat (rq_count d) = length (rq_operation_tokens d)"
    by (elim quota_validE)
  have expires: "parse_utc (lx_parse L) (rq_expires_at d) = Ok (start + quota_hour)" using start by (simp add: parse_utc_Ok)
  have inputs: "rq_identity_sha256 d = key" "\<not> list_ex (\<lambda>applied. applied = token) (rq_operation_tokens d)"
      "validate_quota_inputs L key token limit = Ok ()"
    using consumed by (auto simp: quota_consume_def obind_Ok_iff split: if_splits)
  show thesis
  proof (cases "start + quota_hour \<le> t")
    case True
    then show thesis
      using consumed begins by (simp add: quota_consume_def inputs valid expires start) (auto simp: obind_Ok_iff)
  next
    case False
    let ?retry = "retry_seconds (start + quota_hour - t)"
    have retry: "remaining_seconds (start + quota_hour) t = Ok ?retry" "i32_try_from ?retry = Some (uint ?retry)"
      using retry_seconds_eq [of t "start + quota_hour"] False by (simp_all add: i32_try_from_def)
    have full: "rq_count d < limit \<longleftrightarrow> length (rq_operation_tokens d) < unat limit"
      by (simp add: start(3) [symmetric] word_less_nat_alt)
    let ?next = "d\<lparr>rq_count := rq_count d + 1, rq_operation_tokens := rq_operation_tokens d @ [token], rq_ttl := uint ?retry\<rparr>"
    have "quota_consume L d key token limit t = (if limit \<le> rq_count d then Ok (QuotaLimited ?retry)
        else obind (quota_validate L ?next) (\<lambda>_. Ok (QuotaReplace ?next)))"
      using False unfolding quota_consume_def by (simp add: inputs valid expires d retry Let_def)
    from trans [OF this [symmetric] consumed] have "rq_count d < limit" "d' = ?next"
      by (auto simp: obind_Ok_iff not_le split: if_splits)
    then have "length (rq_operation_tokens d) < unat limit" "d' = ?next" using full by simp_all
    moreover have "start + quota_hour \<le> t + duration_seconds (uint ?retry)" if "start \<le> t"
    proof -
      have "uint ?retry = (start + quota_hour - t + 999999999) div 1000000000"
        using that False
        by (simp add: retry_seconds_def quota_hour_def duration_seconds_def REFRESH_QUOTA_TTL_SECONDS_def uint_word_of_int)
      then show ?thesis by (simp add: duration_seconds_def)
    qed
    ultimately show thesis using False by (intro counts [of "uint ?retry"]) (simp_all add: start(2))
  qed
qed

lemma quota_new_version:
  assumes "lease_laws L" "quota_new L key token limit t = Ok d" "t \<le> now"
  shows "quota_version_ok L limit now (etag, d, now)"
proof -
  have "rq_ttl d = REFRESH_QUOTA_TTL_SECONDS" using assms(2) by (auto simp: quota_new_def obind_Ok_iff Let_def)
  then show ?thesis using quota_new_Ok [OF assms(1,2)] assms(3) by (simp add: quota_version_ok_def quota_hour_def)
qed

lemma quota_consume_version:
  assumes "lease_laws L" "quota_consume L d key token limit t = Ok (QuotaReplace d')"
    "quota_version_ok L limit now (etag, d, w)" "w \<le> t" "t \<le> now"
  shows "quota_version_ok L limit now (etag', d', now)"
proof -
  have d: "rq_limit d = limit" "window_start L d \<le> w" using assms(3) by (simp_all add: quota_version_ok_def)
  from assms(1,2) d(1) show ?thesis
  proof (cases rule: consume_replaced)
    case begins
    then show ?thesis using quota_new_version assms(1,5) by blast
  next
    case (counts ttl)
    have next_document: "rq_limit d' = limit" "window_start L d' = window_start L d" "rq_ttl d' = ttl"
      unfolding counts(3) using d(1) by (simp_all add: quota_window_def)
    show ?thesis
      using consume_replace(2) [OF assms(2)] next_document counts(4) d(2) assms(4,5) by (simp add: quota_version_ok_def)
  qed
qed

lemma quota_container_okD:
  assumes "quota_container_ok L limit s"
  shows "(etag, v) \<in> qs_versions s \<Longrightarrow> (etag, v') \<in> qs_versions s \<Longrightarrow> v = v'"
    and "v1 \<in> qs_versions s \<Longrightarrow> quota_version_ok L limit (qs_clock s) v1"
    and "qs_items s i = Some (etag, d, w) \<Longrightarrow> (etag, d, w) \<in> qs_versions s"
    and "qs_items s i = Some (etag, d, w) \<Longrightarrow> rq_id d = i"
    and "qs_items s i = Some (etag, d, w) \<Longrightarrow> quota_version_ok L limit (qs_clock s) (etag, d, w)"
  using assms unfolding quota_container_ok_def by blast+

lemma written_version:
  assumes "lease_laws L" "quota_container_ok L limit s" "writable L limit s d"
  shows "quota_version_ok L limit (qs_clock s) (etag, d, qs_clock s)"
  using assms(3) quota_new_version [OF assms(1)] quota_consume_version [OF assms(1)] quota_container_okD(5) [OF assms(2)]
  unfolding writable_def by metis

lemma version_ok_later: "quota_version_ok L limit now v \<Longrightarrow> now \<le> now' \<Longrightarrow> quota_version_ok L limit now' v"
  by (auto simp: quota_version_ok_def)

lemma effect_container_ok:
  assumes "lease_laws L" "quota_effect L limit s s'" "quota_container_ok L limit s"
  shows "quota_container_ok L limit s'"
  using assms(2)
proof cases
  case effect_quiet
  then show ?thesis using assms(3) version_ok_later by (auto simp: quota_container_ok_def)
next
  case (effect_evicted i etag d w)
  then show ?thesis using assms(3) by (auto simp: quota_container_ok_def)
next
  case (effect_written etag d)
  have "v = v'" if "(e, v) \<in> qs_versions s'" "(e, v') \<in> qs_versions s'" for e v v'
  proof -
    have "(etag, u) \<notin> qs_versions s" for u using effect_written(1) by (force simp: unused_etag_def)
    then show ?thesis using that quota_container_okD(1) [OF assms(3), of e v v'] unfolding effect_written(4) by blast
  qed
  moreover have "quota_version_ok L limit (qs_clock s') v" if "v \<in> qs_versions s'" for v
    using that quota_container_okD(2) [OF assms(3), of v] written_version [OF assms(1,3) effect_written(2), of etag]
    unfolding effect_written(3,4) by blast
  moreover have "(e, d', w) \<in> qs_versions s' \<and> rq_id d' = i" if "qs_items s' i = Some (e, d', w)" for e d' w i
    using that effect_written(4,5) quota_container_okD(3,4) [OF assms(3)] by (auto split: if_splits)
  ultimately show ?thesis by (auto simp: quota_container_ok_def)
qed

section \<open>The processes\<close>

text \<open>The operations counted in a version of an identity's item that is in a set.\<close>

definition operations_in :: "string \<Rightarrow> quota_version set \<Rightarrow> string set" where
  "operations_in key versions =
     {token. \<exists>etag d w. (etag, d, w) \<in> versions \<and> rq_id d = quota_item key \<and> token \<in> set (rq_operation_tokens d)}"

definition quota_process_ok :: "lease_env \<Rightarrow> u32 \<Rightarrow> quota_system \<Rightarrow> quota_process \<Rightarrow> bool" where
  "quota_process_ok L limit s p \<longleftrightarrow>
     (\<exists>T R known. keeps_quota L limit (qp_identity p) (qp_token p) (qp_io p) T R known \<and>
        (\<forall>t\<in>T. t \<le> qs_clock s) \<and>
        (\<forall>etag d. R = Some (etag, d) \<longrightarrow> (\<exists>w. (etag, d, w) \<in> qs_versions s \<and> (\<forall>t\<in>T. w \<le> t))) \<and>
        (known \<longrightarrow> qp_token p \<in> operations_in (qp_identity p) (qs_versions s)))"

lemma operations_in_mono: "V \<subseteq> V' \<Longrightarrow> operations_in key V \<subseteq> operations_in key V'"
  by (auto simp: operations_in_def)

lemma process_ok_later:
  assumes "quota_process_ok L limit s p" "quota_effect L limit s s'"
  shows "quota_process_ok L limit s' p"
proof -
  obtain T R known where k: "keeps_quota L limit (qp_identity p) (qp_token p) (qp_io p) T R known"
      "\<forall>t\<in>T. t \<le> qs_clock s"
      "\<forall>etag d. R = Some (etag, d) \<longrightarrow> (\<exists>w. (etag, d, w) \<in> qs_versions s \<and> (\<forall>t\<in>T. w \<le> t))"
      "known \<longrightarrow> qp_token p \<in> operations_in (qp_identity p) (qs_versions s)"
    using assms(1) by (auto simp: quota_process_ok_def)
  note g = effect_grows [OF assms(2)]
  have "\<forall>t\<in>T. t \<le> qs_clock s'" using k(2) g(1) by fastforce
  moreover have "\<forall>etag d. R = Some (etag, d) \<longrightarrow> (\<exists>w. (etag, d, w) \<in> qs_versions s' \<and> (\<forall>t\<in>T. w \<le> t))"
    using k(3) g(2) by blast
  moreover have "known \<longrightarrow> qp_token p \<in> operations_in (qp_identity p) (qs_versions s')"
    using k(4) operations_in_mono [OF g(2)] by blast
  ultimately show ?thesis using k(1) unfolding quota_process_ok_def by blast
qed

lemma put_quota_simps [simp]:
  "qs_clock (put_quota s i etag d) = qs_clock s"
  "qs_versions (put_quota s i etag d) = insert (etag, d, qs_clock s) (qs_versions s)"
  "qs_items (put_quota s i etag d) = (qs_items s)(i \<mapsto> (etag, d, qs_clock s))"
  by (simp_all add: put_quota_def)

lemma call_written:
  assumes "unused_etag s etag" "writable L limit s d"
  shows "quota_effect L limit s (put_quota s (rq_id d) etag d)"
  by (rule effect_written [OF assms]) simp_all

lemma quiet_effect: "quota_effect L limit s s"
  by (rule effect_quiet) simp_all

lemma operation_written: "rq_id d = quota_item key \<Longrightarrow> token \<in> set (rq_operation_tokens d) \<Longrightarrow>
    token \<in> operations_in key (insert (etag, d, w) versions)"
  by (auto simp: operations_in_def)

lemma consumed_token:
  assumes "lease_laws L" "quota_consume L d key token limit t = Ok (QuotaReplace d')" "rq_limit d = limit"
  shows "token \<in> set (rq_operation_tokens d')"
  using assms
proof (cases rule: consume_replaced)
  case begins
  then show ?thesis using quota_new_Ok(4) [OF assms(1)] by (fastforce simp: quota_window_def)
qed simp

lemma quota_new_token: "quota_new L key token limit t = Ok d \<Longrightarrow> rq_operation_tokens d = [token]"
  by (auto simp: quota_new_def obind_Ok_iff Let_def)

lemma quota_process_okI:
  assumes "keeps_quota L limit (qp_identity p) (qp_token p) (qp_io p) T R known" "\<And>t. t \<in> T \<Longrightarrow> t \<le> qs_clock s"
    "\<And>etag d. R = Some (etag, d) \<Longrightarrow> \<exists>w. (etag, d, w) \<in> qs_versions s \<and> (\<forall>t\<in>T. w \<le> t)"
    "known \<Longrightarrow> qp_token p \<in> operations_in (qp_identity p) (qs_versions s)"
  shows "quota_process_ok L limit s p"
  using assms unfolding quota_process_ok_def by blast

lemma call_effect:
  assumes laws: "lease_laws L" and ok: "quota_container_ok L limit s" "quota_process_ok L limit s p"
    and call: "quota_call s (qp_io p) s' io'"
  shows "quota_effect L limit s s' \<and> quota_process_ok L limit s' (p\<lparr>qp_io := io'\<rparr>)"
proof -
  obtain T R known where k: "keeps_quota L limit (qp_identity p) (qp_token p) (qp_io p) T R known"
      and T: "\<And>t. t \<in> T \<Longrightarrow> t \<le> qs_clock s"
      and R: "\<And>etag d. R = Some (etag, d) \<Longrightarrow> \<exists>w. (etag, d, w) \<in> qs_versions s \<and> (\<forall>t\<in>T. w \<le> t)"
      and known: "known \<Longrightarrow> qp_token p \<in> operations_in (qp_identity p) (qs_versions s)"
    using ok(2) unfolding quota_process_ok_def by blast
  have R': "\<exists>w. (etag, d, w) \<in> insert v (qs_versions s) \<and> (\<forall>t\<in>T. w \<le> t)" if "R = Some (etag, d)" for etag d v
    using R [OF that] by blast
  have goes_on: "quota_process_ok L limit s (p\<lparr>qp_io := io\<rparr>)"
    if "keeps_quota L limit (qp_identity p) (qp_token p) io T R known" for io
    by (rule quota_process_okI [of _ _ _ T R known]) (use that T R known in auto)
  have writes: "quota_effect L limit s (put_quota s (rq_id d) etag d) \<and>
      quota_process_ok L limit (put_quota s (rq_id d) etag d) (p\<lparr>qp_io := io\<rparr>)"
    if "unused_etag s etag" "writable L limit s d" "rq_id d = quota_item (qp_identity p)"
      "qp_token p \<in> set (rq_operation_tokens d)"
      "keeps_quota L limit (qp_identity p) (qp_token p) io T R b" for d etag io b
    using call_written [OF that(1,2)] operation_written [OF that(3,4)] that(5) T R'
    by (auto intro!: quota_process_okI [of _ _ _ T R b])
  have created: "quota_effect L limit s (put_quota s (rq_id d) etag d) \<and>
      quota_process_ok L limit (put_quota s (rq_id d) etag d) (p\<lparr>qp_io := io\<rparr>)"
    if "unused_etag s etag" "qs_items s (rq_id d) = None"
      "\<exists>t\<in>T. quota_new L (qp_identity p) (qp_token p) limit t = Ok d"
      "keeps_quota L limit (qp_identity p) (qp_token p) io T R b" for d etag io b
    using that T by (intro writes) (auto simp: writable_def quota_new_id quota_new_token)
  have replaced: "quota_effect L limit s (put_quota s i etag' d) \<and>
      quota_process_ok L limit (put_quota s i etag' d) (p\<lparr>qp_io := io\<rparr>)"
    if new: "unused_etag s etag'" and item: "qs_items s i = Some (etag, d0, w)" "i = quota_item (qp_identity p)"
      and consumed: "\<exists>d0. R = Some (etag, d0) \<and>
        (\<exists>t\<in>T. quota_consume L d0 (qp_identity p) (qp_token p) limit t = Ok (QuotaReplace d))"
      and rest: "keeps_quota L limit (qp_identity p) (qp_token p) io T R b" for d d0 w i etag etag' io b
  proof -
    obtain d1 t where t: "R = Some (etag, d1)" "t \<in> T"
        "quota_consume L d1 (qp_identity p) (qp_token p) limit t = Ok (QuotaReplace d)"
      using consumed by blast
    obtain w1 where "(etag, d1, w1) \<in> qs_versions s" "w1 \<le> t" using R [OF t(1)] t(2) by blast
    then have "d1 = d0" "w \<le> t"
      using quota_container_okD(1) [OF ok(1) _ quota_container_okD(3) [OF ok(1) item(1)]] by blast+
    moreover have "rq_limit d0 = limit" using quota_container_okD(5) [OF ok(1) item(1)] by (simp add: quota_version_ok_def)
    moreover have d: "rq_id d = i" using consume_replace(3) [OF t(3)] item(2) by simp
    ultimately have "writable L limit s d" "qp_token p \<in> set (rq_operation_tokens d)"
      using item(1) t(2,3) T consumed_token [OF laws t(3)] unfolding writable_def by blast+
    from writes [OF new this(1) _ this(2) rest] show ?thesis using d item(2) by simp
  qed
  from call show ?thesis
  proof (cases rule: quota_call.cases)
    case (call_read etag d w i k')
    have "known \<or> qp_token p \<in> set (rq_operation_tokens d) \<Longrightarrow> qp_token p \<in> operations_in (qp_identity p) (qs_versions s)"
      using known call_read k by (auto simp: operations_in_def)
    then show ?thesis
      using k call_read quiet_effect
      by (auto intro!: quota_process_okI [of _ _ _ "{}" "Some (etag, d)" "known \<or> qp_token p \<in> set (rq_operation_tokens d)"])
  next
    case (call_now k')
    have "\<exists>w. (etag, d, w) \<in> qs_versions s \<and> (\<forall>t\<in>insert (qs_clock s) T. w \<le> t)" if "R = Some (etag, d)" for etag d
      using R [OF that] quota_container_okD(2) [OF ok(1)] by (fastforce simp: quota_version_ok_def)
    then have "quota_process_ok L limit s (p\<lparr>qp_io := k' (qs_clock s)\<rparr>)"
      using k T known call_now by (intro quota_process_okI [of _ _ _ "insert (qs_clock s) T" R known]) auto
    then show ?thesis using quiet_effect call_now by simp
  next
    case (call_created d etag k')
    have "qs_items s (rq_id d) = None" "unused_etag s etag" using call_created by simp_all
    from created [OF this(2,1), of "k' (Ok ())" True] show ?thesis using k call_created(1-3) by simp
  next
    case (call_create_lost d etag k' status)
    have "qs_items s (rq_id d) = None" "unused_etag s etag" using call_create_lost by simp_all
    from created [OF this(2,1), of "k' (Err status)" known] show ?thesis using k call_create_lost(1-3) by simp
  next
    case (call_replaced i etag d0 w etag' d k')
    from replaced [OF call_replaced(5,4), of d "k' (Ok ())" True] show ?thesis using k call_replaced(1-3) by simp
  next
    case (call_replace_lost i etag d0 w etag' d k' status)
    from replaced [OF call_replace_lost(5,4), of d "k' (Err status)" known] show ?thesis
      using k call_replace_lost(1-3) by simp
  qed (use k goes_on quiet_effect in simp_all)
qed

text \<open>Every reachable state.\<close>

definition quota_inv :: "lease_env \<Rightarrow> u32 \<Rightarrow> quota_system \<Rightarrow> bool" where
  "quota_inv L limit s \<longleftrightarrow> quota_container_ok L limit s \<and>
     (\<forall>n p. qs_processes s n = Some p \<longrightarrow> quota_process_ok L limit s p)"

lemma process_ok_container:
  assumes "quota_process_ok L limit s p" "qs_clock s' = qs_clock s" "qs_versions s' = qs_versions s"
  shows "quota_process_ok L limit s' p"
  using assms by (simp add: quota_process_ok_def)

lemma effect_container:
  assumes "quota_effect L limit s s1" "qs_clock s' = qs_clock s1" "qs_versions s' = qs_versions s1"
    "qs_items s' = qs_items s1"
  shows "quota_effect L limit s s'"
  using assms by (cases rule: quota_effect.cases) (auto intro: quota_effect.intros)

lemma call_processes: "quota_call s io s' io' \<Longrightarrow> qs_processes s' = qs_processes s"
  by (auto elim!: quota_call.cases simp: put_quota_def)

lemma step_effect:
  assumes laws: "lease_laws L" and inv: "quota_inv L limit s" and step: "quota_step L limit s s'"
  shows "quota_effect L limit s s' \<and> quota_inv L limit s'"
proof -
  have container: "quota_container_ok L limit s" and processes: "\<And>n p. qs_processes s n = Some p \<Longrightarrow> quota_process_ok L limit s p"
    using inv by (simp_all add: quota_inv_def)
  have effect: "quota_effect L limit s s' \<and>
      (\<forall>n p. qs_processes s' n = Some p \<longrightarrow> qs_processes s n = Some p \<or> quota_process_ok L limit s' p)"
    using step
  proof cases
    case (quota_submit n key token)
    have "quota_process_ok L limit s
        \<lparr>qp_identity = key, qp_token = token, qp_io = consume_refresh_quota L key token limit\<rparr>"
      using operation_keeps by (intro quota_process_okI [of _ _ _ "{}" None False]) auto
    then show ?thesis
      unfolding quota_submit(1) by (auto intro: effect_quiet process_ok_container [of L limit s])
  next
    case (quota_call_step n p s1 io')
    note called = call_effect [OF laws container processes [OF quota_call_step(2)] quota_call_step(3)]
    then show ?thesis
      unfolding quota_call_step(1)
      by (auto intro: effect_container [of L limit s s1] process_ok_container [of L limit s1])
  qed (auto intro: quota_effect.intros)
  then have "quota_container_ok L limit s'" using effect_container_ok [OF laws _ container] by blast
  then show ?thesis using effect processes process_ok_later unfolding quota_inv_def by blast
qed

lemma quota_reachable_inv:
  assumes "lease_laws L" "quota_reachable L limit s"
  shows "quota_inv L limit s"
  using assms(2)
proof induction
  case (quota_reach_start t)
  then show ?case by (simp add: quota_start_def quota_inv_def quota_container_ok_def)
qed (use step_effect [OF assms(1)] in blast)

section \<open>A period of the system\<close>

text \<open>
  The operations of an identity that were counted in the period: those in the versions of its item written since its
  beginning. A step is a late creation if it stores an item where there was none, for a window that begins before the
  period: its process read the clock before the period and was delayed on its way to the container.
\<close>

definition counted_since :: "string \<Rightarrow> quota_system \<Rightarrow> quota_system \<Rightarrow> string set" where
  "counted_since key s0 s = operations_in key (qs_versions s - qs_versions s0)"

definition late_creation :: "lease_env \<Rightarrow> string \<Rightarrow> quota_system \<Rightarrow> quota_system \<Rightarrow> quota_system \<Rightarrow> bool" where
  "late_creation L key s0 s s' \<longleftrightarrow>
     qs_items s (quota_item key) = None \<and>
     (\<exists>etag d w. qs_items s' (quota_item key) = Some (etag, d, w) \<and> window_start L d < qs_clock s0)"

text \<open>The states reached from \<open>s0\<close>, with the number of late creations on the way.\<close>

inductive quota_period :: "lease_env \<Rightarrow> u32 \<Rightarrow> string \<Rightarrow> quota_system \<Rightarrow> nat \<Rightarrow> quota_system \<Rightarrow> bool"
  for L limit key s0 where
  period_begins: "quota_period L limit key s0 0 s0"
| period_goes_on: "quota_period L limit key s0 c s \<Longrightarrow> quota_step L limit s s' \<Longrightarrow>
    quota_period L limit key s0 (if late_creation L key s0 s s' then Suc c else c) s'"

definition let_through_of :: "string \<Rightarrow> quota_system \<Rightarrow> string set" where
  "let_through_of key s =
     {token. \<exists>n p. qs_processes s n = Some p \<and> qp_identity p = key \<and> qp_token p = token \<and>
        qp_io p = Done (Ok QuotaAllowed)}"

definition covered :: "string set \<Rightarrow> nat \<Rightarrow> string set \<Rightarrow> bool" where
  "covered C n B \<longleftrightarrow> (\<exists>A. length A \<le> n \<and> C \<subseteq> set A \<union> B)"

lemma covered_empty: "covered {} n B"
  by (auto simp: covered_def intro: exI [of _ "[]"])

lemma covered_mono: "covered C n B \<Longrightarrow> n \<le> n' \<Longrightarrow> C' \<subseteq> C \<union> B' \<Longrightarrow> B \<subseteq> B' \<Longrightarrow> covered C' n' B'"
  unfolding covered_def by (elim exE conjE) (rule exI, rule conjI, erule (1) order_trans, blast)

lemma covered_absorb:
  assumes "covered C n (set tokens)" "length tokens \<le> m"
  shows "covered C (n + m) {}"
proof -
  obtain A where "length A \<le> n" "C \<subseteq> set A \<union> set tokens" using assms(1) by (auto simp: covered_def)
  then show ?thesis using assms(2) by (auto simp: covered_def intro!: exI [of _ "A @ tokens"])
qed

lemma covered_card:
  assumes "covered C n {}"
  shows "finite C \<and> card C \<le> n"
proof -
  obtain A where "length A \<le> n" "C \<subseteq> set A" using assms by (auto simp: covered_def)
  then show ?thesis using card_mono [of "set A" C] card_length [of A] finite_subset [of C "set A"] by auto
qed

text \<open>
  While the period is shorter than an hour, a window that began in it cannot be begun anew or removed. So the
  operations counted are those of the current item and of the windows before it, which are the one before the period
  and one for each late creation.
\<close>

definition item_covers :: "lease_env \<Rightarrow> u32 \<Rightarrow> quota_system \<Rightarrow> nat \<Rightarrow> string set \<Rightarrow> quota_version option \<Rightarrow> bool" where
  "item_covers L limit s0 c C stored \<longleftrightarrow>
     (case stored of
        None \<Rightarrow> covered C (Suc c * unat limit) {}
      | Some (etag, d, w) \<Rightarrow>
          if (etag, d, w) \<in> qs_versions s0 then C = {}
          else covered C ((if window_start L d < qs_clock s0 then c else Suc c) * unat limit) (set (rq_operation_tokens d)))"

definition period_inv :: "lease_env \<Rightarrow> u32 \<Rightarrow> string \<Rightarrow> quota_system \<Rightarrow> nat \<Rightarrow> quota_system \<Rightarrow> bool" where
  "period_inv L limit key s0 c s \<longleftrightarrow>
     qs_clock s0 \<le> qs_clock s \<and> qs_versions s0 \<subseteq> qs_versions s \<and>
     (\<forall>etag d w. (etag, d, w) \<in> qs_versions s \<longrightarrow> (etag, d, w) \<notin> qs_versions s0 \<longrightarrow> qs_clock s0 \<le> w) \<and>
     item_covers L limit s0 c (counted_since key s0 s) (qs_items s (quota_item key))"

lemma version_tokens: "quota_version_ok L limit now (etag, d, w) \<Longrightarrow> length (rq_operation_tokens d) \<le> unat limit"
  by (auto simp: quota_version_ok_def elim!: quota_validE)

lemma item_absorbed:
  assumes "item_covers L limit s0 c C (Some (etag, d, w))" "quota_version_ok L limit now (etag, d, w)"
    "window_start L d < qs_clock s0"
  shows "covered C (Suc c * unat limit) {}"
  using assms covered_absorb [OF _ version_tokens [OF assms(2)], of C "c * unat limit"]
  by (auto simp: item_covers_def covered_empty add.commute split: if_splits)

lemma counted_since_insert:
  assumes "(etag, d, w) \<notin> qs_versions s0" "qs_versions s' = insert (etag, d, w) (qs_versions s)"
  shows "counted_since key s0 s' =
    counted_since key s0 s \<union> (if rq_id d = quota_item key then set (rq_operation_tokens d) else {})"
  using assms by (auto simp: counted_since_def operations_in_def)

text \<open>A document written in the period, in place of nothing or of another one.\<close>

lemma created_covers:
  assumes laws: "lease_laws L" and new: "quota_new L key' token limit t = Ok d"
    and none: "item_covers L limit s0 c C None" and written: "(etag, d, w) \<notin> qs_versions s0"
  shows "item_covers L limit s0 (if window_start L d < qs_clock s0 then Suc c else c)
    (C \<union> set (rq_operation_tokens d)) (Some (etag, d, w))"
  using none written by (auto simp: item_covers_def intro: covered_mono)

lemma replaced_covers:
  assumes laws: "lease_laws L" and consumed: "quota_consume L d0 key' token limit t = Ok (QuotaReplace d)"
    and before: "item_covers L limit s0 c C (Some (etag0, d0, w0))" "quota_version_ok L limit now (etag0, d0, w0)"
    and times: "w0 \<le> t" "t < qs_clock s0 + quota_hour" "(etag0, d0, w0) \<notin> qs_versions s0 \<Longrightarrow> qs_clock s0 \<le> w0"
    and written: "(etag, d, w) \<notin> qs_versions s0"
  shows "item_covers L limit s0 c (C \<union> set (rq_operation_tokens d)) (Some (etag, d, w))"
proof (cases "(etag0, d0, w0) \<in> qs_versions s0")
  case True
  then have "C = {}" using before(1) by (simp add: item_covers_def)
  then show ?thesis using written by (auto simp: item_covers_def covered_empty intro: covered_mono [OF covered_empty])
next
  case False
  let ?n = "\<lambda>d. (if window_start L d < qs_clock s0 then c else Suc c) * unat limit"
  have t: "qs_clock s0 \<le> t" using times False by fastforce
  have limit: "rq_limit d0 = limit" using before(2) by (simp add: quota_version_ok_def)
  have "covered (C \<union> set (rq_operation_tokens d)) (?n d) (set (rq_operation_tokens d))"
    using laws consumed limit
  proof (cases rule: consume_replaced)
    case begins
    then have "window_start L d0 < qs_clock s0" using times(2) by linarith
    from item_absorbed [OF before this] have "covered C (Suc c * unat limit) {}" .
    moreover have "window_start L d = t" using quota_new_Ok(4) [OF laws begins(2)] by simp
    ultimately show ?thesis using t by (auto intro: covered_mono)
  next
    case (counts ttl)
    have "covered C (?n d0) (set (rq_operation_tokens d0))" using before(1) False by (simp add: item_covers_def)
    moreover have "window_start L d = window_start L d0" "set (rq_operation_tokens d0) \<subseteq> set (rq_operation_tokens d)"
      unfolding counts(3) by (auto simp: quota_window_def)
    ultimately show ?thesis by (auto intro: covered_mono)
  qed
  then show ?thesis using written by (simp add: item_covers_def)
qed

text \<open>A step that leaves the identity's item alone, or writes it.\<close>

lemma written_covers:
  assumes laws: "lease_laws L" and ok: "quota_container_ok L limit s" and inv: "period_inv L limit key s0 c s"
    and soon: "qs_clock s < qs_clock s0 + quota_hour"
    and written: "unused_etag s etag" "writable L limit s d" "qs_versions s' = insert (etag, d, qs_clock s) (qs_versions s)"
      "qs_items s' = (qs_items s)(rq_id d \<mapsto> (etag, d, qs_clock s))"
  shows "item_covers L limit s0 (if late_creation L key s0 s s' then Suc c else c) (counted_since key s0 s')
    (qs_items s' (quota_item key))"
proof -
  have V: "qs_versions s0 \<subseteq> qs_versions s"
    and since: "\<And>e d w. (e, d, w) \<in> qs_versions s \<Longrightarrow> (e, d, w) \<notin> qs_versions s0 \<Longrightarrow> qs_clock s0 \<le> w"
    and covers: "item_covers L limit s0 c (counted_since key s0 s) (qs_items s (quota_item key))"
    using inv by (auto simp: period_inv_def)
  have unused: "(etag, d, qs_clock s) \<notin> qs_versions s0" using written(1) V by (force simp: unused_etag_def)
  note counted = counted_since_insert [OF unused written(3), of key]
  show ?thesis
  proof (cases "rq_id d = quota_item key")
    case False
    then show ?thesis using covers written(4) counted by (auto simp: late_creation_def)
  next
    case True
    note writable = written(2) [unfolded writable_def True]
    show ?thesis
    proof (cases "qs_items s (quota_item key)")
      case None
      then obtain key' token t where "quota_new L key' token limit t = Ok d" using writable by auto
      from created_covers [OF laws this covers [unfolded None] unused] show ?thesis
        using None True written(4) counted by (simp add: late_creation_def)
    next
      case (Some v)
      obtain etag0 d0 w0 where v: "v = (etag0, d0, w0)" by (cases v)
      note item = Some [unfolded v]
      obtain key' token t where t: "w0 \<le> t" "t \<le> qs_clock s" "quota_consume L d0 key' token limit t = Ok (QuotaReplace d)"
        using writable item by auto
      have "item_covers L limit s0 c (counted_since key s0 s \<union> set (rq_operation_tokens d)) (Some (etag, d, qs_clock s))"
        using t soon since [OF quota_container_okD(3) [OF ok item]]
        by (intro replaced_covers [OF laws t(3) covers [unfolded item] quota_container_okD(5) [OF ok item] t(1) _ _ unused]) auto
      then show ?thesis using item True written(4) counted by (simp add: late_creation_def)
    qed
  qed
qed

lemma effect_period_inv:
  assumes laws: "lease_laws L" and ok: "quota_container_ok L limit s" and inv: "period_inv L limit key s0 c s"
    and effect: "quota_effect L limit s s'" and soon: "qs_clock s' < qs_clock s0 + quota_hour"
  shows "period_inv L limit key s0 (if late_creation L key s0 s s' then Suc c else c) s'"
proof -
  have covers: "item_covers L limit s0 c (counted_since key s0 s) (qs_items s (quota_item key))"
    using inv by (simp add: period_inv_def)
  have "item_covers L limit s0 (if late_creation L key s0 s s' then Suc c else c) (counted_since key s0 s')
      (qs_items s' (quota_item key))"
    using effect
  proof cases
    case effect_quiet
    then show ?thesis using covers by (auto simp: counted_since_def late_creation_def)
  next
    case (effect_evicted i etag d w)
    have "item_covers L limit s0 c (counted_since key s0 s) (qs_items s' (quota_item key))"
    proof (cases "i = quota_item key")
      case True
      have version: "quota_version_ok L limit (qs_clock s) (etag, d, w)"
        by (rule quota_container_okD(5) [OF ok effect_evicted(1)])
      then have "window_start L d < qs_clock s0"
        using effect_evicted(2,3) soon by (simp add: quota_version_ok_def)
      from item_absorbed [OF covers [folded True, unfolded effect_evicted(1)] version this]
      show ?thesis using effect_evicted(5) True by (simp add: item_covers_def)
    qed (use covers effect_evicted(5) in simp)
    then show ?thesis using effect_evicted(4,5) by (auto simp: counted_since_def late_creation_def)
  next
    case (effect_written etag d)
    then show ?thesis using soon by (intro written_covers [OF laws ok inv]) simp_all
  qed
  then show ?thesis
    using inv effect_grows [OF effect] effect by (auto simp: period_inv_def elim!: quota_effect.cases)
qed

lemma period_start_inv: "period_inv L limit key s0 0 s0"
  by (auto simp: period_inv_def item_covers_def counted_since_def operations_in_def covered_empty split: option.split)

text \<open>The clock at the end of a period bounds the clock on the way.\<close>

lemma period_reached:
  assumes laws: "lease_laws L" and reached: "quota_reachable L limit s0" and run: "quota_period L limit key s0 c s"
  shows "quota_reachable L limit s \<and> (qs_clock s < qs_clock s0 + quota_hour \<longrightarrow> period_inv L limit key s0 c s)"
  using run
proof induction
  case period_begins
  then show ?case using reached period_start_inv by blast
next
  case (period_goes_on c s s')
  then have inv: "quota_inv L limit s" using quota_reachable_inv [OF laws] by blast
  have effect: "quota_effect L limit s s'" using step_effect [OF laws inv period_goes_on(2)] by blast
  have "quota_reachable L limit s'" using period_goes_on quota_reach_step by blast
  moreover have "period_inv L limit key s0 (if late_creation L key s0 s s' then Suc c else c) s'"
    if "qs_clock s' < qs_clock s0 + quota_hour"
    using effect_period_inv [OF laws _ _ effect that, of key c] period_goes_on.IH inv effect_grows(1) [OF effect] that
    by (simp add: quota_inv_def)
  ultimately show ?case by blast
qed

lemma period_covered:
  assumes "quota_container_ok L limit s" "period_inv L limit key s0 c s"
  shows "covered (counted_since key s0 s) ((c + 2) * unat limit) {}"
proof (cases "qs_items s (quota_item key)")
  case None
  then show ?thesis using assms(2) by (auto simp: period_inv_def item_covers_def intro: covered_mono)
next
  case (Some v)
  obtain etag d w where v: "v = (etag, d, w)" by (cases v)
  let ?C = "counted_since key s0 s"
  have length: "length (rq_operation_tokens d) \<le> unat limit"
    by (rule version_tokens [OF quota_container_okD(5) [OF assms(1) Some [unfolded v]]])
  have "?C = {} \<or> covered ?C (Suc c * unat limit) (set (rq_operation_tokens d))"
    using assms(2) Some v by (auto simp: period_inv_def item_covers_def intro: covered_mono split: if_splits)
  then show ?thesis
    using covered_absorb [OF _ length, of ?C "Suc c * unat limit"] covered_empty by (auto simp: algebra_simps)
qed

section \<open>The property\<close>

text \<open>
  C9: In any hour the replicas count at most twice as many refreshes of an identity as the limit, and one limit more
  for each item created in it for a window whose beginning was read before the hour; and every operation let through
  is counted. This holds from every reachable state, for any number of processes and identities, any interleaving of
  their calls, failing calls, writes applied though they were reported to fail, reads of earlier versions and
  removals by the container at the time to live.
\<close>

theorem quota_bounded_concurrent:
  assumes "lease_laws L" "quota_reachable L limit s0" "quota_period L limit key s0 c s"
    "qs_clock s < qs_clock s0 + quota_hour"
  shows "finite (counted_since key s0 s) \<and> card (counted_since key s0 s) \<le> (c + 2) * unat limit \<and>
    let_through_of key s \<subseteq> operations_in key (qs_versions s0) \<union> counted_since key s0 s"
proof -
  have reached: "quota_reachable L limit s" and inv: "period_inv L limit key s0 c s"
    using period_reached [OF assms(1-3)] assms(4) by blast+
  have ok: "quota_inv L limit s" by (rule quota_reachable_inv [OF assms(1) reached])
  have "covered (counted_since key s0 s) ((c + 2) * unat limit) {}"
  proof (rule period_covered)
    show "quota_container_ok L limit s" using ok by (simp add: quota_inv_def)
  qed (rule inv)
  moreover have "token \<in> operations_in key (qs_versions s)" if "token \<in> let_through_of key s" for token
    using that ok by (fastforce simp: let_through_of_def quota_inv_def quota_process_ok_def)
  moreover have "operations_in key (qs_versions s) \<subseteq> operations_in key (qs_versions s0) \<union> counted_since key s0 s"
    unfolding counted_since_def operations_in_def by blast
  ultimately show ?thesis using covered_card [of "counted_since key s0 s"] by blast
qed

section \<open>A concrete run\<close>

lemma example_call:
  assumes "quota_period L limit key s0 0 s" "qs_processes s n = Some p" "quota_call s (qp_io p) s' io'"
    "\<And>etag d w. qs_items s' (quota_item key) = Some (etag, d, w) \<Longrightarrow> qs_clock s0 \<le> window_start L d"
  shows "quota_period L limit key s0 0 (s'\<lparr>qs_processes := (qs_processes s)(n \<mapsto> p\<lparr>qp_io := io'\<rparr>)\<rparr>)"
proof -
  let ?s' = "s'\<lparr>qs_processes := (qs_processes s)(n \<mapsto> p\<lparr>qp_io := io'\<rparr>)\<rparr>"
  have "\<not> late_creation L key s0 s ?s'" using assms(4) by (force simp: late_creation_def)
  then show ?thesis using period_goes_on [OF assms(1) quota_call_step [OF assms(2,3)]] by simp
qed

text \<open>An operation is submitted, finds no item and creates it.\<close>

lemma example_let_through:
  "\<exists>s. quota_period example_lease_env 1 example_key (quota_start 0) 0 s \<and> qs_clock s = 0 \<and>
     let_through_of example_key s = {''a''}"
proof -
  let ?L = example_lease_env and ?key = example_key and ?s0 = "quota_start 0"
  let ?p = "\<lambda>io. \<lparr>qp_identity = ?key, qp_token = ''a'', qp_io = io\<rparr>"
  let ?at = "\<lambda>io. ?s0\<lparr>qs_processes := [0 \<mapsto> ?p io]\<rparr>"
  obtain d where d: "quota_new ?L ?key ''a'' 1 0 = Ok d" using example_quota_new by fastforce
  note new = quota_new_Ok [OF example_lease_laws d] quota_new_id [OF d]
  obtain n where n: "CONDITIONAL_WRITE_ATTEMPTS = Suc n" by (simp add: CONDITIONAL_WRITE_ATTEMPTS_def eval_nat_numeral)
  have submitted: "quota_period ?L 1 ?key ?s0 0 (?at (consume_refresh_quota ?L ?key ''a'' 1))"
    using period_goes_on [OF period_begins quota_submit [of ?s0 0 ?L 1 ?key "''a''"]]
    by (simp add: quota_start_def late_creation_def)
  have call: "quota_period ?L 1 ?key ?s0 0 (?at io')"
    if "quota_period ?L 1 ?key ?s0 0 (?at io)" "quota_call (?at io) io (?at io) io'" for io io'
    using example_call [OF that(1), of 0 "?p io" "?at io" io'] that(2) by (simp add: quota_start_def)
  have now: "quota_call (?at (Now k)) (Now k) (?at (Now k)) (k 0)" for k
    using call_now [of "?at (Now k)" k] by (simp add: quota_start_def)
  define create where "create = CreateItem d (\<lambda>answer.
       case answer of
         Ok _ \<Rightarrow> Done (Ok QuotaAllowed)
       | Err status \<Rightarrow> consume_attempts ?L ?key ''a'' 1 (quota_item ?key) n
       | Panic \<Rightarrow> Done Panic)"
  obtain answered where answered: "create = CreateItem d answered" "answered (Ok ()) = Done (Ok QuotaAllowed)"
    by (simp add: create_def)
  have attempts: "quota_period ?L 1 ?key ?s0 0 (?at (consume_attempts ?L ?key ''a'' 1 (quota_item ?key) (Suc n)))"
    using submitted call [OF submitted [unfolded consume_refresh_quota_def] now]
    by (simp add: d n new(6) del: consume_attempts.simps)
  then obtain found where "quota_period ?L 1 ?key ?s0 0 (?at (ReadItem (quota_item ?key) found))"
      and found: "\<exists>k. found (Err 404) = Now k \<and> k 0 = create"
    by (simp add: read_refresh_quota_def answered_quota_def d create_def)
  from call [OF this(1) call_read_failed [of "Err 404"]]
  have "quota_period ?L 1 ?key ?s0 0 (?at (found (Err 404)))" by simp
  with found call [OF _ now] have "quota_period ?L 1 ?key ?s0 0 (?at create)" by fastforce
  moreover have "quota_call (?at create) create (put_quota (?at create) (rq_id d) ''1'' d) (Done (Ok QuotaAllowed))"
    using call_created [of "?at create" d "''1''" answered] by (simp add: answered quota_start_def unused_etag_def)
  moreover have "qs_clock ?s0 \<le> window_start ?L d" by (simp add: new(4) quota_start_def)
  ultimately have "quota_period ?L 1 ?key ?s0 0 (put_quota (?at create) (rq_id d) ''1'' d\<lparr>qs_processes :=
      (qs_processes (?at create))(0 \<mapsto> ?p create\<lparr>qp_io := Done (Ok QuotaAllowed)\<rparr>)\<rparr>)"
    by (intro example_call) (simp_all add: new(6) split: if_splits)
  then show ?thesis by (intro exI conjI) (assumption, auto simp: quota_start_def let_through_of_def)
qed

text \<open>From the empty container, within the hour: the operation let through is counted, and no more than two are.\<close>

theorem quota_bounded_concurrent_witness:
  "\<exists>s. quota_period example_lease_env 1 example_key (quota_start 0) 0 s \<and>
     let_through_of example_key s = {''a''} \<and> ''a'' \<in> counted_since example_key (quota_start 0) s \<and>
     card (counted_since example_key (quota_start 0) s) \<le> 2"
proof -
  obtain s where s: "quota_period example_lease_env 1 example_key (quota_start 0) 0 s" "qs_clock s = 0"
      "let_through_of example_key s = {''a''}"
    using example_let_through by blast
  have "qs_clock s < qs_clock (quota_start 0) + quota_hour"
    by (simp add: s(2) quota_start_def quota_hour_def duration_seconds_def REFRESH_QUOTA_TTL_SECONDS_def)
  from quota_bounded_concurrent [OF example_lease_laws quota_reach_start s(1) this] s show ?thesis
    by (intro exI [of _ s]) (simp add: quota_start_def operations_in_def)
qed

end
