(* ===== verification/Spec2Isabelle.thy ===== *)
theory Spec2Isabelle
  imports TargetSelector VmTargetSelector Cost SqlPayg ProjectRepository ProjectShare PrivacyConsent
    CalculatorLaunch TurnTrace SnapshotCache WorkflowPortfolio WorkflowVmPrices LeaseSystem QuotaSystem
begin

text \<open>
  A model of the Rust core of the TCO calculator (\<open>rust/src/\<close>): the validation of projects, the choice of
  Azure targets, the cost engine, the stores behind the API and the budget of an assistant turn.

  The program's parts. A client edits a project (\<open>domain/\<close>), which the API validates and keeps in an
  owner's repository (\<open>persistence/repository.rs\<close>). A calculation chooses an Azure SQL Managed Instance
  configuration (\<open>calculation/target_selector.rs\<close>) or a virtual machine with managed disks
  (\<open>calculation/vm_target_selector.rs\<close>) for each resource and prices the source and the target
  (\<open>calculation/cost.rs\<close>, \<open>calculation/sql_payg.rs\<close>, composed by \<open>calculation/workflow.rs\<close>). Prices come as immutable snapshots named by the hash of
  their content (\<open>pricing/snapshot.rs\<close>), which a bounded cache keeps (\<open>pricing/repository.rs\<close>). Beside the projects stand shared copies
  (\<open>persistence/project_share.rs\<close>) and privacy consents (\<open>persistence/privacy_consent.rs\<close>), and
  launches of the desktop companion (\<open>persistence/calculator_launch.rs\<close>). An assistant answers questions
  about a project (\<open>assistant/\<close>): a turn sends a prompt to a hosted model, checks the tool calls the model
  proposes (\<open>policy.rs\<close>), executes them against the application (\<open>tools.rs\<close>) and repeats within a budget
  (\<open>budget.rs\<close>, \<open>turn.rs\<close>).

  The theories, in the order they build on each other.
  \<^item> \<open>Prelude\<close>: machine integers, \<open>Result\<close> with panics, comparators and stable sorts, byte strings, hash
    maps in iteration order, sequences of operations.
  \<^item> \<open>Decimal\<close> (\<open>domain/decimal.rs\<close>): values as rationals; the arithmetic of the crate \<open>rust_decimal\<close> is the
    parameter \<open>dec_arith\<close>, its documented rounding and overflow the hypothesis \<open>dec_laws\<close>, which
    \<open>exact_arith\<close> meets. An overflow is a panic of the caller.
  \<^item> \<open>Resource\<close>, \<open>Project\<close> (\<open>domain/resource.rs\<close>, \<open>domain/project.rs\<close>): the data model and \<open>validate\<close>, proved
    equivalent to a declarative contract.
  \<^item> \<open>TargetSelector\<close>, \<open>VmTargetSelector\<close>: selection proved sound and optimal against declarative fits and
    orders; the sorts rest on the locale \<open>comparator\<close> of the prelude.
  \<^item> \<open>Cost\<close>, \<open>SqlPayg\<close>: every formula, error and panic; bounds and consistency of the results.
  \<^item> \<open>Snapshot\<close>, \<open>SnapshotFacts\<close> (\<open>pricing/snapshot.rs\<close>, \<open>provider.rs\<close>): rate records, their checks and canonical order,
    content hashes and lookups; a snapshot depends on its content only, and a stored one is checked by creating it
    again.
  \<^item> \<open>SnapshotCache\<close> (\<open>pricing/repository.rs\<close>, \<open>warnings.rs\<close>): the in-memory cache with eviction and ageing over every
    sequence of puts, and the choice of the warnings that concern a project.
  \<^item> \<open>PriceDocuments\<close> (\<open>persistence/pricing_cache.rs\<close>): the documents a snapshot is stored as; exactly those
    written for a created snapshot load.
  \<^item> \<open>RefreshLease\<close> (\<open>pricing_cache.rs\<close>, \<open>cosmos.rs\<close>): lease documents, and the asynchronous claim and publication as
    trees of container calls. \<open>LeaseSystem\<close>: many such processes against one container that may fail; a discipline
    (\<open>follows\<close>) proved of the code and an invariant of the steps give exclusion, and a lost holder blocks for 150
    seconds at most.
  \<^item> \<open>RefreshQuota\<close> (\<open>pricing_cache.rs\<close>, \<open>cosmos.rs\<close>, \<open>rate_limit.rs\<close>): the quota of refreshes per identity and hour;
    requests one after the other refine a window that counts operations once. \<open>QuotaSystem\<close>: any number of processes
    that consume quota, interleaved call by call against a container that may fail; the discipline of the code
    (\<open>keeps_quota\<close>), an invariant of the container (\<open>quota_container_ok\<close>) and one of a period (\<open>period_inv\<close>) bound
    what an hour admits.
  \<^item> \<open>WorkflowSteps\<close>, \<open>Workflow\<close> (\<open>calculation/workflow.rs\<close>): a calculation as a whole: the validation of its input,
    the source and the target of every resource, the explanation steps, the portfolio. \<open>WorkflowErrors\<close>: it fails
    exactly for unacceptable input, by rules that follow the structure of the code (\<open>no_err\<close>). \<open>WorkflowFacts\<close>: the
    shape of results, where their prices come from, their bounds. \<open>WorkflowPortfolio\<close>: the totals are sums of the
    rows, exactly with exact arithmetic and up to a bounded rounding error with any that meets \<open>dec_laws\<close>. \<open>WorkflowVmPrices\<close>: what the selection recommends can be priced.
  \<^item> \<open>ProjectRepository\<close>: the store as a map with versions; the locale \<open>versioned_store\<close> gives at most one
    winner per ETag among creations, updates and deletions.
  \<^item> \<open>OwnerScope\<close>: the locale \<open>owner_scoped\<close>, whose conclusion is noninterference between owners.
  \<^item> \<open>ClockAndHash\<close>: parameters for the crates \<open>time\<close>, \<open>sha2\<close> and \<open>uuid\<close>, and the hex encoding of digests.
  \<^item> \<open>ProjectShare\<close>: interleaved atomic steps of the share store refine an abstract contract of grants.
  \<^item> \<open>PrivacyConsent\<close>: the consent store, owner-scoped.
  \<^item> \<open>CalculatorLaunch\<close>: the hand-over of an estimate to the companion, a state machine whose steps may fail
    half-way; one companion per launch, and at most one active launch per owner as long as the lock is taken in the
    order of the clock readings (\<open>delayed_claim_two_active_launches\<close> shows what a delayed reading does).
  \<^item> \<open>TurnBudget\<close>: the counters of a turn over every sequence of charges.
  \<^item> \<open>JsonText\<close>: characters of UTF-8 text, \<open>trim\<close>, \<open>split\<close> and \<open>serde_json::Value\<close>.
  \<^item> \<open>Help\<close> (\<open>assistant/help.rs\<close>): the search over the control catalogue, which is an argument.
  \<^item> \<open>AssistantContext\<close>, \<open>AssistantTools\<close>, \<open>AssistantDrafts\<close>, \<open>AssistantDispatch\<close> (\<open>context.rs\<close>, \<open>tools.rs\<close>): what
    the host fixes for a turn, the registry and the parsing of arguments, the view, the changes and the drafts
    of a project, and the execution of each tool against the services of the application.
  \<^item> \<open>AssistantPolicy\<close> (\<open>policy.rs\<close>): the preflight of a batch, equivalent to a declarative policy.
  \<^item> \<open>AssistantPrompt\<close>, \<open>AssistantTurn\<close>, \<open>TurnTrace\<close> (\<open>model.rs\<close>, \<open>turn.rs\<close>): the prompt and its compaction, the turn
    loop, and what holds of the recorded trace of a turn whatever the model and the tools do.

  Conventions. A Rust integer is a word of its width and wraps as in a release build; \<open>usize\<close> lengths are
  \<open>nat\<close>. A lock that a panic poisoned is a flag of the state. What the code takes from outside (the clock, fresh
  UUIDs, \<open>serde_json\<close>, hashes) is an argument. No model needs fuel: every loop is a recursion over a
  list or over the attempts the code allows itself.

  Not modelled. The price parsers, the loaders and the coordinator (\<open>pricing/\<close>), the model's HTTP client, image decoding and the evaluation harness
  (\<open>assistant/foundry.rs\<close>, \<open>image.rs\<close>, \<open>classification.rs\<close>, \<open>evaluation.rs\<close>), the HTTP handlers (\<open>api/\<close>) and the
  rest of the database client (\<open>persistence/cosmos.rs\<close>); the local token bucket of the rate limiter computes with floating point.
\<close>

end
